(* ===== verification/Prelude.thy ===== *)
theory Prelude
  imports Main
begin

text \<open>
  Shared vocabulary of the development: the Python string operations the broker uses
  (lower, strip, split, decimal and hexadecimal formatting, the textual form of a UUID),
  the JSON values that flow through audit details and provider handles, and the generic
  list lemmas the components share.

  Python's \<open>str\<close> is modelled by \<open>string\<close> (a list of 8-bit characters). Case mapping is
  the ASCII one; characters above 127 are left alone by \<open>py_lower\<close>.
  A UUID is a natural number (its 128-bit value).
\<close>

named_theorems exec_simps \<open>equations that run the effect primitives\<close>
named_theorems pres_intros \<open>rules that carry a database invariant through a program\<close>

section \<open>Identifiers and JSON values\<close>

type_synonym uuid = nat

datatype jval =
    JNull
  | JBool bool
  | JInt int
  | JStr string
  | JList "jval list"
  | JObj "(string \<times> jval) list"

text \<open>\<open>d[k]\<close> on a value: \<open>None\<close> where Python raises (no such key, or not a dict).\<close>

fun jget :: "jval \<Rightarrow> string \<Rightarrow> jval option" where
  "jget (JObj kvs) k = map_of kvs k"
| "jget _ k = None"

fun is_jobj :: "jval \<Rightarrow> bool" where
  "is_jobj (JObj _) = True"
| "is_jobj _ = False"

text \<open>\<open>isinstance(v, int)\<close> with the value: a Python \<open>bool\<close> is an \<open>int\<close>.\<close>

fun j_int :: "jval \<Rightarrow> int option" where
  "j_int (JInt i) = Some i"
| "j_int (JBool b) = Some (if b then 1 else 0)"
| "j_int _ = None"

section \<open>Characters and strings\<close>

definition is_upper_ascii :: "char \<Rightarrow> bool" where
  "is_upper_ascii c \<longleftrightarrow> 65 \<le> (of_char c :: nat) \<and> (of_char c :: nat) \<le> 90"

definition lower_char :: "char \<Rightarrow> char" where
  "lower_char c = (if is_upper_ascii c then char_of ((of_char c :: nat) + 32) else c)"

definition py_lower :: "string \<Rightarrow> string" where
  "py_lower = map lower_char"

definition is_space :: "char \<Rightarrow> bool" where
  "is_space c \<longleftrightarrow> (of_char c :: nat) = 32 \<or> (9 \<le> (of_char c :: nat) \<and> (of_char c :: nat) \<le> 13)
     \<or> (28 \<le> (of_char c :: nat) \<and> (of_char c :: nat) \<le> 31)
     \<or> (of_char c :: nat) = 133 \<or> (of_char c :: nat) = 160"

definition strip_with :: "(char \<Rightarrow> bool) \<Rightarrow> string \<Rightarrow> string" where
  "strip_with p s = rev (dropWhile p (rev (dropWhile p s)))"

definition py_strip :: "string \<Rightarrow> string" where
  "py_strip = strip_with is_space"

definition starts_with :: "string \<Rightarrow> string \<Rightarrow> bool" where
  "starts_with s p \<longleftrightarrow> take (length p) s = p"

definition ends_with :: "string \<Rightarrow> string \<Rightarrow> bool" where
  "ends_with s p \<longleftrightarrow> starts_with (rev s) (rev p)"

text \<open>\<open>p in s\<close>.\<close>

fun contains_sub :: "string \<Rightarrow> string \<Rightarrow> bool" where
  "contains_sub p [] = (p = [])"
| "contains_sub p (c # s) = (starts_with (c # s) p \<or> contains_sub p s)"

text \<open>\<open>s.split(c)\<close> for a one-character separator: never empty.\<close>

fun split_on :: "char \<Rightarrow> string \<Rightarrow> string list" where
  "split_on c [] = [[]]"
| "split_on c (x # xs) =
     (if x = c then [] # split_on c xs
      else (case split_on c xs of [] \<Rightarrow> [[x]] | y # ys \<Rightarrow> (x # y) # ys))"

text \<open>\<open>s.partition(c)\<close>: (before, separator found, after).\<close>

definition partition_on :: "char \<Rightarrow> string \<Rightarrow> string \<times> bool \<times> string" where
  "partition_on c s =
     (let a = takeWhile (\<lambda>x. x \<noteq> c) s; r = dropWhile (\<lambda>x. x \<noteq> c) s
      in (a, r \<noteq> [], tl r))"

lemma split_on_not_Nil [simp]: "split_on c s \<noteq> []"
  by (induction s) (auto split: list.splits)

lemma lower_char_idem [simp]: "lower_char (lower_char c) = lower_char c"
proof (cases "is_upper_ascii c")
  case True
  then have "(of_char c :: nat) + 32 < 256"
    by (simp add: is_upper_ascii_def)
  then have "(of_char (char_of ((of_char c :: nat) + 32) :: char) :: nat) = of_char c + 32"
    by simp
  with True show ?thesis
    by (auto simp: lower_char_def is_upper_ascii_def)
qed (simp add: lower_char_def)

lemma py_lower_idem [simp]: "py_lower (py_lower s) = py_lower s"
  by (simp add: py_lower_def)

lemma partition_on_append:
  assumes "c \<notin> set a"
  shows "partition_on c (a @ c # b) = (a, True, b)"
proof -
  from assms have "takeWhile (\<lambda>x. x \<noteq> c) (a @ c # b) = a"
    by (induction a) auto
  moreover from assms have "dropWhile (\<lambda>x. x \<noteq> c) (a @ c # b) = c # b"
    by (induction a) auto
  ultimately show ?thesis by (simp add: partition_on_def)
qed

section \<open>Decimal formatting\<close>

definition digit_char :: "nat \<Rightarrow> char" where
  "digit_char n = char_of (48 + n)"

fun show_nat :: "nat \<Rightarrow> string" where
  "show_nat n = (if n < 10 then [digit_char n] else show_nat (n div 10) @ [digit_char (n mod 10)])"

declare show_nat.simps [simp del]

definition show_int :: "int \<Rightarrow> string" where
  "show_int i = (if i < 0 then CHR ''-'' # show_nat (nat (- i)) else show_nat (nat i))"

text \<open>\<open>f"{i:03d}"\<close>: zero-padded to width three, the sign first.\<close>

definition pad_zeros :: "nat \<Rightarrow> string \<Rightarrow> string" where
  "pad_zeros k s = replicate (k - length s) CHR ''0'' @ s"

definition fmt_03d :: "int \<Rightarrow> string" where
  "fmt_03d i = (if i < 0 then CHR ''-'' # pad_zeros 2 (show_nat (nat (- i)))
                else pad_zeros 3 (show_nat (nat i)))"

fun read_nat_acc :: "nat \<Rightarrow> string \<Rightarrow> nat" where
  "read_nat_acc a [] = a"
| "read_nat_acc a (c # cs) = read_nat_acc (a * 10 + ((of_char c :: nat) - 48)) cs"

lemma of_char_digit [simp]: "n < 10 \<Longrightarrow> (of_char (digit_char n) :: nat) = 48 + n"
  by (simp add: digit_char_def)

lemma read_nat_acc_append: "read_nat_acc a (xs @ ys) = read_nat_acc (read_nat_acc a xs) ys"
  by (induction xs arbitrary: a) auto

lemma read_show_nat: "read_nat_acc 0 (show_nat n) = n"
proof (induction n rule: show_nat.induct)
  case (1 n)
  show ?case
  proof (cases "n < 10")
    case True
    then show ?thesis by (simp add: show_nat.simps [of n])
  next
    case False
    with "1.IH" have "read_nat_acc 0 (show_nat (n div 10)) = n div 10" by simp
    with False show ?thesis
      by (simp add: show_nat.simps [of n] read_nat_acc_append)
  qed
qed

lemma read_pad_zeros: "read_nat_acc 0 (pad_zeros k s) = read_nat_acc 0 s"
proof -
  have "read_nat_acc 0 (replicate j CHR ''0'') = 0" for j
    by (induction j) auto
  then show ?thesis by (simp add: pad_zeros_def read_nat_acc_append)
qed

lemma fmt_03d_inj_nonneg:
  assumes "0 \<le> i" "0 \<le> j" "fmt_03d i = fmt_03d j"
  shows "i = j"
proof -
  from assms have "read_nat_acc 0 (fmt_03d i) = read_nat_acc 0 (fmt_03d j)" by simp
  with assms(1,2) show ?thesis
    by (simp add: fmt_03d_def read_pad_zeros read_show_nat)
qed

section \<open>UUID text\<close>

definition hex_char :: "nat \<Rightarrow> char" where
  "hex_char n = (if n < 10 then char_of (48 + n) else char_of (87 + n))"

definition hex_val :: "char \<Rightarrow> nat option" where
  "hex_val c = (let n = of_char c :: nat in
     if 48 \<le> n \<and> n \<le> 57 then Some (n - 48)
     else if 97 \<le> n \<and> n \<le> 102 then Some (n - 87)
     else if 65 \<le> n \<and> n \<le> 70 then Some (n - 55)
     else None)"

fun hex_digits :: "nat \<Rightarrow> nat \<Rightarrow> string" where
  "hex_digits 0 n = []"
| "hex_digits (Suc k) n = hex_digits k (n div 16) @ [hex_char (n mod 16)]"

fun read_hex :: "nat \<Rightarrow> string \<Rightarrow> nat option" where
  "read_hex a [] = Some a"
| "read_hex a (c # cs) =
     (case hex_val c of None \<Rightarrow> None | Some v \<Rightarrow> read_hex (a * 16 + v) cs)"

text \<open>\<open>str(uuid)\<close>: 32 lower-case hex digits in groups 8-4-4-4-12.\<close>

definition str_uuid :: "uuid \<Rightarrow> string" where
  "str_uuid u = (let h = hex_digits 32 u in
     take 8 h @ ''-'' @ take 4 (drop 8 h) @ ''-'' @ take 4 (drop 12 h) @ ''-'' @
     take 4 (drop 16 h) @ ''-'' @ drop 20 h)"

text \<open>
  \<open>UUID(s)\<close> of Python's \<open>uuid\<close> module: drop the braces at both ends and every dash, then
  read 32 hexadecimal digits; \<open>None\<close> is its \<open>ValueError\<close>. (Its \<open>urn:\<close> and \<open>uuid:\<close> prefixes
  and the underscores, sign or \<open>0x\<close> that \<open>int(_, 16)\<close> would let through are rejected here.)
\<close>

definition parse_uuid :: "string \<Rightarrow> uuid option" where
  "parse_uuid s =
     (let h = filter (\<lambda>c. c \<noteq> CHR ''-'') (strip_with (\<lambda>c. c = CHR ''{'' \<or> c = CHR ''}'') s)
      in if length h \<noteq> 32 then None else read_hex 0 h)"

lemma hex_val_hex_char: "n < 16 \<Longrightarrow> hex_val (hex_char n) = Some n"
  by (auto simp: hex_val_def hex_char_def Let_def)

lemma length_hex_digits [simp]: "length (hex_digits k n) = k"
  by (induction k arbitrary: n) auto

lemma read_hex_append:
  "read_hex a (xs @ ys) = (case read_hex a xs of None \<Rightarrow> None | Some b \<Rightarrow> read_hex b ys)"
  by (induction xs arbitrary: a) (auto split: option.splits)

lemma read_hex_digits: "read_hex 0 (hex_digits k n) = Some (n mod 16 ^ k)"
proof (induction k arbitrary: n)
  case 0
  then show ?case by simp
next
  case (Suc k)
  have "n div 16 mod 16 ^ k * 16 + n mod 16 = n mod 16 ^ Suc k"
    by (simp add: mod_mult2_eq mult.commute)
  with Suc show ?case by (simp add: read_hex_append hex_val_hex_char)
qed

definition is_hex_char :: "char \<Rightarrow> bool" where
  "is_hex_char c \<longleftrightarrow> hex_val c \<noteq> None"

lemma hex_digits_chars: "c \<in> set (hex_digits k n) \<Longrightarrow> is_hex_char c"
  by (induction k arbitrary: n) (auto simp: is_hex_char_def hex_val_hex_char)

lemma hex_char_not_special:
  assumes "is_hex_char c"
  shows "c \<noteq> CHR ''-''" "c \<noteq> CHR ''{''" "c \<noteq> CHR ''}''" "c \<noteq> CHR ''.''"
  using assms by (auto simp: is_hex_char_def hex_val_def Let_def)

lemma strip_with_id:
  assumes "s \<noteq> []" "\<not> p (hd s)" "\<not> p (last s)"
  shows "strip_with p s = s"
proof -
  from assms have "dropWhile p s = s" by (cases s) auto
  moreover from assms have "dropWhile p (rev s) = rev s"
    by (cases s rule: rev_cases) auto
  ultimately show ?thesis by (simp add: strip_with_def)
qed

lemma str_uuid_chars: "c \<in> set (str_uuid u) \<Longrightarrow> is_hex_char c \<or> c = CHR ''-''"
  by (auto simp: str_uuid_def Let_def dest!: in_set_takeD in_set_dropD dest: hex_digits_chars)

lemma str_uuid_no_dot: "CHR ''.'' \<notin> set (str_uuid u)"
proof
  assume "CHR ''.'' \<in> set (str_uuid u)"
  then have "is_hex_char (CHR ''.'')" using str_uuid_chars by fastforce
  then show False by (auto dest: hex_char_not_special)
qed

lemma filter_dash_hex: "(\<And>c. c \<in> set s \<Longrightarrow> is_hex_char c) \<Longrightarrow> filter (\<lambda>c. c \<noteq> CHR ''-'') s = s"
  by (rule filter_True) (auto dest: hex_char_not_special)

lemma parse_str_uuid:
  assumes "u < 2 ^ 128"
  shows "parse_uuid (str_uuid u) = Some u"
proof -
  define h where "h = hex_digits 32 u"
  have len: "length h = 32" by (simp add: h_def)
  have hx: "c \<in> set h \<Longrightarrow> is_hex_char c" for c
    unfolding h_def by (rule hex_digits_chars)
  have parts: "filter (\<lambda>c. c \<noteq> CHR ''-'') (take i (drop j h)) = take i (drop j h)" for i j
    by (rule filter_dash_hex) (blast dest: in_set_takeD in_set_dropD intro: hx)
  have parts2: "filter (\<lambda>c. c \<noteq> CHR ''-'') (drop j h) = drop j h" for j
    by (rule filter_dash_hex) (blast dest: in_set_dropD intro: hx)
  have glue: "take 8 h @ take 4 (drop 8 h) @ take 4 (drop 12 h) @ take 4 (drop 16 h) @ drop 20 h = h"
  proof -
    have *: "take 4 (drop k h) @ drop (k + 4) h = drop k h" for k
      by (metis add.commute append_take_drop_id drop_drop)
    show ?thesis using * [of 16] * [of 12] * [of 8] by simp
  qed
  have s: "str_uuid u = take 8 h @ ''-'' @ take 4 (drop 8 h) @ ''-'' @ take 4 (drop 12 h) @ ''-'' @
     take 4 (drop 16 h) @ ''-'' @ drop 20 h"
    by (simp add: str_uuid_def Let_def h_def)
  have hd: "is_hex_char (hd (str_uuid u))"
  proof -
    from len have "h \<noteq> []" by auto
    then have "hd (str_uuid u) = hd h" unfolding s by (cases h) auto
    with \<open>h \<noteq> []\<close> show ?thesis using hx by (metis list.set_sel(1))
  qed
  have la: "is_hex_char (last (str_uuid u))"
  proof -
    from len have ne: "drop 20 h \<noteq> []" by auto
    then have "last (str_uuid u) = last (drop 20 h)" unfolding s by simp
    with ne show ?thesis using hx by (metis last_in_set in_set_dropD)
  qed
  have "strip_with (\<lambda>c. c = CHR ''{'' \<or> c = CHR ''}'') (str_uuid u) = str_uuid u"
    by (rule strip_with_id) (use hd la in \<open>auto simp: s dest: hex_char_not_special\<close>)
  moreover have "filter (\<lambda>c. c \<noteq> CHR ''-'') (str_uuid u) = h"
    unfolding s using parts [of 8 0] glue by (simp add: parts parts2)
  ultimately have "parse_uuid (str_uuid u) = read_hex 0 h"
    by (simp add: parse_uuid_def Let_def len)
  also have "\<dots> = Some (u mod 16 ^ 32)"
    unfolding h_def by (rule read_hex_digits)
  finally show ?thesis using assms by simp
qed

section \<open>Lists of rows\<close>

lemma find_SomeD: "find p xs = Some x \<Longrightarrow> x \<in> set xs \<and> p x"
  by (induction xs) (auto split: if_splits)

lemma find_NoneD: "find p xs = None \<Longrightarrow> x \<in> set xs \<Longrightarrow> \<not> p x"
  by (simp add: find_None_iff)

lemma find_append: "find p (xs @ ys) = (case find p xs of None \<Rightarrow> find p ys | Some x \<Rightarrow> Some x)"
  by (induction xs) auto

lemma find_key_unique:
  assumes "distinct (map k xs)" "x \<in> set xs"
  shows "find (\<lambda>y. k y = k x) xs = Some x"
  using assms by (induction xs) (auto simp: image_iff)

lemma filter_key_unique:
  assumes "distinct (map k xs)" "x \<in> set xs"
  shows "filter (\<lambda>y. k y = k x) xs = [x]"
  using assms by (induction xs) (auto simp: image_iff filter_empty_conv)

lemma map_key_update [simp]:
  "(\<And>x. k (f x) = k x) \<Longrightarrow> map (k \<circ> (\<lambda>x. if c x then f x else x)) xs = map k xs"
  by (induction xs) auto

lemma sort_key_hd_least:
  assumes "xs \<noteq> []" "y \<in> set xs"
  shows "f (hd (sort_key f xs)) \<le> f y"
proof -
  from assms(1) have ne: "sort_key f xs \<noteq> []" by (metis length_0_conv length_sort)
  have "sorted (map f (sort_key f xs))" by simp
  moreover from assms(2) have "y \<in> set (sort_key f xs)" by simp
  ultimately show ?thesis using ne by (cases "sort_key f xs") auto
qed

lemma hd_sort_key_in: "xs \<noteq> [] \<Longrightarrow> hd (sort_key f xs) \<in> set xs"
  by (metis hd_in_set length_0_conv length_sort set_sort)

section \<open>Bytes and URLs\<close>

text \<open>\<open>quote(s, safe="")\<close> of \<open>urllib.parse\<close>: the UTF-8 bytes, percent-encoded unless unreserved.\<close>

definition is_unreserved :: "char \<Rightarrow> bool" where
  "is_unreserved c \<longleftrightarrow> (let n = of_char c :: nat in
     48 \<le> n \<and> n \<le> 57 \<or> 65 \<le> n \<and> n \<le> 90 \<or> 97 \<le> n \<and> n \<le> 122 \<or> c \<in> set ''_.-~'')"

definition utf8_bytes :: "char \<Rightarrow> nat list" where
  "utf8_bytes c = (let n = of_char c :: nat in
     if n < 128 then [n] else [192 + n div 64, 128 + n mod 64])"

definition hex_upper :: "nat \<Rightarrow> char" where
  "hex_upper n = (if n < 10 then char_of (48 + n) else char_of (55 + n))"

definition percent_byte :: "nat \<Rightarrow> string" where
  "percent_byte b = [CHR ''%'', hex_upper (b div 16), hex_upper (b mod 16)]"

definition url_quote :: "string \<Rightarrow> string" where
  "url_quote s = concat (map (\<lambda>c. if is_unreserved c then [c]
     else concat (map percent_byte (utf8_bytes c))) s)"

end
