(* ===== verification/Effects.thy ===== *)
theory Effects
  imports Prelude
begin

text \<open>
  Effects of the broker's Python code. A coroutine is a state transformer that returns
  \<open>Inr\<close> a value or \<open>Inl\<close> the exception it raised. The exceptions are the classes the source
  defines, with the data their handlers read, plus the SQLAlchemy and built-in ones it can
  meet. \<open>wp\<close> is the weakest precondition of a program for a normal and an exceptional
  postcondition; \<open>pres\<close> says a program carries a predicate of the state through every exit.
\<close>

section \<open>Exceptions\<close>

text \<open>The classes of \<open>providers/exceptions.py\<close> and \<open>providers/proxmox/exceptions.py\<close>.\<close>

datatype perr_kind =
    PlainProviderError | ProviderAuthError | ProviderNotFoundError | ProviderTimeoutError
  | ProviderTaskError | ProviderLockError | ProviderCapabilityError
  | ProxmoxError int string

text \<open>The classes of \<open>proxmox/exceptions.py\<close>, and the errors of \<open>httpx\<close> that client tells apart.\<close>

datatype legacy_kind = LegacyProxmoxError | LegacyAuthError | LegacyNotFoundError | LegacyTimeoutError | LegacyTaskError

datatype httpx_kind = ConnectError | ReadTimeout | OtherTimeout | OtherHttpxError

datatype exn =
    ProviderError perr_kind string string \<comment> \<open>class, provider type, message\<close>
  | AsyncTimeout string
  | NoResultFound
  | MultipleResultsFound
  | IntegrityError string
  | PyKeyError string
  | PyTypeError string
  | PyAttributeError string
  | PyValueError string
  | NotImplemented string
  | RuntimeErr string
  | InvalidSessionState uuid string string \<comment> \<open>session, current status, attempted transition\<close>
  | NotEntitled string string \<comment> \<open>user, pool name\<close>
  | PoolFull string
  | PoolInactiveErr string string \<comment> \<open>\<open>broker.PoolInactiveError\<close>: pool name, status\<close>
  | BrokerErr string
  | PoolInactive string string \<comment> \<open>\<open>provisioner.PoolInactive\<close>\<close>
  | VMIDRangeExhausted uuid int int
  | VMIDRangeConflict "int list" string
  | DesktopNotFound uuid
  | InvalidDesktopState string
  | HTTPException nat string \<comment> \<open>status code and the \<open>code\<close> of the detail\<close>
  | InvalidAccessToken string
  | LDAPAuthError string
  | LDAPServiceError string
  | LDAPBind string
  | LDAPInvalidCredentials string
  | LDAPOther string
  | InvalidToken
  | ApiError int string string jval \<comment> \<open>\<open>errors.BrokerError\<close> of the MCP server: status, code, message, details\<close>
  | LegacyError legacy_kind int string string \<comment> \<open>class, status code, message, endpoint\<close>
  | HttpxError httpx_kind string
  | OutOfFuel \<comment> \<open>only the model: a loop was given too few iterations\<close>

fun is_provider_error :: "exn \<Rightarrow> bool" where
  "is_provider_error (ProviderError _ _ _) = True"
| "is_provider_error _ = False"

fun is_provider_not_found :: "exn \<Rightarrow> bool" where
  "is_provider_not_found (ProviderError k _ _) = (k = ProviderNotFoundError)"
| "is_provider_not_found _ = False"

fun is_async_timeout :: "exn \<Rightarrow> bool" where
  "is_async_timeout (AsyncTimeout _) = True"
| "is_async_timeout _ = False"

fun is_pool_inactive :: "exn \<Rightarrow> bool" where
  "is_pool_inactive (PoolInactive _ _) = True"
| "is_pool_inactive _ = False"

fun is_range_exhausted :: "exn \<Rightarrow> bool" where
  "is_range_exhausted (VMIDRangeExhausted _ _ _) = True"
| "is_range_exhausted _ = False"

fun is_invalid_session_state :: "exn \<Rightarrow> bool" where
  "is_invalid_session_state (InvalidSessionState _ _ _) = True"
| "is_invalid_session_state _ = False"

text \<open>\<open>type(e).__name__\<close> and \<open>str(e)\<close>, for the messages stored in desktop rows.\<close>

fun perr_name :: "perr_kind \<Rightarrow> string" where
  "perr_name PlainProviderError = ''ProviderError''"
| "perr_name ProviderAuthError = ''ProviderAuthError''"
| "perr_name ProviderNotFoundError = ''ProviderNotFoundError''"
| "perr_name ProviderTimeoutError = ''ProviderTimeoutError''"
| "perr_name ProviderTaskError = ''ProviderTaskError''"
| "perr_name ProviderLockError = ''ProviderLockError''"
| "perr_name ProviderCapabilityError = ''ProviderCapabilityError''"
| "perr_name (ProxmoxError _ _) = ''ProxmoxError''"

fun perr_str :: "perr_kind \<Rightarrow> string \<Rightarrow> string \<Rightarrow> string" where
  "perr_str (ProxmoxError code endpoint) ty msg =
     ''[proxmox] HTTP '' @ show_int code @ '' '' @ endpoint @ '': '' @ msg"
| "perr_str _ ty msg = ''['' @ ty @ ''] '' @ msg"

fun exn_name :: "exn \<Rightarrow> string" where
  "exn_name (ProviderError k _ _) = perr_name k"
| "exn_name (AsyncTimeout _) = ''TimeoutError''"
| "exn_name (PoolInactive _ _) = ''PoolInactive''"
| "exn_name (PyKeyError _) = ''KeyError''"
| "exn_name (PyTypeError _) = ''TypeError''"
| "exn_name (PyAttributeError _) = ''AttributeError''"
| "exn_name (PyValueError _) = ''ValueError''"
| "exn_name (NotImplemented _) = ''NotImplementedError''"
| "exn_name _ = ''Exception''"

fun exn_str :: "exn \<Rightarrow> string" where
  "exn_str (ProviderError k ty msg) = perr_str k ty msg"
| "exn_str (AsyncTimeout msg) = msg"
| "exn_str (PoolInactive nm st) = ''pool '' @ nm @ '' status is '' @ st @ '', not active''"
| "exn_str (PyKeyError k) = k"
| "exn_str (PyTypeError m) = m"
| "exn_str (PyAttributeError m) = m"
| "exn_str (PyValueError m) = m"
| "exn_str (NotImplemented m) = m"
| "exn_str _ = []"

section \<open>The state and exception monad\<close>

type_synonym ('s, 'a) eff = "'s \<Rightarrow> (exn + 'a) \<times> 's"

definition ret :: "'a \<Rightarrow> ('s, 'a) eff" where
  "ret a = (\<lambda>s. (Inr a, s))"

definition throw :: "exn \<Rightarrow> ('s, 'a) eff" where
  "throw e = (\<lambda>s. (Inl e, s))"

definition bnd :: "('s, 'a) eff \<Rightarrow> ('a \<Rightarrow> ('s, 'b) eff) \<Rightarrow> ('s, 'b) eff" where
  "bnd m f = (\<lambda>s. case m s of (r, s') \<Rightarrow> (case r of Inl e \<Rightarrow> (Inl e, s') | Inr a \<Rightarrow> f a s'))"

definition andthen :: "('s, 'a) eff \<Rightarrow> ('s, 'b) eff \<Rightarrow> ('s, 'b) eff" where
  "andthen m n = bnd m (\<lambda>_. n)"

definition reads :: "('s \<Rightarrow> 'a) \<Rightarrow> ('s, 'a) eff" where
  "reads f = (\<lambda>s. (Inr (f s), s))"

definition modify :: "('s \<Rightarrow> 's) \<Rightarrow> ('s, unit) eff" where
  "modify f = (\<lambda>s. (Inr (), f s))"

definition do_when :: "bool \<Rightarrow> ('s, unit) eff \<Rightarrow> ('s, unit) eff" where
  "do_when b m = (if b then m else ret ())"

text \<open>\<open>try: m / except (classes p) as e: h e\<close>\<close>

definition catching :: "(exn \<Rightarrow> bool) \<Rightarrow> ('s, 'a) eff \<Rightarrow> (exn \<Rightarrow> ('s, 'a) eff) \<Rightarrow> ('s, 'a) eff" where
  "catching p m h = (\<lambda>s. case m s of (r, s') \<Rightarrow>
     (case r of Inl e \<Rightarrow> if p e then h e s' else (Inl e, s') | Inr a \<Rightarrow> (Inr a, s')))"

text \<open>A result computed without effects.\<close>

definition lift_result :: "exn + 'a \<Rightarrow> ('s, 'a) eff" where
  "lift_result r = (case r of Inl e \<Rightarrow> throw e | Inr a \<Rightarrow> ret a)"

definition sum_bind :: "exn + 'a \<Rightarrow> ('a \<Rightarrow> exn + 'b) \<Rightarrow> exn + 'b" where
  "sum_bind r f = (case r of Inl e \<Rightarrow> Inl e | Inr a \<Rightarrow> f a)"

lemma sum_bind_simps [simp]: "sum_bind (Inl e) f = Inl e" "sum_bind (Inr a) f = f a"
  by (simp_all add: sum_bind_def)

lemma sum_bind_Inr: "sum_bind r f = Inr b \<longleftrightarrow> (\<exists>a. r = Inr a \<and> f a = Inr b)"
  by (cases r) simp_all

text \<open>\<open>r = m\<close> with the exception turned into a value, for an \<open>except\<close>/\<open>else\<close> pair.\<close>

definition attempt :: "('s, 'a) eff \<Rightarrow> ('s, exn + 'a) eff" where
  "attempt m = (\<lambda>s. case m s of (r, s') \<Rightarrow> (Inr r, s'))"

text \<open>\<open>for x in xs: f x\<close>; an exception leaves the loop.\<close>

fun for_each :: "'x list \<Rightarrow> ('x \<Rightarrow> ('s, unit) eff) \<Rightarrow> ('s, unit) eff" where
  "for_each [] f = ret ()"
| "for_each (x # xs) f = andthen (f x) (for_each xs f)"

text \<open>A list of results, in order: \<open>[f x for x in xs]\<close> with effects.\<close>

fun map_eff :: "('x \<Rightarrow> ('s, 'y) eff) \<Rightarrow> 'x list \<Rightarrow> ('s, 'y list) eff" where
  "map_eff f [] = ret []"
| "map_eff f (x # xs) = bnd (f x) (\<lambda>y. bnd (map_eff f xs) (\<lambda>ys. ret (y # ys)))"

lemma ret_run [exec_simps]: "ret a s = (Inr a, s)"
  by (simp add: ret_def)

lemma throw_run [exec_simps]: "throw e s = (Inl e, s)"
  by (simp add: throw_def)

lemma reads_run [exec_simps]: "reads f s = (Inr (f s), s)"
  by (simp add: reads_def)

lemma modify_run [exec_simps]: "modify f s = (Inr (), f s)"
  by (simp add: modify_def)

lemma bnd_run [exec_simps]:
  "bnd m f s = (case m s of (r, s') \<Rightarrow> (case r of Inl e \<Rightarrow> (Inl e, s') | Inr a \<Rightarrow> f a s'))"
  by (simp add: bnd_def)

lemma andthen_run [exec_simps]:
  "andthen m n s = (case m s of (r, s') \<Rightarrow> (case r of Inl e \<Rightarrow> (Inl e, s') | Inr a \<Rightarrow> n s'))"
  by (simp add: andthen_def bnd_def)

lemma do_when_run [exec_simps]: "do_when b m s = (if b then m s else (Inr (), s))"
  by (simp add: do_when_def ret_def)

lemma catching_run [exec_simps]:
  "catching p m h s = (case m s of (r, s') \<Rightarrow>
     (case r of Inl e \<Rightarrow> if p e then h e s' else (Inl e, s') | Inr a \<Rightarrow> (Inr a, s')))"
  by (simp add: catching_def)

lemma attempt_run [exec_simps]: "attempt m s = (case m s of (r, s') \<Rightarrow> (Inr r, s'))"
  by (simp add: attempt_def)

lemma lift_result_run [exec_simps]: "lift_result r s = (r, s)"
  by (simp add: lift_result_def exec_simps split: sum.splits)

text \<open>How a program can have returned.\<close>

lemma returned:
  "bnd m f s = (Inr b, t) \<longleftrightarrow> (\<exists>a u. m s = (Inr a, u) \<and> f a u = (Inr b, t))"
  "andthen m1 m2 s = (Inr c, t) \<longleftrightarrow> (\<exists>a u. m1 s = (Inr a, u) \<and> m2 u = (Inr c, t))"
  "ret x s = (Inr y, t) \<longleftrightarrow> x = y \<and> t = s"
  "throw e s = (Inr z, t) \<longleftrightarrow> False"
  "lift_result r s = (Inr v, t) \<longleftrightarrow> r = Inr v \<and> t = s"
  "attempt n s = (Inr q, t) \<longleftrightarrow> n s = (q, t)"
  by (auto simp: exec_simps split: prod.splits sum.splits)

lemma bnd_ret [simp]: "bnd (ret a) f = f a"
  by (simp add: bnd_def ret_def)

lemma bnd_throw [simp]: "bnd (throw e) f = throw e"
  by (simp add: bnd_def throw_def)

lemma andthen_ret [simp]: "andthen (ret a) m = m"
  by (simp add: andthen_def)

lemma andthen_throw [simp]: "andthen (throw e) m = throw e"
  by (simp add: andthen_def)

section \<open>Weakest preconditions\<close>

definition wp :: "('s, 'a) eff \<Rightarrow> ('a \<Rightarrow> 's \<Rightarrow> bool) \<Rightarrow> (exn \<Rightarrow> 's \<Rightarrow> bool) \<Rightarrow> 's \<Rightarrow> bool" where
  "wp m Q X s = (case m s of (r, s') \<Rightarrow> (case r of Inl e \<Rightarrow> X e s' | Inr a \<Rightarrow> Q a s'))"

named_theorems wp_simps \<open>weakest preconditions of the effect primitives\<close>

lemma wp_ret [wp_simps]: "wp (ret a) Q X s = Q a s"
  by (simp add: wp_def exec_simps)

lemma wp_ret_fun: "wp (ret a) Q X = Q a"
  by (rule ext) (rule wp_ret)

lemma wp_throw [wp_simps]: "wp (throw e) Q X s = X e s"
  by (simp add: wp_def exec_simps)

lemma wp_reads [wp_simps]: "wp (reads f) Q X s = Q (f s) s"
  by (simp add: wp_def exec_simps)

lemma wp_modify [wp_simps]: "wp (modify f) Q X s = Q () (f s)"
  by (simp add: wp_def exec_simps)

lemma wp_bnd [wp_simps]: "wp (bnd m f) Q X s = wp m (\<lambda>a. wp (f a) Q X) X s"
  by (auto simp: wp_def exec_simps split: prod.splits sum.splits)

lemma wp_andthen [wp_simps]: "wp (andthen m n) Q X s = wp m (\<lambda>_. wp n Q X) X s"
  by (auto simp: wp_def exec_simps split: prod.splits sum.splits)

lemma wp_when [wp_simps]: "wp (do_when b m) Q X s = (if b then wp m Q X s else Q () s)"
  by (auto simp: wp_def exec_simps)

lemma wp_catching [wp_simps]:
  "wp (catching p m h) Q X s = wp m Q (\<lambda>e t. if p e then wp (h e) Q X t else X e t) s"
  by (auto simp: wp_def exec_simps split: prod.splits sum.splits)

lemma wp_attempt [wp_simps]: "wp (attempt m) Q X s = wp m (\<lambda>a. Q (Inr a)) (\<lambda>e. Q (Inl e)) s"
  by (auto simp: wp_def exec_simps split: prod.splits sum.splits)

lemma wp_if [wp_simps]: "wp (if b then m else n) Q X s = (if b then wp m Q X s else wp n Q X s)"
  by simp

lemma wp_mono:
  assumes "wp m Q X s" "\<And>a t. Q a t \<Longrightarrow> Q' a t" "\<And>e t. X e t \<Longrightarrow> X' e t"
  shows "wp m Q' X' s"
  using assms by (auto simp: wp_def split: prod.splits sum.splits)

lemma wp_Inr: "wp m Q X s \<Longrightarrow> m s = (Inr a, t) \<Longrightarrow> Q a t"
  by (simp add: wp_def)

lemma wp_Inl: "wp m Q X s \<Longrightarrow> m s = (Inl e, t) \<Longrightarrow> X e t"
  by (simp add: wp_def)

lemma wp_runs: "m s = (Inr a, t) \<Longrightarrow> wp m Q X s = Q a t" "m s = (Inl e, t) \<Longrightarrow> wp m Q X s = X e t"
  by (simp_all add: wp_def)

lemma wp_snd: "wp m (\<lambda>_. Q) (\<lambda>_. Q) s = Q (snd (m s))"
  by (auto simp: wp_def split: prod.splits sum.splits)

lemma wpI:
  assumes "\<And>a t. m s = (Inr a, t) \<Longrightarrow> Q a t" "\<And>e t. m s = (Inl e, t) \<Longrightarrow> X e t"
  shows "wp m Q X s"
  using assms by (auto simp: wp_def split: prod.splits sum.splits)

lemma wp_for_each_inv:
  assumes "J s" "\<And>x t. x \<in> set xs \<Longrightarrow> J t \<Longrightarrow> wp (f x) (\<lambda>_. J) X t"
  shows "wp (for_each xs f) (\<lambda>_. J) X s"
  using assms
proof (induction xs arbitrary: s)
  case Nil
  then show ?case by (simp add: wp_simps)
next
  case (Cons x xs)
  from Cons.prems have "wp (f x) (\<lambda>_. J) X s" by simp
  then show ?case
    by (simp add: wp_simps) (erule wp_mono, use Cons in auto)
qed

section \<open>Programs that carry a predicate\<close>

definition pres :: "('s \<Rightarrow> bool) \<Rightarrow> ('s, 'a) eff \<Rightarrow> bool" where
  "pres J m \<longleftrightarrow> (\<forall>s. J s \<longrightarrow> J (snd (m s)))"

lemma presD: "pres J m \<Longrightarrow> J s \<Longrightarrow> J (snd (m s))"
  by (simp add: pres_def)

lemma presD2: "pres J m \<Longrightarrow> J s \<Longrightarrow> m s = (r, t) \<Longrightarrow> J t"
  using presD [of J m s] by simp

lemma pres_ret [pres_intros]: "pres J (ret a)"
  by (simp add: pres_def exec_simps)

lemma pres_throw [pres_intros]: "pres J (throw e)"
  by (simp add: pres_def exec_simps)

lemma pres_lift_result [pres_intros]: "pres J (lift_result r)"
  by (auto simp: lift_result_def intro: pres_ret pres_throw split: sum.splits)

lemma pres_reads [pres_intros]: "pres J (reads f)"
  by (simp add: pres_def exec_simps)

lemma pres_bnd [pres_intros]: "pres J m \<Longrightarrow> (\<And>a. pres J (f a)) \<Longrightarrow> pres J (bnd m f)"
  by (auto simp: pres_def exec_simps split: prod.splits sum.splits)

lemma pres_andthen [pres_intros]: "pres J m \<Longrightarrow> pres J n \<Longrightarrow> pres J (andthen m n)"
  unfolding andthen_def by (intro pres_bnd)

lemma pres_when [pres_intros]: "(b \<Longrightarrow> pres J m) \<Longrightarrow> pres J (do_when b m)"
  by (auto simp: do_when_def intro: pres_ret)

lemma pres_catching [pres_intros]:
  "pres J m \<Longrightarrow> (\<And>e. pres J (h e)) \<Longrightarrow> pres J (catching p m h)"
  by (auto simp: pres_def exec_simps split: prod.splits sum.splits)

lemma pres_attempt [pres_intros]: "pres J m \<Longrightarrow> pres J (attempt m)"
  by (auto simp: pres_def exec_simps split: prod.splits)

lemma pres_if [pres_intros]: "(b \<Longrightarrow> pres J m) \<Longrightarrow> (\<not> b \<Longrightarrow> pres J n) \<Longrightarrow> pres J (if b then m else n)"
  by simp

lemma pres_case_option [pres_intros]:
  "pres J m \<Longrightarrow> (\<And>a. pres J (f a)) \<Longrightarrow> pres J (case x of None \<Rightarrow> m | Some a \<Rightarrow> f a)"
  by (cases x) auto

lemma pres_case_sum [pres_intros]:
  "(\<And>e. pres J (g e)) \<Longrightarrow> (\<And>a. pres J (f a)) \<Longrightarrow> pres J (case x of Inl e \<Rightarrow> g e | Inr a \<Rightarrow> f a)"
  by (cases x) auto

lemma pres_case_prod [pres_intros]:
  "(\<And>a b. pres J (f a b)) \<Longrightarrow> pres J (case x of (a, b) \<Rightarrow> f a b)"
  by (cases x) auto

lemma pres_case_list [pres_intros]:
  "pres J m \<Longrightarrow> (\<And>y ys. pres J (f y ys)) \<Longrightarrow> pres J (case xs of [] \<Rightarrow> m | y # ys \<Rightarrow> f y ys)"
  by (cases xs) auto

lemma pres_Let [pres_intros]: "(\<And>a. pres J (f a)) \<Longrightarrow> pres J (let a = x in f a)"
  by simp

lemma pres_for_each [pres_intros]: "(\<And>x. pres J (f x)) \<Longrightarrow> pres J (for_each xs f)"
  by (induction xs) (auto intro: pres_ret pres_andthen)

lemma pres_map_eff [pres_intros]: "(\<And>x. pres J (f x)) \<Longrightarrow> pres J (map_eff f xs)"
  by (induction xs) (auto intro!: pres_ret pres_bnd)

section \<open>Programs that raise only some exceptions\<close>

text \<open>
  \<open>safe J C m\<close>: from a state with \<open>J\<close>, \<open>m\<close> ends in a state with \<open>J\<close>, and what it raises, if
  anything, satisfies \<open>C\<close>.
\<close>

definition safe :: "('s \<Rightarrow> bool) \<Rightarrow> (exn \<Rightarrow> bool) \<Rightarrow> ('s, 'a) eff \<Rightarrow> bool" where
  "safe J C m \<longleftrightarrow> (\<forall>s. J s \<longrightarrow> wp m (\<lambda>_. J) (\<lambda>e t. C e \<and> J t) s)"

named_theorems safe_intros \<open>syntax-directed rules for \<open>safe\<close>\<close>

lemma safeI: "(\<And>s. J s \<Longrightarrow> wp m (\<lambda>_. J) (\<lambda>e t. C e \<and> J t) s) \<Longrightarrow> safe J C m"
  by (simp add: safe_def)

lemma safeD: "safe J C m \<Longrightarrow> J s \<Longrightarrow> wp m (\<lambda>_. J) (\<lambda>e t. C e \<and> J t) s"
  by (simp add: safe_def)

lemma safe_ret [safe_intros]: "safe J C (ret a)"
  by (simp add: safe_def wp_simps)

lemma safe_throw [safe_intros]: "C e \<Longrightarrow> safe J C (throw e)"
  by (simp add: safe_def wp_simps)

lemma safe_reads [safe_intros]: "safe J C (reads f)"
  by (simp add: safe_def wp_simps)

lemma safe_bnd [safe_intros]: "safe J C m \<Longrightarrow> (\<And>a. safe J C (f a)) \<Longrightarrow> safe J C (bnd m f)"
  unfolding safe_def wp_bnd by (blast intro: wp_mono)

lemma safe_andthen [safe_intros]: "safe J C m \<Longrightarrow> safe J C n \<Longrightarrow> safe J C (andthen m n)"
  unfolding andthen_def by (intro safe_bnd)

lemma safe_when [safe_intros]: "(b \<Longrightarrow> safe J C m) \<Longrightarrow> safe J C (do_when b m)"
  by (auto simp: do_when_def intro: safe_ret)

lemma safe_if [safe_intros]:
  "(b \<Longrightarrow> safe J C m) \<Longrightarrow> (\<not> b \<Longrightarrow> safe J C n) \<Longrightarrow> safe J C (if b then m else n)"
  by simp

lemma safe_case_option [safe_intros]:
  "(x = None \<Longrightarrow> safe J C m) \<Longrightarrow> (\<And>a. x = Some a \<Longrightarrow> safe J C (f a)) \<Longrightarrow>
   safe J C (case x of None \<Rightarrow> m | Some a \<Rightarrow> f a)"
  by (cases x) auto

lemma safe_Let [safe_intros]: "(\<And>a. safe J C (f a)) \<Longrightarrow> safe J C (let a = x in f a)"
  by simp

lemma safe_lift_result [safe_intros]:
  "(case r of Inl e \<Rightarrow> C e | Inr _ \<Rightarrow> True) \<Longrightarrow> safe J C (lift_result r)"
  by (simp add: lift_result_def safe_def wp_simps split: sum.splits)

lemma safe_mono: "safe J C m \<Longrightarrow> (\<And>e. C e \<Longrightarrow> C' e) \<Longrightarrow> safe J C' m"
  unfolding safe_def by (blast intro: wp_mono)

section \<open>What a program returns\<close>

text \<open>\<open>yields J Q C m\<close>: as \<open>safe\<close>, and what \<open>m\<close> returns satisfies \<open>Q\<close>.\<close>

definition yields :: "('s \<Rightarrow> bool) \<Rightarrow> ('a \<Rightarrow> bool) \<Rightarrow> (exn \<Rightarrow> bool) \<Rightarrow> ('s, 'a) eff \<Rightarrow> bool" where
  "yields J Q C m \<longleftrightarrow> (\<forall>s. J s \<longrightarrow> wp m (\<lambda>a t. Q a \<and> J t) (\<lambda>e t. C e \<and> J t) s)"

named_theorems yields_intros \<open>syntax-directed rules for \<open>yields\<close>\<close>

lemma yieldsD: "yields J Q C m \<Longrightarrow> J s \<Longrightarrow> wp m (\<lambda>a t. Q a \<and> J t) (\<lambda>e t. C e \<and> J t) s"
  by (simp add: yields_def)

lemma yields_ret [yields_intros]: "Q a \<Longrightarrow> yields J Q C (ret a)"
  by (simp add: yields_def wp_simps)

lemma yields_throw [yields_intros]: "C e \<Longrightarrow> yields J Q C (throw e)"
  by (simp add: yields_def wp_simps)

lemma yields_lift [yields_intros]:
  "(\<And>a. r = Inr a \<Longrightarrow> Q a) \<Longrightarrow> (\<And>e. r = Inl e \<Longrightarrow> C e) \<Longrightarrow> yields J Q C (lift_result r)"
  by (auto simp: lift_result_def intro: yields_intros split: sum.split)

lemma yields_bnd:
  assumes "yields J Q C m" "\<And>a. Q a \<Longrightarrow> yields J R C (f a)"
  shows "yields J R C (bnd m f)"
  using assms unfolding yields_def wp_bnd by (blast intro: wp_mono)

lemma yields_andthen:
  assumes "yields J (\<lambda>_. True) C m" "yields J R C n"
  shows "yields J R C (andthen m n)"
  using assms unfolding andthen_def by (intro yields_bnd)

lemma yields_catching:
  assumes "yields J Q (\<lambda>e. p e \<or> C e) m" "\<And>e. p e \<Longrightarrow> yields J Q C (h e)"
  shows "yields J Q C (catching p m h)"
  unfolding yields_def wp_catching
proof (intro allI impI)
  fix s assume "J s"
  from yieldsD [OF assms(1) this]
  show "wp m (\<lambda>a t. Q a \<and> J t) (\<lambda>e t. if p e then wp (h e) (\<lambda>a t. Q a \<and> J t) (\<lambda>e t. C e \<and> J t) t
      else C e \<and> J t) s"
    by (rule wp_mono) (auto intro: yieldsD [OF assms(2)])
qed

lemma yields_mono:
  assumes "yields J Q C m" "\<And>a. Q a \<Longrightarrow> Q' a" "\<And>e. C e \<Longrightarrow> C' e"
  shows "yields J Q' C' m"
  using assms unfolding yields_def by (blast intro: wp_mono)

lemma yields_map_eff:
  assumes "\<And>x. x \<in> set xs \<Longrightarrow> yields J (\<lambda>_. True) C (f x)"
  shows "yields J (\<lambda>_. True) C (map_eff f xs)"
  using assms
proof (induction xs)
  case (Cons x xs)
  then have "yields J (\<lambda>_. True) C (f x)" "yields J (\<lambda>_. True) C (map_eff f xs)" by simp_all
  then show ?case
    unfolding map_eff.simps by (elim yields_bnd) (rule yields_ret, simp)
qed (simp add: yields_ret)

end
