(* ===== verification/Records.thy ===== *)
theory Records
  imports Effects
begin

text \<open>
  The data of the broker: the ORM rows of \<open>broker/app/models/\<close> with their enums, and the
  types the hypervisor interface of \<open>broker/app/providers/base.py\<close> exchanges. Timestamps
  and clock readings are integers in milliseconds; \<open>None\<close> is SQL NULL.
\<close>

section \<open>Row enums\<close>

datatype desktop_status =
    D_PROVISIONING | D_AVAILABLE | D_ASSIGNED | D_CONNECTED | D_DISCONNECTED
  | D_ERROR | D_DELETING | D_MAINTENANCE

datatype session_status = S_CONNECTING | S_ACTIVE | S_DISCONNECTED | S_ENDED

datatype pool_type = PERSISTENT | NONPERSISTENT

datatype pool_status = P_ACTIVE | P_DISABLED | P_PROVISIONING | P_ERROR | P_DRAINING | P_DELETING

datatype cluster_status = C_PENDING | C_ACTIVE | C_MAINTENANCE | C_OFFLINE

fun desktop_status_value :: "desktop_status \<Rightarrow> string" where
  "desktop_status_value D_PROVISIONING = ''provisioning''"
| "desktop_status_value D_AVAILABLE = ''available''"
| "desktop_status_value D_ASSIGNED = ''assigned''"
| "desktop_status_value D_CONNECTED = ''connected''"
| "desktop_status_value D_DISCONNECTED = ''disconnected''"
| "desktop_status_value D_ERROR = ''error''"
| "desktop_status_value D_DELETING = ''deleting''"
| "desktop_status_value D_MAINTENANCE = ''maintenance''"

fun session_status_value :: "session_status \<Rightarrow> string" where
  "session_status_value S_CONNECTING = ''connecting''"
| "session_status_value S_ACTIVE = ''active''"
| "session_status_value S_DISCONNECTED = ''disconnected''"
| "session_status_value S_ENDED = ''ended''"

fun pool_type_value :: "pool_type \<Rightarrow> string" where
  "pool_type_value PERSISTENT = ''persistent''"
| "pool_type_value NONPERSISTENT = ''nonpersistent''"

fun pool_status_value :: "pool_status \<Rightarrow> string" where
  "pool_status_value P_ACTIVE = ''active''"
| "pool_status_value P_DISABLED = ''disabled''"
| "pool_status_value P_PROVISIONING = ''provisioning''"
| "pool_status_value P_ERROR = ''error''"
| "pool_status_value P_DRAINING = ''draining''"
| "pool_status_value P_DELETING = ''deleting''"

fun cluster_status_value :: "cluster_status \<Rightarrow> string" where
  "cluster_status_value C_PENDING = ''pending''"
| "cluster_status_value C_ACTIVE = ''active''"
| "cluster_status_value C_MAINTENANCE = ''maintenance''"
| "cluster_status_value C_OFFLINE = ''offline''"

section \<open>Rows\<close>

record cluster =
  c_id :: uuid
  c_name :: string
  c_provider_type :: string
  c_api_url :: string
  c_token_id :: string
  c_token_secret :: string
  c_verify_ssl :: bool
  c_node_filter :: "string option"
  c_provider_config :: jval
  c_status :: cluster_status
  c_created_at :: int
  c_updated_at :: int

record vdi_template =
  t_id :: uuid
  t_cluster_id :: uuid
  t_name :: string
  t_pve_vmid :: int
  t_pve_node :: string
  t_os_type :: string
  t_description :: "string option"
  t_cpu_cores :: int
  t_memory_mb :: int
  t_disk_gb :: int
  t_gpu_required :: bool
  t_tags :: jval
  t_provider_config :: jval
  t_status :: string
  t_created_at :: int
  t_updated_at :: int

record pool =
  p_id :: uuid
  p_name :: string
  p_display_name :: string
  p_description :: "string option"
  p_pool_type :: pool_type
  p_template_id :: uuid
  p_cluster_id :: uuid
  p_min_spare :: int
  p_max_size :: int
  p_vmid_range_start :: int
  p_vmid_range_end :: int
  p_name_prefix :: string
  p_target_nodes :: "string option"
  p_target_storage :: "string option"
  p_cpu_cores :: "int option"
  p_memory_mb :: "int option"
  p_pve_pool_id :: "string option"
  p_provider_config :: jval
  p_auto_logoff_min :: int
  p_delete_on_logoff :: bool
  p_refresh_on_logoff :: bool
  p_status :: pool_status
  p_created_at :: int
  p_updated_at :: int

record desktop =
  d_id :: uuid
  d_pool_id :: uuid
  d_pve_vmid :: int
  d_pve_node :: string
  d_name :: string
  d_assigned_user :: "string option"
  d_assignment_type :: "string option"
  d_status :: desktop_status
  d_power_state :: string
  d_spice_enabled :: bool
  d_last_connected :: "int option"
  d_last_disconnected :: "int option"
  d_provisioned_at :: "int option"
  d_error_message :: "string option"
  d_pve_task_upid :: "string option"
  d_pve_task_kind :: "string option"
  d_created_at :: int
  d_updated_at :: int

record vdi_session =
  s_id :: uuid
  s_desktop_id :: "uuid option"
  s_username :: string
  s_protocol :: string
  s_client_ip :: "string option"
  s_status :: session_status
  s_connected_at :: "int option"
  s_disconnected_at :: "int option"
  s_ended_at :: "int option"
  s_connection_info :: "jval option"
  s_os_user :: "string option"
  s_os_info :: "jval option"
  s_vm_ip_address :: "string option"
  s_last_heartbeat :: "int option"
  s_idle_since :: "int option"
  s_created_at :: int

record entitlement =
  en_id :: uuid
  en_pool_id :: uuid
  en_principal_type :: string
  en_principal_name :: string
  en_created_at :: int

record audit_row =
  a_id :: nat
  a_timestamp :: int
  a_actor :: string
  a_action :: string
  a_resource_type :: "string option"
  a_resource_id :: "uuid option"
  a_details :: jval
  a_client_ip :: "string option"

record auth_token =
  k_id :: uuid
  k_username :: string
  k_refresh_hash :: string
  k_expires_at :: int
  k_revoked_at :: "int option"
  k_created_at :: int

section \<open>Types of the hypervisor interface\<close>

record vm_ref =
  r_provider_type :: string
  r_data :: jval

record task_handle =
  h_provider_type :: string
  h_data :: jval

datatype console_kind = NOVNC | WEBMKS | SPICE | RDP | KASMVNC

record node_info =
  n_node :: string
  n_display_name :: string
  n_status :: string
  n_cpu_cores :: int
  n_memory_bytes :: int

record storage_info =
  so_name :: string
  so_storage_type :: string
  so_shared :: bool
  so_total_bytes :: int
  so_used_bytes :: int
  so_content_types :: "string list"

record clone_request =
  cr_source_ref :: vm_ref
  cr_new_name :: string
  cr_target_node :: "string option"
  cr_target_storage :: "string option"
  cr_target_pool :: "string option"
  cr_description :: "string option"
  cr_provider_opts :: jval

record vm_status =
  v_ref :: vm_ref
  v_name :: string
  v_power_state :: string
  v_cpu_cores :: int
  v_memory_bytes :: int
  v_disk_bytes :: int
  v_uptime_seconds :: int
  v_is_template :: bool
  v_guest_agent_configured :: bool
  v_lock :: "string option"
  v_tags :: "string set"

record vm_config =
  vc_name :: "string option"
  vc_cpu_cores :: "int option"
  vc_memory_mb :: "int option"
  vc_description :: "string option"
  vc_tags :: "string set option"
  vc_provider_opts :: "(string \<times> jval) list option"

record guest_user =
  g_username :: string
  g_login_time :: "int option"
  g_domain :: "string option"

record network_interface =
  i_name :: string
  i_mac_address :: "string option"
  i_ip_addresses :: "string list"
  i_is_up :: bool

text \<open>The four variants of \<open>ConsoleTicket\<close>, with the fields of their dataclasses.\<close>

datatype console_ticket =
    NoVNCTicket string string "string option" \<comment> \<open>websocket URL, password, certificate\<close>
  | WebMKSTicket string int string
  | SpiceTicket string int "int option" string "string option"
  | RDPTicket string int "string option" "string option" "string option" "string option"

record task_status =
  ts_state :: string
  ts_success :: "bool option"
  ts_error_message :: "string option"

definition empty_config :: vm_config where
  "empty_config = \<lparr>vc_name = None, vc_cpu_cores = None, vc_memory_mb = None,
     vc_description = None, vc_tags = None, vc_provider_opts = None\<rparr>"

text \<open>\<open>VMRef(provider_type=pt, data={"node": node, "vmid": vmid})\<close>.\<close>

definition mk_ref :: "string \<Rightarrow> string \<Rightarrow> int \<Rightarrow> vm_ref" where
  "mk_ref pt node vmid = \<lparr>r_provider_type = pt,
     r_data = JObj [(''node'', JStr node), (''vmid'', JInt vmid)]\<rparr>"

definition mk_task :: "string \<Rightarrow> string \<Rightarrow> string \<Rightarrow> task_handle" where
  "mk_task pt node upid = \<lparr>h_provider_type = pt,
     h_data = JObj [(''node'', JStr node), (''upid'', JStr upid)]\<rparr>"

section \<open>The hypervisor interface\<close>

text \<open>
  One record of operations over an unknown world \<open>'w\<close>: the hypervisor, the network and the
  clock. Each call may raise any exception and change the world. \<open>configure_vm\<close> may return
  no task, as the protocol says, and \<open>wait_for_task\<close> takes whatever its caller passes.
  Timeouts are in seconds.
\<close>

record 'w provider =
  pv_type :: string
  pv_ping :: "'w \<Rightarrow> (exn + bool) \<times> 'w"
  pv_close :: "'w \<Rightarrow> (exn + unit) \<times> 'w"
  pv_list_nodes :: "'w \<Rightarrow> (exn + node_info list) \<times> 'w"
  pv_list_storage :: "string \<Rightarrow> 'w \<Rightarrow> (exn + storage_info list) \<times> 'w"
  pv_clone_vm :: "clone_request \<Rightarrow> 'w \<Rightarrow> (exn + task_handle) \<times> 'w"
  pv_start_vm :: "vm_ref \<Rightarrow> 'w \<Rightarrow> (exn + task_handle) \<times> 'w"
  pv_stop_vm :: "vm_ref \<Rightarrow> 'w \<Rightarrow> (exn + task_handle) \<times> 'w"
  pv_shutdown_vm :: "vm_ref \<Rightarrow> int \<Rightarrow> bool \<Rightarrow> 'w \<Rightarrow> (exn + task_handle) \<times> 'w"
  pv_reboot_vm :: "vm_ref \<Rightarrow> 'w \<Rightarrow> (exn + task_handle) \<times> 'w"
  pv_destroy_vm :: "vm_ref \<Rightarrow> bool \<Rightarrow> 'w \<Rightarrow> (exn + task_handle) \<times> 'w"
  pv_get_vm_status :: "vm_ref \<Rightarrow> 'w \<Rightarrow> (exn + vm_status) \<times> 'w"
  pv_list_vms :: "'w \<Rightarrow> (exn + vm_status list) \<times> 'w"
  pv_configure_vm :: "vm_ref \<Rightarrow> vm_config \<Rightarrow> 'w \<Rightarrow> (exn + task_handle option) \<times> 'w"
  pv_create_snapshot :: "vm_ref \<Rightarrow> string \<Rightarrow> string option \<Rightarrow> 'w \<Rightarrow> (exn + task_handle) \<times> 'w"
  pv_rollback_snapshot :: "vm_ref \<Rightarrow> string \<Rightarrow> 'w \<Rightarrow> (exn + task_handle) \<times> 'w"
  pv_agent_ping :: "vm_ref \<Rightarrow> 'w \<Rightarrow> (exn + bool) \<times> 'w"
  pv_agent_get_users :: "vm_ref \<Rightarrow> 'w \<Rightarrow> (exn + guest_user list) \<times> 'w"
  pv_agent_get_network :: "vm_ref \<Rightarrow> 'w \<Rightarrow> (exn + network_interface list) \<times> 'w"
  pv_get_console_ticket :: "vm_ref \<Rightarrow> console_kind \<Rightarrow> 'w \<Rightarrow> (exn + console_ticket) \<times> 'w"
  pv_get_task_status :: "task_handle \<Rightarrow> 'w \<Rightarrow> (exn + task_status) \<times> 'w"
  pv_wait_for_task :: "task_handle option \<Rightarrow> int \<Rightarrow> 'w \<Rightarrow> (exn + task_status) \<times> 'w"

text \<open>
  The process environment: wall clock and monotonic clock (milliseconds), \<open>asyncio.sleep\<close>
  (milliseconds), the database's \<open>gen_random_uuid()\<close> and \<open>random.uniform(0, hi)\<close>.
\<close>

record 'w env =
  e_now :: "'w \<Rightarrow> int"
  e_mono :: "'w \<Rightarrow> int"
  e_sleep :: "int \<Rightarrow> 'w \<Rightarrow> 'w"
  e_uuid :: "'w \<Rightarrow> uuid \<times> 'w"
  e_uniform :: "int \<Rightarrow> 'w \<Rightarrow> int \<times> 'w"

end
