(* ===== verification/Store.thy ===== *)
theory Store
  imports Records
begin

text \<open>
  The database and the SQLAlchemy session. A table is the list of its rows. A program runs
  in a state that holds the committed tables, the view of the open transaction, the
  outside world and a log of the calls made to the hypervisor. \<open>commit\<close> publishes the
  view, \<open>rollback\<close> drops it, and \<open>in_session\<close> is \<open>async with async_session_factory()\<close>:
  what the block did not commit is lost. Inserts check the constraints of the schema
  (\<open>alembic/versions/0001_baseline_m3.py\<close>): primary keys, the unique columns, foreign
  keys and their \<open>ON DELETE\<close> action, and raise \<open>IntegrityError\<close>. One transaction runs at
  a time: the row and advisory locks of the code have no effect in this model.
\<close>

section \<open>Tables\<close>

record db =
  clusters :: "cluster list"
  templates :: "vdi_template list"
  pools :: "pool list"
  desktops :: "desktop list"
  sessions :: "vdi_session list"
  entitlements :: "entitlement list"
  audit_log :: "audit_row list"
  auth_tokens :: "auth_token list"
  audit_seq :: nat

definition empty_db :: db where
  "empty_db = \<lparr>clusters = [], templates = [], pools = [], desktops = [], sessions = [],
     entitlements = [], audit_log = [], auth_tokens = [], audit_seq = 0\<rparr>"

definition get_desktop_row :: "uuid \<Rightarrow> db \<Rightarrow> desktop option" where
  "get_desktop_row i db = find (\<lambda>d. d_id d = i) (desktops db)"

definition get_session_row :: "uuid \<Rightarrow> db \<Rightarrow> vdi_session option" where
  "get_session_row i db = find (\<lambda>r. s_id r = i) (sessions db)"

definition get_pool_row :: "uuid \<Rightarrow> db \<Rightarrow> pool option" where
  "get_pool_row i db = find (\<lambda>p. p_id p = i) (pools db)"

definition get_template_row :: "uuid \<Rightarrow> db \<Rightarrow> vdi_template option" where
  "get_template_row i db = find (\<lambda>t. t_id t = i) (templates db)"

definition get_cluster_row :: "uuid \<Rightarrow> db \<Rightarrow> cluster option" where
  "get_cluster_row i db = find (\<lambda>c. c_id c = i) (clusters db)"

definition get_token_row :: "uuid \<Rightarrow> db \<Rightarrow> auth_token option" where
  "get_token_row i db = find (\<lambda>k. k_id k = i) (auth_tokens db)"

definition patch_desktop :: "uuid \<Rightarrow> (desktop \<Rightarrow> desktop) \<Rightarrow> db \<Rightarrow> db" where
  "patch_desktop i f db = db\<lparr>desktops := map (\<lambda>d. if d_id d = i then f d else d) (desktops db)\<rparr>"

definition patch_session :: "uuid \<Rightarrow> (vdi_session \<Rightarrow> vdi_session) \<Rightarrow> db \<Rightarrow> db" where
  "patch_session i f db = db\<lparr>sessions := map (\<lambda>r. if s_id r = i then f r else r) (sessions db)\<rparr>"

definition patch_pool :: "uuid \<Rightarrow> (pool \<Rightarrow> pool) \<Rightarrow> db \<Rightarrow> db" where
  "patch_pool i f db = db\<lparr>pools := map (\<lambda>p. if p_id p = i then f p else p) (pools db)\<rparr>"

definition patch_cluster :: "uuid \<Rightarrow> (cluster \<Rightarrow> cluster) \<Rightarrow> db \<Rightarrow> db" where
  "patch_cluster i f db = db\<lparr>clusters := map (\<lambda>c. if c_id c = i then f c else c) (clusters db)\<rparr>"

definition patch_token :: "uuid \<Rightarrow> (auth_token \<Rightarrow> auth_token) \<Rightarrow> db \<Rightarrow> db" where
  "patch_token i f db = db\<lparr>auth_tokens := map (\<lambda>k. if k_id k = i then f k else k) (auth_tokens db)\<rparr>"

definition add_desktop :: "desktop \<Rightarrow> db \<Rightarrow> db" where
  "add_desktop d db = db\<lparr>desktops := desktops db @ [d]\<rparr>"

definition add_session :: "vdi_session \<Rightarrow> db \<Rightarrow> db" where
  "add_session r db = db\<lparr>sessions := sessions db @ [r]\<rparr>"

definition add_pool :: "pool \<Rightarrow> db \<Rightarrow> db" where
  "add_pool p db = db\<lparr>pools := pools db @ [p]\<rparr>"

definition add_token :: "auth_token \<Rightarrow> db \<Rightarrow> db" where
  "add_token k db = db\<lparr>auth_tokens := auth_tokens db @ [k]\<rparr>"

definition add_audit :: "(nat \<Rightarrow> audit_row) \<Rightarrow> db \<Rightarrow> db" where
  "add_audit mk db = db\<lparr>audit_log := audit_log db @ [mk (Suc (audit_seq db))],
     audit_seq := Suc (audit_seq db)\<rparr>"

definition prune_audit :: "int \<Rightarrow> db \<Rightarrow> db" where
  "prune_audit threshold db =
     db\<lparr>audit_log := filter (\<lambda>a. \<not> a_timestamp a < threshold) (audit_log db)\<rparr>"

text \<open>\<open>sessions.desktop_id\<close> is \<open>ON DELETE SET NULL\<close>: the session rows survive.\<close>

definition detach_session :: "uuid \<Rightarrow> vdi_session \<Rightarrow> vdi_session" where
  "detach_session i r = (if s_desktop_id r = Some i then r\<lparr>s_desktop_id := None\<rparr> else r)"

definition delete_desktop_row :: "uuid \<Rightarrow> db \<Rightarrow> db" where
  "delete_desktop_row i db = db\<lparr>desktops := filter (\<lambda>d. d_id d \<noteq> i) (desktops db),
     sessions := map (detach_session i) (sessions db)\<rparr>"

text \<open>\<open>entitlements.pool_id\<close> is \<open>ON DELETE CASCADE\<close>.\<close>

definition delete_pool_row :: "uuid \<Rightarrow> db \<Rightarrow> db" where
  "delete_pool_row i db = db\<lparr>pools := filter (\<lambda>p. p_id p \<noteq> i) (pools db),
     entitlements := filter (\<lambda>en. en_pool_id en \<noteq> i) (entitlements db)\<rparr>"

definition get_entitlement_row :: "uuid \<Rightarrow> db \<Rightarrow> entitlement option" where
  "get_entitlement_row i db = find (\<lambda>en. en_id en = i) (entitlements db)"

definition patch_template :: "uuid \<Rightarrow> (vdi_template \<Rightarrow> vdi_template) \<Rightarrow> db \<Rightarrow> db" where
  "patch_template i f db = db\<lparr>templates := map (\<lambda>t. if t_id t = i then f t else t) (templates db)\<rparr>"

definition add_cluster :: "cluster \<Rightarrow> db \<Rightarrow> db" where
  "add_cluster c db = db\<lparr>clusters := clusters db @ [c]\<rparr>"

definition add_template :: "vdi_template \<Rightarrow> db \<Rightarrow> db" where
  "add_template t db = db\<lparr>templates := templates db @ [t]\<rparr>"

definition add_entitlement :: "entitlement \<Rightarrow> db \<Rightarrow> db" where
  "add_entitlement en db = db\<lparr>entitlements := entitlements db @ [en]\<rparr>"

definition delete_cluster_row :: "uuid \<Rightarrow> db \<Rightarrow> db" where
  "delete_cluster_row i db = db\<lparr>clusters := filter (\<lambda>c. c_id c \<noteq> i) (clusters db)\<rparr>"

definition delete_template_row :: "uuid \<Rightarrow> db \<Rightarrow> db" where
  "delete_template_row i db = db\<lparr>templates := filter (\<lambda>t. t_id t \<noteq> i) (templates db)\<rparr>"

definition delete_entitlement_row :: "uuid \<Rightarrow> db \<Rightarrow> db" where
  "delete_entitlement_row i db = db\<lparr>entitlements := filter (\<lambda>en. en_id en \<noteq> i) (entitlements db)\<rparr>"

section \<open>Constraint checks\<close>

definition desktop_insert_ok :: "desktop \<Rightarrow> db \<Rightarrow> bool" where
  "desktop_insert_ok d db \<longleftrightarrow> get_desktop_row (d_id d) db = None
     \<and> (\<forall>x\<in>set (desktops db). d_pve_vmid x \<noteq> d_pve_vmid d)
     \<and> get_pool_row (d_pool_id d) db \<noteq> None"

definition session_insert_ok :: "vdi_session \<Rightarrow> db \<Rightarrow> bool" where
  "session_insert_ok r db \<longleftrightarrow> get_session_row (s_id r) db = None
     \<and> (case s_desktop_id r of None \<Rightarrow> True | Some i \<Rightarrow> get_desktop_row i db \<noteq> None)"

definition pool_check_ok :: "pool \<Rightarrow> bool" where
  "pool_check_ok p \<longleftrightarrow> p_vmid_range_start p < p_vmid_range_end p
     \<and> p_max_size p \<le> p_vmid_range_end p - p_vmid_range_start p + 1"

definition pool_insert_ok :: "pool \<Rightarrow> db \<Rightarrow> bool" where
  "pool_insert_ok p db \<longleftrightarrow> get_pool_row (p_id p) db = None
     \<and> (\<forall>q\<in>set (pools db). p_name q \<noteq> p_name p)
     \<and> get_template_row (p_template_id p) db \<noteq> None
     \<and> get_cluster_row (p_cluster_id p) db \<noteq> None
     \<and> pool_check_ok p"

definition cluster_insert_ok :: "cluster \<Rightarrow> db \<Rightarrow> bool" where
  "cluster_insert_ok c db \<longleftrightarrow> get_cluster_row (c_id c) db = None
     \<and> (\<forall>x\<in>set (clusters db). c_name x \<noteq> c_name c)"

definition template_insert_ok :: "vdi_template \<Rightarrow> db \<Rightarrow> bool" where
  "template_insert_ok t db \<longleftrightarrow> get_template_row (t_id t) db = None
     \<and> get_cluster_row (t_cluster_id t) db \<noteq> None
     \<and> (\<forall>x\<in>set (templates db). (t_cluster_id x, t_pve_vmid x) \<noteq> (t_cluster_id t, t_pve_vmid t))"

definition entitlement_key :: "entitlement \<Rightarrow> uuid \<times> string \<times> string" where
  "entitlement_key en = (en_pool_id en, en_principal_type en, en_principal_name en)"

definition entitlement_insert_ok :: "entitlement \<Rightarrow> db \<Rightarrow> bool" where
  "entitlement_insert_ok en db \<longleftrightarrow> get_entitlement_row (en_id en) db = None
     \<and> get_pool_row (en_pool_id en) db \<noteq> None
     \<and> (\<forall>x\<in>set (entitlements db). entitlement_key x \<noteq> entitlement_key en)"

section \<open>The execution state\<close>

text \<open>The calls a program makes on a provider, with the arguments that matter.\<close>

datatype call =
    CallPing | CallClose | CallListNodes | CallListStorage string
  | CallClone clone_request | CallStart vm_ref | CallStop vm_ref
  | CallShutdown vm_ref int bool | CallReboot vm_ref | CallDestroy vm_ref
  | CallGetStatus vm_ref | CallListVms | CallConfigure vm_ref vm_config
  | CallSnapshot vm_ref string | CallRollback vm_ref string
  | CallAgentPing vm_ref | CallAgentUsers vm_ref | CallAgentNetwork vm_ref
  | CallTicket vm_ref console_kind | CallTaskStatus task_handle
  | CallWait "task_handle option" int

record 'w st =
  committed :: db
  work :: db
  world :: 'w
  calls :: "call list"

type_synonym ('w, 'a) prog = "('w st, 'a) eff"

definition commit :: "('w, unit) prog" where
  "commit = modify (\<lambda>s. s\<lparr>committed := work s\<rparr>)"

definition rollback :: "('w, unit) prog" where
  "rollback = modify (\<lambda>s. s\<lparr>work := committed s\<rparr>)"

definition in_session :: "('w, 'a) prog \<Rightarrow> ('w, 'a) prog" where
  "in_session m = (\<lambda>s. case m (s\<lparr>work := committed s\<rparr>) of (r, s') \<Rightarrow>
     (r, s'\<lparr>work := committed s'\<rparr>))"

definition query :: "(db \<Rightarrow> 'a) \<Rightarrow> ('w, 'a) prog" where
  "query f = reads (\<lambda>s. f (work s))"

definition update_db :: "(db \<Rightarrow> db) \<Rightarrow> ('w, unit) prog" where
  "update_db f = modify (\<lambda>s. s\<lparr>work := f (work s)\<rparr>)"

text \<open>\<open>Result.scalar_one()\<close> and \<open>Result.scalar_one_or_none()\<close>.\<close>

fun scalar_one :: "'a list \<Rightarrow> ('w, 'a) prog" where
  "scalar_one [] = throw NoResultFound"
| "scalar_one [x] = ret x"
| "scalar_one (_ # _ # _) = throw MultipleResultsFound"

fun scalar_one_or_none :: "'a list \<Rightarrow> ('w, 'a option) prog" where
  "scalar_one_or_none [] = ret None"
| "scalar_one_or_none [x] = ret (Some x)"
| "scalar_one_or_none (_ # _ # _) = throw MultipleResultsFound"

definition prov :: "call \<Rightarrow> ('w \<Rightarrow> (exn + 'a) \<times> 'w) \<Rightarrow> ('w, 'a) prog" where
  "prov c f = (\<lambda>s. case f (world s) of (r, w') \<Rightarrow>
     (r, s\<lparr>world := w', calls := calls s @ [c]\<rparr>))"

definition on_world :: "('w \<Rightarrow> 'a \<times> 'w) \<Rightarrow> ('w, 'a) prog" where
  "on_world f = (\<lambda>s. case f (world s) of (a, w') \<Rightarrow> (Inr a, s\<lparr>world := w'\<rparr>))"

definition now :: "'w env \<Rightarrow> ('w, int) prog" where
  "now E = reads (\<lambda>s. e_now E (world s))"

definition monotonic :: "'w env \<Rightarrow> ('w, int) prog" where
  "monotonic E = reads (\<lambda>s. e_mono E (world s))"

definition sleep :: "'w env \<Rightarrow> int \<Rightarrow> ('w, unit) prog" where
  "sleep E t = modify (\<lambda>s. s\<lparr>world := e_sleep E t (world s)\<rparr>)"

definition gen_uuid :: "'w env \<Rightarrow> ('w, uuid) prog" where
  "gen_uuid E = on_world (e_uuid E)"

text \<open>
  Attribute assignments on a loaded row: written to the transaction's view, and
  \<open>updated_at\<close> is stamped (\<open>onupdate=func.now()\<close>).
\<close>

definition set_desktop :: "'w env \<Rightarrow> uuid \<Rightarrow> (desktop \<Rightarrow> desktop) \<Rightarrow> ('w, unit) prog" where
  "set_desktop E i f = bnd (now E) (\<lambda>t. update_db (patch_desktop i (\<lambda>d. (f d)\<lparr>d_updated_at := t\<rparr>)))"

definition set_pool :: "'w env \<Rightarrow> uuid \<Rightarrow> (pool \<Rightarrow> pool) \<Rightarrow> ('w, unit) prog" where
  "set_pool E i f = bnd (now E) (\<lambda>t. update_db (patch_pool i (\<lambda>p. (f p)\<lparr>p_updated_at := t\<rparr>)))"

definition set_cluster :: "'w env \<Rightarrow> uuid \<Rightarrow> (cluster \<Rightarrow> cluster) \<Rightarrow> ('w, unit) prog" where
  "set_cluster E i f = bnd (now E) (\<lambda>t. update_db (patch_cluster i (\<lambda>c. (f c)\<lparr>c_updated_at := t\<rparr>)))"

definition set_session :: "uuid \<Rightarrow> (vdi_session \<Rightarrow> vdi_session) \<Rightarrow> ('w, unit) prog" where
  "set_session i f = update_db (patch_session i f)"

definition insert_desktop :: "desktop \<Rightarrow> ('w, unit) prog" where
  "insert_desktop d = bnd (query (desktop_insert_ok d)) (\<lambda>ok.
     if ok then update_db (add_desktop d) else throw (IntegrityError ''desktops''))"

definition insert_session :: "vdi_session \<Rightarrow> ('w, unit) prog" where
  "insert_session r = bnd (query (session_insert_ok r)) (\<lambda>ok.
     if ok then update_db (add_session r) else throw (IntegrityError ''sessions''))"

definition insert_pool :: "pool \<Rightarrow> ('w, unit) prog" where
  "insert_pool p = bnd (query (pool_insert_ok p)) (\<lambda>ok.
     if ok then update_db (add_pool p) else throw (IntegrityError ''pools''))"

definition insert_token :: "auth_token \<Rightarrow> ('w, unit) prog" where
  "insert_token k = bnd (query (get_token_row (k_id k))) (\<lambda>old.
     if old = None then update_db (add_token k) else throw (IntegrityError ''auth_tokens''))"

definition insert_cluster :: "cluster \<Rightarrow> ('w, unit) prog" where
  "insert_cluster c = bnd (query (cluster_insert_ok c)) (\<lambda>ok.
     if ok then update_db (add_cluster c) else throw (IntegrityError ''clusters''))"

definition insert_template :: "vdi_template \<Rightarrow> ('w, unit) prog" where
  "insert_template t = bnd (query (template_insert_ok t)) (\<lambda>ok.
     if ok then update_db (add_template t) else throw (IntegrityError ''templates''))"

definition insert_entitlement :: "entitlement \<Rightarrow> ('w, unit) prog" where
  "insert_entitlement en = bnd (query (entitlement_insert_ok en)) (\<lambda>ok.
     if ok then update_db (add_entitlement en) else throw (IntegrityError ''entitlements''))"

definition set_template :: "'w env \<Rightarrow> uuid \<Rightarrow> (vdi_template \<Rightarrow> vdi_template) \<Rightarrow> ('w, unit) prog" where
  "set_template E i f = bnd (now E) (\<lambda>t. update_db (patch_template i (\<lambda>x. (f x)\<lparr>t_updated_at := t\<rparr>)))"

text \<open>
  \<open>templates.cluster_id\<close>, \<open>pools.cluster_id\<close> and \<open>pools.template_id\<close> are
  \<open>ON DELETE RESTRICT\<close>.
\<close>

definition delete_cluster_checked :: "uuid \<Rightarrow> ('w, unit) prog" where
  "delete_cluster_checked i = bnd (query (\<lambda>db. (\<exists>p\<in>set (pools db). p_cluster_id p = i)
       \<or> (\<exists>t\<in>set (templates db). t_cluster_id t = i))) (\<lambda>used.
     if used then throw (IntegrityError ''clusters'') else update_db (delete_cluster_row i))"

definition delete_template_checked :: "uuid \<Rightarrow> ('w, unit) prog" where
  "delete_template_checked i = bnd (query (\<lambda>db. \<exists>p\<in>set (pools db). p_template_id p = i)) (\<lambda>used.
     if used then throw (IntegrityError ''templates'') else update_db (delete_template_row i))"

text \<open>\<open>desktops.pool_id\<close> is \<open>ON DELETE RESTRICT\<close>.\<close>

definition delete_pool_checked :: "uuid \<Rightarrow> ('w, unit) prog" where
  "delete_pool_checked i = bnd (query (\<lambda>db. \<exists>d\<in>set (desktops db). d_pool_id d = i)) (\<lambda>used.
     if used then throw (IntegrityError ''pools'') else update_db (delete_pool_row i))"

section \<open>Running the primitives\<close>

lemma commit_run [exec_simps]: "commit s = (Inr (), s\<lparr>committed := work s\<rparr>)"
  by (simp add: commit_def exec_simps)

lemma rollback_run [exec_simps]: "rollback s = (Inr (), s\<lparr>work := committed s\<rparr>)"
  by (simp add: rollback_def exec_simps)

lemma in_session_run [exec_simps]:
  "in_session m s = (case m (s\<lparr>work := committed s\<rparr>) of (r, s') \<Rightarrow> (r, s'\<lparr>work := committed s'\<rparr>))"
  by (simp add: in_session_def)

lemma query_run [exec_simps]: "query f s = (Inr (f (work s)), s)"
  by (simp add: query_def exec_simps)

lemma update_db_run [exec_simps]: "update_db f s = (Inr (), s\<lparr>work := f (work s)\<rparr>)"
  by (simp add: update_db_def exec_simps)

lemma prov_run [exec_simps]:
  "prov c f s = (case f (world s) of (r, w') \<Rightarrow> (r, s\<lparr>world := w', calls := calls s @ [c]\<rparr>))"
  by (simp add: prov_def)

lemma on_world_run [exec_simps]:
  "on_world f s = (case f (world s) of (a, w') \<Rightarrow> (Inr a, s\<lparr>world := w'\<rparr>))"
  by (simp add: on_world_def)

lemma now_run [exec_simps]: "now E s = (Inr (e_now E (world s)), s)"
  by (simp add: now_def exec_simps)

lemma monotonic_run [exec_simps]: "monotonic E s = (Inr (e_mono E (world s)), s)"
  by (simp add: monotonic_def exec_simps)

lemma sleep_run [exec_simps]: "sleep E t s = (Inr (), s\<lparr>world := e_sleep E t (world s)\<rparr>)"
  by (simp add: sleep_def exec_simps)

lemma gen_uuid_run [exec_simps]:
  "gen_uuid E s = (case e_uuid E (world s) of (u, w') \<Rightarrow> (Inr u, s\<lparr>world := w'\<rparr>))"
  by (simp add: gen_uuid_def exec_simps)

lemma set_desktop_run [exec_simps]:
  "set_desktop E i f s = (Inr (), s\<lparr>work :=
     patch_desktop i (\<lambda>d. (f d)\<lparr>d_updated_at := e_now E (world s)\<rparr>) (work s)\<rparr>)"
  by (simp add: set_desktop_def exec_simps)

lemma set_pool_run [exec_simps]:
  "set_pool E i f s = (Inr (), s\<lparr>work :=
     patch_pool i (\<lambda>p. (f p)\<lparr>p_updated_at := e_now E (world s)\<rparr>) (work s)\<rparr>)"
  by (simp add: set_pool_def exec_simps)

lemma set_cluster_run [exec_simps]:
  "set_cluster E i f s = (Inr (), s\<lparr>work :=
     patch_cluster i (\<lambda>c. (f c)\<lparr>c_updated_at := e_now E (world s)\<rparr>) (work s)\<rparr>)"
  by (simp add: set_cluster_def exec_simps)

lemma set_session_run [exec_simps]:
  "set_session i f s = (Inr (), s\<lparr>work := patch_session i f (work s)\<rparr>)"
  by (simp add: set_session_def exec_simps)

lemma insert_desktop_run [exec_simps]:
  "insert_desktop d s = (if desktop_insert_ok d (work s)
     then (Inr (), s\<lparr>work := add_desktop d (work s)\<rparr>) else (Inl (IntegrityError ''desktops''), s))"
  by (simp add: insert_desktop_def exec_simps)

lemma insert_session_run [exec_simps]:
  "insert_session r s = (if session_insert_ok r (work s)
     then (Inr (), s\<lparr>work := add_session r (work s)\<rparr>) else (Inl (IntegrityError ''sessions''), s))"
  by (simp add: insert_session_def exec_simps)

lemma insert_pool_run [exec_simps]:
  "insert_pool p s = (if pool_insert_ok p (work s)
     then (Inr (), s\<lparr>work := add_pool p (work s)\<rparr>) else (Inl (IntegrityError ''pools''), s))"
  by (simp add: insert_pool_def exec_simps)

lemma insert_catalogue_run [exec_simps]:
  "insert_cluster c s = (if cluster_insert_ok c (work s)
     then (Inr (), s\<lparr>work := add_cluster c (work s)\<rparr>) else (Inl (IntegrityError ''clusters''), s))"
  "insert_template t s = (if template_insert_ok t (work s)
     then (Inr (), s\<lparr>work := add_template t (work s)\<rparr>) else (Inl (IntegrityError ''templates''), s))"
  "insert_entitlement en s = (if entitlement_insert_ok en (work s)
     then (Inr (), s\<lparr>work := add_entitlement en (work s)\<rparr>)
     else (Inl (IntegrityError ''entitlements''), s))"
  "set_template E i f s = (Inr (), s\<lparr>work :=
     patch_template i (\<lambda>x. (f x)\<lparr>t_updated_at := e_now E (world s)\<rparr>) (work s)\<rparr>)"
  by (simp_all add: insert_cluster_def insert_template_def insert_entitlement_def set_template_def
      exec_simps)

lemma delete_checked_run [exec_simps]:
  "delete_pool_checked i s = (if \<exists>d\<in>set (desktops (work s)). d_pool_id d = i
     then (Inl (IntegrityError ''pools''), s) else (Inr (), s\<lparr>work := delete_pool_row i (work s)\<rparr>))"
  "delete_template_checked i s = (if \<exists>p\<in>set (pools (work s)). p_template_id p = i
     then (Inl (IntegrityError ''templates''), s)
     else (Inr (), s\<lparr>work := delete_template_row i (work s)\<rparr>))"
  "delete_cluster_checked i s = (if (\<exists>p\<in>set (pools (work s)). p_cluster_id p = i)
       \<or> (\<exists>t\<in>set (templates (work s)). t_cluster_id t = i)
     then (Inl (IntegrityError ''clusters''), s)
     else (Inr (), s\<lparr>work := delete_cluster_row i (work s)\<rparr>))"
  by (simp_all add: delete_pool_checked_def delete_template_checked_def delete_cluster_checked_def
      exec_simps)

lemma wp_query [wp_simps]: "wp (query f) Q X s = Q (f (work s)) s"
  by (simp add: wp_def exec_simps)

lemma wp_commit [wp_simps]: "wp commit Q X s = Q () (s\<lparr>committed := work s\<rparr>)"
  by (simp add: wp_def exec_simps)

lemma wp_rollback [wp_simps]: "wp rollback Q X s = Q () (s\<lparr>work := committed s\<rparr>)"
  by (simp add: wp_def exec_simps)

lemma wp_update_db [wp_simps]: "wp (update_db f) Q X s = Q () (s\<lparr>work := f (work s)\<rparr>)"
  by (simp add: wp_def exec_simps)

lemma wp_set_session [wp_simps]:
  "wp (set_session i f) Q X s = Q () (s\<lparr>work := patch_session i f (work s)\<rparr>)"
  by (simp add: wp_def exec_simps)

lemma wp_set_desktop [wp_simps]:
  "wp (set_desktop E i f) Q X s = Q () (s\<lparr>work :=
     patch_desktop i (\<lambda>d. (f d)\<lparr>d_updated_at := e_now E (world s)\<rparr>) (work s)\<rparr>)"
  by (simp add: wp_def exec_simps)

lemma wp_now [wp_simps]: "wp (now E) Q X s = Q (e_now E (world s)) s"
  by (simp add: wp_def exec_simps)

lemma wp_monotonic [wp_simps]: "wp (monotonic E) Q X s = Q (e_mono E (world s)) s"
  by (simp add: wp_def exec_simps)

lemma wp_sleep [wp_simps]: "wp (sleep E t) Q X s = Q () (s\<lparr>world := e_sleep E t (world s)\<rparr>)"
  by (simp add: wp_def exec_simps)

lemma wp_in_session [wp_simps]:
  "wp (in_session m) Q X s =
     wp m (\<lambda>a t. Q a (t\<lparr>work := committed t\<rparr>)) (\<lambda>e t. X e (t\<lparr>work := committed t\<rparr>))
       (s\<lparr>work := committed s\<rparr>)"
  by (auto simp: wp_def exec_simps split: prod.splits sum.splits)

text \<open>A provider call: whatever it does, only the world and the call log change.\<close>

lemma wp_prov:
  assumes "\<And>a w'. f (world s) = (Inr a, w') \<Longrightarrow> Q a (s\<lparr>world := w', calls := calls s @ [c]\<rparr>)"
    and "\<And>e w'. f (world s) = (Inl e, w') \<Longrightarrow> X e (s\<lparr>world := w', calls := calls s @ [c]\<rparr>)"
  shows "wp (prov c f) Q X s"
  using assms by (auto simp: wp_def exec_simps split: prod.splits sum.splits)

section \<open>Predicates of the tables through provider calls\<close>

text \<open>\<open>on_db K\<close> reads only the tables; \<open>answers C f\<close>: what \<open>f\<close> raises satisfies \<open>C\<close>.\<close>

definition on_db :: "(db \<Rightarrow> db \<Rightarrow> bool) \<Rightarrow> 'w st \<Rightarrow> bool" where
  "on_db K s \<longleftrightarrow> K (committed s) (work s)"

definition answers :: "(exn \<Rightarrow> bool) \<Rightarrow> ('w \<Rightarrow> (exn + 'a) \<times> 'w) \<Rightarrow> bool" where
  "answers C f \<longleftrightarrow> (\<forall>w. case fst (f w) of Inl e \<Rightarrow> C e | Inr _ \<Rightarrow> True)"

text \<open>\<open>gives Q C f\<close>: moreover, what \<open>f\<close> returns satisfies \<open>Q\<close>.\<close>

definition gives :: "('a \<Rightarrow> bool) \<Rightarrow> (exn \<Rightarrow> bool) \<Rightarrow> ('w \<Rightarrow> (exn + 'a) \<times> 'w) \<Rightarrow> bool" where
  "gives Q C f \<longleftrightarrow> (\<forall>w. case fst (f w) of Inl e \<Rightarrow> C e | Inr a \<Rightarrow> Q a)"

lemma gives_answers: "gives Q C f \<Longrightarrow> answers C f"
  unfolding gives_def answers_def by (auto split: sum.splits dest!: spec)

text \<open>
  The contract of \<open>providers/base.py\<close> for what the broker asks. \<open>ours P r\<close>: a reference as the
  broker builds it for \<open>P\<close>; \<open>ours_task P h\<close>: a task handle as \<open>P\<close> builds it. On its own
  references a provider raises only exceptions in \<open>C\<close>, and an operation that starts a task
  returns a handle the broker can wait for and can store the task id of.
\<close>

definition ours :: "'w provider \<Rightarrow> vm_ref \<Rightarrow> bool" where
  "ours P r \<longleftrightarrow> (\<exists>node vmid. r = mk_ref (pv_type P) node vmid)"

definition ours_task :: "'w provider \<Rightarrow> task_handle \<Rightarrow> bool" where
  "ours_task P h \<longleftrightarrow> (\<exists>node upid. h = mk_task (pv_type P) node upid)"

fun ours_wait :: "'w provider \<Rightarrow> task_handle option \<Rightarrow> bool" where
  "ours_wait P None = False"
| "ours_wait P (Some h) = ours_task P h"

definition ours_clone :: "'w provider \<Rightarrow> clone_request \<Rightarrow> bool" where
  "ours_clone P req \<longleftrightarrow> ours P (cr_source_ref req)
     \<and> (\<exists>newid. cr_provider_opts req = JObj [(''newid'', JInt newid)])"

definition provider_contract :: "(exn \<Rightarrow> bool) \<Rightarrow> 'w provider \<Rightarrow> bool" where
  "provider_contract C P \<longleftrightarrow>
     answers C (pv_ping P) \<and> answers C (pv_list_vms P)
     \<and> (\<forall>req. ours_clone P req \<longrightarrow> gives (ours_task P) C (pv_clone_vm P req))
     \<and> (\<forall>r. ours P r \<longrightarrow> gives (ours_task P) C (pv_start_vm P r)
         \<and> gives (ours_task P) C (pv_stop_vm P r)
         \<and> (\<forall>t f. gives (ours_task P) C (pv_shutdown_vm P r t f))
         \<and> gives (ours_task P) C (pv_reboot_vm P r)
         \<and> (\<forall>p. gives (ours_task P) C (pv_destroy_vm P r p))
         \<and> answers C (pv_get_vm_status P r)
         \<and> (\<forall>c. gives (ours_wait P) C (pv_configure_vm P r c))
         \<and> (\<forall>n d. gives (ours_task P) C (pv_create_snapshot P r n d))
         \<and> (\<forall>n. gives (ours_task P) C (pv_rollback_snapshot P r n))
         \<and> answers C (pv_agent_ping P r) \<and> answers C (pv_agent_get_users P r)
         \<and> answers C (pv_agent_get_network P r)
         \<and> (\<forall>k. answers C (pv_get_console_ticket P r k)))
     \<and> (\<forall>h. ours_task P h \<longrightarrow> answers C (pv_get_task_status P h)
         \<and> (\<forall>t. answers C (pv_wait_for_task P (Some h) t)))"

lemma contract_answers:
  assumes "provider_contract C P"
  shows "answers C (pv_ping P)" "answers C (pv_list_vms P)"
    "ours P r \<Longrightarrow> answers C (pv_get_vm_status P r)" "ours P r \<Longrightarrow> answers C (pv_agent_ping P r)"
    "ours P r \<Longrightarrow> answers C (pv_agent_get_users P r)" "ours P r \<Longrightarrow> answers C (pv_agent_get_network P r)"
    "ours P r \<Longrightarrow> answers C (pv_get_console_ticket P r k)"
    "ours_task P h \<Longrightarrow> answers C (pv_get_task_status P h)"
    "ours_wait P ho \<Longrightarrow> answers C (pv_wait_for_task P ho t)"
  using assms by (simp_all add: provider_contract_def) (cases ho, simp_all)

lemma contract_gives:
  assumes "provider_contract C P"
  shows "ours_clone P req \<Longrightarrow> gives (ours_task P) C (pv_clone_vm P req)"
    "ours P r \<Longrightarrow> gives (ours_task P) C (pv_start_vm P r)"
    "ours P r \<Longrightarrow> gives (ours_task P) C (pv_stop_vm P r)"
    "ours P r \<Longrightarrow> gives (ours_task P) C (pv_shutdown_vm P r t f)"
    "ours P r \<Longrightarrow> gives (ours_task P) C (pv_destroy_vm P r p)"
    "ours P r \<Longrightarrow> gives (ours_wait P) C (pv_configure_vm P r c)"
    "ours P r \<Longrightarrow> gives (ours_task P) C (pv_create_snapshot P r n d)"
    "ours P r \<Longrightarrow> gives (ours_task P) C (pv_rollback_snapshot P r n)"
  using assms by (simp_all add: provider_contract_def)

lemma ours_mk_ref [simp]: "ours P (mk_ref (pv_type P) node vmid)"
  by (auto simp: ours_def)

lemma on_db_frame [simp]: "on_db K (s\<lparr>world := w\<rparr>) = on_db K s" "on_db K (s\<lparr>calls := cs\<rparr>) = on_db K s"
  by (simp_all add: on_db_def)

lemma safe_prov: "answers C f \<Longrightarrow> safe (on_db K) C (prov c f)"
  by (rule safeI) (rule wp_prov, auto simp: answers_def split: sum.splits, (metis fst_conv sum.case(1))+)

text \<open>A call whose value the rest of the program depends on.\<close>

lemma safe_call:
  fixes g :: "'a \<Rightarrow> ('w, 'b) prog"
  assumes "gives Q C f" "\<And>a. Q a \<Longrightarrow> safe (on_db K) C (g a)"
  shows "safe (on_db K) C (bnd (prov c f) g)"
proof (rule safeI)
  fix s :: "'w st" assume "on_db K s"
  with assms show "wp (bnd (prov c f) g) (\<lambda>_. on_db K) (\<lambda>e t. C e \<and> on_db K t) s"
    unfolding wp_bnd gives_def
    by (intro wp_prov) (force intro: safeD split: sum.splits dest: spec [of _ "world s"])+
qed

lemmas contract_calls = contract_gives [THEN safe_call]

lemma safe_now: "safe (on_db K) C (now E)"
  by (simp add: safe_def wp_simps)

lemma safe_monotonic: "safe (on_db K) C (monotonic E)"
  by (simp add: safe_def wp_def exec_simps)

lemma safe_sleep: "safe (on_db K) C (sleep E t)"
  by (simp add: safe_def wp_def exec_simps)

lemma safe_query: "safe (on_db K) C (query f)"
  by (simp add: safe_def wp_simps)

lemma safe_set_desktop:
  "(\<And>a b t. K a b \<Longrightarrow> K a (patch_desktop i (\<lambda>d. (f d)\<lparr>d_updated_at := t\<rparr>) b)) \<Longrightarrow>
   safe (on_db K) C (set_desktop E i f)"
  by (simp add: safe_def wp_simps on_db_def)

lemma safe_commit: "(\<And>a b. K a b \<Longrightarrow> K b b) \<Longrightarrow> safe (on_db K) C commit"
  by (auto simp: safe_def wp_simps on_db_def)

section \<open>The order of provider calls\<close>

text \<open>
  The calls of a run without the polls, and without the task handles, which only the
  provider chooses. \<open>emits m A\<close>: when \<open>m\<close> returns, the calls it added form a sequence in \<open>A\<close>.
\<close>

fun is_poll :: "call \<Rightarrow> bool" where
  "is_poll (CallAgentPing _) = True"
| "is_poll (CallGetStatus _) = True"
| "is_poll _ = False"

fun call_shape :: "call \<Rightarrow> call" where
  "call_shape (CallWait _ t) = CallWait None t"
| "call_shape c = c"

definition call_trace :: "call list \<Rightarrow> call list" where
  "call_trace cs = map call_shape (filter (\<lambda>c. \<not> is_poll c) cs)"

definition emits :: "('w, 'a) prog \<Rightarrow> call list set \<Rightarrow> bool" where
  "emits m A \<longleftrightarrow> (\<forall>s. wp m (\<lambda>_ t. \<exists>x\<in>A. call_trace (calls t) = call_trace (calls s) @ x) (\<lambda>_ _. True) s)"

definition then_calls :: "call list set \<Rightarrow> call list set \<Rightarrow> call list set" where
  "then_calls A B = {x @ y |x y. x \<in> A \<and> y \<in> B}"

named_theorems emits_intros \<open>syntax-directed rules for \<open>emits\<close>\<close>

lemma then_calls_single [simp]:
  "then_calls {x} {y} = {x @ y}" "then_calls A {[]} = A" "then_calls {[]} A = A"
  "then_calls (insert x (insert y A)) {z} = insert (x @ z) (then_calls (insert y A) {z})"
  by (auto simp: then_calls_def)

lemma wp_True: "wp m (\<lambda>_ _. True) (\<lambda>_ _. True) s"
  by (simp add: wp_def split: prod.splits sum.splits)

lemma wp_conj:
  "wp m Q X s \<Longrightarrow> wp m Q' X' s \<Longrightarrow> wp m (\<lambda>a t. Q a t \<and> Q' a t) (\<lambda>e t. X e t \<and> X' e t) s"
  by (auto simp: wp_def split: prod.splits sum.splits)

lemma emits_bnd [emits_intros]:
  assumes "emits m A" "\<And>a. emits (f a) B"
  shows "emits (bnd m f) (then_calls A B)"
  unfolding emits_def wp_bnd
proof
  fix s :: "'a st"
  from assms(1) have "wp m (\<lambda>_ t. \<exists>x\<in>A. call_trace (calls t) = call_trace (calls s) @ x) (\<lambda>_ _. True) s"
    by (simp add: emits_def)
  then show "wp m (\<lambda>a. wp (f a) (\<lambda>_ t. \<exists>x\<in>then_calls A B. call_trace (calls t) = call_trace (calls s) @ x)
      (\<lambda>_ _. True)) (\<lambda>_ _. True) s"
  proof (rule wp_mono)
    fix a and t :: "'a st" assume "\<exists>x\<in>A. call_trace (calls t) = call_trace (calls s) @ x"
    then obtain x where x: "x \<in> A" "call_trace (calls t) = call_trace (calls s) @ x" by blast
    from assms(2) [of a] have "wp (f a) (\<lambda>_ u. \<exists>y\<in>B. call_trace (calls u) = call_trace (calls t) @ y) (\<lambda>_ _. True) t"
      by (simp add: emits_def)
    then show "wp (f a) (\<lambda>_ u. \<exists>x\<in>then_calls A B. call_trace (calls u) = call_trace (calls s) @ x) (\<lambda>_ _. True) t"
      by (rule wp_mono) (use x in \<open>force simp: then_calls_def\<close>)+
  qed simp
qed

lemma emits_andthen [emits_intros]:
  "emits m A \<Longrightarrow> emits n B \<Longrightarrow> emits (andthen m n) (then_calls A B)"
  unfolding andthen_def by (rule emits_bnd)

lemma emits_silent [emits_intros]:
  "emits (ret a) {[]}" "emits (throw e) {[]}" "emits (query f) {[]}" "emits commit {[]}"
  "emits (now E) {[]}" "emits (monotonic E) {[]}" "emits (sleep E t) {[]}"
  "emits (set_desktop E i g) {[]}" "emits (update_db h) {[]}"
  by (simp_all add: emits_def wp_simps)

lemma emits_prov [emits_intros]: "emits (prov c f) {if is_poll c then [] else [call_shape c]}"
  by (auto simp: emits_def call_trace_def intro!: wp_prov)

lemma emits_when_if: "emits m A \<Longrightarrow> emits (do_when b m) (if b then A else {[]})"
  by (simp add: do_when_def emits_silent)

section \<open>Programs with a memory of their own\<close>

text \<open>
  A worker or the application object keeps state in the process, beside the database: its
  programs run on the pair. \<open>on_store\<close> runs a database program there. An exception keeps
  the changes to the memory.
\<close>

definition on_store :: "('w, 'a) prog \<Rightarrow> ('w st \<times> 'm, 'a) eff" where
  "on_store m = (\<lambda>(s, mo). case m s of (r, s') \<Rightarrow> (r, (s', mo)))"

definition get_memory :: "('m \<Rightarrow> 'a) \<Rightarrow> ('w st \<times> 'm, 'a) eff" where
  "get_memory f = reads (\<lambda>(s, mo). f mo)"

definition set_memory :: "('m \<Rightarrow> 'm) \<Rightarrow> ('w st \<times> 'm, unit) eff" where
  "set_memory f = modify (\<lambda>(s, mo). (s, f mo))"

lemma on_store_run [exec_simps]: "on_store m (s, mo) = (case m s of (r, s') \<Rightarrow> (r, (s', mo)))"
  by (simp add: on_store_def)

lemma get_memory_run [exec_simps]: "get_memory f (s, mo) = (Inr (f mo), (s, mo))"
  by (simp add: get_memory_def exec_simps)

lemma set_memory_run [exec_simps]: "set_memory f (s, mo) = (Inr (), (s, f mo))"
  by (simp add: set_memory_def exec_simps)

lemma pres_on_store: "pres J m \<Longrightarrow> pres (\<lambda>x. J (fst x)) (on_store m)"
  by (auto simp: pres_def on_store_def split: prod.splits)

lemma pres_memory: "pres (\<lambda>x. J (fst x)) (get_memory f)" "pres (\<lambda>x. J (fst x)) (set_memory g)"
  by (auto simp: pres_def exec_simps split: prod.splits)

section \<open>Row lemmas\<close>

lemma patch_desktop_id_simps [simp]:
  "sessions (patch_desktop i f db) = sessions db"
  "pools (patch_desktop i f db) = pools db"
  "clusters (patch_desktop i f db) = clusters db"
  "templates (patch_desktop i f db) = templates db"
  "entitlements (patch_desktop i f db) = entitlements db"
  "audit_log (patch_desktop i f db) = audit_log db"
  "auth_tokens (patch_desktop i f db) = auth_tokens db"
  by (simp_all add: patch_desktop_def)

lemma patch_session_id_simps [simp]:
  "desktops (patch_session i f db) = desktops db"
  "pools (patch_session i f db) = pools db"
  "clusters (patch_session i f db) = clusters db"
  "templates (patch_session i f db) = templates db"
  "entitlements (patch_session i f db) = entitlements db"
  "audit_log (patch_session i f db) = audit_log db"
  "auth_tokens (patch_session i f db) = auth_tokens db"
  by (simp_all add: patch_session_def)

lemma add_audit_simps [simp]:
  "desktops (add_audit mk db) = desktops db"
  "sessions (add_audit mk db) = sessions db"
  "pools (add_audit mk db) = pools db"
  "clusters (add_audit mk db) = clusters db"
  "templates (add_audit mk db) = templates db"
  "entitlements (add_audit mk db) = entitlements db"
  "auth_tokens (add_audit mk db) = auth_tokens db"
  by (simp_all add: add_audit_def)

lemma add_session_simps [simp]:
  "desktops (add_session r db) = desktops db"
  "sessions (add_session r db) = sessions db @ [r]"
  "pools (add_session r db) = pools db"
  "clusters (add_session r db) = clusters db"
  "templates (add_session r db) = templates db"
  "entitlements (add_session r db) = entitlements db"
  by (simp_all add: add_session_def)

lemma add_desktop_simps [simp]:
  "desktops (add_desktop d db) = desktops db @ [d]"
  "sessions (add_desktop d db) = sessions db"
  "pools (add_desktop d db) = pools db"
  "clusters (add_desktop d db) = clusters db"
  "templates (add_desktop d db) = templates db"
  "entitlements (add_desktop d db) = entitlements db"
  by (simp_all add: add_desktop_def)

lemma get_row_patch_desktop [simp]:
  "get_session_row j (patch_desktop i f db) = get_session_row j db"
  "get_pool_row j (patch_desktop i f db) = get_pool_row j db"
  "get_cluster_row j (patch_desktop i f db) = get_cluster_row j db"
  "get_template_row j (patch_desktop i f db) = get_template_row j db"
  by (simp_all add: get_session_row_def get_pool_row_def get_cluster_row_def get_template_row_def)

lemma get_row_patch_session [simp]:
  "get_desktop_row j (patch_session i f db) = get_desktop_row j db"
  "get_pool_row j (patch_session i f db) = get_pool_row j db"
  by (simp_all add: get_desktop_row_def get_pool_row_def)

lemma get_row_add_audit [simp]:
  "get_desktop_row j (add_audit mk db) = get_desktop_row j db"
  "get_session_row j (add_audit mk db) = get_session_row j db"
  "get_pool_row j (add_audit mk db) = get_pool_row j db"
  "get_cluster_row j (add_audit mk db) = get_cluster_row j db"
  "get_template_row j (add_audit mk db) = get_template_row j db"
  by (simp_all add: get_desktop_row_def get_session_row_def get_pool_row_def get_cluster_row_def
      get_template_row_def)

lemma get_row_add_session [simp]:
  "get_desktop_row j (add_session r db) = get_desktop_row j db"
  "get_pool_row j (add_session r db) = get_pool_row j db"
  by (simp_all add: get_desktop_row_def get_pool_row_def)

lemma get_desktop_row_add_new [simp]:
  "get_desktop_row (d_id d) db = None \<Longrightarrow> get_desktop_row (d_id d) (add_desktop d db) = Some d"
  by (simp add: get_desktop_row_def find_append)

lemma find_map_key:
  assumes "\<And>x. k (f x) = k x"
  shows "find (\<lambda>x. k x = j) (map (\<lambda>x. if k x = i then f x else x) xs)
    = map_option (\<lambda>x. if j = i then f x else x) (find (\<lambda>x. k x = j) xs)"
  using assms by (induction xs) auto

lemma get_desktop_patch:
  "(\<And>d. d_id (f d) = d_id d) \<Longrightarrow> get_desktop_row j (patch_desktop i f db)
    = map_option (\<lambda>d. if j = i then f d else d) (get_desktop_row j db)"
  unfolding get_desktop_row_def patch_desktop_def by (simp add: find_map_key)

lemma get_session_patch:
  "(\<And>r. s_id (f r) = s_id r) \<Longrightarrow> get_session_row j (patch_session i f db)
    = map_option (\<lambda>r. if j = i then f r else r) (get_session_row j db)"
  unfolding get_session_row_def patch_session_def by (simp add: find_map_key)

lemma get_pool_patch:
  "(\<And>p. p_id (f p) = p_id p) \<Longrightarrow> get_pool_row j (patch_pool i f db)
    = map_option (\<lambda>p. if j = i then f p else p) (get_pool_row j db)"
  unfolding get_pool_row_def patch_pool_def by (simp add: find_map_key)

lemma get_desktop_rowD:
  "get_desktop_row i db = Some d \<Longrightarrow> d \<in> set (desktops db) \<and> d_id d = i"
  unfolding get_desktop_row_def by (auto dest: find_SomeD)

lemma get_session_rowD:
  "get_session_row i db = Some r \<Longrightarrow> r \<in> set (sessions db) \<and> s_id r = i"
  unfolding get_session_row_def by (auto dest: find_SomeD)

lemma get_pool_rowD: "get_pool_row i db = Some p \<Longrightarrow> p \<in> set (pools db) \<and> p_id p = i"
  unfolding get_pool_row_def by (auto dest: find_SomeD)

lemma get_cluster_rowD: "get_cluster_row i db = Some c \<Longrightarrow> c \<in> set (clusters db) \<and> c_id c = i"
  unfolding get_cluster_row_def by (auto dest: find_SomeD)

lemma get_template_rowD: "get_template_row i db = Some t \<Longrightarrow> t \<in> set (templates db) \<and> t_id t = i"
  unfolding get_template_row_def by (auto dest: find_SomeD)

lemma get_cluster_row_None: "get_cluster_row i db = None \<longleftrightarrow> (\<forall>c\<in>set (clusters db). c_id c \<noteq> i)"
  unfolding get_cluster_row_def by (auto simp: find_None_iff)

lemma get_template_row_None: "get_template_row i db = None \<longleftrightarrow> (\<forall>t\<in>set (templates db). t_id t \<noteq> i)"
  unfolding get_template_row_def by (auto simp: find_None_iff)

lemma get_row_image:
  "get_cluster_row i db = Some c \<Longrightarrow> i \<in> c_id ` set (clusters db)"
  "get_template_row i db = Some t \<Longrightarrow> i \<in> t_id ` set (templates db)"
  "get_pool_row i db = Some p \<Longrightarrow> i \<in> p_id ` set (pools db)"
  "get_desktop_row i db = Some d \<Longrightarrow> i \<in> d_id ` set (desktops db)"
  by (auto dest: get_pool_rowD get_desktop_rowD get_cluster_rowD get_template_rowD)

lemma get_desktop_row_None: "get_desktop_row i db = None \<longleftrightarrow> (\<forall>d\<in>set (desktops db). d_id d \<noteq> i)"
  unfolding get_desktop_row_def by (auto simp: find_None_iff)

lemma get_session_row_None: "get_session_row i db = None \<longleftrightarrow> (\<forall>r\<in>set (sessions db). s_id r \<noteq> i)"
  unfolding get_session_row_def by (auto simp: find_None_iff)

lemma get_pool_row_None: "get_pool_row i db = None \<longleftrightarrow> (\<forall>p\<in>set (pools db). p_id p \<noteq> i)"
  unfolding get_pool_row_def by (auto simp: find_None_iff)

end
