(* ===== verification/Invariants.thy ===== *)
theory Invariants
  imports Store
begin

text \<open>
  The interface between the tables and the code that writes them. \<open>db_invariant\<close> is a
  predicate of the tables that every kind of write the broker performs keeps, each write
  under the discipline the code follows: an attribute write never changes a row's identity,
  a session write never leaves a ticket on an ended session, an insert passes the schema's
  checks, a new desktop takes a VMID of its pool's range, a new pool a range of its own.
  Each component theory proves, inside the locale, that its operations carry such a
  predicate through all their exits. The predicates themselves are interpreted here.
\<close>

section \<open>Write disciplines\<close>

definition both :: "(db \<Rightarrow> bool) \<Rightarrow> 'w st \<Rightarrow> bool" where
  "both I s \<longleftrightarrow> I (committed s) \<and> I (work s)"

definition keeps_identity :: "(desktop \<Rightarrow> desktop) \<Rightarrow> bool" where
  "keeps_identity f \<longleftrightarrow> (\<forall>d. d_id (f d) = d_id d \<and> d_pool_id (f d) = d_pool_id d
     \<and> d_pve_vmid (f d) = d_pve_vmid d \<and> d_pve_node (f d) = d_pve_node d \<and> d_name (f d) = d_name d)"

definition ticket_safe :: "vdi_session \<Rightarrow> bool" where
  "ticket_safe r \<longleftrightarrow> (s_status r = S_ENDED \<longrightarrow> s_connection_info r = None)"

definition session_write_ok :: "(vdi_session \<Rightarrow> vdi_session) \<Rightarrow> bool" where
  "session_write_ok f \<longleftrightarrow> (\<forall>r. s_id (f r) = s_id r \<and> s_desktop_id (f r) = s_desktop_id r
     \<and> s_username (f r) = s_username r \<and> (ticket_safe r \<longrightarrow> ticket_safe (f r)))"

definition pool_write_ok :: "(pool \<Rightarrow> pool) \<Rightarrow> bool" where
  "pool_write_ok f \<longleftrightarrow> (\<forall>p. p_id (f p) = p_id p \<and> p_name (f p) = p_name p
     \<and> p_template_id (f p) = p_template_id p \<and> p_cluster_id (f p) = p_cluster_id p
     \<and> p_pool_type (f p) = p_pool_type p
     \<and> p_vmid_range_start (f p) = p_vmid_range_start p \<and> p_vmid_range_end (f p) = p_vmid_range_end p)"

definition in_pool_range :: "pool \<Rightarrow> int \<Rightarrow> bool" where
  "in_pool_range p v \<longleftrightarrow> p_vmid_range_start p \<le> v \<and> v \<le> p_vmid_range_end p"

definition ranges_disjoint :: "pool \<Rightarrow> pool \<Rightarrow> bool" where
  "ranges_disjoint p q \<longleftrightarrow> p_vmid_range_end p < p_vmid_range_start q
     \<or> p_vmid_range_end q < p_vmid_range_start p"

definition desktop_in_range :: "desktop \<Rightarrow> db \<Rightarrow> bool" where
  "desktop_in_range d db \<longleftrightarrow>
     (\<exists>p\<in>set (pools db). p_id p = d_pool_id d \<and> in_pool_range p (d_pve_vmid d))"

locale db_writes =
  fixes I :: "db \<Rightarrow> bool"
  assumes desktop_patch: "I db \<Longrightarrow> keeps_identity f \<Longrightarrow> I (patch_desktop i f db)"
    and session_patch: "I db \<Longrightarrow> session_write_ok g \<Longrightarrow> I (patch_session i g db)"
    and pool_patch: "I db \<Longrightarrow> pool_write_ok h \<Longrightarrow> I (patch_pool i h db)"
    and cluster_patch: "I db \<Longrightarrow> (\<And>c. c_id (k c) = c_id c) \<Longrightarrow> I (patch_cluster i k db)"
    and desktop_add: "I db \<Longrightarrow> desktop_insert_ok d db \<Longrightarrow> desktop_in_range d db \<Longrightarrow> I (add_desktop d db)"
    and desktop_delete: "I db \<Longrightarrow> I (delete_desktop_row i db)"
    and session_add: "I db \<Longrightarrow> session_insert_ok r db \<Longrightarrow> ticket_safe r \<Longrightarrow> I (add_session r db)"
    and pool_add: "I db \<Longrightarrow> pool_insert_ok p db \<Longrightarrow> (\<And>q. q \<in> set (pools db) \<Longrightarrow> ranges_disjoint p q) \<Longrightarrow>
      I (add_pool p db)"
    and audit_add: "I db \<Longrightarrow> I (add_audit mk db)"
    and audit_prune: "I db \<Longrightarrow> I (prune_audit t db)"
    and token_patch: "I db \<Longrightarrow> I (patch_token i tk db)"
    and token_add: "I db \<Longrightarrow> I (add_token tok db)"
begin

lemma pres_commit: "pres (both I) commit"
  by (simp add: pres_def both_def exec_simps)

lemma pres_rollback: "pres (both I) rollback"
  by (simp add: pres_def both_def exec_simps)

lemma pres_in_session: "pres (both I) m \<Longrightarrow> pres (both I) (in_session m)"
proof -
  assume m: "pres (both I) m"
  show ?thesis unfolding pres_def
  proof (intro allI impI)
    fix s :: "'a st" assume "both I s"
    then have "both I (s\<lparr>work := committed s\<rparr>)" by (simp add: both_def)
    then have "both I (snd (m (s\<lparr>work := committed s\<rparr>)))" using m by (rule presD [rotated])
    then show "both I (snd (in_session m s))"
      by (auto simp: exec_simps both_def split: prod.splits)
  qed
qed

lemma pres_query: "pres (both I) (query f)"
  by (simp add: pres_def both_def exec_simps)

lemma pres_scalar_one: "pres (both I) (scalar_one xs)"
  by (cases xs rule: scalar_one.cases) (auto intro: pres_ret pres_throw)

lemma pres_scalar_one_or_none: "pres (both I) (scalar_one_or_none xs)"
  by (cases xs rule: scalar_one_or_none.cases) (auto intro: pres_ret pres_throw)

lemma pres_prov: "pres (both I) (prov c f)"
  by (auto simp: pres_def both_def exec_simps split: prod.splits)

lemma pres_on_world: "pres (both I) (on_world f)"
  by (auto simp: pres_def both_def exec_simps split: prod.splits)

lemma pres_now: "pres (both I) (now E)"
  by (simp add: pres_def both_def exec_simps)

lemma pres_monotonic: "pres (both I) (monotonic E)"
  by (simp add: pres_def both_def exec_simps)

lemma pres_sleep: "pres (both I) (sleep E t)"
  by (simp add: pres_def both_def exec_simps)

lemma pres_gen_uuid: "pres (both I) (gen_uuid E)"
  unfolding gen_uuid_def by (rule pres_on_world)

lemma pres_set_desktop: "keeps_identity f \<Longrightarrow> pres (both I) (set_desktop E i f)"
  by (auto simp: pres_def both_def exec_simps keeps_identity_def intro!: desktop_patch)

lemma pres_set_session: "session_write_ok f \<Longrightarrow> pres (both I) (set_session i f)"
  by (auto simp: pres_def both_def exec_simps intro!: session_patch)

lemma pres_set_pool: "pool_write_ok f \<Longrightarrow> pres (both I) (set_pool E i f)"
  by (auto simp: pres_def both_def exec_simps pool_write_ok_def intro!: pool_patch)

lemma pres_set_cluster: "(\<And>c. c_id (f c) = c_id c) \<Longrightarrow> pres (both I) (set_cluster E i f)"
  by (auto simp: pres_def both_def exec_simps intro!: cluster_patch)

lemma pres_add_audit: "pres (both I) (update_db (add_audit mk))"
  by (auto simp: pres_def both_def exec_simps intro!: audit_add)

lemma pres_prune_audit: "pres (both I) (update_db (prune_audit t))"
  by (auto simp: pres_def both_def exec_simps intro!: audit_prune)

lemma pres_patch_token: "pres (both I) (update_db (patch_token i f))"
  by (auto simp: pres_def both_def exec_simps intro!: token_patch)

lemma pres_insert_token: "pres (both I) (insert_token k)"
  by (auto simp: pres_def both_def exec_simps insert_token_def intro!: token_add)

lemma pres_insert_session: "ticket_safe r \<Longrightarrow> pres (both I) (insert_session r)"
  by (auto simp: pres_def both_def exec_simps intro!: session_add)

lemma pres_delete_desktop_row: "pres (both I) (update_db (delete_desktop_row i))"
  by (auto simp: pres_def both_def exec_simps intro!: desktop_delete)

lemmas pres_prims =
  pres_commit pres_rollback pres_in_session pres_query pres_scalar_one pres_scalar_one_or_none
  pres_prov pres_on_world pres_now pres_monotonic pres_sleep pres_gen_uuid pres_set_desktop
  pres_set_session pres_set_pool pres_set_cluster pres_add_audit pres_prune_audit
  pres_patch_token pres_insert_token pres_insert_session pres_delete_desktop_row

end

locale db_invariant = db_writes +
  assumes pool_delete: "I db \<Longrightarrow> (\<And>d. d \<in> set (desktops db) \<Longrightarrow> d_pool_id d \<noteq> i) \<Longrightarrow> I (delete_pool_row i db)"
begin

lemma pres_delete_pool_checked: "pres (both I) (delete_pool_checked i)"
  by (auto simp: pres_def both_def exec_simps intro!: pool_delete)

end

text \<open>The writes of the catalogue: clusters, templates and entitlements.\<close>

definition template_write_ok :: "(vdi_template \<Rightarrow> vdi_template) \<Rightarrow> bool" where
  "template_write_ok f \<longleftrightarrow> (\<forall>t. t_id (f t) = t_id t \<and> t_cluster_id (f t) = t_cluster_id t
     \<and> t_pve_vmid (f t) = t_pve_vmid t)"

locale db_catalogue = db_invariant +
  assumes cluster_add: "I db \<Longrightarrow> cluster_insert_ok c db \<Longrightarrow> I (add_cluster c db)"
    and template_add: "I db \<Longrightarrow> template_insert_ok t db \<Longrightarrow> I (add_template t db)"
    and entitlement_add: "I db \<Longrightarrow> entitlement_insert_ok en db \<Longrightarrow> I (add_entitlement en db)"
    and template_patch: "I db \<Longrightarrow> template_write_ok tf \<Longrightarrow> I (patch_template i tf db)"
    and cluster_delete: "I db \<Longrightarrow> (\<And>p. p \<in> set (pools db) \<Longrightarrow> p_cluster_id p \<noteq> i) \<Longrightarrow>
      (\<And>t. t \<in> set (templates db) \<Longrightarrow> t_cluster_id t \<noteq> i) \<Longrightarrow> I (delete_cluster_row i db)"
    and template_delete: "I db \<Longrightarrow> (\<And>p. p \<in> set (pools db) \<Longrightarrow> p_template_id p \<noteq> i) \<Longrightarrow>
      I (delete_template_row i db)"
    and entitlement_delete: "I db \<Longrightarrow> I (delete_entitlement_row i db)"
begin

lemma pres_insert_cluster: "pres (both I) (insert_cluster c)"
  by (auto simp: pres_def both_def exec_simps intro!: cluster_add)

lemma pres_insert_template: "pres (both I) (insert_template t)"
  by (auto simp: pres_def both_def exec_simps intro!: template_add)

lemma pres_insert_entitlement: "pres (both I) (insert_entitlement en)"
  by (auto simp: pres_def both_def exec_simps intro!: entitlement_add)

lemma pres_set_template: "template_write_ok f \<Longrightarrow> pres (both I) (set_template E i f)"
  by (auto simp: pres_def both_def exec_simps template_write_ok_def intro!: template_patch)

lemma pres_delete_cluster_checked: "pres (both I) (delete_cluster_checked i)"
  by (auto simp: pres_def both_def exec_simps intro!: cluster_delete)

lemma pres_delete_template_checked: "pres (both I) (delete_template_checked i)"
  by (auto simp: pres_def both_def exec_simps intro!: template_delete)

lemma pres_delete_entitlement_row: "pres (both I) (update_db (delete_entitlement_row i))"
  by (auto simp: pres_def both_def exec_simps intro!: entitlement_delete)

lemmas pres_catalogue =
  pres_insert_cluster pres_insert_template pres_insert_entitlement pres_set_template
  pres_delete_cluster_checked pres_delete_template_checked pres_delete_entitlement_row
  pres_delete_pool_checked

end

text \<open>
  A pool row that was loaded earlier still stands for the row in the tables: same id, same
  range. Every write but the deletion of a pool keeps this, so a program that holds a
  loaded pool carries the invariant together with it.
\<close>

definition pool_current :: "pool \<Rightarrow> db \<Rightarrow> bool" where
  "pool_current p db \<longleftrightarrow> (\<exists>q\<in>set (pools db). p_id q = p_id p
     \<and> p_vmid_range_start q = p_vmid_range_start p \<and> p_vmid_range_end q = p_vmid_range_end p)"

lemma pool_current_same_pools: "pools db' = pools db \<Longrightarrow> pool_current p db' = pool_current p db"
  by (simp add: pool_current_def)

lemma pool_current_patch_pool:
  assumes "pool_write_ok h" "pool_current p db"
  shows "pool_current p (patch_pool i h db)"
proof -
  from assms(2) obtain q where q: "q \<in> set (pools db)" "p_id q = p_id p"
      "p_vmid_range_start q = p_vmid_range_start p" "p_vmid_range_end q = p_vmid_range_end p"
    by (auto simp: pool_current_def)
  let ?q = "if p_id q = i then h q else q"
  have "?q \<in> set (pools (patch_pool i h db))" using q(1) by (auto simp: patch_pool_def)
  moreover have "p_id ?q = p_id p \<and> p_vmid_range_start ?q = p_vmid_range_start p
      \<and> p_vmid_range_end ?q = p_vmid_range_end p"
    using q assms(1) by (auto simp: pool_write_ok_def)
  ultimately show ?thesis unfolding pool_current_def by blast
qed

lemma pool_current_loaded: "get_pool_row i db = Some p \<Longrightarrow> pool_current p db"
  by (auto simp: pool_current_def dest: get_pool_rowD)

lemma pool_current_other_writes [simp]:
  "pool_current p (patch_desktop i f db) = pool_current p db"
  "pool_current p (patch_session i g db) = pool_current p db"
  "pool_current p (patch_cluster i k db) = pool_current p db"
  "pool_current p (add_desktop d db) = pool_current p db"
  "pool_current p (delete_desktop_row i db) = pool_current p db"
  "pool_current p (add_session r db) = pool_current p db"
  "pool_current p (add_audit mk db) = pool_current p db"
  "pool_current p (prune_audit t db) = pool_current p db"
  "pool_current p (patch_token i tk db) = pool_current p db"
  "pool_current p (add_token tok db) = pool_current p db"
  by (simp_all add: pool_current_def patch_cluster_def delete_desktop_row_def prune_audit_def
      patch_token_def add_token_def)

lemma pool_current_add_pool: "pool_current p db \<Longrightarrow> pool_current p (add_pool q db)"
  by (auto simp: pool_current_def add_pool_def)

sublocale db_invariant \<subseteq> with_pool: db_writes "\<lambda>db. I db \<and> pool_current p db" for p
  by unfold_locales
    (auto simp: desktop_patch session_patch pool_patch cluster_patch desktop_add desktop_delete
      session_add pool_add audit_add audit_prune token_patch token_add pool_current_patch_pool
      pool_current_add_pool)

text \<open>A session block that starts by loading a pool carries the predicate with the pool.\<close>

lemma pres_session_pool_aux:
  assumes "both I s" "\<And>p. pres (both (\<lambda>db. I db \<and> pool_current p db)) (f p)"
    and "p \<in> set (pools (committed s))"
  shows "both I (snd (f p (s\<lparr>work := committed s\<rparr>)))"
proof -
  have "pool_current p (committed s)" using assms(3) by (auto simp: pool_current_def)
  with assms(1) have "both (\<lambda>db. I db \<and> pool_current p db) (s\<lparr>work := committed s\<rparr>)"
    by (simp add: both_def)
  from presD [OF assms(2) this] show ?thesis by (simp add: both_def)
qed

context db_invariant begin

lemma pres_session_pool_one:
  assumes "\<And>p. pres (both (\<lambda>db. I db \<and> pool_current p db)) (f p)"
  shows "pres (both I) (in_session (bnd (query (\<lambda>db. filter (\<lambda>p. p_id p = i) (pools db)))
    (\<lambda>rows. bnd (scalar_one rows) f)))"
  unfolding pres_def
proof (intro allI impI)
  fix s :: "'a st" assume J: "both I s"
  let ?rows = "filter (\<lambda>p. p_id p = i) (pools (committed s))"
  consider (one) p where "?rows = [p]" | (bad) e where "\<forall>t :: 'a st. scalar_one ?rows t = (Inl e, t)"
    by (cases ?rows rule: scalar_one.cases) (auto simp: exec_simps)
  then show "both I (snd (in_session (bnd (query (\<lambda>db. filter (\<lambda>p. p_id p = i) (pools db)))
    (\<lambda>rows. bnd (scalar_one rows) f)) s))"
  proof cases
    case one
    then have "p \<in> set (pools (committed s))" by (metis filter_is_subset list.set_intros(1) subsetD)
    from pres_session_pool_aux [OF J assms this] one show ?thesis
      by (auto simp: exec_simps both_def split: prod.splits)
  next
    case bad
    with J show ?thesis by (simp add: exec_simps both_def)
  qed
qed

lemma pres_session_pool_get:
  assumes "\<And>p. pres (both (\<lambda>db. I db \<and> pool_current p db)) (f p)" "pres (both I) m"
  shows "pres (both I) (in_session (bnd (query (get_pool_row i))
    (\<lambda>r. case r of None \<Rightarrow> m | Some p \<Rightarrow> f p)))"
  unfolding pres_def
proof (intro allI impI)
  fix s :: "'a st" assume J: "both I s"
  show "both I (snd (in_session (bnd (query (get_pool_row i))
    (\<lambda>r. case r of None \<Rightarrow> m | Some p \<Rightarrow> f p)) s))"
  proof (cases "get_pool_row i (committed s)")
    case None
    have "both I (s\<lparr>work := committed s\<rparr>)" using J by (simp add: both_def)
    from presD [OF assms(2) this] None show ?thesis
      by (auto simp: exec_simps both_def split: prod.splits)
  next
    case (Some p)
    then have "p \<in> set (pools (committed s))" by (auto dest: get_pool_rowD)
    from pres_session_pool_aux [OF J assms(1) this] Some show ?thesis
      by (auto simp: exec_simps both_def split: prod.splits)
  qed
qed

end

section \<open>The invariants of the tables\<close>

text \<open>S-D2: no ended session keeps a console ticket.\<close>

definition tickets_cleared :: "db \<Rightarrow> bool" where
  "tickets_cleared db \<longleftrightarrow> (\<forall>r\<in>set (sessions db). ticket_safe r)"

definition keys_unique :: "db \<Rightarrow> bool" where
  "keys_unique db \<longleftrightarrow> distinct (map d_id (desktops db)) \<and> distinct (map d_pve_vmid (desktops db))
     \<and> distinct (map s_id (sessions db)) \<and> distinct (map p_id (pools db))
     \<and> distinct (map p_name (pools db)) \<and> distinct (map c_id (clusters db))
     \<and> distinct (map t_id (templates db)) \<and> distinct (map entitlement_key (entitlements db))"

definition refs_valid :: "db \<Rightarrow> bool" where
  "refs_valid db \<longleftrightarrow>
     (\<forall>r\<in>set (sessions db). set_option (s_desktop_id r) \<subseteq> set (map d_id (desktops db)))
     \<and> set (map d_pool_id (desktops db)) \<subseteq> set (map p_id (pools db))
     \<and> set (map en_pool_id (entitlements db)) \<subseteq> set (map p_id (pools db))
     \<and> set (map p_template_id (pools db)) \<subseteq> set (map t_id (templates db))
     \<and> set (map p_cluster_id (pools db)) \<subseteq> set (map c_id (clusters db))
     \<and> set (map t_cluster_id (templates db)) \<subseteq> set (map c_id (clusters db))"

definition ranges_ok :: "db \<Rightarrow> bool" where
  "ranges_ok db \<longleftrightarrow> (\<forall>d\<in>set (desktops db). desktop_in_range d db)
     \<and> (\<forall>p\<in>set (pools db). p_vmid_range_start p < p_vmid_range_end p)
     \<and> sorted_wrt ranges_disjoint (pools db)"

lemma sorted_wrt_map_same:
  "(\<And>x y. R (f x) (f y) = R x y) \<Longrightarrow> sorted_wrt R (map f xs) = sorted_wrt R xs"
  by (induction xs) auto

lemma desktop_in_range_patch_pool:
  "pool_write_ok h \<Longrightarrow> desktop_in_range d db \<Longrightarrow> desktop_in_range d (patch_pool i h db)"
  unfolding desktop_in_range_def
proof (elim bexE conjE)
  fix p assume h: "pool_write_ok h" and p: "p \<in> set (pools db)" "p_id p = d_pool_id d"
    "in_pool_range p (d_pve_vmid d)"
  let ?q = "if p_id p = i then h p else p"
  have "?q \<in> set (pools (patch_pool i h db))" using p(1) by (auto simp: patch_pool_def)
  moreover have "p_id ?q = d_pool_id d \<and> in_pool_range ?q (d_pve_vmid d)"
    using h p(2,3) by (auto simp: pool_write_ok_def in_pool_range_def)
  ultimately show "\<exists>q\<in>set (pools (patch_pool i h db)). p_id q = d_pool_id d \<and> in_pool_range q (d_pve_vmid d)"
    by blast
qed

lemma desktop_in_range_same_pools:
  "pools db' = pools db \<Longrightarrow> desktop_in_range d db' = desktop_in_range d db"
  by (simp add: desktop_in_range_def)

lemma keeps_identity_fields:
  assumes "keeps_identity f"
  shows "d_id (f d) = d_id d" "d_pool_id (f d) = d_pool_id d" "d_pve_vmid (f d) = d_pve_vmid d"
    "d_pve_node (f d) = d_pve_node d" "d_name (f d) = d_name d"
  using assms by (auto simp: keeps_identity_def)

lemma detach_session_fields [simp]:
  "s_id (detach_session i r) = s_id r" "ticket_safe (detach_session i r) = ticket_safe r"
  "s_status (detach_session i r) = s_status r"
  "s_connection_info (detach_session i r) = s_connection_info r"
  by (auto simp: detach_session_def ticket_safe_def)

lemmas catalogue_defs =
  add_cluster_def add_template_def add_entitlement_def patch_template_def delete_cluster_row_def
  delete_template_row_def delete_entitlement_row_def

interpretation tickets: db_catalogue tickets_cleared
  by unfold_locales
    (auto simp: tickets_cleared_def patch_desktop_def patch_session_def patch_pool_def
      patch_cluster_def add_desktop_def delete_desktop_row_def add_session_def add_pool_def
      delete_pool_row_def add_audit_def prune_audit_def patch_token_def add_token_def
      session_write_ok_def catalogue_defs)

lemma map_key_if:
  "(\<And>x. k (f x) = k x) \<Longrightarrow> map k (map (\<lambda>x. if c x then f x else x) xs) = map k xs"
  by (induction xs) auto

lemma distinct_map_filter_key: "distinct (map k xs) \<Longrightarrow> distinct (map k (filter q xs))"
  by (induction xs) auto

interpretation keys: db_catalogue keys_unique
proof unfold_locales
  fix db :: db and f i assume "keys_unique db" "keeps_identity f"
  then show "keys_unique (patch_desktop i f db)"
    by (simp add: keys_unique_def patch_desktop_def keeps_identity_fields map_key_if del: map_map)
next
  fix db :: db and g i assume "keys_unique db" "session_write_ok g"
  then show "keys_unique (patch_session i g db)"
    by (simp add: keys_unique_def patch_session_def session_write_ok_def map_key_if del: map_map)
next
  fix db :: db and h i assume "keys_unique db" "pool_write_ok h"
  then show "keys_unique (patch_pool i h db)"
    by (simp add: keys_unique_def patch_pool_def pool_write_ok_def map_key_if del: map_map)
next
  fix db :: db and d assume "keys_unique db" "desktop_insert_ok d db"
  then show "keys_unique (add_desktop d db)"
    by (auto simp: keys_unique_def add_desktop_def desktop_insert_ok_def get_desktop_row_None)
next
  fix db :: db and i assume "keys_unique db"
  moreover have "map s_id (map (detach_session i) (sessions db)) = map s_id (sessions db)"
    by simp
  ultimately show "keys_unique (delete_desktop_row i db)"
    by (simp add: keys_unique_def delete_desktop_row_def distinct_map_filter_key del: map_map)
next
  fix db :: db and r assume "keys_unique db" "session_insert_ok r db"
  then show "keys_unique (add_session r db)"
    by (auto simp: keys_unique_def add_session_def session_insert_ok_def get_session_row_None)
next
  fix db :: db and p assume "keys_unique db" "pool_insert_ok p db"
  then show "keys_unique (add_pool p db)"
    by (auto simp: keys_unique_def add_pool_def pool_insert_ok_def get_pool_row_None)
next
  fix db :: db and i assume "keys_unique db"
  then show "keys_unique (delete_pool_row i db)"
    by (simp add: keys_unique_def delete_pool_row_def distinct_map_filter_key)
next
  fix db :: db and k :: "cluster \<Rightarrow> cluster" and i assume "keys_unique db" "\<And>c. c_id (k c) = c_id c"
  then show "keys_unique (patch_cluster i k db)"
    by (simp add: keys_unique_def patch_cluster_def map_key_if del: map_map)
next
  fix db :: db and tf i assume "keys_unique db" "template_write_ok tf"
  then show "keys_unique (patch_template i tf db)"
    by (simp add: keys_unique_def patch_template_def template_write_ok_def map_key_if del: map_map)
next
  fix db :: db and c assume "keys_unique db" "cluster_insert_ok c db"
  then show "keys_unique (add_cluster c db)"
    by (auto simp: keys_unique_def add_cluster_def cluster_insert_ok_def get_cluster_row_None)
next
  fix db :: db and t assume "keys_unique db" "template_insert_ok t db"
  then show "keys_unique (add_template t db)"
    by (auto simp: keys_unique_def add_template_def template_insert_ok_def get_template_row_None)
next
  fix db :: db and en assume "keys_unique db" "entitlement_insert_ok en db"
  then show "keys_unique (add_entitlement en db)"
    by (auto simp: keys_unique_def add_entitlement_def entitlement_insert_ok_def)
qed (simp_all add: keys_unique_def add_audit_def prune_audit_def patch_token_def add_token_def
    delete_cluster_row_def delete_template_row_def delete_entitlement_row_def distinct_map_filter_key)

lemma image_avoiding:
  assumes "f ` A \<subseteq> g ` B" "\<And>a. a \<in> A \<Longrightarrow> f a \<noteq> i"
  shows "f ` A \<subseteq> g ` {b \<in> B. g b \<noteq> i}"
proof (rule image_subsetI)
  fix a assume a: "a \<in> A"
  with assms(1) obtain b where "b \<in> B" "f a = g b" by blast
  with assms(2) [OF a] show "f a \<in> g ` {b \<in> B. g b \<noteq> i}" by auto
qed

interpretation refs: db_catalogue refs_valid
proof unfold_locales
  fix db :: db and f i assume "refs_valid db" "keeps_identity f"
  then show "refs_valid (patch_desktop i f db)"
    by (simp add: refs_valid_def patch_desktop_def keeps_identity_fields map_key_if
        del: map_map set_map)
next
  fix db :: db and g i assume "refs_valid db" "session_write_ok g"
  then show "refs_valid (patch_session i g db)"
    by (auto simp: refs_valid_def patch_session_def session_write_ok_def simp del: map_map)
next
  fix db :: db and h i assume "refs_valid db" "pool_write_ok h"
  then show "refs_valid (patch_pool i h db)"
    by (simp add: refs_valid_def patch_pool_def pool_write_ok_def map_key_if del: map_map set_map)
next
  fix db :: db and d assume "refs_valid db" "desktop_insert_ok d db"
  then show "refs_valid (add_desktop d db)"
    by (auto simp: refs_valid_def add_desktop_def desktop_insert_ok_def dest: get_row_image)
next
  fix db :: db and i assume r: "refs_valid db"
  have "set_option (s_desktop_id (detach_session i x)) \<subseteq> d_id ` {d \<in> set (desktops db). d_id d \<noteq> i}"
    if "x \<in> set (sessions db)" for x
    using r that by (auto simp: refs_valid_def detach_session_def)
  with r show "refs_valid (delete_desktop_row i db)"
    by (auto simp: refs_valid_def delete_desktop_row_def)
next
  fix db :: db and r assume "refs_valid db" "session_insert_ok r db"
  then show "refs_valid (add_session r db)"
    by (auto simp: refs_valid_def add_session_def session_insert_ok_def dest: get_row_image)
next
  fix db :: db and i
  assume r: "refs_valid db" and u: "\<And>d. d \<in> set (desktops db) \<Longrightarrow> d_pool_id d \<noteq> i"
  have "en_pool_id ` {en \<in> set (entitlements db). en_pool_id en \<noteq> i} \<subseteq> p_id ` {p \<in> set (pools db). p_id p \<noteq> i}"
    using r by (auto simp: refs_valid_def)
  moreover have "d_pool_id ` set (desktops db) \<subseteq> p_id ` {p \<in> set (pools db). p_id p \<noteq> i}"
    by (rule image_avoiding) (use r u in \<open>simp_all add: refs_valid_def\<close>)
  ultimately show "refs_valid (delete_pool_row i db)"
    using r by (auto simp: refs_valid_def delete_pool_row_def)
next
  fix db :: db and p assume "refs_valid db" "pool_insert_ok p db"
  then show "refs_valid (add_pool p db)"
    by (auto simp: refs_valid_def add_pool_def pool_insert_ok_def dest: get_row_image)
next
  fix db :: db and k :: "cluster \<Rightarrow> cluster" and i assume "refs_valid db" "\<And>c. c_id (k c) = c_id c"
  then show "refs_valid (patch_cluster i k db)"
    by (simp add: refs_valid_def patch_cluster_def map_key_if del: map_map set_map)
next
  fix db :: db and tf i assume "refs_valid db" "template_write_ok tf"
  then show "refs_valid (patch_template i tf db)"
    by (simp add: refs_valid_def patch_template_def template_write_ok_def map_key_if del: map_map set_map)
next
  fix db :: db and t assume "refs_valid db" "template_insert_ok t db"
  then show "refs_valid (add_template t db)"
    by (auto simp: refs_valid_def add_template_def template_insert_ok_def dest: get_row_image)
next
  fix db :: db and en assume "refs_valid db" "entitlement_insert_ok en db"
  then show "refs_valid (add_entitlement en db)"
    by (auto simp: refs_valid_def add_entitlement_def entitlement_insert_ok_def dest: get_row_image)
next
  fix db :: db and i
  assume r: "refs_valid db" and u: "\<And>p. p \<in> set (pools db) \<Longrightarrow> p_cluster_id p \<noteq> i"
    "\<And>t. t \<in> set (templates db) \<Longrightarrow> t_cluster_id t \<noteq> i"
  have "p_cluster_id ` set (pools db) \<subseteq> c_id ` {c \<in> set (clusters db). c_id c \<noteq> i}"
    by (rule image_avoiding) (use r u in \<open>simp_all add: refs_valid_def\<close>)
  moreover have "t_cluster_id ` set (templates db) \<subseteq> c_id ` {c \<in> set (clusters db). c_id c \<noteq> i}"
    by (rule image_avoiding) (use r u in \<open>simp_all add: refs_valid_def\<close>)
  ultimately show "refs_valid (delete_cluster_row i db)"
    using r by (simp add: refs_valid_def delete_cluster_row_def)
next
  fix db :: db and i
  assume r: "refs_valid db" and u: "\<And>p. p \<in> set (pools db) \<Longrightarrow> p_template_id p \<noteq> i"
  have "p_template_id ` set (pools db) \<subseteq> t_id ` {t \<in> set (templates db). t_id t \<noteq> i}"
    by (rule image_avoiding) (use r u in \<open>simp_all add: refs_valid_def\<close>)
  with r show "refs_valid (delete_template_row i db)"
    by (auto simp: refs_valid_def delete_template_row_def)
qed (auto simp: refs_valid_def add_audit_def prune_audit_def patch_token_def add_token_def
    add_cluster_def delete_entitlement_row_def)

interpretation ranges: db_catalogue ranges_ok
proof unfold_locales
  fix db :: db and f i assume "ranges_ok db" "keeps_identity f"
  then show "ranges_ok (patch_desktop i f db)"
    by (auto simp: ranges_ok_def patch_desktop_def desktop_in_range_def keeps_identity_fields)
next
  fix db :: db and h i assume r: "ranges_ok db" and h: "pool_write_ok h"
  have rd: "sorted_wrt ranges_disjoint (pools (patch_pool i h db))"
    using r h by (simp add: ranges_ok_def patch_pool_def pool_write_ok_def ranges_disjoint_def
        sorted_wrt_map_same)
  moreover have "\<forall>d\<in>set (desktops db). desktop_in_range d (patch_pool i h db)"
    using r h by (auto simp: ranges_ok_def intro: desktop_in_range_patch_pool)
  moreover have "\<forall>p\<in>set (pools (patch_pool i h db)). p_vmid_range_start p < p_vmid_range_end p"
    using r h by (auto simp: ranges_ok_def patch_pool_def pool_write_ok_def)
  ultimately show "ranges_ok (patch_pool i h db)"
    by (simp add: ranges_ok_def) (simp add: patch_pool_def)
next
  fix db :: db and d assume "ranges_ok db" "desktop_in_range d db"
  then show "ranges_ok (add_desktop d db)"
    by (auto simp: ranges_ok_def add_desktop_def desktop_in_range_def)
next
  fix db :: db and i assume "ranges_ok db"
  then show "ranges_ok (delete_desktop_row i db)"
    by (auto simp: ranges_ok_def delete_desktop_row_def desktop_in_range_def)
next
  fix db :: db and p
  assume "ranges_ok db" "pool_insert_ok p db" "\<And>q. q \<in> set (pools db) \<Longrightarrow> ranges_disjoint p q"
  moreover have "ranges_disjoint q p = ranges_disjoint p q" for q
    by (auto simp: ranges_disjoint_def)
  ultimately show "ranges_ok (add_pool p db)"
    by (auto simp: ranges_ok_def add_pool_def desktop_in_range_def sorted_wrt_append
        pool_insert_ok_def pool_check_ok_def)
next
  fix db :: db and i
  assume r: "ranges_ok db" and u: "\<And>d. d \<in> set (desktops db) \<Longrightarrow> d_pool_id d \<noteq> i"
  have "desktop_in_range d (delete_pool_row i db)" if "d \<in> set (desktops db)" for d
    using r u [OF that] that by (fastforce simp: ranges_ok_def desktop_in_range_def delete_pool_row_def)
  with r show "ranges_ok (delete_pool_row i db)"
    by (auto simp: ranges_ok_def delete_pool_row_def sorted_wrt_filter)
qed (auto simp: ranges_ok_def desktop_in_range_def patch_session_def patch_cluster_def
    add_session_def add_audit_def prune_audit_def patch_token_def add_token_def catalogue_defs)

text \<open>Disjoint ranges give every VMID to at most one pool.\<close>

lemma ranges_ok_vmid_pool_unique:
  assumes "ranges_ok db" "p \<in> set (pools db)" "q \<in> set (pools db)"
    "in_pool_range p v" "in_pool_range q v"
  shows "p = q"
proof (rule ccontr)
  assume "p \<noteq> q"
  have "\<And>xs. sorted_wrt ranges_disjoint xs \<Longrightarrow> p \<in> set xs \<Longrightarrow> q \<in> set xs \<Longrightarrow> p \<noteq> q \<Longrightarrow>
      ranges_disjoint p q"
  proof -
    fix xs show "sorted_wrt ranges_disjoint xs \<Longrightarrow> p \<in> set xs \<Longrightarrow> q \<in> set xs \<Longrightarrow> p \<noteq> q \<Longrightarrow>
      ranges_disjoint p q"
      by (induction xs) (auto simp: ranges_disjoint_def)
  qed
  from this [OF _ assms(2,3) \<open>p \<noteq> q\<close>] assms(1) have "ranges_disjoint p q"
    by (simp add: ranges_ok_def)
  with assms(4,5) show False by (auto simp: ranges_disjoint_def in_pool_range_def)
qed

end
