(* ===== verification/Session_Tracker.thy ===== *)
theory Session_Tracker
  imports Invariants
begin

text \<open>
  \<open>broker/app/services/audit_service.py\<close> and \<open>broker/app/services/session_tracker.py\<close>: the
  audit row every business event writes, and the session state machine. A transition gets
  the loaded session row; it checks the row's status and writes the row of the same id.
\<close>

section \<open>Audit rows\<close>

definition log_business_event ::
    "'w env \<Rightarrow> string \<Rightarrow> string \<Rightarrow> string option \<Rightarrow> uuid option \<Rightarrow> (string \<times> jval) list \<Rightarrow>
     string option \<Rightarrow> ('w, unit) prog" where
  "log_business_event E actor action rtype rid details ip =
     bnd (now E) (\<lambda>t. update_db (add_audit (\<lambda>n.
       \<lparr>a_id = n, a_timestamp = t, a_actor = actor, a_action = action, a_resource_type = rtype,
        a_resource_id = rid, a_details = JObj details, a_client_ip = ip\<rparr>)))"

section \<open>Transitions\<close>

definition transition_to_active :: "'w env \<Rightarrow> vdi_session \<Rightarrow> jval \<Rightarrow> ('w, unit) prog" where
  "transition_to_active E row info =
     (if s_status row \<noteq> S_CONNECTING
      then throw (InvalidSessionState (s_id row) (session_status_value (s_status row))
             ''transition_to_active'')
      else bnd (now E) (\<lambda>t. set_session (s_id row) (\<lambda>r. r\<lparr>s_status := S_ACTIVE,
             s_connection_info := Some info,
             s_connected_at := (case s_connected_at r of None \<Rightarrow> Some t | Some c \<Rightarrow> Some c)\<rparr>)))"

definition transition_to_disconnected :: "'w env \<Rightarrow> vdi_session \<Rightarrow> ('w, unit) prog" where
  "transition_to_disconnected E row =
     (if s_status row \<noteq> S_ACTIVE
      then throw (InvalidSessionState (s_id row) (session_status_value (s_status row))
             ''transition_to_disconnected'')
      else bnd (now E) (\<lambda>t. set_session (s_id row) (\<lambda>r. r\<lparr>s_status := S_DISCONNECTED,
             s_disconnected_at := Some t\<rparr>)))"

text \<open>What ending a session does to its desktop: floating assignments go back to the pool.\<close>

definition release_desktop :: "desktop \<Rightarrow> desktop" where
  "release_desktop d =
     (if d_assignment_type d = Some ''floating''
      then d\<lparr>d_assigned_user := None, d_assignment_type := None, d_status := D_AVAILABLE\<rparr>
      else d\<lparr>d_status := D_DISCONNECTED\<rparr>)"

definition transition_to_ended :: "'w env \<Rightarrow> vdi_session \<Rightarrow> ('w, unit) prog" where
  "transition_to_ended E row =
     (if s_status row = S_ENDED
      then throw (InvalidSessionState (s_id row) (session_status_value (s_status row))
             ''transition_to_ended'')
      else bnd (now E) (\<lambda>t.
        andthen (set_session (s_id row) (\<lambda>r. r\<lparr>s_status := S_ENDED, s_ended_at := Some t,
                   s_connection_info := None\<rparr>))
        (bnd (query (\<lambda>db. filter (\<lambda>d. Some (d_id d) = s_desktop_id row) (desktops db))) (\<lambda>rows.
         bnd (scalar_one rows) (\<lambda>d.
         set_desktop E (d_id d) release_desktop)))))"

section \<open>The state machine\<close>

text \<open>The table of legal moves in the header of \<open>session_tracker.py\<close>.\<close>

inductive session_move :: "session_status \<Rightarrow> session_status \<Rightarrow> bool" where
  activate: "session_move S_CONNECTING S_ACTIVE"
| disconnect: "session_move S_ACTIVE S_DISCONNECTED"
| end_connecting: "session_move S_CONNECTING S_ENDED"
| end_active: "session_move S_ACTIVE S_ENDED"
| end_disconnected: "session_move S_DISCONNECTED S_ENDED"

inductive_cases from_ended: "session_move S_ENDED x"
inductive_simps session_move_to: "session_move a b"

code_pred session_move .

lemma session_move_ended_iff: "session_move a S_ENDED \<longleftrightarrow> a \<noteq> S_ENDED"
  by (cases a) (auto simp: session_move_to)

text \<open>The rank of a status only grows along a move: a session cannot be revived.\<close>

fun status_rank :: "session_status \<Rightarrow> nat" where
  "status_rank S_CONNECTING = 0"
| "status_rank S_ACTIVE = 1"
| "status_rank S_DISCONNECTED = 2"
| "status_rank S_ENDED = 3"

lemma session_move_rank: "session_move a b \<Longrightarrow> status_rank a < status_rank b"
  by (induction rule: session_move.induct) auto

lemma session_moves_rank: "session_move\<^sup>+\<^sup>+ a b \<Longrightarrow> status_rank a < status_rank b"
  by (induction rule: tranclp_induct) (auto dest: session_move_rank)

section \<open>What the transitions write\<close>

lemma release_desktop_identity [simp]: "keeps_identity release_desktop"
  by (simp add: keeps_identity_def release_desktop_def)

lemma release_desktop_fields [simp]:
  "d_id (release_desktop d) = d_id d" "d_pool_id (release_desktop d) = d_pool_id d"
  "d_pve_vmid (release_desktop d) = d_pve_vmid d" "d_pve_node (release_desktop d) = d_pve_node d"
  "d_name (release_desktop d) = d_name d" "d_power_state (release_desktop d) = d_power_state d"
  "d_pve_task_upid (release_desktop d) = d_pve_task_upid d"
  by (simp_all add: release_desktop_def)

text \<open>The one way \<open>transition_to_ended\<close> succeeds, and its effect.\<close>

lemma transition_to_ended_run:
  assumes "s_status row \<noteq> S_ENDED"
    and "filter (\<lambda>d. Some (d_id d) = s_desktop_id row) (desktops (work s)) = [d]"
  shows "transition_to_ended E row s = (Inr (), s\<lparr>work :=
     patch_desktop (d_id d) (\<lambda>d. (release_desktop d)\<lparr>d_updated_at := e_now E (world s)\<rparr>)
       (patch_session (s_id row) (\<lambda>r. r\<lparr>s_status := S_ENDED,
          s_ended_at := Some (e_now E (world s)), s_connection_info := None\<rparr>) (work s))\<rparr>)"
  using assms by (simp add: transition_to_ended_def exec_simps)

lemma transition_to_ended_orphan:
  assumes "s_status row \<noteq> S_ENDED" "s_desktop_id row = None"
  shows "fst (transition_to_ended E row s) = Inl NoResultFound"
  using assms by (simp add: transition_to_ended_def exec_simps)

lemma transition_to_ended_ended:
  "s_status row = S_ENDED \<Longrightarrow>
   transition_to_ended E row s = (Inl (InvalidSessionState (s_id row) ''ended'' ''transition_to_ended''), s)"
  by (simp add: transition_to_ended_def exec_simps)

lemma desktop_filter_unique:
  assumes "keys_unique db" "get_desktop_row i db = Some d"
  shows "filter (\<lambda>x. Some (d_id x) = Some i) (desktops db) = [d]"
proof -
  from assms(2) have d: "d \<in> set (desktops db)" "d_id d = i" by (auto dest: get_desktop_rowD)
  from assms(1) have "distinct (map d_id (desktops db))" by (simp add: keys_unique_def)
  from filter_key_unique [OF this d(1)] d(2) show ?thesis by simp
qed

text \<open>
  The abstraction: a program meant to move the session of a loaded row to status \<open>b\<close> makes
  exactly that move of the machine, and refuses, touching nothing, where the machine has
  no move.
\<close>

definition implements_move :: "session_status \<Rightarrow> vdi_session \<Rightarrow> ('w, unit) prog \<Rightarrow> 'w st \<Rightarrow> bool" where
  "implements_move b row m s \<longleftrightarrow>
     (if session_move (s_status row) b
      then fst (m s) = Inr () \<and> committed (snd (m s)) = committed s
        \<and> (\<forall>j. map_option s_status (get_session_row j (work (snd (m s))))
             = (if j = s_id row then Some b else map_option s_status (get_session_row j (work s))))
      else (\<exists>attempted. m s = (Inl (InvalidSessionState (s_id row)
             (session_status_value (s_status row)) attempted), s)))"

lemma session_row_after_desktop_patch [simp]:
  "get_session_row j (patch_desktop i f db) = get_session_row j db"
  by (simp add: get_session_row_def patch_desktop_def)

lemma active_implements:
  assumes "get_session_row (s_id row) (work s) = Some row"
  shows "implements_move S_ACTIVE row (transition_to_active E row info) s"
  using assms
  by (auto simp: implements_move_def session_move_to transition_to_active_def exec_simps get_session_patch option.map_ident)

lemma disconnected_implements:
  assumes "get_session_row (s_id row) (work s) = Some row"
  shows "implements_move S_DISCONNECTED row (transition_to_disconnected E row) s"
  using assms
  by (auto simp: implements_move_def session_move_to transition_to_disconnected_def exec_simps get_session_patch option.map_ident)

lemma ended_implements:
  assumes "get_session_row (s_id row) (work s) = Some row" "keys_unique (work s)"
    and "s_desktop_id row = Some j" "get_desktop_row j (work s) = Some d"
  shows "implements_move S_ENDED row (transition_to_ended E row) s"
proof (cases "s_status row = S_ENDED")
  case True
  then show ?thesis
    by (simp add: implements_move_def session_move_ended_iff transition_to_ended_ended)
next
  case False
  from desktop_filter_unique [OF assms(2,4)] assms(3)
  have "filter (\<lambda>x. Some (d_id x) = s_desktop_id row) (desktops (work s)) = [d]" by simp
  from transition_to_ended_run [OF False this, of E] False assms(1) show ?thesis
    by (simp add: implements_move_def session_move_ended_iff get_session_patch option.map_ident)
qed

context db_writes begin

lemma pres_log_business_event: "pres (both I) (log_business_event E a b c d e f)"
  unfolding log_business_event_def by (intro pres_intros pres_prims)

lemma pres_transition_to_active: "pres (both I) (transition_to_active E row info)"
  unfolding transition_to_active_def
  by (intro pres_intros pres_prims) (auto simp: session_write_ok_def ticket_safe_def)

lemma pres_transition_to_disconnected: "pres (both I) (transition_to_disconnected E row)"
  unfolding transition_to_disconnected_def
  by (intro pres_intros pres_prims) (auto simp: session_write_ok_def ticket_safe_def)

lemma pres_transition_to_ended: "pres (both I) (transition_to_ended E row)"
  unfolding transition_to_ended_def
  by (intro pres_intros pres_prims) (auto simp: session_write_ok_def ticket_safe_def)

end

end
