(* ===== verification/Wait_Loops.thy ===== *)
theory Wait_Loops
  imports Store
begin

text \<open>
  The two deadline loops of \<open>broker/app/services/provisioner.py\<close>, \<open>_wait_for_agent\<close> and
  \<open>_wait_for_stopped\<close>: poll until the check holds or the monotonic clock passes the deadline.
  They end only because sleeping moves the clock, so the loop takes a number of
  iterations; \<open>clock_ok\<close> states what makes the number given here large enough.
\<close>

section \<open>Loops\<close>

primrec poll_until ::
    "'w env \<Rightarrow> ('w, bool) prog \<Rightarrow> int \<Rightarrow> int \<Rightarrow> string \<Rightarrow> nat \<Rightarrow> ('w, unit) prog" where
  "poll_until E check deadline interval msg 0 = throw OutOfFuel"
| "poll_until E check deadline interval msg (Suc n) =
     bnd (monotonic E) (\<lambda>t.
       if t < deadline
       then bnd check (\<lambda>ok.
         if ok then ret ()
         else andthen (sleep E interval) (poll_until E check deadline interval msg n))
       else throw (AsyncTimeout msg))"

definition agent_poll_fuel :: nat where
  "agent_poll_fuel = 46"

definition stopped_poll_fuel :: nat where
  "stopped_poll_fuel = 31"

definition wait_for_agent :: "'w env \<Rightarrow> 'w provider \<Rightarrow> vm_ref \<Rightarrow> ('w, unit) prog" where
  "wait_for_agent E P ref =
     bnd (monotonic E) (\<lambda>t0.
       poll_until E (prov (CallAgentPing ref) (pv_agent_ping P ref)) (t0 + 90000) 2000
         ''guest agent did not respond within 90s'' agent_poll_fuel)"

definition vm_is_stopped :: "'w provider \<Rightarrow> vm_ref \<Rightarrow> ('w, bool) prog" where
  "vm_is_stopped P ref =
     bnd (prov (CallGetStatus ref) (pv_get_vm_status P ref)) (\<lambda>v. ret (v_power_state v = ''stopped''))"

definition wait_for_stopped :: "'w env \<Rightarrow> 'w provider \<Rightarrow> vm_ref \<Rightarrow> ('w, unit) prog" where
  "wait_for_stopped E P ref =
     bnd (monotonic E) (\<lambda>t0.
       poll_until E (vm_is_stopped P ref) (t0 + 30000) 1000
         ''VM did not reach power_state=stopped within 30s'' stopped_poll_fuel)"

section \<open>The clock\<close>

text \<open>
  \<open>asyncio.sleep(t)\<close> lasts at least \<open>t\<close>, and no awaited provider call turns the monotonic
  clock back.
\<close>

definition clock_ok :: "'w env \<Rightarrow> 'w provider \<Rightarrow> bool" where
  "clock_ok E P \<longleftrightarrow> (\<forall>t w. 0 \<le> t \<longrightarrow> e_mono E w + t \<le> e_mono E (e_sleep E t w))
     \<and> (\<forall>r w. e_mono E w \<le> e_mono E (snd (pv_agent_ping P r w)))
     \<and> (\<forall>r w. e_mono E w \<le> e_mono E (snd (pv_get_vm_status P r w)))"

text \<open>What one polling check may do: keep \<open>J\<close>, raise \<open>C\<close>, and not turn the clock back.\<close>

definition check_ok :: "'w env \<Rightarrow> ('w st \<Rightarrow> bool) \<Rightarrow> (exn \<Rightarrow> bool) \<Rightarrow> ('w, bool) prog \<Rightarrow> bool" where
  "check_ok E J C check \<longleftrightarrow> (\<forall>s. J s \<longrightarrow>
     wp check (\<lambda>_ t. J t \<and> e_mono E (world s) \<le> e_mono E (world t)) (\<lambda>e t. C e \<and> J t) s)"

lemma poll_until_ends:
  assumes sleep: "\<And>t w. 0 \<le> t \<Longrightarrow> e_mono E w + t \<le> e_mono E (e_sleep E t w)"
    and check: "check_ok E J C check"
    and J: "\<And>s t. J s \<Longrightarrow> J (s\<lparr>world := e_sleep E t (world s)\<rparr>)"
    and "0 < interval" "J s" "deadline - e_mono E (world s) \<le> interval * int n"
  shows "wp (poll_until E check deadline interval msg (Suc n)) (\<lambda>_. J)
    (\<lambda>e t. (e = AsyncTimeout msg \<or> C e) \<and> J t) s"
  using assms(5,6)
proof (induction n arbitrary: s)
  case 0
  then show ?case by (simp add: wp_simps)
next
  case (Suc n)
  let ?X = "\<lambda>e t. (e = AsyncTimeout msg \<or> C e) \<and> J t"
  have step: "wp (if ok then ret () else andthen (sleep E interval)
      (poll_until E check deadline interval msg (Suc n))) (\<lambda>_. J) ?X t"
    if t: "J t" "e_mono E (world s) \<le> e_mono E (world t)" for ok t
  proof (cases ok)
    case False
    let ?t = "t\<lparr>world := e_sleep E interval (world t)\<rparr>"
    have "e_mono E (world s) + interval \<le> e_mono E (world ?t)"
      using sleep [of interval "world t"] t(2) \<open>0 < interval\<close> by simp
    with Suc.prems(2) have "deadline - e_mono E (world ?t) \<le> interval * int n"
      by (simp add: algebra_simps)
    from Suc.IH [OF J [OF t(1)] this] False show ?thesis
      by (simp add: wp_simps del: poll_until.simps)
  qed (simp add: wp_simps t)
  have "wp check (\<lambda>ok. wp (if ok then ret () else andthen (sleep E interval)
      (poll_until E check deadline interval msg (Suc n))) (\<lambda>_. J) ?X) ?X s"
    using check Suc.prems(1) unfolding check_ok_def
    by (auto intro!: step elim!: wp_mono simp del: poll_until.simps)
  with Suc.prems(1) show ?case
    by (subst poll_until.simps(2))
      (simp add: wp_simps del: poll_until.simps)
qed

lemma on_db_sleep: "on_db K s \<Longrightarrow> on_db K (s\<lparr>world := w\<rparr>)"
  by simp

lemma check_ok_ping:
  fixes E :: "'w env"
  assumes "clock_ok E P" "answers C (pv_agent_ping P ref)"
  shows "check_ok E (on_db K) C (prov (CallAgentPing ref) (pv_agent_ping P ref))"
  unfolding check_ok_def
proof (intro allI impI)
  fix s :: "'w st" assume J: "on_db K s"
  from assms(1) have "e_mono E (world s) \<le> e_mono E (snd (pv_agent_ping P ref (world s)))"
    by (simp add: clock_ok_def)
  moreover from assms(2) have "case fst (pv_agent_ping P ref (world s)) of Inl e \<Rightarrow> C e | Inr _ \<Rightarrow> True"
    unfolding answers_def by blast
  ultimately show "wp (prov (CallAgentPing ref) (pv_agent_ping P ref))
      (\<lambda>_ t. on_db K t \<and> e_mono E (world s) \<le> e_mono E (world t)) (\<lambda>e t. C e \<and> on_db K t) s"
    using J by (intro wp_prov) auto
qed

lemma check_ok_stopped:
  fixes E :: "'w env"
  assumes "clock_ok E P" "answers C (pv_get_vm_status P ref)"
  shows "check_ok E (on_db K) C (vm_is_stopped P ref)"
  unfolding check_ok_def
proof (intro allI impI)
  fix s :: "'w st" assume J: "on_db K s"
  from assms(1) have "e_mono E (world s) \<le> e_mono E (snd (pv_get_vm_status P ref (world s)))"
    by (simp add: clock_ok_def)
  moreover from assms(2) have "case fst (pv_get_vm_status P ref (world s)) of Inl e \<Rightarrow> C e | Inr _ \<Rightarrow> True"
    unfolding answers_def by blast
  ultimately show "wp (vm_is_stopped P ref)
      (\<lambda>_ t. on_db K t \<and> e_mono E (world s) \<le> e_mono E (world t)) (\<lambda>e t. C e \<and> on_db K t) s"
    using J unfolding vm_is_stopped_def wp_bnd wp_ret by (intro wp_prov) auto
qed

lemma wait_for_agent_ends:
  fixes E :: "'w env"
  assumes "clock_ok E P" "answers C (pv_agent_ping P ref)" "on_db K s"
  shows "wp (wait_for_agent E P ref) (\<lambda>_. on_db K)
    (\<lambda>e t. (e = AsyncTimeout ''guest agent did not respond within 90s'' \<or> C e) \<and> on_db K t) s"
  using poll_until_ends [OF _ check_ok_ping [OF assms(1,2)] _ _ assms(3),
      of "2000" "e_mono E (world s) + 90000" 45 "''guest agent did not respond within 90s''"] assms(1)
  by (simp add: wait_for_agent_def agent_poll_fuel_def wp_simps clock_ok_def numeral_eq_Suc
      del: poll_until.simps)

lemma wait_for_stopped_ends:
  fixes E :: "'w env"
  assumes "clock_ok E P" "answers C (pv_get_vm_status P ref)" "on_db K s"
  shows "wp (wait_for_stopped E P ref) (\<lambda>_. on_db K)
    (\<lambda>e t. (e = AsyncTimeout ''VM did not reach power_state=stopped within 30s'' \<or> C e) \<and> on_db K t) s"
  using poll_until_ends [OF _ check_ok_stopped [OF assms(1,2)] _ _ assms(3),
      of "1000" "e_mono E (world s) + 30000" 30 "''VM did not reach power_state=stopped within 30s''"] assms(1)
  by (simp add: wait_for_stopped_def stopped_poll_fuel_def wp_simps clock_ok_def numeral_eq_Suc
      del: poll_until.simps)

lemma safe_wait_for_agent:
  assumes "clock_ok E P" "answers C (pv_agent_ping P ref)" "\<And>m. C (AsyncTimeout m)"
  shows "safe (on_db K) C (wait_for_agent E P ref)"
  by (rule safeI, rule wp_mono [OF wait_for_agent_ends [OF assms(1,2)]]) (use assms(3) in auto)

lemma safe_wait_for_stopped:
  assumes "clock_ok E P" "answers C (pv_get_vm_status P ref)" "\<And>m. C (AsyncTimeout m)"
  shows "safe (on_db K) C (wait_for_stopped E P ref)"
  by (rule safeI, rule wp_mono [OF wait_for_stopped_ends [OF assms(1,2)]]) (use assms(3) in auto)

section \<open>A concrete environment\<close>

text \<open>
  A hypervisor on which everything works and whose world is its clock, with a guest agent
  that answers at once: it meets the hypotheses the theorems put on providers and clocks.
\<close>

definition sim_env :: "int env" where
  "sim_env = \<lparr>e_now = (\<lambda>w. w), e_mono = (\<lambda>w. w), e_sleep = (\<lambda>t w. w + t),
     e_uuid = (\<lambda>w. (1000 + nat w, w + 1)), e_uniform = (\<lambda>hi w. (0, w))\<rparr>"

definition sim_task :: task_handle where
  "sim_task = mk_task ''proxmox'' ''pve1'' ''UPID:pve1:1''"

definition sim_task_status :: task_status where
  "sim_task_status = \<lparr>ts_state = ''succeeded'', ts_success = Some True, ts_error_message = None\<rparr>"

definition sim_vm_status :: "vm_ref \<Rightarrow> vm_status" where
  "sim_vm_status r = \<lparr>v_ref = r, v_name = ''vm'', v_power_state = ''stopped'', v_cpu_cores = 2,
     v_memory_bytes = 4294967296, v_disk_bytes = 0, v_uptime_seconds = 0, v_is_template = False,
     v_guest_agent_configured = True, v_lock = None, v_tags = {}\<rparr>"

definition sim_provider :: "int provider" where
  "sim_provider = \<lparr>pv_type = ''proxmox'', pv_ping = (\<lambda>w. (Inr True, w)), pv_close = (\<lambda>w. (Inr (), w)),
     pv_list_nodes = (\<lambda>w. (Inr [], w)), pv_list_storage = (\<lambda>n w. (Inr [], w)),
     pv_clone_vm = (\<lambda>r w. (Inr sim_task, w)), pv_start_vm = (\<lambda>r w. (Inr sim_task, w)),
     pv_stop_vm = (\<lambda>r w. (Inr sim_task, w)), pv_shutdown_vm = (\<lambda>r t f w. (Inr sim_task, w)),
     pv_reboot_vm = (\<lambda>r w. (Inr sim_task, w)), pv_destroy_vm = (\<lambda>r p w. (Inr sim_task, w)),
     pv_get_vm_status = (\<lambda>r w. (Inr (sim_vm_status r), w)), pv_list_vms = (\<lambda>w. (Inr [], w)),
     pv_configure_vm = (\<lambda>r c w. (Inr (Some sim_task), w)),
     pv_create_snapshot = (\<lambda>r n d w. (Inr sim_task, w)),
     pv_rollback_snapshot = (\<lambda>r n w. (Inr sim_task, w)), pv_agent_ping = (\<lambda>r w. (Inr True, w)),
     pv_agent_get_users = (\<lambda>r w. (Inr [], w)), pv_agent_get_network = (\<lambda>r w. (Inr [], w)),
     pv_get_console_ticket = (\<lambda>r k w. (Inr (NoVNCTicket ''wss://pve1'' ''ticket'' None), w)),
     pv_get_task_status = (\<lambda>h w. (Inr sim_task_status, w)),
     pv_wait_for_task = (\<lambda>h t w. (Inr sim_task_status, w))\<rparr>"

definition sim_st :: "db \<Rightarrow> int st" where
  "sim_st db = \<lparr>committed = db, work = db, world = 0, calls = []\<rparr>"

lemma sim_clock_ok [simp]: "clock_ok sim_env sim_provider"
  by (simp add: clock_ok_def sim_env_def sim_provider_def)

lemma sim_provider_type [simp]: "pv_type sim_provider = ''proxmox''"
  by (simp add: sim_provider_def)

lemma sim_provider_contract [simp]: "provider_contract C sim_provider"
proof -
  have "ours_task sim_provider sim_task" by (auto simp: ours_task_def sim_task_def)
  then show ?thesis
    by (simp add: provider_contract_def answers_def gives_def) (simp add: sim_provider_def)
qed

lemma sim_st_simps [simp]:
  "committed (sim_st db) = db" "work (sim_st db) = db" "world (sim_st db) = 0" "calls (sim_st db) = []"
  by (simp_all add: sim_st_def)

section \<open>Properties\<close>

text \<open>
  Property C38. \<open>_wait_for_agent\<close> always returns: while sleeping moves the clock and pings do
  not turn it back, the loop ends within the iterations given to it, by an answered ping,
  by \<open>TimeoutError\<close>, or by what the ping itself raised; no table changes. The same holds for
  \<open>_wait_for_stopped\<close>.
\<close>

theorem wait_loops_return:
  assumes "clock_ok E P" "answers C (pv_agent_ping P ref)" "answers C (pv_get_vm_status P ref)"
  shows "wp (wait_for_agent E P ref)
      (\<lambda>_ t. committed t = committed s \<and> work t = work s)
      (\<lambda>e t. (e = AsyncTimeout ''guest agent did not respond within 90s'' \<or> C e)
        \<and> committed t = committed s \<and> work t = work s) s
    \<and> wp (wait_for_stopped E P ref)
      (\<lambda>_ t. committed t = committed s \<and> work t = work s)
      (\<lambda>e t. (e = AsyncTimeout ''VM did not reach power_state=stopped within 30s'' \<or> C e)
        \<and> committed t = committed s \<and> work t = work s) s"
  using wait_for_agent_ends [OF assms(1,2), where K = "\<lambda>a b. a = committed s \<and> b = work s" and s = s]
    wait_for_stopped_ends [OF assms(1,3), where K = "\<lambda>a b. a = committed s \<and> b = work s" and s = s]
  by (simp add: on_db_def [abs_def])

theorem wait_loops_return_witness:
  "wp (wait_for_agent sim_env sim_provider (mk_ref ''proxmox'' ''pve1'' 100))
      (\<lambda>_ t. committed t = empty_db \<and> work t = empty_db)
      (\<lambda>e t. (e = AsyncTimeout ''guest agent did not respond within 90s'' \<or> e = NotImplemented [])
        \<and> committed t = empty_db \<and> work t = empty_db) (sim_st empty_db)"
  using wait_loops_return [of sim_env sim_provider "\<lambda>e. e = NotImplemented []"
      "mk_ref ''proxmox'' ''pve1'' 100" "sim_st empty_db"]
    ours_mk_ref [of sim_provider "''pve1''" 100]
  by (simp add: contract_answers del: ours_mk_ref)

end
