(* ===== verification/Vmid_Allocator.thy ===== *)
theory Vmid_Allocator
  imports Session_Tracker Wait_Loops
begin

text \<open>
  \<open>broker/app/services/vmid_allocator.py\<close>: the lowest free VMID of a pool's range, and the
  check that a proposed range meets neither another pool nor a live VM of the cluster. The
  per-pool advisory lock serialises callers, which one transaction at a time already does.
\<close>

section \<open>Operations\<close>

definition used_vmids :: "pool \<Rightarrow> db \<Rightarrow> int list" where
  "used_vmids p db = sort (map d_pve_vmid
     (filter (\<lambda>d. d_pool_id d = p_id p \<and> in_pool_range p (d_pve_vmid d)) (desktops db)))"

definition allocate_vmid :: "pool \<Rightarrow> ('w, int) prog" where
  "allocate_vmid p =
     bnd (query (used_vmids p)) (\<lambda>used.
       case find (\<lambda>v. v \<notin> set used) [p_vmid_range_start p .. p_vmid_range_end p] of
         Some v \<Rightarrow> ret v
       | None \<Rightarrow> throw (VMIDRangeExhausted (p_id p) (p_vmid_range_start p) (p_vmid_range_end p)))"

definition overlapping_pools :: "int \<Rightarrow> int \<Rightarrow> uuid option \<Rightarrow> db \<Rightarrow> pool list" where
  "overlapping_pools start stop exclude db =
     filter (\<lambda>p. \<not> (p_vmid_range_end p < start \<or> stop < p_vmid_range_start p)
               \<and> (exclude = None \<or> Some (p_id p) \<noteq> exclude)) (pools db)"

definition db_conflicts :: "int \<Rightarrow> int \<Rightarrow> pool list \<Rightarrow> int list" where
  "db_conflicts start stop rows = sort (remdups (concat (map (\<lambda>p.
     [max (p_vmid_range_start p) start .. min (p_vmid_range_end p) stop]) rows)))"

definition live_conflicts :: "int \<Rightarrow> int \<Rightarrow> vm_status list \<Rightarrow> int list" where
  "live_conflicts start stop vms = concat (map (\<lambda>v.
     case jget (r_data (v_ref v)) ''vmid'' of
       None \<Rightarrow> []
     | Some x \<Rightarrow> (case j_int x of None \<Rightarrow> [] | Some n \<Rightarrow> if start \<le> n \<and> n \<le> stop then [n] else [])) vms)"

definition validate_pool_range ::
    "'w provider \<Rightarrow> int \<Rightarrow> int \<Rightarrow> uuid option \<Rightarrow> ('w, unit) prog" where
  "validate_pool_range P start stop exclude =
     bnd (query (overlapping_pools start stop exclude)) (\<lambda>rows.
     if rows \<noteq> [] then throw (VMIDRangeConflict (db_conflicts start stop rows) ''db'')
     else bnd (prov CallListVms (pv_list_vms P)) (\<lambda>vms.
       let cs = live_conflicts start stop vms in
       if cs \<noteq> [] then throw (VMIDRangeConflict (sort (remdups cs)) ''proxmox'') else ret ()))"

section \<open>Allocation\<close>

lemma set_used_vmids:
  "set (used_vmids p db) = {d_pve_vmid d |d. d \<in> set (desktops db) \<and> d_pool_id d = p_id p
     \<and> in_pool_range p (d_pve_vmid d)}"
  by (auto simp: used_vmids_def)

lemma find_upto_least:
  "find Q [a..b] = Some v \<longleftrightarrow> a \<le> v \<and> v \<le> b \<and> Q v \<and> (\<forall>u. a \<le> u \<and> u < v \<longrightarrow> \<not> Q u)"
proof (induction a b rule: upto.induct)
  case (1 a b)
  consider "b < a" | "a \<le> b" "Q a" | "a \<le> b" "\<not> Q a" by fastforce
  then show ?case
  proof cases
    case 1
    then show ?thesis by auto
  next
    case 2
    then have "find Q [a..b] = Some a" by (simp add: upto_rec1)
    with 2 show ?thesis by (auto simp: order.order_iff_strict)
  next
    case 3
    then have "find Q [a..b] = find Q [a + 1..b]" by (simp add: upto_rec1)
    moreover have "(a + 1 \<le> v \<and> v \<le> b \<and> Q v \<and> (\<forall>u. a + 1 \<le> u \<and> u < v \<longrightarrow> \<not> Q u))
        = (a \<le> v \<and> v \<le> b \<and> Q v \<and> (\<forall>u. a \<le> u \<and> u < v \<longrightarrow> \<not> Q u))"
    proof -
      have "a + 1 \<le> v \<longleftrightarrow> a \<le> v" if "Q v" using that 3 by (cases "v = a") auto
      moreover have "(\<forall>u. a + 1 \<le> u \<and> u < v \<longrightarrow> \<not> Q u) = (\<forall>u. a \<le> u \<and> u < v \<longrightarrow> \<not> Q u)"
      proof -
        have "a + 1 \<le> u \<longleftrightarrow> a \<le> u \<and> u \<noteq> a" for u :: int by linarith
        with 3 show ?thesis by auto
      qed
      ultimately show ?thesis by blast
    qed
    ultimately show ?thesis using "1.IH" [OF 3(1)] by simp
  qed
qed

lemma find_upto_None: "find Q [a..b] = None \<longleftrightarrow> (\<forall>v. a \<le> v \<and> v \<le> b \<longrightarrow> \<not> Q v)"
  by (auto simp: find_None_iff)

lemma allocate_vmid_state: "snd (allocate_vmid p s) = s"
  by (auto simp: allocate_vmid_def exec_simps split: option.splits)

lemma allocate_vmid_Inr:
  "fst (allocate_vmid p s) = Inr v \<longleftrightarrow>
     in_pool_range p v \<and> v \<notin> set (used_vmids p (work s))
     \<and> (\<forall>u. p_vmid_range_start p \<le> u \<and> u < v \<longrightarrow> u \<in> set (used_vmids p (work s)))"
proof -
  have "fst (allocate_vmid p s) = Inr v \<longleftrightarrow>
      find (\<lambda>v. v \<notin> set (used_vmids p (work s))) [p_vmid_range_start p .. p_vmid_range_end p] = Some v"
    by (auto simp: allocate_vmid_def exec_simps split: option.splits)
  then show ?thesis by (auto simp: find_upto_least in_pool_range_def)
qed

lemma allocate_vmid_Inl:
  "fst (allocate_vmid p s) = Inl e \<longleftrightarrow>
     e = VMIDRangeExhausted (p_id p) (p_vmid_range_start p) (p_vmid_range_end p)
     \<and> (\<forall>v. in_pool_range p v \<longrightarrow> v \<in> set (used_vmids p (work s)))"
proof -
  have "fst (allocate_vmid p s) = Inl e \<longleftrightarrow>
      find (\<lambda>v. v \<notin> set (used_vmids p (work s))) [p_vmid_range_start p .. p_vmid_range_end p] = None
      \<and> e = VMIDRangeExhausted (p_id p) (p_vmid_range_start p) (p_vmid_range_end p)"
    by (auto simp: allocate_vmid_def exec_simps split: option.splits)
  then show ?thesis by (auto simp: find_upto_None in_pool_range_def)
qed

text \<open>A VMID free in its pool is free in the whole table when ranges are disjoint.\<close>

lemma free_in_pool_free_everywhere:
  assumes "ranges_ok db" "p \<in> set (pools db)" "in_pool_range p v" "v \<notin> set (used_vmids p db)"
    and d: "d \<in> set (desktops db)"
  shows "d_pve_vmid d \<noteq> v"
proof
  assume v: "d_pve_vmid d = v"
  from assms(1) d obtain q where q: "q \<in> set (pools db)" "p_id q = d_pool_id d" "in_pool_range q v"
    unfolding ranges_ok_def desktop_in_range_def v [symmetric] by blast
  with assms(1-3) have "q = p" by (blast intro: ranges_ok_vmid_pool_unique)
  with q d v have "v \<in> set (used_vmids p db)" by (auto simp: set_used_vmids)
  with assms(4) show False by simp
qed

section \<open>Range validation\<close>

lemma set_db_conflicts:
  "v \<in> set (db_conflicts start stop rows) \<longleftrightarrow>
     start \<le> v \<and> v \<le> stop \<and> (\<exists>p\<in>set rows. in_pool_range p v)"
  by (auto simp: db_conflicts_def in_pool_range_def)

lemma sorted_db_conflicts:
  "sorted (db_conflicts a b rows) \<and> distinct (db_conflicts a b rows)"
  by (simp add: db_conflicts_def)

lemma overlapping_pools_empty:
  "overlapping_pools a b None db = [] \<longleftrightarrow>
     (\<forall>q\<in>set (pools db). p_vmid_range_end q < a \<or> b < p_vmid_range_start q)"
  by (auto simp: overlapping_pools_def filter_empty_conv)

text \<open>The VMID under which the hypervisor lists a VM, where it is a number.\<close>

definition listed_vmid :: "vm_status \<Rightarrow> int option" where
  "listed_vmid v = Option.bind (jget (r_data (v_ref v)) ''vmid'') j_int"

lemma set_live_conflicts:
  "n \<in> set (live_conflicts a b vms) \<longleftrightarrow> a \<le> n \<and> n \<le> b \<and> (\<exists>v\<in>set vms. listed_vmid v = Some n)"
proof -
  have "set (case jget (r_data (v_ref v)) ''vmid'' of None \<Rightarrow> [] | Some x \<Rightarrow> (case j_int x of None \<Rightarrow> []
      | Some n \<Rightarrow> if a \<le> n \<and> n \<le> b then [n] else [])) = {n. listed_vmid v = Some n \<and> a \<le> n \<and> n \<le> b}" for v
    by (cases "jget (r_data (v_ref v)) ''vmid''") (auto simp: listed_vmid_def split: option.splits)
  then show ?thesis by (auto simp: live_conflicts_def)
qed

lemma no_live_conflicts:
  "live_conflicts a b vms = [] \<longleftrightarrow> (\<forall>v\<in>set vms. \<forall>n. listed_vmid v = Some n \<longrightarrow> n < a \<or> b < n)"
proof -
  have "live_conflicts a b vms = [] \<longleftrightarrow> (\<forall>n. n \<notin> set (live_conflicts a b vms))"
    by (metis all_not_in_conv set_empty)
  then show ?thesis unfolding set_live_conflicts by (meson not_le)
qed

lemma validate_pool_range_Inr:
  "fst (validate_pool_range P a b ex s) = Inr () \<longleftrightarrow>
     overlapping_pools a b ex (work s) = []
     \<and> (\<exists>vms. fst (pv_list_vms P (world s)) = Inr vms \<and> live_conflicts a b vms = [])"
  by (auto simp: validate_pool_range_def exec_simps Let_def split: prod.splits sum.splits)

lemma validate_pool_range_db [simp]:
  "work (snd (validate_pool_range P a b ex s)) = work s"
  "committed (snd (validate_pool_range P a b ex s)) = committed s"
  by (auto simp: validate_pool_range_def exec_simps Let_def split: prod.splits sum.splits)

lemma validate_pool_range_disjoint:
  assumes "fst (validate_pool_range P (p_vmid_range_start p) (p_vmid_range_end p) None s) = Inr ()"
    and "q \<in> set (pools (work s))"
  shows "ranges_disjoint p q"
  using assms unfolding validate_pool_range_Inr overlapping_pools_empty
  by (auto simp: ranges_disjoint_def)

context db_writes begin

lemma pres_allocate_vmid: "pres (both I) (allocate_vmid p)"
  unfolding allocate_vmid_def by (intro pres_intros pres_prims)

lemma pres_validate_pool_range: "pres (both I) (validate_pool_range P a b ex)"
  unfolding validate_pool_range_def by (intro pres_intros pres_prims)

end

section \<open>Properties\<close>

text \<open>
  \<open>allocate_vmid\<close> returns exactly the lowest VMID of the pool's range that no
  desktop of the pool uses, raises \<open>VMIDRangeExhausted\<close> exactly when every VMID of the
  range is used, and changes nothing.
\<close>

theorem allocate_vmid_lowest_free:
  "(\<forall>v. fst (allocate_vmid p s) = Inr v \<longleftrightarrow>
      in_pool_range p v
      \<and> (\<forall>d\<in>set (desktops (work s)). d_pool_id d = p_id p \<longrightarrow> d_pve_vmid d \<noteq> v)
      \<and> (\<forall>u. p_vmid_range_start p \<le> u \<and> u < v \<longrightarrow>
            (\<exists>d\<in>set (desktops (work s)). d_pool_id d = p_id p \<and> d_pve_vmid d = u)))
   \<and> (\<forall>e. fst (allocate_vmid p s) = Inl e \<longleftrightarrow>
      e = VMIDRangeExhausted (p_id p) (p_vmid_range_start p) (p_vmid_range_end p)
      \<and> (\<forall>v. in_pool_range p v \<longrightarrow>
            (\<exists>d\<in>set (desktops (work s)). d_pool_id d = p_id p \<and> d_pve_vmid d = v)))
   \<and> snd (allocate_vmid p s) = s"
proof -
  have used: "v \<in> set (used_vmids p (work s)) \<longleftrightarrow> in_pool_range p v
      \<and> (\<exists>d\<in>set (desktops (work s)). d_pool_id d = p_id p \<and> d_pve_vmid d = v)" for v
    by (auto simp: set_used_vmids)
  have below: "in_pool_range p v \<Longrightarrow> p_vmid_range_start p \<le> u \<Longrightarrow> u < v \<Longrightarrow> in_pool_range p u" for u v
    by (simp add: in_pool_range_def)
  show ?thesis
    unfolding allocate_vmid_Inr allocate_vmid_Inl allocate_vmid_state used
    using below by blast
qed

definition example_pool :: pool where
  "example_pool = \<lparr>p_id = 1, p_name = ''eng'', p_display_name = ''Eng'', p_description = None,
     p_pool_type = NONPERSISTENT, p_template_id = 2, p_cluster_id = 3, p_min_spare = 1,
     p_max_size = 2, p_vmid_range_start = 100, p_vmid_range_end = 101, p_name_prefix = ''eng'',
     p_target_nodes = None, p_target_storage = None, p_cpu_cores = None, p_memory_mb = None,
     p_pve_pool_id = None, p_provider_config = JObj [], p_auto_logoff_min = 0,
     p_delete_on_logoff = False, p_refresh_on_logoff = True, p_status = P_ACTIVE,
     p_created_at = 0, p_updated_at = 0\<rparr>"

definition example_desktop :: desktop where
  "example_desktop = \<lparr>d_id = 10, d_pool_id = 1, d_pve_vmid = 100, d_pve_node = ''pve1'',
     d_name = ''eng-001'', d_assigned_user = None, d_assignment_type = None,
     d_status = D_AVAILABLE, d_power_state = ''running'', d_spice_enabled = False,
     d_last_connected = None, d_last_disconnected = None, d_provisioned_at = None,
     d_error_message = None, d_pve_task_upid = None, d_pve_task_kind = None,
     d_created_at = 0, d_updated_at = 0\<rparr>"

lemma example_pool_simps [simp]:
  "p_id example_pool = 1" "p_pool_type example_pool = NONPERSISTENT" "p_status example_pool = P_ACTIVE"
  "p_name example_pool = ''eng''" "p_cluster_id example_pool = 3" "p_template_id example_pool = 2"
  "p_refresh_on_logoff example_pool" "\<not> p_delete_on_logoff example_pool"
  "p_vmid_range_start example_pool = 100" "p_vmid_range_end example_pool = 101"
  "p_min_spare example_pool = 1" "p_max_size example_pool = 2"
  by (simp_all add: example_pool_def)

lemma example_desktop_simps [simp]:
  "d_id example_desktop = 10" "d_pool_id example_desktop = 1" "d_pve_vmid example_desktop = 100"
  "d_status example_desktop = D_AVAILABLE" "d_assigned_user example_desktop = None"
  "d_assignment_type example_desktop = None" "d_name example_desktop = ''eng-001''"
  "d_pve_task_upid example_desktop = None" "d_pve_task_kind example_desktop = None"
  by (simp_all add: example_desktop_def)

definition example_st :: "db \<Rightarrow> unit st" where
  "example_st db = \<lparr>committed = db, work = db, world = (), calls = []\<rparr>"

theorem allocate_vmid_lowest_free_witness:
  "fst (allocate_vmid example_pool (example_st (empty_db\<lparr>pools := [example_pool],
      desktops := [example_desktop]\<rparr>))) = Inr 101"
proof -
  let ?s = "example_st (empty_db\<lparr>pools := [example_pool], desktops := [example_desktop]\<rparr>)"
  have "\<exists>d\<in>set (desktops (work ?s)). d_pool_id d = p_id example_pool \<and> d_pve_vmid d = u"
    if "100 \<le> u \<and> u < (101 :: int)" for u
    using that by (auto simp: example_st_def example_pool_def example_desktop_def)
  then show ?thesis
    using allocate_vmid_lowest_free [of example_pool ?s]
    by (auto simp: example_st_def example_pool_def example_desktop_def in_pool_range_def)
qed

text \<open>
  While the pools' ranges are disjoint and every desktop lies in its pool's
  range, the VMID \<open>allocate_vmid\<close> hands out for a pool belongs to no desktop of any pool,
  so the row that reserves it meets the unique constraint on \<open>pve_vmid\<close>.
\<close>

theorem allocate_vmid_globally_free:
  assumes "ranges_ok (work s)" "p \<in> set (pools (work s))"
    and "fst (allocate_vmid p s) = Inr v"
  shows "\<forall>d\<in>set (desktops (work s)). d_pve_vmid d \<noteq> v"
  using assms free_in_pool_free_everywhere by (auto simp: allocate_vmid_Inr)

theorem allocate_vmid_globally_free_witness:
  "101 \<notin> d_pve_vmid ` set (desktops (work (example_st (empty_db\<lparr>pools := [example_pool],
      desktops := [example_desktop]\<rparr>))))"
proof -
  let ?s = "example_st (empty_db\<lparr>pools := [example_pool], desktops := [example_desktop]\<rparr>)"
  have "ranges_ok (work ?s)"
    by (simp add: ranges_ok_def desktop_in_range_def in_pool_range_def example_st_def
        example_pool_def example_desktop_def)
  moreover have "example_pool \<in> set (pools (work ?s))" by (simp add: example_st_def)
  moreover have "fst (allocate_vmid example_pool ?s) = Inr 101"
    by (simp add: allocate_vmid_def used_vmids_def exec_simps example_st_def example_pool_def
        example_desktop_def in_pool_range_def upto_rec1)
  ultimately have "\<forall>d\<in>set (desktops (work ?s)). d_pve_vmid d \<noteq> 101"
    by (rule allocate_vmid_globally_free)
  then show ?thesis by auto
qed

lemma db_conflict_raised:
  assumes "overlapping_pools a b ex (work s) \<noteq> []"
  shows "\<exists>cs. validate_pool_range P a b ex s = (Inl (VMIDRangeConflict cs ''db''), s)
    \<and> sorted cs \<and> distinct cs
    \<and> (\<forall>v. v \<in> set cs \<longleftrightarrow> a \<le> v \<and> v \<le> b \<and>
          (\<exists>q\<in>set (pools (work s)). ex \<noteq> Some (p_id q) \<and> in_pool_range q v))"
proof -
  let ?rows = "overlapping_pools a b ex (work s)"
  have "validate_pool_range P a b ex s = (Inl (VMIDRangeConflict (db_conflicts a b ?rows) ''db''), s)"
    using assms by (simp add: validate_pool_range_def exec_simps)
  moreover have "v \<in> set (db_conflicts a b ?rows) \<longleftrightarrow> a \<le> v \<and> v \<le> b \<and>
      (\<exists>q\<in>set (pools (work s)). ex \<noteq> Some (p_id q) \<and> in_pool_range q v)" for v
    unfolding set_db_conflicts by (auto simp: overlapping_pools_def in_pool_range_def)
  ultimately show ?thesis using sorted_db_conflicts by blast
qed

lemma live_conflict_raised:
  assumes "overlapping_pools a b ex (work s) = []" "pv_list_vms P (world s) = (Inr vms, w)"
    and "v \<in> set vms" "listed_vmid v = Some n" "a \<le> n" "n \<le> b"
  shows "\<exists>cs. fst (validate_pool_range P a b ex s) = Inl (VMIDRangeConflict cs ''proxmox'')
    \<and> sorted cs \<and> distinct cs
    \<and> (\<forall>m. m \<in> set cs \<longleftrightarrow> a \<le> m \<and> m \<le> b \<and> (\<exists>v\<in>set vms. listed_vmid v = Some m))"
proof -
  have "live_conflicts a b vms \<noteq> []" using assms(3-6) by (fastforce simp: no_live_conflicts)
  with assms(1,2) have "fst (validate_pool_range P a b ex s)
      = Inl (VMIDRangeConflict (sort (remdups (live_conflicts a b vms))) ''proxmox'')"
    by (simp add: validate_pool_range_def exec_simps Let_def)
  then show ?thesis by (simp add: set_live_conflicts)
qed

text \<open>
  Property C25. \<open>validate_pool_range\<close> accepts a range exactly when no other pool's range
  meets it and the hypervisor answers with VMs whose VMIDs all lie outside it. A clash with the pools
  raises the sorted, duplicate-free list of exactly the VMIDs both ranges hold, and the
  hypervisor is not asked; without one, a clash with live VMs raises the sorted, duplicate-free list of exactly
  the listed VMIDs in the range, and an error of the hypervisor is passed on.
\<close>

theorem validate_pool_range_exact:
  "(fst (validate_pool_range P a b ex s) = Inr () \<longleftrightarrow>
      (\<forall>q\<in>set (pools (work s)). ex = Some (p_id q) \<or> p_vmid_range_end q < a \<or> b < p_vmid_range_start q)
      \<and> (\<exists>vms. fst (pv_list_vms P (world s)) = Inr vms
          \<and> (\<forall>v\<in>set vms. \<forall>n. listed_vmid v = Some n \<longrightarrow> n < a \<or> b < n)))
   \<and> ((\<exists>q\<in>set (pools (work s)). ex \<noteq> Some (p_id q) \<and> a \<le> p_vmid_range_end q \<and> p_vmid_range_start q \<le> b) \<longrightarrow>
      (\<exists>cs. validate_pool_range P a b ex s = (Inl (VMIDRangeConflict cs ''db''), s)
         \<and> sorted cs \<and> distinct cs
         \<and> (\<forall>v. v \<in> set cs \<longleftrightarrow> a \<le> v \<and> v \<le> b \<and>
               (\<exists>q\<in>set (pools (work s)). ex \<noteq> Some (p_id q) \<and> in_pool_range q v))))
   \<and> ((\<forall>q\<in>set (pools (work s)). ex = Some (p_id q) \<or> p_vmid_range_end q < a \<or> b < p_vmid_range_start q) \<longrightarrow>
      (\<forall>e. fst (pv_list_vms P (world s)) = Inl e \<longrightarrow> fst (validate_pool_range P a b ex s) = Inl e)
      \<and> (\<forall>vms v n. fst (pv_list_vms P (world s)) = Inr vms \<and> v \<in> set vms \<and> listed_vmid v = Some n \<and> a \<le> n \<and> n \<le> b \<longrightarrow>
           (\<exists>cs. fst (validate_pool_range P a b ex s) = Inl (VMIDRangeConflict cs ''proxmox'')
              \<and> sorted cs \<and> distinct cs
              \<and> (\<forall>m. m \<in> set cs \<longleftrightarrow> a \<le> m \<and> m \<le> b \<and> (\<exists>v\<in>set vms. listed_vmid v = Some m)))))"
proof -
  have free: "overlapping_pools a b ex (work s) = [] \<longleftrightarrow>
      (\<forall>q\<in>set (pools (work s)). ex = Some (p_id q) \<or> p_vmid_range_end q < a \<or> b < p_vmid_range_start q)"
    by (auto simp: overlapping_pools_def filter_empty_conv)
  then have clash: "overlapping_pools a b ex (work s) \<noteq> []"
    if "\<exists>q\<in>set (pools (work s)). ex \<noteq> Some (p_id q) \<and> a \<le> p_vmid_range_end q \<and> p_vmid_range_start q \<le> b"
    using that by (meson not_le)
  have failing: "fst (validate_pool_range P a b ex s) = Inl e"
    if "overlapping_pools a b ex (work s) = []" "fst (pv_list_vms P (world s)) = Inl e" for e
    using that by (auto simp: validate_pool_range_def exec_simps split: prod.split)
  have live: "\<exists>cs. fst (validate_pool_range P a b ex s) = Inl (VMIDRangeConflict cs ''proxmox'')
      \<and> sorted cs \<and> distinct cs
      \<and> (\<forall>m. m \<in> set cs \<longleftrightarrow> a \<le> m \<and> m \<le> b \<and> (\<exists>v\<in>set vms. listed_vmid v = Some m))"
    if "overlapping_pools a b ex (work s) = []" "fst (pv_list_vms P (world s)) = Inr vms"
      "v \<in> set vms" "listed_vmid v = Some n" "a \<le> n" "n \<le> b" for vms v n
    using that live_conflict_raised [where w = "snd (pv_list_vms P (world s))" and P = P and s = s and vms = vms]
    by (metis prod.collapse)
  show ?thesis
    unfolding validate_pool_range_Inr no_live_conflicts free [symmetric]
    using db_conflict_raised [OF clash] failing live by blast
qed

text \<open>A range below the existing pool's is accepted while the hypervisor lists no VM.\<close>

theorem validate_pool_range_exact_witness:
  "fst (validate_pool_range sim_provider 10 20 None
      (sim_st (empty_db\<lparr>pools := [example_pool], desktops := [example_desktop]\<rparr>))) = Inr ()"
  using validate_pool_range_exact [of sim_provider 10 20 None
      "sim_st (empty_db\<lparr>pools := [example_pool], desktops := [example_desktop]\<rparr>)"]
  by (simp add: sim_st_def sim_provider_def example_pool_def)

end
