(* ===== verification/Provisioner.thy ===== *)
theory Provisioner
  imports Vmid_Allocator
begin

text \<open>
  \<open>broker/app/services/provisioner.py\<close>: building a desktop's VM, the refresh cycle of a
  non-persistent desktop at logoff, and the delete cycle. The \<open>try\<close> body of each cycle is
  one definition, split where the code numbers its steps; the \<open>except\<close> branch is the
  handler of \<open>catching\<close>. A cycle returns the id of the desktop row it worked on.
  The texts of \<open>InvalidDesktopState\<close> are abbreviated.
\<close>

section \<open>Names and tags\<close>

definition is_slug_char :: "char \<Rightarrow> bool" where
  "is_slug_char c \<longleftrightarrow> (let n = of_char c :: nat in
     97 \<le> n \<and> n \<le> 122 \<or> 48 \<le> n \<and> n \<le> 57 \<or> n = 95 \<or> n = 45)"

text \<open>\<open>re.sub("[...]+", "-", s)\<close>: each maximal run of characters in \<open>p\<close> becomes one dash.\<close>

function sub_runs :: "(char \<Rightarrow> bool) \<Rightarrow> string \<Rightarrow> string" where
  "sub_runs p [] = []"
| "sub_runs p (c # cs) =
     (if p c then CHR ''-'' # sub_runs p (dropWhile p cs) else c # sub_runs p cs)"
  by pat_completeness auto
termination
  by (relation "measure (length \<circ> snd)") (auto simp: less_Suc_eq_le length_dropWhile_le)

definition slugify :: "string \<Rightarrow> string" where
  "slugify value =
     (let s = sub_runs (\<lambda>c. \<not> is_slug_char c) (py_lower value)
      in strip_with (\<lambda>c. c = CHR ''-'') (sub_runs (\<lambda>c. c = CHR ''-'') s))"

text \<open>\<open>POOL_NAME_PATTERN\<close> of \<open>schemas/pool.py\<close>.\<close>

definition pool_name_ok :: "string \<Rightarrow> bool" where
  "pool_name_ok s \<longleftrightarrow> s \<noteq> [] \<and> length s \<le> 64 \<and> list_all is_slug_char s
     \<and> hd s \<notin> {CHR ''-'', CHR ''_''} \<and> last s \<notin> {CHR ''-'', CHR ''_''}"

text \<open>A Python \<open>str | None\<close> in a condition.\<close>

fun truthy :: "string option \<Rightarrow> bool" where
  "truthy None = False"
| "truthy (Some s) = (s \<noteq> [])"

definition assigned_suffix :: "string option \<Rightarrow> string" where
  "assigned_suffix user = (if truthy user then '' assigned='' @ the user else [])"

section \<open>Provisioning\<close>

definition desktop_name :: "pool \<Rightarrow> int \<Rightarrow> string" where
  "desktop_name p vmid = p_name_prefix p @ ''-'' @ fmt_03d (vmid - p_vmid_range_start p + 1)"

definition pick_target_node :: "pool \<Rightarrow> vdi_template \<Rightarrow> string" where
  "pick_target_node p t =
     (if truthy (p_target_nodes p)
      then py_strip (hd (split_on CHR '','' (the (p_target_nodes p)))) else t_pve_node t)"

definition initial_assignment :: "pool \<Rightarrow> string option \<Rightarrow> string option" where
  "initial_assignment p user =
     (if truthy user \<and> p_pool_type p = PERSISTENT then Some ''persistent'' else None)"

definition new_desktop :: "pool \<Rightarrow> vdi_template \<Rightarrow> string option \<Rightarrow> int \<Rightarrow> uuid \<Rightarrow> int \<Rightarrow> desktop" where
  "new_desktop p t user vmid i at =
     \<lparr>d_id = i, d_pool_id = p_id p, d_pve_vmid = vmid, d_pve_node = pick_target_node p t,
      d_name = desktop_name p vmid, d_assigned_user = user,
      d_assignment_type = initial_assignment p user, d_status = D_PROVISIONING,
      d_power_state = ''stopped'', d_spice_enabled = False, d_last_connected = None,
      d_last_disconnected = None, d_provisioned_at = None, d_error_message = None,
      d_pve_task_upid = None, d_pve_task_kind = None, d_created_at = at, d_updated_at = at\<rparr>"

definition reset_desktop :: "pool \<Rightarrow> string option \<Rightarrow> desktop \<Rightarrow> desktop" where
  "reset_desktop p user d = d\<lparr>d_status := D_PROVISIONING, d_error_message := None,
     d_power_state := ''stopped'', d_provisioned_at := None, d_pve_task_upid := None,
     d_pve_task_kind := None, d_assigned_user := user,
     d_assignment_type := initial_assignment p user\<rparr>"

text \<open>Step 1: the row the rest of the flow works on, as (id, VMID, name, node).\<close>

definition reserve_desktop ::
    "'w env \<Rightarrow> pool \<Rightarrow> vdi_template \<Rightarrow> string option \<Rightarrow> desktop option \<Rightarrow>
     ('w, uuid \<times> int \<times> string \<times> string) prog" where
  "reserve_desktop E p t user existing =
     (case existing of
        None \<Rightarrow>
          bnd (allocate_vmid p) (\<lambda>vmid.
          bnd (gen_uuid E) (\<lambda>i.
          bnd (now E) (\<lambda>at.
          andthen (insert_desktop (new_desktop p t user vmid i at))
          (ret (i, vmid, desktop_name p vmid, pick_target_node p t)))))
      | Some d \<Rightarrow>
          andthen (set_desktop E (d_id d) (reset_desktop p user))
          (ret (d_id d, d_pve_vmid d, d_name d, d_pve_node d)))"

definition clone_request_for ::
    "pool \<Rightarrow> vdi_template \<Rightarrow> string option \<Rightarrow> int \<Rightarrow> string \<Rightarrow> string \<Rightarrow> clone_request" where
  "clone_request_for p t user vmid name node =
     \<lparr>cr_source_ref = mk_ref ''proxmox'' (t_pve_node t) (t_pve_vmid t), cr_new_name = name,
      cr_target_node = Some node, cr_target_storage = p_target_storage p,
      cr_target_pool = p_pve_pool_id p,
      cr_description = Some (''OpenVDI: pool='' @ p_name p @ '' assigned='' @
        (if truthy user then the user else ''none'')),
      cr_provider_opts = JObj [(''newid'', JInt vmid)]\<rparr>"

text \<open>\<open>handle.data["upid"]\<close>; the column holds a string, anything else is refused.\<close>

definition handle_upid :: "task_handle \<Rightarrow> ('w, string) prog" where
  "handle_upid h = (case jget (h_data h) ''upid'' of Some (JStr u) \<Rightarrow> ret u | _ \<Rightarrow> throw (PyKeyError ''upid''))"

definition tag_set :: "pool \<Rightarrow> string option \<Rightarrow> string set" where
  "tag_set p user =
     {''openvdi-managed'', ''openvdi-pool-'' @ slugify (p_name p),
      ''openvdi-type-'' @ pool_type_value (p_pool_type p)}
     \<union> (if truthy user then {''openvdi-user-'' @ slugify (the user)} else {})"

definition config_changes :: "pool \<Rightarrow> vdi_template \<Rightarrow> string option \<Rightarrow> vm_config" where
  "config_changes p t user = empty_config
     \<lparr>vc_cpu_cores := (if p_cpu_cores p \<noteq> None \<and> p_cpu_cores p \<noteq> Some (t_cpu_cores t)
                       then p_cpu_cores p else None),
      vc_memory_mb := (if p_memory_mb p \<noteq> None \<and> p_memory_mb p \<noteq> Some (t_memory_mb t)
                       then p_memory_mb p else None),
      vc_tags := Some (tag_set p user),
      vc_description := Some (''OpenVDI: pool='' @ p_name p @ '' type='' @
        pool_type_value (p_pool_type p) @ assigned_suffix user)\<rparr>"

text \<open>\<open>await provider.wait_for_task(h, timeout_seconds=t)\<close>.\<close>

definition wait_task :: "'w provider \<Rightarrow> task_handle option \<Rightarrow> int \<Rightarrow> ('w, unit) prog" where
  "wait_task P h t = andthen (prov (CallWait h t) (pv_wait_for_task P h t)) (ret ())"

definition start_and_wait :: "'w env \<Rightarrow> 'w provider \<Rightarrow> uuid \<Rightarrow> vm_ref \<Rightarrow> ('w, unit) prog" where
  "start_and_wait E P i ref =
     bnd (prov (CallStart ref) (pv_start_vm P ref)) (\<lambda>h.
     andthen (wait_task P (Some h) 60)
     (andthen (set_desktop E i (\<lambda>d. d\<lparr>d_power_state := ''running''\<rparr>))
     (wait_for_agent E P ref)))"

text \<open>Step 2: dispatch the clone and commit its UPID; \<open>pve_task_kind\<close> is not written.\<close>

definition dispatch_clone ::
    "'w env \<Rightarrow> 'w provider \<Rightarrow> clone_request \<Rightarrow> uuid \<Rightarrow> ('w, task_handle) prog" where
  "dispatch_clone E P req i =
     bnd (prov (CallClone req) (pv_clone_vm P req)) (\<lambda>h.
     bnd (handle_upid h) (\<lambda>u.
     andthen (set_desktop E i (\<lambda>d. d\<lparr>d_pve_task_upid := Some u\<rparr>))
     (andthen commit (ret h))))"

text \<open>Steps 2 to 4: clone, then configure.\<close>

definition clone_and_configure ::
    "'w env \<Rightarrow> 'w provider \<Rightarrow> pool \<Rightarrow> vdi_template \<Rightarrow> string option \<Rightarrow>
     uuid \<Rightarrow> int \<Rightarrow> string \<Rightarrow> string \<Rightarrow> ('w, unit) prog" where
  "clone_and_configure E P p t user i vmid name node =
     (let ref = mk_ref ''proxmox'' node vmid in
      bnd (dispatch_clone E P (clone_request_for p t user vmid name node) i) (\<lambda>h.
      andthen (wait_task P (Some h) 600)
      (bnd (prov (CallConfigure ref (config_changes p t user))
              (pv_configure_vm P ref (config_changes p t user))) (\<lambda>c.
       wait_task P c 60))))"

text \<open>Step 7-alt: quiesce, shut down, take the clean baseline, start again.\<close>

definition take_baseline :: "'w env \<Rightarrow> 'w provider \<Rightarrow> uuid \<Rightarrow> vm_ref \<Rightarrow> ('w, unit) prog" where
  "take_baseline E P i ref =
     andthen (sleep E 60000)
     (bnd (prov (CallShutdown ref 120 True) (pv_shutdown_vm P ref 120 True)) (\<lambda>h.
      andthen (wait_task P (Some h) 180)
      (andthen (set_desktop E i (\<lambda>d. d\<lparr>d_power_state := ''stopped''\<rparr>))
      (bnd (prov (CallSnapshot ref ''openvdi-base'')
              (pv_create_snapshot P ref ''openvdi-base'' (Some ''OpenVDI clean baseline''))) (\<lambda>h2.
       andthen (wait_task P (Some h2) 120)
       (start_and_wait E P i ref))))))"

definition final_status :: "pool \<Rightarrow> string option \<Rightarrow> desktop_status" where
  "final_status p user =
     (if p_pool_type p = PERSISTENT \<and> truthy user then D_ASSIGNED else D_AVAILABLE)"

definition build_vm ::
    "'w env \<Rightarrow> 'w provider \<Rightarrow> pool \<Rightarrow> vdi_template \<Rightarrow> string option \<Rightarrow>
     uuid \<Rightarrow> int \<Rightarrow> string \<Rightarrow> string \<Rightarrow> ('w, unit) prog" where
  "build_vm E P p t user i vmid name node =
     (let ref = mk_ref ''proxmox'' node vmid in
      andthen (clone_and_configure E P p t user i vmid name node)
      (andthen (start_and_wait E P i ref)
      (do_when (p_pool_type p \<noteq> PERSISTENT) (take_baseline E P i ref))))"

definition mark_built :: "'w env \<Rightarrow> pool \<Rightarrow> string option \<Rightarrow> uuid \<Rightarrow> ('w, unit) prog" where
  "mark_built E p user i =
     bnd (now E) (\<lambda>at.
     andthen (set_desktop E i (\<lambda>d. d\<lparr>d_status := final_status p user, d_provisioned_at := Some at,
        d_pve_task_upid := None\<rparr>))
     commit)"

definition provision_caught :: "exn \<Rightarrow> bool" where
  "provision_caught e \<longleftrightarrow> is_provider_error e \<or> is_async_timeout e \<or> is_pool_inactive e"

definition exn_text :: "exn \<Rightarrow> string" where
  "exn_text e = exn_name e @ '': '' @ exn_str e"

definition mark_build_failed :: "'w env \<Rightarrow> uuid \<Rightarrow> exn \<Rightarrow> ('w, unit) prog" where
  "mark_build_failed E i e =
     andthen (set_desktop E i (\<lambda>d. d\<lparr>d_status := D_ERROR, d_error_message := Some (exn_text e),
        d_pve_task_upid := None\<rparr>))
     commit"

definition provision_desktop ::
    "'w env \<Rightarrow> 'w provider \<Rightarrow> pool \<Rightarrow> vdi_template \<Rightarrow> string option \<Rightarrow> desktop option \<Rightarrow>
     ('w, uuid) prog" where
  "provision_desktop E P p t user existing =
     (if p_status p \<noteq> P_ACTIVE
      then throw (PoolInactive (p_name p) (pool_status_value (p_status p)))
      else bnd (reserve_desktop E p t user existing) (\<lambda>(i, vmid, name, node).
        andthen
          (catching provision_caught
             (andthen (build_vm E P p t user i vmid name node) (mark_built E p user i))
             (mark_build_failed E i))
          (ret i)))"

section \<open>Refresh on logoff\<close>

definition floating_cleared :: "desktop \<Rightarrow> desktop" where
  "floating_cleared d =
     (if d_assignment_type d = Some ''floating''
      then d\<lparr>d_assigned_user := None, d_assignment_type := None\<rparr> else d)"

definition enter_cycle :: "desktop_status \<Rightarrow> desktop \<Rightarrow> desktop" where
  "enter_cycle st d = d\<lparr>d_status := st, d_error_message := None, d_pve_task_upid := None,
     d_pve_task_kind := None\<rparr>"

definition desktop_vm_ref :: "'w provider \<Rightarrow> desktop \<Rightarrow> vm_ref" where
  "desktop_vm_ref P d = mk_ref (pv_type P) (d_pve_node d) (d_pve_vmid d)"

definition refresh_vm :: "'w env \<Rightarrow> 'w provider \<Rightarrow> vm_ref \<Rightarrow> ('w, unit) prog" where
  "refresh_vm E P ref =
     bnd (prov (CallGetStatus ref) (pv_get_vm_status P ref)) (\<lambda>v.
     andthen (do_when (v_power_state v = ''running'')
       (bnd (prov (CallShutdown ref 120 True) (pv_shutdown_vm P ref 120 True)) (\<lambda>h.
        wait_task P (Some h) 60)))
     (andthen (wait_for_stopped E P ref)
     (bnd (prov (CallRollback ref ''openvdi-base'') (pv_rollback_snapshot P ref ''openvdi-base'')) (\<lambda>h.
      andthen (wait_task P (Some h) 300)
      (bnd (prov (CallStart ref) (pv_start_vm P ref)) (\<lambda>h2.
       andthen (wait_task P (Some h2) 60)
       (wait_for_agent E P ref)))))))"

definition cycle_caught :: "exn \<Rightarrow> bool" where
  "cycle_caught e \<longleftrightarrow> is_provider_error e \<or> is_async_timeout e"

definition mark_refreshed :: "'w env \<Rightarrow> uuid \<Rightarrow> ('w, uuid option) prog" where
  "mark_refreshed E i =
     bnd (now E) (\<lambda>at.
     andthen (set_desktop E i (\<lambda>d. (floating_cleared
        (d\<lparr>d_status := D_AVAILABLE, d_power_state := ''running'', d_error_message := None\<rparr>))
        \<lparr>d_last_disconnected := Some at\<rparr>))
     (andthen commit (ret (Some i))))"

definition mark_refresh_failed :: "'w env \<Rightarrow> uuid \<Rightarrow> exn \<Rightarrow> ('w, uuid option) prog" where
  "mark_refresh_failed E i e =
     andthen rollback
     (bnd (query (get_desktop_row i)) (\<lambda>row.
      case row of
        None \<Rightarrow> ret None
      | Some _ \<Rightarrow>
          andthen (set_desktop E i (\<lambda>d. floating_cleared (d\<lparr>d_status := D_ERROR,
             d_error_message := Some (take 1024 (''refresh failed: '' @ exn_text e))\<rparr>)))
          (andthen commit (ret (Some i)))))"

definition refresh_desktop :: "'w env \<Rightarrow> 'w provider \<Rightarrow> uuid \<Rightarrow> ('w, uuid option) prog" where
  "refresh_desktop E P i =
     bnd (query (get_desktop_row i)) (\<lambda>row.
     case row of None \<Rightarrow> throw (DesktopNotFound i) | Some d \<Rightarrow>
     bnd (query (get_pool_row (d_pool_id d))) (\<lambda>prow.
     case prow of None \<Rightarrow> throw (InvalidDesktopState ''pool not found'') | Some p \<Rightarrow>
       if p_pool_type p \<noteq> NONPERSISTENT
       then throw (InvalidDesktopState ''only applies to non-persistent pools'')
       else if \<not> p_refresh_on_logoff p
       then throw (InvalidDesktopState ''refresh_on_logoff=false'')
       else if d_status d \<in> {D_DELETING, D_MAINTENANCE, D_PROVISIONING}
       then throw (InvalidDesktopState ''refusing to refresh'')
       else
         andthen (set_desktop E i (enter_cycle D_PROVISIONING))
         (andthen commit
         (catching cycle_caught
           (andthen (refresh_vm E P (desktop_vm_ref P d)) (mark_refreshed E i))
           (mark_refresh_failed E i)))))"

section \<open>Delete on logoff\<close>

definition destroy_vm_cycle :: "'w env \<Rightarrow> 'w provider \<Rightarrow> vm_ref \<Rightarrow> ('w, unit) prog" where
  "destroy_vm_cycle E P ref =
     bnd (prov (CallGetStatus ref) (pv_get_vm_status P ref)) (\<lambda>v.
     andthen (do_when (v_power_state v = ''running'')
       (bnd (prov (CallStop ref) (pv_stop_vm P ref)) (\<lambda>h. wait_task P (Some h) 60)))
     (andthen (wait_for_stopped E P ref)
     (bnd (prov (CallDestroy ref) (pv_destroy_vm P ref True)) (\<lambda>h.
      wait_task P (Some h) 300))))"

definition mark_delete_failed :: "'w env \<Rightarrow> uuid \<Rightarrow> exn \<Rightarrow> ('w, unit) prog" where
  "mark_delete_failed E i e =
     andthen rollback
     (bnd (query (get_desktop_row i)) (\<lambda>row.
      case row of
        None \<Rightarrow> ret ()
      | Some _ \<Rightarrow>
          andthen (set_desktop E i (\<lambda>d. d\<lparr>d_status := D_ERROR, d_error_message :=
             Some (take 1024 (''delete-on-logoff failed: '' @ exn_text e))\<rparr>))
          commit))"

definition delete_desktop_on_logoff :: "'w env \<Rightarrow> 'w provider \<Rightarrow> uuid \<Rightarrow> ('w, unit) prog" where
  "delete_desktop_on_logoff E P i =
     bnd (query (get_desktop_row i)) (\<lambda>row.
     case row of None \<Rightarrow> throw (DesktopNotFound i) | Some d \<Rightarrow>
     bnd (query (get_pool_row (d_pool_id d))) (\<lambda>prow.
     case prow of None \<Rightarrow> throw (InvalidDesktopState ''pool not found'') | Some p \<Rightarrow>
       if p_pool_type p \<noteq> NONPERSISTENT
       then throw (InvalidDesktopState ''only applies to non-persistent pools'')
       else if \<not> p_delete_on_logoff p
       then throw (InvalidDesktopState ''delete_on_logoff=false'')
       else if d_status d = D_DELETING
       then throw (InvalidDesktopState ''already being deleted'')
       else
         andthen (set_desktop E i (enter_cycle D_DELETING))
         (andthen commit
         (catching cycle_caught
           (andthen (destroy_vm_cycle E P (desktop_vm_ref P d))
             (andthen (update_db (delete_desktop_row i)) commit))
           (mark_delete_failed E i)))))"

section \<open>The cycles keep the tables' invariants\<close>

lemma writes_keep_identity [simp]:
  "keeps_identity (reset_desktop p user)" "keeps_identity (enter_cycle st)"
  "keeps_identity floating_cleared"
  "keeps_identity (\<lambda>d. d\<lparr>d_status := st\<rparr>)" "keeps_identity (\<lambda>d. d\<lparr>d_power_state := ps\<rparr>)"
  "keeps_identity (\<lambda>d. d\<lparr>d_pve_task_upid := u\<rparr>)"
  by (simp_all add: keeps_identity_def reset_desktop_def enter_cycle_def floating_cleared_def)

context db_writes begin

lemma pres_poll_until: "pres (both I) check \<Longrightarrow> pres (both I) (poll_until E check d i m n)"
  by (induction n) (auto intro!: pres_intros pres_prims)

lemma pres_wait_for_agent: "pres (both I) (wait_for_agent E P ref)"
  unfolding wait_for_agent_def by (intro pres_intros pres_prims pres_poll_until)

lemma pres_wait_for_stopped: "pres (both I) (wait_for_stopped E P ref)"
  unfolding wait_for_stopped_def vm_is_stopped_def
  by (intro pres_intros pres_prims pres_poll_until)

lemma pres_wait_task: "pres (both I) (wait_task P h t)"
  unfolding wait_task_def by (intro pres_intros pres_prims)

lemma pres_handle_upid: "pres (both I) (handle_upid h)"
  by (auto simp: handle_upid_def intro: pres_ret pres_throw split: option.splits jval.splits)

lemmas pres_steps = pres_wait_for_agent pres_wait_for_stopped pres_wait_task pres_handle_upid

lemma pres_insert_new_desktop:
  assumes "\<And>db. I db \<Longrightarrow> pool_current p db" "both I s" "in_pool_range p v"
  shows "both I (snd (insert_desktop (new_desktop p t user v i at) s))"
proof -
  from assms have "desktop_in_range (new_desktop p t user v i at) (work s)"
    by (force simp: both_def desktop_in_range_def new_desktop_def pool_current_def in_pool_range_def)
  with assms(2) show ?thesis by (auto simp: exec_simps both_def desktop_add)
qed

lemma pres_reserve_desktop:
  assumes cur: "\<And>db. I db \<Longrightarrow> pool_current p db"
  shows "pres (both I) (reserve_desktop E p t user ex)"
proof (cases ex)
  case (Some d)
  then show ?thesis
    unfolding reserve_desktop_def by simp (intro pres_intros pres_prims writes_keep_identity)
next
  case None
  show ?thesis unfolding pres_def
  proof (intro allI impI)
    fix s :: "'a st" assume J: "both I s"
    show "both I (snd (reserve_desktop E p t user ex s))"
    proof (cases "fst (allocate_vmid p s)")
      case (Inl e)
      then have "allocate_vmid p s = (Inl e, s)"
        using allocate_vmid_state [of p s] by (metis prod.collapse)
      with None J show ?thesis by (simp add: reserve_desktop_def exec_simps)
    next
      case (Inr v)
      then have run: "allocate_vmid p s = (Inr v, s)"
        using allocate_vmid_state [of p s] by (metis prod.collapse)
      from Inr have v: "in_pool_range p v" by (simp add: allocate_vmid_Inr)
      obtain i w where u: "e_uuid E (world s) = (i, w)" by (cases "e_uuid E (world s)")
      from J have J': "both I (s\<lparr>world := w\<rparr>)" by (simp add: both_def)
      let ?d = "new_desktop p t user v i (e_now E w)"
      have "both I (snd (insert_desktop ?d (s\<lparr>world := w\<rparr>)))"
        by (rule pres_insert_new_desktop [OF cur J' v])
      then show ?thesis
        using None run u
        by (cases "desktop_insert_ok ?d (work s)") (simp_all add: reserve_desktop_def exec_simps)
    qed
  qed
qed

lemma pres_provision_desktop:
  assumes "\<And>db. I db \<Longrightarrow> pool_current p db"
  shows "pres (both I) (provision_desktop E P p t user ex)"
  unfolding provision_desktop_def build_vm_def clone_and_configure_def dispatch_clone_def start_and_wait_def
    take_baseline_def mark_built_def mark_build_failed_def
  by (intro pres_intros pres_prims pres_steps pres_reserve_desktop assms writes_keep_identity)
    (auto simp: keeps_identity_def)

lemma pres_rebuild_desktop: "pres (both I) (provision_desktop E P p t user (Some d))"
  unfolding provision_desktop_def build_vm_def clone_and_configure_def dispatch_clone_def start_and_wait_def
    take_baseline_def mark_built_def mark_build_failed_def reserve_desktop_def option.case
  by (intro pres_intros pres_prims pres_steps writes_keep_identity)
    (auto simp: keeps_identity_def)

lemma pres_refresh_desktop: "pres (both I) (refresh_desktop E P i)"
  unfolding refresh_desktop_def refresh_vm_def mark_refreshed_def mark_refresh_failed_def
  by (intro pres_intros pres_prims pres_steps writes_keep_identity)
    (auto simp: keeps_identity_def floating_cleared_def)

lemma pres_delete_desktop_on_logoff: "pres (both I) (delete_desktop_on_logoff E P i)"
  unfolding delete_desktop_on_logoff_def destroy_vm_cycle_def mark_delete_failed_def
  by (intro pres_intros pres_prims pres_steps writes_keep_identity) (auto simp: keeps_identity_def)

end

section \<open>Outcome of a build\<close>

definition same_place :: "desktop \<Rightarrow> desktop \<Rightarrow> bool" where
  "same_place d u \<longleftrightarrow> d_id d = d_id u \<and> d_pool_id d = d_pool_id u \<and> d_pve_vmid d = d_pve_vmid u
     \<and> d_pve_node d = d_pve_node u \<and> d_name d = d_name u"

text \<open>The row being built: where \<open>u\<close> put it, with \<open>u\<close>'s assignment and no error yet.\<close>

definition built_row :: "desktop \<Rightarrow> db \<Rightarrow> bool" where
  "built_row u db \<longleftrightarrow> (\<exists>d. get_desktop_row (d_id u) db = Some d \<and> same_place d u
     \<and> d_assigned_user d = d_assigned_user u \<and> d_assignment_type d = d_assignment_type u
     \<and> d_error_message d = None)"

text \<open>The two rows a build may leave behind.\<close>

definition build_outcome :: "pool \<Rightarrow> string option \<Rightarrow> desktop \<Rightarrow> db \<Rightarrow> bool" where
  "build_outcome p user u db \<longleftrightarrow> (\<exists>d. get_desktop_row (d_id u) db = Some d \<and> same_place d u
     \<and> d_assigned_user d = d_assigned_user u \<and> d_assignment_type d = d_assignment_type u
     \<and> d_pve_task_upid d = None
     \<and> (d_status d = final_status p user \<and> d_error_message d = None \<and> d_provisioned_at d \<noteq> None
        \<or> d_status d = D_ERROR \<and> d_error_message d \<noteq> None))"

abbreviation building :: "desktop \<Rightarrow> 'w st \<Rightarrow> bool" where
  "building u \<equiv> on_db (\<lambda>_. built_row u)"

lemma built_row_patch:
  assumes "built_row u b"
    "\<And>d. d_id (f d) = d_id d \<and> same_place (f d) d \<and> d_assigned_user (f d) = d_assigned_user d
       \<and> d_assignment_type (f d) = d_assignment_type d \<and> d_error_message (f d) = d_error_message d"
  shows "built_row u (patch_desktop (d_id u) (\<lambda>d. (f d)\<lparr>d_updated_at := t\<rparr>) b)"
  using assms by (auto simp: built_row_def get_desktop_patch same_place_def)

lemma safe_build_write:
  "(\<And>d. d_id (f d) = d_id d \<and> same_place (f d) d \<and> d_assigned_user (f d) = d_assigned_user d
       \<and> d_assignment_type (f d) = d_assignment_type d \<and> d_error_message (f d) = d_error_message d) \<Longrightarrow>
   safe (building u) C (set_desktop E (d_id u) f)"
  by (rule safe_set_desktop) (rule built_row_patch)

lemma provision_caught_simps [simp]:
  "provision_caught (AsyncTimeout m)" "provision_caught (ProviderError k ty m)"
  by (simp_all add: provision_caught_def)

lemma cycle_caught_simps [simp]: "cycle_caught (AsyncTimeout m)" "cycle_caught (ProviderError k ty m)"
  by (simp_all add: cycle_caught_def)

lemma handle_upid_mk: "handle_upid (mk_task ty node u) = ret u"
  by (simp add: handle_upid_def mk_task_def)

lemma safe_handle_upid: "ours_task P h \<Longrightarrow> safe J C (handle_upid h)"
  by (auto simp: ours_task_def handle_upid_mk intro: safe_ret)

lemma safe_wait_task:
  "provider_contract C P \<Longrightarrow> ours_wait P h \<Longrightarrow> safe (on_db K) C (wait_task P h t)"
  unfolding wait_task_def by (intro safe_intros safe_prov contract_answers)

lemma safe_start_and_wait:
  assumes "provider_contract C P" "clock_ok E P" "\<And>m. C (AsyncTimeout m)" "ours P ref"
  shows "safe (building u) C (start_and_wait E P (d_id u) ref)"
  unfolding start_and_wait_def
  by (intro contract_calls safe_intros safe_wait_task safe_wait_for_agent safe_build_write
      contract_answers assms) (auto simp: same_place_def)

lemma bnd_assoc: "bnd (bnd m f) g = bnd m (\<lambda>a. bnd (f a) g)"
  by (auto simp: bnd_def fun_eq_iff split: prod.splits sum.splits)

lemma bnd_andthen: "bnd (andthen m n) g = andthen m (bnd n g)"
  by (simp add: andthen_def bnd_assoc)

lemma safe_build_vm:
  assumes "provider_contract C P" "clock_ok E P" "pv_type P = ''proxmox''" "\<And>m. C (AsyncTimeout m)"
  shows "safe (building u) C (build_vm E P p t user (d_id u) vmid name node)"
proof -
  have ref: "ours P (mk_ref ''proxmox'' node vmid)" using ours_mk_ref [of P] assms(3) by simp
  then have "ours_clone P (clone_request_for p t user vmid name node)"
    using ours_mk_ref [of P] assms(3) by (simp add: ours_clone_def clone_request_for_def)
  with ref show ?thesis
    unfolding build_vm_def clone_and_configure_def dispatch_clone_def take_baseline_def Let_def
      bnd_assoc bnd_andthen bnd_ret
    by (intro contract_calls safe_andthen safe_when safe_bnd [OF safe_handle_upid] safe_wait_task
        safe_sleep safe_commit safe_start_and_wait safe_build_write safe_ret assms)
      (auto simp: same_place_def)
qed

text \<open>The calls of a successful build, in order.\<close>

definition build_calls :: "pool \<Rightarrow> vdi_template \<Rightarrow> string option \<Rightarrow> int \<Rightarrow> string \<Rightarrow> string \<Rightarrow> call list" where
  "build_calls p t user vmid name node =
     (let ref = mk_ref ''proxmox'' node vmid in
      [CallClone (clone_request_for p t user vmid name node), CallWait None 600,
       CallConfigure ref (config_changes p t user), CallWait None 60,
       CallStart ref, CallWait None 60]
      @ (if p_pool_type p = PERSISTENT then []
         else [CallShutdown ref 120 True, CallWait None 180,
               CallSnapshot ref ''openvdi-base'', CallWait None 120,
               CallStart ref, CallWait None 60]))"

lemma emits_poll_until: "emits check {[]} \<Longrightarrow> emits (poll_until E check d i m n) {[]}"
proof (induction n)
  case (Suc n)
  then have "emits (if ok then ret () else andthen (sleep E i) (poll_until E check d i m n)) {[]}" for ok
    using emits_andthen [OF emits_silent(7) [of E i]] by (cases ok) (auto intro: emits_silent)
  then have "emits (bnd check (\<lambda>ok. if ok then ret ()
      else andthen (sleep E i) (poll_until E check d i m n))) {[]}"
    by (rule emits_bnd [OF Suc.prems, of _ "{[]}", simplified])
  then have "emits (if t < d then bnd check (\<lambda>ok. if ok then ret ()
      else andthen (sleep E i) (poll_until E check d i m n)) else throw (AsyncTimeout m)) {[]}" for t
    by (auto intro: emits_silent)
  from emits_bnd [OF emits_silent(6) [of E] this] show ?case by simp
qed (simp add: emits_silent)

lemma emits_wait_for_agent: "emits (wait_for_agent E P ref) {[]}"
proof -
  have "emits (prov (CallAgentPing ref) (pv_agent_ping P ref)) {[]}"
    using emits_prov [of "CallAgentPing ref" "pv_agent_ping P ref"] by simp
  from emits_bnd [OF emits_silent(6) [of E] emits_poll_until [OF this]] show ?thesis
    by (simp add: wait_for_agent_def)
qed

lemma emits_wait_task: "emits (wait_task P h t) {[CallWait None t]}"
  unfolding wait_task_def
  using emits_andthen [OF emits_prov [of "CallWait h t" "pv_wait_for_task P h t"] emits_silent(1)] by simp

lemma emits_handle_upid: "emits (handle_upid h) {[]}"
  by (auto simp: handle_upid_def intro: emits_silent split: option.splits jval.splits)

lemma emits_start_and_wait: "emits (start_and_wait E P i ref) {[CallStart ref, CallWait None 60]}"
proof -
  have "emits (start_and_wait E P i ref)
    (then_calls {if is_poll (CallStart ref) then [] else [call_shape (CallStart ref)]}
      (then_calls {[CallWait None 60]} (then_calls {[]} {[]})))"
    unfolding start_and_wait_def
    by (intro emits_intros emits_wait_task emits_wait_for_agent)
  then show ?thesis by simp
qed

lemma emits_clone_and_configure:
  "emits (clone_and_configure E P p t user i vmid name node)
    {[CallClone (clone_request_for p t user vmid name node), CallWait None 600,
      CallConfigure (mk_ref ''proxmox'' node vmid) (config_changes p t user), CallWait None 60]}"
proof -
  let ?c = "CallClone (clone_request_for p t user vmid name node)"
  let ?g = "CallConfigure (mk_ref ''proxmox'' node vmid) (config_changes p t user)"
  have "emits (clone_and_configure E P p t user i vmid name node)
    (then_calls (then_calls {if is_poll ?c then [] else [call_shape ?c]}
        (then_calls {[]} (then_calls {[]} (then_calls {[]} {[]}))))
      (then_calls {[CallWait None 600]} (then_calls {if is_poll ?g then [] else [call_shape ?g]}
        {[CallWait None 60]})))"
    unfolding clone_and_configure_def dispatch_clone_def Let_def
    by (intro emits_intros emits_wait_task emits_handle_upid)
  then show ?thesis by simp
qed

lemma emits_take_baseline:
  "emits (take_baseline E P i ref)
    {[CallShutdown ref 120 True, CallWait None 180, CallSnapshot ref ''openvdi-base'',
      CallWait None 120, CallStart ref, CallWait None 60]}"
proof -
  let ?c = "CallShutdown ref 120 True"
  let ?g = "CallSnapshot ref ''openvdi-base''"
  have "emits (take_baseline E P i ref)
    (then_calls {[]} (then_calls {if is_poll ?c then [] else [call_shape ?c]} (then_calls {[CallWait None 180]}
      (then_calls {[]} (then_calls {if is_poll ?g then [] else [call_shape ?g]}
        (then_calls {[CallWait None 120]} {[CallStart ref, CallWait None 60]}))))))"
    unfolding take_baseline_def
    by (intro emits_intros emits_wait_task emits_start_and_wait)
  then show ?thesis by simp
qed

lemma emits_build_vm:
  "emits (build_vm E P p t user i vmid name node) {build_calls p t user vmid name node}"
proof -
  let ?ref = "mk_ref ''proxmox'' node vmid"
  have "emits (build_vm E P p t user i vmid name node)
    (then_calls {[CallClone (clone_request_for p t user vmid name node), CallWait None 600,
      CallConfigure ?ref (config_changes p t user), CallWait None 60]}
    (then_calls {[CallStart ?ref, CallWait None 60]}
      (if p_pool_type p \<noteq> PERSISTENT then {[CallShutdown ?ref 120 True, CallWait None 180,
        CallSnapshot ?ref ''openvdi-base'', CallWait None 120, CallStart ?ref, CallWait None 60]}
       else {[]})))"
    unfolding build_vm_def Let_def
    by (intro emits_andthen emits_clone_and_configure emits_start_and_wait emits_when_if emits_take_baseline)
  then show ?thesis
    by (cases "p_pool_type p = PERSISTENT") (simp_all add: build_calls_def Let_def)
qed

lemma built_outcome_ok:
  assumes "built_row u db" and "st = final_status p user"
  shows "build_outcome p user u (patch_desktop (d_id u) (\<lambda>d. d\<lparr>d_status := st,
     d_provisioned_at := Some at, d_pve_task_upid := None, d_updated_at := at\<rparr>) db)"
  using assms by (auto simp: built_row_def build_outcome_def get_desktop_patch same_place_def)

lemma built_outcome_failed:
  assumes "built_row u db"
  shows "build_outcome p user u (patch_desktop (d_id u) (\<lambda>d. d\<lparr>d_status := D_ERROR,
     d_error_message := Some m, d_pve_task_upid := None, d_updated_at := at\<rparr>) db)"
  using assms by (auto simp: built_row_def build_outcome_def get_desktop_patch same_place_def)

definition row_ok :: "uuid \<Rightarrow> db \<Rightarrow> bool" where
  "row_ok i db \<longleftrightarrow> (\<forall>d. get_desktop_row i db = Some d \<longrightarrow> d_status d \<noteq> D_ERROR)"

text \<open>From a reserved row, the guarded part always ends with one of the two outcomes.\<close>

lemma build_guarded:
  assumes P: "provider_contract provision_caught P" "clock_ok E P" "pv_type P = ''proxmox''"
    and s: "built_row u (work s)"
  shows "wp (catching provision_caught
             (andthen (build_vm E P p t user (d_id u) vmid name node) (mark_built E p user (d_id u)))
             (mark_build_failed E (d_id u)))
    (\<lambda>_ r. committed r = work r \<and> build_outcome p user u (work r)
       \<and> (row_ok (d_id u) (work r) \<longrightarrow>
            call_trace (calls r) = call_trace (calls s) @ build_calls p t user vmid name node))
    (\<lambda>_ _. False) s"
proof -
  let ?X = "\<lambda>e r. provision_caught e \<and> building u r"
  let ?tr = "\<lambda>r. call_trace (calls r) = call_trace (calls s) @ build_calls p t user vmid name node"
  have s': "building u s" using s by (simp add: on_db_def)
  have "wp (build_vm E P p t user (d_id u) vmid name node) (\<lambda>_. building u) ?X s"
    by (rule safeD [OF safe_build_vm [OF P] s']) simp
  moreover have "wp (build_vm E P p t user (d_id u) vmid name node) (\<lambda>_. ?tr) (\<lambda>_ _. True) s"
    using emits_build_vm [of E P p t user "d_id u" vmid name node] by (simp add: emits_def)
  ultimately have *: "wp (build_vm E P p t user (d_id u) vmid name node)
      (\<lambda>a r. building u r \<and> ?tr r) (\<lambda>e r. ?X e r \<and> True) s"
    by (rule wp_conj)
  have err: "\<not> row_ok (d_id u) (patch_desktop (d_id u) (\<lambda>d. d\<lparr>d_status := D_ERROR,
     d_error_message := Some m, d_pve_task_upid := None, d_updated_at := at\<rparr>) db)"
    if "built_row u db" for m at db
    using that by (auto simp: row_ok_def built_row_def get_desktop_patch)
  show ?thesis
    unfolding wp_catching wp_andthen
    by (rule wp_mono [OF *])
      (auto simp: mark_built_def mark_build_failed_def wp_simps on_db_def err
        intro: built_outcome_ok built_outcome_failed)
qed

lemma provision_from_reserved:
  assumes "p_status p = P_ACTIVE" "reserve_desktop E p t user ex s = (Inr (i, vmid, name, node), s')"
    and "wp (catching provision_caught
             (andthen (build_vm E P p t user i vmid name node) (mark_built E p user i))
             (mark_build_failed E i)) (\<lambda>_ r. Q r) X s'"
  shows "wp (provision_desktop E P p t user ex) (\<lambda>j r. j = i \<and> Q r) X s"
  unfolding provision_desktop_def using assms
  by (simp add: wp_bnd wp_def [of "reserve_desktop E p t user ex"] wp_andthen wp_ret_fun)

section \<open>Outcome of the logoff cycles\<close>

lemma safe_refresh_vm:
  assumes "provider_contract C P" "clock_ok E P" "\<And>m. C (AsyncTimeout m)" "ours P ref"
  shows "safe (on_db K) C (refresh_vm E P ref)"
  unfolding refresh_vm_def
  by (intro contract_calls safe_intros safe_prov safe_wait_task safe_wait_for_agent
      safe_wait_for_stopped contract_answers assms) simp_all

lemma safe_destroy_vm_cycle:
  assumes "provider_contract C P" "clock_ok E P" "\<And>m. C (AsyncTimeout m)" "ours P ref"
  shows "safe (on_db K) C (destroy_vm_cycle E P ref)"
  unfolding destroy_vm_cycle_def
  by (intro contract_calls safe_intros safe_prov safe_wait_task safe_wait_for_stopped
      contract_answers assms) simp_all

lemma ours_desktop [simp]: "ours P (desktop_vm_ref P d)"
  by (simp add: desktop_vm_ref_def)

definition refresh_calls :: "vm_ref \<Rightarrow> call list" where
  "refresh_calls ref = [CallRollback ref ''openvdi-base'', CallWait None 300,
     CallStart ref, CallWait None 60]"

lemma emits_wait_for_stopped: "emits (wait_for_stopped E P ref) {[]}"
proof -
  have "emits (prov (CallGetStatus ref) (pv_get_vm_status P ref)) {[]}"
    using emits_prov [of "CallGetStatus ref" "pv_get_vm_status P ref"] by simp
  then have "emits (vm_is_stopped P ref) {[]}"
    using emits_bnd [OF _ emits_silent(1)] by (fastforce simp: vm_is_stopped_def)
  from emits_bnd [OF emits_silent(6) [of E] emits_poll_until [OF this]] show ?thesis
    by (simp add: wait_for_stopped_def)
qed

lemma emits_subset: "emits m A \<Longrightarrow> A \<subseteq> B \<Longrightarrow> emits m B"
  unfolding emits_def by (blast intro: wp_mono)

lemma emits_refresh_vm:
  "emits (refresh_vm E P ref)
    {refresh_calls ref, [CallShutdown ref 120 True, CallWait None 60] @ refresh_calls ref}"
proof -
  let ?sh = "CallShutdown ref 120 True"
  let ?rb = "CallRollback ref ''openvdi-base''"
  have stop: "emits (do_when b (bnd (prov ?sh (pv_shutdown_vm P ref 120 True))
      (\<lambda>h. wait_task P (Some h) 60))) {[], [?sh, CallWait None 60]}" for b
  proof -
    have "emits (bnd (prov ?sh (pv_shutdown_vm P ref 120 True)) (\<lambda>h. wait_task P (Some h) 60))
        (then_calls {if is_poll ?sh then [] else [call_shape ?sh]} {[CallWait None 60]})"
      by (intro emits_intros emits_wait_task)
    then have "emits (bnd (prov ?sh (pv_shutdown_vm P ref 120 True)) (\<lambda>h. wait_task P (Some h) 60))
        {[?sh, CallWait None 60]}" by simp
    from emits_when_if [OF this, of b] show ?thesis by (rule emits_subset) auto
  qed
  have "emits (refresh_vm E P ref)
    (then_calls {if is_poll (CallGetStatus ref) then [] else [call_shape (CallGetStatus ref)]}
    (then_calls {[], [?sh, CallWait None 60]} (then_calls {[]}
    (then_calls {if is_poll ?rb then [] else [call_shape ?rb]} (then_calls {[CallWait None 300]}
    (then_calls {if is_poll (CallStart ref) then [] else [call_shape (CallStart ref)]}
    (then_calls {[CallWait None 60]} {[]})))))))"
    unfolding refresh_vm_def
    by (intro emits_intros stop emits_wait_task emits_wait_for_stopped emits_wait_for_agent)
  then show ?thesis by (rule emits_subset) (auto simp: refresh_calls_def then_calls_def)
qed

text \<open>The refresh passes its checks.\<close>

definition refresh_allowed :: "desktop \<Rightarrow> pool \<Rightarrow> bool" where
  "refresh_allowed d p \<longleftrightarrow> p_pool_type p = NONPERSISTENT \<and> p_refresh_on_logoff p
     \<and> d_status d \<notin> {D_DELETING, D_MAINTENANCE, D_PROVISIONING}"

lemma refresh_desktop_enter:
  assumes "get_desktop_row i (work s) = Some d" "get_pool_row (d_pool_id d) (work s) = Some p"
    and "refresh_allowed d p"
  shows "refresh_desktop E P i s = (let db = patch_desktop i (\<lambda>d. (enter_cycle D_PROVISIONING d)
        \<lparr>d_updated_at := e_now E (world s)\<rparr>) (work s) in
      catching cycle_caught (andthen (refresh_vm E P (desktop_vm_ref P d)) (mark_refreshed E i))
        (mark_refresh_failed E i) (s\<lparr>work := db, committed := db\<rparr>))"
  using assms by (simp add: refresh_desktop_def refresh_allowed_def exec_simps Let_def catching_def)

lemma floating_cleared_fields [simp]:
  "d_id (floating_cleared d) = d_id d" "same_place (floating_cleared d) u = same_place d u"
  "d_status (floating_cleared d) = d_status d" "d_error_message (floating_cleared d) = d_error_message d"
  "d_assignment_type (floating_cleared d) \<noteq> Some ''floating''"
  by (auto simp: floating_cleared_def same_place_def)

definition refresh_outcome :: "desktop \<Rightarrow> bool \<Rightarrow> db \<Rightarrow> bool" where
  "refresh_outcome d ok db \<longleftrightarrow> (\<exists>x. get_desktop_row (d_id d) db = Some x \<and> same_place x d
     \<and> d_assigned_user x = d_assigned_user (floating_cleared d)
     \<and> d_assignment_type x = d_assignment_type (floating_cleared d)
     \<and> d_pve_task_upid x = None
     \<and> (if ok then d_status x = D_AVAILABLE \<and> d_power_state x = ''running'' \<and> d_error_message x = None
        else d_status x = D_ERROR \<and> d_error_message x \<noteq> None))"

lemma refresh_outcome_success:
  assumes "get_desktop_row (d_id d) db0 = Some d"
    and "db = patch_desktop (d_id d) (\<lambda>d. (enter_cycle D_PROVISIONING d)\<lparr>d_updated_at := a\<rparr>) db0"
  shows "refresh_outcome d True (patch_desktop (d_id d) (\<lambda>d. (floating_cleared
        (d\<lparr>d_status := D_AVAILABLE, d_power_state := ''running'', d_error_message := None\<rparr>))
        \<lparr>d_last_disconnected := Some t, d_updated_at := t\<rparr>) db)"
  using assms
  by (simp add: refresh_outcome_def get_desktop_patch enter_cycle_def floating_cleared_def same_place_def)

lemma refresh_outcome_failure:
  assumes "get_desktop_row (d_id d) db0 = Some d"
    and "db = patch_desktop (d_id d) (\<lambda>d. (enter_cycle D_PROVISIONING d)\<lparr>d_updated_at := a\<rparr>) db0"
  shows "refresh_outcome d False (patch_desktop (d_id d) (\<lambda>d. (floating_cleared (d\<lparr>d_status := D_ERROR,
             d_error_message := Some m\<rparr>))\<lparr>d_updated_at := t\<rparr>) db)"
  using assms
  by (simp add: refresh_outcome_def get_desktop_patch enter_cycle_def floating_cleared_def same_place_def)

lemma refresh_runs:
  fixes s :: "'w st"
  assumes P: "provider_contract cycle_caught P" "clock_ok E P"
    and r: "get_desktop_row (d_id d) (work s) = Some d" "get_pool_row (d_pool_id d) (work s) = Some p"
      "refresh_allowed d p"
  shows "wp (refresh_desktop E P (d_id d))
    (\<lambda>i r. i = Some (d_id d) \<and> committed r = work r
      \<and> (\<exists>ok. refresh_outcome d ok (work r)
           \<and> (ok \<longrightarrow> (\<exists>x\<in>{refresh_calls (desktop_vm_ref P d),
                 [CallShutdown (desktop_vm_ref P d) 120 True, CallWait None 60]
                   @ refresh_calls (desktop_vm_ref P d)}.
               call_trace (calls r) = call_trace (calls s) @ x))))
    (\<lambda>_ _. False) s"
proof -
  define a where "a = e_now E (world s)"
  define db where "db = patch_desktop (d_id d) (\<lambda>d. (enter_cycle D_PROVISIONING d)\<lparr>d_updated_at := a\<rparr>) (work s)"
  let ?ref = "desktop_vm_ref P d"
  let ?A = "{refresh_calls ?ref, [CallShutdown ?ref 120 True, CallWait None 60] @ refresh_calls ?ref}"
  let ?s = "s\<lparr>work := db, committed := db\<rparr>"
  let ?K = "\<lambda>a b. a = db \<and> b = db"
  let ?tr = "\<lambda>r. \<exists>x\<in>?A. call_trace (calls r) = call_trace (calls ?s) @ x"
  have live: "get_desktop_row (d_id d) db \<noteq> None"
    using r(1) by (simp add: db_def get_desktop_patch enter_cycle_def)
  have "wp (refresh_vm E P ?ref) (\<lambda>_. on_db ?K) (\<lambda>e r. cycle_caught e \<and> on_db ?K r) ?s"
    by (rule safeD [OF safe_refresh_vm [OF P]]) (simp_all add: on_db_def)
  moreover have "wp (refresh_vm E P ?ref) (\<lambda>_. ?tr) (\<lambda>_ _. True) ?s"
    using emits_refresh_vm [of E P ?ref] unfolding emits_def by blast
  ultimately have *: "wp (refresh_vm E P ?ref) (\<lambda>x r. on_db ?K r \<and> ?tr r)
      (\<lambda>e r. (cycle_caught e \<and> on_db ?K r) \<and> True) ?s" by (rule wp_conj)
  have run: "refresh_desktop E P (d_id d) s = catching cycle_caught
      (andthen (refresh_vm E P ?ref) (mark_refreshed E (d_id d))) (mark_refresh_failed E (d_id d)) ?s"
    using refresh_desktop_enter [OF r] by (simp add: db_def a_def Let_def)
  have "wp (catching cycle_caught
      (andthen (refresh_vm E P ?ref) (mark_refreshed E (d_id d))) (mark_refresh_failed E (d_id d)))
    (\<lambda>i r. i = Some (d_id d) \<and> committed r = work r
      \<and> (\<exists>ok. refresh_outcome d ok (work r) \<and> (ok \<longrightarrow> ?tr r))) (\<lambda>_ _. False) ?s"
    unfolding wp_catching wp_andthen
  proof (rule wp_mono [OF *])
    fix x and r :: "'w st" assume "on_db ?K r \<and> ?tr r"
    then show "wp (mark_refreshed E (d_id d)) (\<lambda>i r. i = Some (d_id d) \<and> committed r = work r
      \<and> (\<exists>ok. refresh_outcome d ok (work r) \<and> (ok \<longrightarrow> ?tr r)))
      (\<lambda>e t. if cycle_caught e then wp (mark_refresh_failed E (d_id d) e) (\<lambda>i r. i = Some (d_id d) \<and>
        committed r = work r \<and> (\<exists>ok. refresh_outcome d ok (work r) \<and> (ok \<longrightarrow> ?tr r))) (\<lambda>_ _. False) t
        else False) r"
      using refresh_outcome_success [OF r(1) db_def]
      by (auto simp: mark_refreshed_def wp_simps on_db_def intro!: exI [of _ True])
  next
    fix e and r :: "'w st" assume "(cycle_caught e \<and> on_db ?K r) \<and> True"
    with live show "if cycle_caught e then wp (mark_refresh_failed E (d_id d) e) (\<lambda>i r. i = Some (d_id d) \<and>
        committed r = work r \<and> (\<exists>ok. refresh_outcome d ok (work r) \<and> (ok \<longrightarrow> ?tr r))) (\<lambda>_ _. False) r
        else False"
      using refresh_outcome_failure [OF r(1) db_def]
      by (auto simp: mark_refresh_failed_def wp_simps on_db_def split: option.splits intro!: exI [of _ False])
  qed
  then show ?thesis by (simp add: wp_def run)
qed

definition delete_allowed :: "desktop \<Rightarrow> pool \<Rightarrow> bool" where
  "delete_allowed d p \<longleftrightarrow> p_pool_type p = NONPERSISTENT \<and> p_delete_on_logoff p
     \<and> d_status d \<noteq> D_DELETING"

lemma delete_desktop_enter:
  assumes "get_desktop_row i (work s) = Some d" "get_pool_row (d_pool_id d) (work s) = Some p"
    and "delete_allowed d p"
  shows "delete_desktop_on_logoff E P i s = (let db = patch_desktop i (\<lambda>d. (enter_cycle D_DELETING d)
        \<lparr>d_updated_at := e_now E (world s)\<rparr>) (work s) in
      catching cycle_caught (andthen (destroy_vm_cycle E P (desktop_vm_ref P d))
          (andthen (update_db (delete_desktop_row i)) commit))
        (mark_delete_failed E i) (s\<lparr>work := db, committed := db\<rparr>))"
  using assms by (simp add: delete_desktop_on_logoff_def delete_allowed_def exec_simps Let_def catching_def)

definition delete_outcome :: "desktop \<Rightarrow> db \<Rightarrow> db \<Rightarrow> bool" where
  "delete_outcome d before db \<longleftrightarrow>
     (get_desktop_row (d_id d) db = None \<and> sessions db = map (detach_session (d_id d)) (sessions before))
     \<or> (\<exists>x. get_desktop_row (d_id d) db = Some x \<and> same_place x d \<and> d_status x = D_ERROR
          \<and> d_error_message x \<noteq> None \<and> sessions db = sessions before)"

lemma get_desktop_row_deleted [simp]: "get_desktop_row i (delete_desktop_row i db) = None"
  by (simp add: get_desktop_row_None delete_desktop_row_def)

lemma delete_runs:
  fixes s :: "'w st"
  assumes P: "provider_contract cycle_caught P" "clock_ok E P"
    and r: "get_desktop_row (d_id d) (work s) = Some d" "get_pool_row (d_pool_id d) (work s) = Some p"
      "delete_allowed d p"
  shows "wp (delete_desktop_on_logoff E P (d_id d))
    (\<lambda>_ r. committed r = work r \<and> delete_outcome d (work s) (work r)) (\<lambda>_ _. False) s"
proof -
  define db where "db = patch_desktop (d_id d) (\<lambda>d. (enter_cycle D_DELETING d)
     \<lparr>d_updated_at := e_now E (world s)\<rparr>) (work s)"
  let ?s = "s\<lparr>work := db, committed := db\<rparr>"
  let ?K = "\<lambda>a b. a = db \<and> b = db"
  let ?Q = "\<lambda>_ r. committed r = work r \<and> delete_outcome d (work s) (work r)"
  have row: "get_desktop_row (d_id d) db = Some ((enter_cycle D_DELETING d)\<lparr>d_updated_at := e_now E (world s)\<rparr>)"
    and ses: "sessions db = sessions (work s)"
    using r(1) by (simp_all add: db_def get_desktop_patch enter_cycle_def)
  have gone: "delete_outcome d (work s) (delete_desktop_row (d_id d) db)"
    by (simp add: delete_outcome_def) (simp add: delete_desktop_row_def ses)
  have failed: "delete_outcome d (work s) (patch_desktop (d_id d) (\<lambda>d. d\<lparr>d_status := D_ERROR,
      d_error_message := Some m, d_updated_at := t\<rparr>) db)" for m t
    by (simp add: delete_outcome_def get_desktop_patch row ses same_place_def enter_cycle_def)
  have *: "wp (destroy_vm_cycle E P (desktop_vm_ref P d)) (\<lambda>_. on_db ?K)
      (\<lambda>e r. cycle_caught e \<and> on_db ?K r) ?s"
    by (rule safeD [OF safe_destroy_vm_cycle [OF P]]) (simp_all add: on_db_def)
  have "wp (catching cycle_caught (andthen (destroy_vm_cycle E P (desktop_vm_ref P d))
      (andthen (update_db (delete_desktop_row (d_id d))) commit)) (mark_delete_failed E (d_id d)))
      ?Q (\<lambda>_ _. False) ?s"
    unfolding wp_catching wp_andthen
    by (rule wp_mono [OF *]) (auto simp: mark_delete_failed_def wp_simps on_db_def gone failed row)
  then show ?thesis
    using delete_desktop_enter [OF r, of E P] by (simp add: wp_def db_def Let_def)
qed

section \<open>Slugs\<close>

lemma is_slug_char_dash [simp]: "is_slug_char CHR ''-''"
  by (simp add: is_slug_char_def)

lemma py_lower_slug: "is_slug_char c \<Longrightarrow> lower_char c = c"
  by (auto simp: lower_char_def is_upper_ascii_def is_slug_char_def Let_def)

lemma set_sub_runs: "set (sub_runs p s) \<subseteq> insert CHR ''-'' {c \<in> set s. \<not> p c}"
  by (induction p s rule: sub_runs.induct) (auto dest: set_dropWhileD)

text \<open>No two adjacent dashes.\<close>

fun no_double_dash :: "string \<Rightarrow> bool" where
  "no_double_dash (a # b # cs) = (\<not> (a = CHR ''-'' \<and> b = CHR ''-'') \<and> no_double_dash (b # cs))"
| "no_double_dash _ = True"

lemma sub_dashes_head: "cs = [] \<or> hd cs \<noteq> CHR ''-'' \<Longrightarrow>
   sub_runs (\<lambda>c. c = CHR ''-'') cs = [] \<or> hd (sub_runs (\<lambda>c. c = CHR ''-'') cs) \<noteq> CHR ''-''"
  by (cases cs) auto

lemma no_double_dash_Cons: "no_double_dash (a # s) \<longleftrightarrow>
   no_double_dash s \<and> \<not> (a = CHR ''-'' \<and> s \<noteq> [] \<and> hd s = CHR ''-'')"
  by (cases s) auto

lemma no_double_dash_sub: "no_double_dash (sub_runs (\<lambda>c. c = CHR ''-'') s)"
proof (induction "\<lambda>c. c = CHR ''-''" s rule: sub_runs.induct)
  case (2 c cs)
  have "dropWhile (\<lambda>c. c = CHR ''-'') cs = [] \<or> hd (dropWhile (\<lambda>c. c = CHR ''-'') cs) \<noteq> CHR ''-''"
    using hd_dropWhile [of "\<lambda>c. c = CHR ''-''" cs] by blast
  with 2 show ?case using sub_dashes_head by (auto simp: no_double_dash_Cons)
qed simp

lemma sub_runs_none: "\<forall>c\<in>set s. \<not> p c \<Longrightarrow> sub_runs p s = s"
  by (induction s) auto

lemma sub_dashes_id: "no_double_dash s \<Longrightarrow> sub_runs (\<lambda>c. c = CHR ''-'') s = s"
proof (induction s)
  case (Cons c s)
  then have "c = CHR ''-'' \<Longrightarrow> dropWhile (\<lambda>c. c = CHR ''-'') s = s"
    by (cases s) (auto simp: no_double_dash_Cons)
  with Cons show ?case by (auto simp: no_double_dash_Cons)
qed simp

lemma no_double_dash_append: "no_double_dash (a @ b) \<Longrightarrow> no_double_dash a \<and> no_double_dash b"
  by (induction a) (auto simp: no_double_dash_Cons)

lemma strip_with_infix: "\<exists>a b. s = a @ strip_with p s @ b"
proof -
  have "s = takeWhile p s @ dropWhile p s" by simp
  moreover have "dropWhile p s = strip_with p s @ rev (takeWhile p (rev (dropWhile p s)))"
    unfolding strip_with_def by (metis rev_append rev_rev_ident takeWhile_dropWhile_id)
  ultimately show ?thesis by metis
qed

lemma strip_with_edges:
  "strip_with p s = [] \<or> \<not> p (hd (strip_with p s)) \<and> \<not> p (last (strip_with p s))"
proof (cases "strip_with p s = []")
  case False
  let ?d = "dropWhile p s"
  have last: "\<not> p (last (strip_with p s))"
    using False hd_dropWhile [of p "rev ?d"] by (simp add: strip_with_def last_rev)
  have "?d = strip_with p s @ rev (takeWhile p (rev ?d))"
    unfolding strip_with_def by (metis rev_append rev_rev_ident takeWhile_dropWhile_id)
  with False have "hd ?d = hd (strip_with p s)" by (metis hd_append2)
  moreover have "?d \<noteq> []"
    using False unfolding strip_with_def by (metis dropWhile.simps(1) rev.simps(1))
  ultimately show ?thesis using hd_dropWhile [of p s] last by simp
qed simp

lemma slugify_props:
  "list_all is_slug_char (slugify v) \<and> no_double_dash (slugify v)
   \<and> (slugify v = [] \<or> hd (slugify v) \<noteq> CHR ''-'' \<and> last (slugify v) \<noteq> CHR ''-'')"
proof -
  let ?s = "sub_runs (\<lambda>c. \<not> is_slug_char c) (py_lower v)"
  let ?d = "sub_runs (\<lambda>c. c = CHR ''-'') ?s"
  have sl: "slugify v = strip_with (\<lambda>c. c = CHR ''-'') ?d" by (simp add: slugify_def)
  obtain a b where ab: "?d = a @ slugify v @ b" unfolding sl using strip_with_infix by blast
  have "set ?s \<subseteq> Collect is_slug_char"
    using set_sub_runs [of "\<lambda>c. \<not> is_slug_char c" "py_lower v"] by auto
  then have "set ?d \<subseteq> Collect is_slug_char"
    using set_sub_runs [of "\<lambda>c. c = CHR ''-''" ?s] by auto
  then have "list_all is_slug_char (slugify v)"
    unfolding ab by (auto simp: list_all_iff)
  moreover have "no_double_dash (slugify v)"
    using no_double_dash_sub [of ?s] unfolding ab by (auto dest: no_double_dash_append)
  moreover have "slugify v = [] \<or> hd (slugify v) \<noteq> CHR ''-'' \<and> last (slugify v) \<noteq> CHR ''-''"
    using strip_with_edges [of "\<lambda>c. c = CHR ''-''" ?d] by (simp add: sl)
  ultimately show ?thesis by blast
qed

lemma slugify_id:
  assumes "list_all is_slug_char s" "no_double_dash s"
    "s = [] \<or> hd s \<noteq> CHR ''-'' \<and> last s \<noteq> CHR ''-''"
  shows "slugify s = s"
proof -
  have "py_lower s = s"
    using assms(1) by (auto simp: py_lower_def list_all_iff intro!: map_idI py_lower_slug)
  moreover have "sub_runs (\<lambda>c. \<not> is_slug_char c) s = s"
    using assms(1) by (auto simp: list_all_iff intro!: sub_runs_none)
  moreover have "strip_with (\<lambda>c. c = CHR ''-'') s = s"
    using assms(3) by (cases "s = []") (simp_all add: strip_with_def strip_with_id [unfolded strip_with_def])
  ultimately show ?thesis by (simp add: slugify_def sub_dashes_id assms(2))
qed

section \<open>Properties\<close>

definition example_template :: vdi_template where
  "example_template = \<lparr>t_id = 2, t_cluster_id = 3, t_name = ''win11'', t_pve_vmid = 9000,
     t_pve_node = ''pve1'', t_os_type = ''windows'', t_description = None, t_cpu_cores = 4,
     t_memory_mb = 8192, t_disk_gb = 64, t_gpu_required = False, t_tags = JObj [],
     t_provider_config = JObj [], t_status = ''active'', t_created_at = 0, t_updated_at = 0\<rparr>"

lemma provision_runs:
  assumes "provider_contract provision_caught P" "clock_ok E P" "pv_type P = ''proxmox''"
    and "p_status p = P_ACTIVE"
  shows "wp (provision_desktop E P p t user None)
    (\<lambda>i r. committed r = work r \<and> (\<exists>u v at. fst (allocate_vmid p s) = Inr v
        \<and> u = new_desktop p t user v i at \<and> build_outcome p user u (work r)
        \<and> (row_ok i (work r) \<longrightarrow> call_trace (calls r) = call_trace (calls s)
             @ build_calls p t user v (desktop_name p v) (pick_target_node p t))))
    (\<lambda>e r. (e = VMIDRangeExhausted (p_id p) (p_vmid_range_start p) (p_vmid_range_end p)
          \<or> e = IntegrityError ''desktops'') \<and> committed r = committed s \<and> calls r = calls s) s"
proof (cases "fst (allocate_vmid p s)")
  case (Inl e)
  then have "allocate_vmid p s = (Inl e, s)"
    using allocate_vmid_state [of p s] by (metis prod.collapse)
  moreover have "e = VMIDRangeExhausted (p_id p) (p_vmid_range_start p) (p_vmid_range_end p)"
    using Inl unfolding allocate_vmid_Inl by simp
  ultimately show ?thesis
    using assms(4) by (simp add: provision_desktop_def reserve_desktop_def wp_def exec_simps)
next
  case (Inr v)
  then have run: "allocate_vmid p s = (Inr v, s)"
    using allocate_vmid_state [of p s] by (metis prod.collapse)
  obtain i w where u: "e_uuid E (world s) = (i, w)" by (cases "e_uuid E (world s)")
  let ?u = "new_desktop p t user v i (e_now E w)"
  let ?s = "s\<lparr>world := w, work := add_desktop ?u (work s)\<rparr>"
  have id: "d_id ?u = i" by (simp add: new_desktop_def)
  show ?thesis
  proof (cases "desktop_insert_ok ?u (work s)")
    case False
    with run u assms(4) show ?thesis
      by (simp add: provision_desktop_def reserve_desktop_def wp_def exec_simps)
  next
    case True
    then have "built_row ?u (work ?s)"
      using get_desktop_row_add_new [of ?u "work s"]
      by (simp add: built_row_def desktop_insert_ok_def same_place_def) (simp add: new_desktop_def)
    from build_guarded [OF assms(1-3) this, of p t user v "desktop_name p v" "pick_target_node p t"]
    have g: "wp (catching provision_caught
             (andthen (build_vm E P p t user (d_id ?u) v (desktop_name p v) (pick_target_node p t))
               (mark_built E p user (d_id ?u)))
             (mark_build_failed E (d_id ?u)))
      (\<lambda>_ r. committed r = work r \<and> build_outcome p user ?u (work r)
       \<and> (row_ok (d_id ?u) (work r) \<longrightarrow> call_trace (calls r) = call_trace (calls s)
            @ build_calls p t user v (desktop_name p v) (pick_target_node p t))) (\<lambda>_ _. False) ?s"
      by simp
    note guarded = g [unfolded id]
    have "reserve_desktop E p t user None s = (Inr (i, v, desktop_name p v, pick_target_node p t), ?s)"
      using True run u by (simp add: reserve_desktop_def exec_simps)
    from provision_from_reserved [OF assms(4) this guarded] show ?thesis
      by (rule wp_mono) (use Inr in auto)
  qed
qed

text \<open>
  Property C2. Provisioning a new desktop in an active pool never raises on a provider
  failure. Either the VMID range is exhausted or the row's constraints fail, before any
  provider call and with nothing committed; or a row exists and is committed, at the lowest
  free VMID, in one of two states: the pool's final status with no error, a provisioning
  time and no task, after exactly the calls of the documented sequence in that order
  (clone, configure, start, and for a non-persistent pool shutdown, \<open>openvdi-base\<close> snapshot and
  restart); or \<open>ERROR\<close> with a message and no task.
\<close>

theorem provision_desktop_outcome:
  assumes "provider_contract provision_caught P" "clock_ok E P" "pv_type P = ''proxmox''"
    and "p_status p = P_ACTIVE"
  shows "wp (provision_desktop E P p t user None)
    (\<lambda>i r. committed r = work r \<and> (\<exists>u v at. fst (allocate_vmid p s) = Inr v
        \<and> u = new_desktop p t user v i at \<and> build_outcome p user u (work r)
        \<and> (row_ok i (work r) \<longrightarrow> call_trace (calls r) = call_trace (calls s)
             @ build_calls p t user v (desktop_name p v) (pick_target_node p t))))
    (\<lambda>e r. (e = VMIDRangeExhausted (p_id p) (p_vmid_range_start p) (p_vmid_range_end p)
          \<or> e = IntegrityError ''desktops'') \<and> committed r = committed s \<and> calls r = calls s) s"
  using assms by (rule provision_runs)

theorem provision_desktop_outcome_witness:
  "wp (provision_desktop sim_env sim_provider example_pool example_template None None)
    (\<lambda>i r. committed r = work r \<and> (\<exists>d. get_desktop_row i (work r) = Some d \<and> d_pve_vmid d = 100
        \<and> d_name d = ''eng-001'')) (\<lambda>_ _. True)
    (sim_st (empty_db\<lparr>pools := [example_pool]\<rparr>))"
proof (rule wp_mono)
  let ?s = "sim_st (empty_db\<lparr>pools := [example_pool]\<rparr>)"
  show "wp (provision_desktop sim_env sim_provider example_pool example_template None None)
    (\<lambda>i r. committed r = work r \<and> (\<exists>u v at. fst (allocate_vmid example_pool ?s) = Inr v
        \<and> u = new_desktop example_pool example_template None v i at
        \<and> build_outcome example_pool None u (work r)
        \<and> (row_ok i (work r) \<longrightarrow> call_trace (calls r) = call_trace (calls ?s)
             @ build_calls example_pool example_template None v (desktop_name example_pool v)
                 (pick_target_node example_pool example_template))))
    (\<lambda>e r. (e = VMIDRangeExhausted (p_id example_pool) (p_vmid_range_start example_pool)
            (p_vmid_range_end example_pool)
          \<or> e = IntegrityError ''desktops'') \<and> committed r = committed ?s \<and> calls r = calls ?s) ?s"
    by (rule provision_desktop_outcome)
      (simp_all add: example_pool_def)
  have v: "fst (allocate_vmid example_pool ?s) = Inr v \<Longrightarrow> v = 100" for v
    by (simp add: allocate_vmid_def used_vmids_def exec_simps example_pool_def empty_db_def upto_rec1)
  have nm: "desktop_name example_pool 100 = ''eng-001''"
    by code_simp
  fix i r
  assume "committed r = work r \<and> (\<exists>u v at. fst (allocate_vmid example_pool ?s) = Inr v
        \<and> u = new_desktop example_pool example_template None v i at
        \<and> build_outcome example_pool None u (work r)
        \<and> (row_ok i (work r) \<longrightarrow> call_trace (calls r) = call_trace (calls ?s)
             @ build_calls example_pool example_template None v (desktop_name example_pool v)
                 (pick_target_node example_pool example_template)))"
  then show "committed r = work r \<and> (\<exists>d. get_desktop_row i (work r) = Some d \<and> d_pve_vmid d = 100
        \<and> d_name d = ''eng-001'')"
    using nm by (auto simp: build_outcome_def same_place_def new_desktop_def dest!: v)
qed simp

text \<open>
  Property C22. Rebuilding an existing desktop never raises on a provider failure either: it
  keeps the row's VMID, node and name, resets its assignment, and ends in the same two
  states after the same calls.
\<close>

theorem rebuild_desktop_outcome:
  assumes "provider_contract provision_caught P" "clock_ok E P" "pv_type P = ''proxmox''"
    and "p_status p = P_ACTIVE" and "get_desktop_row (d_id d) (work s) = Some d"
  shows "wp (provision_desktop E P p t user (Some d))
    (\<lambda>i r. i = d_id d \<and> committed r = work r
        \<and> build_outcome p user (d\<lparr>d_assigned_user := user, d_assignment_type := initial_assignment p user\<rparr>) (work r)
        \<and> (row_ok i (work r) \<longrightarrow> call_trace (calls r) = call_trace (calls s)
             @ build_calls p t user (d_pve_vmid d) (d_name d) (d_pve_node d)))
    (\<lambda>_ _. False) s"
proof -
  let ?u = "reset_desktop p user d"
  have id: "d_id ?u = d_id d" by (simp add: reset_desktop_def)
  let ?s = "s\<lparr>work := patch_desktop (d_id d)
     (\<lambda>d. (reset_desktop p user d)\<lparr>d_updated_at := e_now E (world s)\<rparr>) (work s)\<rparr>"
  have "built_row ?u (work ?s)"
    using assms(5) by (simp add: built_row_def get_desktop_patch reset_desktop_def same_place_def)
  from build_guarded [OF assms(1-3) this, of p t user "d_pve_vmid d" "d_name d" "d_pve_node d"]
  have g: "wp (catching provision_caught
             (andthen (build_vm E P p t user (d_id ?u) (d_pve_vmid d) (d_name d) (d_pve_node d))
               (mark_built E p user (d_id ?u)))
             (mark_build_failed E (d_id ?u)))
      (\<lambda>_ r. committed r = work r \<and> build_outcome p user ?u (work r)
       \<and> (row_ok (d_id ?u) (work r) \<longrightarrow> call_trace (calls r) = call_trace (calls s)
            @ build_calls p t user (d_pve_vmid d) (d_name d) (d_pve_node d))) (\<lambda>_ _. False) ?s"
    by simp
  have "reserve_desktop E p t user (Some d) s
      = (Inr (d_id d, d_pve_vmid d, d_name d, d_pve_node d), ?s)"
    by (simp add: reserve_desktop_def exec_simps)
  from provision_from_reserved [OF assms(4) this g [unfolded id]] show ?thesis
    by (rule wp_mono) (simp_all add: build_outcome_def same_place_def reset_desktop_def)
qed

theorem rebuild_desktop_outcome_witness:
  "wp (provision_desktop sim_env sim_provider example_pool example_template None (Some example_desktop))
    (\<lambda>i r. i = d_id example_desktop \<and> committed r = work r) (\<lambda>_ _. False)
    (sim_st (empty_db\<lparr>pools := [example_pool], desktops := [example_desktop]\<rparr>))"
proof -
  let ?s = "sim_st (empty_db\<lparr>pools := [example_pool], desktops := [example_desktop]\<rparr>)"
  have a: "p_status example_pool = P_ACTIVE" by (simp add: example_pool_def)
  have d: "get_desktop_row (d_id example_desktop) (work ?s) = Some example_desktop"
    by (simp add: get_desktop_row_def)
  show ?thesis
    by (rule wp_mono [OF rebuild_desktop_outcome [OF sim_provider_contract sim_clock_ok
          sim_provider_type a d]]) simp_all
qed

text \<open>
  Property C23. The refresh cycle of an eligible desktop always returns it, committed, with
  any floating assignment cleared: either \<open>AVAILABLE\<close>, running and without error, after
  exactly an optional shutdown, the rollback to \<open>openvdi-base\<close> and a start, in that order;
  or \<open>ERROR\<close> with a message.
\<close>

theorem refresh_desktop_outcome:
  assumes "provider_contract cycle_caught P" "clock_ok E P"
    and "get_desktop_row (d_id d) (work s) = Some d" "get_pool_row (d_pool_id d) (work s) = Some p"
    and "refresh_allowed d p"
  shows "wp (refresh_desktop E P (d_id d))
    (\<lambda>i r. i = Some (d_id d) \<and> committed r = work r
      \<and> (\<exists>ok. refresh_outcome d ok (work r)
           \<and> (ok \<longrightarrow> (\<exists>x\<in>{refresh_calls (desktop_vm_ref P d),
                 [CallShutdown (desktop_vm_ref P d) 120 True, CallWait None 60]
                   @ refresh_calls (desktop_vm_ref P d)}.
               call_trace (calls r) = call_trace (calls s) @ x))))
    (\<lambda>_ _. False) s"
  by (rule refresh_runs [OF assms])

theorem refresh_desktop_outcome_witness:
  "wp (refresh_desktop sim_env sim_provider 10)
    (\<lambda>i r. i = Some 10 \<and> committed r = work r) (\<lambda>_ _. False)
    (sim_st (empty_db\<lparr>pools := [example_pool], desktops := [example_desktop]\<rparr>))"
proof -
  let ?s = "sim_st (empty_db\<lparr>pools := [example_pool], desktops := [example_desktop]\<rparr>)"
  have "get_desktop_row (d_id example_desktop) (work ?s) = Some example_desktop"
    by (simp add: get_desktop_row_def)
  moreover have "get_pool_row (d_pool_id example_desktop) (work ?s) = Some example_pool"
    by (simp add: get_pool_row_def example_desktop_def example_pool_def)
  moreover have "refresh_allowed example_desktop example_pool"
    by (simp add: refresh_allowed_def example_desktop_def example_pool_def)
  moreover have "d_id example_desktop = 10" by (simp add: example_desktop_def)
  ultimately show ?thesis
    using refresh_desktop_outcome [OF sim_provider_contract sim_clock_ok, of example_desktop ?s example_pool]
    by (auto elim!: wp_mono)
qed

text \<open>
  The delete cycle of an eligible desktop never raises: either the row is gone
  and every session that pointed at it survives with no desktop, or the row is still there
  in \<open>ERROR\<close> with a message and no session changed.
\<close>

theorem delete_desktop_outcome:
  assumes "provider_contract cycle_caught P" "clock_ok E P"
    and "get_desktop_row (d_id d) (work s) = Some d" "get_pool_row (d_pool_id d) (work s) = Some p"
    and "delete_allowed d p"
  shows "wp (delete_desktop_on_logoff E P (d_id d))
    (\<lambda>_ r. committed r = work r \<and> delete_outcome d (work s) (work r)) (\<lambda>_ _. False) s"
  by (rule delete_runs [OF assms])

theorem delete_desktop_outcome_witness:
  "wp (delete_desktop_on_logoff sim_env sim_provider 10)
    (\<lambda>_ r. committed r = work r) (\<lambda>_ _. False)
    (sim_st (empty_db\<lparr>pools := [example_pool\<lparr>p_delete_on_logoff := True\<rparr>],
       desktops := [example_desktop]\<rparr>))"
proof -
  let ?p = "example_pool\<lparr>p_delete_on_logoff := True\<rparr>"
  let ?s = "sim_st (empty_db\<lparr>pools := [?p], desktops := [example_desktop]\<rparr>)"
  have "get_desktop_row (d_id example_desktop) (work ?s) = Some example_desktop"
    by (simp add: get_desktop_row_def)
  moreover have "get_pool_row (d_pool_id example_desktop) (work ?s) = Some ?p"
    by (simp add: get_pool_row_def example_desktop_def example_pool_def)
  moreover have "delete_allowed example_desktop ?p"
    by (simp add: delete_allowed_def example_desktop_def example_pool_def)
  moreover have "d_id example_desktop = 10" by (simp add: example_desktop_def)
  ultimately show ?thesis
    using delete_desktop_outcome [OF sim_provider_contract sim_clock_ok, of example_desktop ?s ?p]
    by (auto elim!: wp_mono)
qed

text \<open>
  A slug contains only \<open>[a-z0-9_-]\<close>, has no two dashes in a row and no dash at
  either end, and slugifying again changes nothing. A valid pool name is its own slug
  exactly when it has no two dashes in a row: the schema allows such names, so
  \<open>_slugify(pool.name)\<close> is not always the no-op its callers take it for, and the distinct
  pools \<open>a-b\<close> and \<open>a--b\<close> share one VM tag.
\<close>

theorem slugify_correct:
  "list_all is_slug_char (slugify v) \<and> no_double_dash (slugify v)
   \<and> (slugify v = [] \<or> hd (slugify v) \<noteq> CHR ''-'' \<and> last (slugify v) \<noteq> CHR ''-'')
   \<and> slugify (slugify v) = slugify v
   \<and> (pool_name_ok v \<longrightarrow> (slugify v = v \<longleftrightarrow> no_double_dash v))
   \<and> pool_name_ok ''a--b'' \<and> slugify ''a--b'' = slugify ''a-b''"
proof -
  note p = slugify_props [of v]
  have "slugify (slugify v) = slugify v" using p by (intro slugify_id) auto
  moreover have "slugify v = v \<longleftrightarrow> no_double_dash v" if "pool_name_ok v"
  proof
    assume "slugify v = v"
    with p show "no_double_dash v" by simp
  next
    assume "no_double_dash v"
    with that show "slugify v = v" by (intro slugify_id) (auto simp: pool_name_ok_def)
  qed
  moreover have "pool_name_ok ''a--b''"
    by (simp add: pool_name_ok_def is_slug_char_def)
  moreover have "slugify ''a--b'' = slugify ''a-b''"
    by (simp add: slugify_def py_lower_def lower_char_def is_upper_ascii_def is_slug_char_def strip_with_def)
  ultimately show ?thesis using p by blast
qed

theorem slugify_correct_witness: "slugify ''eng-team'' = ''eng-team''"
  using slugify_correct [of "''eng-team''"] by (simp add: pool_name_ok_def is_slug_char_def)

text \<open>
  Within a pool, desktop names determine VMIDs: two VMIDs of the range never
  give the same desktop name, whatever the range's size.
\<close>

theorem desktop_name_injective:
  assumes "in_pool_range p v" "in_pool_range p w" "desktop_name p v = desktop_name p w"
  shows "v = w"
  using assms fmt_03d_inj_nonneg [of "v - p_vmid_range_start p + 1" "w - p_vmid_range_start p + 1"]
  by (simp add: desktop_name_def in_pool_range_def)

theorem desktop_name_injective_witness: "desktop_name example_pool 100 \<noteq> desktop_name example_pool 101"
  using desktop_name_injective [of example_pool 100 101]
  by (auto simp: in_pool_range_def example_pool_def)

end
