(* ===== verification/Broker.thy ===== *)
theory Broker
  imports Provisioner
begin

text \<open>
  \<open>broker/app/services/broker.py\<close>: connecting a user to a desktop of a pool, and ending a
  session. \<open>connect\<close> runs in the caller's transaction; the providers of \<open>app.state.providers\<close>
  are a partial function from cluster ids.
\<close>

section \<open>Operations\<close>

record connect_result =
  cres_session_id :: uuid
  cres_desktop_name :: string
  cres_ticket :: console_ticket

definition broker_desktop_ref :: "desktop \<Rightarrow> vm_ref" where
  "broker_desktop_ref d = mk_ref ''proxmox'' (d_pve_node d) (d_pve_vmid d)"

text \<open>\<open>_wait_for_agent\<close> counts its own seconds: 30 pings, two seconds apart.\<close>

primrec ping_loop :: "'w env \<Rightarrow> 'w provider \<Rightarrow> vm_ref \<Rightarrow> nat \<Rightarrow> ('w, unit) prog" where
  "ping_loop E P ref 0 = throw (BrokerErr ''VM started but guest agent unresponsive'')"
| "ping_loop E P ref (Suc n) =
     bnd (prov (CallAgentPing ref) (pv_agent_ping P ref)) (\<lambda>ok.
     if ok then ret () else andthen (sleep E 2000) (ping_loop E P ref n))"

definition broker_wait_for_agent :: "'w env \<Rightarrow> 'w provider \<Rightarrow> vm_ref \<Rightarrow> ('w, unit) prog" where
  "broker_wait_for_agent E P ref = ping_loop E P ref 30"

text \<open>Step 1: the user, or one of the user's groups, is entitled to the pool.\<close>

definition is_entitled :: "uuid \<Rightarrow> string \<Rightarrow> string list \<Rightarrow> db \<Rightarrow> bool" where
  "is_entitled pid user groups db \<longleftrightarrow> (\<exists>en\<in>set (entitlements db). en_pool_id en = pid
     \<and> (en_principal_type en = ''user'' \<and> en_principal_name en = user
        \<or> en_principal_type en = ''group'' \<and> en_principal_name en \<in> set groups))"

definition users_desktops :: "uuid \<Rightarrow> string \<Rightarrow> db \<Rightarrow> desktop list" where
  "users_desktops pid user db = filter (\<lambda>d. d_pool_id d = pid \<and> d_assigned_user d = Some user
     \<and> d_status d \<noteq> D_DELETING) (desktops db)"

definition available_desktops :: "uuid \<Rightarrow> db \<Rightarrow> desktop list" where
  "available_desktops pid db =
     sort_key d_pve_vmid (filter (\<lambda>d. d_pool_id d = pid \<and> d_status d = D_AVAILABLE) (desktops db))"

text \<open>The object behind an id the code already holds.\<close>

definition load_desktop :: "uuid \<Rightarrow> ('w, desktop) prog" where
  "load_desktop i = bnd (query (get_desktop_row i)) (\<lambda>r.
     case r of None \<Rightarrow> throw NoResultFound | Some d \<Rightarrow> ret d)"

text \<open>Step 3, persistent pool: the user's desktop, provisioned on the first connect.\<close>

definition find_persistent ::
    "'w env \<Rightarrow> 'w provider \<Rightarrow> pool \<Rightarrow> string \<Rightarrow> ('w, desktop) prog" where
  "find_persistent E P p user =
     bnd (query (users_desktops (p_id p) user)) (\<lambda>rows.
     bnd (scalar_one_or_none rows) (\<lambda>found.
     case found of
       Some d \<Rightarrow> ret d
     | None \<Rightarrow>
         bnd (query (get_template_row (p_template_id p))) (\<lambda>tr.
         case tr of None \<Rightarrow> throw (PyAttributeError ''template'') | Some t \<Rightarrow>
         bnd (provision_desktop E P p t (Some user) None) (\<lambda>i.
         bnd (load_desktop i) (\<lambda>d.
         if d_status d = D_ERROR then throw (BrokerErr ''provisioning failed'') else ret d)))))"

text \<open>Step 3, non-persistent pool: claim the available desktop with the lowest VMID.\<close>

definition claim_desktop :: "string \<Rightarrow> desktop \<Rightarrow> desktop" where
  "claim_desktop user d = d\<lparr>d_assigned_user := Some user, d_assignment_type := Some ''floating''\<rparr>"

definition claim_floating :: "'w env \<Rightarrow> pool \<Rightarrow> string \<Rightarrow> ('w, desktop) prog" where
  "claim_floating E p user =
     bnd (query (available_desktops (p_id p))) (\<lambda>rows.
     case rows of
       [] \<Rightarrow> throw (PoolFull (p_name p))
     | d # _ \<Rightarrow> andthen (set_desktop E (d_id d) (claim_desktop user)) (ret (claim_desktop user d)))"

text \<open>Step 4: the VM runs and its agent answers.\<close>

definition boot_if_stopped :: "'w env \<Rightarrow> 'w provider \<Rightarrow> vm_ref \<Rightarrow> ('w, unit) prog" where
  "boot_if_stopped E P ref =
     bnd (prov (CallGetStatus ref) (pv_get_vm_status P ref)) (\<lambda>v.
     do_when (v_power_state v \<noteq> ''running'')
       (bnd (prov (CallStart ref) (pv_start_vm P ref)) (\<lambda>h.
        andthen (wait_task P (Some h) 60) (broker_wait_for_agent E P ref))))"

definition ensure_running :: "'w env \<Rightarrow> 'w provider \<Rightarrow> desktop \<Rightarrow> ('w, unit) prog" where
  "ensure_running E P d =
     andthen (boot_if_stopped E P (broker_desktop_ref d))
     (bnd (now E) (\<lambda>t.
      set_desktop E (d_id d) (\<lambda>x. x\<lparr>d_power_state := ''running'', d_last_connected := Some t\<rparr>)))"

definition new_session :: "uuid \<Rightarrow> uuid \<Rightarrow> string \<Rightarrow> int \<Rightarrow> vdi_session" where
  "new_session sid did user at =
     \<lparr>s_id = sid, s_desktop_id = Some did, s_username = user, s_protocol = ''novnc'',
      s_client_ip = None, s_status = S_CONNECTING, s_connected_at = None, s_disconnected_at = None,
      s_ended_at = None, s_connection_info = None, s_os_user = None, s_os_info = None,
      s_vm_ip_address = None, s_last_heartbeat = None, s_idle_since = None, s_created_at = at\<rparr>"

text \<open>The attributes \<open>connect\<close> reads from the ticket; only a noVNC ticket has them.\<close>

fun ticket_info :: "console_ticket \<Rightarrow> jval option" where
  "ticket_info (NoVNCTicket url password cert) = Some (JObj
     [(''kind'', JStr ''novnc''), (''websocket_url'', JStr url), (''password'', JStr password),
      (''cert_pem'', case cert of None \<Rightarrow> JNull | Some c \<Rightarrow> JStr c)])"
| "ticket_info _ = None"

definition j_opt_str :: "string option \<Rightarrow> jval" where
  "j_opt_str x = (case x of None \<Rightarrow> JNull | Some v \<Rightarrow> JStr v)"

text \<open>Steps 5 to 8: session row, ticket, activation, audit row, commit.\<close>

definition open_session ::
    "'w env \<Rightarrow> 'w provider \<Rightarrow> pool \<Rightarrow> string \<Rightarrow> desktop \<Rightarrow> ('w, connect_result) prog" where
  "open_session E P p user d =
     bnd (gen_uuid E) (\<lambda>sid.
     bnd (now E) (\<lambda>at.
     (let row = new_session sid (d_id d) user at; ref = broker_desktop_ref d in
     andthen (insert_session row)
     (bnd (prov (CallTicket ref NOVNC) (pv_get_console_ticket P ref NOVNC)) (\<lambda>ticket.
      case ticket_info ticket of
        None \<Rightarrow> throw (PyAttributeError ''websocket_url'')
      | Some info \<Rightarrow>
          andthen (transition_to_active E row info)
          (andthen (set_desktop E (d_id d) (\<lambda>x. x\<lparr>d_status := D_CONNECTED\<rparr>))
          (andthen (log_business_event E user ''broker.connect'' (Some ''session'') (Some sid)
             [(''pool_id'', JStr (str_uuid (p_id p))), (''pool_name'', JStr (p_name p)),
              (''desktop_id'', JStr (str_uuid (d_id d))), (''desktop_name'', JStr (d_name d)),
              (''assignment_type'', j_opt_str (d_assignment_type d))] None)
          (andthen commit
          (ret \<lparr>cres_session_id = sid, cres_desktop_name = d_name d, cres_ticket = ticket\<rparr>)))))))))"

definition connect ::
    "'w env \<Rightarrow> (uuid \<Rightarrow> 'w provider option) \<Rightarrow> string \<Rightarrow> string list \<Rightarrow> uuid \<Rightarrow>
     ('w, connect_result) prog" where
  "connect E providers user groups pid =
     bnd (query (\<lambda>db. filter (\<lambda>p. p_id p = pid) (pools db))) (\<lambda>rows.
     bnd (scalar_one rows) (\<lambda>p.
     if p_status p \<noteq> P_ACTIVE
     then throw (PoolInactiveErr (p_name p) (pool_status_value (p_status p)))
     else bnd (query (is_entitled (p_id p) user groups)) (\<lambda>ent.
       if \<not> ent then throw (NotEntitled user (p_name p))
       else (case providers (p_cluster_id p) of
         None \<Rightarrow> throw (PyKeyError (str_uuid (p_cluster_id p)))
       | Some P \<Rightarrow>
           bnd (if p_pool_type p = PERSISTENT then find_persistent E P p user
                else claim_floating E p user) (\<lambda>d.
           andthen (ensure_running E P d) (open_session E P p user d))))))"

definition end_session :: "'w env \<Rightarrow> uuid \<Rightarrow> string option \<Rightarrow> ('w, unit) prog" where
  "end_session E sid actor =
     bnd (query (\<lambda>db. filter (\<lambda>r. s_id r = sid) (sessions db))) (\<lambda>rows.
     bnd (scalar_one rows) (\<lambda>row.
     andthen (transition_to_ended E row)
     (bnd (query (\<lambda>db. case s_desktop_id row of None \<Rightarrow> None | Some i \<Rightarrow> get_desktop_row i db)) (\<lambda>d.
      andthen (log_business_event E (if truthy actor then the actor else s_username row)
         ''broker.session.end'' (Some ''session'') (Some (s_id row))
         [(''desktop_id'', case d of None \<Rightarrow> JNull | Some x \<Rightarrow> JStr (str_uuid (d_id x))),
          (''desktop_name'', case d of None \<Rightarrow> JNull | Some x \<Rightarrow> JStr (d_name x)),
          (''assignment_type'', case d of None \<Rightarrow> JNull | Some x \<Rightarrow> j_opt_str (d_assignment_type x))]
         None)
      commit))))"

section \<open>Invariants\<close>

lemma broker_writes_keep_identity [simp]: "keeps_identity (claim_desktop user)"
  by (simp add: keeps_identity_def claim_desktop_def)

lemma ticket_safe_new_session [simp]: "ticket_safe (new_session sid did user at)"
  by (simp add: ticket_safe_def new_session_def)

context db_writes begin

lemma pres_ping_loop: "pres (both I) (ping_loop E P ref n)"
  by (induction n) (auto intro!: pres_intros pres_prims)

lemma pres_load_desktop: "pres (both I) (load_desktop i)"
  unfolding load_desktop_def by (intro pres_intros pres_prims)

lemma pres_claim_floating: "pres (both I) (claim_floating E p user)"
  unfolding claim_floating_def by (intro pres_intros pres_prims broker_writes_keep_identity)

lemma pres_ensure_running: "pres (both I) (ensure_running E P d)"
  unfolding ensure_running_def boot_if_stopped_def broker_wait_for_agent_def
  by (intro pres_intros pres_prims pres_steps pres_ping_loop) (auto simp: keeps_identity_def)

lemma pres_open_session: "pres (both I) (open_session E P p user d)"
  unfolding open_session_def Let_def
  by (intro pres_intros pres_prims ticket_safe_new_session pres_transition_to_active
      pres_log_business_event writes_keep_identity)

lemma pres_find_persistent:
  assumes "\<And>db. I db \<Longrightarrow> pool_current p db"
  shows "pres (both I) (find_persistent E P p user)"
  unfolding find_persistent_def
  by (intro pres_intros pres_prims pres_provision_desktop pres_load_desktop assms)

lemma pres_end_session: "pres (both I) (end_session E sid actor)"
  unfolding end_session_def
  by (intro pres_intros pres_prims pres_transition_to_ended pres_log_business_event)

end

section \<open>What connecting does\<close>

text \<open>The row of the desktop \<open>d\<close>, assigned to the user.\<close>

definition row_for :: "desktop \<Rightarrow> string \<Rightarrow> db \<Rightarrow> bool" where
  "row_for d user db \<longleftrightarrow> (\<exists>x. get_desktop_row (d_id d) db = Some x \<and> same_place x d
     \<and> d_assigned_user x = Some user)"

lemma answers_any [simp]: "answers (\<lambda>_. True) f"
  by (simp add: answers_def split: sum.splits)

lemma safe_ping_loop: "safe (on_db K) (\<lambda>_. True) (ping_loop E P ref n)"
  by (induction n) (auto intro!: safe_intros safe_prov safe_sleep)

lemma safe_boot_if_stopped: "safe (on_db K) (\<lambda>_. True) (boot_if_stopped E P ref)"
  unfolding boot_if_stopped_def broker_wait_for_agent_def wait_task_def
  by (intro safe_intros safe_prov safe_ping_loop answers_any)

lemma wp_ensure_running:
  assumes "row_for d user (work s)"
  shows "wp (ensure_running E P d)
    (\<lambda>_ t. committed t = committed s \<and> sessions (work t) = sessions (work s) \<and> row_for d user (work t)
       \<and> (\<forall>x. get_desktop_row (d_id d) (work t) = Some x \<longrightarrow> d_power_state x = ''running''))
    (\<lambda>_ t. committed t = committed s) s"
proof -
  let ?K = "\<lambda>a b. a = committed s \<and> b = work s"
  have "on_db ?K s" by (simp add: on_db_def)
  from safeD [OF safe_boot_if_stopped this]
  have "wp (boot_if_stopped E P (broker_desktop_ref d)) (\<lambda>_. on_db ?K) (\<lambda>e t. True \<and> on_db ?K t) s" .
  then show ?thesis
    unfolding ensure_running_def wp_andthen
    by (rule wp_mono)
      (use assms in \<open>auto simp: wp_simps on_db_def row_for_def get_desktop_patch same_place_def\<close>)
qed

definition connected_outcome :: "uuid \<Rightarrow> string \<Rightarrow> connect_result \<Rightarrow> db \<Rightarrow> bool" where
  "connected_outcome pid user r db \<longleftrightarrow> (\<exists>i x se. get_session_row (cres_session_id r) db = Some se
     \<and> s_status se = S_ACTIVE \<and> s_username se = user \<and> s_desktop_id se = Some i
     \<and> s_connection_info se = ticket_info (cres_ticket r) \<and> s_connected_at se \<noteq> None
     \<and> get_desktop_row i db = Some x \<and> d_pool_id x = pid \<and> d_assigned_user x = Some user
     \<and> d_status x = D_CONNECTED \<and> d_power_state x = ''running'' \<and> d_name x = cres_desktop_name r)"

lemma get_session_row_add_new [simp]:
  "get_session_row (s_id r) db = None \<Longrightarrow> get_session_row (s_id r) (add_session r db) = Some r"
  by (simp add: get_session_row_def find_append)

lemma wp_insert_session:
  "(session_insert_ok r (work s) \<Longrightarrow> Q () (s\<lparr>work := add_session r (work s)\<rparr>)) \<Longrightarrow>
   X (IntegrityError ''sessions'') s \<Longrightarrow> wp (insert_session r) Q X s"
  by (simp add: wp_def exec_simps)

lemma open_session_db:
  assumes "row_for d user db" "\<forall>x. get_desktop_row (d_id d) db = Some x \<longrightarrow> d_power_state x = ''running''"
    and "session_insert_ok (new_session sid (d_id d) user at) db" "ticket_info tk = Some info"
  shows "connected_outcome (d_pool_id d) user \<lparr>cres_session_id = sid, cres_desktop_name = d_name d, cres_ticket = tk\<rparr>
     (add_audit mk (patch_desktop (d_id d) (\<lambda>x. x\<lparr>d_status := D_CONNECTED, d_updated_at := u\<rparr>)
       (patch_session sid (\<lambda>r. r\<lparr>s_status := S_ACTIVE, s_connection_info := Some info,
             s_connected_at := (case s_connected_at r of None \<Rightarrow> Some t | Some c \<Rightarrow> Some c)\<rparr>)
         (add_session (new_session sid (d_id d) user at) db))))"
proof -
  have sid: "s_id (new_session sid (d_id d) user at) = sid" by (simp add: new_session_def)
  from assms(3) sid have "get_session_row sid (add_session (new_session sid (d_id d) user at) db)
      = Some (new_session sid (d_id d) user at)"
    using get_session_row_add_new [of "new_session sid (d_id d) user at" db]
    by (simp add: session_insert_ok_def)
  with assms(1,2,4) show ?thesis
    by (auto simp: connected_outcome_def get_session_patch get_desktop_patch row_for_def same_place_def
        new_session_def)
qed

lemma wp_open_session:
  assumes row: "row_for d user (work s)"
    "\<forall>x. get_desktop_row (d_id d) (work s) = Some x \<longrightarrow> d_power_state x = ''running''"
  shows "wp (open_session E P p user d)
    (\<lambda>r t. committed t = work t \<and> connected_outcome (d_pool_id d) user r (work t)
       \<and> cres_desktop_name r = d_name d)
    (\<lambda>_ t. committed t = committed s) s"
proof -
  obtain sid w where u: "e_uuid E (world s) = (sid, w)" by (cases "e_uuid E (world s)")
  let ?row = "new_session sid (d_id d) user (e_now E w)"
  have fields: "s_status ?row = S_CONNECTING" "s_id ?row = sid" by (simp_all add: new_session_def)
  show ?thesis
    unfolding open_session_def gen_uuid_def Let_def wp_bnd wp_now wp_andthen
    by (auto simp: wp_def [of "on_world (e_uuid E)"] exec_simps u
        intro!: wp_insert_session wp_prov split: option.splits)
      (simp_all add: wp_simps transition_to_active_def fields log_business_event_def open_session_db row)
qed

section \<open>Provisioning with an arbitrary provider\<close>

lemma safe_poll_until: "safe (on_db K) (\<lambda>_. True) check \<Longrightarrow> safe (on_db K) (\<lambda>_. True) (poll_until E check d i m n)"
  by (induction n) (auto intro!: safe_intros safe_monotonic safe_sleep)

lemma safe_wait_for_agent_any: "safe (on_db K) (\<lambda>_. True) (wait_for_agent E P ref)"
  unfolding wait_for_agent_def
  by (intro safe_intros safe_monotonic safe_poll_until safe_prov answers_any)

lemma safe_handle_any: "safe J (\<lambda>_. True) (handle_upid h)"
  by (auto simp: handle_upid_def intro: safe_ret safe_throw split: option.splits jval.splits)

lemma safe_build_vm_any: "safe (building u) (\<lambda>_. True) (build_vm E P p t user (d_id u) vmid name node)"
  unfolding build_vm_def clone_and_configure_def dispatch_clone_def start_and_wait_def take_baseline_def wait_task_def Let_def
  by (intro safe_andthen safe_when safe_bnd safe_prov safe_sleep safe_commit safe_ret
      safe_wait_for_agent_any safe_handle_any safe_build_write answers_any) (auto simp: same_place_def)

lemma provision_places_row:
  "wp (provision_desktop E P p t user None)
    (\<lambda>i r. \<exists>d. get_desktop_row i (work r) = Some d \<and> d_pool_id d = p_id p \<and> d_assigned_user d = user)
    (\<lambda>_ _. True) s"
proof (cases "p_status p = P_ACTIVE")
  case active: True
  show ?thesis
  proof (cases "reserve_desktop E p t user None s")
    case (Pair r s')
    show ?thesis
    proof (cases r)
      case (Inl e)
      with Pair active show ?thesis by (simp add: provision_desktop_def wp_def exec_simps)
    next
      case (Inr x)
      obtain i vmid name node where x: "x = (i, vmid, name, node)" by (cases x)
      from Pair Inr x obtain w v where u: "work s' = add_desktop (new_desktop p t user v i (e_now E w)) (work s)"
          "desktop_insert_ok (new_desktop p t user v i (e_now E w)) (work s)"
        by (auto simp: reserve_desktop_def exec_simps allocate_vmid_def split: prod.splits if_splits option.splits)
      let ?u = "new_desktop p t user v i (e_now E w)"
      have id: "d_id ?u = i" by (simp add: new_desktop_def)
      have "built_row ?u (work s')"
        unfolding u(1) using u(2) get_desktop_row_add_new [of ?u "work s"]
        by (simp add: built_row_def desktop_insert_ok_def same_place_def) (simp add: new_desktop_def)
      then have b: "building ?u s'" by (simp add: on_db_def)
      have "wp (catching provision_caught
             (andthen (build_vm E P p t user i vmid name node) (mark_built E p user i))
             (mark_build_failed E i))
         (\<lambda>_ r. \<exists>d. get_desktop_row i (work r) = Some d \<and> d_pool_id d = p_id p \<and> d_assigned_user d = user)
         (\<lambda>_ _. True) s'"
        unfolding wp_catching wp_andthen
        by (rule wp_mono [OF safeD [OF safe_build_vm_any b, unfolded id]])
          (auto simp: mark_built_def mark_build_failed_def wp_simps on_db_def built_row_def
            get_desktop_patch same_place_def new_desktop_def)
      from provision_from_reserved [OF active Pair [unfolded Inr x] this] show ?thesis
        by (rule wp_mono) auto
    qed
  qed
qed (simp add: provision_desktop_def wp_simps)

lemma row_for_loaded:
  "get_desktop_row i db = Some d \<Longrightarrow> d_assigned_user d = Some user \<Longrightarrow> row_for d user db"
  using get_desktop_rowD [of i db d] by (auto simp: row_for_def same_place_def)

lemma wp_find_persistent:
  assumes "keys_unique (work s)"
  shows "wp (find_persistent E P p user)
    (\<lambda>d t. row_for d user (work t) \<and> d_pool_id d = p_id p
       \<and> (users_desktops (p_id p) user (work s) \<noteq> [] \<longrightarrow> committed t = committed s))
    (\<lambda>_ t. users_desktops (p_id p) user (work s) \<noteq> [] \<longrightarrow> committed t = committed s) s"
proof (cases "users_desktops (p_id p) user (work s)" rule: scalar_one_or_none.cases)
  case 1
  show ?thesis unfolding find_persistent_def wp_bnd wp_query 1 scalar_one_or_none.simps wp_ret option.case
  proof (cases "get_template_row (p_template_id p) (work s)")
    case (Some t)
    then show "wp (case get_template_row (p_template_id p) (work s) of
         None \<Rightarrow> throw (PyAttributeError ''template'')
       | Some t \<Rightarrow> bnd (provision_desktop E P p t (Some user) None) (\<lambda>i. bnd (load_desktop i) (\<lambda>d.
           if d_status d = D_ERROR then throw (BrokerErr ''provisioning failed'') else ret d)))
      (\<lambda>d t. row_for d user (work t) \<and> d_pool_id d = p_id p \<and> ([] \<noteq> [] \<longrightarrow> committed t = committed s))
      (\<lambda>_ t. [] \<noteq> [] \<longrightarrow> committed t = committed s) s"
      unfolding Some option.case wp_bnd
      by (intro wp_mono [OF provision_places_row])
        (auto simp: load_desktop_def wp_simps intro: row_for_loaded)
  qed (simp add: wp_simps)
next
  case (2 d)
  then have "d \<in> set (users_desktops (p_id p) user (work s))" by simp
  then have d: "d \<in> set (desktops (work s))" "d_pool_id d = p_id p" "d_assigned_user d = Some user"
    by (auto simp: users_desktops_def)
  with assms have "get_desktop_row (d_id d) (work s) = Some d"
    unfolding get_desktop_row_def by (intro find_key_unique) (simp_all add: keys_unique_def)
  with d 2 show ?thesis
    by (simp add: find_persistent_def wp_simps row_for_def same_place_def)
next
  case (3 x y zs)
  then show ?thesis by (simp add: find_persistent_def wp_simps)
qed

lemma available_desktops_hd:
  assumes "available_desktops pid db = d # ds"
  shows "d \<in> set (desktops db)" "d_pool_id d = pid" "d_status d = D_AVAILABLE"
    "\<forall>x\<in>set (desktops db). d_pool_id x = pid \<and> d_status x = D_AVAILABLE \<longrightarrow> d_pve_vmid d \<le> d_pve_vmid x"
proof -
  let ?xs = "filter (\<lambda>d. d_pool_id d = pid \<and> d_status d = D_AVAILABLE) (desktops db)"
  have ne: "?xs \<noteq> []" using assms by (auto simp: available_desktops_def)
  have hd: "d = hd (sort_key d_pve_vmid ?xs)" using assms by (simp add: available_desktops_def)
  have "d \<in> set ?xs" unfolding hd using ne by (rule hd_sort_key_in)
  then show "d \<in> set (desktops db)" "d_pool_id d = pid" "d_status d = D_AVAILABLE" by auto
  show "\<forall>x\<in>set (desktops db). d_pool_id x = pid \<and> d_status x = D_AVAILABLE \<longrightarrow> d_pve_vmid d \<le> d_pve_vmid x"
    using sort_key_hd_least [OF ne] unfolding hd by auto
qed

lemma wp_claim_floating:
  assumes "keys_unique (work s)"
  shows "wp (claim_floating E p user)
    (\<lambda>d t. row_for d user (work t) \<and> d_pool_id d = p_id p \<and> committed t = committed s
       \<and> available_desktops (p_id p) (work s) \<noteq> []
       \<and> d_name d = d_name (hd (available_desktops (p_id p) (work s)))
       \<and> d_id d = d_id (hd (available_desktops (p_id p) (work s))))
    (\<lambda>_ t. committed t = committed s) s"
proof (cases "available_desktops (p_id p) (work s)")
  case Nil
  then show ?thesis by (simp add: claim_floating_def wp_simps)
next
  case (Cons d ds)
  note d = available_desktops_hd [OF Cons]
  with assms have "get_desktop_row (d_id d) (work s) = Some d"
    unfolding get_desktop_row_def by (intro find_key_unique) (simp_all add: keys_unique_def)
  with d Cons show ?thesis
    by (simp add: claim_floating_def wp_simps row_for_def same_place_def claim_desktop_def get_desktop_patch)
qed

lemma filter_pool_unique:
  assumes "keys_unique db" "p \<in> set (pools db)" "p_id p = i"
  shows "filter (\<lambda>q. p_id q = i) (pools db) = [p]"
  using assms filter_key_unique [of p_id "pools db" p] by (auto simp: keys_unique_def)

text \<open>Everything a \<open>connect\<close> can end in, once the pool row is found.\<close>

definition had_desktop :: "pool \<Rightarrow> string \<Rightarrow> db \<Rightarrow> bool" where
  "had_desktop p user db \<longleftrightarrow> p_pool_type p = NONPERSISTENT \<or> users_desktops (p_id p) user db \<noteq> []"

lemma wp_find_desktop:
  assumes "keys_unique (work s)"
  shows "wp (if p_pool_type p = PERSISTENT then find_persistent E P p user else claim_floating E p user)
    (\<lambda>d t. row_for d user (work t) \<and> d_pool_id d = p_id p
       \<and> (had_desktop p user (work s) \<longrightarrow> committed t = committed s)
       \<and> (p_pool_type p = NONPERSISTENT \<longrightarrow> available_desktops (p_id p) (work s) \<noteq> []
            \<and> d_name d = d_name (hd (available_desktops (p_id p) (work s)))))
    (\<lambda>_ t. had_desktop p user (work s) \<longrightarrow> committed t = committed s) s"
proof (cases "p_pool_type p")
  case PERSISTENT
  then show ?thesis
    using wp_find_persistent [OF assms, of E P p user] by (auto simp: had_desktop_def elim!: wp_mono)
next
  case NONPERSISTENT
  then show ?thesis
    using wp_claim_floating [OF assms, of E p user] by (auto simp: had_desktop_def elim!: wp_mono)
qed

lemma wp_connect:
  assumes k: "keys_unique (work s)" and p: "p \<in> set (pools (work s))"
  shows "wp (connect E providers user groups (p_id p))
    (\<lambda>r t. committed t = work t \<and> connected_outcome (p_id p) user r (work t)
       \<and> is_entitled (p_id p) user groups (work s) \<and> p_status p = P_ACTIVE
       \<and> (p_pool_type p = NONPERSISTENT \<longrightarrow> available_desktops (p_id p) (work s) \<noteq> []
            \<and> cres_desktop_name r = d_name (hd (available_desktops (p_id p) (work s)))))
    (\<lambda>_ t. had_desktop p user (work s) \<longrightarrow> committed t = committed s) s"
proof -
  have one: "filter (\<lambda>q. p_id q = p_id p) (pools (work s)) = [p]"
    using k p by (simp add: filter_pool_unique)
  show ?thesis
  proof (cases "p_status p = P_ACTIVE \<and> is_entitled (p_id p) user groups (work s)
      \<and> providers (p_cluster_id p) \<noteq> None")
    case False
    then show ?thesis by (auto simp: connect_def wp_simps one split: option.splits)
  next
    case True
    then obtain P where P: "providers (p_cluster_id p) = Some P" by auto
    let ?Q = "\<lambda>r t. committed t = work t \<and> connected_outcome (p_id p) user r (work t)
       \<and> (p_pool_type p = NONPERSISTENT \<longrightarrow> available_desktops (p_id p) (work s) \<noteq> []
            \<and> cres_desktop_name r = d_name (hd (available_desktops (p_id p) (work s))))"
    let ?X = "\<lambda>e t. had_desktop p user (work s) \<longrightarrow> committed t = committed s"
    have "wp (bnd (if p_pool_type p = PERSISTENT then find_persistent E P p user
                else claim_floating E p user) (\<lambda>d.
           andthen (ensure_running E P d) (open_session E P p user d))) ?Q ?X s"
      unfolding wp_bnd
    proof (rule wp_mono [OF wp_find_desktop [OF k]])
      fix d and t :: "'a st"
      assume d: "row_for d user (work t) \<and> d_pool_id d = p_id p
       \<and> (had_desktop p user (work s) \<longrightarrow> committed t = committed s)
       \<and> (p_pool_type p = NONPERSISTENT \<longrightarrow> available_desktops (p_id p) (work s) \<noteq> []
            \<and> d_name d = d_name (hd (available_desktops (p_id p) (work s))))"
      then have r: "row_for d user (work t)" by blast
      show "wp (andthen (ensure_running E P d) (open_session E P p user d)) ?Q ?X t"
        unfolding wp_andthen
      proof (rule wp_mono [OF wp_ensure_running [OF r]])
        fix x and t' :: "'a st"
        assume t': "committed t' = committed t \<and> sessions (work t') = sessions (work t)
          \<and> row_for d user (work t')
          \<and> (\<forall>x. get_desktop_row (d_id d) (work t') = Some x \<longrightarrow> d_power_state x = ''running'')"
        then show "wp (open_session E P p user d) ?Q ?X t'"
          by (intro wp_mono [OF wp_open_session]) (use d t' in auto)
      qed (use d in auto)
    qed
    with True P show ?thesis
      by (auto simp: connect_def wp_bnd wp_query one wp_ret elim!: wp_mono)
  qed
qed

lemma connect_unknown_pool:
  assumes "\<forall>p\<in>set (pools (work s)). p_id p \<noteq> pid"
  shows "connect E providers user groups pid s = (Inl NoResultFound, s)"
proof -
  have "filter (\<lambda>p. p_id p = pid) (pools (work s)) = []" using assms by (simp add: filter_empty_conv)
  then show ?thesis by (simp add: connect_def exec_simps)
qed

section \<open>Properties\<close>

text \<open>
  \<open>connect\<close> refuses before it touches anything: a pool that is not active, a user
  with no entitlement for it (neither by name nor by group), and an exhausted
  non-persistent pool each raise their exception, call no provider and change nothing.
\<close>

theorem connect_refusals:
  assumes "keys_unique (work s)" "p \<in> set (pools (work s))"
  shows "(p_status p \<noteq> P_ACTIVE \<longrightarrow> connect E providers user groups (p_id p) s
          = (Inl (PoolInactiveErr (p_name p) (pool_status_value (p_status p))), s))
    \<and> (p_status p = P_ACTIVE \<and> \<not> is_entitled (p_id p) user groups (work s) \<longrightarrow>
        connect E providers user groups (p_id p) s = (Inl (NotEntitled user (p_name p)), s))
    \<and> (p_status p = P_ACTIVE \<and> is_entitled (p_id p) user groups (work s)
        \<and> p_pool_type p = NONPERSISTENT \<and> providers (p_cluster_id p) \<noteq> None
        \<and> (\<forall>d\<in>set (desktops (work s)). d_pool_id d = p_id p \<longrightarrow> d_status d \<noteq> D_AVAILABLE) \<longrightarrow>
        connect E providers user groups (p_id p) s = (Inl (PoolFull (p_name p)), s))"
proof -
  have one: "filter (\<lambda>q. p_id q = p_id p) (pools (work s)) = [p]"
    using assms by (simp add: filter_pool_unique)
  have full: "available_desktops (p_id p) (work s) = []"
    if "\<forall>d\<in>set (desktops (work s)). d_pool_id d = p_id p \<longrightarrow> d_status d \<noteq> D_AVAILABLE"
    using that by (auto simp: available_desktops_def filter_empty_conv)
  show ?thesis using one full by (auto simp: connect_def exec_simps claim_floating_def)
qed

definition example_db :: db where
  "example_db = empty_db\<lparr>pools := [example_pool], desktops := [example_desktop],
     entitlements := [\<lparr>en_id = 5, en_pool_id = 1, en_principal_type = ''group'',
       en_principal_name = ''eng'', en_created_at = 0\<rparr>]\<rparr>"

definition sim_providers :: "uuid \<Rightarrow> int provider option" where
  "sim_providers i = (if i = 3 then Some sim_provider else None)"

lemma example_db_keys [simp]: "keys_unique example_db"
  by (simp add: keys_unique_def example_db_def empty_db_def)

theorem connect_refusals_witness:
  "connect sim_env sim_providers ''bob'' [''sales''] (p_id example_pool) (sim_st example_db)
     = (Inl (NotEntitled ''bob'' (p_name example_pool)), sim_st example_db)"
proof -
  have "example_pool \<in> set (pools (work (sim_st example_db)))" by (simp add: example_db_def)
  moreover have "\<not> is_entitled (p_id example_pool) ''bob'' [''sales''] (work (sim_st example_db))"
    by (simp add: example_db_def is_entitled_def)
  ultimately show ?thesis
    using connect_refusals [of "sim_st example_db" example_pool sim_env sim_providers "''bob''" "[''sales'']"]
    by (simp only: sim_st_simps example_db_keys example_pool_simps simp_thms)
qed

text \<open>
  Property C1. When \<open>connect\<close> returns, the pool was active and the user entitled to it, and
  one committed transaction holds an \<open>ACTIVE\<close> session of that user with the ticket that was
  returned, on a running desktop of that pool that is assigned to that same user and
  \<open>CONNECTED\<close>. In a non-persistent pool it is the desktop that was \<open>AVAILABLE\<close> with the
  lowest VMID.
\<close>

theorem connect_gives_own_desktop:
  assumes "keys_unique (work s)"
  shows "wp (connect E providers user groups pid)
    (\<lambda>r t. committed t = work t \<and> connected_outcome pid user r (work t)
       \<and> is_entitled pid user groups (work s)
       \<and> (\<exists>p\<in>set (pools (work s)). p_id p = pid \<and> p_status p = P_ACTIVE
            \<and> (p_pool_type p = NONPERSISTENT \<longrightarrow> (\<exists>d\<in>set (desktops (work s)). d_pool_id d = pid
                 \<and> d_status d = D_AVAILABLE \<and> d_name d = cres_desktop_name r
                 \<and> (\<forall>x\<in>set (desktops (work s)). d_pool_id x = pid \<and> d_status x = D_AVAILABLE \<longrightarrow>
                      d_pve_vmid d \<le> d_pve_vmid x)))))
    (\<lambda>_ _. True) s"
proof (cases "\<exists>p\<in>set (pools (work s)). p_id p = pid")
  case True
  then obtain p where p: "p \<in> set (pools (work s))" "p_id p = pid" by blast
  from wp_connect [OF assms p(1), of E providers user groups] show ?thesis
    unfolding p(2)
  proof (rule wp_mono)
    fix r t
    assume *: "committed t = work t \<and> connected_outcome pid user r (work t)
       \<and> is_entitled pid user groups (work s) \<and> p_status p = P_ACTIVE
       \<and> (p_pool_type p = NONPERSISTENT \<longrightarrow> available_desktops pid (work s) \<noteq> []
            \<and> cres_desktop_name r = d_name (hd (available_desktops pid (work s))))"
    have "\<exists>d\<in>set (desktops (work s)). d_pool_id d = pid \<and> d_status d = D_AVAILABLE
        \<and> d_name d = cres_desktop_name r
        \<and> (\<forall>x\<in>set (desktops (work s)). d_pool_id x = pid \<and> d_status x = D_AVAILABLE \<longrightarrow>
              d_pve_vmid d \<le> d_pve_vmid x)" if "p_pool_type p = NONPERSISTENT"
    proof -
      from * that obtain d ds where ds: "available_desktops pid (work s) = d # ds"
        by (cases "available_desktops pid (work s)") auto
      from available_desktops_hd [OF ds] * that ds show ?thesis by auto
    qed
    with * p show "committed t = work t \<and> connected_outcome pid user r (work t)
       \<and> is_entitled pid user groups (work s)
       \<and> (\<exists>p\<in>set (pools (work s)). p_id p = pid \<and> p_status p = P_ACTIVE
            \<and> (p_pool_type p = NONPERSISTENT \<longrightarrow> (\<exists>d\<in>set (desktops (work s)). d_pool_id d = pid
                 \<and> d_status d = D_AVAILABLE \<and> d_name d = cres_desktop_name r
                 \<and> (\<forall>x\<in>set (desktops (work s)). d_pool_id x = pid \<and> d_status x = D_AVAILABLE \<longrightarrow>
                      d_pve_vmid d \<le> d_pve_vmid x))))" by blast
  qed simp
next
  case False
  then show ?thesis using connect_unknown_pool [of s pid] by (simp add: wp_def)
qed

theorem connect_gives_own_desktop_witness:
  "wp (connect sim_env sim_providers ''alice'' [''eng''] 1)
    (\<lambda>r t. committed t = work t \<and> connected_outcome 1 ''alice'' r (work t)) (\<lambda>_ _. True)
    (sim_st example_db)"
  by (rule wp_mono [OF connect_gives_own_desktop]) simp_all

text \<open>
  A failed \<open>connect\<close> takes nothing: in a non-persistent pool, and for a user who
  already has a desktop in a persistent pool, whatever was raised, the committed tables are
  those from before the call, so the claimed desktop stays free and no session is left
  behind.
\<close>

theorem connect_failure_takes_nothing:
  assumes "keys_unique (work s)" "p \<in> set (pools (work s))"
    and "p_pool_type p = NONPERSISTENT \<or> users_desktops (p_id p) user (work s) \<noteq> []"
  shows "wp (connect E providers user groups (p_id p)) (\<lambda>_ _. True)
    (\<lambda>_ t. committed t = committed s) s"
  by (rule wp_mono [OF wp_connect [OF assms(1,2)]]) (use assms(3) in \<open>auto simp: had_desktop_def\<close>)

theorem connect_failure_takes_nothing_witness:
  "wp (connect sim_env sim_providers ''alice'' [''eng''] (p_id example_pool)) (\<lambda>_ _. True)
    (\<lambda>_ t. committed t = example_db) (sim_st example_db)"
proof -
  have "example_pool \<in> set (pools (work (sim_st example_db)))" by (simp add: example_db_def)
  then show ?thesis
    using connect_failure_takes_nothing [of "sim_st example_db" example_pool "''alice''" sim_env
        sim_providers "[''eng'']"]
    by (simp only: sim_st_simps example_db_keys example_pool_simps simp_thms)
qed

lemma session_filter_unique:
  assumes "keys_unique db" "get_session_row i db = Some r"
  shows "filter (\<lambda>x. s_id x = i) (sessions db) = [r]"
  using assms filter_key_unique [of s_id "sessions db" r]
  by (auto simp: keys_unique_def dest: get_session_rowD)

text \<open>The audit row of an ended session: who asked, or else the session's user, and what was ended. The
  assignment is read after the release, so that of a floating desktop is gone.\<close>

definition session_end_row :: "string option \<Rightarrow> vdi_session \<Rightarrow> desktop \<Rightarrow> audit_row \<Rightarrow> bool" where
  "session_end_row actor row d a \<longleftrightarrow> a_action a = ''broker.session.end''
     \<and> a_resource_type a = Some ''session'' \<and> a_resource_id a = Some (s_id row)
     \<and> a_actor a = (case actor of Some (c # cs) \<Rightarrow> c # cs | _ \<Rightarrow> s_username row)
     \<and> a_details a = JObj [(''desktop_id'', JStr (str_uuid (d_id d))), (''desktop_name'', JStr (d_name d)),
         (''assignment_type'', case d_assignment_type d of None \<Rightarrow> JNull
            | Some x \<Rightarrow> if x = ''floating'' then JNull else JStr x)]"

lemma end_session_run:
  assumes k: "keys_unique (work s)" and r: "get_session_row i (work s) = Some row"
    and d: "s_desktop_id row = Some j" "get_desktop_row j (work s) = Some d"
    and live: "s_status row \<noteq> S_ENDED"
  shows "\<exists>db. fst (end_session E i actor s) = Inr () \<and> committed (snd (end_session E i actor s)) = db
    \<and> get_session_row i db = Some (row\<lparr>s_status := S_ENDED,
          s_ended_at := Some (e_now E (world s)), s_connection_info := None\<rparr>)
    \<and> get_desktop_row j db = Some ((release_desktop d)\<lparr>d_updated_at := e_now E (world s)\<rparr>)
    \<and> (\<exists>a. audit_log db = audit_log (work s) @ [a] \<and> session_end_row actor row d a)"
proof -
  have id: "s_id row = i" "d_id d = j" using r d(2) by (auto dest: get_session_rowD get_desktop_rowD)
  have ff: "filter (\<lambda>x. Some (d_id x) = s_desktop_id row) (desktops (work s)) = [d]"
    unfolding d(1) using k d(2) by (rule desktop_filter_unique)
  show ?thesis
    using session_filter_unique [OF k r] transition_to_ended_run [OF live ff, of E] id r d
    by (simp add: end_session_def exec_simps log_business_event_def get_session_patch get_desktop_patch
        add_audit_def get_session_row_def [symmetric])
      (simp add: get_session_row_def get_desktop_row_def patch_session_def patch_desktop_def find_map_key
        session_end_row_def j_opt_str_def release_desktop_def split: option.split list.split)
qed

text \<open>
  Property C21. Ending a live session succeeds and commits, in one transaction, the session
  row in \<open>ENDED\<close> with its console ticket erased, the desktop released (a floating desktop
  becomes \<open>AVAILABLE\<close> with its assignment cleared, any other keeps its user and becomes
  \<open>DISCONNECTED\<close>) and one audit row, which names the actor, or the session's user when no
  actor was given, and the session and desktop that were ended (the assignment only if it was not
  floating: the row is written after the release). A session that already ended is refused,
  and a session whose desktop was deleted cannot be ended at all: it raises \<open>NoResultFound\<close>;
  both leave the committed tables alone.
\<close>

theorem end_session_effect:
  assumes "keys_unique (work s)" "get_session_row i (work s) = Some row"
  shows "(\<forall>j d. s_desktop_id row = Some j \<and> get_desktop_row j (work s) = Some d \<and> s_status row \<noteq> S_ENDED \<longrightarrow>
      (\<exists>db se x a. fst (end_session E i actor s) = Inr () \<and> committed (snd (end_session E i actor s)) = db
        \<and> get_session_row i db = Some se \<and> s_status se = S_ENDED \<and> s_connection_info se = None
        \<and> get_desktop_row j db = Some x \<and> same_place x d
        \<and> (if d_assignment_type d = Some ''floating''
           then d_status x = D_AVAILABLE \<and> d_assigned_user x = None \<and> d_assignment_type x = None
           else d_status x = D_DISCONNECTED \<and> d_assigned_user x = d_assigned_user d)
        \<and> audit_log db = audit_log (work s) @ [a] \<and> session_end_row actor row d a))
    \<and> (s_status row = S_ENDED \<longrightarrow>
        fst (end_session E i actor s) = Inl (InvalidSessionState i ''ended'' ''transition_to_ended'')
        \<and> committed (snd (end_session E i actor s)) = committed s)
    \<and> (s_status row \<noteq> S_ENDED \<and> s_desktop_id row = None \<longrightarrow>
        fst (end_session E i actor s) = Inl NoResultFound
        \<and> committed (snd (end_session E i actor s)) = committed s)"
proof (intro conjI allI impI)
  fix j d assume "s_desktop_id row = Some j \<and> get_desktop_row j (work s) = Some d \<and> s_status row \<noteq> S_ENDED"
  with end_session_run [OF assms, of j d E actor]
  show "\<exists>db se x a. fst (end_session E i actor s) = Inr () \<and> committed (snd (end_session E i actor s)) = db
        \<and> get_session_row i db = Some se \<and> s_status se = S_ENDED \<and> s_connection_info se = None
        \<and> get_desktop_row j db = Some x \<and> same_place x d
        \<and> (if d_assignment_type d = Some ''floating''
           then d_status x = D_AVAILABLE \<and> d_assigned_user x = None \<and> d_assignment_type x = None
           else d_status x = D_DISCONNECTED \<and> d_assigned_user x = d_assigned_user d)
        \<and> audit_log db = audit_log (work s) @ [a] \<and> session_end_row actor row d a"
    by (auto simp: same_place_def release_desktop_def)
qed (use session_filter_unique [OF assms] assms in
  \<open>auto simp: end_session_def exec_simps transition_to_ended_def dest: get_session_rowD\<close>)

definition example_session :: vdi_session where
  "example_session = (new_session 20 10 ''alice'' 0)\<lparr>s_status := S_ACTIVE,
     s_connection_info := Some (JObj [(''password'', JStr ''ticket'')])\<rparr>"

theorem end_session_effect_witness:
  "fst (end_session sim_env 20 None (sim_st (example_db\<lparr>sessions := [example_session]\<rparr>))) = Inr ()"
proof -
  let ?s = "sim_st (example_db\<lparr>sessions := [example_session]\<rparr>)"
  have k: "keys_unique (work ?s)"
    by (simp add: keys_unique_def example_db_def empty_db_def)
  have r: "get_session_row 20 (work ?s) = Some example_session"
    by (simp add: get_session_row_def example_session_def new_session_def)
  have "s_desktop_id example_session = Some 10" "s_status example_session \<noteq> S_ENDED"
    by (simp_all add: example_session_def new_session_def)
  moreover have "get_desktop_row 10 (work ?s) = Some example_desktop"
    by (simp add: get_desktop_row_def example_db_def)
  ultimately show ?thesis
    using end_session_effect [OF k r, of sim_env None] by blast
qed

text \<open>
  Property C7. The three transitions implement the session state machine of the tracker's header: for a
  loaded row each succeeds exactly when the machine has the move from the row's status,
  and then only that session's status changes, to the move's target; otherwise it raises
  \<open>InvalidSessionStateError\<close> and changes nothing. No chain of moves returns to a status it left,
  so an ended session stays ended. (A row whose desktop still exists: the end of an orphaned
  session is the error of the property on \<open>end_session\<close>.)
\<close>

theorem transitions_refine_machine:
  assumes "keys_unique (work s)" "get_session_row (s_id row) (work s) = Some row"
    and "s_desktop_id row = Some j" "get_desktop_row j (work s) = Some d"
  shows "implements_move S_ACTIVE row (transition_to_active E row info) s
    \<and> implements_move S_DISCONNECTED row (transition_to_disconnected E row) s
    \<and> implements_move S_ENDED row (transition_to_ended E row) s
    \<and> (session_move\<^sup>+\<^sup>+ a b \<longrightarrow> a \<noteq> b) \<and> \<not> session_move S_ENDED b"
  using active_implements [OF assms(2)] disconnected_implements [OF assms(2)]
    ended_implements [OF assms(2,1,3,4)] session_moves_rank [of a b]
  by (auto elim: from_ended)

theorem transitions_refine_machine_witness:
  "implements_move S_ENDED example_session (transition_to_ended sim_env example_session)
     (sim_st (example_db\<lparr>sessions := [example_session]\<rparr>))"
proof -
  let ?s = "sim_st (example_db\<lparr>sessions := [example_session]\<rparr>)"
  have "keys_unique (work ?s)" by (simp add: keys_unique_def example_db_def empty_db_def)
  moreover have "get_session_row (s_id example_session) (work ?s) = Some example_session"
    by (simp add: get_session_row_def example_session_def new_session_def)
  moreover have "s_desktop_id example_session = Some 10"
    by (simp add: example_session_def new_session_def)
  moreover have "get_desktop_row 10 (work ?s) = Some example_desktop"
    by (simp add: get_desktop_row_def example_db_def)
  ultimately show ?thesis using transitions_refine_machine [of ?s example_session 10 example_desktop] by blast
qed

end
