(* ===== verification/Task_Tracker.thy ===== *)
theory Task_Tracker
  imports Broker
begin

text \<open>
  \<open>broker/app/services/task_tracker.py\<close> and \<open>broker/app/workers/task_tracker.py\<close>: the task a
  desktop row waits for, what its completion or failure writes, and the worker tick that
  polls every row with a task on an active cluster. Logging has no counterpart here.
\<close>

section \<open>Task kinds\<close>

datatype task_kind = T_PROVISION | T_DESTROY | T_REBUILD | T_START | T_SHUTDOWN | T_STOP

fun task_kind_value :: "task_kind \<Rightarrow> string" where
  "task_kind_value T_PROVISION = ''provision''"
| "task_kind_value T_DESTROY = ''destroy''"
| "task_kind_value T_REBUILD = ''rebuild''"
| "task_kind_value T_START = ''start''"
| "task_kind_value T_SHUTDOWN = ''shutdown''"
| "task_kind_value T_STOP = ''stop''"

text \<open>\<open>DesktopTaskKind(value)\<close>; \<open>None\<close> is its \<open>ValueError\<close>.\<close>

definition parse_task_kind :: "string option \<Rightarrow> task_kind option" where
  "parse_task_kind v = find (\<lambda>k. Some (task_kind_value k) = v)
     [T_PROVISION, T_DESTROY, T_REBUILD, T_START, T_SHUTDOWN, T_STOP]"

definition repr_opt :: "string option \<Rightarrow> string" where
  "repr_opt v = (case v of None \<Rightarrow> ''None'' | Some x \<Rightarrow> [CHR 0x27] @ x @ [CHR 0x27])"

section \<open>Recording and completing tasks\<close>

definition record_desktop_task ::
    "'w env \<Rightarrow> uuid \<Rightarrow> task_kind \<Rightarrow> task_handle \<Rightarrow> ('w, unit) prog" where
  "record_desktop_task E i kind h =
     bnd (handle_upid h) (\<lambda>u.
     set_desktop E i (\<lambda>d. d\<lparr>d_pve_task_upid := Some u, d_pve_task_kind := Some (task_kind_value kind)\<rparr>))"

definition clear_task :: "desktop \<Rightarrow> desktop" where
  "clear_task d = d\<lparr>d_pve_task_upid := None, d_pve_task_kind := None\<rparr>"

definition mark_task_error :: "'w env \<Rightarrow> uuid \<Rightarrow> task_kind \<Rightarrow> string \<Rightarrow> ('w, unit) prog" where
  "mark_task_error E i kind msg =
     in_session (bnd (query (get_desktop_row i)) (\<lambda>row.
       case row of
         None \<Rightarrow> ret ()
       | Some d \<Rightarrow>
           andthen (set_desktop E i (\<lambda>d. clear_task (d\<lparr>d_status := D_ERROR,
              d_error_message := Some (task_kind_value kind @ '' failed: '' @ msg)\<rparr>)))
           (andthen (log_business_event E ''system''
              (''desktop.'' @ task_kind_value kind @ ''.failed'') (Some ''desktop'') (Some i)
              [(''error'', JStr msg)] None)
           commit)))"

text \<open>What a completed task of each kind writes to the row, the two-step kinds apart.\<close>

definition apply_kind :: "task_kind \<Rightarrow> desktop \<Rightarrow> desktop" where
  "apply_kind kind d = clear_task
     (case kind of
        T_PROVISION \<Rightarrow> d\<lparr>d_status := D_AVAILABLE\<rparr>
      | T_START \<Rightarrow> d\<lparr>d_power_state := ''running''\<rparr>
      | T_SHUTDOWN \<Rightarrow> d\<lparr>d_power_state := ''stopped''\<rparr>
      | T_STOP \<Rightarrow> d\<lparr>d_power_state := ''stopped''\<rparr>
      | T_REBUILD \<Rightarrow> d\<lparr>d_status := D_PROVISIONING\<rparr>
      | T_DESTROY \<Rightarrow> d)"

definition rebuild_user :: "desktop \<Rightarrow> string option" where
  "rebuild_user d = (if d_assignment_type d = Some ''persistent'' then d_assigned_user d else None)"

text \<open>
  The first session block; for \<open>REBUILD\<close> it returns the pool and the user of the second leg.
\<close>

definition apply_first_leg :: "'w env \<Rightarrow> uuid \<Rightarrow> task_kind \<Rightarrow> ('w, (uuid \<times> string option) option) prog" where
  "apply_first_leg E i kind =
     in_session (bnd (query (get_desktop_row i)) (\<lambda>row.
       case row of
         None \<Rightarrow> ret None
       | Some d \<Rightarrow>
           if kind = T_DESTROY
           then andthen (log_business_event E ''system'' ''desktop.destroy.completed''
                  (Some ''desktop'') (Some i)
                  [(''vmid'', JInt (d_pve_vmid d)), (''name'', JStr (d_name d))] None)
                (andthen (update_db (delete_desktop_row i)) (andthen commit (ret None)))
           else andthen (set_desktop E i (apply_kind kind))
                (andthen commit
                (ret (if kind = T_REBUILD then Some (d_pool_id d, rebuild_user d) else None)))))"

definition rebuild_second_leg ::
    "'w env \<Rightarrow> 'w provider \<Rightarrow> uuid \<Rightarrow> uuid \<Rightarrow> string option \<Rightarrow> ('w, unit) prog" where
  "rebuild_second_leg E P i pid user =
     in_session (bnd (query (\<lambda>db. filter (\<lambda>p. p_id p = pid) (pools db))) (\<lambda>rows.
       bnd (scalar_one rows) (\<lambda>p.
       bnd (query (get_template_row (p_template_id p))) (\<lambda>tr.
       bnd (query (get_desktop_row i)) (\<lambda>existing.
       case tr of None \<Rightarrow> throw (PyAttributeError ''template'') | Some t \<Rightarrow>
       andthen (provision_desktop E P p t user existing) (ret ()))))))"

definition apply_task_success ::
    "'w env \<Rightarrow> uuid \<Rightarrow> task_kind \<Rightarrow> (exn + 'w provider) \<Rightarrow> ('w, unit) prog" where
  "apply_task_success E i kind factory =
     bnd (apply_first_leg E i kind) (\<lambda>leg2.
     case leg2 of
       None \<Rightarrow> ret ()
     | Some (pid, user) \<Rightarrow>
         (case factory of
            Inl e \<Rightarrow> mark_task_error E i kind (''provider lookup: '' @ exn_str e)
          | Inr P \<Rightarrow> rebuild_second_leg E P i pid user))"

section \<open>The worker\<close>

definition in_flight :: "db \<Rightarrow> (desktop \<times> cluster) list" where
  "in_flight db = concat (map (\<lambda>d.
     if d_pve_task_upid d = None then []
     else (case get_pool_row (d_pool_id d) db of None \<Rightarrow> [] | Some p \<Rightarrow>
       (case get_cluster_row (p_cluster_id p) db of None \<Rightarrow> [] | Some c \<Rightarrow>
          if c_status c = C_ACTIVE then [(d, c)] else []))) (desktops db))"

definition task_handle_of :: "'w provider \<Rightarrow> desktop \<Rightarrow> task_handle" where
  "task_handle_of P d = \<lparr>h_provider_type = pv_type P,
     h_data = JObj [(''node'', JStr (d_pve_node d)), (''upid'', j_opt_str (d_pve_task_upid d))]\<rparr>"

definition poll_one ::
    "'w env \<Rightarrow> (uuid \<Rightarrow> 'w provider option) \<Rightarrow> desktop \<times> cluster \<Rightarrow> ('w, unit) prog" where
  "poll_one E providers dc =
     (case dc of (d, c) \<Rightarrow>
     (case providers (c_id c) of None \<Rightarrow> ret () | Some P \<Rightarrow>
     (case parse_task_kind (d_pve_task_kind d) of
        None \<Rightarrow> mark_task_error E (d_id d) T_PROVISION
                  (''unknown task kind '' @ repr_opt (d_pve_task_kind d))
      | Some kind \<Rightarrow>
          bnd (catching is_provider_error
                (bnd (prov (CallTaskStatus (task_handle_of P d)) (pv_get_task_status P (task_handle_of P d)))
                   (\<lambda>st. ret (Inr st)))
                (\<lambda>e. ret (Inl e))) (\<lambda>res.
          case res of
            Inl e \<Rightarrow> mark_task_error E (d_id d) kind (exn_text e)
          | Inr st \<Rightarrow>
              if ts_state st = ''running'' then ret ()
              else if ts_success st = Some True
              then apply_task_success E (d_id d) kind (Inr P)
              else mark_task_error E (d_id d) kind
                     (if truthy (ts_error_message st) then the (ts_error_message st)
                      else ''task reported failure with no message'')))))"

definition guarded :: "('w, unit) prog \<Rightarrow> ('w, unit) prog" where
  "guarded m = catching (\<lambda>_. True) m (\<lambda>_. ret ())"

definition task_tracker_tick :: "'w env \<Rightarrow> (uuid \<Rightarrow> 'w provider option) \<Rightarrow> ('w, unit) prog" where
  "task_tracker_tick E providers =
     bnd (in_session (query in_flight)) (\<lambda>rows.
     for_each rows (\<lambda>dc. guarded (poll_one E providers dc)))"

section \<open>Invariants\<close>

lemma tracker_writes_keep_identity [simp]:
  "keeps_identity clear_task" "keeps_identity (apply_kind kind)"
  by (auto simp: keeps_identity_def clear_task_def apply_kind_def split: task_kind.splits)

context db_writes begin

lemma pres_guarded: "pres (both I) m \<Longrightarrow> pres (both I) (guarded m)"
  unfolding guarded_def by (intro pres_intros)

lemma pres_record_desktop_task: "pres (both I) (record_desktop_task E i kind h)"
  unfolding record_desktop_task_def
  by (intro pres_intros pres_prims pres_handle_upid) (simp add: keeps_identity_def)

lemma pres_mark_task_error: "pres (both I) (mark_task_error E i kind msg)"
  unfolding mark_task_error_def
  by (intro pres_intros pres_prims pres_log_business_event) (simp add: keeps_identity_def clear_task_def)

lemma pres_apply_first_leg: "pres (both I) (apply_first_leg E i kind)"
  unfolding apply_first_leg_def
  by (intro pres_intros pres_prims pres_log_business_event tracker_writes_keep_identity)

end

context db_invariant begin

lemma pres_provision_with_pool:
  "pres (both (\<lambda>db. I db \<and> pool_current p db)) (provision_desktop E P p t user ex)"
  by (rule with_pool.pres_provision_desktop) simp

lemma pres_rebuild_second_leg: "pres (both I) (rebuild_second_leg E P i pid user)"
  unfolding rebuild_second_leg_def
  by (intro pres_session_pool_one pres_intros with_pool.pres_prims pres_provision_with_pool)

lemma pres_apply_task_success: "pres (both I) (apply_task_success E i kind factory)"
  unfolding apply_task_success_def
  by (intro pres_intros pres_apply_first_leg pres_mark_task_error pres_rebuild_second_leg)

lemma pres_task_tracker_tick: "pres (both I) (task_tracker_tick E providers)"
  unfolding task_tracker_tick_def poll_one_def
  by (intro pres_intros pres_prims pres_guarded pres_mark_task_error pres_apply_task_success)

lemma pres_connect: "pres (both I) (in_session (connect E providers user groups pid))"
  unfolding connect_def
  by (intro pres_session_pool_one pres_intros with_pool.pres_prims with_pool.pres_claim_floating
      with_pool.pres_ensure_running with_pool.pres_open_session with_pool.pres_find_persistent) simp

end

section \<open>What a poll does to the row\<close>

definition same_but_stamp :: "desktop \<Rightarrow> desktop \<Rightarrow> bool" where
  "same_but_stamp x y \<longleftrightarrow> x\<lparr>d_updated_at := 0\<rparr> = y\<lparr>d_updated_at := 0\<rparr>"

lemma same_but_stamp_refl [simp]: "same_but_stamp (x\<lparr>d_updated_at := t\<rparr>) x" "same_but_stamp x x"
  by (simp_all add: same_but_stamp_def)

lemma same_but_stampD:
  assumes "same_but_stamp x y"
  shows "d_status x = d_status y" "d_pve_task_upid x = d_pve_task_upid y"
    "d_pve_task_kind x = d_pve_task_kind y" "d_error_message x = d_error_message y"
    "d_power_state x = d_power_state y" "d_assigned_user x = d_assigned_user y"
  using assms [unfolded same_but_stamp_def, THEN arg_cong, of d_status]
    assms [unfolded same_but_stamp_def, THEN arg_cong, of d_pve_task_upid]
    assms [unfolded same_but_stamp_def, THEN arg_cong, of d_pve_task_kind]
    assms [unfolded same_but_stamp_def, THEN arg_cong, of d_error_message]
    assms [unfolded same_but_stamp_def, THEN arg_cong, of d_power_state]
    assms [unfolded same_but_stamp_def, THEN arg_cong, of d_assigned_user] by simp_all

lemma clear_task_fields [simp]: "d_id (clear_task d) = d_id d"
  by (simp add: clear_task_def)

definition failed_row :: "task_kind \<Rightarrow> string \<Rightarrow> desktop \<Rightarrow> desktop" where
  "failed_row kind msg d = clear_task (d\<lparr>d_status := D_ERROR,
     d_error_message := Some (task_kind_value kind @ '' failed: '' @ msg)\<rparr>)"

lemma failed_row_id [simp]: "d_id (failed_row kind msg d) = d_id d"
  by (simp add: failed_row_def clear_task_def)

lemma apply_kind_id [simp]: "d_id (apply_kind kind d) = d_id d"
  by (simp add: apply_kind_def clear_task_def split: task_kind.splits)

lemma mark_task_error_run:
  assumes "get_desktop_row i (committed s) = Some d"
  shows "\<exists>x. fst (mark_task_error E i kind msg s) = Inr ()
    \<and> get_desktop_row i (committed (snd (mark_task_error E i kind msg s))) = Some x
    \<and> same_but_stamp x (failed_row kind msg d)"
  using assms
  by (auto simp: mark_task_error_def exec_simps log_business_event_def get_desktop_patch
      failed_row_def)

text \<open>The row a poll leaves, \<open>None\<close> when it removes it.\<close>

definition polled_row :: "task_kind \<Rightarrow> (exn + task_status) \<Rightarrow> desktop \<Rightarrow> desktop option" where
  "polled_row kind res d =
     (case res of
        Inl e \<Rightarrow> Some (failed_row kind (exn_text e) d)
      | Inr st \<Rightarrow>
          if ts_state st = ''running'' then Some d
          else if ts_success st = Some True
          then (if kind = T_DESTROY then None else Some (apply_kind kind d))
          else Some (failed_row kind (if truthy (ts_error_message st) then the (ts_error_message st)
                 else ''task reported failure with no message'') d))"

lemma apply_first_leg_run:
  assumes "get_desktop_row i (committed s) = Some d" "kind \<noteq> T_REBUILD"
  shows "fst (apply_first_leg E i kind s) = Inr None
    \<and> (let r = get_desktop_row i (committed (snd (apply_first_leg E i kind s))) in
       if kind = T_DESTROY then r = None else (\<exists>x. r = Some x \<and> same_but_stamp x (apply_kind kind d)))"
  using assms by (auto simp: apply_first_leg_def exec_simps log_business_event_def get_desktop_patch Let_def)

lemma apply_task_success_run:
  assumes "get_desktop_row i (committed s) = Some d" "kind \<noteq> T_REBUILD"
  shows "fst (apply_task_success E i kind f s) = Inr ()
    \<and> (let r = get_desktop_row i (committed (snd (apply_task_success E i kind f s))) in
       if kind = T_DESTROY then r = None else (\<exists>x. r = Some x \<and> same_but_stamp x (apply_kind kind d)))"
  using apply_first_leg_run [OF assms, of E]
  by (cases "apply_first_leg E i kind s") (auto simp: apply_task_success_def exec_simps Let_def)

lemma poll_one_row:
  assumes "providers (c_id c) = Some P" "parse_task_kind (d_pve_task_kind d) = Some kind"
    and "kind \<noteq> T_REBUILD" "get_desktop_row (d_id d) (committed s) = Some d"
    and "pv_get_task_status P (task_handle_of P d) (world s) = (res, w)"
    and "\<forall>e. res = Inl e \<longrightarrow> is_provider_error e"
  shows "fst (poll_one E providers (d, c) s) = Inr ()
    \<and> rel_option same_but_stamp
        (get_desktop_row (d_id d) (committed (snd (poll_one E providers (d, c) s)))) (polled_row kind res d)"
proof -
  let ?s = "s\<lparr>world := w, calls := calls s @ [CallTaskStatus (task_handle_of P d)]\<rparr>"
  have row: "get_desktop_row (d_id d) (committed ?s) = Some d" using assms(4) by simp
  show ?thesis
  proof (cases res)
    case (Inl e)
    with assms(6) have e: "is_provider_error e" by simp
    have "poll_one E providers (d, c) s = mark_task_error E (d_id d) kind (exn_text e) ?s"
      using assms(1,2,5) Inl e by (simp add: poll_one_def exec_simps)
    with mark_task_error_run [OF row, of E kind "exn_text e"] Inl show ?thesis
      by (auto simp: polled_row_def)
  next
    case (Inr st)
    have run: "poll_one E providers (d, c) s =
        (if ts_state st = ''running'' then ret ()
         else if ts_success st = Some True then apply_task_success E (d_id d) kind (Inr P)
         else mark_task_error E (d_id d) kind (if truthy (ts_error_message st)
            then the (ts_error_message st) else ''task reported failure with no message'')) ?s"
      using assms(1,2,5) Inr by (simp add: poll_one_def exec_simps)
    show ?thesis
    proof (cases "ts_state st = ''running''")
      case True
      with run Inr assms(4) show ?thesis by (simp add: polled_row_def exec_simps)
    next
      case False
      then show ?thesis
        using run Inr apply_task_success_run [OF row assms(3), of E "Inr P"]
          mark_task_error_run [OF row, of E kind "if truthy (ts_error_message st)
            then the (ts_error_message st) else ''task reported failure with no message''"]
        by (auto simp: polled_row_def Let_def)
    qed
  qed
qed

section \<open>Properties\<close>

text \<open>\<open>x\<close> is \<open>d\<close> with its task over: these values in status, power state and message, and no task.\<close>

definition task_over :: "desktop \<Rightarrow> desktop_status \<Rightarrow> string \<Rightarrow> string option \<Rightarrow> desktop \<Rightarrow> bool" where
  "task_over d status pw msg x \<longleftrightarrow> x\<lparr>d_updated_at := 0\<rparr> = d\<lparr>d_status := status, d_power_state := pw,
     d_error_message := msg, d_pve_task_upid := None, d_pve_task_kind := None, d_updated_at := 0\<rparr>"

lemma same_task_over:
  "same_but_stamp x (failed_row kind msg d) \<longleftrightarrow>
     task_over d D_ERROR (d_power_state d) (Some (task_kind_value kind @ '' failed: '' @ msg)) x"
  "kind \<noteq> T_REBUILD \<Longrightarrow> same_but_stamp x (apply_kind kind d) \<longleftrightarrow>
     task_over d (if kind = T_PROVISION then D_AVAILABLE else d_status d)
       (if kind = T_START then ''running'' else if kind \<in> {T_SHUTDOWN, T_STOP} then ''stopped'' else d_power_state d)
       (d_error_message d) x"
  by (cases kind; auto simp: same_but_stamp_def task_over_def failed_row_def apply_kind_def clear_task_def)+

text \<open>
  Property C9. Polling a desktop with a task of a known kind (the two-leg rebuild apart)
  never raises when the provider answers or raises a \<open>ProviderError\<close>, and leaves exactly the
  row its kind and the answer call for. While the task runs it is unchanged. A failed task, or a failed
  status check, puts it into \<open>ERROR\<close> with the kind and the message. A successful one makes a provisioned desktop
  \<open>AVAILABLE\<close> and removes a destroyed one; a start leaves it running, a shutdown or stop stopped, each with its
  status and message as they were. In every case the task fields are cleared and nothing else
  but the time stamp changes.
\<close>

theorem poll_one_outcome:
  assumes "providers (c_id c) = Some P" "d_pve_task_kind d = Some k"
    and "k \<in> {''provision'', ''destroy'', ''start'', ''shutdown'', ''stop''}"
    and "get_desktop_row (d_id d) (committed s) = Some d"
    and "pv_get_task_status P (task_handle_of P d) (world s) = (res, w)"
    and "\<forall>e. res = Inl e \<longrightarrow> is_provider_error e"
    and "after = get_desktop_row (d_id d) (committed (snd (poll_one E providers (d, c) s)))"
  shows "fst (poll_one E providers (d, c) s) = Inr () \<and> (case res of
      Inl e \<Rightarrow> (\<exists>x. after = Some x \<and> task_over d D_ERROR (d_power_state d) (Some (k @ '' failed: '' @ exn_text e)) x)
    | Inr st \<Rightarrow>
        if ts_state st = ''running'' then after = Some d
        else if ts_success st \<noteq> Some True then (\<exists>x. after = Some x \<and> task_over d D_ERROR (d_power_state d)
          (Some (k @ '' failed: '' @ (case ts_error_message st of Some (a # m) \<Rightarrow> a # m
             | _ \<Rightarrow> ''task reported failure with no message''))) x)
        else if k = ''destroy'' then after = None
        else (\<exists>x. after = Some x \<and> task_over d (if k = ''provision'' then D_AVAILABLE else d_status d)
          (if k = ''start'' then ''running'' else if k \<in> {''shutdown'', ''stop''} then ''stopped'' else d_power_state d)
          (d_error_message d) x))"
proof -
  obtain kind where kind: "parse_task_kind (d_pve_task_kind d) = Some kind" "kind \<noteq> T_REBUILD" "task_kind_value kind = k"
    using assms(2,3) by (auto simp: parse_task_kind_def)
  have msg: "(if truthy m then the m else x) = (case m of Some (a # b) \<Rightarrow> a # b | _ \<Rightarrow> x)" for m x
    by (cases m rule: truthy.cases) (auto split: list.split)
  have kinds: "(k = ''provision'') = (kind = T_PROVISION)" "(k = ''destroy'') = (kind = T_DESTROY)"
    "(k = ''start'') = (kind = T_START)" "(k \<in> {''shutdown'', ''stop''}) = (kind \<in> {T_SHUTDOWN, T_STOP})"
    unfolding kind(3) [symmetric] by (cases kind, simp_all)+
  have returns: "fst (poll_one E providers (d, c) s) = Inr ()"
    and rel: "rel_option same_but_stamp after (polled_row kind res d)"
    using poll_one_row [where E = E and providers = providers and c = c, OF assms(1) kind(1,2) assms(4-6)] assms(7)
    by simp_all
  have left: "\<exists>x. after = Some x \<and> same_but_stamp x r" if "polled_row kind res d = Some r" for r
    using rel that by (auto simp: option_rel_Some2)
  show ?thesis
  proof (cases res)
    case (Inl e)
    with left returns show ?thesis by (simp add: polled_row_def same_task_over kind(3))
  next
    case (Inr st)
    consider "ts_state st = ''running''" | "ts_state st \<noteq> ''running''" "ts_success st \<noteq> Some True"
      | "ts_state st \<noteq> ''running''" "ts_success st = Some True" by blast
    then show ?thesis
    proof cases
      case 1
      with assms(1,4,5,7) kind Inr have "after = Some d" by (simp add: poll_one_def exec_simps)
      with 1 Inr returns show ?thesis by simp
    next
      case 2
      with left returns Inr show ?thesis by (simp add: polled_row_def same_task_over kind(3) msg)
    next
      case 3
      show ?thesis
      proof (cases "kind = T_DESTROY")
        case True
        with 3 rel returns Inr kinds(2) show ?thesis by (simp add: polled_row_def)
      next
        case False
        with 3 left returns Inr kinds(2) show ?thesis
          unfolding kinds by (simp add: polled_row_def same_task_over(2) [OF kind(2)])
      qed
    qed
  qed
qed

definition example_cluster :: cluster where
  "example_cluster = \<lparr>c_id = 3, c_name = ''lab'', c_provider_type = ''proxmox'', c_api_url = ''https://pve1'',
     c_token_id = ''t'', c_token_secret = ''x'', c_verify_ssl = True, c_node_filter = None,
     c_provider_config = JObj [], c_status = C_ACTIVE, c_created_at = 0, c_updated_at = 0\<rparr>"

theorem poll_one_outcome_witness:
  "\<exists>x. get_desktop_row 10 (committed (snd (poll_one sim_env sim_providers
     (example_desktop\<lparr>d_pve_task_upid := Some ''U'', d_pve_task_kind := Some ''start''\<rparr>, example_cluster)
     (sim_st (empty_db\<lparr>desktops := [example_desktop\<lparr>d_pve_task_upid := Some ''U'',
        d_pve_task_kind := Some ''start''\<rparr>]\<rparr>))))) = Some x \<and> d_power_state x = ''running'' \<and> d_pve_task_upid x = None"
proof -
  let ?d = "example_desktop\<lparr>d_pve_task_upid := Some ''U'', d_pve_task_kind := Some ''start''\<rparr>"
  let ?s = "sim_st (empty_db\<lparr>desktops := [?d]\<rparr>)"
  have P: "sim_providers (c_id example_cluster) = Some sim_provider"
    by (simp add: sim_providers_def example_cluster_def)
  have row: "get_desktop_row (d_id ?d) (committed ?s) = Some ?d" by (simp add: get_desktop_row_def)
  have st: "pv_get_task_status sim_provider (task_handle_of sim_provider ?d) (world ?s) = (Inr sim_task_status, 0)"
    by (simp add: sim_provider_def)
  have fields: "task_over ?d a b m x \<Longrightarrow> d_power_state x = b \<and> d_pve_task_upid x = None" for a b m x
    unfolding task_over_def by (drule arg_cong [where f = "\<lambda>x. (d_power_state x, d_pve_task_upid x)"]) simp
  show ?thesis
    using poll_one_outcome [where providers = sim_providers and c = example_cluster and E = sim_env and k = "''start''", OF P _ _ row st _ refl] fields
    by (auto simp: sim_task_status_def example_desktop_def)
qed

text \<open>
  Property C8. A desktop under construction is visible to the tracker as a task of no kind.
  Dispatching the clone commits a row whose UPID is set and whose task kind is still NULL,
  and any poll of such a row, whatever the hypervisor would answer, puts the desktop into
  \<open>ERROR\<close> with "provision failed: unknown task kind None" and clears the UPID, without asking
  for the task's status: a provision that outlives one tracker tick is reported as failed
  while it runs.
\<close>

theorem tracker_fails_running_provision:
  assumes "get_desktop_row i (work s) = Some d" "d_pve_task_kind d = None"
    and "pv_clone_vm P req (world s) = (Inr h, w)" "jget (h_data h) ''upid'' = Some (JStr u)"
    and "providers (c_id c) = Some P'"
  shows "\<exists>s1 d1 x. dispatch_clone E P req i s = (Inr h, s1)
    \<and> get_desktop_row i (committed s1) = Some d1 \<and> d_pve_task_upid d1 = Some u \<and> d_pve_task_kind d1 = None
    \<and> calls (snd (poll_one E providers (d1, c) s1)) = calls s1
    \<and> get_desktop_row i (committed (snd (poll_one E providers (d1, c) s1))) = Some x
    \<and> d_status x = D_ERROR \<and> d_pve_task_upid x = None
    \<and> d_error_message x = Some ''provision failed: unknown task kind None''"
proof -
  let ?s0 = "s\<lparr>world := w, calls := calls s @ [CallClone req]\<rparr>"
  let ?db = "patch_desktop i (\<lambda>d. d\<lparr>d_pve_task_upid := Some u, d_updated_at := e_now E w\<rparr>) (work s)"
  let ?s1 = "?s0\<lparr>work := ?db, committed := ?db\<rparr>"
  let ?d1 = "d\<lparr>d_pve_task_upid := Some u, d_updated_at := e_now E w\<rparr>"
  have run: "dispatch_clone E P req i s = (Inr h, ?s1)"
    using assms(3,4) by (simp add: dispatch_clone_def exec_simps handle_upid_def)
  have row: "get_desktop_row i (committed ?s1) = Some ?d1"
    using assms(1) by (simp add: get_desktop_patch)
  have id: "d_id ?d1 = i" using assms(1) by (auto dest: get_desktop_rowD)
  have poll: "poll_one E providers (?d1, c) ?s1
      = mark_task_error E i T_PROVISION ''unknown task kind None'' ?s1"
    using assms(2,5) id by (simp add: poll_one_def parse_task_kind_def repr_opt_def)
  have calls: "calls (snd (mark_task_error E i T_PROVISION m ?s1)) = calls ?s1" for m
    using row by (simp add: mark_task_error_def exec_simps log_business_event_def)
  from mark_task_error_run [OF row, of E T_PROVISION "''unknown task kind None''"]
  obtain x where x: "get_desktop_row i (committed (snd (poll_one E providers (?d1, c) ?s1))) = Some x"
      "same_but_stamp x (failed_row T_PROVISION ''unknown task kind None'' ?d1)"
    unfolding poll by blast
  from x(2) have "d_status x = D_ERROR \<and> d_pve_task_upid x = None
      \<and> d_error_message x = Some ''provision failed: unknown task kind None''"
    by (simp add: same_but_stampD failed_row_def clear_task_def)
  with run row assms(2) calls x(1) show ?thesis
    by (intro exI [of _ ?s1] exI [of _ ?d1] exI [of _ x] conjI) (simp_all add: poll)
qed

theorem tracker_fails_running_provision_witness:
  "\<exists>s1 d1 x. dispatch_clone sim_env sim_provider
      (clone_request_for example_pool example_template None 100 ''eng-001'' ''pve1'') 10
      (sim_st (empty_db\<lparr>desktops := [example_desktop]\<rparr>)) = (Inr sim_task, s1)
    \<and> get_desktop_row 10 (committed (snd (poll_one sim_env sim_providers (d1, example_cluster) s1))) = Some x
    \<and> d_status x = D_ERROR"
proof -
  let ?s = "sim_st (empty_db\<lparr>desktops := [example_desktop]\<rparr>)"
  let ?req = "clone_request_for example_pool example_template None 100 ''eng-001'' ''pve1''"
  have a: "get_desktop_row 10 (work ?s) = Some example_desktop" by (simp add: get_desktop_row_def)
  have b: "d_pve_task_kind example_desktop = None" by simp
  have c: "pv_clone_vm sim_provider ?req (world ?s) = (Inr sim_task, 0)" by (simp add: sim_provider_def)
  have d: "jget (h_data sim_task) ''upid'' = Some (JStr ''UPID:pve1:1'')" by (simp add: sim_task_def mk_task_def)
  have e: "sim_providers (c_id example_cluster) = Some sim_provider"
    by (simp add: sim_providers_def example_cluster_def)
  from tracker_fails_running_provision [where providers = sim_providers and c = example_cluster
      and P = sim_provider and req = ?req and h = sim_task and E = sim_env, OF a b c d e]
  show ?thesis by blast
qed

end
