(* ===== verification/Session_Monitor.thy ===== *)
theory Session_Monitor
  imports Task_Tracker
begin

text \<open>
  \<open>broker/app/workers/session_monitor.py\<close>: the worker that polls the guest agents of the
  desktops in use and detects logoffs. Its memory (the count of empty polls per desktop and
  the tick counter) lives beside the database, so its programs run on a pair of states
  (\<open>on_store\<close>). An exception keeps the memory's changes.
\<close>

section \<open>The worker's memory\<close>

record monitor =
  mo_streaks :: "uuid \<Rightarrow> nat option"
  mo_tick :: nat

type_synonym ('w, 'a) mprog = "('w st \<times> monitor, 'a) eff"

definition new_monitor :: monitor where
  "new_monitor = \<lparr>mo_streaks = (\<lambda>_. None), mo_tick = 0\<rparr>"

definition pop_streak :: "uuid \<Rightarrow> monitor \<Rightarrow> monitor" where
  "pop_streak i mo = mo\<lparr>mo_streaks := (mo_streaks mo)(i := None)\<rparr>"

definition streak_of :: "uuid \<Rightarrow> monitor \<Rightarrow> nat" where
  "streak_of i mo = (case mo_streaks mo i of None \<Rightarrow> 0 | Some n \<Rightarrow> n)"

definition bump_streak :: "uuid \<Rightarrow> monitor \<Rightarrow> monitor" where
  "bump_streak i mo = mo\<lparr>mo_streaks := (mo_streaks mo)(i \<mapsto> Suc (streak_of i mo))\<rparr>"

definition logoff_streak_threshold :: nat where
  "logoff_streak_threshold = 3"

definition network_poll_every :: nat where
  "network_poll_every = 4"

section \<open>Queries\<close>

definition joined_rows :: "db \<Rightarrow> (desktop \<times> pool \<times> cluster) list" where
  "joined_rows db = concat (map (\<lambda>d.
     case get_pool_row (d_pool_id d) db of None \<Rightarrow> [] | Some p \<Rightarrow>
     (case get_cluster_row (p_cluster_id p) db of None \<Rightarrow> [] | Some c \<Rightarrow> [(d, p, c)])) (desktops db))"

definition fetch_monitored :: "db \<Rightarrow> (desktop \<times> pool \<times> cluster) list" where
  "fetch_monitored db = filter (\<lambda>(d, p, c). d_status d \<in> {D_ASSIGNED, D_CONNECTED, D_DISCONNECTED}
     \<and> c_status c = C_ACTIVE) (joined_rows db)"

text \<open>\<open>ORDER BY created_at DESC LIMIT 1\<close>; the database breaks ties as it likes.\<close>

definition latest_active_session :: "uuid \<Rightarrow> db \<Rightarrow> vdi_session option" where
  "latest_active_session i db =
     (case sort_key (\<lambda>r. - s_created_at r) (filter (\<lambda>r. s_desktop_id r = Some i
        \<and> s_status r \<in> {S_CONNECTING, S_ACTIVE, S_DISCONNECTED}) (sessions db)) of
        [] \<Rightarrow> None | r # _ \<Rightarrow> Some r)"

definition skip_ip :: "string \<Rightarrow> bool" where
  "skip_ip ip \<longleftrightarrow> starts_with ip ''127.'' \<or> ip = ''::1'' \<or> CHR '':'' \<in> set ip"

definition pick_primary_ip :: "network_interface list \<Rightarrow> string option" where
  "pick_primary_ip ifs =
     find (\<lambda>ip. \<not> skip_ip ip) (concat (map (\<lambda>i. if i_is_up i then i_ip_addresses i else []) ifs))"

section \<open>Ending sessions\<close>

definition end_row_quietly :: "'w env \<Rightarrow> vdi_session option \<Rightarrow> ('w, unit) prog" where
  "end_row_quietly E row =
     (case row of
        None \<Rightarrow> ret ()
      | Some r \<Rightarrow> catching is_invalid_session_state (andthen (transition_to_ended E r) commit)
                    (\<lambda>_. rollback))"

definition end_latest_session :: "'w env \<Rightarrow> uuid \<Rightarrow> ('w, unit) prog" where
  "end_latest_session E i = in_session (bnd (query (latest_active_session i)) (end_row_quietly E))"

definition end_orphaned_session :: "'w env \<Rightarrow> desktop \<Rightarrow> ('w, unit) mprog" where
  "end_orphaned_session E d =
     andthen (on_store (end_latest_session E (d_id d))) (set_memory (pop_streak (d_id d)))"

text \<open>
  The result says whether the handler goes on: a session row that vanished ends it.
\<close>

definition end_logged_off :: "'w env \<Rightarrow> uuid \<Rightarrow> ('w, bool) prog" where
  "end_logged_off E sid = in_session (bnd (query (get_session_row sid)) (\<lambda>row.
     case row of
       None \<Rightarrow> ret False
     | Some r \<Rightarrow> andthen (end_row_quietly E (Some r)) (ret True)))"

definition handle_logoff ::
    "'w env \<Rightarrow> 'w provider \<Rightarrow> desktop \<Rightarrow> pool \<Rightarrow> vdi_session \<Rightarrow> ('w, unit) prog" where
  "handle_logoff E P d p row =
     bnd (end_logged_off E (s_id row)) (\<lambda>go.
     do_when (go \<and> p_pool_type p = NONPERSISTENT)
       (if p_delete_on_logoff p then in_session (delete_desktop_on_logoff E P (d_id d))
        else if p_refresh_on_logoff p
        then andthen (in_session (refresh_desktop E P (d_id d))) (ret ())
        else ret ()))"

section \<open>Telemetry\<close>

text \<open>The outer option says whether the address is written at all.\<close>

definition poll_address :: "'w provider \<Rightarrow> vm_ref \<Rightarrow> bool \<Rightarrow> ('w, string option option) prog" where
  "poll_address P ref poll_network =
     (if poll_network
      then catching is_provider_error
             (bnd (prov (CallAgentNetwork ref) (pv_agent_get_network P ref)) (\<lambda>ifs.
              ret (Some (pick_primary_ip ifs))))
             (\<lambda>_. ret None)
      else ret None)"

definition update_telemetry ::
    "'w env \<Rightarrow> 'w provider \<Rightarrow> vm_ref \<Rightarrow> vdi_session \<Rightarrow> guest_user list \<Rightarrow> bool \<Rightarrow> ('w, unit) prog" where
  "update_telemetry E P ref row users poll_network =
     bnd (poll_address P ref poll_network) (\<lambda>ip.
     in_session (bnd (query (get_session_row (s_id row))) (\<lambda>found.
       case found of
         None \<Rightarrow> ret ()
       | Some _ \<Rightarrow>
           bnd (now E) (\<lambda>t.
           andthen (set_session (s_id row) (\<lambda>r. r\<lparr>s_last_heartbeat := Some t,
              s_os_user := (case users of [] \<Rightarrow> None | u # _ \<Rightarrow> Some (g_username u)),
              s_vm_ip_address := (case ip of None \<Rightarrow> s_vm_ip_address r | Some a \<Rightarrow> a)\<rparr>))
           commit))))"

definition clear_heartbeat :: "uuid \<Rightarrow> ('w, unit) prog" where
  "clear_heartbeat sid = in_session (bnd (query (get_session_row sid)) (\<lambda>found.
     case found of None \<Rightarrow> ret () | Some _ \<Rightarrow>
       andthen (set_session sid (\<lambda>r. r\<lparr>s_last_heartbeat := None\<rparr>)) commit))"

section \<open>One desktop, one tick\<close>

definition empty_poll ::
    "'w env \<Rightarrow> 'w provider \<Rightarrow> desktop \<Rightarrow> pool \<Rightarrow> vdi_session \<Rightarrow> ('w, unit) mprog" where
  "empty_poll E P d p row =
     (if s_status row \<noteq> S_ACTIVE then ret ()
      else andthen (set_memory (bump_streak (d_id d)))
        (bnd (get_memory (streak_of (d_id d))) (\<lambda>streak.
         if streak < logoff_streak_threshold then ret ()
         else andthen (set_memory (pop_streak (d_id d))) (on_store (handle_logoff E P d p row)))))"

definition poll_users ::
    "'w env \<Rightarrow> 'w provider \<Rightarrow> vm_ref \<Rightarrow> desktop \<Rightarrow> pool \<Rightarrow> vdi_session \<Rightarrow> bool \<Rightarrow> ('w, unit) mprog" where
  "poll_users E P ref d p row poll_network =
     bnd (on_store (catching is_provider_error
            (bnd (prov (CallAgentUsers ref) (pv_agent_get_users P ref)) (\<lambda>us. ret (Some us)))
            (\<lambda>_. ret None))) (\<lambda>users.
     case users of
       None \<Rightarrow> on_store (clear_heartbeat (s_id row))
     | Some [] \<Rightarrow> empty_poll E P d p row
     | Some (u # us) \<Rightarrow>
         andthen (set_memory (pop_streak (d_id d)))
           (on_store (update_telemetry E P ref row (u # us) poll_network)))"

definition process_desktop ::
    "'w env \<Rightarrow> (uuid \<Rightarrow> 'w provider option) \<Rightarrow> bool \<Rightarrow> desktop \<times> pool \<times> cluster \<Rightarrow> ('w, unit) mprog" where
  "process_desktop E providers poll_network dpc =
     (case dpc of (d, p, c) \<Rightarrow>
     (case providers (c_id c) of None \<Rightarrow> ret () | Some P \<Rightarrow>
      let ref = desktop_vm_ref P d in
      bnd (on_store (catching is_provider_not_found
             (bnd (prov (CallGetStatus ref) (pv_get_vm_status P ref)) (\<lambda>v. ret (Some v)))
             (\<lambda>_. ret None))) (\<lambda>vm.
      case vm of
        None \<Rightarrow> end_orphaned_session E d
      | Some v \<Rightarrow>
          if v_power_state v \<noteq> ''running''
          then andthen (on_store (end_latest_session E (d_id d))) (set_memory (pop_streak (d_id d)))
          else bnd (on_store (in_session (query (latest_active_session (d_id d))))) (\<lambda>found.
            case found of
              None \<Rightarrow> ret ()
            | Some row \<Rightarrow> poll_users E P ref d p row poll_network))))"

definition session_monitor_tick ::
    "'w env \<Rightarrow> (uuid \<Rightarrow> 'w provider option) \<Rightarrow> ('w, unit) mprog" where
  "session_monitor_tick E providers =
     andthen (set_memory (\<lambda>mo. mo\<lparr>mo_tick := (mo_tick mo + 1) mod network_poll_every\<rparr>))
     (bnd (get_memory mo_tick) (\<lambda>t.
      bnd (on_store (in_session (query fetch_monitored))) (\<lambda>rows.
      andthen (set_memory (\<lambda>mo. mo\<lparr>mo_streaks := (\<lambda>i.
         if i \<in> set (map (\<lambda>(d, _). d_id d) rows) then mo_streaks mo i else None)\<rparr>))
      (for_each rows (\<lambda>dpc.
         catching (\<lambda>_. True) (process_desktop E providers (t = 0) dpc) (\<lambda>_. ret ()))))))"

section \<open>Invariants\<close>

context db_writes begin

lemma pres_end_row_quietly: "pres (both I) (end_row_quietly E row)"
  unfolding end_row_quietly_def by (intro pres_intros pres_prims pres_transition_to_ended)

lemma pres_end_latest_session: "pres (both I) (end_latest_session E i)"
  unfolding end_latest_session_def by (intro pres_intros pres_prims pres_end_row_quietly)

lemma pres_handle_logoff: "pres (both I) (handle_logoff E P d p row)"
  unfolding handle_logoff_def end_logged_off_def
  by (intro pres_intros pres_prims pres_end_row_quietly pres_delete_desktop_on_logoff pres_refresh_desktop)

lemma pres_update_telemetry: "pres (both I) (update_telemetry E P ref row users b)"
  unfolding update_telemetry_def poll_address_def
  by (intro pres_intros pres_prims) (simp add: session_write_ok_def ticket_safe_def)

lemma pres_clear_heartbeat: "pres (both I) (clear_heartbeat sid)"
  unfolding clear_heartbeat_def
  by (intro pres_intros pres_prims) (simp add: session_write_ok_def ticket_safe_def)

lemma pres_process_desktop: "pres (\<lambda>x. both I (fst x)) (process_desktop E providers b dpc)"
  unfolding process_desktop_def poll_users_def empty_poll_def end_orphaned_session_def
  by (intro pres_intros pres_memory pres_on_store pres_prims pres_end_latest_session
      pres_handle_logoff pres_update_telemetry pres_clear_heartbeat)

lemma pres_session_monitor_tick: "pres (\<lambda>x. both I (fst x)) (session_monitor_tick E providers)"
  unfolding session_monitor_tick_def
  by (intro pres_intros pres_memory pres_on_store pres_prims pres_process_desktop)

end

section \<open>Running one desktop\<close>

definition streaks_in :: "uuid set \<Rightarrow> 'w st \<times> monitor \<Rightarrow> bool" where
  "streaks_in A x \<longleftrightarrow> dom (mo_streaks (snd x)) \<subseteq> A"

lemma streaks_in_store: "pres (streaks_in A) (on_store m)"
  by (auto simp: pres_def exec_simps streaks_in_def split: prod.splits)

lemma streaks_in_get: "pres (streaks_in A) (get_memory f)"
  by (auto simp: pres_def exec_simps)

lemma streaks_in_pop: "pres (streaks_in A) (set_memory (pop_streak i))"
  by (auto simp: pres_def exec_simps streaks_in_def pop_streak_def)

lemma streaks_in_bump: "i \<in> A \<Longrightarrow> pres (streaks_in A) (set_memory (bump_streak i))"
  by (auto simp: pres_def exec_simps streaks_in_def bump_streak_def)

lemma streaks_in_process:
  assumes "d_id (fst dpc) \<in> A"
  shows "pres (streaks_in A) (process_desktop E providers b dpc)"
proof -
  obtain d p c where x: "dpc = (d, p, c)" by (cases dpc)
  show ?thesis
    unfolding process_desktop_def poll_users_def empty_poll_def end_orphaned_session_def x prod.case Let_def
    by (intro pres_intros streaks_in_store streaks_in_get streaks_in_pop streaks_in_bump)
      (use assms x in auto)
qed

lemma for_each_guarded:
  assumes "\<And>x. x \<in> set xs \<Longrightarrow> pres J (f x)" "J s"
  shows "fst (for_each xs (\<lambda>x. catching (\<lambda>_. True) (f x) (\<lambda>_. ret ())) s) = Inr ()
    \<and> J (snd (for_each xs (\<lambda>x. catching (\<lambda>_. True) (f x) (\<lambda>_. ret ())) s))"
  using assms
proof (induction xs arbitrary: s)
  case (Cons x xs)
  have "pres J (catching (\<lambda>_. True) (f x) (\<lambda>_. ret ()))"
    using Cons.prems(1) by (intro pres_intros) simp
  then have J: "J (snd (catching (\<lambda>_. True) (f x) (\<lambda>_. ret ()) s))"
    using Cons.prems(2) by (rule presD)
  have "fst (catching (\<lambda>_. True) (f x) (\<lambda>_. ret ()) s) = Inr ()"
    by (auto simp: exec_simps split: prod.splits sum.splits)
  with Cons.IH [OF _ J] Cons.prems(1) show ?case
    by (cases "catching (\<lambda>_. True) (f x) (\<lambda>_. ret ()) s") (simp add: andthen_run)
qed (simp add: exec_simps)

text \<open>With the VM running, a tick's handling of a desktop is the agent poll.\<close>

lemma process_running:
  assumes "providers (c_id c) = Some P" "pv_get_vm_status P (desktop_vm_ref P d) (world s) = (Inr v, w)"
    and "v_power_state v = ''running''" "latest_active_session (d_id d) (committed s) = Some row"
  shows "process_desktop E providers b (d, p, c) (s, mo)
    = poll_users E P (desktop_vm_ref P d) d p row b
        (s\<lparr>world := w, calls := calls s @ [CallGetStatus (desktop_vm_ref P d)], work := committed s\<rparr>, mo)"
  using assms by (simp add: process_desktop_def exec_simps Let_def)

lemma end_latest_run:
  assumes k: "keys_unique (committed s)" and r: "latest_active_session i (committed s) = Some r"
    and d: "get_desktop_row i (committed s) = Some d"
  shows "\<exists>db. end_latest_session E i s = (Inr (), s\<lparr>work := db, committed := db\<rparr>)
    \<and> db = patch_desktop i (\<lambda>d. (release_desktop d)\<lparr>d_updated_at := e_now E (world s)\<rparr>)
         (patch_session (s_id r) (\<lambda>r. r\<lparr>s_status := S_ENDED,
            s_ended_at := Some (e_now E (world s)), s_connection_info := None\<rparr>) (committed s))"
proof -
  let ?rows = "filter (\<lambda>r. s_desktop_id r = Some i \<and> s_status r \<in> {S_CONNECTING, S_ACTIVE, S_DISCONNECTED})
     (sessions (committed s))"
  obtain rs where "sort_key (\<lambda>r. - s_created_at r) ?rows = r # rs"
    using r unfolding latest_active_session_def
    by (cases "sort_key (\<lambda>r. - s_created_at r) ?rows") simp_all
  then have "r \<in> set (sort_key (\<lambda>r. - s_created_at r) ?rows)" by (metis list.set_intros(1))
  then have r': "s_desktop_id r = Some i" "s_status r \<noteq> S_ENDED" by auto
  have id: "d_id d = i" using d by (auto dest: get_desktop_rowD)
  have f: "filter (\<lambda>d. Some (d_id d) = s_desktop_id r) (desktops (work (s\<lparr>work := committed s\<rparr>))) = [d]"
    unfolding r' using desktop_filter_unique [OF k d] by simp
  from transition_to_ended_run [OF r'(2) f, of E] r id show ?thesis
    by (simp add: end_latest_session_def end_row_quietly_def exec_simps)
qed

section \<open>Properties\<close>

text \<open>
  Property C27. Logoff detection is debounced: with the VM running and a live session, an
  empty user list only counts one more empty poll and commits nothing until the count
  would reach three; it counts only for an \<open>ACTIVE\<close> session; a populated list resets the
  count; an unreachable agent leaves it as it is. The third empty poll resets the count and
  is exactly the one that runs the logoff handler.
\<close>

theorem logoff_debounce:
  fixes s :: "'w st"
  assumes "providers (c_id c) = Some P" "pv_get_vm_status P (desktop_vm_ref P d) (world s) = (Inr v, w)"
    and "v_power_state v = ''running''" "latest_active_session (d_id d) (committed s) = Some row"
    and "pv_agent_get_users P (desktop_vm_ref P d) w = (users, w')"
    and "process_desktop E providers b (d, p, c) (s, mo) = (r, (s', mo'))"
  shows "(users = Inr [] \<and> s_status row = S_ACTIVE \<and> Suc (streak_of (d_id d) mo) < 3 \<longrightarrow>
        r = Inr () \<and> mo' = bump_streak (d_id d) mo \<and> committed s' = committed s)
    \<and> (users = Inr [] \<and> s_status row \<noteq> S_ACTIVE \<longrightarrow>
        r = Inr () \<and> mo' = mo \<and> committed s' = committed s)
    \<and> (\<forall>u us. users = Inr (u # us) \<longrightarrow> mo' = pop_streak (d_id d) mo)
    \<and> (\<forall>e. users = Inl e \<longrightarrow> mo' = mo)
    \<and> (users = Inr [] \<and> s_status row = S_ACTIVE \<and> 3 \<le> Suc (streak_of (d_id d) mo) \<longrightarrow>
        mo' = pop_streak (d_id d) mo
        \<and> (\<exists>s1. committed s1 = committed s \<and> handle_logoff E P d p row s1 = (r, s')))"
proof -
  let ?ref = "desktop_vm_ref P d"
  let ?s2 = "s\<lparr>work := committed s, world := w',
     calls := calls s @ [CallGetStatus ?ref, CallAgentUsers ?ref]\<rparr>"
  have run: "poll_users E P ?ref d p row b
      (s\<lparr>world := w, calls := calls s @ [CallGetStatus ?ref], work := committed s\<rparr>, mo) = (r, (s', mo'))"
    using assms(6) process_running [where E = E and providers = providers and b = b and d = d
        and p = p and c = c and s = s and mo = mo, OF assms(1-4)] by simp
  have streak: "streak_of (d_id d) (bump_streak (d_id d) mo) = Suc (streak_of (d_id d) mo)"
    by (simp add: streak_of_def bump_streak_def)
  have pop: "pop_streak (d_id d) (bump_streak (d_id d) mo) = pop_streak (d_id d) mo"
    by (simp add: pop_streak_def bump_streak_def)
  have empty: "empty_poll E P d p row (?s2, mo) = (r, (s', mo'))" if "users = Inr []"
    using run assms(5) that by (simp add: poll_users_def exec_simps)
  show ?thesis
  proof (intro conjI impI allI)
    assume u: "users = Inr [] \<and> s_status row = S_ACTIVE \<and> 3 \<le> Suc (streak_of (d_id d) mo)"
    then have "empty_poll E P d p row (?s2, mo)
        = on_store (handle_logoff E P d p row) (?s2, pop_streak (d_id d) mo)"
      by (simp add: empty_poll_def exec_simps streak pop logoff_streak_threshold_def)
    with empty u have "on_store (handle_logoff E P d p row) (?s2, pop_streak (d_id d) mo) = (r, (s', mo'))"
      by simp
    then have "mo' = pop_streak (d_id d) mo \<and> handle_logoff E P d p row ?s2 = (r, s')"
      by (auto simp: exec_simps split: prod.splits)
    then show "mo' = pop_streak (d_id d) mo"
      "\<exists>s1. committed s1 = committed s \<and> handle_logoff E P d p row s1 = (r, s')"
      by (auto intro!: exI [of _ ?s2])
  next
    fix e assume "users = Inl e"
    with run assms(5) show "mo' = mo"
      by (cases "is_provider_error e") (auto simp: poll_users_def exec_simps split: prod.splits)
  next
    fix u us assume "users = Inr (u # us)"
    with run assms(5) show "mo' = pop_streak (d_id d) mo"
      by (auto simp: poll_users_def exec_simps split: prod.splits)
  qed (use empty in \<open>auto simp: empty_poll_def exec_simps streak logoff_streak_threshold_def\<close>)
qed

definition running_provider :: "int provider" where
  "running_provider = sim_provider\<lparr>pv_get_vm_status :=
     (\<lambda>r w. (Inr ((sim_vm_status r)\<lparr>v_power_state := ''running''\<rparr>), w))\<rparr>"

definition used_db :: db where
  "used_db = empty_db\<lparr>pools := [example_pool], clusters := [example_cluster],
     desktops := [example_desktop\<lparr>d_status := D_CONNECTED, d_assigned_user := Some ''alice'',
       d_assignment_type := Some ''floating''\<rparr>], sessions := [example_session]\<rparr>"

abbreviation used_desktop :: desktop where
  "used_desktop \<equiv> example_desktop\<lparr>d_status := D_CONNECTED, d_assigned_user := Some ''alice'',
     d_assignment_type := Some ''floating''\<rparr>"

lemma used_db_session: "latest_active_session 10 used_db = Some example_session"
  by (simp add: latest_active_session_def used_db_def example_session_def new_session_def)

theorem logoff_debounce_witness:
  "snd (snd (process_desktop sim_env (\<lambda>_. Some running_provider) False
     (used_desktop, example_pool, example_cluster) (sim_st used_db, new_monitor))) = bump_streak 10 new_monitor"
proof -
  let ?r = "process_desktop sim_env (\<lambda>_. Some running_provider) False
     (used_desktop, example_pool, example_cluster) (sim_st used_db, new_monitor)"
  obtain r s' mo' where run: "?r = (r, (s', mo'))" by (metis prod.exhaust)
  have a: "(\<lambda>_. Some running_provider) (c_id example_cluster) = Some running_provider" by simp
  have b: "pv_get_vm_status running_provider (desktop_vm_ref running_provider used_desktop) (world (sim_st used_db))
      = (Inr ((sim_vm_status (desktop_vm_ref running_provider used_desktop))\<lparr>v_power_state := ''running''\<rparr>), 0)"
    by (simp add: running_provider_def)
  have c: "latest_active_session (d_id used_desktop) (committed (sim_st used_db)) = Some example_session"
    by (simp add: used_db_session)
  have d: "pv_agent_get_users running_provider (desktop_vm_ref running_provider used_desktop) 0 = (Inr [], 0)"
    by (simp add: running_provider_def sim_provider_def)
  have st: "s_status example_session = S_ACTIVE" by (simp add: example_session_def)
  have "Suc (streak_of 10 new_monitor) < 3" by (simp add: streak_of_def new_monitor_def)
  with logoff_debounce [where providers = "\<lambda>_. Some running_provider", OF a b _ c d run] st
  have "mo' = bump_streak 10 new_monitor" by simp
  with run show ?thesis by simp
qed

text \<open>
  A VM that is gone from the hypervisor frees its desktop. When the status call
  says the VM does not exist, the monitor ends the live session, and a floating desktop
  becomes \<open>AVAILABLE\<close> and unassigned: the next user of the pool can be given a desktop with
  no VM, although the handler's comments leave the row alone, or in error state, for the
  administrator.
\<close>

theorem missing_vm_frees_desktop:
  assumes "keys_unique (committed s)" "get_desktop_row (d_id d) (committed s) = Some d"
    and "providers (c_id c) = Some P" "latest_active_session (d_id d) (committed s) = Some row"
    and "pv_get_vm_status P (desktop_vm_ref P d) (world s) = (Inl (ProviderError ProviderNotFoundError ty msg), w)"
    and "d_assignment_type d = Some ''floating''"
  shows "\<exists>s' x. process_desktop E providers b (d, p, c) (s, mo) = (Inr (), (s', pop_streak (d_id d) mo))
    \<and> get_desktop_row (d_id d) (committed s') = Some x \<and> d_status x = D_AVAILABLE
    \<and> d_assigned_user x = None \<and> d_assignment_type x = None"
proof -
  let ?s = "s\<lparr>world := w, calls := calls s @ [CallGetStatus (desktop_vm_ref P d)]\<rparr>"
  have run: "process_desktop E providers b (d, p, c) (s, mo) = end_orphaned_session E d (?s, mo)"
    using assms(3,5) by (simp add: process_desktop_def exec_simps Let_def)
  from end_latest_run [of ?s "d_id d" row d E] assms(1,2,4)
  obtain db where db: "end_latest_session E (d_id d) ?s = (Inr (), ?s\<lparr>work := db, committed := db\<rparr>)"
      "db = patch_desktop (d_id d) (\<lambda>d. (release_desktop d)\<lparr>d_updated_at := e_now E w\<rparr>)
         (patch_session (s_id row) (\<lambda>r. r\<lparr>s_status := S_ENDED,
            s_ended_at := Some (e_now E w), s_connection_info := None\<rparr>) (committed s))"
    by auto
  have "get_desktop_row (d_id d) db = Some ((release_desktop d)\<lparr>d_updated_at := e_now E w\<rparr>)"
    unfolding db(2) using assms(2) by (simp add: get_desktop_patch)
  moreover have "process_desktop E providers b (d, p, c) (s, mo)
      = (Inr (), (?s\<lparr>work := db, committed := db\<rparr>, pop_streak (d_id d) mo))"
    unfolding run by (simp add: end_orphaned_session_def exec_simps db(1))
  ultimately show ?thesis using assms(6) by (simp add: release_desktop_def)
qed

definition gone_provider :: "int provider" where
  "gone_provider = sim_provider\<lparr>pv_get_vm_status :=
     (\<lambda>r w. (Inl (ProviderError ProviderNotFoundError ''proxmox'' ''no such VM''), w))\<rparr>"

theorem missing_vm_frees_desktop_witness:
  "\<exists>s' x. process_desktop sim_env (\<lambda>_. Some gone_provider) False
      (used_desktop, example_pool, example_cluster) (sim_st used_db, new_monitor)
      = (Inr (), (s', pop_streak 10 new_monitor))
    \<and> get_desktop_row 10 (committed s') = Some x \<and> d_status x = D_AVAILABLE"
proof -
  have k: "keys_unique (committed (sim_st used_db))"
    by (simp add: keys_unique_def used_db_def empty_db_def)
  have g: "get_desktop_row (d_id used_desktop) (committed (sim_st used_db)) = Some used_desktop"
    by (simp add: get_desktop_row_def used_db_def)
  have a: "(\<lambda>_. Some gone_provider) (c_id example_cluster) = Some gone_provider" by simp
  have c: "latest_active_session (d_id used_desktop) (committed (sim_st used_db)) = Some example_session"
    by (simp add: used_db_session)
  have b: "pv_get_vm_status gone_provider (desktop_vm_ref gone_provider used_desktop) (world (sim_st used_db))
      = (Inl (ProviderError ProviderNotFoundError ''proxmox'' ''no such VM''), 0)"
    by (simp add: gone_provider_def)
  have f: "d_assignment_type used_desktop = Some ''floating''" by simp
  from missing_vm_frees_desktop [where providers = "\<lambda>_. Some gone_provider" and E = sim_env
      and c = example_cluster and b = False and p = example_pool and mo = new_monitor, OF k g a c b f]
  show ?thesis by auto
qed

text \<open>
  A tick always finishes: whatever one desktop's handling raises, the tick goes
  on to the next and returns; and afterwards the worker remembers counts only for desktops
  it observed in this tick, so its memory does not grow with deleted desktops.
\<close>

theorem session_monitor_tick_total:
  "fst (session_monitor_tick E providers (s, mo)) = Inr ()
   \<and> dom (mo_streaks (snd (snd (session_monitor_tick E providers (s, mo)))))
       \<subseteq> (d_id \<circ> fst) ` set (fetch_monitored (committed s))"
proof -
  let ?rows = "fetch_monitored (committed s)"
  let ?A = "(d_id \<circ> fst) ` set ?rows"
  have ids: "set (map (\<lambda>(d, _). d_id d) ?rows) = ?A" by force
  let ?mo = "mo\<lparr>mo_tick := (mo_tick mo + 1) mod network_poll_every,
     mo_streaks := (\<lambda>i. if i \<in> set (map (\<lambda>(d, _). d_id d) ?rows) then mo_streaks mo i else None)\<rparr>"
  let ?s = "s\<lparr>work := committed s\<rparr>"
  have J: "streaks_in ?A (?s, ?mo)"
    unfolding ids by (auto simp: streaks_in_def dom_def split: if_splits)
  have "pres (streaks_in ?A) (process_desktop E providers b x)" if "x \<in> set ?rows" for x b
    using that by (intro streaks_in_process) auto
  from for_each_guarded [where f = "process_desktop E providers (mo_tick ?mo = 0)", OF this J]
  have *: "fst (for_each ?rows (\<lambda>x. catching (\<lambda>_. True)
        (process_desktop E providers (mo_tick ?mo = 0) x) (\<lambda>_. ret ())) (?s, ?mo)) = Inr ()
    \<and> streaks_in ?A (snd (for_each ?rows (\<lambda>x. catching (\<lambda>_. True)
        (process_desktop E providers (mo_tick ?mo = 0) x) (\<lambda>_. ret ())) (?s, ?mo)))" by blast
  have "session_monitor_tick E providers (s, mo) = for_each ?rows (\<lambda>x. catching (\<lambda>_. True)
        (process_desktop E providers (mo_tick ?mo = 0) x) (\<lambda>_. ret ())) (?s, ?mo)"
    by (simp add: session_monitor_tick_def exec_simps del: set_map cong del: if_weak_cong)
  with * show ?thesis by (simp add: streaks_in_def)
qed

end
