(* ===== verification/Health_Checker.thy ===== *)
theory Health_Checker
  imports Session_Monitor "HOL-Library.AList"
begin

text \<open>
  \<open>broker/app/services/cluster_service.py\<close>, \<open>broker/app/crypto.py\<close>, the registry of
  \<open>broker/app/providers/__init__.py\<close>, and \<open>broker/app/workers/health_checker.py\<close>. The
  application object keeps the provider of each cluster and when it was constructed; its
  dicts are association lists in insertion order. Fernet and the provider classes are
  parameters. The checks that only log return what they would report.
\<close>

section \<open>Application state and platform\<close>

record 'w app =
  ap_providers :: "(uuid \<times> 'w provider) list"
  ap_constructed_at :: "(uuid \<times> int) list"

text \<open>A provider class: API URL, token id, secret, TLS verification.\<close>

type_synonym 'w provider_class = "string \<Rightarrow> string \<Rightarrow> string \<Rightarrow> bool \<Rightarrow> exn + 'w provider"

record 'w platform =
  pl_classes :: "(string \<times> 'w provider_class) list"
  pl_encrypt :: "string \<Rightarrow> exn + string"
  pl_decrypt :: "string \<Rightarrow> exn + string"

type_synonym ('w, 'a) aprog = "('w st \<times> 'w app, 'a) eff"

definition app_providers :: "'w app \<Rightarrow> uuid \<Rightarrow> 'w provider option" where
  "app_providers ap = map_of (ap_providers ap)"

definition decrypt_secret :: "'w platform \<Rightarrow> string \<Rightarrow> exn + string" where
  "decrypt_secret L c = (if c = [] then Inr [] else pl_decrypt L c)"

definition encrypt_secret :: "'w platform \<Rightarrow> string \<Rightarrow> exn + string" where
  "encrypt_secret L p = pl_encrypt L p"

definition get_provider_class :: "'w platform \<Rightarrow> string \<Rightarrow> exn + 'w provider_class" where
  "get_provider_class L ty = (case map_of (pl_classes L) ty of
     None \<Rightarrow> Inl (PyValueError (''Unknown provider type: '' @ repr_opt (Some ty)))
   | Some c \<Rightarrow> Inr c)"

definition construct_provider :: "'w platform \<Rightarrow> cluster \<Rightarrow> exn + 'w provider" where
  "construct_provider L c =
     (case get_provider_class L (c_provider_type c) of Inl e \<Rightarrow> Inl e | Inr cls \<Rightarrow>
     (case decrypt_secret L (c_token_secret c) of Inl e \<Rightarrow> Inl e | Inr plain \<Rightarrow>
        cls (c_api_url c) (c_token_id c) plain (c_verify_ssl c)))"

section \<open>Ping and status\<close>

definition status_of_ping :: "exn + bool \<Rightarrow> cluster_status" where
  "status_of_ping r = (case r of Inr True \<Rightarrow> C_ACTIVE | _ \<Rightarrow> C_OFFLINE)"

text \<open>Both \<open>except\<close> branches of the ping give the same status.\<close>

definition ping_and_update_status :: "'w env \<Rightarrow> uuid \<Rightarrow> 'w provider \<Rightarrow> ('w, cluster_status) prog" where
  "ping_and_update_status E i P =
     in_session (bnd (query (get_cluster_row i)) (\<lambda>row.
       case row of
         None \<Rightarrow> ret C_OFFLINE
       | Some c \<Rightarrow>
           bnd (attempt (prov CallPing (pv_ping P))) (\<lambda>r.
           let st = status_of_ping r in
           andthen (do_when (c_status c \<noteq> st)
             (andthen (set_cluster E i (\<lambda>c. c\<lparr>c_status := st\<rparr>))
               (log_business_event E ''system'' ''cluster.ping.flipped'' (Some ''cluster'') (Some i)
                 [(''cluster_name'', JStr (c_name c)),
                  (''from'', JStr (cluster_status_value (c_status c))),
                  (''to'', JStr (cluster_status_value st))] None)))
           (andthen commit (ret st)))))"

section \<open>Provider synchronisation\<close>

definition load_clusters :: "db \<Rightarrow> cluster list" where
  "load_clusters db = filter (\<lambda>c. c_status c \<in> {C_PENDING, C_ACTIVE, C_OFFLINE}) (clusters db)"

definition safely_close :: "'w provider \<Rightarrow> ('w, unit) aprog" where
  "safely_close P = on_store (catching (\<lambda>_. True) (prov CallClose (pv_close P)) (\<lambda>_. ret ()))"

definition pop_provider :: "uuid \<Rightarrow> 'w app \<Rightarrow> 'w app" where
  "pop_provider i ap = ap\<lparr>ap_providers := AList.delete i (ap_providers ap)\<rparr>"

definition forget_provider :: "uuid \<Rightarrow> 'w app \<Rightarrow> 'w app" where
  "forget_provider i ap = (pop_provider i ap)
     \<lparr>ap_constructed_at := AList.delete i (ap_constructed_at ap)\<rparr>"

definition install_provider :: "uuid \<Rightarrow> 'w provider \<Rightarrow> int \<Rightarrow> 'w app \<Rightarrow> 'w app" where
  "install_provider i P t ap = ap\<lparr>ap_providers := AList.update i P (ap_providers ap),
     ap_constructed_at := AList.update i t (ap_constructed_at ap)\<rparr>"

definition drop_stale :: "uuid set \<Rightarrow> uuid \<Rightarrow> ('w, unit) aprog" where
  "drop_stale known i =
     (if i \<in> known then ret ()
      else bnd (get_memory (\<lambda>ap. app_providers ap i)) (\<lambda>old.
        andthen (set_memory (forget_provider i))
        (case old of None \<Rightarrow> ret () | Some P \<Rightarrow> safely_close P)))"

definition needs_construct :: "cluster \<Rightarrow> 'w app \<Rightarrow> bool" where
  "needs_construct c ap = (case map_of (ap_constructed_at ap) (c_id c) of
     None \<Rightarrow> True | Some t \<Rightarrow> t < c_updated_at c)"

definition sync_cluster :: "'w env \<Rightarrow> 'w platform \<Rightarrow> cluster \<Rightarrow> ('w, unit) aprog" where
  "sync_cluster E L c =
     bnd (get_memory (needs_construct c)) (\<lambda>need.
     do_when need
       (bnd (get_memory (\<lambda>ap. app_providers ap (c_id c))) (\<lambda>old.
        andthen (set_memory (pop_provider (c_id c)))
        (andthen (case old of None \<Rightarrow> ret () | Some P \<Rightarrow> safely_close P)
        (case construct_provider L c of
           Inl e \<Rightarrow> ret ()
         | Inr P \<Rightarrow> bnd (on_store (now E)) (\<lambda>t. set_memory (install_provider (c_id c) P t)))))))"

definition sync_providers :: "'w env \<Rightarrow> 'w platform \<Rightarrow> cluster list \<Rightarrow> ('w, unit) aprog" where
  "sync_providers E L cs =
     bnd (get_memory (\<lambda>ap. map fst (ap_providers ap))) (\<lambda>ids.
     andthen (for_each ids (drop_stale (set (map c_id cs))))
     (for_each cs (sync_cluster E L)))"

section \<open>Checks of one cluster\<close>

definition offline_nodes :: "node_info list \<Rightarrow> string list" where
  "offline_nodes ns = map n_node (filter (\<lambda>n. n_status n \<noteq> ''online'') ns)"

text \<open>\<open>free / total * 100 < 20\<close>, on integers.\<close>

definition storage_low :: "storage_info \<Rightarrow> bool" where
  "storage_low so \<longleftrightarrow> 0 < so_total_bytes so
     \<and> (so_total_bytes so - so_used_bytes so) * 100 < 20 * so_total_bytes so"

definition check_nodes :: "'w provider \<Rightarrow> ('w, string list) prog" where
  "check_nodes P = bnd (prov CallListNodes (pv_list_nodes P)) (\<lambda>ns. ret (offline_nodes ns))"

definition check_storage :: "'w provider \<Rightarrow> ('w, (string \<times> string) list) prog" where
  "check_storage P =
     bnd (prov CallListNodes (pv_list_nodes P)) (\<lambda>ns.
     bnd (map_eff (\<lambda>n.
       catching is_provider_error
         (bnd (prov (CallListStorage (n_node n)) (pv_list_storage P (n_node n))) (\<lambda>sos.
          ret (map (\<lambda>so. (n_node n, so_name so)) (filter storage_low sos))))
         (\<lambda>_. ret [])) (filter (\<lambda>n. n_status n = ''online'') ns)) (\<lambda>xss. ret (concat xss)))"

text \<open>(node, VMID) of a listed VM; a VMID that is not an integer is skipped, Python raises.\<close>

definition vm_ident :: "vm_status \<Rightarrow> (jval \<times> int) option" where
  "vm_ident v = (case (jget (r_data (v_ref v)) ''node'', jget (r_data (v_ref v)) ''vmid'') of
     (Some n, Some x) \<Rightarrow> (case j_int x of None \<Rightarrow> None | Some i \<Rightarrow> Some (n, i))
   | _ \<Rightarrow> None)"

definition cluster_desktops :: "uuid \<Rightarrow> db \<Rightarrow> desktop list" where
  "cluster_desktops cid db = filter (\<lambda>d. d_status d \<notin> {D_DELETING, D_PROVISIONING}
     \<and> (case get_pool_row (d_pool_id d) db of None \<Rightarrow> False | Some p \<Rightarrow> p_cluster_id p = cid)) (desktops db)"

definition desktop_ident :: "desktop \<Rightarrow> jval \<times> int" where
  "desktop_ident d = (JStr (d_pve_node d), d_pve_vmid d)"

definition missing_vms :: "vm_status list \<Rightarrow> desktop list \<Rightarrow> desktop list" where
  "missing_vms vms ds = filter (\<lambda>d. Some (desktop_ident d) \<notin> set (map vm_ident vms)) ds"

definition orphan_vms :: "vm_status list \<Rightarrow> desktop list \<Rightarrow> vm_status list" where
  "orphan_vms vms ds = filter (\<lambda>v. ''openvdi-managed'' \<in> v_tags v
     \<and> (case vm_ident v of None \<Rightarrow> False | Some x \<Rightarrow> x \<notin> set (map desktop_ident ds))) vms"

definition reconcile_inventory ::
    "cluster \<Rightarrow> 'w provider \<Rightarrow> ('w, desktop list \<times> vm_status list) prog" where
  "reconcile_inventory c P =
     bnd (prov CallListVms (pv_list_vms P)) (\<lambda>vms.
     bnd (in_session (query (cluster_desktops (c_id c)))) (\<lambda>ds.
     ret (missing_vms vms ds, orphan_vms vms ds)))"

definition soft :: "('w, 'a) prog \<Rightarrow> ('w, unit) prog" where
  "soft m = catching is_provider_error (andthen m (ret ())) (\<lambda>_. ret ())"

definition process_cluster :: "'w env \<Rightarrow> cluster \<Rightarrow> ('w, unit) aprog" where
  "process_cluster E c =
     bnd (get_memory (\<lambda>ap. app_providers ap (c_id c))) (\<lambda>found.
     case found of None \<Rightarrow> ret () | Some P \<Rightarrow>
     on_store (bnd (ping_and_update_status E (c_id c) P) (\<lambda>st.
       do_when (st = C_ACTIVE)
         (andthen (soft (check_nodes P))
         (andthen (soft (check_storage P))
         (soft (reconcile_inventory c P)))))))"

section \<open>Stuck provisioning\<close>

definition stuck_provisioning_ms :: int where
  "stuck_provisioning_ms = 10 * 60 * 1000"

definition stuck_desktops :: "int \<Rightarrow> db \<Rightarrow> desktop list" where
  "stuck_desktops threshold db =
     filter (\<lambda>d. d_status d = D_PROVISIONING \<and> d_updated_at d < threshold) (desktops db)"

definition mark_stuck :: "desktop \<Rightarrow> desktop" where
  "mark_stuck d = d\<lparr>d_status := D_ERROR, d_error_message := Some
     (''stuck in provisioning for >10 minutes since '' @ show_int (d_updated_at d)
      @ ''; possible broker crash during provisioning. Use POST /desktops/{id}/rebuild to recover.''),
     d_pve_task_upid := None, d_pve_task_kind := None\<rparr>"

definition check_stuck_provisioning :: "'w env \<Rightarrow> ('w, unit) prog" where
  "check_stuck_provisioning E =
     bnd (now E) (\<lambda>t.
     in_session (bnd (query (stuck_desktops (t - stuck_provisioning_ms))) (\<lambda>stuck.
       do_when (stuck \<noteq> [])
         (andthen (for_each stuck (\<lambda>d. set_desktop E (d_id d) mark_stuck)) commit))))"

definition health_checker_tick :: "'w env \<Rightarrow> 'w platform \<Rightarrow> ('w, unit) aprog" where
  "health_checker_tick E L =
     bnd (on_store (in_session (query load_clusters))) (\<lambda>cs.
     andthen (sync_providers E L cs)
     (andthen (for_each cs (\<lambda>c. catching (\<lambda>_. True) (process_cluster E c) (\<lambda>_. ret ())))
     (catching (\<lambda>_. True) (on_store (check_stuck_provisioning E)) (\<lambda>_. ret ()))))"

section \<open>Invariants\<close>

lemma mark_stuck_identity [simp]: "keeps_identity mark_stuck" "d_id (mark_stuck d) = d_id d"
  by (simp_all add: keeps_identity_def mark_stuck_def)

context db_writes begin

lemma pres_ping_and_update_status: "pres (both I) (ping_and_update_status E i P)"
  unfolding ping_and_update_status_def
  by (intro pres_intros pres_prims pres_log_business_event) simp

lemma pres_safely_close: "pres (\<lambda>x. both I (fst x)) (safely_close P)"
  unfolding safely_close_def by (intro pres_on_store pres_intros pres_prims)

lemma pres_sync_providers: "pres (\<lambda>x. both I (fst x)) (sync_providers E L cs)"
  unfolding sync_providers_def drop_stale_def sync_cluster_def
  by (intro pres_intros pres_memory pres_on_store pres_prims pres_safely_close)

lemma pres_process_cluster: "pres (\<lambda>x. both I (fst x)) (process_cluster E c)"
  unfolding process_cluster_def soft_def check_nodes_def check_storage_def reconcile_inventory_def
  by (intro pres_intros pres_memory pres_on_store pres_prims pres_ping_and_update_status)

lemma pres_check_stuck_provisioning: "pres (both I) (check_stuck_provisioning E)"
  unfolding check_stuck_provisioning_def by (intro pres_intros pres_prims mark_stuck_identity)

lemma pres_health_checker_tick: "pres (\<lambda>x. both I (fst x)) (health_checker_tick E L)"
  unfolding health_checker_tick_def
  by (intro pres_intros pres_on_store pres_prims pres_sync_providers pres_process_cluster
      pres_check_stuck_provisioning)

end

section \<open>Synchronisation, run\<close>

lemma safely_close_run: "\<exists>s'. safely_close P (s, ap) = (Inr (), (s', ap)) \<and> committed s' = committed s"
  by (auto simp: safely_close_def exec_simps split: prod.splits sum.splits)

lemma app_providers_simps [simp]:
  "app_providers (pop_provider i ap) = (app_providers ap)(i := None)"
  "app_providers (forget_provider i ap) = (app_providers ap)(i := None)"
  "app_providers (install_provider i P t ap) = (app_providers ap)(i \<mapsto> P)"
  "ap_constructed_at (pop_provider i ap) = ap_constructed_at ap"
  "map_of (ap_constructed_at (forget_provider i ap)) = (map_of (ap_constructed_at ap))(i := None)"
  "map_of (ap_constructed_at (install_provider i P t ap)) = (map_of (ap_constructed_at ap))(i \<mapsto> t)"
  by (simp_all add: app_providers_def pop_provider_def forget_provider_def install_provider_def
      delete_conv' update_conv')

lemma drop_stale_run:
  "\<exists>s'. drop_stale known i (s, ap) = (Inr (), (s', if i \<in> known then ap else forget_provider i ap))"
proof (cases "app_providers ap i")
  case (Some P)
  obtain s' where "safely_close P (s, forget_provider i ap) = (Inr (), (s', forget_provider i ap))"
    using safely_close_run by blast
  with Some show ?thesis by (simp add: drop_stale_def exec_simps)
qed (simp add: drop_stale_def exec_simps)

lemma drop_all_run:
  "\<exists>s' ap'. for_each ids (drop_stale known) (s, ap) = (Inr (), (s', ap'))
    \<and> (\<forall>i. app_providers ap' i = (if i \<in> set ids - known then None else app_providers ap i))
    \<and> (\<forall>i\<in>known. map_of (ap_constructed_at ap') i = map_of (ap_constructed_at ap) i)"
proof (induction ids arbitrary: s ap)
  case (Cons i ids)
  obtain s1 where s1: "drop_stale known i (s, ap) = (Inr (), (s1, if i \<in> known then ap else forget_provider i ap))"
    using drop_stale_run by blast
  from Cons.IH [of s1 "if i \<in> known then ap else forget_provider i ap"] obtain s' ap' where
    "for_each ids (drop_stale known) (s1, if i \<in> known then ap else forget_provider i ap) = (Inr (), (s', ap'))"
    "\<forall>j. app_providers ap' j = (if j \<in> set ids - known then None
        else app_providers (if i \<in> known then ap else forget_provider i ap) j)"
    "\<forall>j\<in>known. map_of (ap_constructed_at ap') j
        = map_of (ap_constructed_at (if i \<in> known then ap else forget_provider i ap)) j"
    by blast
  with s1 show ?case by (intro exI [of _ s'] exI [of _ ap']) (auto simp: andthen_run)
qed (simp add: exec_simps)

definition synced_provider :: "'w platform \<Rightarrow> 'w app \<Rightarrow> cluster \<Rightarrow> 'w provider option" where
  "synced_provider L ap c =
     (if needs_construct c ap
      then (case construct_provider L c of Inl _ \<Rightarrow> None | Inr P \<Rightarrow> Some P)
      else app_providers ap (c_id c))"

lemma sync_cluster_run:
  "\<exists>s' ap'. sync_cluster E L c (s, ap) = (Inr (), (s', ap'))
    \<and> app_providers ap' (c_id c) = synced_provider L ap c
    \<and> (\<forall>i. i \<noteq> c_id c \<longrightarrow> app_providers ap' i = app_providers ap i
         \<and> map_of (ap_constructed_at ap') i = map_of (ap_constructed_at ap) i)"
proof (cases "needs_construct c ap")
  case True
  let ?ap = "pop_provider (c_id c) ap"
  have "\<exists>s1. (case app_providers ap (c_id c) of None \<Rightarrow> ret () | Some P \<Rightarrow> safely_close P) (s, ?ap)
      = (Inr (), (s1, ?ap))"
  proof (cases "app_providers ap (c_id c)")
    case (Some P)
    obtain s1 where "safely_close P (s, ?ap) = (Inr (), (s1, ?ap))" using safely_close_run by blast
    with Some show ?thesis by simp
  qed (simp add: exec_simps)
  then obtain s1 where s1: "(case app_providers ap (c_id c) of None \<Rightarrow> ret () | Some P \<Rightarrow> safely_close P) (s, ?ap)
      = (Inr (), (s1, ?ap))" by blast
  show ?thesis
  proof (cases "construct_provider L c")
    case (Inl e)
    with True s1 show ?thesis by (simp add: sync_cluster_def synced_provider_def exec_simps)
  next
    case (Inr P)
    with True s1 show ?thesis by (simp add: sync_cluster_def synced_provider_def exec_simps)
  qed
qed (simp add: sync_cluster_def synced_provider_def exec_simps)

lemma sync_all_run:
  assumes "distinct (map c_id cs)"
  shows "\<exists>s' ap'. for_each cs (sync_cluster E L) (s, ap) = (Inr (), (s', ap'))
    \<and> (\<forall>c\<in>set cs. app_providers ap' (c_id c) = synced_provider L ap c)
    \<and> (\<forall>i. i \<notin> c_id ` set cs \<longrightarrow> app_providers ap' i = app_providers ap i)"
  using assms
proof (induction cs arbitrary: s ap)
  case (Cons c cs)
  obtain s1 ap1 where 1: "sync_cluster E L c (s, ap) = (Inr (), (s1, ap1))"
      "app_providers ap1 (c_id c) = synced_provider L ap c"
      "\<forall>i. i \<noteq> c_id c \<longrightarrow> app_providers ap1 i = app_providers ap i
         \<and> map_of (ap_constructed_at ap1) i = map_of (ap_constructed_at ap) i"
    using sync_cluster_run by blast
  from Cons.IH [of s1 ap1] Cons.prems obtain s' ap' where 2:
    "for_each cs (sync_cluster E L) (s1, ap1) = (Inr (), (s', ap'))"
    "\<forall>c\<in>set cs. app_providers ap' (c_id c) = synced_provider L ap1 c"
    "\<forall>i. i \<notin> c_id ` set cs \<longrightarrow> app_providers ap' i = app_providers ap1 i" by auto
  have "synced_provider L ap1 d = synced_provider L ap d" if "d \<in> set cs" for d
  proof -
    from that have "c_id d \<in> c_id ` set cs" by simp
    with Cons.prems have "c_id d \<noteq> c_id c" by auto
    with 1(3) show ?thesis by (simp add: synced_provider_def needs_construct_def)
  qed
  with 1 2 Cons.prems show ?case
    by (intro exI [of _ s'] exI [of _ ap']) (auto simp: andthen_run)
qed (simp add: exec_simps)

section \<open>Stuck rows, run\<close>

lemma for_each_set_desktop:
  "for_each xs (\<lambda>d. set_desktop E (d_id d) f) s = (Inr (), s\<lparr>work :=
     fold (\<lambda>d. patch_desktop (d_id d) (\<lambda>d. (f d)\<lparr>d_updated_at := e_now E (world s)\<rparr>)) xs (work s)\<rparr>)"
  by (induction xs arbitrary: s) (simp_all add: exec_simps)

lemma desktops_fold_patch:
  assumes "distinct (map d_id xs)" "\<And>d. d_id (g d) = d_id d"
  shows "desktops (fold (\<lambda>d. patch_desktop (d_id d) g) xs db)
    = map (\<lambda>d. if d_id d \<in> d_id ` set xs then g d else d) (desktops db)"
  using assms(1)
proof (induction xs arbitrary: db)
  case (Cons x xs)
  then show ?case by (simp add: patch_desktop_def assms(2) image_iff comp_def)
qed simp

section \<open>Properties\<close>

text \<open>
  The provider table is reconciled with the clusters it is given: whatever
  closing or constructing raises, the synchronisation returns; a cluster that is new, or
  whose row changed since its provider was constructed, gets the provider its current row
  constructs (none when construction fails); the other given clusters keep theirs; and
  every other entry is dropped. Since the tick passes only clusters not in maintenance, a
  cluster in maintenance loses its provider too.
\<close>

theorem sync_providers_reconciles:
  assumes "distinct (map c_id cs)"
  shows "\<exists>s' ap'. sync_providers E L cs (s, ap) = (Inr (), (s', ap'))
    \<and> (\<forall>c\<in>set cs. app_providers ap' (c_id c) = synced_provider L ap c)
    \<and> (\<forall>i. i \<notin> c_id ` set cs \<longrightarrow> app_providers ap' i = None)"
proof -
  let ?ids = "map fst (ap_providers ap)"
  obtain s1 ap1 where 1: "for_each ?ids (drop_stale (set (map c_id cs))) (s, ap) = (Inr (), (s1, ap1))"
      "\<forall>i. app_providers ap1 i = (if i \<in> set ?ids - set (map c_id cs) then None else app_providers ap i)"
      "\<forall>i\<in>set (map c_id cs). map_of (ap_constructed_at ap1) i = map_of (ap_constructed_at ap) i"
    using drop_all_run by blast
  obtain s2 ap2 where 2: "for_each cs (sync_cluster E L) (s1, ap1) = (Inr (), (s2, ap2))"
      "\<forall>c\<in>set cs. app_providers ap2 (c_id c) = synced_provider L ap1 c"
      "\<forall>i. i \<notin> c_id ` set cs \<longrightarrow> app_providers ap2 i = app_providers ap1 i"
    using sync_all_run [OF assms] by blast
  have "synced_provider L ap1 c = synced_provider L ap c" if "c \<in> set cs" for c
    using that 1(2,3) by (auto simp: synced_provider_def needs_construct_def)
  moreover have "app_providers ap1 i = None" if "i \<notin> c_id ` set cs" for i
    using that 1(2) by (auto simp: app_providers_def map_of_eq_None_iff)
  moreover have "sync_providers E L cs (s, ap) = (Inr (), (s2, ap2))"
    using 1(1) 2(1) by (simp add: sync_providers_def exec_simps)
  ultimately show ?thesis using 2 by (intro exI [of _ s2] exI [of _ ap2]) auto
qed

definition empty_platform :: "'w platform" where
  "empty_platform = \<lparr>pl_classes = [], pl_encrypt = Inr, pl_decrypt = Inr\<rparr>"

theorem sync_providers_reconciles_witness:
  "\<exists>s' ap'. sync_providers sim_env empty_platform [example_cluster]
      (sim_st empty_db, \<lparr>ap_providers = [(9, sim_provider)], ap_constructed_at = [(9, 5)]\<rparr>) = (Inr (), (s', ap'))
    \<and> app_providers ap' 9 = None"
proof -
  have "(9 :: uuid) \<notin> c_id ` set [example_cluster]" by (simp add: example_cluster_def)
  then show ?thesis
    using sync_providers_reconciles [of "[example_cluster]" sim_env empty_platform "sim_st empty_db"
        "\<lparr>ap_providers = [(9, sim_provider)], ap_constructed_at = [(9, 5)]\<rparr>"] by auto
qed

text \<open>
  Pinging settles the cluster's status: the call returns, and the committed row
  holds, \<open>ACTIVE\<close> exactly when the ping answered true and \<open>OFFLINE\<close> when it answered false or
  raised anything; an audit row is written exactly when the status changed.
\<close>

theorem ping_settles_status:
  assumes "get_cluster_row i (committed s) = Some c" "pv_ping P (world s) = (r, w)"
  shows "\<exists>s' c'. ping_and_update_status E i P s = (Inr (status_of_ping r), s')
    \<and> get_cluster_row i (committed s') = Some c' \<and> c_status c' = status_of_ping r
    \<and> (status_of_ping r = C_ACTIVE \<longleftrightarrow> r = Inr True)
    \<and> (if c_status c = status_of_ping r then committed s' = committed s
       else \<exists>a. audit_log (committed s') = audit_log (committed s) @ [a] \<and> a_action a = ''cluster.ping.flipped'')"
proof -
  have id: "c_id c = i" using assms(1) by (auto simp: get_cluster_row_def dest: find_SomeD)
  have act: "status_of_ping r = C_ACTIVE \<longleftrightarrow> r = Inr True"
    by (auto simp: status_of_ping_def split: sum.splits bool.splits)
  have row: "get_cluster_row i (patch_cluster i (\<lambda>c. c\<lparr>c_status := st, c_updated_at := t\<rparr>) (committed s))
      = Some (c\<lparr>c_status := st, c_updated_at := t\<rparr>)" for st t
    using assms(1) unfolding get_cluster_row_def patch_cluster_def by (simp add: find_map_key id)
  show ?thesis
  proof (cases "c_status c = status_of_ping r")
    case True
    with assms act show ?thesis by (simp add: ping_and_update_status_def exec_simps Let_def)
  next
    case False
    with assms act row show ?thesis
      by (simp add: ping_and_update_status_def exec_simps Let_def log_business_event_def)
        (simp add: add_audit_def patch_cluster_def)
  qed
qed

theorem ping_settles_status_witness:
  "\<exists>s'. ping_and_update_status sim_env 3 sim_provider
      (sim_st (empty_db\<lparr>clusters := [example_cluster\<lparr>c_status := C_OFFLINE\<rparr>]\<rparr>)) = (Inr C_ACTIVE, s')"
proof -
  let ?c = "example_cluster\<lparr>c_status := C_OFFLINE\<rparr>"
  have a: "get_cluster_row 3 (committed (sim_st (empty_db\<lparr>clusters := [?c]\<rparr>))) = Some ?c"
    by (simp add: get_cluster_row_def example_cluster_def)
  have b: "pv_ping sim_provider (world (sim_st (empty_db\<lparr>clusters := [?c]\<rparr>))) = (Inr True, 0)"
    by (simp add: sim_provider_def)
  from ping_settles_status [OF a b, of sim_env] show ?thesis
    by (auto simp: status_of_ping_def)
qed

text \<open>
  The stuck-provisioning check turns into \<open>ERROR\<close>, with its task fields cleared,
  exactly the desktops in \<open>PROVISIONING\<close> not written for ten minutes, touches no other row,
  and run again at once changes nothing.
\<close>

theorem stuck_check_exact:
  assumes "keys_unique (committed s)"
  shows "\<exists>s'. check_stuck_provisioning E s = (Inr (), s')
    \<and> desktops (committed s') = map (\<lambda>d.
         if d_status d = D_PROVISIONING \<and> d_updated_at d < e_now E (world s) - 600000
         then (mark_stuck d)\<lparr>d_updated_at := e_now E (world s)\<rparr> else d) (desktops (committed s))
    \<and> committed (snd (check_stuck_provisioning E s')) = committed s'"
proof -
  let ?t = "e_now E (world s)"
  let ?th = "?t - stuck_provisioning_ms"
  let ?g = "\<lambda>d. (mark_stuck d)\<lparr>d_updated_at := ?t\<rparr>"
  let ?stuck = "stuck_desktops ?th (committed s)"
  let ?db = "if ?stuck = [] then committed s
    else fold (\<lambda>d. patch_desktop (d_id d) ?g) ?stuck (committed s)"
  let ?s' = "s\<lparr>work := ?db, committed := ?db\<rparr>"
  have run: "check_stuck_provisioning E s = (Inr (), ?s')"
    by (simp add: check_stuck_provisioning_def exec_simps for_each_set_desktop)
  have dist: "distinct (map d_id (desktops (committed s)))" using assms by (simp add: keys_unique_def)
  then have "distinct (map d_id ?stuck)" by (simp add: stuck_desktops_def distinct_map_filter_key)
  from desktops_fold_patch [OF this, of ?g "committed s"]
  have "desktops ?db = map (\<lambda>d. if d_id d \<in> d_id ` set ?stuck then ?g d else d) (desktops (committed s))"
    by (auto intro!: map_idI [symmetric])
  moreover have "d_id d \<in> d_id ` set ?stuck \<longleftrightarrow> d_status d = D_PROVISIONING \<and> d_updated_at d < ?th"
    if "d \<in> set (desktops (committed s))" for d
    using that dist by (auto simp: stuck_desktops_def image_iff distinct_map dest: inj_onD)
  ultimately have db: "desktops ?db = map (\<lambda>d. if d_status d = D_PROVISIONING \<and> d_updated_at d < ?th
      then ?g d else d) (desktops (committed s))"
    by (auto intro!: map_cong)
  then have "stuck_desktops ?th ?db = []"
    by (auto simp: stuck_desktops_def filter_empty_conv mark_stuck_def)
  then have "committed (snd (check_stuck_provisioning E ?s')) = ?db"
    by (simp add: check_stuck_provisioning_def exec_simps)
  with run db show ?thesis
    by (intro exI [of _ ?s']) (simp add: stuck_provisioning_ms_def)
qed

theorem stuck_check_exact_witness:
  "\<exists>s'. check_stuck_provisioning sim_env ((sim_st (empty_db\<lparr>desktops :=
      [example_desktop\<lparr>d_status := D_PROVISIONING\<rparr>]\<rparr>))\<lparr>world := 700000\<rparr>) = (Inr (), s')
    \<and> map d_status (desktops (committed s')) = [D_ERROR]"
proof -
  let ?s = "(sim_st (empty_db\<lparr>desktops := [example_desktop\<lparr>d_status := D_PROVISIONING\<rparr>]\<rparr>))\<lparr>world := 700000\<rparr>"
  have "keys_unique (committed ?s)" by (simp add: keys_unique_def empty_db_def)
  from stuck_check_exact [OF this, of sim_env] obtain s' where
    "check_stuck_provisioning sim_env ?s = (Inr (), s')"
    "desktops (committed s') = map (\<lambda>d.
         if d_status d = D_PROVISIONING \<and> d_updated_at d < e_now sim_env (world ?s) - 600000
         then (mark_stuck d)\<lparr>d_updated_at := e_now sim_env (world ?s)\<rparr> else d) (desktops (committed ?s))"
    by blast
  then show ?thesis by (simp add: sim_env_def example_desktop_def mark_stuck_def)
qed

text \<open>The seconds a sequence of provider calls may spend waiting for tasks.\<close>

definition wait_budget :: "call list \<Rightarrow> int" where
  "wait_budget cs = sum_list (map (\<lambda>c. case c of CallWait _ t \<Rightarrow> t | _ \<Rightarrow> 0) cs)"

text \<open>
  The stuck threshold is shorter than the time a healthy build may take: after
  the clone is dispatched the next commit of a non-persistent build comes only when it is
  done, and the task waits alone add up to 1080 seconds, more than the ten minutes after
  which the check declares the row stuck.
\<close>

theorem build_may_outlast_stuck_threshold:
  "stuck_provisioning_ms < 1000 * wait_budget (build_calls p t user v nm nd)
     \<and> (p_pool_type p = NONPERSISTENT \<longrightarrow> wait_budget (build_calls p t user v nm nd) = 1080)"
  by (cases "p_pool_type p") (simp_all add: wait_budget_def build_calls_def Let_def stuck_provisioning_ms_def)

theorem build_may_outlast_stuck_threshold_witness:
  "wait_budget (build_calls example_pool example_template None 100 ''eng-001'' ''pve1'') = 1080"
  using build_may_outlast_stuck_threshold [of example_pool] by simp

end
