(* ===== verification/Py_Values.thy ===== *)
theory Py_Values
  imports Effects
begin

text \<open>
  Decoded JSON as Python computes with it: truth, lookups, length, iteration, comparison and
  addition, each with the exception it raises on a value of another type. Shared by the Proxmox
  provider and the MCP administration server, which both work on undeclared answers.
  The order Python gives two lists is left out: comparing them is an error here.
\<close>

fun j_truthy :: "jval \<Rightarrow> bool" where
  "j_truthy JNull = False"
| "j_truthy (JBool b) = b"
| "j_truthy (JInt i) = (i \<noteq> 0)"
| "j_truthy (JStr s) = (s \<noteq> [])"
| "j_truthy (JList vs) = (vs \<noteq> [])"
| "j_truthy (JObj kvs) = (kvs \<noteq> [])"

text \<open>\<open>kvs.get(k, d)\<close> of a dictionary; \<open>a or b\<close>.\<close>

definition get_or :: "(string \<times> jval) list \<Rightarrow> string \<Rightarrow> jval \<Rightarrow> jval" where
  "get_or kvs k d = (case map_of kvs k of None \<Rightarrow> d | Some v \<Rightarrow> v)"

definition or_else :: "jval \<Rightarrow> jval \<Rightarrow> jval" where
  "or_else a b = (if j_truthy a then a else b)"

text \<open>\<open>d.get\<close> exists for dictionaries only.\<close>

definition as_dict :: "jval \<Rightarrow> ('s, (string \<times> jval) list) eff" where
  "as_dict v = (case v of JObj kvs \<Rightarrow> ret kvs | _ \<Rightarrow> throw (PyAttributeError ''get''))"

text \<open>\<open>d[k]\<close> with a string key, \<open>len(v)\<close> and the values \<open>for x in v\<close> meets.\<close>

definition dict_item :: "(string \<times> jval) list \<Rightarrow> string \<Rightarrow> ('s, jval) eff" where
  "dict_item kvs k = (case map_of kvs k of None \<Rightarrow> throw (PyKeyError k) | Some v \<Rightarrow> ret v)"

definition py_item :: "jval \<Rightarrow> string \<Rightarrow> ('s, jval) eff" where
  "py_item v k = (case v of JObj kvs \<Rightarrow> dict_item kvs k
     | _ \<Rightarrow> throw (PyTypeError ''indices must be integers or slices, not str''))"

fun py_len :: "jval \<Rightarrow> exn + int" where
  "py_len (JList vs) = Inr (int (length vs))"
| "py_len (JObj kvs) = Inr (int (length kvs))"
| "py_len (JStr s) = Inr (int (length s))"
| "py_len _ = Inl (PyTypeError ''object has no len()'')"

fun py_iter :: "jval \<Rightarrow> exn + jval list" where
  "py_iter (JList vs) = Inr vs"
| "py_iter (JObj kvs) = Inr (map (JStr \<circ> fst) kvs)"
| "py_iter (JStr s) = Inr (map (\<lambda>c. JStr [c]) s)"
| "py_iter _ = Inl (PyTypeError ''object is not iterable'')"

text \<open>\<open>v == i\<close> for an integer \<open>i\<close>: \<open>True == 1\<close> and \<open>False == 0\<close>.\<close>

definition eq_int :: "jval \<Rightarrow> int \<Rightarrow> bool" where
  "eq_int v i \<longleftrightarrow> j_int v = Some i"

fun string_less :: "string \<Rightarrow> string \<Rightarrow> bool" where
  "string_less _ [] = False"
| "string_less [] (_ # _) = True"
| "string_less (c # s) (d # t) = (let m = (of_char c :: nat); n = (of_char d :: nat) in
     m < n \<or> m = n \<and> string_less s t)"

fun py_less :: "jval \<Rightarrow> jval \<Rightarrow> exn + bool" where
  "py_less (JStr s) (JStr t) = Inr (string_less s t)"
| "py_less a b = (case (j_int a, j_int b) of (Some i, Some j) \<Rightarrow> Inr (i < j)
     | _ \<Rightarrow> Inl (PyTypeError ''not supported between instances''))"

fun py_add :: "jval \<Rightarrow> jval \<Rightarrow> exn + jval" where
  "py_add (JStr s) (JStr t) = Inr (JStr (s @ t))"
| "py_add (JList s) (JList t) = Inr (JList (s @ t))"
| "py_add a b = (case (j_int a, j_int b) of (Some i, Some j) \<Rightarrow> Inr (JInt (i + j))
     | _ \<Rightarrow> Inl (PyTypeError ''unsupported operand''))"

definition py_sub :: "jval \<Rightarrow> jval \<Rightarrow> exn + jval" where
  "py_sub a b = (case (j_int a, j_int b) of (Some i, Some j) \<Rightarrow> Inr (JInt (i - j))
     | _ \<Rightarrow> Inl (PyTypeError ''unsupported operand''))"

lemma pres_as_dict [pres_intros]: "pres J (as_dict v)"
  by (auto simp: as_dict_def intro: pres_ret pres_throw split: jval.split)

lemma pres_dict_item [pres_intros]: "pres J (dict_item kvs k)"
  by (auto simp: dict_item_def intro: pres_ret pres_throw split: option.split)

lemma pres_py_item [pres_intros]: "pres J (py_item v k)"
  by (auto simp: py_item_def intro: pres_intros split: jval.split)

lemma as_dict_run [exec_simps]: "as_dict (JObj kvs) s = (Inr kvs, s)"
  by (simp add: as_dict_def exec_simps)

end
