(* ===== verification/Logging.thy ===== *)
theory Logging
  imports Py_Values "HOL-Library.AList"
begin

text \<open>
  Log records and how they are written: \<open>broker/app/logging.py\<close>, the \<open>logging.py\<close> of the MCP server, and what
  the standard library does with the \<open>extra\<close> of a call and in \<open>json.dumps\<close>. Times as text and the texts of
  exceptions are fields of the record.
\<close>

section \<open>Records\<close>

text \<open>The attributes every \<open>LogRecord\<close> has.\<close>

definition log_record_attrs :: "string list" where
  "log_record_attrs = [''name'', ''msg'', ''args'', ''levelname'', ''levelno'', ''pathname'', ''filename'', ''module'',
     ''exc_info'', ''exc_text'', ''stack_info'', ''lineno'', ''funcName'', ''created'', ''msecs'', ''relativeCreated'',
     ''thread'', ''threadName'', ''processName'', ''process'', ''taskName'']"

text \<open>
  \<open>logger.log(level, msg, extra=...)\<close>: a record is made only if the level is enabled, and making it
  refuses an extra key that is an attribute already.
\<close>

definition clashing_extras :: "string list \<Rightarrow> string list" where
  "clashing_extras keys = filter (\<lambda>k. k \<in> set (''message'' # ''asctime'' # log_record_attrs)) keys"

definition log_call :: "bool \<Rightarrow> string list \<Rightarrow> ('s, unit) eff" where
  "log_call enabled extra_keys = (case (if enabled then clashing_extras extra_keys else []) of
       [] \<Rightarrow> ret ()
     | k # _ \<Rightarrow> throw (PyKeyError (''Attempt to overwrite '' @ k @ '' in LogRecord'')))"

lemma snd_log_call [simp]: "snd (log_call enabled keys s) = s"
  by (simp add: log_call_def exec_simps split: list.split)

lemma pres_log_call [pres_intros]: "pres J (log_call enabled keys)"
  unfolding log_call_def by (intro pres_intros)

text \<open>
  A record as the formatters see it: \<open>lg_dict\<close> is \<open>record.__dict__\<close>, with the values
  that are not JSON given as their \<open>str\<close>.
\<close>

record log_record =
  lg_time :: string
  lg_level :: string
  lg_name :: string
  lg_message :: string
  lg_dict :: "(string \<times> jval) list"
  lg_exception :: "string option"
  lg_stack :: "string option"

section \<open>\<open>json.dumps\<close>\<close>

definition hex_lower :: "nat \<Rightarrow> char" where
  "hex_lower n = (if n < 10 then char_of (48 + n) else char_of (87 + n))"

text \<open>With \<open>ensure_ascii\<close>: what is not a printable ASCII character is escaped.\<close>

definition json_char :: "char \<Rightarrow> string" where
  "json_char c = (let n = of_char c :: nat in
     if n = 34 then [CHR 0x5C, CHR 0x22] else if n = 92 then [CHR 0x5C, CHR 0x5C]
     else if n = 10 then [CHR 0x5C, CHR ''n''] else if n = 13 then [CHR 0x5C, CHR ''r'']
     else if n = 9 then [CHR 0x5C, CHR ''t''] else if n = 12 then [CHR 0x5C, CHR ''f'']
     else if n = 8 then [CHR 0x5C, CHR ''b'']
     else if 32 \<le> n \<and> n \<le> 126 then [c]
     else [CHR 0x5C, CHR ''u'', CHR ''0'', CHR ''0'', hex_lower (n div 16), hex_lower (n mod 16)])"

definition json_string :: "string \<Rightarrow> string" where
  "json_string s = CHR 0x22 # concat (map json_char s) @ [CHR 0x22]"

definition comma_joined :: "string list \<Rightarrow> string" where
  "comma_joined xs = (case xs of [] \<Rightarrow> [] | y # ys \<Rightarrow> y @ concat (map (\<lambda>x. '', '' @ x) ys))"

fun json_dumps :: "jval \<Rightarrow> string" where
  "json_dumps JNull = ''null''"
| "json_dumps (JBool b) = (if b then ''true'' else ''false'')"
| "json_dumps (JInt i) = show_int i"
| "json_dumps (JStr s) = json_string s"
| "json_dumps (JList vs) = ''['' @ comma_joined (map json_dumps vs) @ '']''"
| "json_dumps (JObj kvs) = ''{'' @ comma_joined (map (\<lambda>(k, v). json_string k @ '': '' @ json_dumps v) kvs) @ ''}''"

section \<open>The broker's log\<close>

text \<open>\<open>RequestIdFilter\<close>, with the value of the context variable.\<close>

definition filter_request_id :: "string option \<Rightarrow> log_record \<Rightarrow> log_record" where
  "filter_request_id current r = r\<lparr>lg_dict := AList.update ''request_id''
     (JStr (case current of None \<Rightarrow> ''-'' | Some i \<Rightarrow> if i = [] then ''-'' else i)) (lg_dict r)\<rparr>"

definition standard_log_attrs :: "string list" where
  "standard_log_attrs = [''args'', ''asctime'', ''created'', ''exc_info'', ''exc_text'', ''filename'', ''funcName'',
     ''levelname'', ''levelno'', ''lineno'', ''message'', ''module'', ''msecs'', ''msg'', ''name'', ''pathname'', ''process'',
     ''processName'', ''relativeCreated'', ''stack_info'', ''thread'', ''threadName'', ''taskName'']"

definition is_caller_extra :: "string \<Rightarrow> bool" where
  "is_caller_extra k \<longleftrightarrow> k \<notin> set standard_log_attrs \<and> k \<noteq> ''request_id'' \<and> \<not> starts_with k ''_''"

definition update_all :: "(string \<times> jval) list \<Rightarrow> (string \<times> jval) list \<Rightarrow> (string \<times> jval) list" where
  "update_all kvs log = fold (\<lambda>(k, v). AList.update k v) kvs log"

definition opt_entry :: "string \<Rightarrow> string option \<Rightarrow> (string \<times> jval) list" where
  "opt_entry k x = (case x of None \<Rightarrow> [] | Some s \<Rightarrow> [(k, JStr s)])"

text \<open>\<open>JSONFormatter.format\<close>: the object, then the line.\<close>

definition json_entries :: "log_record \<Rightarrow> (string \<times> jval) list" where
  "json_entries r =
     (let request_id = get_or (lg_dict r) ''request_id'' JNull in
      update_all (opt_entry ''stack_info'' (lg_stack r))
      (update_all (opt_entry ''exception'' (lg_exception r))
      (update_all (filter (is_caller_extra \<circ> fst) (lg_dict r))
      (update_all (if j_truthy request_id \<and> request_id \<noteq> JStr ''-'' then [(''request_id'', request_id)] else [])
        [(''timestamp'', JStr (lg_time r)), (''level'', JStr (lg_level r)), (''logger'', JStr (lg_name r)),
         (''message'', JStr (lg_message r))]))))"

definition json_line :: "log_record \<Rightarrow> string" where
  "json_line r = json_dumps (JObj (json_entries r))"

text \<open>\<open>%-7s\<close> pads to seven characters; the standard formatter appends the exception and the stack on lines of their own.\<close>

definition ljust :: "nat \<Rightarrow> string \<Rightarrow> string" where
  "ljust n s = s @ replicate (n - length s) (CHR '' '')"

definition on_new_line :: "string option \<Rightarrow> string \<Rightarrow> string" where
  "on_new_line x s = (case x of None \<Rightarrow> s
     | Some t \<Rightarrow> s @ (if s \<noteq> [] \<and> List.last s = CHR 0x0A then t else CHR 0x0A # t))"

definition text_line :: "log_record \<Rightarrow> string" where
  "text_line r = on_new_line (lg_stack r) (on_new_line (lg_exception r) (lg_time r @ '' '' @ ljust 7 (lg_level r) @ '' [''
     @ (case get_or (lg_dict r) ''request_id'' JNull of JStr i \<Rightarrow> i | _ \<Rightarrow> []) @ ''] '' @ lg_name r @ '': '' @ lg_message r))"

definition py_upper :: "string \<Rightarrow> string" where
  "py_upper s = map (\<lambda>c. let n = of_char c :: nat in if 97 \<le> n \<and> n \<le> 122 then char_of (n - 32) else c) s"

text \<open>The root logger: its level, the formatter of its one handler, the filter on it, and the level of \<open>httpx\<close>.\<close>

record log_setup =
  ls_root_level :: string
  ls_handlers :: "(log_record \<Rightarrow> string) list"
  ls_httpx_level :: string

definition configure_logging :: "string \<Rightarrow> string \<Rightarrow> string \<Rightarrow> log_setup \<Rightarrow> log_setup" where
  "configure_logging log_format level level_httpx before = before\<lparr>ls_root_level := py_upper level,
     ls_handlers := [if log_format = ''json'' then json_line else text_line], ls_httpx_level := py_upper level_httpx\<rparr>"

text \<open>What a record is written as, when a request with this id is being served.\<close>

definition emit_record :: "log_setup \<Rightarrow> string option \<Rightarrow> log_record \<Rightarrow> string list" where
  "emit_record cfg current r = map (\<lambda>fmt. fmt (filter_request_id current r)) (ls_handlers cfg)"

section \<open>The log of the MCP server\<close>

definition mcp_json_entries :: "log_record \<Rightarrow> (string \<times> jval) list" where
  "mcp_json_entries r =
     update_all (opt_entry ''exc_info'' (lg_exception r))
     (update_all (filter (\<lambda>(k, v). k \<notin> set (''message'' # ''asctime'' # log_record_attrs) \<and> \<not> starts_with k ''_'') (lg_dict r))
       [(''timestamp'', JStr (lg_time r)), (''level'', JStr (lg_level r)), (''logger'', JStr (lg_name r)),
        (''message'', JStr (lg_message r))])"

definition mcp_json_line :: "log_record \<Rightarrow> string" where
  "mcp_json_line r = json_dumps (JObj (mcp_json_entries r))"

definition bracket_keys :: "string list" where
  "bracket_keys = [''tool'', ''request_id'', ''outcome'', ''duration_ms'']"

text \<open>\<open>str\<close> of a value is a parameter.\<close>

definition mcp_text_line :: "(jval \<Rightarrow> string) \<Rightarrow> log_record \<Rightarrow> string" where
  "mcp_text_line str r =
     (let extras = concat (map (\<lambda>k. case map_of (lg_dict r) k of None \<Rightarrow> [] | Some v \<Rightarrow> [k @ ''='' @ str v]) bracket_keys) in
      lg_time r @ '' '' @ ljust 7 (lg_level r) @ '' '' @ lg_name r @ '': '' @ lg_message r
      @ (case extras of [] \<Rightarrow> [] | x # xs \<Rightarrow> '' ['' @ x @ concat (map (\<lambda>y. '' '' @ y) xs) @ '']'')
      @ (case lg_exception r of None \<Rightarrow> [] | Some x \<Rightarrow> CHR 0x0A # x))"

definition mcp_configure_logging :: "(jval \<Rightarrow> string) \<Rightarrow> string \<Rightarrow> string \<Rightarrow> log_setup \<Rightarrow> log_setup" where
  "mcp_configure_logging str format level before = before\<lparr>ls_root_level := level,
     ls_handlers := [if format = ''json'' then mcp_json_line else mcp_text_line str]\<rparr>"

section \<open>Reading a line back\<close>

text \<open>A reader of what \<open>json.dumps\<close> writes; the first argument bounds its depth.\<close>

definition hex_value :: "char \<Rightarrow> nat option" where
  "hex_value c = (let n = of_char c :: nat in
     if 48 \<le> n \<and> n \<le> 57 then Some (n - 48) else if 97 \<le> n \<and> n \<le> 102 then Some (n - 87) else None)"

definition simple_escape :: "char \<Rightarrow> char option" where
  "simple_escape c = map_of [(CHR 0x22, CHR 0x22), (CHR 0x5C, CHR 0x5C), (CHR ''n'', CHR 0x0A), (CHR ''r'', CHR 0x0D),
     (CHR ''t'', CHR 0x09), (CHR ''f'', CHR 0x0C), (CHR ''b'', CHR 0x08)] c"

fun read_string :: "string \<Rightarrow> (string \<times> string) option" where
  "read_string [] = None"
| "read_string (c # s) =
     (if c = CHR 0x22 then Some ([], s)
      else if c = CHR 0x5C then (case s of
          e # t \<Rightarrow> (case simple_escape e of
              Some x \<Rightarrow> map_option (apfst ((#) x)) (read_string t)
            | None \<Rightarrow> (case t of
                y # z \<Rightarrow> (case z of a # u \<Rightarrow> (case u of b # v \<Rightarrow> (case v of d # rest \<Rightarrow>
                  (case (hex_value b, hex_value d) of
                    (Some m, Some n) \<Rightarrow> if e = CHR ''u'' \<and> y = CHR ''0'' \<and> a = CHR ''0''
                      then map_option (apfst ((#) (char_of (16 * m + n)))) (read_string rest) else None
                  | _ \<Rightarrow> None) | [] \<Rightarrow> None) | [] \<Rightarrow> None) | [] \<Rightarrow> None)
              | [] \<Rightarrow> None))
        | [] \<Rightarrow> None)
      else map_option (apfst ((#) c)) (read_string s))"

lemma simple_escapes [simp]:
  "simple_escape (CHR 0x22) = Some (CHR 0x22)" "simple_escape (CHR 0x5C) = Some (CHR 0x5C)"
  "simple_escape (CHR ''n'') = Some (CHR 0x0A)" "simple_escape (CHR ''r'') = Some (CHR 0x0D)"
  "simple_escape (CHR ''t'') = Some (CHR 0x09)" "simple_escape (CHR ''f'') = Some (CHR 0x0C)"
  "simple_escape (CHR ''b'') = Some (CHR 0x08)" "simple_escape (CHR ''u'') = None"
  by (simp_all add: simple_escape_def)

lemma hex_value_lower: "n < 16 \<Longrightarrow> hex_value (hex_lower n) = Some n"
  by (auto simp: hex_value_def hex_lower_def)

lemma char_eq_iff: "c = d \<longleftrightarrow> (of_char c :: nat) = of_char d"
  by simp

lemma read_json_char: "read_string (json_char c @ s) = map_option (apfst ((#) c)) (read_string s)"
proof -
  let ?n = "of_char c :: nat"
  have n: "?n < 256" by (rule nat_of_char_less_256)
  have c: "c = char_of ?n" by simp
  consider "?n \<in> {34, 92, 10, 13, 9, 12, 8}" | "32 \<le> ?n" "?n \<le> 126" "?n \<noteq> 34" "?n \<noteq> 92"
    | "?n \<notin> {34, 92, 10, 13, 9, 12, 8}" "\<not> (32 \<le> ?n \<and> ?n \<le> 126)"
    by fastforce
  then show ?thesis
  proof cases
    case 1
    then have "c \<in> {CHR 0x22, CHR 0x5C, CHR 0x0A, CHR 0x0D, CHR 0x09, CHR 0x0C, CHR 0x08}"
      unfolding insert_iff char_eq_iff by simp
    then show ?thesis by (elim insertE) (simp_all add: json_char_def)
  next
    case 2
    then have "c \<noteq> CHR 0x22" "c \<noteq> CHR 0x5C" by (auto simp: char_eq_iff)
    then show ?thesis using 2 by (simp add: json_char_def Let_def)
  next
    case 3
    then have "c \<noteq> CHR 0x22" "c \<noteq> CHR 0x5C" by (auto simp: char_eq_iff)
    moreover have "?n div 16 < 16" using n by (simp add: less_mult_imp_div_less)
    moreover have "char_of (16 * (?n div 16) + ?n mod 16) = c" by simp
    moreover have "hex_value (hex_lower m) = Some m" if "m < 16" for m using that by (rule hex_value_lower)
    ultimately show ?thesis using 3 by (simp add: json_char_def Let_def)
  qed
qed

lemma read_json_string: "read_string (concat (map json_char s) @ CHR 0x22 # rest) = Some (s, rest)"
  by (induction s) (simp_all add: read_json_char)

definition is_decimal :: "char \<Rightarrow> bool" where
  "is_decimal c \<longleftrightarrow> 48 \<le> (of_char c :: nat) \<and> (of_char c :: nat) \<le> 57"

definition read_int :: "string \<Rightarrow> (jval \<times> string) option" where
  "read_int s = (let neg = (take 1 s = ''-''); t = (if neg then drop 1 s else s); ds = takeWhile is_decimal t in
     if ds = [] then None
     else Some (JInt (if neg then - int (read_nat_acc 0 ds) else int (read_nat_acc 0 ds)), dropWhile is_decimal t))"

fun read_value :: "nat \<Rightarrow> string \<Rightarrow> (jval \<times> string) option"
  and read_items :: "nat \<Rightarrow> string \<Rightarrow> (jval list \<times> string) option"
  and read_members :: "nat \<Rightarrow> string \<Rightarrow> ((string \<times> jval) list \<times> string) option" where
  "read_value 0 s = None"
| "read_value (Suc n) s =
     (if take 1 s = [CHR 0x22] then map_option (apfst JStr) (read_string (drop 1 s))
      else if take 2 s = ''[]'' then Some (JList [], drop 2 s)
      else if take 1 s = ''['' then map_option (apfst JList) (read_items n (drop 1 s))
      else if take 2 s = ''{}'' then Some (JObj [], drop 2 s)
      else if take 1 s = ''{'' then map_option (apfst JObj) (read_members n (drop 1 s))
      else if take 4 s = ''null'' then Some (JNull, drop 4 s)
      else if take 4 s = ''true'' then Some (JBool True, drop 4 s)
      else if take 5 s = ''false'' then Some (JBool False, drop 5 s)
      else read_int s)"
| "read_items 0 s = None"
| "read_items (Suc n) s = (case read_value n s of None \<Rightarrow> None | Some (v, t) \<Rightarrow>
     if take 1 t = '']'' then Some ([v], drop 1 t)
     else if take 2 t = '', '' then map_option (apfst ((#) v)) (read_items n (drop 2 t)) else None)"
| "read_members 0 s = None"
| "read_members (Suc n) s =
     (if take 1 s \<noteq> [CHR 0x22] then None else case read_string (drop 1 s) of None \<Rightarrow> None | Some (k, r) \<Rightarrow>
      if take 2 r \<noteq> '': '' then None else case read_value n (drop 2 r) of None \<Rightarrow> None | Some (v, t) \<Rightarrow>
      if take 1 t = ''}'' then Some ([(k, v)], drop 1 t)
      else if take 2 t = '', '' then map_option (apfst ((#) (k, v))) (read_members n (drop 2 t)) else None)"

lemma digit_char_decimal: "n < 10 \<Longrightarrow> is_decimal (digit_char n)"
  by (simp add: is_decimal_def digit_char_def)

lemma show_nat_decimal: "list_all is_decimal (show_nat n) \<and> show_nat n \<noteq> []"
proof (induction n rule: show_nat.induct)
  case (1 n)
  then show ?case by (cases "n < 10") (simp_all add: show_nat.simps [of n] digit_char_decimal)
qed

definition ends_number :: "string \<Rightarrow> bool" where
  "ends_number rest \<longleftrightarrow> rest = [] \<or> \<not> is_decimal (hd rest)"

lemma span_decimal:
  assumes "list_all is_decimal ds" "ends_number rest"
  shows "takeWhile is_decimal (ds @ rest) = ds" "dropWhile is_decimal (ds @ rest) = rest"
proof -
  have "takeWhile is_decimal rest = []" "dropWhile is_decimal rest = rest"
    using assms(2) by (cases rest; simp add: ends_number_def)+
  then show "takeWhile is_decimal (ds @ rest) = ds" "dropWhile is_decimal (ds @ rest) = rest"
    using assms(1) by (simp_all add: list_all_iff)
qed

lemma read_show_int: "ends_number rest \<Longrightarrow> read_int (show_int i @ rest) = Some (JInt i, rest)"
proof -
  assume rest: "ends_number rest"
  have no_sign: "take 1 (show_nat n @ rest) \<noteq> ''-''" for n
    using show_nat_decimal [of n] by (cases "show_nat n") (auto simp: is_decimal_def)
  show ?thesis
    using show_nat_decimal span_decimal [OF _ rest] no_sign
    by (auto simp: read_int_def show_int_def Let_def read_show_nat)
qed

lemma show_int_head: "\<exists>c cs. show_int i = c # cs \<and> (c = CHR ''-'' \<or> is_decimal c)"
  using show_nat_decimal by (auto simp: show_int_def neq_Nil_conv) (metis list.pred_inject(2) list.exhaust)

lemma comma_joined_simps [simp]:
  "comma_joined [] = []" "comma_joined (y # ys) = y @ concat (map (\<lambda>x. '', '' @ x) ys)"
  unfolding comma_joined_def list.case by (rule refl)+

lemma ends_number_simps [simp]: "ends_number []" "ends_number (CHR '','' # s)"
  "ends_number (CHR '']'' # s)" "ends_number (CHR ''}'' # s)"
  by (simp_all add: ends_number_def is_decimal_def)

definition reads_back :: "jval \<Rightarrow> bool" where
  "reads_back v \<longleftrightarrow> (\<forall>n rest. 2 * size v < n \<longrightarrow> ends_number rest \<longrightarrow> read_value n (json_dumps v @ rest) = Some (v, rest))"

lemma reads_backD: "reads_back v \<Longrightarrow> 2 * size v < n \<Longrightarrow> ends_number rest \<Longrightarrow> read_value n (json_dumps v @ rest) = Some (v, rest)"
  by (simp add: reads_back_def)

lemma read_items_back:
  assumes "\<And>u. u \<in> set (v # vs) \<Longrightarrow> reads_back u" "2 * size_list size (v # vs) < n"
  shows "read_items n (json_dumps v @ concat (map (\<lambda>x. '', '' @ json_dumps x) vs) @ CHR '']'' # rest) = Some (v # vs, rest)"
  using assms
proof (induction vs arbitrary: v n)
  case Nil
  then obtain m where "n = Suc m" "2 * size v < m" by (cases n) auto
  with Nil(1) [of v] show ?case by (simp add: reads_backD)
next
  case (Cons x vs)
  then obtain m where m: "n = Suc m" "2 * size v < m" "2 * size_list size (x # vs) < m" by (cases n) auto
  with Cons.IH [of x m] Cons.prems(1) show ?case by (simp add: reads_backD)
qed

lemma read_members_back:
  assumes "\<And>k w. (k, w) \<in> set ((j, v) # kvs) \<Longrightarrow> reads_back w"
    "2 * size_list (size_prod (\<lambda>_. 0) size) ((j, v) # kvs) < n"
  shows "read_members n ((json_string j @ '': '' @ json_dumps v)
      @ concat (map (\<lambda>x. '', '' @ (case x of (k, w) \<Rightarrow> json_string k @ '': '' @ json_dumps w)) kvs) @ CHR ''}'' # rest)
    = Some ((j, v) # kvs, rest)"
  using assms
proof (induction kvs arbitrary: j v n)
  case Nil
  then obtain m where "n = Suc m" "2 * size v < m" by (cases n) auto
  with Nil(1) [of j v] show ?case by (simp add: reads_backD json_string_def read_json_string)
next
  case (Cons x kvs)
  obtain k w where x: "x = (k, w)" by (cases x)
  with Cons.prems(2) obtain m where m: "n = Suc m" "2 * size v < m"
      "2 * size_list (size_prod (\<lambda>_. 0) size) ((k, w) # kvs) < m" by (cases n) auto
  have "reads_back v" using Cons.prems(1) [of j v] by simp
  moreover have "reads_back u" if "(i, u) \<in> set ((k, w) # kvs)" for i u using Cons.prems(1) [of i u] that x by auto
  note Cons.IH [OF this m(3)]
  ultimately show ?case
    using m(2) by (simp add: x m(1) reads_backD json_string_def read_json_string)
qed

lemma json_dumps_head: "\<exists>c cs. json_dumps v = c # cs \<and> c \<noteq> CHR '']''"
proof (cases v)
  case (JInt i)
  obtain c cs where "show_int i = c # cs" "c = CHR ''-'' \<or> is_decimal c" using show_int_head by blast
  moreover from this(2) have "c \<noteq> CHR '']''" by (auto simp: is_decimal_def)
  ultimately show ?thesis by (simp add: JInt)
qed (simp_all add: json_string_def)

lemma reads_back: "reads_back v"
proof (induction v)
  case (JInt i)
  obtain c cs where c: "show_int i = c # cs" "c = CHR ''-'' \<or> is_decimal c" using show_int_head by blast
  then have "c \<notin> {CHR 0x22, CHR ''['', CHR ''{'', CHR ''n'', CHR ''t'', CHR ''f''}" by (auto simp: is_decimal_def)
  then show ?case
    using read_show_int [of _ i] by (auto simp: reads_back_def c Suc_le_eq gr0_conv_Suc)
next
  case (JList vs)
  show ?case
  proof (cases vs)
    case Nil
    then show ?thesis by (auto simp: reads_back_def gr0_conv_Suc less_iff_Suc_add)
  next
    case (Cons v ws)
    obtain c cs where c: "json_dumps v = c # cs" "c \<noteq> CHR '']''" using json_dumps_head by blast
    have each: "reads_back u" if "u \<in> set (v # ws)" for u using JList [of u] Cons that by simp
    have "read_value n (json_dumps (JList vs) @ rest) = Some (JList vs, rest)" if n: "2 * size (JList vs) < n" for n rest
    proof -
      obtain m where m: "n = Suc m" "2 * size_list size (v # ws) < m" using n Cons by (cases n) auto
      have "read_items m (json_dumps v @ concat (map (\<lambda>x. '', '' @ json_dumps x) ws) @ CHR '']'' # rest) = Some (v # ws, rest)"
        by (rule read_items_back) (erule each, rule m(2))
      then show ?thesis using c by (simp add: m(1) Cons comp_def)
    qed
    then show ?thesis by (simp add: reads_back_def)
  qed
next
  case (JObj kvs)
  show ?case
  proof (cases kvs)
    case Nil
    then show ?thesis by (auto simp: reads_back_def gr0_conv_Suc less_iff_Suc_add)
  next
    case (Cons x ws)
    obtain k v where x: "x = (k, v)" by (cases x)
    have each: "reads_back u" if "(i, u) \<in> set ((k, v) # ws)" for i u
      using JObj [of "(i, u)" u] Cons x that by auto
    have "read_value n (json_dumps (JObj kvs) @ rest) = Some (JObj kvs, rest)" if n: "2 * size (JObj kvs) < n" for n rest
    proof -
      obtain m where m: "n = Suc m" "2 * size_list (size_prod (\<lambda>_. 0) size) ((k, v) # ws) < m"
        using n Cons x by (cases n) auto
      have "read_members m ((json_string k @ '': '' @ json_dumps v)
          @ concat (map (\<lambda>x. '', '' @ (case x of (k, w) \<Rightarrow> json_string k @ '': '' @ json_dumps w)) ws) @ CHR ''}'' # rest)
        = Some ((k, v) # ws, rest)"
        by (rule read_members_back) (erule each, rule m(2))
      then show ?thesis by (simp add: m(1) Cons x comp_def json_string_def)
    qed
    then show ?thesis by (simp add: reads_back_def)
  qed
qed (auto simp: reads_back_def json_string_def read_json_string gr0_conv_Suc less_iff_Suc_add)

section \<open>Properties\<close>

definition printable :: "string \<Rightarrow> bool" where
  "printable s \<longleftrightarrow> list_all (\<lambda>c. 32 \<le> (of_char c :: nat) \<and> (of_char c :: nat) \<le> 126) s"

lemma printable_simps [simp]: "printable []" "printable (c # s) \<longleftrightarrow> 32 \<le> (of_char c :: nat) \<and> (of_char c :: nat) \<le> 126 \<and> printable s"
  "printable (s @ t) \<longleftrightarrow> printable s \<and> printable t" "printable (concat ss) \<longleftrightarrow> list_all printable ss"
  by (auto simp: printable_def list_all_iff)

lemma printable_hex: "n < 16 \<Longrightarrow> printable [hex_lower n]"
  by (auto simp: hex_lower_def)

lemma printable_json_char: "printable (json_char c)"
proof -
  have "(of_char c :: nat) div 16 < 16" by (simp add: less_mult_imp_div_less)
  then have "printable [hex_lower (of_char c div 16)]" "printable [hex_lower (of_char c mod 16)]"
    by (simp_all only: printable_hex mod_less_divisor)
  then show ?thesis by (simp add: json_char_def Let_def)
qed

lemma printable_json_string: "printable (json_string s)"
  by (simp add: json_string_def list_all_iff printable_json_char)

lemma printable_comma_joined: "list_all printable xs \<Longrightarrow> printable (comma_joined xs)"
  by (cases xs) (auto simp: comma_joined_def list_all_iff)

lemma printable_show_int: "printable (show_int i)"
proof -
  have "printable (show_nat n)" for n
    using show_nat_decimal [of n] by (auto simp: printable_def is_decimal_def list_all_iff)
  then show ?thesis by (simp add: show_int_def)
qed

lemma printable_json_dumps: "printable (json_dumps v)"
  by (induction v)
    (auto simp: printable_json_string printable_show_int list_all_iff intro!: printable_comma_joined)

lemma update_all_other: "k \<notin> fst ` set kvs \<Longrightarrow> map_of (update_all kvs log) k = map_of log k"
  unfolding update_all_def by (induction kvs arbitrary: log) (auto simp: update_conv' split: prod.splits)

lemma update_conv_same: "map_of (AList.update k v kvs) k = Some v"
  by (simp add: update_conv')

text \<open>
  Property C32. The JSON log cannot be forged. Whatever a record contains, the line written for it consists of
  printable ASCII characters, so that one record is one line; reading the line gives back exactly the
  entries of the record; and its \<open>request_id\<close> is that of the request being served, whatever the caller passed, and is absent
  outside of requests.
\<close>

theorem json_log_reads_back:
  "printable (json_line r)
   \<and> read_value (2 * size (JObj (json_entries r)) + 1) (json_line r) = Some (JObj (json_entries r), [])
   \<and> map_of (json_entries (filter_request_id current r)) ''request_id'' = (case current of None \<Rightarrow> None
       | Some i \<Rightarrow> if i \<in> {[], ''-''} then None else Some (JStr i))"
proof (intro conjI)
  show "printable (json_line r)" unfolding json_line_def by (rule printable_json_dumps)
  show "read_value (2 * size (JObj (json_entries r)) + 1) (json_line r) = Some (JObj (json_entries r), [])"
    using reads_backD [OF reads_back, of "JObj (json_entries r)" "2 * size (JObj (json_entries r)) + 1" "[]"]
    unfolding json_line_def by simp
  have outer: "''request_id'' \<notin> fst ` set (opt_entry ''stack_info'' x)" "''request_id'' \<notin> fst ` set (opt_entry ''exception'' y)"
      "''request_id'' \<notin> fst ` set (filter (is_caller_extra \<circ> fst) kvs)" for x y kvs
    by (auto simp: opt_entry_def is_caller_extra_def split: option.splits)
  have id: "get_or (lg_dict (filter_request_id current r)) ''request_id'' JNull
      = JStr (case current of None \<Rightarrow> ''-'' | Some i \<Rightarrow> if i = [] then ''-'' else i)"
    by (simp add: filter_request_id_def get_or_def update_conv_same)
  show "map_of (json_entries (filter_request_id current r)) ''request_id'' = (case current of None \<Rightarrow> None
       | Some i \<Rightarrow> if i \<in> {[], ''-''} then None else Some (JStr i))"
    unfolding json_entries_def Let_def id update_all_other [OF outer(1)] update_all_other [OF outer(2)]
      update_all_other [OF outer(3)]
    by (auto simp: update_all_def update_conv_same split: option.split)
qed

end
