(* ===== verification/Pool_Provisioner.thy ===== *)
theory Pool_Provisioner
  imports Task_Tracker Logging "HOL-Library.Char_ord" "HOL-Library.List_Lexorder"
begin

text \<open>
  \<open>broker/app/workers/pool_provisioner.py\<close>: keeping warm spares. Every tick picks the
  non-persistent pool with the largest gap between its spares and \<open>min_spare\<close> that still has
  room, and provisions one desktop there. Names sort by character code.
\<close>

section \<open>Selection\<close>

definition available_count :: "uuid \<Rightarrow> db \<Rightarrow> int" where
  "available_count pid db =
     int (length (filter (\<lambda>d. d_pool_id d = pid \<and> d_status d = D_AVAILABLE) (desktops db)))"

definition total_count :: "uuid \<Rightarrow> db \<Rightarrow> int" where
  "total_count pid db =
     int (length (filter (\<lambda>d. d_pool_id d = pid \<and> d_status d \<notin> {D_DELETING, D_ERROR}) (desktops db)))"

definition pool_capacity :: "uuid \<Rightarrow> db \<Rightarrow> int \<times> int" where
  "pool_capacity pid db = (available_count pid db, total_count pid db)"

definition candidates :: "db \<Rightarrow> (pool \<times> vdi_template \<times> cluster) list" where
  "candidates db = sort_key (\<lambda>(p, _). p_name p) (concat (map (\<lambda>p.
     if p_pool_type p \<noteq> NONPERSISTENT \<or> p_status p \<noteq> P_ACTIVE then []
     else (case get_template_row (p_template_id p) db of None \<Rightarrow> [] | Some t \<Rightarrow>
       (case get_cluster_row (p_cluster_id p) db of None \<Rightarrow> [] | Some c \<Rightarrow>
          if c_status c = C_ACTIVE then [(p, t, c)] else []))) (pools db)))"

text \<open>What a pool can take: the gap to \<open>min_spare\<close> bounded by the room to \<open>max_size\<close>.\<close>

definition actionable_gap :: "db \<Rightarrow> pool \<Rightarrow> int" where
  "actionable_gap db p = (case pool_capacity (p_id p) db of (available, n) \<Rightarrow>
     let gap = p_min_spare p - available; room = p_max_size p - n in
     if gap \<le> 0 \<or> room \<le> 0 then 0 else min gap room)"

fun pick_best ::
    "db \<Rightarrow> (pool \<times> vdi_template \<times> cluster) list \<Rightarrow> (pool \<times> vdi_template \<times> cluster) option \<Rightarrow> int \<Rightarrow>
     (pool \<times> vdi_template \<times> cluster) option" where
  "pick_best db [] best best_gap = best"
| "pick_best db (x # xs) best best_gap =
     (if actionable_gap db (fst x) > best_gap
      then pick_best db xs (Some x) (actionable_gap db (fst x))
      else pick_best db xs best best_gap)"

definition pick_neediest_pool :: "db \<Rightarrow> (pool \<times> vdi_template \<times> cluster) option" where
  "pick_neediest_pool db = pick_best db (candidates db) None 0"

section \<open>The tick\<close>

text \<open>The status of the desktop that was built, unless its pool or template is gone.\<close>

definition provision_spare ::
    "'w env \<Rightarrow> 'w provider \<Rightarrow> uuid \<Rightarrow> uuid \<Rightarrow> ('w, desktop_status option) prog" where
  "provision_spare E P pid tid =
     in_session (bnd (query (get_pool_row pid)) (\<lambda>pr.
       case pr of None \<Rightarrow> ret None | Some p \<Rightarrow>
       bnd (query (get_template_row tid)) (\<lambda>tr.
       case tr of None \<Rightarrow> ret None | Some t \<Rightarrow>
       bnd (provision_desktop E P p t None None) (\<lambda>i.
       query (\<lambda>db. map_option d_status (get_desktop_row i db))))))"

text \<open>
  \<open>info\<close>: whether the level \<open>INFO\<close> is enabled. The extras of the last log call matter, since one of
  them is a name that log records have already.
\<close>

definition pool_provisioner_tick ::
    "'w env \<Rightarrow> bool \<Rightarrow> (uuid \<Rightarrow> 'w provider option) \<Rightarrow> ('w, unit) prog" where
  "pool_provisioner_tick E info providers =
     bnd (in_session (query pick_neediest_pool)) (\<lambda>target.
     case target of None \<Rightarrow> ret () | Some (p, t, c) \<Rightarrow>
     (case providers (c_id c) of None \<Rightarrow> ret () | Some P \<Rightarrow>
      bnd (catching (\<lambda>e. is_pool_inactive e \<or> is_range_exhausted e)
        (provision_spare E P (p_id p) (t_id t)) (\<lambda>_. ret None)) (\<lambda>status.
      case status of None \<Rightarrow> ret () | Some st \<Rightarrow>
        if st = D_ERROR then log_call True [''pool'', ''desktop_id'', ''vmid'', ''error'']
        else log_call info [''pool'', ''desktop_id'', ''vmid'', ''name''])))"

context db_invariant begin

lemma pres_provision_spare: "pres (both I) (provision_spare E P pid tid)"
  unfolding provision_spare_def
  by (intro pres_session_pool_get pres_intros with_pool.pres_prims pres_provision_with_pool)

lemma pres_pool_provisioner_tick: "pres (both I) (pool_provisioner_tick E info providers)"
  unfolding pool_provisioner_tick_def
  by (intro pres_intros pres_prims pres_provision_spare)

end

section \<open>The selected pool\<close>

lemma pick_best_props:
  assumes "pick_best db xs best g = Some x"
    and "best = None \<and> g = 0 \<or> (\<exists>b. best = Some b \<and> g = actionable_gap db (fst b) \<and> 0 < g)"
  shows "(x \<in> set xs \<or> best = Some x) \<and> 0 < actionable_gap db (fst x) \<and> g \<le> actionable_gap db (fst x)
    \<and> (\<forall>y\<in>set xs. actionable_gap db (fst y) \<le> actionable_gap db (fst x))"
  using assms
proof (induction xs arbitrary: best g)
  case (Cons a xs)
  show ?case
  proof (cases "g < actionable_gap db (fst a)")
    case True
    with Cons.prems have "0 < actionable_gap db (fst a)" by auto
    with Cons.IH [of "Some a" "actionable_gap db (fst a)"] Cons.prems(1) True show ?thesis by auto
  next
    case False
    with Cons.IH [of best g] Cons.prems show ?thesis by auto
  qed
qed auto

lemma pick_best_None:
  "pick_best db xs best g = None \<Longrightarrow> best = None \<and> (\<forall>y\<in>set xs. actionable_gap db (fst y) \<le> g)"
  by (induction xs arbitrary: best g) (auto split: if_splits)

lemma actionable_gap_pos:
  "0 < actionable_gap db p \<longleftrightarrow>
     available_count (p_id p) db < p_min_spare p \<and> total_count (p_id p) db < p_max_size p"
  by (auto simp: actionable_gap_def pool_capacity_def Let_def)

lemma set_candidates:
  "(p, t, c) \<in> set (candidates db) \<longleftrightarrow> p \<in> set (pools db) \<and> p_pool_type p = NONPERSISTENT
     \<and> p_status p = P_ACTIVE \<and> get_template_row (p_template_id p) db = Some t
     \<and> get_cluster_row (p_cluster_id p) db = Some c \<and> c_status c = C_ACTIVE"
  by (auto simp: candidates_def split: if_splits option.splits)

section \<open>One new row per build\<close>

text \<open>The rows before, and one more at the end: the desktop being built.\<close>

definition one_more :: "desktop list \<Rightarrow> uuid \<Rightarrow> uuid \<Rightarrow> db \<Rightarrow> bool" where
  "one_more ds i pid db \<longleftrightarrow> (\<exists>x. desktops db = ds @ [x] \<and> d_id x = i \<and> d_pool_id x = pid)
     \<and> (\<forall>d\<in>set ds. d_id d \<noteq> i)"

lemma one_more_patch:
  assumes "one_more ds i pid db" "\<And>d. d_id (f d) = d_id d \<and> d_pool_id (f d) = d_pool_id d"
  shows "one_more ds i pid (patch_desktop i f db)"
proof -
  have "map (\<lambda>d. if d_id d = i then f d else d) ds = ds"
    using assms(1) by (intro map_idI) (auto simp: one_more_def)
  with assms show ?thesis by (auto simp: one_more_def patch_desktop_def)
qed

lemma safe_catching_any:
  "safe J (\<lambda>_. True) m \<Longrightarrow> (\<And>e. safe J (\<lambda>_. True) (h e)) \<Longrightarrow> safe J (\<lambda>_. True) (catching p m h)"
  unfolding safe_def wp_catching by (auto elim!: wp_mono split: if_splits)

text \<open>Any predicate that identity-keeping writes of the row keep survives the whole build.\<close>

lemma safe_build:
  assumes w: "\<And>f a b t. (\<And>d. d_id (f d) = d_id d \<and> d_pool_id (f d) = d_pool_id d) \<Longrightarrow> K a b \<Longrightarrow>
      K a (patch_desktop i (\<lambda>d. (f d)\<lparr>d_updated_at := t\<rparr>) b)"
    and c: "\<And>a b. K a b \<Longrightarrow> K b b"
  shows "safe (on_db K) (\<lambda>_. True) (catching provision_caught
             (andthen (build_vm E P p t user i vmid name node) (mark_built E p user i))
             (mark_build_failed E i))"
  unfolding build_vm_def clone_and_configure_def dispatch_clone_def start_and_wait_def take_baseline_def
    wait_task_def mark_built_def mark_build_failed_def Let_def
  by (intro safe_catching_any safe_andthen safe_when safe_bnd safe_prov safe_sleep safe_commit safe_ret
      safe_now safe_wait_for_agent_any safe_handle_any safe_set_desktop w answers_any)
    (auto intro: c)

lemma provision_adds_one:
  assumes "work s = committed s"
  shows "wp (provision_desktop E P p t user None)
    (\<lambda>_ r. \<exists>i. desktops (committed r) = desktops (committed s) \<or> one_more (desktops (committed s)) i (p_id p) (committed r))
    (\<lambda>_ r. \<exists>i. desktops (committed r) = desktops (committed s) \<or> one_more (desktops (committed s)) i (p_id p) (committed r)) s"
proof (cases "p_status p = P_ACTIVE \<and> (\<exists>x s'. reserve_desktop E p t user None s = (Inr x, s'))")
  case False
  then show ?thesis
    by (cases "reserve_desktop E p t user None s")
      (auto simp: provision_desktop_def wp_def exec_simps reserve_desktop_def allocate_vmid_def
        split: prod.splits sum.splits option.splits if_splits)
next
  case True
  then obtain i vmid name node s' where
    active: "p_status p = P_ACTIVE" and run: "reserve_desktop E p t user None s = (Inr (i, vmid, name, node), s')"
    by (metis prod_cases4)
  then obtain w v where u: "work s' = add_desktop (new_desktop p t user v i (e_now E w)) (work s)"
      "desktop_insert_ok (new_desktop p t user v i (e_now E w)) (work s)" "committed s' = committed s"
    by (auto simp: reserve_desktop_def exec_simps allocate_vmid_def split: prod.splits if_splits option.splits)
  let ?ds = "desktops (committed s)"
  let ?K = "\<lambda>a b. (desktops a = ?ds \<or> one_more ?ds i (p_id p) a) \<and> one_more ?ds i (p_id p) b"
  have "d_id (new_desktop p t user v i (e_now E w)) = i" "d_pool_id (new_desktop p t user v i (e_now E w)) = p_id p"
    by (simp_all add: new_desktop_def)
  then have "on_db ?K s'"
    using u assms by (auto simp: on_db_def one_more_def desktop_insert_ok_def get_desktop_row_None)
  then have "wp (catching provision_caught
             (andthen (build_vm E P p t user i vmid name node) (mark_built E p user i))
             (mark_build_failed E i)) (\<lambda>_. on_db ?K) (\<lambda>e r. True \<and> on_db ?K r) s'"
    by (intro safeD [OF safe_build]) (auto intro: one_more_patch)
  then have "wp (catching provision_caught
             (andthen (build_vm E P p t user i vmid name node) (mark_built E p user i))
             (mark_build_failed E i)) (\<lambda>_ r. on_db ?K r)
      (\<lambda>_ r. \<exists>i. desktops (committed r) = ?ds \<or> one_more ?ds i (p_id p) (committed r)) s'"
    by (rule wp_mono) (auto simp: on_db_def)
  from provision_from_reserved [OF active run this] show ?thesis
    by (rule wp_mono) (auto simp: on_db_def)
qed

lemma total_count_one_more:
  assumes "one_more ds i pid db"
  shows "total_count q db \<le> int (length (filter (\<lambda>d. d_pool_id d = q \<and> d_status d \<notin> {D_DELETING, D_ERROR}) ds))
     + (if q = pid then 1 else 0)"
  using assms by (auto simp: one_more_def total_count_def)

lemma wp_query_const: "wp (query f) (\<lambda>_. Q) X = Q"
  by (rule ext) (simp add: wp_query)

lemma spare_adds_one:
  "\<exists>i. desktops (committed (snd (provision_spare E P pid tid s))) = desktops (committed s)
     \<or> one_more (desktops (committed s)) i pid (committed (snd (provision_spare E P pid tid s)))"
proof -
  let ?s = "s\<lparr>work := committed s\<rparr>"
  let ?Q = "\<lambda>r. \<exists>i. desktops (committed r) = desktops (committed s)
     \<or> one_more (desktops (committed s)) i pid (committed r)"
  have "wp (provision_desktop E P p t None None) (\<lambda>_. ?Q) (\<lambda>_. ?Q) ?s" if "p_id p = pid" for p t
    using provision_adds_one [of ?s E P p t None] that by simp
  then have "wp (bnd (query (get_pool_row pid)) (\<lambda>pr.
       case pr of None \<Rightarrow> ret None | Some p \<Rightarrow>
       bnd (query (get_template_row tid)) (\<lambda>tr.
       case tr of None \<Rightarrow> ret None | Some t \<Rightarrow>
       bnd (provision_desktop E P p t None None) (\<lambda>i.
       query (\<lambda>db. map_option d_status (get_desktop_row i db)))))) (\<lambda>_. ?Q) (\<lambda>_. ?Q) ?s"
    by (auto simp: wp_bnd wp_query wp_query_const wp_ret wp_ret_fun split: option.splits dest: get_pool_rowD)
  then have "wp (provision_spare E P pid tid) (\<lambda>_. ?Q) (\<lambda>_. ?Q) s"
    by (simp add: provision_spare_def wp_in_session)
  then show ?thesis by (simp add: wp_snd)
qed

section \<open>Properties\<close>

text \<open>
  The provisioner worker picks a pool exactly when some active non-persistent
  pool on an active cluster has fewer spares than \<open>min_spare\<close> and room below \<open>max_size\<close>, and
  the pool it picks has the largest actionable gap of all candidates.
\<close>

theorem neediest_pool_is_maximal:
  "(case pick_neediest_pool db of
      None \<Rightarrow> \<not> (\<exists>p t c. (p, t, c) \<in> set (candidates db) \<and> available_count (p_id p) db < p_min_spare p
                 \<and> total_count (p_id p) db < p_max_size p)
    | Some (p, t, c) \<Rightarrow> p \<in> set (pools db) \<and> p_pool_type p = NONPERSISTENT \<and> p_status p = P_ACTIVE
        \<and> get_template_row (p_template_id p) db = Some t \<and> c_status c = C_ACTIVE
        \<and> available_count (p_id p) db < p_min_spare p \<and> total_count (p_id p) db < p_max_size p
        \<and> (\<forall>(q, u, k)\<in>set (candidates db). actionable_gap db q \<le> actionable_gap db p))"
proof (cases "pick_neediest_pool db")
  case None
  from pick_best_None [OF None [unfolded pick_neediest_pool_def]]
  have "\<not> 0 < actionable_gap db p" if "(p, t, c) \<in> set (candidates db)" for p t c
    using that by fastforce
  with None show ?thesis by (auto simp: actionable_gap_pos)
next
  case (Some x)
  obtain p t c where x: "x = (p, t, c)" by (cases x)
  from pick_best_props [OF Some [unfolded pick_neediest_pool_def]]
  have *: "x \<in> set (candidates db)" "0 < actionable_gap db p"
      "\<forall>y\<in>set (candidates db). actionable_gap db (fst y) \<le> actionable_gap db p"
    by (auto simp: x)
  from *(1) have "(p, t, c) \<in> set (candidates db)" by (simp add: x)
  then show ?thesis unfolding Some x using * by (auto simp: set_candidates actionable_gap_pos)
qed

theorem neediest_pool_is_maximal_witness:
  "\<not> (\<exists>p t c. (p, t, c) \<in> set (candidates example_db) \<and> available_count (p_id p) example_db < p_min_spare p
                 \<and> total_count (p_id p) example_db < p_max_size p)"
  using neediest_pool_is_maximal [of example_db]
  by (simp add: pick_neediest_pool_def candidates_def example_db_def get_template_row_def empty_db_def)

text \<open>
  Property C26. A provisioner tick never takes any pool above its \<open>max_size\<close>: the desktops that
  count (all but those in error or being deleted) stay within the limit in every pool that
  was within it, however the build ends.
\<close>

theorem provisioner_respects_max_size:
  assumes "keys_unique (committed s)" "q \<in> set (pools (committed s))"
    and "total_count (p_id q) (committed s) \<le> p_max_size q"
  shows "total_count (p_id q) (committed (snd (pool_provisioner_tick E info providers s))) \<le> p_max_size q"
proof (cases "pick_neediest_pool (committed s)")
  case None
  with assms(3) show ?thesis by (simp add: pool_provisioner_tick_def exec_simps)
next
  case (Some x)
  obtain p t c where x: "x = (p, t, c)" by (cases x)
  show ?thesis
  proof (cases "providers (c_id c)")
    case None
    with Some x assms(3) show ?thesis by (simp add: pool_provisioner_tick_def exec_simps)
  next
    case P: (Some P)
    let ?s = "s\<lparr>work := committed s\<rparr>"
    let ?ds = "desktops (committed s)"
    let ?r = "snd (provision_spare E P (p_id p) (t_id t) ?s)"
    have fin: "committed (snd (pool_provisioner_tick E info providers s)) = committed ?r"
      using Some x P by (auto simp: pool_provisioner_tick_def exec_simps split: prod.splits sum.splits option.splits)
    from pick_best_props [OF Some [unfolded pick_neediest_pool_def]]
    have "(p, t, c) \<in> set (candidates (committed s))" "0 < actionable_gap (committed s) p"
      by (auto simp: x)
    then have p: "p \<in> set (pools (committed s))" "total_count (p_id p) (committed s) < p_max_size p"
      by (auto simp: set_candidates actionable_gap_pos)
    have same: "q = p" if "p_id q = p_id p"
      using that assms(1,2) p(1) by (auto simp: keys_unique_def distinct_map dest: inj_onD)
    from spare_adds_one [of E P "p_id p" "t_id t" ?s]
    obtain i where "desktops (committed ?r) = ?ds \<or> one_more ?ds i (p_id p) (committed ?r)" by auto
    then show ?thesis
    proof
      assume "desktops (committed ?r) = ?ds"
      with assms(3) show ?thesis unfolding fin by (simp add: total_count_def)
    next
      assume "one_more ?ds i (p_id p) (committed ?r)"
      from total_count_one_more [OF this, of "p_id q"] same assms(3) p(2)
      show ?thesis unfolding fin by (auto simp: total_count_def split: if_splits)
    qed
  qed
qed

theorem provisioner_respects_max_size_witness:
  "total_count 1 (committed (snd (pool_provisioner_tick sim_env True sim_providers
      (sim_st (example_db\<lparr>desktops := []\<rparr>))))) \<le> 2"
proof -
  let ?s = "sim_st (example_db\<lparr>desktops := []\<rparr>)"
  have "keys_unique (committed ?s)" by (simp add: keys_unique_def example_db_def empty_db_def)
  moreover have "example_pool \<in> set (pools (committed ?s))" by (simp add: example_db_def)
  moreover have "total_count (p_id example_pool) (committed ?s) \<le> p_max_size example_pool"
    by (simp add: total_count_def)
  ultimately show ?thesis
    using provisioner_respects_max_size [of ?s example_pool sim_env True sim_providers] by simp
qed

text \<open>
  A tick that builds a spare is reported as failed. With the level \<open>INFO\<close> enabled, as it is by default, the tick
  raises a \<open>KeyError\<close> exactly when the build went through, since its last log call passes the
  extra \<open>name\<close>; the desktop is committed nevertheless. An exhausted or inactive pool, a pool that is
  gone and a desktop that ended in \<open>ERROR\<close> are no failures of the tick.
\<close>

theorem warm_spare_fails_tick:
  assumes "pick_neediest_pool (committed s) = Some (p, t, c)" "providers (c_id c) = Some P"
  shows "pool_provisioner_tick E info providers s =
    (case provision_spare E P (p_id p) (t_id t) (s\<lparr>work := committed s\<rparr>) of
       (Inl e, r) \<Rightarrow> (if is_pool_inactive e \<or> is_range_exhausted e then Inr () else Inl e, r)
     | (Inr status, r) \<Rightarrow> (if info \<and> status \<notin> {None, Some D_ERROR}
         then Inl (PyKeyError ''Attempt to overwrite name in LogRecord'') else Inr (), r))"
  using assms
  by (auto simp: pool_provisioner_tick_def exec_simps log_call_def clashing_extras_def log_record_attrs_def
      split: prod.splits sum.splits option.splits)

definition spare_db :: db where
  "spare_db = example_db\<lparr>desktops := [], templates := [example_template], clusters := [example_cluster]\<rparr>"

theorem warm_spare_fails_tick_witness:
  "fst (pool_provisioner_tick sim_env True (\<lambda>_. Some sim_provider) (sim_st spare_db)) =
    (case fst (provision_spare sim_env sim_provider 1 2 (sim_st spare_db)) of
       Inl e \<Rightarrow> if is_pool_inactive e \<or> is_range_exhausted e then Inr () else Inl e
     | Inr status \<Rightarrow> if status \<in> {None, Some D_ERROR} then Inr () else Inl (PyKeyError ''Attempt to overwrite name in LogRecord''))"
proof -
  have "pick_neediest_pool (committed (sim_st spare_db)) = Some (example_pool, example_template, example_cluster)"
    by code_simp
  note tick = warm_spare_fails_tick [OF this, of "\<lambda>_. Some sim_provider" sim_provider sim_env True]
  have same: "(sim_st spare_db)\<lparr>work := committed (sim_st spare_db)\<rparr> = sim_st spare_db" by simp
  have ids: "p_id example_pool = 1" "t_id example_template = 2"
    by (simp_all add: example_pool_def example_template_def)
  show ?thesis
    unfolding tick [OF refl] same ids
    by (cases "provision_spare sim_env sim_provider 1 2 (sim_st spare_db)") (auto split: sum.split)
qed

end
