(* ===== verification/Listing.thy ===== *)
theory Listing
  imports Records "HOL-Library.Char_ord" "HOL-Library.List_Lexorder" "HOL-Library.Multiset"
begin

text \<open>
  The list endpoints share one shape: an allow-list of sort keys, a direction, a limit and an
  offset (\<open>broker/app/schemas/common.py\<close>, \<open>PaginationParams\<close>). A sort key is a SQL value;
  PostgreSQL puts NULL after every value. Text is compared byte by byte (the C collation);
  rows with equal keys, whose order SQL leaves open, keep the order of the table.
\<close>

section \<open>SQL values as sort keys\<close>

datatype sort_val = SInt int | SStr string | SNull

fun sort_val_le :: "sort_val \<Rightarrow> sort_val \<Rightarrow> bool" where
  "sort_val_le (SInt a) (SInt b) = (a \<le> b)"
| "sort_val_le (SInt a) _ = True"
| "sort_val_le (SStr a) (SInt b) = False"
| "sort_val_le (SStr a) (SStr b) = (a \<le> b)"
| "sort_val_le (SStr a) SNull = True"
| "sort_val_le SNull v = (v = SNull)"

instantiation sort_val :: linorder
begin

definition less_eq_sort_val :: "sort_val \<Rightarrow> sort_val \<Rightarrow> bool" where
  "less_eq_sort_val = sort_val_le"

definition less_sort_val :: "sort_val \<Rightarrow> sort_val \<Rightarrow> bool" where
  "less_sort_val a b \<longleftrightarrow> sort_val_le a b \<and> \<not> sort_val_le b a"

instance
proof
  fix x y z :: sort_val
  show "x \<le> x"
    by (cases x) (simp_all add: less_eq_sort_val_def)
  show "x < y \<longleftrightarrow> x \<le> y \<and> \<not> y \<le> x"
    by (simp add: less_eq_sort_val_def less_sort_val_def)
  show "x \<le> y \<Longrightarrow> y \<le> x \<Longrightarrow> x = y"
    by (cases x; cases y) (simp_all add: less_eq_sort_val_def)
  show "x \<le> y \<Longrightarrow> y \<le> z \<Longrightarrow> x \<le> z"
    by (cases x; cases y; cases z) (simp_all add: less_eq_sort_val_def)
  show "x \<le> y \<or> y \<le> x"
    by (cases x; cases y) (auto simp: less_eq_sort_val_def)
qed

end

fun opt_int_key :: "int option \<Rightarrow> sort_val" where
  "opt_int_key None = SNull"
| "opt_int_key (Some i) = SInt i"

section \<open>Pages\<close>

datatype sort_order = ASC | DESC

record pagination =
  pg_limit :: nat
  pg_offset :: nat
  pg_sort :: "string option"
  pg_order :: sort_order

definition default_pagination :: pagination where
  "default_pagination = \<lparr>pg_limit = 50, pg_offset = 0, pg_sort = None, pg_order = ASC\<rparr>"

text \<open>\<open>Field(50, ge=1, le=200)\<close> and \<open>Field(0, ge=0)\<close>.\<close>

definition pagination_ok :: "pagination \<Rightarrow> bool" where
  "pagination_ok g \<longleftrightarrow> 1 \<le> pg_limit g \<and> pg_limit g \<le> 200"

definition order_rows :: "sort_order \<Rightarrow> ('r \<Rightarrow> sort_val) \<Rightarrow> 'r list \<Rightarrow> 'r list" where
  "order_rows dir key rows = (case dir of ASC \<Rightarrow> sort_key key rows | DESC \<Rightarrow> rev (sort_key key (rev rows)))"

definition page_of :: "nat \<Rightarrow> nat \<Rightarrow> 'r list \<Rightarrow> 'r list" where
  "page_of limit offset rows = take limit (drop offset rows)"

text \<open>\<open>columns\<close> is the allow-list with what each column holds.\<close>

definition list_rows ::
    "(string \<times> ('r \<Rightarrow> sort_val)) list \<Rightarrow> string \<Rightarrow> pagination \<Rightarrow> 'r list \<Rightarrow> exn + 'r list" where
  "list_rows columns default_sort g rows =
     (let k = (case pg_sort g of None \<Rightarrow> default_sort | Some [] \<Rightarrow> default_sort | Some x \<Rightarrow> x) in
      case map_of columns k of
        None \<Rightarrow> Inl (HTTPException 400 ''INVALID_REQUEST'')
      | Some key \<Rightarrow> Inr (page_of (pg_limit g) (pg_offset g) (order_rows (pg_order g) key rows)))"

lemma set_order_rows [simp]: "set (order_rows dir key rows) = set rows"
  by (cases dir) (simp_all add: order_rows_def)

lemma mset_order_rows [simp]: "mset (order_rows dir key rows) = mset rows"
  by (cases dir) (simp_all add: order_rows_def)

lemma length_order_rows [simp]: "length (order_rows dir key rows) = length rows"
  by (cases dir) (simp_all add: order_rows_def)

lemma order_rows_sorted:
  "sorted (map key (order_rows ASC key rows))" "sorted (rev (map key (order_rows DESC key rows)))"
  by (simp_all add: order_rows_def rev_map)

lemma page_of_subset: "set (page_of n k xs) \<subseteq> set xs"
  by (auto simp: page_of_def dest: in_set_takeD in_set_dropD)

lemma list_rows_subset:
  assumes "list_rows columns d g rows = Inr page" "r \<in> set page"
  shows "r \<in> set rows"
proof -
  from assms(1) obtain key where "page = page_of (pg_limit g) (pg_offset g) (order_rows (pg_order g) key rows)"
    by (auto simp: list_rows_def Let_def split: option.splits)
  with assms(2) show ?thesis using page_of_subset by fastforce
qed

lemma take_pages: "concat (map (\<lambda>k. page_of n (k * n) xs) [0..<m]) = take (m * n) xs"
proof (induction m)
  case (Suc m)
  have "take (m * n) xs @ take n (drop (m * n) xs) = take (n + m * n) xs"
    by (metis add.commute take_add)
  with Suc show ?case by (simp add: page_of_def)
qed simp

text \<open>
  Paging through a list endpoint shows every row exactly once: with pages of
  any positive size, the pages from the first to one that reaches the end, put together, are
  the rows in the requested order; and that order is a permutation of the table sorted by
  the column. A sort key outside the allow-list is refused.
\<close>

theorem paging_is_complete:
  assumes "map_of columns key = Some col" "key \<noteq> []" "length rows \<le> pages * limit"
  shows "\<exists>sorted_rows. mset sorted_rows = mset rows
    \<and> (if ord = ASC then sorted (map col sorted_rows) else sorted (rev (map col sorted_rows)))
    \<and> (\<forall>k. list_rows columns d \<lparr>pg_limit = limit, pg_offset = k * limit, pg_sort = Some key,
             pg_order = ord\<rparr> rows = Inr (page_of limit (k * limit) sorted_rows))
    \<and> concat (map (\<lambda>k. page_of limit (k * limit) sorted_rows) [0..<pages]) = sorted_rows
    \<and> (map_of columns other = None \<and> other \<noteq> [] \<longrightarrow>
         list_rows columns d (g\<lparr>pg_sort := Some other\<rparr>) rows = Inl (HTTPException 400 ''INVALID_REQUEST''))"
proof (intro exI conjI allI impI)
  let ?s = "order_rows ord col rows"
  show "mset ?s = mset rows" by simp
  show "if ord = ASC then sorted (map col ?s) else sorted (rev (map col ?s))"
    using order_rows_sorted [of col rows] by (cases ord) auto
  show "list_rows columns d \<lparr>pg_limit = limit, pg_offset = k * limit, pg_sort = Some key,
      pg_order = ord\<rparr> rows = Inr (page_of limit (k * limit) ?s)" for k
    using assms(1,2) by (cases key) (simp_all add: list_rows_def)
  show "concat (map (\<lambda>k. page_of limit (k * limit) ?s) [0..<pages]) = ?s"
    using assms(3) by (simp add: take_pages)
next
  assume "map_of columns other = None \<and> other \<noteq> []"
  then show "list_rows columns d (g\<lparr>pg_sort := Some other\<rparr>) rows = Inl (HTTPException 400 ''INVALID_REQUEST'')"
    by (cases other) (simp_all add: list_rows_def)
qed

theorem paging_is_complete_witness:
  "\<exists>rs. mset rs = mset [3, 1, 2 :: int] \<and> sorted (map SInt rs)
     \<and> concat (map (\<lambda>k. page_of 2 (k * 2) rs) [0..<2]) = rs"
  using paging_is_complete [where columns = "[(''n'', SInt)]" and key = "''n''" and col = SInt
      and rows = "[3, 1, 2]" and pages = 2 and limit = 2 and ord = ASC and d = "''n''"
      and other = "''m''" and g = default_pagination]
  by auto

end
