(* ===== verification/Pools_Api.thy ===== *)
theory Pools_Api
  imports Pool_Provisioner Listing
begin

text \<open>
  \<open>broker/app/api/pools.py\<close> with the request schemas of \<open>broker/app/schemas/pool.py\<close>. A
  handler runs in the request's session; \<open>validated\<close> is the check of the body before it.
  The background tasks a handler schedules are part of its result, and run later. The
  destroys and provisions that a shim gathers run one after the other, each in a session of
  its own, their exceptions collected.
\<close>

section \<open>Shared pieces\<close>

definition not_found :: exn where
  "not_found = HTTPException 404 ''NOT_FOUND''"

definition conflict :: exn where
  "conflict = HTTPException 409 ''CONFLICT''"

definition bad_request :: exn where
  "bad_request = HTTPException 400 ''INVALID_REQUEST''"

text \<open>\<open>RequestValidationError\<close>, which the application answers with 422.\<close>

definition validated :: "bool \<Rightarrow> ('w, 'a) prog \<Rightarrow> ('w, 'a) prog" where
  "validated ok m = (if ok then m else throw (HTTPException 422 ''INVALID_REQUEST''))"

definition require_row :: "(db \<Rightarrow> 'r option) \<Rightarrow> ('w, 'r) prog" where
  "require_row f = bnd (query f) (\<lambda>r. case r of None \<Rightarrow> throw not_found | Some x \<Rightarrow> ret x)"

definition live_session :: "vdi_session \<Rightarrow> bool" where
  "live_session r \<longleftrightarrow> s_status r = S_CONNECTING \<or> s_status r = S_ACTIVE"

datatype bg_task = DeletePoolShim uuid | ProvisionShim uuid nat

section \<open>Counting\<close>

definition count_active_sessions_for_pool :: "uuid \<Rightarrow> db \<Rightarrow> nat" where
  "count_active_sessions_for_pool i db = length (filter (\<lambda>(r, d). s_desktop_id r = Some (d_id d)
     \<and> d_pool_id d = i \<and> live_session r) (List.product (sessions db) (desktops db)))"

definition desktop_count :: "uuid \<Rightarrow> db \<Rightarrow> int" where
  "desktop_count i db = int (length (filter (\<lambda>d. d_pool_id d = i) (desktops db)))"

record capacity_detail =
  cd_range_capacity :: int
  cd_total :: int
  cd_free_slots :: int
  cd_counts :: "desktop_status \<Rightarrow> int"

definition range_capacity :: "pool \<Rightarrow> int" where
  "range_capacity p = p_vmid_range_end p - p_vmid_range_start p + 1"

definition compute_capacity :: "pool \<Rightarrow> db \<Rightarrow> capacity_detail" where
  "compute_capacity p db =
     \<lparr>cd_range_capacity = range_capacity p, cd_total = desktop_count (p_id p) db,
      cd_free_slots = range_capacity p - desktop_count (p_id p) db,
      cd_counts = (\<lambda>st. int (length (filter (\<lambda>d. d_pool_id d = p_id p \<and> d_status d = st) (desktops db))))\<rparr>"

section \<open>Reading\<close>

text \<open>
  \<open>PoolRead.model_validate(row)\<close>: every column has the type the schema wants except that a
  JSON \<open>null\<close> may sit in \<open>provider_config\<close>.
\<close>

definition pool_read :: "pool \<Rightarrow> exn + pool" where
  "pool_read p = (if is_jobj (p_provider_config p) then Inr p else Inl (PyValueError ''PoolRead''))"

definition pool_columns :: "(string \<times> (pool \<Rightarrow> sort_val)) list" where
  "pool_columns = [(''name'', SStr \<circ> p_name), (''created_at'', SInt \<circ> p_created_at),
     (''updated_at'', SInt \<circ> p_updated_at),
     (''status'', \<lambda>p. SInt (case p_status p of P_ACTIVE \<Rightarrow> 0 | P_DISABLED \<Rightarrow> 1 | P_PROVISIONING \<Rightarrow> 2
        | P_ERROR \<Rightarrow> 3 | P_DRAINING \<Rightarrow> 4 | P_DELETING \<Rightarrow> 5)),
     (''vmid_range_start'', SInt \<circ> p_vmid_range_start)]"

definition list_pools :: "pagination \<Rightarrow> ('w, pool list) prog" where
  "list_pools g = validated (pagination_ok g) (in_session (bnd (query pools) (\<lambda>rows.
     bnd (lift_result (list_rows pool_columns ''name'' g rows)) (\<lambda>page.
     map_eff (\<lambda>p. lift_result (pool_read p)) page))))"

definition get_pool :: "uuid \<Rightarrow> ('w, pool \<times> capacity_detail \<times> desktop list) prog" where
  "get_pool i = in_session (bnd (require_row (get_pool_row i)) (\<lambda>p.
     bnd (query (compute_capacity p)) (\<lambda>cap.
     bnd (query (\<lambda>db. sort_key d_pve_vmid (filter (\<lambda>d. d_pool_id d = i) (desktops db)))) (\<lambda>ds.
     bnd (lift_result (pool_read p)) (\<lambda>base.
     ret (base, cap, ds))))))"

section \<open>Creating\<close>

record pool_create =
  pc_name :: string
  pc_display_name :: string
  pc_description :: "string option"
  pc_pool_type :: pool_type
  pc_template_id :: uuid
  pc_cluster_id :: uuid
  pc_min_spare :: int
  pc_max_size :: int
  pc_vmid_range_start :: int
  pc_vmid_range_end :: int
  pc_name_prefix :: string
  pc_target_nodes :: "string option"
  pc_target_storage :: "string option"
  pc_cpu_cores :: "int option"
  pc_memory_mb :: "int option"
  pc_pve_pool_id :: "string option"
  pc_provider_config :: "(string \<times> jval) list"
  pc_auto_logoff_min :: int
  pc_delete_on_logoff :: bool
  pc_refresh_on_logoff :: bool

definition pool_create_valid :: "pool_create \<Rightarrow> bool" where
  "pool_create_valid b \<longleftrightarrow> pool_name_ok (pc_name b)
     \<and> pc_vmid_range_start b < pc_vmid_range_end b
     \<and> pc_max_size b \<le> pc_vmid_range_end b - pc_vmid_range_start b + 1
     \<and> pc_target_storage b = None"

definition pool_of_create :: "pool_create \<Rightarrow> uuid \<Rightarrow> int \<Rightarrow> pool" where
  "pool_of_create b i at =
     \<lparr>p_id = i, p_name = pc_name b, p_display_name = pc_display_name b,
      p_description = pc_description b, p_pool_type = pc_pool_type b,
      p_template_id = pc_template_id b, p_cluster_id = pc_cluster_id b,
      p_min_spare = pc_min_spare b, p_max_size = pc_max_size b,
      p_vmid_range_start = pc_vmid_range_start b, p_vmid_range_end = pc_vmid_range_end b,
      p_name_prefix = pc_name_prefix b, p_target_nodes = pc_target_nodes b,
      p_target_storage = pc_target_storage b, p_cpu_cores = pc_cpu_cores b,
      p_memory_mb = pc_memory_mb b, p_pve_pool_id = pc_pve_pool_id b,
      p_provider_config = JObj (pc_provider_config b), p_auto_logoff_min = pc_auto_logoff_min b,
      p_delete_on_logoff = pc_delete_on_logoff b, p_refresh_on_logoff = pc_refresh_on_logoff b,
      p_status = P_ACTIVE, p_created_at = at, p_updated_at = at\<rparr>"

definition insert_checked_pool :: "'w env \<Rightarrow> pool_create \<Rightarrow> ('w, pool) prog" where
  "insert_checked_pool E b =
     bnd (query (\<lambda>db. filter (\<lambda>p. p_name p = pc_name b) (pools db))) (\<lambda>rows.
     bnd (scalar_one_or_none rows) (\<lambda>old.
     if old \<noteq> None then throw conflict
     else bnd (gen_uuid E) (\<lambda>i.
       bnd (now E) (\<lambda>at.
       andthen (insert_pool (pool_of_create b i at))
       (andthen commit
       (lift_result (pool_read (pool_of_create b i at))))))))"

definition create_pool ::
    "'w env \<Rightarrow> (uuid \<Rightarrow> 'w provider option) \<Rightarrow> pool_create \<Rightarrow> ('w, pool) prog" where
  "create_pool E providers b = validated (pool_create_valid b) (in_session (
     bnd (require_row (get_cluster_row (pc_cluster_id b))) (\<lambda>c.
     bnd (require_row (get_template_row (pc_template_id b))) (\<lambda>t.
     if t_cluster_id t \<noteq> c_id c then throw bad_request
     else (case providers (c_id c) of
       None \<Rightarrow> throw bad_request
     | Some P \<Rightarrow>
         andthen (validate_pool_range P (pc_vmid_range_start b) (pc_vmid_range_end b) None)
           (insert_checked_pool E b))))))"

section \<open>Updating\<close>

text \<open>
  \<open>PoolUpdate\<close> with \<open>exclude_unset\<close>: the outer \<open>None\<close> is a field the body leaves out, the
  inner one an explicit null. Of the immutable fields the schema still knows, only whether
  they were sent matters.
\<close>

record pool_update =
  pu_immutable :: "string list"
  pu_status :: "pool_status option option"
  pu_display_name :: "string option option"
  pu_description :: "string option option"
  pu_min_spare :: "int option option"
  pu_max_size :: "int option option"
  pu_target_nodes :: "string option option"
  pu_target_storage :: "string option option"
  pu_cpu_cores :: "int option option"
  pu_memory_mb :: "int option option"
  pu_provider_config :: "(string \<times> jval) list option option"
  pu_auto_logoff_min :: "int option option"
  pu_delete_on_logoff :: "bool option option"
  pu_refresh_on_logoff :: "bool option option"

definition pool_update_valid :: "pool_update \<Rightarrow> bool" where
  "pool_update_valid u \<longleftrightarrow> set (pu_immutable u) \<subseteq> {''name'', ''name_prefix'', ''pve_pool_id''}
     \<and> (case pu_target_storage u of Some (Some _) \<Rightarrow> False | _ \<Rightarrow> True)"

text \<open>A set attribute of a NOT NULL column, and of a nullable one.\<close>

definition set_required :: "'a option option \<Rightarrow> 'a \<Rightarrow> 'a" where
  "set_required f old = (case f of Some (Some v) \<Rightarrow> v | _ \<Rightarrow> old)"

definition set_nullable :: "'a option option \<Rightarrow> 'a option \<Rightarrow> 'a option" where
  "set_nullable f old = (case f of Some v \<Rightarrow> v | None \<Rightarrow> old)"

text \<open>\<open>JSONB\<close> without \<open>none_as_null\<close> stores a Python \<open>None\<close> as the JSON value \<open>null\<close>.\<close>

definition set_json :: "(string \<times> jval) list option option \<Rightarrow> jval \<Rightarrow> jval" where
  "set_json f old = (case f of None \<Rightarrow> old | Some None \<Rightarrow> JNull | Some (Some kvs) \<Rightarrow> JObj kvs)"

definition apply_pool_update :: "pool_update \<Rightarrow> pool \<Rightarrow> pool" where
  "apply_pool_update u p = p\<lparr>
     p_display_name := set_required (pu_display_name u) (p_display_name p),
     p_description := set_nullable (pu_description u) (p_description p),
     p_min_spare := set_required (pu_min_spare u) (p_min_spare p),
     p_max_size := set_required (pu_max_size u) (p_max_size p),
     p_target_nodes := set_nullable (pu_target_nodes u) (p_target_nodes p),
     p_target_storage := set_nullable (pu_target_storage u) (p_target_storage p),
     p_cpu_cores := set_nullable (pu_cpu_cores u) (p_cpu_cores p),
     p_memory_mb := set_nullable (pu_memory_mb u) (p_memory_mb p),
     p_provider_config := set_json (pu_provider_config u) (p_provider_config p),
     p_auto_logoff_min := set_required (pu_auto_logoff_min u) (p_auto_logoff_min p),
     p_delete_on_logoff := set_required (pu_delete_on_logoff u) (p_delete_on_logoff p),
     p_refresh_on_logoff := set_required (pu_refresh_on_logoff u) (p_refresh_on_logoff p)\<rparr>"

text \<open>An explicit null in a NOT NULL column: the flush raises \<open>IntegrityError\<close>.\<close>

definition null_violation :: "pool_update \<Rightarrow> bool" where
  "null_violation u \<longleftrightarrow> pu_display_name u = Some None \<or> pu_min_spare u = Some None
     \<or> pu_auto_logoff_min u = Some None \<or> pu_delete_on_logoff u = Some None
     \<or> pu_refresh_on_logoff u = Some None"

definition check_max_size :: "pool_update \<Rightarrow> pool \<Rightarrow> db \<Rightarrow> exn option" where
  "check_max_size u p db = (case pu_max_size u of
       None \<Rightarrow> None
     | Some None \<Rightarrow> Some (PyTypeError ''NoneType > int'')
     | Some (Some n) \<Rightarrow>
         if n > range_capacity p then Some bad_request
         else if n < desktop_count (p_id p) db then Some bad_request else None)"

definition update_pool :: "'w env \<Rightarrow> uuid \<Rightarrow> pool_update \<Rightarrow> ('w, pool) prog" where
  "update_pool E i u = validated (pool_update_valid u) (in_session (
     bnd (require_row (get_pool_row i)) (\<lambda>p.
     if pu_immutable u \<noteq> [] then throw bad_request
     else if pu_status u \<noteq> None then throw bad_request
     else bnd (query (check_max_size u p)) (\<lambda>bad.
       case bad of Some e \<Rightarrow> throw e | None \<Rightarrow>
       if null_violation u then throw (IntegrityError ''pools'')
       else
         andthen (do_when (apply_pool_update u p \<noteq> p) (set_pool E i (apply_pool_update u)))
         (andthen commit
         (bnd (require_row (get_pool_row i)) (\<lambda>q. lift_result (pool_read q))))))))"

section \<open>Deleting\<close>

definition delete_pool ::
    "'w env \<Rightarrow> uuid \<Rightarrow> string \<Rightarrow> string option \<Rightarrow> ('w, int \<times> bg_task list) prog" where
  "delete_pool E i actor ip = in_session (
     bnd (require_row (get_pool_row i)) (\<lambda>p.
     if p_status p = P_DELETING
     then bnd (query (desktop_count i)) (\<lambda>n. ret (n, [DeletePoolShim i]))
     else bnd (query (count_active_sessions_for_pool i)) (\<lambda>active.
       if 0 < active then throw conflict
       else
         andthen (set_pool E i (\<lambda>p. p\<lparr>p_status := P_DELETING\<rparr>))
         (bnd (query (desktop_count i)) (\<lambda>n.
         andthen (log_business_event E actor ''pool.delete.started'' (Some ''pool'') (Some i)
           [(''pool_name'', JStr (p_name p)), (''desktops_to_destroy'', JInt n)] ip)
         (andthen commit (ret (n, [DeletePoolShim i]))))))))"

definition destroy_for_cascade :: "'w provider \<Rightarrow> vm_ref \<Rightarrow> ('w, unit) prog" where
  "destroy_for_cascade P ref =
     bnd (prov (CallGetStatus ref) (pv_get_vm_status P ref)) (\<lambda>v.
     andthen (do_when (v_power_state v = ''running'')
       (bnd (prov (CallStop ref) (pv_stop_vm P ref)) (\<lambda>h. wait_task P (Some h) 30)))
     (bnd (prov (CallDestroy ref) (pv_destroy_vm P ref True)) (\<lambda>h.
      wait_task P (Some h) 300)))"

definition mark_cascade_failed :: "exn \<Rightarrow> desktop \<Rightarrow> desktop" where
  "mark_cascade_failed e d = d\<lparr>d_status := D_ERROR,
     d_error_message := Some (''pool delete cascade: '' @ exn_text e)\<rparr>"

definition destroy_one :: "'w env \<Rightarrow> 'w provider \<Rightarrow> uuid \<Rightarrow> ('w, bool) prog" where
  "destroy_one E P i = in_session (bnd (query (get_desktop_row i)) (\<lambda>row.
     case row of None \<Rightarrow> ret True | Some d \<Rightarrow>
     bnd (attempt (destroy_for_cascade P (desktop_vm_ref P d))) (\<lambda>r.
     case r of
       Inl e \<Rightarrow>
         if is_provider_error e \<and> \<not> is_provider_not_found e
         then andthen (set_desktop E i (mark_cascade_failed e)) (andthen commit (ret False))
         else if is_provider_not_found e
         then andthen (update_db (delete_desktop_row i)) (andthen commit (ret True))
         else throw e
     | Inr _ \<Rightarrow> andthen (update_db (delete_desktop_row i)) (andthen commit (ret True)))))"

definition finish_pool_delete :: "'w env \<Rightarrow> uuid \<Rightarrow> int \<Rightarrow> ('w, unit) prog" where
  "finish_pool_delete E i successes = in_session (bnd (query (get_pool_row i)) (\<lambda>row.
     case row of None \<Rightarrow> ret () | Some p \<Rightarrow>
     andthen (log_business_event E ''system'' ''pool.delete.completed'' (Some ''pool'') (Some i)
       [(''pool_name'', JStr (p_name p)), (''desktops_destroyed'', JInt successes)] None)
     (andthen (delete_pool_checked i) commit)))"

definition delete_pool_shim ::
    "'w env \<Rightarrow> (uuid \<Rightarrow> 'w provider option) \<Rightarrow> uuid \<Rightarrow> ('w, unit) prog" where
  "delete_pool_shim E providers i =
     bnd (in_session (query (\<lambda>db. map_option (\<lambda>p. (p_cluster_id p,
        map d_id (filter (\<lambda>d. d_pool_id d = i) (desktops db)))) (get_pool_row i db)))) (\<lambda>target.
     case target of None \<Rightarrow> ret () | Some (cid, ids) \<Rightarrow>
     (case providers cid of None \<Rightarrow> ret () | Some P \<Rightarrow>
      bnd (map_eff (\<lambda>j. attempt (destroy_one E P j)) ids) (\<lambda>results.
      if list_all (\<lambda>r. r = Inr True) results
      then finish_pool_delete E i (int (length results)) else ret ())))"

section \<open>Provisioning and draining\<close>

definition provision_pool ::
    "(uuid \<Rightarrow> 'w provider option) \<Rightarrow> uuid \<Rightarrow> int \<Rightarrow> ('w, bg_task list) prog" where
  "provision_pool providers i wanted = validated (1 \<le> wanted \<and> wanted \<le> 50) (in_session (
     bnd (require_row (get_pool_row i)) (\<lambda>p.
     if p_status p \<noteq> P_ACTIVE then throw conflict
     else bnd (query (desktop_count i)) (\<lambda>n.
       if wanted > p_max_size p - n then throw conflict
       else if providers (p_cluster_id p) = None then throw bad_request
       else andthen commit (ret [ProvisionShim i (nat wanted)])))))"

definition provision_one :: "'w env \<Rightarrow> 'w provider \<Rightarrow> uuid \<Rightarrow> ('w, unit) prog" where
  "provision_one E P i = in_session (bnd (query (get_pool_row i)) (\<lambda>row.
     case row of None \<Rightarrow> ret () | Some p \<Rightarrow>
     bnd (query (get_template_row (p_template_id p))) (\<lambda>tr.
     case tr of None \<Rightarrow> ret () | Some t \<Rightarrow>
     andthen (provision_desktop E P p t None None) commit)))"

definition provision_shim ::
    "'w env \<Rightarrow> (uuid \<Rightarrow> 'w provider option) \<Rightarrow> uuid \<Rightarrow> nat \<Rightarrow> ('w, unit) prog" where
  "provision_shim E providers i wanted =
     bnd (in_session (query (get_pool_row i))) (\<lambda>row.
     case row of None \<Rightarrow> ret () | Some p \<Rightarrow>
     (case providers (p_cluster_id p) of None \<Rightarrow> ret () | Some P \<Rightarrow>
      andthen (map_eff (\<lambda>_. attempt (provision_one E P i)) [0..<wanted]) (ret ())))"

definition run_bg_task ::
    "'w env \<Rightarrow> (uuid \<Rightarrow> 'w provider option) \<Rightarrow> bg_task \<Rightarrow> ('w, unit) prog" where
  "run_bg_task E providers task = (case task of
       DeletePoolShim i \<Rightarrow> delete_pool_shim E providers i
     | ProvisionShim i n \<Rightarrow> provision_shim E providers i n)"

definition drain_pool :: "'w env \<Rightarrow> uuid \<Rightarrow> string \<Rightarrow> string option \<Rightarrow> ('w, nat) prog" where
  "drain_pool E i actor ip = in_session (
     bnd (require_row (get_pool_row i)) (\<lambda>p.
     if p_status p = P_DRAINING then query (count_active_sessions_for_pool i)
     else if p_status p \<noteq> P_ACTIVE then throw conflict
     else
       andthen (set_pool E i (\<lambda>p. p\<lparr>p_status := P_DRAINING\<rparr>))
       (andthen (log_business_event E actor ''pool.drain.started'' (Some ''pool'') (Some i)
          [(''pool_name'', JStr (p_name p))] ip)
       (andthen commit (query (count_active_sessions_for_pool i))))))"

section \<open>The handlers keep the tables' invariants\<close>

lemma pres_validated [pres_intros]: "pres J m \<Longrightarrow> pres J (validated ok m)"
  by (auto simp: validated_def intro: pres_throw)

lemma validated_run [exec_simps]:
  "validated ok m s = (if ok then m s else (Inl (HTTPException 422 ''INVALID_REQUEST''), s))"
  by (simp add: validated_def exec_simps)

lemma require_row_run [exec_simps]:
  "require_row f s = (case f (work s) of None \<Rightarrow> (Inl not_found, s) | Some x \<Rightarrow> (Inr x, s))"
  by (auto simp: require_row_def exec_simps split: option.splits)

lemma apply_pool_update_ok: "pool_write_ok (apply_pool_update u)"
  by (simp add: pool_write_ok_def apply_pool_update_def)

lemma pool_status_write_ok: "pool_write_ok (\<lambda>p. p\<lparr>p_status := st\<rparr>)"
  by (simp add: pool_write_ok_def)

context db_writes begin

lemma pres_require_row: "pres (both I) (require_row f)"
  unfolding require_row_def by (intro pres_intros pres_prims)

lemmas pres_api = pres_prims pres_require_row pres_log_business_event

lemma pres_list_pools: "pres (both I) (list_pools g)"
  unfolding list_pools_def by (intro pres_intros pres_api)

lemma pres_get_pool: "pres (both I) (get_pool i)"
  unfolding get_pool_def by (intro pres_intros pres_api)

lemma pres_update_pool: "pres (both I) (update_pool E i u)"
  unfolding update_pool_def by (intro pres_intros pres_api apply_pool_update_ok)

lemma pres_delete_pool: "pres (both I) (delete_pool E i actor ip)"
  unfolding delete_pool_def by (intro pres_intros pres_api pool_status_write_ok)

lemma pres_provision_pool: "pres (both I) (provision_pool providers i n)"
  unfolding provision_pool_def by (intro pres_intros pres_api)

lemma pres_drain_pool: "pres (both I) (drain_pool E i actor ip)"
  unfolding drain_pool_def by (intro pres_intros pres_api pool_status_write_ok)

lemma pres_destroy_one: "pres (both I) (destroy_one E P i)"
  unfolding destroy_one_def destroy_for_cascade_def wait_task_def
  by (intro pres_intros pres_api) (auto simp: keeps_identity_def mark_cascade_failed_def)

lemma pres_insert_validated_pool:
  assumes "both I s" "\<And>q. q \<in> set (pools (work s)) \<Longrightarrow> ranges_disjoint p q"
  shows "both I (snd (insert_pool p s))"
  using assms by (auto simp: exec_simps both_def intro: pool_add)

lemma pres_validated_insert:
  "pres (both I) (andthen (validate_pool_range P (pc_vmid_range_start b) (pc_vmid_range_end b) None)
     (insert_checked_pool E b))"
  unfolding pres_def
proof (intro allI impI)
  fix s :: "'a st" assume J: "both I s"
  let ?v = "validate_pool_range P (pc_vmid_range_start b) (pc_vmid_range_end b) None"
  have J1: "both I (snd (?v s))" using J by (rule presD [OF pres_validate_pool_range])
  show "both I (snd (andthen ?v (insert_checked_pool E b) s))"
  proof (cases "?v s")
    case (Pair r t)
    show ?thesis
    proof (cases r)
      case (Inl e)
      with Pair J1 show ?thesis by (simp add: exec_simps)
    next
      case (Inr x)
      have ok: "fst (?v s) = Inr ()" using Pair Inr by simp
      have t: "work t = work s" "both I t" using J1 Pair validate_pool_range_db(1) [of P _ _ None s]
        by (auto dest: arg_cong [of _ _ snd]) (metis snd_conv validate_pool_range_db(1))
      have dis: "ranges_disjoint (pool_of_create b i at) q" if "q \<in> set (pools (work t))" for q i at
        using validate_pool_range_disjoint [of P "pool_of_create b i at" s q] ok that t(1)
        by (simp add: pool_of_create_def)
      have "both I (snd (insert_checked_pool E b t))"
      proof (cases "filter (\<lambda>p. p_name p = pc_name b) (pools (work t))" rule: scalar_one_or_none.cases)
        case 1
        obtain i w where u: "e_uuid E (world t) = (i, w)" by (cases "e_uuid E (world t)")
        let ?p = "pool_of_create b i (e_now E w)"
        have Jw: "both I (t\<lparr>world := w\<rparr>)" using t(2) by (simp add: both_def)
        have "both I (snd (insert_pool ?p (t\<lparr>world := w\<rparr>)))"
          by (rule pres_insert_validated_pool [OF Jw]) (use dis in simp)
        with 1 u Jw show ?thesis
          by (cases "pool_insert_ok ?p (work t)")
            (simp_all add: insert_checked_pool_def exec_simps both_def)
      qed (use t in \<open>simp_all add: insert_checked_pool_def exec_simps\<close>)
      with Pair Inr show ?thesis by (simp add: exec_simps)
    qed
  qed
qed

lemma pres_create_pool: "pres (both I) (create_pool E providers b)"
  unfolding create_pool_def by (intro pres_intros pres_api pres_validated_insert)

end

context db_invariant begin

lemma pres_delete_pool_shim: "pres (both I) (delete_pool_shim E providers i)"
  unfolding delete_pool_shim_def finish_pool_delete_def
  by (intro pres_intros pres_api pres_destroy_one pres_delete_pool_checked)

lemma pres_provision_shim: "pres (both I) (provision_shim E providers i n)"
  unfolding provision_shim_def provision_one_def
  by (intro pres_intros pres_api pres_session_pool_get with_pool.pres_prims pres_provision_with_pool)

lemma pres_run_bg_task: "pres (both I) (run_bg_task E providers task)"
  by (cases task) (simp_all add: run_bg_task_def pres_delete_pool_shim pres_provision_shim)

end

section \<open>Creating and updating\<close>

lemma pool_read_created: "pool_read (pool_of_create b i at) = Inr (pool_of_create b i at)"
  by (simp add: pool_read_def pool_of_create_def)

lemma pool_of_create_simps [simp]:
  "p_vmid_range_start (pool_of_create b i at) = pc_vmid_range_start b"
  "p_vmid_range_end (pool_of_create b i at) = pc_vmid_range_end b"
  "p_name (pool_of_create b i at) = pc_name b" "p_status (pool_of_create b i at) = P_ACTIVE"
  "p_id (pool_of_create b i at) = i" "p_cluster_id (pool_of_create b i at) = pc_cluster_id b"
  "p_template_id (pool_of_create b i at) = pc_template_id b"
  by (simp_all add: pool_of_create_def)

lemma insert_checked_pool_outcome:
  "wp (insert_checked_pool E b)
     (\<lambda>p t. (\<exists>i at. p = pool_of_create b i at) \<and> pool_insert_ok p (work s) \<and> committed t = add_pool p (work s))
     (\<lambda>e t. committed t = committed s) s"
proof (cases "filter (\<lambda>p. p_name p = pc_name b) (pools (work s))" rule: scalar_one_or_none.cases)
  case 1
  obtain i w where u: "e_uuid E (world s) = (i, w)" by (cases "e_uuid E (world s)")
  have "pool_read (pool_of_create b i (e_now E w)) = Inr (pool_of_create b i (e_now E w))"
    by (rule pool_read_created)
  then show ?thesis using 1 u
    by (cases "pool_insert_ok (pool_of_create b i (e_now E w)) (work s)")
      (auto simp: wp_def insert_checked_pool_def exec_simps)
qed (simp_all add: wp_def insert_checked_pool_def exec_simps)

lemma insert_after_validation:
  "wp (andthen (validate_pool_range P (pc_vmid_range_start b) (pc_vmid_range_end b) None) (insert_checked_pool E b))
      (\<lambda>p t. committed t = add_pool p (committed s) \<and> (\<exists>i at. p = pool_of_create b i at)
         \<and> (\<forall>q\<in>set (pools (committed s)). ranges_disjoint p q \<and> p_name q \<noteq> p_name p \<and> p_id q \<noteq> p_id p)
         \<and> (\<exists>vms. fst (pv_list_vms P (world s)) = Inr vms \<and> (\<forall>v\<in>set vms. \<forall>n. listed_vmid v = Some n \<longrightarrow>
              n < pc_vmid_range_start b \<or> pc_vmid_range_end b < n)))
      (\<lambda>e t. committed t = committed s) (s\<lparr>work := committed s\<rparr>)"
proof (cases "validate_pool_range P (pc_vmid_range_start b) (pc_vmid_range_end b) None (s\<lparr>work := committed s\<rparr>)")
  let ?s = "s\<lparr>work := committed s\<rparr>"
  case (Pair r t)
  have t: "work t = committed s" "committed t = committed s"
    using validate_pool_range_db [of P "pc_vmid_range_start b" "pc_vmid_range_end b" None ?s] Pair by simp_all
  show ?thesis
  proof (cases r)
    case (Inl e)
    with Pair t show ?thesis by (simp add: wp_def exec_simps)
  next
    case (Inr x)
    have "ranges_disjoint (pool_of_create b i at) q" if "q \<in> set (pools (committed s))" for q i at
      using validate_pool_range_disjoint [of P "pool_of_create b i at" ?s q] Pair Inr that by simp
    moreover have "\<exists>vms. fst (pv_list_vms P (world s)) = Inr vms \<and> (\<forall>v\<in>set vms. \<forall>n. listed_vmid v = Some n \<longrightarrow>
        n < pc_vmid_range_start b \<or> pc_vmid_range_end b < n)"
      using validate_pool_range_Inr [of P "pc_vmid_range_start b" "pc_vmid_range_end b" None ?s] Pair Inr
      by (simp add: no_live_conflicts)
    moreover have "p_name q \<noteq> pc_name b \<and> p_id q \<noteq> i"
      if "pool_insert_ok (pool_of_create b i at) db" "q \<in> set (pools db)" for i at db q
      using that by (auto simp: pool_insert_ok_def get_pool_row_None pool_of_create_def)
    ultimately show ?thesis
      using Pair Inr t
      by (simp add: wp_andthen wp_runs) (rule wp_mono [OF insert_checked_pool_outcome], auto)
  qed
qed

text \<open>A request is refused with nothing committed, or it reaches the insertion.\<close>

lemmas create_pool_runs = create_pool_def validated_run in_session_run bnd_run require_row_run throw_run

lemma create_pool_cases:
  obtains (refused) e u where "create_pool E providers b s = (Inl e, u)" "committed u = committed s"
  | (accepted) tr P r t where "pool_create_valid b" "get_template_row (pc_template_id b) (committed s) = Some tr"
      "t_cluster_id tr = pc_cluster_id b" "providers (pc_cluster_id b) = Some P"
      "andthen (validate_pool_range P (pc_vmid_range_start b) (pc_vmid_range_end b) None) (insert_checked_pool E b)
         (s\<lparr>work := committed s\<rparr>) = (r, t)"
      "create_pool E providers b s = (r, t\<lparr>work := committed t\<rparr>)"
proof (cases "pool_create_valid b \<and> get_cluster_row (pc_cluster_id b) (committed s) \<noteq> None
    \<and> get_template_row (pc_template_id b) (committed s) \<noteq> None")
    case False
    then have "\<exists>e u. create_pool E providers b s = (Inl e, u) \<and> committed u = committed s"
      by (auto simp: create_pool_runs split: option.splits)
    then show thesis using refused by blast
  next
    case True
    then obtain c tr where ct: "get_cluster_row (pc_cluster_id b) (committed s) = Some c" "c_id c = pc_cluster_id b"
      "get_template_row (pc_template_id b) (committed s) = Some tr" by (auto dest: get_cluster_rowD)
    show thesis
    proof (cases "t_cluster_id tr = pc_cluster_id b \<and> providers (pc_cluster_id b) \<noteq> None")
      case False
      with True ct show thesis
        by (intro refused [of bad_request "s\<lparr>work := committed s\<rparr>"]) (auto simp: create_pool_runs split: option.splits)
    next
      case go: True
      then obtain P where P: "providers (pc_cluster_id b) = Some P" by auto
      show thesis
        by (cases "andthen (validate_pool_range P (pc_vmid_range_start b) (pc_vmid_range_end b) None)
            (insert_checked_pool E b) (s\<lparr>work := committed s\<rparr>)", rule accepted)
          (use True ct go P in \<open>auto simp: create_pool_runs\<close>)
    qed
qed

text \<open>
  Property C24. Creating a pool either commits exactly one new row or nothing at all. The row
  is active, holds what the request asked for, and comes after every check: a valid name,
  the VMID range non-empty, large enough for \<open>max_size\<close> and disjoint from the range of every
  existing pool, a name no pool has, a template of the pool's own cluster, and a
  provider of that cluster which lists its VMs, none with a VMID inside the range.
\<close>

theorem create_pool_outcome:
  "case create_pool E providers b s of
     (Inl e, t) \<Rightarrow> committed t = committed s
   | (Inr p, t) \<Rightarrow> committed t = add_pool p (committed s) \<and> (\<exists>i at. p = pool_of_create b i at)
       \<and> pool_create_valid b \<and> p_status p = P_ACTIVE
       \<and> p_vmid_range_start p < p_vmid_range_end p
       \<and> p_max_size p \<le> p_vmid_range_end p - p_vmid_range_start p + 1
       \<and> (\<forall>q\<in>set (pools (committed s)). ranges_disjoint p q \<and> p_name q \<noteq> p_name p \<and> p_id q \<noteq> p_id p)
       \<and> (\<exists>tr P. get_template_row (pc_template_id b) (committed s) = Some tr
            \<and> t_cluster_id tr = p_cluster_id p \<and> providers (p_cluster_id p) = Some P
            \<and> (\<exists>vms. fst (pv_list_vms P (world s)) = Inr vms \<and> (\<forall>v\<in>set vms. \<forall>n. listed_vmid v = Some n \<longrightarrow>
                 n < p_vmid_range_start p \<or> p_vmid_range_end p < n)))"
proof (cases rule: create_pool_cases [of E providers b s])
  case (accepted tr P r t)
  then show ?thesis
    using insert_after_validation [of P b E s] by (cases r) (auto simp: wp_def pool_of_create_def pool_create_valid_def)
qed simp

definition example_create :: pool_create where
  "example_create = \<lparr>pc_name = ''eng'', pc_display_name = ''Eng'', pc_description = None,
     pc_pool_type = NONPERSISTENT, pc_template_id = 2, pc_cluster_id = 3, pc_min_spare = 1,
     pc_max_size = 2, pc_vmid_range_start = 100, pc_vmid_range_end = 101, pc_name_prefix = ''eng'',
     pc_target_nodes = None, pc_target_storage = None, pc_cpu_cores = None, pc_memory_mb = None,
     pc_pve_pool_id = None, pc_provider_config = [], pc_auto_logoff_min = 0,
     pc_delete_on_logoff = False, pc_refresh_on_logoff = True\<rparr>"

definition catalogue_db :: db where
  "catalogue_db = empty_db\<lparr>clusters := [\<lparr>c_id = 3, c_name = ''lab'', c_provider_type = ''proxmox'',
     c_api_url = ''https://pve'', c_token_id = ''t'', c_token_secret = ''x'', c_verify_ssl = True,
     c_node_filter = None, c_provider_config = JObj [], c_status = C_ACTIVE, c_created_at = 0,
     c_updated_at = 0\<rparr>], templates := [example_template]\<rparr>"

theorem create_pool_outcome_witness:
  "\<exists>p t. create_pool sim_env sim_providers example_create (sim_st catalogue_db) = (Inr p, t)
     \<and> committed t = add_pool p catalogue_db"
proof -
  have "pool_create_valid example_create"
    by (simp add: pool_create_valid_def example_create_def pool_name_ok_def is_slug_char_def)
  then have "\<exists>p. fst (create_pool sim_env sim_providers example_create (sim_st catalogue_db)) = Inr p"
    by (simp add: create_pool_def exec_simps catalogue_db_def empty_db_def example_create_def
        get_cluster_row_def get_template_row_def example_template_def sim_providers_def
        validate_pool_range_def overlapping_pools_def sim_provider_def live_conflicts_def
        insert_checked_pool_def sim_env_def pool_insert_ok_def get_pool_row_def pool_of_create_def
        pool_check_ok_def pool_read_def)
  then show ?thesis
    using create_pool_outcome [where E = sim_env and providers = sim_providers and b = example_create
        and s = "sim_st catalogue_db"]
    by (auto split: prod.splits sum.splits)
qed

definition empty_update :: pool_update where
  "empty_update = \<lparr>pu_immutable = [], pu_status = None, pu_display_name = None, pu_description = None,
     pu_min_spare = None, pu_max_size = None, pu_target_nodes = None, pu_target_storage = None,
     pu_cpu_cores = None, pu_memory_mb = None, pu_provider_config = None, pu_auto_logoff_min = None,
     pu_delete_on_logoff = None, pu_refresh_on_logoff = None\<rparr>"

lemma apply_id: "p_id (apply_pool_update u p) = p_id p"
  by (simp add: apply_pool_update_def)

lemma map_eff_pool_read:
  assumes "p \<in> set xs" "\<not> is_jobj (p_provider_config p)"
  shows "map_eff (\<lambda>x. lift_result (pool_read x)) xs s = (Inl (PyValueError ''PoolRead''), s)"
  using assms by (induction xs) (auto simp: exec_simps pool_read_def)

text \<open>
  An explicit \<open>null\<close> for \<open>provider_config\<close> in \<open>PUT /pools/{id}\<close> passes every check
  and is committed; the response fails to serialise, and from then on so does every page of
  \<open>GET /pools\<close> that holds the pool.
\<close>

theorem null_config_breaks_listing:
  assumes "get_pool_row i (committed s) = Some p" "is_jobj (p_provider_config p)"
  shows "\<exists>t. update_pool E i (empty_update\<lparr>pu_provider_config := Some None\<rparr>) s
      = (Inl (PyValueError ''PoolRead''), t)
    \<and> (\<exists>q. get_pool_row i (committed t) = Some q \<and> p_provider_config q = JNull)
    \<and> (\<forall>g page. pagination_ok g \<and> list_rows pool_columns ''name'' g (pools (committed t)) = Inr page
         \<and> (\<exists>q\<in>set page. p_id q = i) \<longrightarrow> fst (list_pools g t) = Inl (PyValueError ''PoolRead''))"
proof -
  let ?u = "empty_update\<lparr>pu_provider_config := Some None\<rparr>"
  let ?f = "\<lambda>p. (apply_pool_update ?u p)\<lparr>p_updated_at := e_now E (world s)\<rparr>"
  let ?db = "patch_pool i ?f (committed s)"
  have cfg: "p_provider_config (apply_pool_update ?u q) = JNull" for q
    by (simp add: apply_pool_update_def empty_update_def set_json_def)
  have ne: "apply_pool_update ?u p \<noteq> p" using assms(2) cfg [of p] by (metis is_jobj.simps(2))
  have row: "get_pool_row i ?db = Some (?f p)"
    using assms(1) by (simp add: get_pool_patch apply_id)
  have "update_pool E i ?u s = (Inl (PyValueError ''PoolRead''), s\<lparr>work := ?db, committed := ?db\<rparr>)"
    using assms ne row cfg
    by (simp add: update_pool_def exec_simps pool_update_valid_def empty_update_def check_max_size_def
        null_violation_def pool_read_def)
  moreover have "fst (list_pools g (s\<lparr>work := ?db, committed := ?db\<rparr>)) = Inl (PyValueError ''PoolRead'')"
    if page: "list_rows pool_columns ''name'' g (pools ?db) = Inr page" "q \<in> set page" "p_id q = i"
      and ok: "pagination_ok g" for g page q
  proof -
    have "q \<in> set (pools ?db)" by (rule list_rows_subset [OF page(1,2)])
    then have "\<exists>p\<in>set (pools (committed s)). q = (if p_id p = i then ?f p else p)"
      unfolding patch_pool_def by simp blast
    with page(3) have "\<exists>p. q = ?f p" by (auto simp only: split: if_splits)
    then have "p_provider_config q = JNull" using cfg by fastforce
    then have "map_eff (\<lambda>x. lift_result (pool_read x)) page t = (Inl (PyValueError ''PoolRead''), t)" for t :: "'a st"
      by (intro map_eff_pool_read [OF page(2)]) simp
    with page(1) ok show ?thesis by (simp add: list_pools_def validated_def exec_simps)
  qed
  ultimately show ?thesis using row cfg by auto
qed

theorem null_config_breaks_listing_witness:
  "fst (list_pools default_pagination (snd (update_pool sim_env 1 (empty_update\<lparr>pu_provider_config := Some None\<rparr>)
     (sim_st (empty_db\<lparr>pools := [example_pool]\<rparr>))))) = Inl (PyValueError ''PoolRead'')"
proof -
  let ?s = "sim_st (empty_db\<lparr>pools := [example_pool]\<rparr>)"
  have a: "get_pool_row 1 (committed ?s) = Some example_pool" by (simp add: get_pool_row_def)
  have b: "is_jobj (p_provider_config example_pool)" by (simp add: example_pool_def)
  obtain t q where t: "snd (update_pool sim_env 1 (empty_update\<lparr>pu_provider_config := Some None\<rparr>) ?s) = t"
    and q: "get_pool_row 1 (committed t) = Some q"
    and l: "\<And>g page. pagination_ok g \<Longrightarrow> list_rows pool_columns ''name'' g (pools (committed t)) = Inr page \<Longrightarrow>
      \<exists>q\<in>set page. p_id q = 1 \<Longrightarrow> fst (list_pools g t) = Inl (PyValueError ''PoolRead'')"
    using null_config_breaks_listing [OF a b, of sim_env] by auto
  have len: "length (pools (committed t)) = 1"
    unfolding t [symmetric]
    by (auto simp: update_pool_def exec_simps get_pool_row_def patch_pool_def empty_db_def split: option.splits)
  let ?page = "order_rows ASC (SStr \<circ> p_name) (pools (committed t))"
  have "list_rows pool_columns ''name'' default_pagination (pools (committed t)) = Inr ?page"
    using len by (simp add: list_rows_def default_pagination_def pool_columns_def page_of_def)
  moreover have "\<exists>q\<in>set ?page. p_id q = 1" using get_pool_rowD [OF q] by auto
  moreover have "pagination_ok default_pagination" by (simp add: pagination_ok_def default_pagination_def)
  ultimately show ?thesis using l t by blast
qed

section \<open>The delete cascade\<close>

lemma pres_map_eff_mem:
  "(\<And>x. x \<in> set xs \<Longrightarrow> pres J (f x)) \<Longrightarrow> pres J (map_eff f xs)"
  by (induction xs) (auto intro!: pres_ret pres_bnd)

text \<open>
  What the cascade may do to the tables it started from: drop desktops of the pool, or mark
  them \<open>ERROR\<close> where they are.
\<close>

definition cascaded :: "uuid \<Rightarrow> db \<Rightarrow> db \<Rightarrow> bool" where
  "cascaded i db0 db \<longleftrightarrow> pools db = pools db0
     \<and> filter (\<lambda>d. d_pool_id d \<noteq> i) (desktops db) = filter (\<lambda>d. d_pool_id d \<noteq> i) (desktops db0)
     \<and> (\<forall>d\<in>set (desktops db). d \<in> set (desktops db0) \<or> d_status d = D_ERROR
          \<and> (\<exists>u\<in>set (desktops db0). same_place d u))"

lemma cascaded_refl: "cascaded i db db"
  by (simp add: cascaded_def)

lemma cascaded_patch:
  assumes "cascaded i db0 db" "\<And>d. d \<in> set (desktops db) \<Longrightarrow> d_id d = j \<Longrightarrow> d_pool_id d = i"
    and f: "keeps_identity f" "\<And>d. d_status (f d) = D_ERROR"
  shows "cascaded i db0 (patch_desktop j f db)"
proof -
  let ?g = "\<lambda>d. if d_id d = j then f d else d"
  have "filter (\<lambda>d. d_pool_id d \<noteq> i) (map ?g ds) = filter (\<lambda>d. d_pool_id d \<noteq> i) ds"
    if "\<And>d. d \<in> set ds \<Longrightarrow> d_id d = j \<Longrightarrow> d_pool_id d = i" for ds
    using that f(1) by (induction ds) (auto simp: keeps_identity_fields)
  from this [OF assms(2)] have flt: "filter (\<lambda>d. d_pool_id d \<noteq> i) (map ?g (desktops db))
      = filter (\<lambda>d. d_pool_id d \<noteq> i) (desktops db)" by blast
  have "?g d \<in> set (desktops db0) \<or> d_status (?g d) = D_ERROR \<and> (\<exists>u\<in>set (desktops db0). same_place (?g d) u)"
    if d: "d \<in> set (desktops db)" for d
  proof -
    from assms(1) d consider "d \<in> set (desktops db0)"
      | u where "d_status d = D_ERROR" "u \<in> set (desktops db0)" "same_place d u"
      unfolding cascaded_def by blast
    then show ?thesis
    proof cases
      case 1
      then show ?thesis using f by (auto simp: same_place_def keeps_identity_fields)
    next
      case 2
      then show ?thesis using f by (auto simp: same_place_def keeps_identity_fields)
    qed
  qed
  then have "\<forall>d\<in>set (map ?g (desktops db)). d \<in> set (desktops db0) \<or> d_status d = D_ERROR
      \<and> (\<exists>u\<in>set (desktops db0). same_place d u)"
    unfolding set_map ball_simps by blast
  with assms(1) flt show ?thesis by (simp add: cascaded_def patch_desktop_def)
qed

lemma cascaded_delete:
  assumes "cascaded i db0 db" "\<And>d. d \<in> set (desktops db) \<Longrightarrow> d_id d = j \<Longrightarrow> d_pool_id d = i"
  shows "cascaded i db0 (delete_desktop_row j db)"
proof -
  have "filter (\<lambda>d. d_pool_id d \<noteq> i) (filter (\<lambda>d. d_id d \<noteq> j) (desktops db))
      = filter (\<lambda>d. d_pool_id d \<noteq> i) (desktops db)"
    using assms(2) by (auto intro!: filter_cong)
  with assms(1) show ?thesis by (simp add: cascaded_def delete_desktop_row_def)
qed

definition pool_owns :: "uuid \<Rightarrow> uuid \<Rightarrow> db \<Rightarrow> bool" where
  "pool_owns i j db \<longleftrightarrow> (\<forall>d\<in>set (desktops db). d_id d = j \<longrightarrow> d_pool_id d = i)"

lemma cascaded_owns:
  assumes "cascaded i db0 db" "pool_owns i j db0"
  shows "pool_owns i j db"
  using assms by (force simp: cascaded_def pool_owns_def same_place_def)

lemma pres_tables_prov: "pres (\<lambda>s. committed s = c \<and> work s = w) (prov x f)"
  by (auto simp: pres_def exec_simps split: prod.splits)

lemma destroy_for_cascade_db:
  "committed (snd (destroy_for_cascade P ref s)) = committed s \<and> work (snd (destroy_for_cascade P ref s)) = work s"
proof -
  have "pres (\<lambda>u. committed u = committed s \<and> work u = work s) (destroy_for_cascade P ref)"
    unfolding destroy_for_cascade_def wait_task_def by (intro pres_intros pres_tables_prov)
  from presD [OF this] show ?thesis by simp
qed

text \<open>
  What the hypervisor was seen to do with a VM: it destroyed it, the task of the destroy
  included, or some call the cascade makes for it raised an exception of a kind.
\<close>

definition vm_destroyed :: "'w provider \<Rightarrow> vm_ref \<Rightarrow> bool" where
  "vm_destroyed P ref \<longleftrightarrow> (\<exists>w h w1 st w2. pv_destroy_vm P ref True w = (Inr h, w1)
     \<and> pv_wait_for_task P (Some h) 300 w1 = (Inr st, w2))"

definition vm_raised :: "'w provider \<Rightarrow> vm_ref \<Rightarrow> (exn \<Rightarrow> bool) \<Rightarrow> bool" where
  "vm_raised P ref C \<longleftrightarrow> (\<exists>e w w'. C e \<and> (pv_get_vm_status P ref w = (Inl e, w')
     \<or> pv_stop_vm P ref w = (Inl e, w') \<or> pv_destroy_vm P ref True w = (Inl e, w')
     \<or> (\<exists>h n. pv_wait_for_task P (Some h) n w = (Inl e, w'))))"

lemma vm_raised_mono: "vm_raised P ref ((=) e) \<Longrightarrow> C e \<Longrightarrow> vm_raised P ref C"
  unfolding vm_raised_def by blast

lemma destroy_for_cascade_result:
  "wp (destroy_for_cascade P ref) (\<lambda>_ _. vm_destroyed P ref) (\<lambda>e _. vm_raised P ref ((=) e)) s"
proof -
  have calls: "pv_get_vm_status P ref w = (Inl e, w') \<Longrightarrow> vm_raised P ref ((=) e)"
    "pv_stop_vm P ref w = (Inl e, w') \<Longrightarrow> vm_raised P ref ((=) e)"
    "pv_destroy_vm P ref True w = (Inl e, w') \<Longrightarrow> vm_raised P ref ((=) e)"
    "pv_wait_for_task P (Some h) n w = (Inl e, w') \<Longrightarrow> vm_raised P ref ((=) e)" for e w w' h n
    unfolding vm_raised_def by blast+
  have destroyed: "pv_destroy_vm P ref True w = (Inr h, w1) \<Longrightarrow> pv_wait_for_task P (Some h) 300 w1 = (Inr st, w2)
      \<Longrightarrow> vm_destroyed P ref" for w h w1 st w2
    unfolding vm_destroyed_def by blast
  have destroy: "wp (bnd (prov (CallDestroy ref) (pv_destroy_vm P ref True)) (\<lambda>h. wait_task P (Some h) 300))
      (\<lambda>_ _. vm_destroyed P ref) (\<lambda>e _. vm_raised P ref ((=) e)) t" for t
    unfolding wait_task_def wp_bnd wp_andthen wp_ret
    by (rule wp_prov, rule wp_prov) (auto intro: calls destroyed)
  have stop: "wp (do_when b (bnd (prov (CallStop ref) (pv_stop_vm P ref)) (\<lambda>h. wait_task P (Some h) 30)))
      (\<lambda>_ _. True) (\<lambda>e _. vm_raised P ref ((=) e)) t" for b t
    unfolding do_when_def wait_task_def wp_if wp_bnd wp_andthen wp_ret
    by (auto intro!: wp_prov intro: calls)
  show ?thesis
    unfolding destroy_for_cascade_def wp_bnd wp_andthen
    by (rule wp_prov) (auto intro: calls wp_mono [OF stop] destroy [unfolded wp_bnd])
qed

lemma destroy_one_outcome:
  "wp (destroy_one E P j)
     (\<lambda>r t. if r then get_desktop_row j (committed s) = None \<and> committed t = committed s
          \<or> (\<exists>d. get_desktop_row j (committed s) = Some d \<and> committed t = delete_desktop_row j (committed s)
               \<and> (vm_destroyed P (desktop_vm_ref P d) \<or> vm_raised P (desktop_vm_ref P d) is_provider_not_found))
        else (\<exists>d f. get_desktop_row j (committed s) = Some d \<and> keeps_identity f \<and> (\<forall>d. d_status (f d) = D_ERROR)
               \<and> committed t = patch_desktop j f (committed s)
               \<and> vm_raised P (desktop_vm_ref P d) (\<lambda>e. is_provider_error e \<and> \<not> is_provider_not_found e)))
     (\<lambda>e t. committed t = committed s \<and> (\<exists>d. get_desktop_row j (committed s) = Some d
        \<and> vm_raised P (desktop_vm_ref P d) (\<lambda>e. \<not> is_provider_error e))) s"
proof (cases "get_desktop_row j (committed s)")
  case None
  then show ?thesis by (simp add: wp_def destroy_one_def exec_simps)
next
  case (Some d)
  let ?s = "s\<lparr>work := committed s\<rparr>" and ?ref = "desktop_vm_ref P d"
  obtain r t where run: "destroy_for_cascade P ?ref ?s = (r, t)"
    by (cases "destroy_for_cascade P ?ref ?s")
  with destroy_for_cascade_db [of P ?ref ?s]
  have t: "committed t = committed s" "work t = committed s" by simp_all
  show ?thesis
  proof (cases r)
    case (Inr x)
    with destroy_for_cascade_result [of P ?ref ?s] run have "vm_destroyed P ?ref" by (simp add: wp_def)
    with Some run t Inr show ?thesis by (simp add: wp_def destroy_one_def exec_simps)
  next
    case (Inl e)
    with destroy_for_cascade_result [of P ?ref ?s] run have e: "vm_raised P ?ref ((=) e)" by (simp add: wp_def)
    let ?f = "\<lambda>d. (mark_cascade_failed e d)\<lparr>d_updated_at := e_now E (world t)\<rparr>"
    have "keeps_identity ?f" "\<forall>d. d_status (?f d) = D_ERROR"
      by (simp_all add: keeps_identity_def mark_cascade_failed_def)
    then show ?thesis
      using Some run t Inl vm_raised_mono [OF e]
      by (auto simp: wp_def destroy_one_def exec_simps)
  qed
qed

lemma pres_destroy_cascaded:
  assumes "pool_owns i j db0"
  shows "pres (\<lambda>s. cascaded i db0 (committed s)) (attempt (destroy_one E P j))"
proof (intro pres_attempt, unfold pres_def, intro allI impI)
  fix s :: "'a st" assume c: "cascaded i db0 (committed s)"
  then have own: "\<And>d. d \<in> set (desktops (committed s)) \<Longrightarrow> d_id d = j \<Longrightarrow> d_pool_id d = i"
    using cascaded_owns [OF c assms] by (auto simp: pool_owns_def)
  have "wp (destroy_one E P j) (\<lambda>_ t. cascaded i db0 (committed t)) (\<lambda>_ t. cascaded i db0 (committed t)) s"
    by (rule wp_mono [OF destroy_one_outcome])
      (use c own cascaded_delete [OF c own] cascaded_patch [OF c own] in \<open>auto split: if_splits\<close>)
  then show "cascaded i db0 (committed (snd (destroy_one E P j s)))" by (simp add: wp_snd)
qed

definition no_desktop :: "uuid \<Rightarrow> db \<Rightarrow> bool" where
  "no_desktop j db \<longleftrightarrow> (\<forall>d\<in>set (desktops db). d_id d \<noteq> j)"

lemma no_desktop_stays:
  "no_desktop j db \<Longrightarrow> no_desktop j (delete_desktop_row k db)"
  "no_desktop j db \<Longrightarrow> keeps_identity f \<Longrightarrow> no_desktop j (patch_desktop k f db)"
  by (auto simp: no_desktop_def delete_desktop_row_def patch_desktop_def keeps_identity_fields)

lemma pres_no_desktop: "pres (\<lambda>t. no_desktop j (committed t)) (attempt (destroy_one E P k))"
proof (intro pres_attempt, unfold pres_def, intro allI impI)
  fix u :: "'a st" assume u: "no_desktop j (committed u)"
  have "wp (destroy_one E P k) (\<lambda>_ t. no_desktop j (committed t)) (\<lambda>_ t. no_desktop j (committed t)) u"
    by (rule wp_mono [OF destroy_one_outcome])
      (use u no_desktop_stays [OF u] in \<open>auto split: if_splits\<close>)
  then show "no_desktop j (committed (snd (destroy_one E P k u)))" by (simp add: wp_snd)
qed

lemma map_eff_destroyed:
  "wp (map_eff (\<lambda>j. attempt (destroy_one E P j)) ids)
     (\<lambda>rs t. length rs = length ids
        \<and> (list_all (\<lambda>r. r = Inr True) rs \<longrightarrow> (\<forall>j\<in>set ids. no_desktop j (committed t))))
     (\<lambda>e t. False) s"
proof (induction ids arbitrary: s)
  case (Cons j ids)
  have *: "wp (destroy_one E P j) (\<lambda>r t. r \<longrightarrow> no_desktop j (committed t)) (\<lambda>e t. True) s"
    by (rule wp_mono [OF destroy_one_outcome])
      (auto simp: no_desktop_def delete_desktop_row_def get_desktop_row_None split: if_splits)
  have rest: "wp (map_eff (\<lambda>j. attempt (destroy_one E P j)) ids)
      (\<lambda>rs t. length rs = length ids \<and> (r = Inr True \<and> list_all (\<lambda>r. r = Inr True) rs \<longrightarrow>
         no_desktop j (committed t) \<and> (\<forall>j\<in>set ids. no_desktop j (committed t)))) (\<lambda>e t. False) u"
    if r: "r = Inr True \<longrightarrow> no_desktop j (committed u)" for r :: "exn + bool" and u
  proof -
    have "pres (\<lambda>t. r = Inr True \<longrightarrow> no_desktop j (committed t)) (map_eff (\<lambda>j. attempt (destroy_one E P j)) ids)"
      using pres_map_eff [where J = "\<lambda>t. no_desktop j (committed t)", OF pres_no_desktop]
      by (cases "r = Inr True") (simp_all add: pres_def)
    from presD [OF this r] Cons.IH [of u] show ?thesis
      by (auto simp: wp_def split: prod.splits sum.splits)
  qed
  show ?case
    unfolding map_eff.simps wp_bnd wp_attempt wp_ret_fun
    by (rule wp_mono [OF *]) (auto intro!: wp_mono [OF rest])
qed (simp add: wp_simps)

lemma finish_pool_delete_run:
  assumes "get_pool_row i (committed s) = Some p"
  shows "if \<exists>d\<in>set (desktops (committed s)). d_pool_id d = i
    then committed (snd (finish_pool_delete E i n s)) = committed s
    else \<exists>mk. committed (snd (finish_pool_delete E i n s)) = delete_pool_row i (add_audit mk (committed s))"
  using assms by (auto simp: finish_pool_delete_def exec_simps log_business_event_def)

lemma delete_pool_row_simps [simp]:
  "desktops (delete_pool_row i db) = desktops db" "get_pool_row i (delete_pool_row i db) = None"
  by (auto simp: delete_pool_row_def get_pool_row_None)

text \<open>
  Where the cascade stands with one desktop of the pool: its row is gone and so is its VM, the row is marked
  after a \<open>ProviderError\<close>, or it is as it was, which at the end means another exception.
\<close>

definition cascade_fate :: "'w provider \<Rightarrow> bool \<Rightarrow> desktop \<Rightarrow> db \<Rightarrow> bool" where
  "cascade_fate P over d db \<longleftrightarrow> (case get_desktop_row (d_id d) db of
       None \<Rightarrow> vm_destroyed P (desktop_vm_ref P d) \<or> vm_raised P (desktop_vm_ref P d) is_provider_not_found
     | Some x \<Rightarrow> same_place x d \<and> d_status x = D_ERROR
           \<and> vm_raised P (desktop_vm_ref P d) (\<lambda>e. is_provider_error e \<and> \<not> is_provider_not_found e)
         \<or> x = d \<and> (over \<longrightarrow> vm_raised P (desktop_vm_ref P d) (\<lambda>e. \<not> is_provider_error e)))"

lemma get_desktop_row_delete:
  "get_desktop_row k (delete_desktop_row j db) = (if k = j then None else get_desktop_row k db)"
proof -
  have found: "find (\<lambda>d. d_id d = k) (filter (\<lambda>d. d_id d \<noteq> j) ds) = (if k = j then None else find (\<lambda>d. d_id d = k) ds)" for ds
    by (induction ds) auto
  have "desktops (delete_desktop_row j db) = filter (\<lambda>d. d_id d \<noteq> j) (desktops db)"
    by (simp add: delete_desktop_row_def)
  then show ?thesis by (simp only: get_desktop_row_def found)
qed

lemma same_place_ref: "same_place x d \<Longrightarrow> desktop_vm_ref P x = desktop_vm_ref P d"
  by (simp add: same_place_def desktop_vm_ref_def)

lemma cascade_fate_step:
  assumes "cascade_fate P over d (committed s)"
  shows "wp (destroy_one E P j) (\<lambda>_ t. cascade_fate P (over \<or> d_id d = j) d (committed t))
    (\<lambda>_ t. cascade_fate P (over \<or> d_id d = j) d (committed t)) s"
proof (rule wp_mono [OF destroy_one_outcome])
  have patched: "cascade_fate P (over \<or> d_id d = j) d (patch_desktop j f (committed s))"
    if "get_desktop_row j (committed s) = Some x" "keeps_identity f" "\<forall>d. d_status (f d) = D_ERROR"
      "vm_raised P (desktop_vm_ref P x) (\<lambda>e. is_provider_error e \<and> \<not> is_provider_not_found e)" for x f
  proof (cases "d_id d = j")
    case True
    with that assms show ?thesis
      by (auto simp: cascade_fate_def get_desktop_patch keeps_identity_fields same_place_def desktop_vm_ref_def)
  next
    case False
    with that assms show ?thesis
      by (auto simp: cascade_fate_def get_desktop_patch keeps_identity_fields dest: get_desktop_rowD split: option.splits)
  qed
  have deleted: "cascade_fate P (over \<or> d_id d = j) d (delete_desktop_row j (committed s))"
    if "get_desktop_row j (committed s) = Some x"
      "vm_destroyed P (desktop_vm_ref P x) \<or> vm_raised P (desktop_vm_ref P x) is_provider_not_found" for x
  proof (cases "d_id d = j")
    case True
    with that assms show ?thesis
      by (auto simp: cascade_fate_def get_desktop_row_delete dest: same_place_ref [of _ _ P])
  qed (use assms in \<open>simp add: cascade_fate_def get_desktop_row_delete\<close>)
  fix r t
  assume "if r then get_desktop_row j (committed s) = None \<and> committed t = committed s
          \<or> (\<exists>d. get_desktop_row j (committed s) = Some d \<and> committed t = delete_desktop_row j (committed s)
               \<and> (vm_destroyed P (desktop_vm_ref P d) \<or> vm_raised P (desktop_vm_ref P d) is_provider_not_found))
        else (\<exists>d f. get_desktop_row j (committed s) = Some d \<and> keeps_identity f \<and> (\<forall>d. d_status (f d) = D_ERROR)
               \<and> committed t = patch_desktop j f (committed s)
               \<and> vm_raised P (desktop_vm_ref P d) (\<lambda>e. is_provider_error e \<and> \<not> is_provider_not_found e))"
  then show "cascade_fate P (over \<or> d_id d = j) d (committed t)"
    using assms deleted patched
    by (cases "d_id d = j") (auto simp: cascade_fate_def split: if_splits)
next
  fix e t
  assume "committed t = committed s \<and> (\<exists>x. get_desktop_row j (committed s) = Some x
      \<and> vm_raised P (desktop_vm_ref P x) (\<lambda>e. \<not> is_provider_error e))"
  then show "cascade_fate P (over \<or> d_id d = j) d (committed t)"
    using assms by (cases "d_id d = j") (auto simp: cascade_fate_def)
qed

lemma cascade_fates:
  assumes "cascade_fate P over d (committed s)"
  shows "wp (map_eff (\<lambda>j. attempt (destroy_one E P j)) ids)
    (\<lambda>_ t. cascade_fate P (over \<or> d_id d \<in> set ids) d (committed t)) (\<lambda>_ _. False) s"
  using assms
proof (induction ids arbitrary: s over)
  case (Cons j ids)
  show ?case
    unfolding map_eff.simps wp_bnd wp_attempt wp_ret_fun
    by (rule wp_mono [OF cascade_fate_step [OF Cons.prems]]; rule wp_mono [OF Cons.IH]) auto
qed (simp add: wp_simps)

text \<open>A desktop whose destroy did not succeed keeps its row.\<close>

lemma cascade_keeps_failed:
  assumes "distinct ids"
  shows "wp (map_eff (\<lambda>j. attempt (destroy_one E P j)) ids)
    (\<lambda>rs t. list_all (\<lambda>r. r = Inr True) rs \<or> (\<exists>j\<in>set ids. get_desktop_row j (committed t) \<noteq> None)) (\<lambda>_ _. False) s"
  using assms
proof (induction ids arbitrary: s)
  case (Cons j ids s)
  let ?m = "map_eff (\<lambda>j. attempt (destroy_one E P j)) ids"
  have stays: "pres (\<lambda>t. get_desktop_row j (committed t) \<noteq> None) ?m"
  proof (rule pres_map_eff_mem, rule pres_attempt, unfold pres_def, intro allI impI)
    fix k and u :: "'a st" assume k: "k \<in> set ids" and s: "get_desktop_row j (committed u) \<noteq> None"
    have "wp (destroy_one E P k) (\<lambda>_ t. get_desktop_row j (committed t) \<noteq> None)
        (\<lambda>_ t. get_desktop_row j (committed t) \<noteq> None) u"
      by (rule wp_mono [OF destroy_one_outcome])
        (use k s Cons.prems in \<open>auto simp: get_desktop_row_delete get_desktop_patch keeps_identity_fields split: if_splits\<close>)
    then show "get_desktop_row j (committed (snd (destroy_one E P k u))) \<noteq> None" by (simp add: wp_snd)
  qed
  have head: "wp (destroy_one E P j) (\<lambda>r t. r \<or> get_desktop_row j (committed t) \<noteq> None)
      (\<lambda>_ t. get_desktop_row j (committed t) \<noteq> None) s"
    by (rule wp_mono [OF destroy_one_outcome]) (auto simp: get_desktop_patch keeps_identity_fields split: if_splits)
  have rest: "wp ?m (\<lambda>rs t. list_all (\<lambda>r. r = Inr True) (r # rs) \<or> (\<exists>k\<in>set (j # ids). get_desktop_row k (committed t) \<noteq> None))
      (\<lambda>_ _. False) t"
    if "r = Inr True \<or> get_desktop_row j (committed t) \<noteq> None" for r :: "exn + bool" and t
    using Cons.IH [of t] Cons.prems presD [OF stays, of t] that
    by (auto simp: wp_def split: prod.splits sum.splits)
  show ?case
    unfolding map_eff.simps wp_bnd wp_attempt wp_ret_fun
    by (rule wp_mono [OF head]; rule rest) simp_all
qed (simp add: wp_simps)

lemma cascaded_pool_desktop:
  assumes "cascaded i db0 db" "d \<in> set (desktops db)" "d_pool_id d = i"
  shows "d_id d \<in> set (map d_id (filter (\<lambda>d. d_pool_id d = i) (desktops db0)))"
  using assms by (force simp: cascaded_def same_place_def)

lemma get_desktop_row_unique:
  assumes "keys_unique db" "d \<in> set (desktops db)"
  shows "get_desktop_row (d_id d) db = Some d"
proof -
  have "find (\<lambda>x. d_id x = d_id d) ds = Some d" if "distinct (map d_id ds)" "d \<in> set ds" for ds
    using that by (induction ds) (auto simp: image_iff)
  with assms show ?thesis by (simp add: get_desktop_row_def keys_unique_def)
qed

lemma cascade_run:
  assumes "keys_unique (committed s)"
    and "map_eff (\<lambda>j. attempt (destroy_one E P j)) (map d_id (filter (\<lambda>d. d_pool_id d = i) (desktops (committed s))))
      (s\<lparr>work := committed s\<rparr>) = (r, u)"
  shows "cascaded i (committed s) (committed u) \<and> (\<exists>rs. r = Inr rs)
    \<and> (list_all (\<lambda>x. x = Inr True) (projr r) \<longleftrightarrow> (\<forall>d\<in>set (desktops (committed u)). d_pool_id d \<noteq> i))"
proof -
  let ?ids = "map d_id (filter (\<lambda>d. d_pool_id d = i) (desktops (committed s)))"
  let ?s = "s\<lparr>work := committed s\<rparr>"
  have own: "pool_owns i j (committed s)" if "j \<in> set ?ids" for j
    using that assms(1) by (auto simp: pool_owns_def keys_unique_def distinct_map dest: inj_onD)
  have "distinct ?ids" using assms(1) by (simp add: keys_unique_def distinct_map_filter)
  from cascade_keeps_failed [OF this, of E P ?s] map_eff_destroyed [of E P ?ids ?s] assms(2)
  obtain rs where rs: "r = Inr rs"
    and some: "list_all (\<lambda>x. x = Inr True) rs \<or> (\<exists>j\<in>set ?ids. get_desktop_row j (committed u) \<noteq> None)"
    and none: "list_all (\<lambda>x. x = Inr True) rs \<longrightarrow> (\<forall>j\<in>set ?ids. no_desktop j (committed u))"
    by (auto simp: wp_def split: sum.splits)
  have "pres (\<lambda>x. cascaded i (committed s) (committed x)) (map_eff (\<lambda>j. attempt (destroy_one E P j)) ?ids)"
    by (rule pres_map_eff_mem) (rule pres_destroy_cascaded [OF own])
  from presD [OF this, of ?s] assms(2) have c: "cascaded i (committed s) (committed u)"
    by (simp add: cascaded_refl)
  have own': "pool_owns i j (committed u)" if "j \<in> set ?ids" for j
    by (rule cascaded_owns [OF c own [OF that]])
  have "list_all (\<lambda>x. x = Inr True) rs \<longleftrightarrow> (\<forall>d\<in>set (desktops (committed u)). d_pool_id d \<noteq> i)"
  proof
    assume "list_all (\<lambda>x. x = Inr True) rs"
    with none show "\<forall>d\<in>set (desktops (committed u)). d_pool_id d \<noteq> i"
      using cascaded_pool_desktop [OF c] by (auto simp: no_desktop_def)
  next
    assume all: "\<forall>d\<in>set (desktops (committed u)). d_pool_id d \<noteq> i"
    have "\<forall>j\<in>set ?ids. get_desktop_row j (committed u) = None"
      using own' all unfolding pool_owns_def get_desktop_row_None by blast
    with some show "list_all (\<lambda>x. x = Inr True) rs" by auto
  qed
  with c rs show ?thesis by simp
qed

lemma delete_shim_ends:
  assumes "get_pool_row i (committed s) = Some p" "keys_unique (committed s)"
    and "providers (p_cluster_id p) = Some P" "t = snd (delete_pool_shim E providers i s)"
  obtains rs u where "map_eff (\<lambda>j. attempt (destroy_one E P j)) (map d_id (filter (\<lambda>d. d_pool_id d = i) (desktops (committed s))))
      (s\<lparr>work := committed s\<rparr>) = (Inr rs, u)"
    and "cascaded i (committed s) (committed u)" "desktops (committed t) = desktops (committed u)"
    and "if \<exists>d\<in>set (desktops (committed u)). d_pool_id d = i then get_pool_row i (committed t) = Some p
      else get_pool_row i (committed t) = None \<and> (\<forall>en\<in>set (entitlements (committed t)). en_pool_id en \<noteq> i)"
proof -
  let ?ids = "map d_id (filter (\<lambda>d. d_pool_id d = i) (desktops (committed s)))"
  let ?s = "s\<lparr>work := committed s\<rparr>"
  obtain r u where r: "map_eff (\<lambda>j. attempt (destroy_one E P j)) ?ids ?s = (r, u)" by fastforce
  from cascade_run [OF assms(2) r] obtain rs where rs: "r = Inr rs" by blast
  with cascade_run [OF assms(2) r] r have run: "map_eff (\<lambda>j. attempt (destroy_one E P j)) ?ids ?s = (Inr rs, u)"
    and c: "cascaded i (committed s) (committed u)"
    and left: "list_all (\<lambda>x. x = Inr True) rs \<longleftrightarrow> (\<forall>d\<in>set (desktops (committed u)). d_pool_id d \<noteq> i)"
    by simp_all
  have row: "get_pool_row i (committed u) = Some p" using c assms(1) by (simp add: cascaded_def get_pool_row_def)
  have t: "t = (if list_all (\<lambda>x. x = Inr True) rs then snd (finish_pool_delete E i (int (length rs)) u) else u)"
    using assms(1,3,4) run by (simp add: delete_pool_shim_def exec_simps split: if_splits)
  have ents: "en \<in> set (entitlements (delete_pool_row k db)) \<Longrightarrow> en_pool_id en \<noteq> k" for en k db
    by (simp add: delete_pool_row_def)
  have "desktops (committed t) = desktops (committed u)"
    and "if \<exists>d\<in>set (desktops (committed u)). d_pool_id d = i then get_pool_row i (committed t) = Some p
      else get_pool_row i (committed t) = None \<and> (\<forall>en\<in>set (entitlements (committed t)). en_pool_id en \<noteq> i)"
    using finish_pool_delete_run [OF row, of E "int (length rs)"] left t row by (auto split: if_splits dest: ents)
  with run c show thesis by (rule that)
qed

text \<open>
  Property C6. Deleting a pool never loses track of a VM. Whatever the hypervisor answers, the cascade
  leaves the desktops of other pools alone. The row of a desktop of the pool is gone only if the hypervisor destroyed
  its VM or said there is none; after any other \<open>ProviderError\<close> it stays in \<open>ERROR\<close> with its node and
  VMID, and after an exception of another kind it stays as it was. The pool's row, and its
  entitlements with it, is gone exactly when no desktop of the pool is left.
\<close>

theorem delete_cascade_outcome:
  assumes "get_pool_row i (committed s) = Some p" "keys_unique (committed s)"
    and "t = snd (delete_pool_shim E providers i s)"
  shows "filter (\<lambda>d. d_pool_id d \<noteq> i) (desktops (committed t)) = filter (\<lambda>d. d_pool_id d \<noteq> i) (desktops (committed s))
    \<and> (providers (p_cluster_id p) = None \<longrightarrow> committed t = committed s)
    \<and> (\<forall>P. providers (p_cluster_id p) = Some P \<longrightarrow>
        (\<forall>d\<in>set (desktops (committed s)). d_pool_id d = i \<longrightarrow>
          (case get_desktop_row (d_id d) (committed t) of
             None \<Rightarrow> vm_destroyed P (desktop_vm_ref P d) \<or> vm_raised P (desktop_vm_ref P d) is_provider_not_found
           | Some x \<Rightarrow> same_place x d \<and> d_status x = D_ERROR
                 \<and> vm_raised P (desktop_vm_ref P d) (\<lambda>e. is_provider_error e \<and> \<not> is_provider_not_found e)
               \<or> x = d \<and> vm_raised P (desktop_vm_ref P d) (\<lambda>e. \<not> is_provider_error e)))
        \<and> (if \<exists>d\<in>set (desktops (committed t)). d_pool_id d = i then get_pool_row i (committed t) = Some p
           else get_pool_row i (committed t) = None \<and> (\<forall>en\<in>set (entitlements (committed t)). en_pool_id en \<noteq> i)))"
proof (cases "providers (p_cluster_id p)")
  case None
  then have "committed t = committed s"
    using assms(1,3) by (simp add: delete_pool_shim_def exec_simps)
  with None show ?thesis by simp
next
  case (Some P)
  let ?ids = "map d_id (filter (\<lambda>d. d_pool_id d = i) (desktops (committed s)))"
  obtain rs u where run: "map_eff (\<lambda>j. attempt (destroy_one E P j)) ?ids (s\<lparr>work := committed s\<rparr>) = (Inr rs, u)"
    and c: "cascaded i (committed s) (committed u)" and desks: "desktops (committed t) = desktops (committed u)"
    and gone: "if \<exists>d\<in>set (desktops (committed u)). d_pool_id d = i then get_pool_row i (committed t) = Some p
      else get_pool_row i (committed t) = None \<and> (\<forall>en\<in>set (entitlements (committed t)). en_pool_id en \<noteq> i)"
    using assms(1,2) Some assms(3) by (rule delete_shim_ends)
  have fate: "cascade_fate P True d (committed t)" if "d \<in> set (desktops (committed s))" "d_pool_id d = i" for d
  proof -
    have "cascade_fate P False d (committed (s\<lparr>work := committed s\<rparr>))"
      using get_desktop_row_unique [OF assms(2) that(1)] by (simp add: cascade_fate_def)
    from cascade_fates [OF this, of E ?ids] run that have "cascade_fate P True d (committed u)" by (simp add: wp_def)
    then show ?thesis by (simp add: cascade_fate_def get_desktop_row_def desks)
  qed
  have "filter (\<lambda>d. d_pool_id d \<noteq> i) (desktops (committed t)) = filter (\<lambda>d. d_pool_id d \<noteq> i) (desktops (committed s))"
    using c desks by (simp add: cascaded_def)
  moreover have "\<forall>d\<in>set (desktops (committed s)). d_pool_id d = i \<longrightarrow> cascade_fate P True d (committed t)"
    using fate by blast
  ultimately show ?thesis using gone Some unfolding desks cascade_fate_def by (simp cong: option.case_cong)
qed

definition pool_with_desktop :: db where
  "pool_with_desktop = empty_db\<lparr>pools := [example_pool], desktops := [example_desktop]\<rparr>"

theorem delete_cascade_outcome_witness:
  "get_desktop_row 10 (committed (snd (delete_pool_shim sim_env sim_providers 1 (sim_st pool_with_desktop)))) = None"
proof -
  have a: "get_pool_row 1 (committed (sim_st pool_with_desktop)) = Some example_pool"
    by (simp add: pool_with_desktop_def get_pool_row_def)
  have b: "keys_unique (committed (sim_st pool_with_desktop))"
    by (simp add: pool_with_desktop_def keys_unique_def empty_db_def)
  have c: "sim_providers (p_cluster_id example_pool) = Some sim_provider" by (simp add: sim_providers_def)
  have d: "example_desktop \<in> set (desktops (committed (sim_st pool_with_desktop)))" "d_pool_id example_desktop = 1"
    "d_id example_desktop = 10"
    by (simp_all add: pool_with_desktop_def example_desktop_def)
  have quiet: "\<not> vm_raised sim_provider ref C" for ref and C
    by (auto simp: vm_raised_def sim_provider_def)
  from delete_cascade_outcome [OF a b refl, of sim_env sim_providers] c d show ?thesis
    by (auto simp: quiet split: option.splits)
qed

end
