(* ===== verification/Clusters_Api.thy ===== *)
theory Clusters_Api
  imports Health_Checker Pools_Api
begin

text \<open>
  \<open>broker/app/api/clusters.py\<close> with \<open>broker/app/schemas/cluster.py\<close>: registration with its
  one-shot ping, the detail view, the update with the rotation of credentials, and deletion.
  The handlers share \<open>app.state.providers\<close> with the health checker; a program over the
  tables and that state runs in the request's session by \<open>in_session_app\<close>. Texts of the
  answers are left out.
\<close>

section \<open>A request's session beside the application state\<close>

definition in_session_app :: "('w st \<times> 'm, 'a) eff \<Rightarrow> ('w st \<times> 'm, 'a) eff" where
  "in_session_app m = (\<lambda>(s, ap). case m (s\<lparr>work := committed s\<rparr>, ap) of
     (r, (s', ap')) \<Rightarrow> (r, (s'\<lparr>work := committed s'\<rparr>, ap')))"

lemma in_session_app_run [exec_simps]:
  "in_session_app m (s, ap) = (case m (s\<lparr>work := committed s\<rparr>, ap) of
     (r, (s', ap')) \<Rightarrow> (r, (s'\<lparr>work := committed s'\<rparr>, ap')))"
  by (simp add: in_session_app_def)

section \<open>Views\<close>

record cluster_read =
  clr_id :: uuid
  clr_name :: string
  clr_provider_type :: string
  clr_api_url :: string
  clr_token_id :: string
  clr_verify_ssl :: bool
  clr_node_filter :: "string option"
  clr_provider_config :: jval
  clr_status :: string
  clr_created_at :: int
  clr_updated_at :: int

text \<open>\<open>ClusterRead\<close> has no secret; like a pool's, its configuration must be an object.\<close>

definition cluster_view :: "cluster \<Rightarrow> exn + cluster_read" where
  "cluster_view c =
     (if is_jobj (c_provider_config c)
      then Inr \<lparr>clr_id = c_id c, clr_name = c_name c, clr_provider_type = c_provider_type c,
        clr_api_url = c_api_url c, clr_token_id = c_token_id c, clr_verify_ssl = c_verify_ssl c,
        clr_node_filter = c_node_filter c, clr_provider_config = c_provider_config c,
        clr_status = cluster_status_value (c_status c), clr_created_at = c_created_at c,
        clr_updated_at = c_updated_at c\<rparr>
      else Inl (PyValueError ''ClusterRead''))"

definition cluster_columns :: "(string \<times> (cluster \<Rightarrow> sort_val)) list" where
  "cluster_columns = [(''name'', SStr \<circ> c_name), (''created_at'', SInt \<circ> c_created_at),
     (''updated_at'', SInt \<circ> c_updated_at), (''status'', SStr \<circ> cluster_status_value \<circ> c_status)]"

definition list_clusters :: "pagination \<Rightarrow> ('w, cluster_read list) prog" where
  "list_clusters g = validated (pagination_ok g) (in_session (bnd (query clusters) (\<lambda>rows.
     bnd (lift_result (list_rows cluster_columns ''name'' g rows)) (\<lambda>page.
     map_eff (\<lambda>c. lift_result (cluster_view c)) page))))"

definition reread_cluster :: "uuid \<Rightarrow> ('w, cluster_read) prog" where
  "reread_cluster i = bnd (require_row (get_cluster_row i)) (\<lambda>c. lift_result (cluster_view c))"

text \<open>The node snapshot: a \<open>ProviderError\<close> leaves it empty; a status outside the literal fails.\<close>

definition node_view :: "node_info \<Rightarrow> exn + node_info" where
  "node_view n = (if n_status n \<in> {''online'', ''offline'', ''maintenance''} then Inr n
     else Inl (PyValueError ''NodeInfoRead''))"

definition get_cluster ::
    "(uuid \<Rightarrow> 'w provider option) \<Rightarrow> uuid \<Rightarrow> ('w, cluster_read \<times> node_info list) prog" where
  "get_cluster providers i = in_session (
     bnd (require_row (get_cluster_row i)) (\<lambda>c.
     bnd (case providers i of None \<Rightarrow> ret [] | Some P \<Rightarrow>
       bnd (catching is_provider_error (prov CallListNodes (pv_list_nodes P)) (\<lambda>_. ret [])) (\<lambda>ns.
       map_eff (\<lambda>n. lift_result (node_view n)) ns)) (\<lambda>nodes.
     bnd (lift_result (cluster_view c)) (\<lambda>v. ret (v, nodes)))))"

section \<open>Registration\<close>

record cluster_create =
  cc_name :: string
  cc_provider_type :: string
  cc_api_url :: string
  cc_token_id :: string
  cc_token_secret :: string
  cc_verify_ssl :: bool
  cc_node_filter :: "string option"
  cc_provider_config :: "(string \<times> jval) list"

definition cluster_of_create :: "cluster_create \<Rightarrow> uuid \<Rightarrow> string \<Rightarrow> int \<Rightarrow> cluster" where
  "cluster_of_create b i ciphertext at =
     \<lparr>c_id = i, c_name = cc_name b, c_provider_type = cc_provider_type b,
      c_api_url = cc_api_url b, c_token_id = cc_token_id b, c_token_secret = ciphertext,
      c_verify_ssl = cc_verify_ssl b, c_node_filter = cc_node_filter b,
      c_provider_config = JObj (cc_provider_config b), c_status = C_PENDING,
      c_created_at = at, c_updated_at = at\<rparr>"

definition close_quietly :: "'w provider \<Rightarrow> ('w, unit) prog" where
  "close_quietly P = catching (\<lambda>_. True) (prov CallClose (pv_close P)) (\<lambda>_. ret ())"

text \<open>\<open>ProviderType\<close> is the literal \<open>"proxmox"\<close>: the schema refuses any other.\<close>

definition create_cluster ::
    "'w env \<Rightarrow> 'w platform \<Rightarrow> cluster_create \<Rightarrow> ('w, cluster_read) prog" where
  "create_cluster E L b = validated (cc_provider_type b = ''proxmox'') (in_session (
     bnd (query (\<lambda>db. filter (\<lambda>c. c_name c = cc_name b) (clusters db))) (\<lambda>rows.
     bnd (scalar_one_or_none rows) (\<lambda>existing.
     if existing \<noteq> None then throw conflict
     else (case get_provider_class L (cc_provider_type b) of Inl _ \<Rightarrow> throw bad_request | Inr cls \<Rightarrow>
       bnd (lift_result (encrypt_secret L (cc_token_secret b))) (\<lambda>ciphertext.
       bnd (gen_uuid E) (\<lambda>i.
       bnd (now E) (\<lambda>at.
       andthen (insert_cluster (cluster_of_create b i ciphertext at))
       (andthen commit
       (bnd (lift_result (cls (cc_api_url b) (cc_token_id b) (cc_token_secret b) (cc_verify_ssl b))) (\<lambda>P.
       bnd (attempt (prov CallPing (pv_ping P))) (\<lambda>r.
       andthen (close_quietly P)
       (andthen (set_cluster E i (\<lambda>c. c\<lparr>c_status := status_of_ping r\<rparr>))
       (andthen commit (reread_cluster i)))))))))))))))"

section \<open>Update and rotation\<close>

text \<open>Outer \<open>None\<close>: the field is not in the body; inner \<open>None\<close>: an explicit null.\<close>

record cluster_update =
  cu_name :: "string option option"
  cu_provider_type :: "string option option"
  cu_api_url :: "string option option"
  cu_token_id :: "string option option"
  cu_token_secret :: "string option option"
  cu_verify_ssl :: "bool option option"
  cu_node_filter :: "string option option"
  cu_provider_config :: "(string \<times> jval) list option option"

definition cluster_update_valid :: "cluster_update \<Rightarrow> bool" where
  "cluster_update_valid u \<longleftrightarrow> (case cu_provider_type u of Some (Some t) \<Rightarrow> t = ''proxmox'' | _ \<Rightarrow> True)"

definition submits_credentials :: "cluster_update \<Rightarrow> bool" where
  "submits_credentials u \<longleftrightarrow> cu_api_url u \<noteq> None \<or> cu_token_id u \<noteq> None
     \<or> cu_token_secret u \<noteq> None \<or> cu_verify_ssl u \<noteq> None"

text \<open>A submitted value that is not the stored one.\<close>

definition differs :: "'a option option \<Rightarrow> 'a \<Rightarrow> bool" where
  "differs f old \<longleftrightarrow> f \<noteq> None \<and> f \<noteq> Some (Some old)"

definition credentials_changed :: "'w platform \<Rightarrow> cluster_update \<Rightarrow> cluster \<Rightarrow> exn + bool" where
  "credentials_changed L u c =
     (if \<not> submits_credentials u then Inr False
      else (case decrypt_secret L (c_token_secret c) of Inl e \<Rightarrow> Inl e | Inr plain \<Rightarrow>
        Inr (differs (cu_token_secret u) plain \<or> differs (cu_api_url u) (c_api_url c)
             \<or> differs (cu_token_id u) (c_token_id c) \<or> differs (cu_verify_ssl u) (c_verify_ssl c))))"

definition apply_other :: "cluster_update \<Rightarrow> cluster \<Rightarrow> cluster" where
  "apply_other u c = c\<lparr>
     c_name := set_required (cu_name u) (c_name c),
     c_provider_type := set_required (cu_provider_type u) (c_provider_type c),
     c_node_filter := set_nullable (cu_node_filter u) (c_node_filter c),
     c_provider_config := set_json (cu_provider_config u) (c_provider_config c)\<rparr>"

text \<open>The secret to store: \<open>encrypt_secret(None)\<close> fails on \<open>None.encode()\<close>.\<close>

definition new_ciphertext :: "'w platform \<Rightarrow> cluster_update \<Rightarrow> cluster \<Rightarrow> exn + string" where
  "new_ciphertext L u c = (case cu_token_secret u of
       None \<Rightarrow> Inr (c_token_secret c)
     | Some None \<Rightarrow> Inl (PyAttributeError ''encode'')
     | Some (Some plain) \<Rightarrow> encrypt_secret L plain)"

definition apply_credentials :: "cluster_update \<Rightarrow> string \<Rightarrow> cluster \<Rightarrow> cluster" where
  "apply_credentials u ciphertext c = (apply_other u c)\<lparr>
     c_api_url := set_required (cu_api_url u) (c_api_url c),
     c_token_id := set_required (cu_token_id u) (c_token_id c),
     c_token_secret := ciphertext,
     c_verify_ssl := set_required (cu_verify_ssl u) (c_verify_ssl c),
     c_status := C_PENDING\<rparr>"

text \<open>What the flush refuses: a null in a NOT NULL column, a name another cluster has.\<close>

definition cluster_violation :: "cluster_update \<Rightarrow> uuid \<Rightarrow> db \<Rightarrow> bool" where
  "cluster_violation u i db \<longleftrightarrow> cu_name u = Some None \<or> cu_provider_type u = Some None
     \<or> cu_api_url u = Some None \<or> cu_token_id u = Some None \<or> cu_verify_ssl u = Some None
     \<or> (\<exists>c\<in>set (clusters db). c_id c \<noteq> i \<and> cu_name u = Some (Some (c_name c)))"

definition write_cluster ::
    "'w env \<Rightarrow> cluster_update \<Rightarrow> cluster \<Rightarrow> (cluster \<Rightarrow> cluster) \<Rightarrow> ('w, unit) prog" where
  "write_cluster E u c f = bnd (query (cluster_violation u (c_id c))) (\<lambda>bad.
     if bad then throw (IntegrityError ''clusters'')
     else andthen (do_when (f c \<noteq> c) (set_cluster E (c_id c) f)) commit)"

definition put_provider :: "uuid \<Rightarrow> 'w provider \<Rightarrow> 'w app \<Rightarrow> 'w app" where
  "put_provider i P ap = ap\<lparr>ap_providers := AList.update i P (ap_providers ap)\<rparr>"

definition credential_fields :: "cluster_update \<Rightarrow> jval" where
  "credential_fields u = JList (map (\<lambda>(f, b). JStr f) (filter snd
     [(''api_url'', cu_api_url u \<noteq> None), (''token_id'', cu_token_id u \<noteq> None),
      (''token_secret'', cu_token_secret u \<noteq> None), (''verify_ssl'', cu_verify_ssl u \<noteq> None)]))"

definition install_rotated ::
    "'w env \<Rightarrow> cluster_update \<Rightarrow> cluster \<Rightarrow> 'w provider \<Rightarrow> string \<Rightarrow> string option \<Rightarrow>
     ('w, cluster_read) aprog" where
  "install_rotated E u c P actor ip =
     bnd (get_memory (\<lambda>ap. app_providers ap (c_id c))) (\<lambda>old.
     andthen (set_memory (put_provider (c_id c) P))
     (andthen (case old of None \<Rightarrow> ret () | Some Q \<Rightarrow> safely_close Q)
     (on_store (andthen
        (log_business_event E actor ''cluster.credentials.rotated'' (Some ''cluster'') (Some (c_id c))
           [(''cluster_name'', JStr (c_name c)), (''fields_changed'', credential_fields u)] ip)
        (andthen commit (reread_cluster (c_id c)))))))"

definition rotate_credentials ::
    "'w env \<Rightarrow> 'w platform \<Rightarrow> cluster_update \<Rightarrow> cluster \<Rightarrow> string \<Rightarrow> string option \<Rightarrow>
     ('w, cluster_read) aprog" where
  "rotate_credentials E L u c actor ip =
     bnd (on_store (lift_result (new_ciphertext L u c))) (\<lambda>ciphertext.
     andthen (on_store (write_cluster E u c (apply_credentials u ciphertext)))
     (bnd (on_store (require_row (get_cluster_row (c_id c)))) (\<lambda>c1.
     case construct_provider L c1 of Inl _ \<Rightarrow> throw bad_request | Inr P \<Rightarrow>
     bnd (on_store (ping_and_update_status E (c_id c) P)) (\<lambda>st.
     if st \<noteq> C_ACTIVE
     then andthen (safely_close P) (throw (HTTPException 502 ''PROVIDER_ERROR''))
     else install_rotated E u c1 P actor ip))))"

definition update_cluster ::
    "'w env \<Rightarrow> 'w platform \<Rightarrow> uuid \<Rightarrow> cluster_update \<Rightarrow> string \<Rightarrow> string option \<Rightarrow>
     ('w, cluster_read) aprog" where
  "update_cluster E L i u actor ip =
     (if \<not> cluster_update_valid u then throw (HTTPException 422 ''INVALID_REQUEST'')
      else in_session_app (
        bnd (on_store (require_row (get_cluster_row i))) (\<lambda>c.
        bnd (on_store (lift_result (credentials_changed L u c))) (\<lambda>changed.
        if \<not> changed
        then on_store (andthen (write_cluster E u c (apply_other u)) (reread_cluster i))
        else rotate_credentials E L u c actor ip))))"

section \<open>Deletion\<close>

definition cluster_in_use :: "uuid \<Rightarrow> db \<Rightarrow> bool" where
  "cluster_in_use i db \<longleftrightarrow> (\<exists>p\<in>set (pools db). p_cluster_id p = i)
     \<or> (\<exists>t\<in>set (templates db). t_cluster_id t = i)"

definition delete_cluster ::
    "'w env \<Rightarrow> uuid \<Rightarrow> string \<Rightarrow> string option \<Rightarrow> ('w, unit) aprog" where
  "delete_cluster E i actor ip = in_session_app (
     bnd (on_store (require_row (get_cluster_row i))) (\<lambda>c.
     bnd (on_store (query (cluster_in_use i))) (\<lambda>used.
     if used then throw conflict
     else
       bnd (get_memory (\<lambda>ap. app_providers ap i)) (\<lambda>old.
       andthen (set_memory (pop_provider i))
       (andthen (on_store (andthen
          (log_business_event E actor ''cluster.delete'' (Some ''cluster'') (Some i)
             [(''cluster_name'', JStr (c_name c)), (''provider_type'', JStr (c_provider_type c))] ip)
          (andthen (delete_cluster_checked i) commit)))
       (case old of None \<Rightarrow> ret () | Some P \<Rightarrow> safely_close P))))))"

section \<open>Invariants\<close>

lemma cluster_writes_keep_id [simp]:
  "c_id (apply_other u c) = c_id c" "c_id (apply_credentials u ct c) = c_id c"
  by (simp_all add: apply_other_def apply_credentials_def)

lemma pres_in_session_app:
  assumes "\<And>s. J s \<Longrightarrow> J (s\<lparr>work := committed s\<rparr>)" "pres (\<lambda>x. J (fst x)) m"
  shows "pres (\<lambda>x. J (fst x)) (in_session_app m)"
  unfolding pres_def
proof (intro allI impI)
  fix x :: "'a st \<times> 'b" assume "J (fst x)"
  with assms(1) have "J (fst ((fst x)\<lparr>work := committed (fst x)\<rparr>, snd x))" by simp
  with presD [OF assms(2) this] assms(1) show "J (fst (snd (in_session_app m x)))"
    by (cases x) (auto simp: exec_simps split: prod.splits)
qed

context db_writes begin

lemma both_reset: "both I s \<Longrightarrow> both I (s\<lparr>work := committed s\<rparr>)"
  by (simp add: both_def)

lemma pres_list_clusters: "pres (both I) (list_clusters g)"
  unfolding list_clusters_def by (intro pres_intros pres_api)

lemma pres_reread_cluster: "pres (both I) (reread_cluster i)"
  unfolding reread_cluster_def by (intro pres_intros pres_api)

lemma pres_get_cluster: "pres (both I) (get_cluster providers i)"
  unfolding get_cluster_def by (intro pres_intros pres_api)

lemma pres_write_cluster: "(\<And>x. c_id (f x) = c_id x) \<Longrightarrow> pres (both I) (write_cluster E u c f)"
  unfolding write_cluster_def by (intro pres_intros pres_api)

lemma pres_update_cluster: "pres (\<lambda>x. both I (fst x)) (update_cluster E L i u actor ip)"
  unfolding update_cluster_def rotate_credentials_def install_rotated_def
  by (intro pres_intros pres_in_session_app both_reset pres_on_store pres_memory pres_safely_close
      pres_write_cluster pres_reread_cluster pres_ping_and_update_status pres_api)
    simp_all

end

context db_catalogue begin

lemma pres_create_cluster: "pres (both I) (create_cluster E L b)"
  unfolding create_cluster_def close_quietly_def
  by (intro pres_intros pres_api pres_reread_cluster pres_catalogue) simp

lemma pres_delete_cluster: "pres (\<lambda>x. both I (fst x)) (delete_cluster E i actor ip)"
  unfolding delete_cluster_def
  by (intro pres_intros pres_in_session_app both_reset pres_on_store pres_memory pres_safely_close
      pres_catalogue pres_api)

end

section \<open>Rotation\<close>

lemma get_cluster_patch:
  "(\<And>c. c_id (f c) = c_id c) \<Longrightarrow> get_cluster_row j (patch_cluster i f db)
    = map_option (\<lambda>c. if j = i then f c else c) (get_cluster_row j db)"
  unfolding get_cluster_row_def patch_cluster_def by (simp add: find_map_key)

text \<open>Equal up to status and stamp, which neither decides how a provider is constructed.\<close>

definition same_settings :: "cluster \<Rightarrow> cluster \<Rightarrow> bool" where
  "same_settings x y \<longleftrightarrow> x\<lparr>c_status := C_PENDING, c_updated_at := 0\<rparr> = y\<lparr>c_status := C_PENDING, c_updated_at := 0\<rparr>"

lemma same_settingsD:
  assumes "same_settings x y"
  shows "c_id x = c_id y" "c_api_url x = c_api_url y" "c_token_id x = c_token_id y"
    "c_token_secret x = c_token_secret y" "c_verify_ssl x = c_verify_ssl y"
    "c_provider_type x = c_provider_type y" "c_provider_config x = c_provider_config y"
    "construct_provider L x = construct_provider L y"
proof -
  let ?n = "\<lambda>z. z\<lparr>c_status := C_PENDING, c_updated_at := 0\<rparr>"
  have e: "?n x = ?n y" using assms by (simp add: same_settings_def)
  from arg_cong [OF e, of c_id] show "c_id x = c_id y" by simp
  from arg_cong [OF e, of c_api_url] show a: "c_api_url x = c_api_url y" by simp
  from arg_cong [OF e, of c_token_id] show b: "c_token_id x = c_token_id y" by simp
  from arg_cong [OF e, of c_token_secret] show c: "c_token_secret x = c_token_secret y" by simp
  from arg_cong [OF e, of c_verify_ssl] show d: "c_verify_ssl x = c_verify_ssl y" by simp
  from arg_cong [OF e, of c_provider_type] show f: "c_provider_type x = c_provider_type y" by simp
  from arg_cong [OF e, of c_provider_config] show "c_provider_config x = c_provider_config y" by simp
  show "construct_provider L x = construct_provider L y"
    by (simp add: construct_provider_def a b c d f cong: sum.case_cong)
qed

lemma same_settings_simps [simp]:
  "same_settings x x" "same_settings (x\<lparr>c_updated_at := t\<rparr>) x"
  "same_settings (x\<lparr>c_status := st, c_updated_at := t\<rparr>) x"
  by (simp_all add: same_settings_def)

lemma write_cluster_run:
  assumes "get_cluster_row (c_id c) (work s) = Some c" "\<And>x. c_id (f x) = c_id x"
  shows "write_cluster E u c f s = (Inl (IntegrityError ''clusters''), s)
    \<or> (\<exists>s' c1. write_cluster E u c f s = (Inr (), s') \<and> work s' = committed s'
         \<and> world s' = world s \<and> calls s' = calls s
         \<and> get_cluster_row (c_id c) (committed s') = Some c1 \<and> c_id c1 = c_id c
         \<and> same_settings c1 (f c) \<and> c_status c1 = c_status (f c))"
  using assms
  by (cases "f c = c") (auto simp: write_cluster_def exec_simps get_cluster_patch)

lemma ping_run:
  assumes "get_cluster_row i (committed s) = Some c"
  shows "\<exists>s' c' st. ping_and_update_status E i P s = (Inr st, s') \<and> work s' = committed s'
    \<and> get_cluster_row i (committed s') = Some c' \<and> same_settings c' c \<and> c_status c' = st
    \<and> st \<in> {C_ACTIVE, C_OFFLINE}"
proof -
  obtain r w where r: "pv_ping P (world s) = (r, w)" by (cases "pv_ping P (world s)")
  have st: "status_of_ping r \<in> {C_ACTIVE, C_OFFLINE}"
    by (auto simp: status_of_ping_def split: sum.splits bool.splits)
  show ?thesis
    by (cases "c_status c = status_of_ping r")
      (use assms r st in \<open>simp_all add: ping_and_update_status_def exec_simps Let_def
        log_business_event_def get_cluster_patch\<close>)
qed

lemma safely_close_memory:
  "\<exists>s'. safely_close P (s, ap) = (Inr (), (s', ap)) \<and> committed s' = committed s \<and> work s' = work s"
  by (auto simp: safely_close_def exec_simps split: prod.splits sum.splits)

text \<open>The committed row holds the submitted credentials.\<close>

definition has_credentials :: "cluster_update \<Rightarrow> cluster \<Rightarrow> cluster \<Rightarrow> bool" where
  "has_credentials u c c' \<longleftrightarrow> c_api_url c' = set_required (cu_api_url u) (c_api_url c)
     \<and> c_token_id c' = set_required (cu_token_id u) (c_token_id c)
     \<and> c_verify_ssl c' = set_required (cu_verify_ssl u) (c_verify_ssl c)"

lemma has_credentials_applied:
  "same_settings c' (apply_credentials u ct c) \<Longrightarrow> has_credentials u c c'"
  by (auto simp: has_credentials_def apply_credentials_def dest: same_settingsD)

lemma install_rotated_run:
  assumes "get_cluster_row (c_id c) (committed s) = Some c'" "is_jobj (c_provider_config c')"
    and "work s = committed s"
  shows "\<exists>v s' ap'. install_rotated E u c P actor ip (s, ap) = (Inr v, (s', ap'))
    \<and> get_cluster_row (c_id c) (committed s') = Some c'
    \<and> app_providers ap' = (app_providers ap)(c_id c \<mapsto> P)"
proof -
  let ?ap = "put_provider (c_id c) P ap"
  have ap: "app_providers ?ap = (app_providers ap)(c_id c \<mapsto> P)"
    by (simp add: put_provider_def app_providers_def update_conv')
  have close: "\<exists>s1. (case app_providers ap (c_id c) of None \<Rightarrow> ret () | Some Q \<Rightarrow> safely_close Q) (s, ?ap)
      = (Inr (), (s1, ?ap)) \<and> committed s1 = committed s \<and> work s1 = work s"
    using safely_close_memory [of _ s ?ap] by (cases "app_providers ap (c_id c)") (simp_all add: exec_simps)
  then obtain s1 where s1: "(case app_providers ap (c_id c) of None \<Rightarrow> ret () | Some Q \<Rightarrow> safely_close Q) (s, ?ap)
      = (Inr (), (s1, ?ap))" "committed s1 = committed s" "work s1 = work s" by blast
  with assms ap show ?thesis
    by (simp add: install_rotated_def exec_simps log_business_event_def reread_cluster_def
        cluster_view_def)
qed

definition rotated :: "'w platform \<Rightarrow> cluster_update \<Rightarrow> cluster \<Rightarrow> 'w app \<Rightarrow> ('w st \<times> 'w app) \<Rightarrow> bool" where
  "rotated L u c ap x \<longleftrightarrow> (\<exists>c' P. get_cluster_row (c_id c) (committed (fst x)) = Some c'
     \<and> c_status c' = C_ACTIVE \<and> has_credentials u c c' \<and> construct_provider L c' = Inr P
     \<and> app_providers (snd x) = (app_providers ap)(c_id c \<mapsto> P))"

definition not_rotated :: "cluster_update \<Rightarrow> cluster \<Rightarrow> db \<Rightarrow> 'w app \<Rightarrow> ('w st \<times> 'w app) \<Rightarrow> bool" where
  "not_rotated u c db ap x \<longleftrightarrow> app_providers (snd x) = app_providers ap
     \<and> (committed (fst x) = db
        \<or> (\<exists>c'. get_cluster_row (c_id c) (committed (fst x)) = Some c' \<and> has_credentials u c c'
             \<and> c_status c' \<in> {C_PENDING, C_OFFLINE}))"

lemma rotate_outcome:
  fixes s :: "'w st"
  assumes "get_cluster_row (c_id c) (committed s) = Some c" "work s = committed s"
    and "is_jobj (c_provider_config (apply_other u c))"
  shows "wp (rotate_credentials E L u c actor ip) (\<lambda>_. rotated L u c ap)
    (\<lambda>_. not_rotated u c (committed s) ap) (s, ap)"
proof (cases "new_ciphertext L u c")
  case (Inl e)
  then show ?thesis by (simp add: rotate_credentials_def wp_def exec_simps not_rotated_def)
next
  case ct: (Inr ct)
  let ?f = "apply_credentials u ct"
  have row: "get_cluster_row (c_id c) (work s) = Some c" using assms(1,2) by simp
  consider (bad) "write_cluster E u c ?f s = (Inl (IntegrityError ''clusters''), s)"
    | (ok) s1 c1 where "write_cluster E u c ?f s = (Inr (), s1)" "work s1 = committed s1"
        "get_cluster_row (c_id c) (committed s1) = Some c1" "c_id c1 = c_id c" "same_settings c1 (?f c)"
        "c_status c1 = C_PENDING"
    using write_cluster_run [OF row, of ?f E u] by (auto simp: apply_credentials_def)
  then show ?thesis
  proof cases
    case bad
    with ct show ?thesis by (simp add: rotate_credentials_def wp_def exec_simps not_rotated_def)
  next
    case ok
    have cred1: "has_credentials u c c1" using ok(5) by (rule has_credentials_applied)
    show ?thesis
    proof (cases "construct_provider L c1")
      case (Inl e)
      with ct ok cred1 show ?thesis
        by (simp add: rotate_credentials_def wp_def exec_simps not_rotated_def)
    next
      case P: (Inr P)
      from ping_run [OF ok(3), of E P] obtain s2 c2 st where s2:
        "ping_and_update_status E (c_id c) P s1 = (Inr st, s2)" "work s2 = committed s2"
        "get_cluster_row (c_id c) (committed s2) = Some c2" "same_settings c2 c1" "c_status c2 = st"
        "st \<in> {C_ACTIVE, C_OFFLINE}" by blast
      have cred2: "has_credentials u c c2"
        using cred1 same_settingsD [OF s2(4)] by (simp add: has_credentials_def)
      show ?thesis
      proof (cases "st = C_ACTIVE")
        case False
        with s2(6) have off: "st = C_OFFLINE" by simp
        from safely_close_memory [of P s2 ap] obtain s3 where
          "safely_close P (s2, ap) = (Inr (), (s3, ap))" "committed s3 = committed s2" by blast
        with ct ok P s2 off cred2 show ?thesis
          by (simp add: rotate_credentials_def wp_def exec_simps not_rotated_def)
      next
        case True
        have "c_provider_config c2 = c_provider_config (apply_other u c)"
          using same_settingsD(7) [OF s2(4)] same_settingsD(7) [OF ok(5)]
          by (simp add: apply_credentials_def)
        with assms(3) have "is_jobj (c_provider_config c2)" by simp
        from install_rotated_run [of c1 s2 c2 E u P actor ip ap] this s2(2,3) ok(4) obtain v s3 ap3 where
          "install_rotated E u c1 P actor ip (s2, ap) = (Inr v, (s3, ap3))"
          "get_cluster_row (c_id c) (committed s3) = Some c2"
          "app_providers ap3 = (app_providers ap)(c_id c \<mapsto> P)" by auto
        moreover have "construct_provider L c2 = Inr P" using same_settingsD(8) [OF s2(4), of L] P by simp
        ultimately show ?thesis
          using ct ok P s2 True cred2
          by (simp add: rotate_credentials_def wp_def exec_simps rotated_def)
      qed
    qed
  qed
qed

text \<open>
  Rotating a cluster's credentials swaps its provider or leaves the table as it
  was. Submitting the stored values again, or none, touches neither the provider table nor
  the hypervisor. Changed credentials are committed first; when the ping answers, the row is
  \<open>ACTIVE\<close> with them and the table's entry, and only it, becomes the provider that row
  constructs; in every other case the table is unchanged, and either nothing was committed or
  the new credentials are, with the cluster \<open>PENDING\<close> (no provider could be constructed) or
  \<open>OFFLINE\<close>.
\<close>

theorem credential_rotation_outcome:
  assumes "get_cluster_row i (committed s) = Some c" "cluster_update_valid u"
    and "credentials_changed L u c = Inr changed" "is_jobj (c_provider_config (apply_other u c))"
  shows "wp (update_cluster E L i u actor ip)
    (\<lambda>_ x. if changed then rotated L u c ap x else snd x = ap \<and> calls (fst x) = calls s)
    (\<lambda>_ x. if changed then not_rotated u c (committed s) ap x
       else snd x = ap \<and> calls (fst x) = calls s \<and> committed (fst x) = committed s) (s, ap)"
proof -
  let ?s = "s\<lparr>work := committed s\<rparr>"
  have id: "c_id c = i" using assms(1) by (auto dest: get_cluster_rowD)
  show ?thesis
  proof (cases changed)
    case True
    have "wp (rotate_credentials E L u c actor ip) (\<lambda>_. rotated L u c ap)
        (\<lambda>_. not_rotated u c (committed s) ap) (?s, ap)"
      using rotate_outcome [of c ?s u E L actor ip ap] assms(1,4) id by simp
    with True assms(1-3) show ?thesis
      by (auto simp: update_cluster_def wp_def exec_simps rotated_def not_rotated_def
          split: prod.splits sum.splits)
  next
    case False
    from write_cluster_run [of c ?s "apply_other u" E u] assms(1) id
    consider "write_cluster E u c (apply_other u) ?s = (Inl (IntegrityError ''clusters''), ?s)"
      | s' c1 where "write_cluster E u c (apply_other u) ?s = (Inr (), s')" "work s' = committed s'"
          "calls s' = calls s" "get_cluster_row i (committed s') = Some c1" "same_settings c1 (apply_other u c)"
      by auto
    then show ?thesis
    proof cases
      case 1
      with False assms(1-3) show ?thesis by (simp add: update_cluster_def wp_def exec_simps)
    next
      case 2
      from assms(4) same_settingsD(7) [OF 2(5)] have "is_jobj (c_provider_config c1)" by simp
      with False assms(1-3) 2 show ?thesis
        by (simp add: update_cluster_def wp_def exec_simps reread_cluster_def cluster_view_def)
    qed
  qed
qed

definition sim_platform :: "int platform" where
  "sim_platform = \<lparr>pl_classes = [(''proxmox'', \<lambda>url tid secret verify. Inr sim_provider)],
     pl_encrypt = Inr, pl_decrypt = Inr\<rparr>"

definition example_update :: cluster_update where
  "example_update = \<lparr>cu_name = None, cu_provider_type = None, cu_api_url = Some (Some ''https://pve2''),
     cu_token_id = None, cu_token_secret = None, cu_verify_ssl = None, cu_node_filter = None,
     cu_provider_config = None\<rparr>"

theorem credential_rotation_outcome_witness:
  "wp (update_cluster sim_env sim_platform 3 example_update ''root'' None)
    (\<lambda>_. rotated sim_platform example_update example_cluster \<lparr>ap_providers = [], ap_constructed_at = []\<rparr>)
    (\<lambda>_. not_rotated example_update example_cluster (empty_db\<lparr>clusters := [example_cluster]\<rparr>)
       \<lparr>ap_providers = [], ap_constructed_at = []\<rparr>)
    (sim_st (empty_db\<lparr>clusters := [example_cluster]\<rparr>), \<lparr>ap_providers = [], ap_constructed_at = []\<rparr>)"
proof -
  let ?s = "sim_st (empty_db\<lparr>clusters := [example_cluster]\<rparr>)"
  have a: "get_cluster_row 3 (committed ?s) = Some example_cluster"
    by (simp add: get_cluster_row_def example_cluster_def)
  have b: "cluster_update_valid example_update"
    by (simp add: cluster_update_valid_def example_update_def)
  have c: "credentials_changed sim_platform example_update example_cluster = Inr True"
    by (simp add: credentials_changed_def submits_credentials_def example_update_def decrypt_secret_def
        differs_def sim_platform_def example_cluster_def)
  have d: "is_jobj (c_provider_config (apply_other example_update example_cluster))"
    by (simp add: apply_other_def example_update_def example_cluster_def set_json_def)
  from credential_rotation_outcome [OF a b c d, of sim_env "''root''" None "\<lparr>ap_providers = [], ap_constructed_at = []\<rparr>"]
  show ?thesis by simp
qed

text \<open>
  Deleting a cluster is guarded: while a pool or a template refers to it the
  answer is 409 and nothing changes; otherwise the row is gone, every reference the tables
  hold stays valid, one audit row names the administrator, and the provider has left the
  table before the row was deleted.
\<close>

theorem delete_cluster_outcome:
  assumes "get_cluster_row i (committed s) = Some c" "refs_valid (committed s)"
  shows "\<exists>r s' ap'. delete_cluster E i actor ip (s, ap) = (r, (s', ap'))
    \<and> (if cluster_in_use i (committed s)
       then r = Inl conflict \<and> committed s' = committed s \<and> ap' = ap
       else r = Inr () \<and> get_cluster_row i (committed s') = None
         \<and> refs_valid (committed s') \<and> app_providers ap' = (app_providers ap)(i := None)
         \<and> (\<forall>j. j \<noteq> i \<longrightarrow> get_cluster_row j (committed s') = get_cluster_row j (committed s))
         \<and> (\<exists>a. audit_log (committed s') = audit_log (committed s) @ [a] \<and> a_action a = ''cluster.delete''
              \<and> a_actor a = actor \<and> a_resource_id a = Some i))"
proof (cases "cluster_in_use i (committed s)")
  case True
  with assms(1) show ?thesis by (simp add: delete_cluster_def exec_simps)
next
  case False
  let ?ap = "pop_provider i ap"
  have close: "\<exists>s2. (case app_providers ap i of None \<Rightarrow> ret () | Some P \<Rightarrow> safely_close P) (t, ?ap)
      = (Inr (), (s2, ?ap)) \<and> committed s2 = committed t" for t
    using safely_close_memory [of _ t ?ap]
    by (cases "app_providers ap i") (simp_all add: exec_simps, metis)
  have ap: "app_providers ?ap = (app_providers ap)(i := None)"
    by (simp add: app_providers_def pop_provider_def delete_conv')
  have find: "find (\<lambda>x. c_id x = j) (filter (\<lambda>x. c_id x \<noteq> i) cs)
      = (if j = i then None else find (\<lambda>x. c_id x = j) cs)" for j and cs :: "cluster list"
    by (induction cs) auto
  from False have unused: "\<forall>p\<in>set (pools (committed s)). p_cluster_id p \<noteq> i"
      "\<forall>t\<in>set (templates (committed s)). t_cluster_id t \<noteq> i"
    by (auto simp: cluster_in_use_def)
  let ?t = "e_now E (world s)"
  let ?db = "delete_cluster_row i (add_audit (\<lambda>n. \<lparr>a_id = n, a_timestamp = ?t, a_actor = actor,
     a_action = ''cluster.delete'', a_resource_type = Some ''cluster'', a_resource_id = Some i,
     a_details = JObj [(''cluster_name'', JStr (c_name c)), (''provider_type'', JStr (c_provider_type c))],
     a_client_ip = ip\<rparr>) (committed s))"
  have db: "get_cluster_row j ?db = (if j = i then None else get_cluster_row j (committed s))" for j
    by (simp add: get_cluster_row_def delete_cluster_row_def find)
  have refs: "refs_valid ?db"
    by (rule refs.cluster_delete) (use refs.audit_add [OF assms(2)] unused in auto)
  from close [of "s\<lparr>work := ?db, committed := ?db\<rparr>"] obtain s2 where
    "(case app_providers ap i of None \<Rightarrow> ret () | Some P \<Rightarrow> safely_close P) (s\<lparr>work := ?db, committed := ?db\<rparr>, ?ap)
      = (Inr (), (s2, ?ap))" "committed s2 = ?db" by auto
  with assms(1) False unused
  have "delete_cluster E i actor ip (s, ap) = (Inr (), (s2\<lparr>work := ?db\<rparr>, ?ap))"
    by (simp add: delete_cluster_def exec_simps log_business_event_def)
  moreover have "\<exists>a. audit_log ?db = audit_log (committed s) @ [a] \<and> a_action a = ''cluster.delete''
      \<and> a_actor a = actor \<and> a_resource_id a = Some i"
    by (simp add: delete_cluster_row_def add_audit_def)
  ultimately show ?thesis using False db refs ap \<open>committed s2 = ?db\<close> by auto
qed

theorem delete_cluster_outcome_witness:
  "\<exists>s' ap'. delete_cluster sim_env 3 ''root'' None (sim_st (empty_db\<lparr>clusters := [example_cluster]\<rparr>),
      \<lparr>ap_providers = [(3, sim_provider)], ap_constructed_at = []\<rparr>) = (Inr (), (s', ap'))
     \<and> app_providers ap' 3 = None"
proof -
  let ?s = "sim_st (empty_db\<lparr>clusters := [example_cluster]\<rparr>)"
  have a: "get_cluster_row 3 (committed ?s) = Some example_cluster"
    by (simp add: get_cluster_row_def example_cluster_def)
  have b: "refs_valid (committed ?s)" by (simp add: refs_valid_def empty_db_def)
  have "\<not> cluster_in_use 3 (committed ?s)" by (simp add: cluster_in_use_def empty_db_def)
  with delete_cluster_outcome [OF a b, of sim_env "''root''" None
      "\<lparr>ap_providers = [(3, sim_provider)], ap_constructed_at = []\<rparr>"]
  show ?thesis by auto
qed

end
