(* ===== verification/Auth.thy ===== *)
theory Auth
  imports Task_Tracker "HOL-Library.Countable"
begin

text \<open>
  Authentication: \<open>broker/app/services/auth_service.py\<close>, \<open>broker/app/services/jwt_service.py\<close>,
  the endpoints of \<open>broker/app/api/auth.py\<close> and the middlewares of
  \<open>broker/app/middleware/auth.py\<close> and \<open>request_id.py\<close>. python-jose, bcrypt, the LDAP directory
  and the random source are the record \<open>auth_env\<close>; header values are latin-1 strings.
\<close>

section \<open>Users and header parsing\<close>

datatype role = ROLE_ADMIN | ROLE_USER

fun role_value :: "role \<Rightarrow> string" where
  "role_value ROLE_ADMIN = ''admin''"
| "role_value ROLE_USER = ''user''"

record user =
  u_username :: string
  u_groups :: "string list"
  u_role :: role

definition is_admin :: "user \<Rightarrow> bool" where
  "is_admin u \<longleftrightarrow> u_role u = ROLE_ADMIN"

definition parse_groups_header :: "string option \<Rightarrow> string list" where
  "parse_groups_header v =
     (if truthy v then filter (\<lambda>g. g \<noteq> []) (map py_strip (split_on CHR '','' (the v))) else [])"

definition parse_role_header :: "string option \<Rightarrow> exn + role" where
  "parse_role_header v =
     (if \<not> truthy v then Inr ROLE_USER
      else if the v = ''admin'' then Inr ROLE_ADMIN
      else if the v = ''user'' then Inr ROLE_USER
      else Inl (PyValueError (''X-Dev-Role must be admin or user (got '' @ repr_opt v @ '')'')))"

definition require_admin :: "user \<Rightarrow> exn + user" where
  "require_admin u = (if is_admin u then Inr u else Inl (HTTPException 403 ''FORBIDDEN''))"

section \<open>The environment\<close>

record ldap_result =
  lr_username :: string
  lr_user_dn :: string
  lr_groups :: "string list"
  lr_is_admin :: bool

record 'w auth_env =
  au_secret :: string
  au_jwt_encode :: "string \<Rightarrow> jval \<Rightarrow> string"
  au_jwt_decode :: "string \<Rightarrow> int \<Rightarrow> string \<Rightarrow> jval option"
  au_token_bytes :: "nat \<Rightarrow> 'w \<Rightarrow> nat list \<times> 'w"
  au_hashpw :: "string \<Rightarrow> 'w \<Rightarrow> string \<times> 'w"
  au_checkpw :: "string \<Rightarrow> string \<Rightarrow> bool option"
  au_authenticate :: "string \<Rightarrow> string \<Rightarrow> 'w \<Rightarrow> (exn + ldap_result) \<times> 'w"
  au_lookup :: "string \<Rightarrow> 'w \<Rightarrow> (exn + ldap_result) \<times> 'w"
  au_is_dev :: bool

section \<open>Access tokens\<close>

definition access_token_ttl :: int where
  "access_token_ttl = 15 * 60"

definition refresh_token_ttl :: int where
  "refresh_token_ttl = 24 * 60 * 60"

record claims =
  cl_sub :: string
  cl_groups :: "string list"
  cl_role :: role
  cl_iat :: int
  cl_exp :: int
  cl_jti :: uuid

definition claims_json :: "string \<Rightarrow> string list \<Rightarrow> bool \<Rightarrow> uuid \<Rightarrow> int \<Rightarrow> jval" where
  "claims_json username groups admin jti now_ms = JObj
     [(''sub'', JStr username), (''groups'', JList (map JStr groups)),
      (''role'', JStr (if admin then ''admin'' else ''user'')),
      (''iat'', JInt (now_ms div 1000)), (''exp'', JInt ((now_ms + access_token_ttl * 1000) div 1000)),
      (''jti'', JStr (str_uuid jti))]"

definition issue_access_token ::
    "'w auth_env \<Rightarrow> string \<Rightarrow> string list \<Rightarrow> bool \<Rightarrow> uuid \<Rightarrow> int \<Rightarrow> string" where
  "issue_access_token A username groups admin jti now_ms =
     au_jwt_encode A (au_secret A) (claims_json username groups admin jti now_ms)"

fun j_strings :: "jval \<Rightarrow> string list option" where
  "j_strings (JList xs) =
     (if list_all (\<lambda>x. case x of JStr _ \<Rightarrow> True | _ \<Rightarrow> False) xs
      then Some (map (\<lambda>x. case x of JStr s \<Rightarrow> s | _ \<Rightarrow> []) xs) else None)"
| "j_strings _ = None"

text \<open>
  \<open>UUID(jti)\<close>: a malformed string and null are caught; on any other value the constructor
  fails with \<open>AttributeError\<close>, which is not.
\<close>

fun claim_jti :: "jval \<Rightarrow> exn + uuid" where
  "claim_jti (JStr s) = (case parse_uuid s of None \<Rightarrow> Inl (InvalidAccessToken ''jti'') | Some u \<Rightarrow> Inr u)"
| "claim_jti JNull = Inl (InvalidAccessToken ''jti'')"
| "claim_jti _ = Inl (PyAttributeError ''replace'')"

definition check_claims :: "jval \<Rightarrow> exn + claims" where
  "check_claims raw =
     (case (jget raw ''sub'', jget raw ''groups'', jget raw ''role'', jget raw ''iat'', jget raw ''exp'',
        jget raw ''jti'') of
        (Some sub, Some groups, Some role, Some iat, Some exp, Some jti) \<Rightarrow>
          (case sub of JStr s \<Rightarrow>
             if s = [] then Inl (InvalidAccessToken ''sub'') else
             (case j_strings groups of None \<Rightarrow> Inl (InvalidAccessToken ''groups'') | Some gs \<Rightarrow>
              if role \<noteq> JStr ''admin'' \<and> role \<noteq> JStr ''user'' then Inl (InvalidAccessToken ''role'') else
              (case (j_int iat, j_int exp) of (Some i, Some x) \<Rightarrow>
                 (case claim_jti jti of Inl e \<Rightarrow> Inl e | Inr u \<Rightarrow>
                    Inr \<lparr>cl_sub = s, cl_groups = gs,
                         cl_role = (if role = JStr ''admin'' then ROLE_ADMIN else ROLE_USER),
                         cl_iat = i, cl_exp = x, cl_jti = u\<rparr>)
               | _ \<Rightarrow> Inl (InvalidAccessToken ''iat/exp'')))
           | _ \<Rightarrow> Inl (InvalidAccessToken ''sub''))
      | _ \<Rightarrow> Inl (InvalidAccessToken ''missing claim''))"

definition validate_access_token :: "'w auth_env \<Rightarrow> int \<Rightarrow> string \<Rightarrow> exn + claims" where
  "validate_access_token A now_ms token =
     (case au_jwt_decode A (au_secret A) (now_ms div 1000) token of
        None \<Rightarrow> Inl (InvalidAccessToken ''invalid token'')
      | Some raw \<Rightarrow> check_claims raw)"

section \<open>Refresh tokens\<close>

text \<open>\<open>base64.urlsafe_b64encode(raw).rstrip(b"=")\<close> on a list of bytes.\<close>

definition b64_char :: "nat \<Rightarrow> char" where
  "b64_char n = (if n < 26 then char_of (65 + n) else if n < 52 then char_of (97 + (n - 26))
     else if n < 62 then char_of (48 + (n - 52)) else if n = 62 then CHR ''-'' else CHR ''_'')"

fun b64url :: "nat list \<Rightarrow> string" where
  "b64url [] = []"
| "b64url [a] = [b64_char (a div 4), b64_char (a mod 4 * 16)]"
| "b64url [a, b] = [b64_char (a div 4), b64_char (a mod 4 * 16 + b div 16), b64_char (b mod 16 * 4)]"
| "b64url (a # b # c # xs) = b64_char (a div 4) # b64_char (a mod 4 * 16 + b div 16)
     # b64_char (b mod 16 * 4 + c div 64) # b64_char (c mod 64) # b64url xs"

record issued_refresh =
  ir_secret :: string
  ir_hash :: string
  ir_expires_at :: int

definition issue_refresh_token :: "'w env \<Rightarrow> 'w auth_env \<Rightarrow> ('w, issued_refresh) prog" where
  "issue_refresh_token E A =
     bnd (now E) (\<lambda>t.
     bnd (on_world (au_token_bytes A 32)) (\<lambda>raw.
     bnd (on_world (au_hashpw A (b64url raw))) (\<lambda>h.
     ret \<lparr>ir_secret = b64url raw, ir_hash = h, ir_expires_at = t + refresh_token_ttl * 1000\<rparr>)))"

definition verify_refresh_token :: "'w auth_env \<Rightarrow> string \<Rightarrow> string \<Rightarrow> bool" where
  "verify_refresh_token A secret h =
     (if h = [] then False
      else if \<not> list_all (\<lambda>c. (of_char c :: nat) < 128) (secret @ h) then False
      else (case au_checkpw A secret h of None \<Rightarrow> False | Some b \<Rightarrow> b))"

definition make_refresh_cookie_value :: "uuid \<Rightarrow> string \<Rightarrow> string" where
  "make_refresh_cookie_value i secret = str_uuid i @ ''.'' @ secret"

definition parse_refresh_cookie_value :: "string \<Rightarrow> (uuid \<times> string) option" where
  "parse_refresh_cookie_value v =
     (if v = [] then None
      else (case partition_on CHR ''.'' v of (id_str, sep, secret) \<Rightarrow>
        if \<not> sep \<or> secret = [] then None
        else (case parse_uuid id_str of None \<Rightarrow> None | Some i \<Rightarrow> Some (i, secret))))"

section \<open>The endpoints\<close>

record set_cookie =
  sc_value :: string
  sc_max_age :: int
  sc_path :: string
  sc_httponly :: bool
  sc_secure :: bool
  sc_samesite :: string

record token_response =
  tr_access_token :: string
  tr_expires_in :: int
  tr_role :: role
  tr_cookie :: set_cookie

definition refresh_cookie :: "'w auth_env \<Rightarrow> uuid \<Rightarrow> string \<Rightarrow> set_cookie" where
  "refresh_cookie A i secret = \<lparr>sc_value = make_refresh_cookie_value i secret,
     sc_max_age = refresh_token_ttl, sc_path = ''/api/v1/auth'', sc_httponly = True,
     sc_secure = (\<not> au_is_dev A), sc_samesite = ''strict''\<rparr>"

definition cleared_cookie :: set_cookie where
  "cleared_cookie = \<lparr>sc_value = [], sc_max_age = 0, sc_path = ''/api/v1/auth'', sc_httponly = False,
     sc_secure = False, sc_samesite = ''lax''\<rparr>"

fun is_ldap_auth_error :: "exn \<Rightarrow> bool" where
  "is_ldap_auth_error (LDAPAuthError _) = True"
| "is_ldap_auth_error _ = False"

fun is_ldap_service_error :: "exn \<Rightarrow> bool" where
  "is_ldap_service_error (LDAPServiceError _) = True"
| "is_ldap_service_error _ = False"

definition unauthorized :: exn where
  "unauthorized = HTTPException 401 ''UNAUTHORIZED''"

definition unavailable :: exn where
  "unavailable = HTTPException 503 ''SERVICE_UNAVAILABLE''"

definition fail_login :: "'w env \<Rightarrow> string \<Rightarrow> string option \<Rightarrow> string \<Rightarrow> exn \<Rightarrow> ('w, 'a) prog" where
  "fail_login E username ip reason e =
     andthen (log_business_event E (take 256 username) ''auth.login.failure'' None None
       [(''reason'', JStr reason)] ip)
     (andthen commit (throw e))"

definition grant_tokens ::
    "'w env \<Rightarrow> 'w auth_env \<Rightarrow> ldap_result \<Rightarrow> uuid \<Rightarrow> string \<Rightarrow> int \<Rightarrow> token_response" where
  "grant_tokens E A r i secret at =
     \<lparr>tr_access_token = issue_access_token A (lr_username r) (lr_groups r) (lr_is_admin r) i at,
      tr_expires_in = access_token_ttl, tr_role = (if lr_is_admin r then ROLE_ADMIN else ROLE_USER),
      tr_cookie = refresh_cookie A i secret\<rparr>"

definition login ::
    "'w env \<Rightarrow> 'w auth_env \<Rightarrow> string \<Rightarrow> string \<Rightarrow> string option \<Rightarrow> ('w, token_response) prog" where
  "login E A username password ip =
     in_session (bnd (on_world (au_authenticate A username password)) (\<lambda>res.
       case res of
         Inl e \<Rightarrow>
           if is_ldap_auth_error e then fail_login E username ip ''invalid_credentials'' unauthorized
           else if is_ldap_service_error e then fail_login E username ip ''service_unavailable'' unavailable
           else throw e
       | Inr r \<Rightarrow>
           bnd (issue_refresh_token E A) (\<lambda>issued.
           bnd (gen_uuid E) (\<lambda>i.
           bnd (now E) (\<lambda>at.
           andthen (insert_token \<lparr>k_id = i, k_username = lr_username r, k_refresh_hash = ir_hash issued,
              k_expires_at = ir_expires_at issued, k_revoked_at = None, k_created_at = at\<rparr>)
           (andthen (log_business_event E (lr_username r) ''auth.login.success'' (Some ''auth_token'') (Some i)
              [(''groups_count'', JInt (int (length (lr_groups r)))), (''is_admin'', JBool (lr_is_admin r))] ip)
           (andthen commit
           (ret (grant_tokens E A r i (ir_secret issued) at)))))))))"

definition revoke_token :: "int \<Rightarrow> auth_token \<Rightarrow> auth_token" where
  "revoke_token t k = (if k_revoked_at k = None then k\<lparr>k_revoked_at := Some t\<rparr> else k)"

definition token_usable :: "int \<Rightarrow> auth_token \<Rightarrow> bool" where
  "token_usable t k \<longleftrightarrow> k_revoked_at k = None \<and> \<not> k_expires_at k < t"

definition rotate_token ::
    "'w env \<Rightarrow> 'w auth_env \<Rightarrow> ldap_result \<Rightarrow> uuid \<Rightarrow> string option \<Rightarrow> ('w, token_response) prog" where
  "rotate_token E A r i ip =
     bnd (issue_refresh_token E A) (\<lambda>issued.
     bnd (now E) (\<lambda>at.
     andthen (update_db (patch_token i (\<lambda>k. k\<lparr>k_refresh_hash := ir_hash issued,
        k_expires_at := ir_expires_at issued\<rparr>)))
     (andthen (log_business_event E (lr_username r) ''auth.refresh'' (Some ''auth_token'') (Some i) [] ip)
     (andthen commit
     (ret (grant_tokens E A r i (ir_secret issued) at))))))"

definition refresh ::
    "'w env \<Rightarrow> 'w auth_env \<Rightarrow> string option \<Rightarrow> string option \<Rightarrow> ('w, token_response) prog" where
  "refresh E A cookie ip =
     in_session (case parse_refresh_cookie_value (case cookie of None \<Rightarrow> [] | Some c \<Rightarrow> c) of
       None \<Rightarrow> throw unauthorized
     | Some (i, secret) \<Rightarrow>
         bnd (query (get_token_row i)) (\<lambda>row.
         bnd (now E) (\<lambda>t.
         case row of None \<Rightarrow> throw unauthorized | Some k \<Rightarrow>
         if \<not> token_usable t k then throw unauthorized
         else if \<not> verify_refresh_token A secret (k_refresh_hash k) then throw unauthorized
         else bnd (on_world (au_lookup A (k_username k))) (\<lambda>res.
           case res of
             Inl e \<Rightarrow>
               if is_ldap_auth_error e
               then bnd (now E) (\<lambda>t2.
                    andthen (update_db (patch_token i (revoke_token t2)))
                    (andthen (log_business_event E (k_username k) ''auth.refresh.failure'' None None
                       [(''reason'', JStr ''user_no_longer_exists'')] ip)
                    (andthen commit (throw unauthorized))))
               else if is_ldap_service_error e then throw unavailable
               else throw e
           | Inr r \<Rightarrow> rotate_token E A r i ip))))"

definition logout :: "'w env \<Rightarrow> string option \<Rightarrow> string option \<Rightarrow> ('w, set_cookie) prog" where
  "logout E cookie ip =
     in_session (bnd (now E) (\<lambda>t.
       let target = (case parse_refresh_cookie_value (case cookie of None \<Rightarrow> [] | Some c \<Rightarrow> c) of
           None \<Rightarrow> None | Some (i, _) \<Rightarrow> Some i) in
       bnd (query (\<lambda>db. case target of None \<Rightarrow> None | Some i \<Rightarrow> get_token_row i db)) (\<lambda>row.
       let live = (case row of Some k \<Rightarrow> k_revoked_at k = None | None \<Rightarrow> False) in
       andthen (do_when live (update_db (patch_token (k_id (the row)) (revoke_token t))))
       (andthen (log_business_event E (if live then k_username (the row) else ''unknown'')
          ''auth.logout'' None None [] ip)
       (andthen commit (ret cleared_cookie))))))"

section \<open>The middlewares\<close>

record scope =
  sp_type :: string
  sp_path :: string
  sp_headers :: "(string \<times> string) list"

datatype auth_outcome = Reject nat string | PassThrough | PassUser user

definition get_header :: "scope \<Rightarrow> string \<Rightarrow> string" where
  "get_header sc name = (case find (\<lambda>(k, v). py_lower k = py_lower name) (sp_headers sc) of
     None \<Rightarrow> [] | Some (k, v) \<Rightarrow> v)"

definition bypass :: "scope \<Rightarrow> bool" where
  "bypass sc \<longleftrightarrow> sp_type sc \<noteq> ''http''
     \<or> sp_path sc \<in> {''/health'', ''/docs'', ''/openapi.json'', ''/redoc''}
     \<or> starts_with (sp_path sc) ''/docs/'' \<or> starts_with (sp_path sc) ''/api/v1/auth/''"

definition or_none :: "string \<Rightarrow> string option" where
  "or_none v = (if v = [] then None else Some v)"

definition dev_auth :: "scope \<Rightarrow> auth_outcome" where
  "dev_auth sc =
     (if bypass sc then PassThrough
      else let username = py_strip (get_header sc ''X-Dev-User'') in
        if username = [] then Reject 401 ''UNAUTHORIZED''
        else (case parse_role_header (or_none (get_header sc ''X-Dev-Role'')) of
          Inl _ \<Rightarrow> Reject 400 ''INVALID_REQUEST''
        | Inr role \<Rightarrow> PassUser \<lparr>u_username = username,
            u_groups = parse_groups_header (or_none (get_header sc ''X-Dev-Groups'')), u_role = role\<rparr>))"

text \<open>
  The service is \<open>None\<close> when the lifespan did not set it. An exception other than
  \<open>InvalidAccessTokenError\<close> leaves the middleware.
\<close>

definition jwt_auth :: "'w auth_env option \<Rightarrow> int \<Rightarrow> scope \<Rightarrow> exn + auth_outcome" where
  "jwt_auth svc now_ms sc =
     (if bypass sc then Inr PassThrough
      else let h = get_header sc ''Authorization'' in
        if h = [] then Inr (Reject 401 ''UNAUTHORIZED'')
        else (case partition_on CHR '' '' h of (scheme, _, rest) \<Rightarrow>
          let token = py_strip rest in
          if py_lower scheme \<noteq> ''bearer'' \<or> token = [] then Inr (Reject 401 ''UNAUTHORIZED'')
          else (case svc of
            None \<Rightarrow> Inr (Reject 503 ''SERVICE_UNAVAILABLE'')
          | Some A \<Rightarrow> (case validate_access_token A now_ms token of
              Inr c \<Rightarrow> Inr (PassUser \<lparr>u_username = cl_sub c, u_groups = cl_groups c, u_role = cl_role c\<rparr>)
            | Inl (InvalidAccessToken _) \<Rightarrow> Inr (Reject 401 ''UNAUTHORIZED'')
            | Inl e \<Rightarrow> Inl e))))"

text \<open>\<open>fresh\<close> stands for the UUID4 the middleware generates.\<close>

definition request_id :: "uuid \<Rightarrow> scope \<Rightarrow> string" where
  "request_id fresh sc =
     (case find (\<lambda>(k, v). py_lower k = ''x-request-id'') (sp_headers sc) of
        None \<Rightarrow> str_uuid fresh
      | Some (k, v) \<Rightarrow>
          if v = [] \<or> 128 < length v \<or> \<not> list_all (\<lambda>c. (of_char c :: nat) < 128) v \<or> py_strip v = []
          then str_uuid fresh else py_strip v)"

context db_writes begin

lemma pres_issue_refresh_token: "pres (both I) (issue_refresh_token E A)"
  unfolding issue_refresh_token_def by (intro pres_intros pres_prims)

lemma pres_login: "pres (both I) (login E A username password ip)"
  unfolding login_def fail_login_def
  by (intro pres_intros pres_prims pres_issue_refresh_token pres_log_business_event)

lemma pres_refresh: "pres (both I) (refresh E A cookie ip)"
  unfolding refresh_def rotate_token_def
  by (intro pres_intros pres_prims pres_issue_refresh_token pres_log_business_event)

lemma pres_logout: "pres (both I) (logout E cookie ip)"
  unfolding logout_def by (intro pres_intros pres_prims pres_log_business_event)

end

section \<open>Properties\<close>

lemma parse_make_cookie:
  assumes "i < 2 ^ 128" "secret \<noteq> []"
  shows "parse_refresh_cookie_value (make_refresh_cookie_value i secret) = Some (i, secret)"
  using assms partition_on_append [OF str_uuid_no_dot [of i], of secret] parse_str_uuid [OF assms(1)]
  by (simp add: parse_refresh_cookie_value_def make_refresh_cookie_value_def)

text \<open>
  The refresh cookie round-trips: parsing what was made from any token id and any
  non-empty secret, dots included, gives them back; and what does not parse is exactly what
  has no dot, no secret after the first dot, or no UUID before it.
\<close>

theorem refresh_cookie_roundtrip:
  "(i < 2 ^ 128 \<and> secret \<noteq> [] \<longrightarrow>
      parse_refresh_cookie_value (make_refresh_cookie_value i secret) = Some (i, secret))
   \<and> (parse_refresh_cookie_value v = None \<longleftrightarrow>
        CHR ''.'' \<notin> set v \<or> tl (dropWhile (\<lambda>c. c \<noteq> CHR ''.'') v) = []
        \<or> parse_uuid (takeWhile (\<lambda>c. c \<noteq> CHR ''.'') v) = None)"
proof (intro conjI impI)
  assume "i < 2 ^ 128 \<and> secret \<noteq> []"
  then show "parse_refresh_cookie_value (make_refresh_cookie_value i secret) = Some (i, secret)"
    by (simp add: parse_make_cookie)
next
  show "parse_refresh_cookie_value v = None \<longleftrightarrow>
        CHR ''.'' \<notin> set v \<or> tl (dropWhile (\<lambda>c. c \<noteq> CHR ''.'') v) = []
        \<or> parse_uuid (takeWhile (\<lambda>c. c \<noteq> CHR ''.'') v) = None"
    by (auto simp: parse_refresh_cookie_value_def partition_on_def Let_def split: option.splits)
qed

theorem refresh_cookie_roundtrip_witness:
  "parse_refresh_cookie_value (make_refresh_cookie_value 5 ''a.b'') = Some (5, ''a.b'')"
  using refresh_cookie_roundtrip [of 5 "''a.b''"] by simp

text \<open>
  python-jose: decoding with the key a token was signed with gives its claims back while it
  has not expired, and fails afterwards.
\<close>

definition jose_ok :: "'w auth_env \<Rightarrow> bool" where
  "jose_ok A \<longleftrightarrow> (\<forall>key t c x. jget c ''exp'' = Some (JInt x) \<longrightarrow>
     au_jwt_decode A key t (au_jwt_encode A key c) = (if t \<le> x then Some c else None))"

text \<open>
  Property C34. An access token issued for a user validates, from the instant it was issued
  until fifteen minutes later and not a second longer, to exactly that user, groups, role
  and token id.
\<close>

theorem access_token_roundtrip:
  assumes "jose_ok A" "username \<noteq> []" "i < 2 ^ 128"
  shows "validate_access_token A later (issue_access_token A username groups admin i at) =
    (if later div 1000 \<le> at div 1000 + 900
     then Inr \<lparr>cl_sub = username, cl_groups = groups,
       cl_role = (if admin then ROLE_ADMIN else ROLE_USER), cl_iat = at div 1000,
       cl_exp = at div 1000 + 900, cl_jti = i\<rparr>
     else Inl (InvalidAccessToken ''invalid token''))"
proof -
  let ?c = "claims_json username groups admin i at"
  have exp: "(at + 900 * 1000) div 1000 = at div 1000 + 900" by simp
  have "jget ?c ''exp'' = Some (JInt (at div 1000 + 900))"
    by (simp add: claims_json_def access_token_ttl_def)
  then have dec: "au_jwt_decode A (au_secret A) t (au_jwt_encode A (au_secret A) ?c)
      = (if t \<le> at div 1000 + 900 then Some ?c else None)" for t
    using assms(1) unfolding jose_ok_def by blast
  have gs: "j_strings (JList (map JStr groups)) = Some groups"
    by (simp add: list_all_iff comp_def)
  have "check_claims ?c = Inr \<lparr>cl_sub = username, cl_groups = groups,
       cl_role = (if admin then ROLE_ADMIN else ROLE_USER), cl_iat = at div 1000,
       cl_exp = at div 1000 + 900, cl_jti = i\<rparr>"
    using assms(2) parse_str_uuid [OF assms(3)] gs
    by (simp add: check_claims_def claims_json_def access_token_ttl_def del: j_strings.simps)
  with dec show ?thesis by (simp add: validate_access_token_def issue_access_token_def)
qed

instance jval :: countable
  by countable_datatype

text \<open>A signer whose tokens are unary numbers, and a directory with one administrator.\<close>

definition sim_auth :: "int auth_env" where
  "sim_auth = \<lparr>au_secret = ''key'', au_jwt_encode = (\<lambda>key c. replicate (to_nat c) CHR ''x''),
     au_jwt_decode = (\<lambda>key t s. let c = from_nat (length s) in
        (case jget c ''exp'' of Some (JInt x) \<Rightarrow> if t \<le> x then Some c else None | _ \<Rightarrow> None)),
     au_token_bytes = (\<lambda>n w. (replicate n (nat w mod 256), w + 1)),
     au_hashpw = (\<lambda>p w. (''h'' @ p, w)), au_checkpw = (\<lambda>p h. Some (h = ''h'' @ p)),
     au_authenticate = (\<lambda>u p w. (Inr \<lparr>lr_username = u, lr_user_dn = ''cn='' @ u, lr_groups = [''eng''], lr_is_admin = True\<rparr>, w)),
     au_lookup = (\<lambda>u w. (Inr \<lparr>lr_username = u, lr_user_dn = ''cn='' @ u, lr_groups = [''eng''], lr_is_admin = True\<rparr>, w)),
     au_is_dev = False\<rparr>"

lemma sim_auth_jose_ok [simp]: "jose_ok sim_auth"
  by (simp add: jose_ok_def sim_auth_def Let_def)

theorem access_token_roundtrip_witness:
  "\<exists>c. validate_access_token sim_auth 60000 (issue_access_token sim_auth ''alice'' [''eng''] True 5 0) = Inr c
     \<and> cl_sub c = ''alice'' \<and> cl_role c = ROLE_ADMIN"
  using access_token_roundtrip [of sim_auth "''alice''" 5 60000 "[''eng'']" True 0] by simp

lemma get_token_patch:
  "(\<And>k. k_id (f k) = k_id k) \<Longrightarrow> get_token_row j (patch_token i f db)
    = map_option (\<lambda>k. if j = i then f k else k) (get_token_row j db)"
  unfolding get_token_row_def patch_token_def by (simp add: find_map_key)

lemma get_token_row_audit [simp]: "get_token_row j (add_audit mk db) = get_token_row j db"
  by (simp add: get_token_row_def)

lemma get_token_rowD: "get_token_row i db = Some k \<Longrightarrow> k_id k = i"
  unfolding get_token_row_def by (auto dest: find_SomeD)

definition cookie_text :: "string option \<Rightarrow> string" where
  "cookie_text c = (case c of None \<Rightarrow> [] | Some x \<Rightarrow> x)"

text \<open>
  Every refresh that cannot prove a live token is answered alike: no cookie, a
  malformed one, an unknown token id, a revoked or expired token, and a wrong secret all
  raise the same 401 and leave the committed tables as they were.
\<close>

theorem refresh_refusals_uniform:
  assumes "case parse_refresh_cookie_value (cookie_text cookie) of None \<Rightarrow> True
      | Some (i, secret) \<Rightarrow> (case get_token_row i (committed s) of None \<Rightarrow> True
          | Some k \<Rightarrow> \<not> token_usable (e_now E (world s)) k \<or> \<not> verify_refresh_token A secret (k_refresh_hash k))"
  shows "fst (refresh E A cookie ip s) = Inl (HTTPException 401 ''UNAUTHORIZED'')
    \<and> committed (snd (refresh E A cookie ip s)) = committed s"
  using assms
  by (auto simp: refresh_def cookie_text_def unauthorized_def exec_simps split: option.splits prod.splits)

theorem refresh_refusals_uniform_witness:
  "fst (refresh sim_env sim_auth (Some ''not-a-token'') None (sim_st empty_db))
     = Inl (HTTPException 401 ''UNAUTHORIZED'')"
proof -
  have "parse_refresh_cookie_value (cookie_text (Some ''not-a-token'')) = None"
    by (simp add: parse_refresh_cookie_value_def cookie_text_def partition_on_def)
  then show ?thesis
    using refresh_refusals_uniform [where cookie = "Some ''not-a-token''" and s = "sim_st empty_db"
        and E = sim_env and A = sim_auth and ip = None] by simp
qed

text \<open>
  Property C28. A successful refresh rotates the secret: the token row keeps its id and its
  user, its hash becomes the hash of a freshly drawn secret, which is the one in the new
  cookie, its expiry moves to a day from now, and the access token carries the groups and
  role the directory gives at that moment.
\<close>

theorem refresh_rotates_secret:
  assumes "parse_refresh_cookie_value cookie = Some (i, secret)" "get_token_row i (committed s) = Some k"
    and "token_usable (e_now E (world s)) k" "verify_refresh_token A secret (k_refresh_hash k)"
    and "au_lookup A (k_username k) (world s) = (Inr r, w)"
    and "au_token_bytes A 32 w = (raw, w2)" "au_hashpw A (b64url raw) w2 = (h, w3)"
  shows "\<exists>resp s' k'. refresh E A (Some cookie) ip s = (Inr resp, s')
    \<and> get_token_row i (committed s') = Some k' \<and> k_id k' = i \<and> k_username k' = k_username k
    \<and> k_revoked_at k' = None \<and> k_refresh_hash k' = h \<and> k_expires_at k' = e_now E w + 86400000
    \<and> sc_value (tr_cookie resp) = make_refresh_cookie_value i (b64url raw)
    \<and> tr_access_token resp = issue_access_token A (lr_username r) (lr_groups r) (lr_is_admin r) i (e_now E w3)"
proof -
  have "k_id k = i" "k_revoked_at k = None" using assms(2,3) by (auto simp: token_usable_def dest: get_token_rowD)
  then show ?thesis
    using assms
    by (simp add: refresh_def rotate_token_def issue_refresh_token_def exec_simps log_business_event_def
        get_token_patch grant_tokens_def refresh_cookie_def refresh_token_ttl_def)
qed

theorem refresh_rotates_secret_witness:
  "\<exists>resp s'. refresh sim_env sim_auth (Some (make_refresh_cookie_value 5 ''s'')) None
      (sim_st (empty_db\<lparr>auth_tokens := [\<lparr>k_id = 5, k_username = ''alice'', k_refresh_hash = ''hs'',
         k_expires_at = 1000, k_revoked_at = None, k_created_at = 0\<rparr>]\<rparr>)) = (Inr resp, s')"
proof -
  let ?k = "\<lparr>k_id = 5, k_username = ''alice'', k_refresh_hash = ''hs'',
         k_expires_at = 1000, k_revoked_at = None, k_created_at = 0\<rparr>"
  let ?s = "sim_st (empty_db\<lparr>auth_tokens := [?k]\<rparr>)"
  have a: "parse_refresh_cookie_value (make_refresh_cookie_value 5 ''s'') = Some (5, ''s'')"
    by (rule parse_make_cookie) simp_all
  have b: "get_token_row 5 (committed ?s) = Some ?k" by (simp add: get_token_row_def)
  have c: "token_usable (e_now sim_env (world ?s)) ?k" by (simp add: token_usable_def sim_env_def)
  have d: "verify_refresh_token sim_auth ''s'' (k_refresh_hash ?k)"
    by (simp add: verify_refresh_token_def sim_auth_def)
  have e: "au_lookup sim_auth (k_username ?k) (world ?s)
      = (Inr \<lparr>lr_username = ''alice'', lr_user_dn = ''cn=alice'', lr_groups = [''eng''], lr_is_admin = True\<rparr>, 0)"
    by (simp add: sim_auth_def)
  have f: "au_token_bytes sim_auth 32 0 = (replicate 32 0, 1)" by (simp add: sim_auth_def)
  have g: "au_hashpw sim_auth (b64url (replicate 32 0)) 1 = (''h'' @ b64url (replicate 32 0), 1)"
    by (simp add: sim_auth_def)
  from refresh_rotates_secret [where E = sim_env and ip = None, OF a b c d e f g] show ?thesis by blast
qed

lemma logout_clears: "fst (logout E cookie ip s) = Inr cleared_cookie"
  by (simp add: logout_def exec_simps Let_def log_business_event_def)

lemma logout_revokes:
  assumes "parse_refresh_cookie_value (cookie_text cookie) = Some (i, secret)"
    and "get_token_row i (committed (snd (logout E cookie ip s))) = Some k"
  shows "k_revoked_at k \<noteq> None"
proof (cases "get_token_row i (committed s)")
  case None
  with assms show ?thesis
    by (simp add: logout_def exec_simps Let_def log_business_event_def cookie_text_def)
next
  case (Some k0)
  then have id: "k_id k0 = i" by (rule get_token_rowD)
  show ?thesis
  proof (cases "k_revoked_at k0 = None")
    case True
    with assms Some id show ?thesis
      by (auto simp: logout_def exec_simps Let_def log_business_event_def cookie_text_def revoke_token_def
          get_token_patch)
  next
    case False
    with assms Some id show ?thesis
      by (auto simp: logout_def exec_simps Let_def log_business_event_def cookie_text_def)
  qed
qed

text \<open>
  Property C35. Logout never fails, clears the cookie, and ends the session for good: after
  it, whatever the cookie was, a refresh with the same cookie is refused.
\<close>

theorem logout_ends_refresh:
  "fst (logout E cookie ip s) = Inr cleared_cookie
   \<and> fst (refresh E A cookie ip' (snd (logout E cookie ip s))) = Inl (HTTPException 401 ''UNAUTHORIZED'')"
proof (intro conjI logout_clears conjunct1 [OF refresh_refusals_uniform])
  let ?s = "snd (logout E cookie ip s)"
  show "case parse_refresh_cookie_value (cookie_text cookie) of None \<Rightarrow> True
      | Some (i, secret) \<Rightarrow> (case get_token_row i (committed ?s) of None \<Rightarrow> True
          | Some k \<Rightarrow> \<not> token_usable (e_now E (world ?s)) k \<or> \<not> verify_refresh_token A secret (k_refresh_hash k))"
    by (auto simp: token_usable_def dest: logout_revokes split: option.splits)
qed

text \<open>
  No request reaches the application unauthenticated: the JWT middleware passes
  a request without a user exactly on the bypassed paths and scopes; when it attaches a
  user, the Bearer token of the request validated to exactly that user, groups and role;
  and a refusal is a 401 or a 503. The dev middleware passes without a user on the
  same requests only. What remains is a token that makes the validation itself raise.
\<close>

lemma middleware_authenticates:
  "(jwt_auth svc t sc = Inr PassThrough \<longleftrightarrow> bypass sc) \<and> (dev_auth sc = PassThrough \<longleftrightarrow> bypass sc)
   \<and> (\<forall>u. jwt_auth svc t sc = Inr (PassUser u) \<longrightarrow> (\<exists>A c token. svc = Some A
        \<and> token = py_strip (snd (snd (partition_on CHR '' '' (get_header sc ''Authorization''))))
        \<and> validate_access_token A t token = Inr c
        \<and> u = \<lparr>u_username = cl_sub c, u_groups = cl_groups c, u_role = cl_role c\<rparr>))
   \<and> (\<forall>n code. jwt_auth svc t sc = Inr (Reject n code) \<longrightarrow> n = 401 \<or> n = 503)"
  by (auto simp: jwt_auth_def dev_auth_def Let_def
      split: prod.splits option.splits sum.splits exn.splits if_splits)

end
