(* ===== verification/Audit_Middleware.thy ===== *)
theory Audit_Middleware
  imports Auth
begin

text \<open>
  \<open>broker/app/middleware/audit.py\<close>: the ASGI middleware that writes one audit row for every
  administrative mutation. The inner application is a parameter: it gets the messages it may
  receive and answers what it raised, if anything, and the status of the response it
  started. \<open>json.loads\<close> and the percent decoding of \<open>urllib\<close> are parameters; a body is a
  string with one character per byte.
\<close>

section \<open>Helpers\<close>

definition should_audit :: "string \<Rightarrow> string \<Rightarrow> bool" where
  "should_audit verb path \<longleftrightarrow> starts_with path ''/api/v1/'' \<and> \<not> starts_with path ''/api/v1/me/''
     \<and> verb \<in> {''POST'', ''PUT'', ''DELETE'', ''PATCH''}"

definition uuid_shape :: "string \<Rightarrow> bool" where
  "uuid_shape s \<longleftrightarrow> length s = 36
     \<and> list_all (\<lambda>i. if i \<in> {8, 13, 18, 23} then s ! i = CHR ''-'' else is_hex_char (s ! i)) [0..<36]"

text \<open>\<open>_UUID_RE.match\<close>: a dollar sign also matches before a final newline.\<close>

definition uuid_re :: "string \<Rightarrow> bool" where
  "uuid_re s \<longleftrightarrow> uuid_shape s \<or> (s \<noteq> [] \<and> last s = CHR 0x0A \<and> uuid_shape (butlast s))"

definition extract_resource :: "string \<Rightarrow> string option \<times> uuid option" where
  "extract_resource path =
     (let parts = split_on CHR ''/'' (strip_with (\<lambda>c. c = CHR ''/'') path) in
      case parts of
        api # v1 # noun # rest \<Rightarrow>
          if api \<noteq> ''api'' \<or> v1 \<noteq> ''v1'' then (None, None)
          else (Some (if ends_with noun ''s'' then butlast noun else noun),
                Option.bind (find uuid_re rest) parse_uuid)
      | _ \<Rightarrow> (None, None))"

definition redacted_fields :: "string set" where
  "redacted_fields = {''token_secret'', ''password'', ''secret'', ''api_key'', ''token'',
     ''access_token'', ''refresh_token'', ''encryption_key''}"

definition redacted_marker :: jval where
  "redacted_marker = JStr ''***REDACTED***''"

fun redact :: "jval \<Rightarrow> jval" where
  "redact (JObj kvs) = JObj (map (\<lambda>(k, v).
     (k, if py_lower k \<in> redacted_fields then redacted_marker else redact v)) kvs)"
| "redact (JList xs) = JList (map redact xs)"
| "redact v = v"

section \<open>The request body\<close>

datatype receive_msg = HttpRequest string bool | HttpDisconnect | OtherMessage

datatype capture = Body string | Gone

text \<open>\<open>None\<close>: the client has not sent the end of the body, the middleware waits.\<close>

fun drain :: "string \<Rightarrow> receive_msg list \<Rightarrow> capture option" where
  "drain acc [] = None"
| "drain acc (HttpRequest b more_body # ms) = (if more_body then drain (acc @ b) ms else Some (Body (acc @ b)))"
| "drain acc (HttpDisconnect # ms) = Some Gone"
| "drain acc (OtherMessage # ms) = Some (Body acc)"

definition replay :: "string \<Rightarrow> receive_msg list" where
  "replay body = [HttpRequest body False, HttpDisconnect]"

section \<open>The audit row\<close>

record codec =
  cd_loads :: "string \<Rightarrow> exn + jval"
  cd_unquote :: "string \<Rightarrow> string"

definition json_decode_error :: exn where
  "json_decode_error = PyValueError ''JSONDecodeError''"

text \<open>
  \<open>parse_qs\<close>: fields between ampersands, those without a value dropped, \<open>+\<close> for a space, the
  values of one name together in order of appearance.
\<close>

definition qs_decode :: "codec \<Rightarrow> string \<Rightarrow> string" where
  "qs_decode C s = cd_unquote C (map (\<lambda>c. if c = CHR ''+'' then CHR '' '' else c) s)"

definition qs_pairs :: "codec \<Rightarrow> string \<Rightarrow> (string \<times> string) list" where
  "qs_pairs C q = concat (map (\<lambda>f. case partition_on CHR ''='' f of (k, _, v) \<Rightarrow>
     if v = [] then [] else [(qs_decode C k, qs_decode C v)]) (split_on CHR ''&'' q))"

definition parse_qs :: "codec \<Rightarrow> string \<Rightarrow> (string \<times> string list) list" where
  "parse_qs C q = (let ps = qs_pairs C q in
     map (\<lambda>k. (k, map snd (filter (\<lambda>p. fst p = k) ps))) (rev (remdups (rev (map fst ps)))))"

definition query_params :: "codec \<Rightarrow> string \<Rightarrow> jval" where
  "query_params C q = JObj (map (\<lambda>(k, vs).
     (k, if length vs = 1 then JStr (hd vs) else JList (map JStr vs))) (parse_qs C q))"

definition max_audit_body_bytes :: nat where
  "max_audit_body_bytes = 65536"

definition body_details :: "codec \<Rightarrow> string \<Rightarrow> string \<Rightarrow> string \<Rightarrow> exn + (string \<times> jval) list" where
  "body_details C verb ctype body =
     (if body = [] \<or> verb = ''DELETE'' then Inr []
      else if contains_sub ''application/json'' ctype
      then if max_audit_body_bytes < length body then Inr [(''request_body_truncated'', JBool True)]
        else (case cd_loads C body of
            Inr parsed \<Rightarrow> Inr [(''request_body'', redact parsed)]
          | Inl e \<Rightarrow> if e = json_decode_error then Inr [(''request_body_not_json'', JBool True)] else Inl e)
      else Inr [(''request_body_not_json'', JBool True)])"

definition audit_details ::
    "codec \<Rightarrow> string \<Rightarrow> nat \<Rightarrow> string \<Rightarrow> string \<Rightarrow> string \<Rightarrow> exn + (string \<times> jval) list" where
  "audit_details C verb status body ctype q =
     (case body_details C verb ctype body of Inl e \<Rightarrow> Inl e | Inr d \<Rightarrow>
        Inr ([(''status_code'', JInt (int status)), (''query_params'', query_params C q)] @ d))"

definition write_audit_row ::
    "'w env \<Rightarrow> codec \<Rightarrow> string \<Rightarrow> string \<Rightarrow> nat \<Rightarrow> string \<Rightarrow> string \<Rightarrow> string \<Rightarrow> string \<Rightarrow>
     string option \<Rightarrow> ('w, unit) prog" where
  "write_audit_row E C verb path status body ctype q actor ip =
     (case audit_details C verb status body ctype q of Inl e \<Rightarrow> throw e | Inr details \<Rightarrow>
        in_session (andthen (log_business_event E actor (verb @ '' '' @ path)
          (fst (extract_resource path)) (snd (extract_resource path)) details ip) commit))"

section \<open>The middleware\<close>

record http_scope = scope +
  hs_method :: string
  hs_query :: string
  hs_client :: "string option"

text \<open>The outcome of an application: what it raised and the status it started, if any.\<close>

type_synonym 'w asgi_app = "receive_msg list \<Rightarrow> 'w st \<Rightarrow> ((exn + unit) \<times> nat option) \<times> 'w st"

text \<open>\<open>getattr(user, "username", None) or "anonymous"\<close>.\<close>

definition actor_of :: "user option \<Rightarrow> string" where
  "actor_of u = (case u of None \<Rightarrow> ''anonymous''
     | Some x \<Rightarrow> if u_username x = [] then ''anonymous'' else u_username x)"

definition audit_middleware ::
    "'w env \<Rightarrow> codec \<Rightarrow> 'w asgi_app \<Rightarrow> http_scope \<Rightarrow> user option \<Rightarrow> receive_msg list \<Rightarrow> 'w st \<Rightarrow>
     (((exn + unit) \<times> nat option) \<times> 'w st) option" where
  "audit_middleware E C app sc u ms s =
     (if sp_type sc \<noteq> ''http'' \<or> \<not> should_audit (hs_method sc) (sp_path sc) then Some (app ms s)
      else case drain [] ms of
        None \<Rightarrow> None
      | Some Gone \<Rightarrow> Some (app [HttpDisconnect] s)
      | Some (Body body) \<Rightarrow> (case app (replay body) s of ((r, started), s1) \<Rightarrow>
          Some ((r, started), snd (attempt (write_audit_row E C (hs_method sc) (sp_path sc)
            (case started of None \<Rightarrow> 500 | Some n \<Rightarrow> n) body
            (get_header (scope.truncate sc) ''content-type'') (hs_query sc) (actor_of u) (hs_client sc)) s1))))"

section \<open>Redaction\<close>

text \<open>
  What a stored body may show of the parsed one: the same structure and values, but the marker and nothing
  else under a key that is one of these names in any case, at any depth.
\<close>

definition sensitive :: "string \<Rightarrow> bool" where
  "sensitive k \<longleftrightarrow> py_lower k \<in> set [''password'', ''secret'', ''token'', ''token_secret'', ''access_token'', ''refresh_token'',
     ''api_key'', ''encryption_key'']"

inductive masked :: "jval \<Rightarrow> jval \<Rightarrow> bool" where
  masked_leaf: "(\<forall>kvs. v \<noteq> JObj kvs) \<Longrightarrow> (\<forall>xs. v \<noteq> JList xs) \<Longrightarrow> masked v v"
| masked_list: "list_all2 masked xs ys \<Longrightarrow> masked (JList xs) (JList ys)"
| masked_dict: "list_all2 (\<lambda>x y. fst x = fst y \<and> (sensitive (fst x) \<and> snd y = JStr ''***REDACTED***''
     \<or> \<not> sensitive (fst x) \<and> masked (snd x) (snd y))) xs ys \<Longrightarrow> masked (JObj xs) (JObj ys)"

lemma redacted_is_sensitive: "py_lower k \<in> redacted_fields \<longleftrightarrow> sensitive k"
  by (auto simp: redacted_fields_def sensitive_def)

lemma redact_masks: "masked v (redact v)"
proof (induction v rule: redact.induct)
  case (1 kvs)
  have "list_all2 (\<lambda>x y. fst x = fst y \<and> (sensitive (fst x) \<and> snd y = JStr ''***REDACTED***''
      \<or> \<not> sensitive (fst x) \<and> masked (snd x) (snd y))) kvs
    (map (\<lambda>(k, v). (k, if py_lower k \<in> redacted_fields then redacted_marker else redact v)) kvs)"
    using 1 by (auto simp: list_all2_conv_all_nth redacted_is_sensitive redacted_marker_def split: prod.split)
      (metis nth_mem)
  then show ?case by (auto intro: masked_dict)
next
  case (2 xs)
  then show ?case by (auto intro!: masked_list simp: list_all2_conv_all_nth)
qed (auto intro: masked_leaf)

section \<open>What the middleware leaves behind\<close>

lemma write_audit_row_run:
  "write_audit_row E C verb path status body ctype q actor ip s =
     (case audit_details C verb status body ctype q of Inl e \<Rightarrow> (Inl e, s) | Inr details \<Rightarrow>
        let db = add_audit (\<lambda>n. \<lparr>a_id = n, a_timestamp = e_now E (world s), a_actor = actor,
           a_action = verb @ '' '' @ path, a_resource_type = fst (extract_resource path),
           a_resource_id = snd (extract_resource path), a_details = JObj details, a_client_ip = ip\<rparr>) (committed s)
        in (Inr (), s\<lparr>work := db, committed := db\<rparr>))"
  by (simp add: write_audit_row_def log_business_event_def exec_simps Let_def split: sum.split)

text \<open>
  Which part of the body a row shows: none of an empty body or a \<open>DELETE\<close>, none but a remark of a body that is no JSON or
  longer than 64 KiB, and otherwise the masked one. \<open>undecodable\<close>: a JSON body on which \<open>json.loads\<close> raises
  something that is not a \<open>JSONDecodeError\<close>.
\<close>

definition is_json :: "http_scope \<Rightarrow> bool" where
  "is_json sc \<longleftrightarrow> contains_sub ''application/json'' (get_header (scope.truncate sc) ''content-type'')"

definition undecodable :: "codec \<Rightarrow> http_scope \<Rightarrow> string \<Rightarrow> bool" where
  "undecodable C sc body \<longleftrightarrow> body \<noteq> [] \<and> hs_method sc \<noteq> ''DELETE'' \<and> is_json sc \<and> length body \<le> 65536
     \<and> (case cd_loads C body of Inl e \<Rightarrow> e \<noteq> PyValueError ''JSONDecodeError'' | Inr _ \<Rightarrow> False)"

definition shows_body :: "codec \<Rightarrow> http_scope \<Rightarrow> string \<Rightarrow> jval \<Rightarrow> bool" where
  "shows_body C sc body details \<longleftrightarrow>
     (if body = [] \<or> hs_method sc = ''DELETE'' then jget details ''request_body'' = None
      else if \<not> is_json sc
      then jget details ''request_body'' = None \<and> jget details ''request_body_not_json'' = Some (JBool True)
      else if 65536 < length body
      then jget details ''request_body'' = None \<and> jget details ''request_body_truncated'' = Some (JBool True)
      else (case cd_loads C body of
          Inl _ \<Rightarrow> jget details ''request_body'' = None \<and> jget details ''request_body_not_json'' = Some (JBool True)
        | Inr parsed \<Rightarrow> (\<exists>v. jget details ''request_body'' = Some v \<and> masked parsed v)))"

text \<open>One more row for this request and status, or the tables as they were if the row was lost.\<close>

definition logged :: "codec \<Rightarrow> http_scope \<Rightarrow> user option \<Rightarrow> string \<Rightarrow> nat \<Rightarrow> db \<Rightarrow> db \<Rightarrow> bool" where
  "logged C sc u body status db db' \<longleftrightarrow>
     (if undecodable C sc body then db' = db
      else \<exists>a. db' = db\<lparr>audit_log := audit_log db @ [a], audit_seq := Suc (audit_seq db)\<rparr>
        \<and> a_actor a = (case u of None \<Rightarrow> ''anonymous'' | Some x \<Rightarrow> if u_username x = [] then ''anonymous'' else u_username x)
        \<and> a_action a = hs_method sc @ '' '' @ sp_path sc \<and> a_client_ip a = hs_client sc
        \<and> jget (a_details a) ''status_code'' = Some (JInt (int status)) \<and> shows_body C sc body (a_details a))"

lemma drain_chunks:
  "drain acc (map (\<lambda>b. HttpRequest b True) chunks @ HttpRequest final False # rest) = Some (Body (acc @ concat chunks @ final))"
  "drain acc (map (\<lambda>b. HttpRequest b True) chunks @ HttpDisconnect # rest) = Some Gone"
  "drain acc (map (\<lambda>b. HttpRequest b True) chunks) = None"
  by (induction chunks arbitrary: acc) simp_all

lemma row_logged:
  "logged C sc u body status (committed s)
     (committed (snd (attempt (write_audit_row E C (hs_method sc) (sp_path sc) status body
        (get_header (scope.truncate sc) ''content-type'') (hs_query sc) (actor_of u) (hs_client sc)) s)))"
proof (cases "body_details C (hs_method sc) (get_header (scope.truncate sc) ''content-type'') body")
  case (Inl e)
  then have "undecodable C sc body"
    by (auto simp: body_details_def undecodable_def is_json_def json_decode_error_def max_audit_body_bytes_def
        split: if_splits sum.splits)
  with Inl show ?thesis by (simp add: attempt_run write_audit_row_run audit_details_def logged_def)
next
  case (Inr d)
  then have "\<not> undecodable C sc body"
    by (auto simp: body_details_def undecodable_def is_json_def json_decode_error_def max_audit_body_bytes_def
        split: if_splits sum.splits)
  moreover from Inr have "shows_body C sc body (JObj ([(''status_code'', JInt (int status)), (''query_params'', q)] @ d))" for q
    by (auto simp: body_details_def shows_body_def is_json_def max_audit_body_bytes_def redact_masks
        split: if_splits sum.splits)
  ultimately show ?thesis
    using Inr by (simp add: attempt_run write_audit_row_run audit_details_def Let_def add_audit_def logged_def)
      (rule exI, rule conjI, rule refl, simp add: actor_of_def)
qed

lemma audit_middleware_run:
  assumes "sp_type sc = ''http''" "should_audit (hs_method sc) (sp_path sc)"
    and "ms = map (\<lambda>b. HttpRequest b True) chunks @ HttpRequest final False # rest"
    and "app [HttpRequest (concat chunks @ final) False, HttpDisconnect] s = ((r, started), mid)"
  shows "\<exists>t. audit_middleware E C app sc u ms s = Some ((r, started), t)
    \<and> logged C sc u (concat chunks @ final) (case started of None \<Rightarrow> 500 | Some n \<Rightarrow> n) (committed mid) (committed t)"
  using assms by (simp add: audit_middleware_def drain_chunks replay_def row_logged)

section \<open>Properties\<close>

text \<open>
  Property C37. The middleware observes and never interferes. A request it does not audit runs as it came.
  A mutation under \<open>/api/v1/\<close>, but not under \<open>/api/v1/me/\<close>, whose body arrived in however many chunks runs with the whole
  body, and whatever the application raised or answered is passed on; after it, exactly one row is
  committed on top of what the application committed, with the caller, the client, the method and path,
  the status that was sent (500 when none was), and the body with every secret field masked. There is one
  exception: a JSON body on which the parser raises something other than a \<open>JSONDecodeError\<close> (one that is not UTF-8)
  suppresses the row while the mutation goes through. While the body is incomplete the middleware waits; if the client
  disconnects, the application is told so and no row is written.
\<close>

theorem audit_middleware_effect:
  "(sp_type sc \<noteq> ''http'' \<or> \<not> starts_with (sp_path sc) ''/api/v1/'' \<or> starts_with (sp_path sc) ''/api/v1/me/''
      \<or> hs_method sc \<notin> {''POST'', ''PUT'', ''DELETE'', ''PATCH''} \<longrightarrow>
      audit_middleware E C app sc u ms s = Some (app ms s))
   \<and> (sp_type sc = ''http'' \<and> starts_with (sp_path sc) ''/api/v1/'' \<and> \<not> starts_with (sp_path sc) ''/api/v1/me/''
      \<and> hs_method sc \<in> {''POST'', ''PUT'', ''DELETE'', ''PATCH''} \<longrightarrow>
      (app [HttpRequest (concat chunks @ final) False, HttpDisconnect] s = ((r, started), mid) \<longrightarrow>
        (\<exists>t. audit_middleware E C app sc u (map (\<lambda>b. HttpRequest b True) chunks @ HttpRequest final False # rest) s
             = Some ((r, started), t)
           \<and> logged C sc u (concat chunks @ final) (case started of None \<Rightarrow> 500 | Some n \<Rightarrow> n) (committed mid) (committed t)))
      \<and> audit_middleware E C app sc u (map (\<lambda>b. HttpRequest b True) chunks @ HttpDisconnect # rest) s
          = Some (app [HttpDisconnect] s)
      \<and> audit_middleware E C app sc u (map (\<lambda>b. HttpRequest b True) chunks) s = None)"
  using audit_middleware_run [OF _ _ refl, of sc app chunks final s r started mid E C u rest]
  by (auto simp: audit_middleware_def should_audit_def drain_chunks)

text \<open>A codec whose every body is undecodable: the mutation's row is lost.\<close>

definition strict_codec :: codec where
  "strict_codec = \<lparr>cd_loads = (\<lambda>_. Inl (PyValueError ''UnicodeDecodeError'')), cd_unquote = (\<lambda>s. s)\<rparr>"

definition example_request :: http_scope where
  "example_request = \<lparr>sp_type = ''http'', sp_path = ''/api/v1/pools/x/drain'',
     sp_headers = [(''content-type'', ''application/json'')], hs_method = ''POST'', hs_query = [],
     hs_client = None\<rparr>"

theorem audit_middleware_effect_witness:
  "\<exists>s2. audit_middleware sim_env strict_codec (\<lambda>_ s. ((Inr (), Some 200), s)) example_request None
      [HttpRequest ''x'' True, HttpRequest ''y'' False] (sim_st empty_db) = Some ((Inr (), Some 200), s2)
    \<and> audit_log (committed s2) = []"
proof -
  have "undecodable strict_codec example_request ''xy''"
    by (simp add: undecodable_def is_json_def example_request_def strict_codec_def get_header_def scope.defs starts_with_def)
  then show ?thesis
    using audit_middleware_effect [where sc = example_request and E = sim_env and C = strict_codec
        and app = "\<lambda>_ s. ((Inr (), Some 200), s)" and chunks = "[''x'']" and final = "''y''" and rest = "[]" and u = None
        and s = "sim_st empty_db" and r = "Inr ()" and started = "Some 200" and mid = "sim_st empty_db"]
    by (auto simp: logged_def example_request_def starts_with_def empty_db_def)
qed

end
