(* ===== verification/Desktops_Api.thy ===== *)
theory Desktops_Api
  imports Pools_Api
begin

text \<open>
  \<open>broker/app/api/desktops.py\<close> with the schemas of \<open>broker/app/schemas/desktop.py\<close>: listing,
  the detail view with its live power state, assignment, and the three asynchronous actions
  that hand a hypervisor task to the tracker. The texts of the answers are left out.
\<close>

section \<open>Views\<close>

record desktop_read =
  dr_id :: uuid
  dr_pool_id :: uuid
  dr_pve_vmid :: int
  dr_pve_node :: string
  dr_name :: string
  dr_assigned_user :: "string option"
  dr_assignment_type :: "string option"
  dr_status :: desktop_status
  dr_power_state :: string
  dr_last_connected :: "int option"
  dr_last_disconnected :: "int option"
  dr_provisioned_at :: "int option"
  dr_error_message :: "string option"
  dr_created_at :: int
  dr_updated_at :: int

definition desktop_view :: "desktop \<Rightarrow> desktop_read" where
  "desktop_view d =
     \<lparr>dr_id = d_id d, dr_pool_id = d_pool_id d, dr_pve_vmid = d_pve_vmid d,
      dr_pve_node = d_pve_node d, dr_name = d_name d, dr_assigned_user = d_assigned_user d,
      dr_assignment_type = d_assignment_type d, dr_status = d_status d,
      dr_power_state = d_power_state d, dr_last_connected = d_last_connected d,
      dr_last_disconnected = d_last_disconnected d, dr_provisioned_at = d_provisioned_at d,
      dr_error_message = d_error_message d, dr_created_at = d_created_at d,
      dr_updated_at = d_updated_at d\<rparr>"

record session_read =
  sr_id :: uuid
  sr_desktop_id :: "uuid option"
  sr_username :: string
  sr_protocol :: string
  sr_status :: session_status
  sr_connected_at :: "int option"
  sr_disconnected_at :: "int option"
  sr_ended_at :: "int option"
  sr_os_user :: "string option"
  sr_os_info :: "jval option"
  sr_last_heartbeat :: "int option"
  sr_idle_since :: "int option"
  sr_created_at :: int

text \<open>
  \<open>SessionRead.model_validate(row)\<close>. The driver gives an \<open>INET\<close> column back as an address
  object, which the schema's \<open>str\<close> fields refuse, so a row with an address does not validate
  and the two address fields of a view that exists are null.
\<close>

definition session_view :: "vdi_session \<Rightarrow> exn + session_read" where
  "session_view r =
     (if s_client_ip r \<noteq> None \<or> s_vm_ip_address r \<noteq> None then Inl (PyValueError ''SessionRead'')
      else Inr \<lparr>sr_id = s_id r, sr_desktop_id = s_desktop_id r, sr_username = s_username r,
        sr_protocol = s_protocol r, sr_status = s_status r, sr_connected_at = s_connected_at r,
        sr_disconnected_at = s_disconnected_at r, sr_ended_at = s_ended_at r,
        sr_os_user = s_os_user r, sr_os_info = s_os_info r,
        sr_last_heartbeat = s_last_heartbeat r, sr_idle_since = s_idle_since r,
        sr_created_at = s_created_at r\<rparr>)"

definition opt_view :: "('r \<Rightarrow> exn + 'v) \<Rightarrow> 'r option \<Rightarrow> ('s, 'v option) eff" where
  "opt_view view r = (case r of None \<Rightarrow> ret None
     | Some x \<Rightarrow> bnd (lift_result (view x)) (\<lambda>v. ret (Some v)))"

section \<open>Listing and detail\<close>

definition desktop_columns :: "(string \<times> (desktop \<Rightarrow> sort_val)) list" where
  "desktop_columns = [(''name'', SStr \<circ> d_name), (''pve_vmid'', SInt \<circ> d_pve_vmid),
     (''status'', \<lambda>d. SInt (case d_status d of D_PROVISIONING \<Rightarrow> 0 | D_AVAILABLE \<Rightarrow> 1
        | D_ASSIGNED \<Rightarrow> 2 | D_CONNECTED \<Rightarrow> 3 | D_DISCONNECTED \<Rightarrow> 4 | D_ERROR \<Rightarrow> 5
        | D_DELETING \<Rightarrow> 6 | D_MAINTENANCE \<Rightarrow> 7)),
     (''created_at'', SInt \<circ> d_created_at), (''last_connected'', opt_int_key \<circ> d_last_connected)]"

definition desktop_filter ::
    "uuid option \<Rightarrow> desktop_status option \<Rightarrow> string option \<Rightarrow> desktop \<Rightarrow> bool" where
  "desktop_filter pid st user d \<longleftrightarrow> (pid = None \<or> pid = Some (d_pool_id d))
     \<and> (st = None \<or> st = Some (d_status d)) \<and> (truthy user \<longrightarrow> d_assigned_user d = user)"

definition list_desktops ::
    "uuid option \<Rightarrow> desktop_status option \<Rightarrow> string option \<Rightarrow> pagination \<Rightarrow>
     ('w, desktop_read list) prog" where
  "list_desktops pid st user g = validated (pagination_ok g) (in_session (
     bnd (query (\<lambda>db. filter (desktop_filter pid st user) (desktops db))) (\<lambda>rows.
     bnd (lift_result (list_rows desktop_columns ''pve_vmid'' g rows)) (\<lambda>page.
     ret (map desktop_view page)))))"

text \<open>The desktop with its pool, which the foreign key guarantees.\<close>

definition desktop_with_pool :: "uuid \<Rightarrow> ('w, desktop \<times> pool) prog" where
  "desktop_with_pool i = bnd (require_row (get_desktop_row i)) (\<lambda>d.
     bnd (query (get_pool_row (d_pool_id d))) (\<lambda>pr.
     case pr of None \<Rightarrow> throw (PyAttributeError ''cluster_id'') | Some p \<Rightarrow> ret (d, p)))"

definition latest_live_session :: "uuid \<Rightarrow> db \<Rightarrow> vdi_session option" where
  "latest_live_session i db =
     (case sort_key (\<lambda>r. - s_created_at r)
        (filter (\<lambda>r. s_desktop_id r = Some i \<and> live_session r) (sessions db)) of
        [] \<Rightarrow> None | r # _ \<Rightarrow> Some r)"

text \<open>
  The opportunistic reconcile. It answers the live state and whether the row was written:
  then its \<open>updated_at\<close> is a server-side value the object no longer holds.
\<close>

definition reconcile_power ::
    "'w env \<Rightarrow> 'w provider option \<Rightarrow> desktop \<Rightarrow> ('w, string \<times> bool) prog" where
  "reconcile_power E PO d = (case PO of None \<Rightarrow> ret (d_power_state d, False) | Some P \<Rightarrow>
     (let ref = desktop_vm_ref P d in
      catching is_provider_error
        (bnd (prov (CallGetStatus ref) (pv_get_vm_status P ref)) (\<lambda>v.
         if v_power_state v = d_power_state d then ret (v_power_state v, False)
         else andthen (set_desktop E (d_id d) (\<lambda>d. d\<lparr>d_power_state := v_power_state v\<rparr>))
              (andthen commit (ret (v_power_state v, True)))))
        (\<lambda>_. ret (d_power_state d, False))))"

text \<open>
  After the write the value of \<open>updated_at\<close> is SQLAlchemy's: whether the library fetches it with the \<open>UPDATE\<close> or leaves it
  expired, in which case an asynchronous session refuses the implicit query the answer needs, is not in
  this repository. \<open>loads_expired\<close> stands for that behaviour.
\<close>

definition get_desktop ::
    "'w env \<Rightarrow> bool \<Rightarrow> (uuid \<Rightarrow> 'w provider option) \<Rightarrow> uuid \<Rightarrow>
     ('w, desktop_read \<times> session_read option \<times> string) prog" where
  "get_desktop E loads_expired providers i = in_session (
     bnd (desktop_with_pool i) (\<lambda>(d, p).
     bnd (query (latest_live_session i)) (\<lambda>row.
     bnd (reconcile_power E (providers (p_cluster_id p)) d) (\<lambda>(live, written).
     if written \<and> \<not> loads_expired then throw (PyValueError ''DesktopRead'')
     else
       bnd (require_row (get_desktop_row i)) (\<lambda>d'.
       bnd (opt_view session_view row) (\<lambda>sv.
       ret (desktop_view d', sv, live)))))))"

section \<open>Assignment\<close>

definition assign_to :: "pool \<Rightarrow> string \<Rightarrow> desktop \<Rightarrow> desktop" where
  "assign_to p user d = d\<lparr>d_assigned_user := Some user,
     d_assignment_type := Some (if p_pool_type p = PERSISTENT then ''persistent'' else ''floating''),
     d_status := (if d_status d = D_AVAILABLE then D_ASSIGNED else d_status d)\<rparr>"

definition other_desktops :: "desktop \<Rightarrow> string \<Rightarrow> db \<Rightarrow> desktop list" where
  "other_desktops d user db = filter (\<lambda>x. d_pool_id x = d_pool_id d
     \<and> d_assigned_user x = Some user \<and> d_id x \<noteq> d_id d) (desktops db)"

definition assign_desktop ::
    "'w env \<Rightarrow> uuid \<Rightarrow> string \<Rightarrow> string \<Rightarrow> string option \<Rightarrow> ('w, desktop_read) prog" where
  "assign_desktop E i user actor ip = in_session (
     bnd (desktop_with_pool i) (\<lambda>(d, p).
     if d_assigned_user d \<noteq> None \<and> d_assigned_user d \<noteq> Some user then throw conflict
     else bnd (query (other_desktops d user)) (\<lambda>rows.
       bnd (scalar_one_or_none rows) (\<lambda>existing.
       if existing \<noteq> None then throw conflict
       else
         andthen (do_when (assign_to p user d \<noteq> d) (set_desktop E i (assign_to p user)))
         (andthen (log_business_event E actor ''desktop.assign'' (Some ''desktop'') (Some i)
            [(''assigned_to'', JStr user),
             (''assignment_type'', j_opt_str (d_assignment_type (assign_to p user d)))] ip)
         (andthen commit
         (bnd (require_row (get_desktop_row i)) (\<lambda>r. ret (desktop_view r)))))))))"

definition unassigned :: "desktop \<Rightarrow> desktop" where
  "unassigned d = d\<lparr>d_assigned_user := None, d_assignment_type := None,
     d_status := (if d_status d = D_ASSIGNED then D_AVAILABLE else d_status d)\<rparr>"

definition count_active_sessions :: "uuid \<Rightarrow> db \<Rightarrow> nat" where
  "count_active_sessions i db =
     length (filter (\<lambda>r. s_desktop_id r = Some i \<and> live_session r) (sessions db))"

definition unassign_desktop ::
    "'w env \<Rightarrow> uuid \<Rightarrow> string \<Rightarrow> string option \<Rightarrow> ('w, desktop_read) prog" where
  "unassign_desktop E i actor ip = in_session (
     bnd (require_row (get_desktop_row i)) (\<lambda>d.
     if d_assigned_user d = None then throw conflict
     else bnd (query (count_active_sessions i)) (\<lambda>n.
       if 0 < n then throw conflict
       else
         andthen (set_desktop E i unassigned)
         (andthen (log_business_event E actor ''desktop.unassign'' (Some ''desktop'') (Some i)
            [(''previous_user'', j_opt_str (d_assigned_user d))] ip)
         (andthen commit
         (bnd (require_row (get_desktop_row i)) (\<lambda>r. ret (desktop_view r))))))))"

section \<open>Asynchronous actions\<close>

definition power_actions :: "(string \<times> task_kind) list" where
  "power_actions = [(''start'', T_START), (''stop'', T_STOP), (''shutdown'', T_SHUTDOWN),
     (''reboot'', T_START)]"

definition power_call :: "'w provider \<Rightarrow> string \<Rightarrow> vm_ref \<Rightarrow> ('w, task_handle) prog" where
  "power_call P action ref =
     (if action = ''start'' then prov (CallStart ref) (pv_start_vm P ref)
      else if action = ''stop'' then prov (CallStop ref) (pv_stop_vm P ref)
      else if action = ''shutdown'' then prov (CallShutdown ref 120 True) (pv_shutdown_vm P ref 120 True)
      else prov (CallReboot ref) (pv_reboot_vm P ref))"

definition desktop_power ::
    "'w env \<Rightarrow> (uuid \<Rightarrow> 'w provider option) \<Rightarrow> uuid \<Rightarrow> string \<Rightarrow> ('w, unit) prog" where
  "desktop_power E providers i action = in_session (
     case map_of power_actions action of None \<Rightarrow> throw bad_request | Some kind \<Rightarrow>
     bnd (desktop_with_pool i) (\<lambda>(d, p).
     if d_pve_task_upid d \<noteq> None then throw conflict
     else (case providers (p_cluster_id p) of None \<Rightarrow> throw bad_request | Some P \<Rightarrow>
       bnd (power_call P action (desktop_vm_ref P d)) (\<lambda>h.
       andthen (record_desktop_task E i kind h) commit))))"

text \<open>Rebuild and destroy stop and destroy the VM alike; only the recorded kind differs.\<close>

definition stop_and_destroy :: "'w provider \<Rightarrow> vm_ref \<Rightarrow> ('w, task_handle) prog" where
  "stop_and_destroy P ref =
     bnd (prov (CallGetStatus ref) (pv_get_vm_status P ref)) (\<lambda>v.
     andthen (do_when (v_power_state v = ''running'')
       (bnd (prov (CallStop ref) (pv_stop_vm P ref)) (\<lambda>h. wait_task P (Some h) 30)))
     (prov (CallDestroy ref) (pv_destroy_vm P ref True)))"

definition start_teardown ::
    "'w env \<Rightarrow> (uuid \<Rightarrow> 'w provider option) \<Rightarrow> task_kind \<Rightarrow> uuid \<Rightarrow> ('w, unit) prog" where
  "start_teardown E providers kind i = in_session (
     bnd (desktop_with_pool i) (\<lambda>(d, p).
     if d_pve_task_upid d \<noteq> None then throw conflict
     else bnd (query (count_active_sessions i)) (\<lambda>n.
       if 0 < n then throw conflict
       else (case providers (p_cluster_id p) of None \<Rightarrow> throw bad_request | Some P \<Rightarrow>
         bnd (stop_and_destroy P (desktop_vm_ref P d)) (\<lambda>h.
         andthen (set_desktop E i (\<lambda>d. d\<lparr>d_status := D_DELETING\<rparr>))
         (andthen (record_desktop_task E i kind h) commit))))))"

definition rebuild_desktop :: "'w env \<Rightarrow> (uuid \<Rightarrow> 'w provider option) \<Rightarrow> uuid \<Rightarrow> ('w, unit) prog" where
  "rebuild_desktop E providers = start_teardown E providers T_REBUILD"

definition destroy_desktop :: "'w env \<Rightarrow> (uuid \<Rightarrow> 'w provider option) \<Rightarrow> uuid \<Rightarrow> ('w, unit) prog" where
  "destroy_desktop E providers = start_teardown E providers T_DESTROY"

section \<open>Invariants\<close>

lemma desktop_writes_keep_identity [simp]:
  "keeps_identity (assign_to p user)" "keeps_identity unassigned"
  by (simp_all add: keeps_identity_def assign_to_def unassigned_def)

context db_writes begin

lemma pres_desktop_with_pool: "pres (both I) (desktop_with_pool i)"
  unfolding desktop_with_pool_def by (intro pres_intros pres_api)

lemmas pres_desktop_api = pres_api pres_desktop_with_pool pres_record_desktop_task
  desktop_writes_keep_identity

lemma pres_list_desktops: "pres (both I) (list_desktops pid st user g)"
  unfolding list_desktops_def by (intro pres_intros pres_api)

lemma pres_get_desktop: "pres (both I) (get_desktop E b providers i)"
  unfolding get_desktop_def reconcile_power_def opt_view_def
  by (intro pres_intros pres_desktop_api) (simp add: keeps_identity_def)

lemma pres_assign_desktop: "pres (both I) (assign_desktop E i user actor ip)"
  unfolding assign_desktop_def by (intro pres_intros pres_desktop_api)

lemma pres_unassign_desktop: "pres (both I) (unassign_desktop E i actor ip)"
  unfolding unassign_desktop_def by (intro pres_intros pres_desktop_api)

lemma pres_desktop_power: "pres (both I) (desktop_power E providers i action)"
  unfolding desktop_power_def power_call_def by (intro pres_intros pres_desktop_api)

lemma pres_start_teardown: "pres (both I) (start_teardown E providers kind i)"
  unfolding start_teardown_def stop_and_destroy_def wait_task_def
  by (intro pres_intros pres_desktop_api) (simp add: keeps_identity_def)

end

section \<open>Accepted tasks are tracked\<close>

text \<open>The row waits for a task of a kind the tracker knows.\<close>

definition tracked :: "uuid \<Rightarrow> task_kind \<Rightarrow> db \<Rightarrow> bool" where
  "tracked i kind db \<longleftrightarrow> (\<exists>d. get_desktop_row i db = Some d \<and> d_pve_task_upid d \<noteq> None
     \<and> parse_task_kind (d_pve_task_kind d) = Some kind)"

lemma parse_task_kind_value: "parse_task_kind (Some (task_kind_value kind)) = Some kind"
  by (cases kind) (simp_all add: parse_task_kind_def)

lemma wp_record_task:
  fixes t :: "'w st"
  assumes "get_desktop_row i (work t) \<noteq> None" "committed t = c"
  shows "wp (andthen (record_desktop_task E i kind h) commit) (\<lambda>_ u. tracked i kind (committed u))
    (\<lambda>_ u. committed u = c) t"
proof (cases "\<exists>u. jget (h_data h) ''upid'' = Some (JStr u)")
  case True
  then obtain u where "jget (h_data h) ''upid'' = Some (JStr u)" by blast
  with assms show ?thesis
    by (auto simp: record_desktop_task_def handle_upid_def wp_simps tracked_def get_desktop_patch
        parse_task_kind_value)
next
  case False
  then have "(handle_upid h :: ('w, string) prog) = throw (PyKeyError ''upid'')"
    by (auto simp: handle_upid_def split: option.splits jval.splits)
  with assms show ?thesis by (simp add: record_desktop_task_def wp_simps)
qed

text \<open>A program that leaves the tables alone, and what runs after it.\<close>

lemma wp_tables_then:
  assumes "pres (\<lambda>t. committed t = c \<and> work t = w) m" "committed s = c" "work s = w"
    and "\<And>a t. committed t = c \<Longrightarrow> work t = w \<Longrightarrow> wp (f a) Q X t"
    and "\<And>e t. committed t = c \<Longrightarrow> work t = w \<Longrightarrow> X e t"
  shows "wp (bnd m f) Q X s"
proof -
  have "wp m (\<lambda>_ t. committed t = c \<and> work t = w) (\<lambda>_ t. committed t = c \<and> work t = w) s"
    using presD [OF assms(1)] assms(2,3) by (simp add: wp_snd)
  then show ?thesis unfolding wp_bnd by (rule wp_mono) (use assms(4,5) in auto)
qed

lemma pres_tables_power: "pres (\<lambda>t. committed t = c \<and> work t = w) (power_call P action ref)"
  unfolding power_call_def by (intro pres_intros pres_tables_prov)

lemma pres_tables_stop: "pres (\<lambda>t. committed t = c \<and> work t = w) (stop_and_destroy P ref)"
  unfolding stop_and_destroy_def wait_task_def by (intro pres_intros pres_tables_prov)

text \<open>What every handler that hands a task to the tracker guarantees.\<close>

definition accepts_one_task :: "uuid \<Rightarrow> ('w, unit) prog \<Rightarrow> 'w st \<Rightarrow> bool" where
  "accepts_one_task i m s \<longleftrightarrow>
     wp m (\<lambda>_ t. (\<forall>d. get_desktop_row i (committed s) = Some d \<longrightarrow> d_pve_task_upid d = None)
            \<and> (\<exists>kind. tracked i kind (committed t)))
          (\<lambda>_ t. committed t = committed s
            \<and> ((\<exists>d. get_desktop_row i (committed s) = Some d \<and> d_pve_task_upid d \<noteq> None)
               \<longrightarrow> calls t = calls s)) s"

text \<open>Both handlers start by loading the desktop with its pool and looking for a task.\<close>

lemma accepts_after_guard:
  assumes "\<And>d p t. get_desktop_row i (committed s) = Some d \<Longrightarrow> d_pve_task_upid d = None \<Longrightarrow>
      committed t = committed s \<Longrightarrow> work t = committed s \<Longrightarrow>
      wp (f d p) (\<lambda>_ u. \<exists>kind. tracked i kind (committed u)) (\<lambda>_ u. committed u = committed s) t"
  shows "accepts_one_task i (in_session (bnd (desktop_with_pool i) (\<lambda>(d, p).
    if d_pve_task_upid d \<noteq> None then throw conflict else f d p))) s"
proof (cases "get_desktop_row i (committed s)")
  case None
  then show ?thesis by (simp add: accepts_one_task_def desktop_with_pool_def wp_def exec_simps)
next
  case (Some d)
  show ?thesis
  proof (cases "get_pool_row (d_pool_id d) (committed s)")
    case None
    with Some show ?thesis by (simp add: accepts_one_task_def desktop_with_pool_def wp_def exec_simps)
  next
    case pool: (Some p)
    show ?thesis
    proof (cases "d_pve_task_upid d")
      case None
      have "wp (f d p) (\<lambda>_ u. \<exists>kind. tracked i kind (committed u)) (\<lambda>_ u. committed u = committed s)
          (s\<lparr>work := committed s\<rparr>)"
        by (rule assms) (use Some None in simp_all)
      then show ?thesis
        using Some pool None
        by (simp add: accepts_one_task_def desktop_with_pool_def require_row_def wp_in_session
            wp_bnd wp_query wp_ret)
    next
      case (Some u)
      with pool \<open>get_desktop_row i (committed s) = Some d\<close> show ?thesis
        by (simp add: accepts_one_task_def desktop_with_pool_def wp_def exec_simps)
    qed
  qed
qed

lemma teardown_accepts_one_task: "accepts_one_task i (start_teardown E providers kind i) s"
  unfolding start_teardown_def
proof (rule accepts_after_guard)
  fix d p and t :: "'a st"
  assume d: "get_desktop_row i (committed s) = Some d"
    and t: "committed t = committed s" "work t = committed s"
  have "wp (andthen (set_desktop E i (\<lambda>d. d\<lparr>d_status := D_DELETING\<rparr>))
        (andthen (record_desktop_task E i kind h) commit))
      (\<lambda>_ v. \<exists>kind. tracked i kind (committed v)) (\<lambda>_ v. committed v = committed s) u"
    if "committed u = committed s" "work u = committed s" for h u
    unfolding wp_andthen [of "set_desktop _ _ _"] wp_set_desktop
    by (rule wp_mono [OF wp_record_task]) (use that d in \<open>auto simp: get_desktop_patch\<close>)
  then show "wp (bnd (query (count_active_sessions i)) (\<lambda>n. if 0 < n then throw conflict
      else (case providers (p_cluster_id p) of None \<Rightarrow> throw bad_request | Some P \<Rightarrow>
        bnd (stop_and_destroy P (desktop_vm_ref P d)) (\<lambda>h.
        andthen (set_desktop E i (\<lambda>d. d\<lparr>d_status := D_DELETING\<rparr>))
        (andthen (record_desktop_task E i kind h) commit)))))
      (\<lambda>_ u. \<exists>kind. tracked i kind (committed u)) (\<lambda>_ u. committed u = committed s) t"
    using t by (cases "providers (p_cluster_id p)")
      (auto simp: wp_query wp_bnd [of "query _"] wp_throw intro: wp_tables_then [OF pres_tables_stop])
qed

lemma power_accepts_one_task: "accepts_one_task i (desktop_power E providers i action) s"
proof (cases "map_of power_actions action")
  case None
  then show ?thesis by (simp add: accepts_one_task_def desktop_power_def wp_def exec_simps)
next
  case (Some kind)
  have "wp (case providers (p_cluster_id p) of None \<Rightarrow> throw bad_request | Some P \<Rightarrow>
        bnd (power_call P action (desktop_vm_ref P d)) (\<lambda>h. andthen (record_desktop_task E i kind h) commit))
      (\<lambda>_ u. \<exists>kind. tracked i kind (committed u)) (\<lambda>_ u. committed u = committed s) t"
    if "get_desktop_row i (committed s) = Some d" "committed t = committed s" "work t = committed s"
    for d p and t :: "'a st"
  proof (cases "providers (p_cluster_id p)")
    case None
    with that show ?thesis by (simp add: wp_throw)
  next
    case (Some P)
    have "wp (andthen (record_desktop_task E i kind h) commit)
        (\<lambda>_ v. \<exists>kind. tracked i kind (committed v)) (\<lambda>_ v. committed v = committed s) u"
      if "committed u = committed s" "work u = committed s" for h u
      by (rule wp_mono [OF wp_record_task]) (use that \<open>get_desktop_row i _ = _\<close> in auto)
    with that Some show ?thesis by (auto intro: wp_tables_then [OF pres_tables_power])
  qed
  then show ?thesis unfolding desktop_power_def Some option.case by (rule accepts_after_guard)
qed

lemma tracked_in_flight:
  assumes "get_desktop_row i db = Some d" "d_pve_task_upid d = Some u"
    and "get_pool_row (d_pool_id d) db = Some p" "get_cluster_row (p_cluster_id p) db = Some c"
    and "c_status c = C_ACTIVE"
  shows "(d, c) \<in> set (in_flight db)"
  using assms by (auto simp: in_flight_def dest!: get_desktop_rowD intro!: bexI [of _ d])

section \<open>Assigning\<close>

lemma filter_map_key:
  assumes "distinct (map k xs)" "x \<in> set xs" "\<And>y. k (f y) = k y"
    and "\<And>y. y \<in> set xs \<Longrightarrow> k y \<noteq> k x \<Longrightarrow> \<not> q y" "q (f x)"
  shows "filter q (map (\<lambda>y. if k y = k x then f y else y) xs) = [f x]"
proof -
  have "filter (q \<circ> (\<lambda>y. if k y = k x then f y else y)) xs = filter (\<lambda>y. k y = k x) xs"
    by (rule filter_cong) (use assms in \<open>auto dest: inj_onD simp: distinct_map\<close>)
  then show ?thesis using filter_key_unique [OF assms(1,2)] by (simp add: filter_map)
qed

lemma filter_other_keys:
  assumes "\<And>y. k (f y) = k y"
  shows "filter (\<lambda>y. k y \<noteq> j) (map (\<lambda>y. if k y = j then f y else y) xs) = filter (\<lambda>y. k y \<noteq> j) xs"
  using assms by (induction xs) auto

text \<open>What the row becomes: its assignment, stamped when that is a change.\<close>

definition assigned_row :: "pool \<Rightarrow> string \<Rightarrow> int \<Rightarrow> desktop \<Rightarrow> desktop \<Rightarrow> desktop" where
  "assigned_row p user t d x = (if assign_to p user d = d then x
     else (assign_to p user x)\<lparr>d_updated_at := t\<rparr>)"

lemma assigned_row_id [simp]: "d_id (assigned_row p user t d x) = d_id x"
  by (simp add: assigned_row_def assign_to_def)

lemma assigned_row_fields:
  "d_assigned_user (assigned_row p user t d d) = Some user"
  "d_pool_id (assigned_row p user t d d) = d_pool_id d"
  "d_status (assigned_row p user t d d) = (if d_status d = D_AVAILABLE then D_ASSIGNED else d_status d)"
  "d_assignment_type (assigned_row p user t d d) = Some (if p_pool_type p = PERSISTENT then ''persistent'' else ''floating'')"
proof -
  let ?a = "assign_to p user d"
  have a: "d_assigned_user ?a = Some user" "d_pool_id ?a = d_pool_id d"
      "d_status ?a = (if d_status d = D_AVAILABLE then D_ASSIGNED else d_status d)"
      "d_assignment_type ?a = Some (if p_pool_type p = PERSISTENT then ''persistent'' else ''floating'')"
    by (simp_all add: assign_to_def)
  show "d_assigned_user (assigned_row p user t d d) = Some user"
    "d_pool_id (assigned_row p user t d d) = d_pool_id d"
    "d_status (assigned_row p user t d d) = (if d_status d = D_AVAILABLE then D_ASSIGNED else d_status d)"
    "d_assignment_type (assigned_row p user t d d) = Some (if p_pool_type p = PERSISTENT then ''persistent'' else ''floating'')"
    using a by (cases "?a = d"; simp add: assigned_row_def)+
qed

lemma assign_run:
  assumes "get_desktop_row i (committed s) = Some d" "get_pool_row (d_pool_id d) (committed s) = Some p"
    and "d_assigned_user d \<in> {None, Some user}" "other_desktops d user (committed s) = []"
  shows "\<exists>s'. assign_desktop E i user actor ip s
      = (Inr (desktop_view (assigned_row p user (e_now E (world s)) d d)), s')
    \<and> get_desktop_row i (committed s') = Some (assigned_row p user (e_now E (world s)) d d)
    \<and> desktops (committed s') = map (\<lambda>x. if d_id x = i then assigned_row p user (e_now E (world s)) d x else x)
        (desktops (committed s))
    \<and> (\<exists>a. audit_log (committed s') = audit_log (committed s) @ [a] \<and> a_action a = ''desktop.assign'' \<and> a_actor a = actor
         \<and> a_resource_id a = Some i \<and> a_client_ip a = ip \<and> jget (a_details a) ''assigned_to'' = Some (JStr user))"
proof -
  from assms(3) have own: "d_assigned_user d = None \<or> d_assigned_user d = Some user" by blast
  have logs: "audit_log (add_audit mk db) = audit_log db @ [mk (Suc (audit_seq db))]" for mk db
    by (simp add: add_audit_def)
  have id: "d_id (assign_to p user x) = d_id x" for x by (simp add: assign_to_def)
  show ?thesis
  proof (cases "assign_to p user d = d")
    case True
    then have "assigned_row p user t d x = x" for t x by (simp add: assigned_row_def)
    with True own assms(1,2,4) show ?thesis
      by (auto simp: assign_desktop_def desktop_with_pool_def exec_simps log_business_event_def logs
          cong: if_cong)
  next
    case False
    then have "assigned_row p user t d x = (assign_to p user x)\<lparr>d_updated_at := t\<rparr>" for t x
      by (simp add: assigned_row_def)
    with False own assms(1,2,4) show ?thesis
      by (auto simp: assign_desktop_def desktop_with_pool_def exec_simps log_business_event_def logs
          get_desktop_patch id) (simp_all add: patch_desktop_def cong: if_cong)
  qed
qed

section \<open>Properties\<close>

text \<open>
  An accepted power action, rebuild or destroy is never lost and never doubled:
  when the handler returns, the committed row holds a task of a known kind, so the next tick
  of the task tracker polls it while the cluster is active; when it raises, nothing is
  committed; and a desktop that already waits for a task is refused before any call to the
  hypervisor.
\<close>

theorem accepted_task_is_tracked:
  assumes "m = desktop_power E providers i action \<or> m = rebuild_desktop E providers i
    \<or> m = destroy_desktop E providers i"
  shows "wp m
    (\<lambda>_ t. (\<forall>d. get_desktop_row i (committed s) = Some d \<longrightarrow> d_pve_task_upid d = None)
       \<and> (\<exists>d. get_desktop_row i (committed t) = Some d \<and> parse_task_kind (d_pve_task_kind d) \<noteq> None
         \<and> (\<forall>p c. get_pool_row (d_pool_id d) (committed t) = Some p
              \<and> get_cluster_row (p_cluster_id p) (committed t) = Some c \<and> c_status c = C_ACTIVE
              \<longrightarrow> (d, c) \<in> set (in_flight (committed t)))))
    (\<lambda>_ t. committed t = committed s
       \<and> ((\<exists>d. get_desktop_row i (committed s) = Some d \<and> d_pve_task_upid d \<noteq> None) \<longrightarrow> calls t = calls s)) s"
proof -
  have "accepts_one_task i m s"
    using assms power_accepts_one_task teardown_accepts_one_task
    by (auto simp: rebuild_desktop_def destroy_desktop_def)
  then show ?thesis unfolding accepts_one_task_def
    by (rule wp_mono) (auto simp: tracked_def intro: tracked_in_flight)
qed

text \<open>
  Property C5. Assigning a desktop keeps one desktop per user and pool. It succeeds exactly
  when the desktop is free or already the user's and the user has no other desktop in the
  pool; then the committed row is the user's only one there, with the assignment type of its pool and \<open>ASSIGNED\<close> if it was
  available, every other desktop is untouched, and one audit row names the administrator, the desktop
  and the user. Otherwise nothing is committed, and the
  answer is 409, or \<open>MultipleResultsFound\<close> for a user who already holds two others.
\<close>

theorem assign_desktop_outcome:
  assumes "keys_unique (committed s)" "get_desktop_row i (committed s) = Some d"
    and "get_pool_row (d_pool_id d) (committed s) = Some p"
    and "others = filter (\<lambda>x. d_pool_id x = d_pool_id d \<and> d_assigned_user x = Some user \<and> d_id x \<noteq> i) (desktops (committed s))"
    and "assign_desktop E i user actor ip s = (r, s')"
  shows "if (d_assigned_user d = None \<or> d_assigned_user d = Some user) \<and> others = []
    then (\<exists>row. r = Inr (desktop_view row) \<and> get_desktop_row i (committed s') = Some row
        \<and> d_assigned_user row = Some user
        \<and> d_assignment_type row = Some (if p_pool_type p = PERSISTENT then ''persistent'' else ''floating'')
        \<and> d_status row = (if d_status d = D_AVAILABLE then D_ASSIGNED else d_status d)
        \<and> filter (\<lambda>x. d_pool_id x = d_pool_id d \<and> d_assigned_user x = Some user)
            (desktops (committed s')) = [row]
        \<and> filter (\<lambda>x. d_id x \<noteq> i) (desktops (committed s')) = filter (\<lambda>x. d_id x \<noteq> i) (desktops (committed s)))
      \<and> (\<exists>a. audit_log (committed s') = audit_log (committed s) @ [a] \<and> a_action a = ''desktop.assign'' \<and> a_actor a = actor
           \<and> a_resource_id a = Some i \<and> a_client_ip a = ip \<and> jget (a_details a) ''assigned_to'' = Some (JStr user))
    else committed s' = committed s
      \<and> r = Inl (if (d_assigned_user d = None \<or> d_assigned_user d = Some user) \<and> 1 < length others
                 then MultipleResultsFound else HTTPException 409 ''CONFLICT'')"
proof -
  from assms(2) have d: "d \<in> set (desktops (committed s))" "d_id d = i" by (auto dest: get_desktop_rowD)
  then have others: "other_desktops d user (committed s) = others" by (simp add: other_desktops_def assms(4))
  show ?thesis
  proof (cases "(d_assigned_user d = None \<or> d_assigned_user d = Some user) \<and> others = []")
    case True
    let ?g = "assigned_row p user (e_now E (world s)) d"
    from True others assms(5) assign_run [OF assms(2,3), of user E actor ip]
    have r: "r = Inr (desktop_view (?g d))" "get_desktop_row i (committed s') = Some (?g d)"
        "desktops (committed s') = map (\<lambda>x. if d_id x = i then ?g x else x) (desktops (committed s))"
      and row: "\<exists>a. audit_log (committed s') = audit_log (committed s) @ [a] \<and> a_action a = ''desktop.assign'' \<and> a_actor a = actor
         \<and> a_resource_id a = Some i \<and> a_client_ip a = ip \<and> jget (a_details a) ''assigned_to'' = Some (JStr user)"
      by auto
    have alone: "\<not> (d_pool_id x = d_pool_id d \<and> d_assigned_user x = Some user \<and> d_id x \<noteq> d_id d)"
      if "x \<in> set (desktops (committed s))" for x
      using True others that by (auto simp: other_desktops_def filter_empty_conv)
    have "filter (\<lambda>x. d_pool_id x = d_pool_id d \<and> d_assigned_user x = Some user)
        (map (\<lambda>x. if d_id x = d_id d then ?g x else x) (desktops (committed s))) = [?g d]"
      using assms(1) d alone by (intro filter_map_key) (auto simp: keys_unique_def assigned_row_fields)
    moreover have "filter (\<lambda>x. d_id x \<noteq> i) (desktops (committed s')) = filter (\<lambda>x. d_id x \<noteq> i) (desktops (committed s))"
      unfolding r(3) by (rule filter_other_keys) simp
    ultimately show ?thesis using True r d(2) row
      by (simp only: if_True simp_thms assigned_row_fields) (auto simp: assigned_row_fields)
  next
    case False
    show ?thesis
    proof (cases "d_assigned_user d \<noteq> None \<and> d_assigned_user d \<noteq> Some user")
      case True
      with assms(2,3,5) show ?thesis
        by (auto simp: assign_desktop_def desktop_with_pool_def exec_simps conflict_def)
    next
      case own: False
      with False have "others \<noteq> []" by auto
      with own assms(2,3,5) others show ?thesis
        by (cases others rule: scalar_one_or_none.cases)
          (auto simp: assign_desktop_def desktop_with_pool_def exec_simps conflict_def)
    qed
  qed
qed

theorem accepted_task_is_tracked_witness:
  "\<exists>t d. destroy_desktop sim_env sim_providers 10 (sim_st example_db) = (Inr (), t)
     \<and> get_desktop_row 10 (committed t) = Some d \<and> parse_task_kind (d_pve_task_kind d) \<noteq> None"
proof -
  have row: "get_desktop_row 10 (committed (sim_st example_db)) = Some example_desktop"
    by (simp add: example_db_def get_desktop_row_def)
  have pool: "get_pool_row (d_pool_id example_desktop) (committed (sim_st example_db)) = Some example_pool"
    by (simp add: example_db_def get_pool_row_def)
  have "\<exists>t. destroy_desktop sim_env sim_providers 10 (sim_st example_db) = (Inr (), t)"
    using row pool
    by (simp add: destroy_desktop_def start_teardown_def desktop_with_pool_def stop_and_destroy_def
        exec_simps count_active_sessions_def example_db_def empty_db_def sim_providers_def
        sim_provider_def sim_vm_status_def record_desktop_task_def handle_upid_def sim_task_def mk_task_def)
  then obtain t where t: "destroy_desktop sim_env sim_providers 10 (sim_st example_db) = (Inr (), t)"
    by blast
  have "destroy_desktop sim_env sim_providers 10 = desktop_power sim_env sim_providers 10 ''stop''
      \<or> destroy_desktop sim_env sim_providers 10 = rebuild_desktop sim_env sim_providers 10
      \<or> destroy_desktop sim_env sim_providers 10 = destroy_desktop sim_env sim_providers 10"
    by simp
  from wp_Inr [OF accepted_task_is_tracked [OF this] t] t show ?thesis by blast
qed

theorem assign_desktop_outcome_witness:
  "\<exists>r s' row. assign_desktop sim_env 10 ''alice'' ''root'' None (sim_st example_db) = (r, s')
     \<and> get_desktop_row 10 (committed s') = Some row \<and> d_assigned_user row = Some ''alice''"
proof -
  have row: "get_desktop_row 10 (committed (sim_st example_db)) = Some example_desktop"
    by (simp add: example_db_def get_desktop_row_def)
  have pool: "get_pool_row (d_pool_id example_desktop) (committed (sim_st example_db)) = Some example_pool"
    by (simp add: example_db_def get_pool_row_def)
  have keys: "keys_unique (committed (sim_st example_db))" by simp
  obtain r s' where run: "assign_desktop sim_env 10 ''alice'' ''root'' None (sim_st example_db) = (r, s')"
    by (cases "assign_desktop sim_env 10 ''alice'' ''root'' None (sim_st example_db)")
  have "[] = filter (\<lambda>x. d_pool_id x = d_pool_id example_desktop \<and> d_assigned_user x = Some ''alice'' \<and> d_id x \<noteq> 10)
      (desktops (committed (sim_st example_db)))"
    by (simp add: example_db_def)
  from assign_desktop_outcome [OF keys row pool this run] run show ?thesis by auto
qed

text \<open>
  The detail view of a desktop in use fails: once the monitor has recorded the
  VM's address on the live session, the view of that session does not validate; and when the
  power state read from the hypervisor differs from the row's, the row is written and
  committed but the answer cannot be built, unless the mapper fetches the new \<open>updated_at\<close>.
\<close>

lemma desktop_detail_fails_on_live_data:
  assumes "get_desktop_row i (committed s) = Some d" "get_pool_row (d_pool_id d) (committed s) = Some p"
  shows "(\<forall>r a. latest_live_session i (committed s) = Some r \<and> s_vm_ip_address r = Some a
        \<longrightarrow> (\<exists>e s'. get_desktop E b providers i s = (Inl e, s')))
    \<and> (\<forall>P v w. providers (p_cluster_id p) = Some P
        \<and> pv_get_vm_status P (desktop_vm_ref P d) (world s) = (Inr v, w)
        \<and> v_power_state v \<noteq> d_power_state d
        \<longrightarrow> (\<exists>s' d'. get_desktop E False providers i s = (Inl (PyValueError ''DesktopRead''), s')
              \<and> get_desktop_row i (committed s') = Some d' \<and> d_power_state d' = v_power_state v))"
proof (intro conjI allI impI)
  fix r a assume "latest_live_session i (committed s) = Some r \<and> s_vm_ip_address r = Some a"
  with assms have "wp (get_desktop E b providers i) (\<lambda>_ _. False) (\<lambda>_ _. True) s"
    by (simp add: get_desktop_def desktop_with_pool_def wp_in_session require_row_def wp_bnd wp_query
        wp_ret)
      (rule wpI, auto simp: wp_def opt_view_def session_view_def exec_simps split: option.splits prod.splits)
  then show "\<exists>e s'. get_desktop E b providers i s = (Inl e, s')"
    by (auto simp: wp_def split: prod.splits sum.splits)
next
  fix P v w
  assume "providers (p_cluster_id p) = Some P
    \<and> pv_get_vm_status P (desktop_vm_ref P d) (world s) = (Inr v, w) \<and> v_power_state v \<noteq> d_power_state d"
  with assms show "\<exists>s' d'. get_desktop E False providers i s = (Inl (PyValueError ''DesktopRead''), s')
      \<and> get_desktop_row i (committed s') = Some d' \<and> d_power_state d' = v_power_state v"
    using get_desktop_rowD [OF assms(1)]
    by (auto simp: get_desktop_def desktop_with_pool_def reconcile_power_def Let_def exec_simps
        get_desktop_patch)
qed

end
