(* ===== verification/Sessions_Api.thy ===== *)
theory Sessions_Api
  imports Desktops_Api Auth
begin

text \<open>
  The session endpoints: \<open>broker/app/api/sessions.py\<close> for administrators,
  \<open>broker/app/api/user.py\<close> for the caller's own pools and sessions,
  \<open>broker/app/api/admin_users.py\<close>, the shared queries of
  \<open>broker/app/services/user_diagnostics.py\<close> and the schemas they answer with. The user is
  what the authentication middleware attached to the request.
\<close>

section \<open>Views\<close>

record session_admin =
  sa_id :: uuid
  sa_desktop_id :: "uuid option"
  sa_desktop_name :: "string option"
  sa_pool_id :: "uuid option"
  sa_pool_name :: "string option"
  sa_pool_type :: "pool_type option"
  sa_username :: string
  sa_protocol :: string
  sa_client_ip :: "string option"
  sa_status :: session_status
  sa_connected_at :: "int option"
  sa_disconnected_at :: "int option"
  sa_ended_at :: "int option"
  sa_last_heartbeat :: "int option"

record session_detail = session_admin +
  sa_os_user :: "string option"
  sa_os_info :: "jval option"
  sa_vm_ip_address :: "string option"
  sa_idle_since :: "int option"

type_synonym joined_session = "vdi_session \<times> desktop option \<times> pool option"

text \<open>\<open>Session LEFT OUTER JOIN Desktop LEFT OUTER JOIN Pool\<close>.\<close>

definition join_session :: "db \<Rightarrow> vdi_session \<Rightarrow> joined_session" where
  "join_session db r =
     (let d = Option.bind (s_desktop_id r) (\<lambda>i. get_desktop_row i db)
      in (r, d, Option.bind d (\<lambda>x. get_pool_row (d_pool_id x) db)))"

definition session_admin_view :: "joined_session \<Rightarrow> session_admin" where
  "session_admin_view j = (case j of (r, d, p) \<Rightarrow>
     \<lparr>sa_id = s_id r, sa_desktop_id = map_option d_id d, sa_desktop_name = map_option d_name d,
      sa_pool_id = map_option p_id p, sa_pool_name = map_option p_display_name p,
      sa_pool_type = map_option p_pool_type p, sa_username = s_username r,
      sa_protocol = s_protocol r, sa_client_ip = s_client_ip r, sa_status = s_status r,
      sa_connected_at = s_connected_at r, sa_disconnected_at = s_disconnected_at r,
      sa_ended_at = s_ended_at r, sa_last_heartbeat = s_last_heartbeat r\<rparr>)"

definition session_detail_view :: "joined_session \<Rightarrow> session_detail" where
  "session_detail_view j =
     (let r = fst j in session_admin.extend (session_admin_view j)
       (session_detail.fields (s_os_user r) (s_os_info r) (s_vm_ip_address r) (s_idle_since r)))"

section \<open>Administrators\<close>

record session_query =
  sq_username :: "string option"
  sq_pool_id :: "uuid option"
  sq_desktop_id :: "uuid option"
  sq_status :: "session_status option"
  sq_since :: "int option"
  sq_until :: "int option"
  sq_include_ended :: bool

definition session_query_matches :: "session_query \<Rightarrow> joined_session \<Rightarrow> bool" where
  "session_query_matches q j \<longleftrightarrow> (case j of (r, d, p) \<Rightarrow>
     (truthy (sq_username q) \<longrightarrow> sq_username q = Some (s_username r))
     \<and> (sq_pool_id q \<noteq> None \<longrightarrow> map_option d_pool_id d = sq_pool_id q)
     \<and> (sq_desktop_id q \<noteq> None \<longrightarrow> s_desktop_id r = sq_desktop_id q)
     \<and> (sq_status q \<noteq> None \<longrightarrow> sq_status q = Some (s_status r))
     \<and> (case sq_since q of None \<Rightarrow> True | Some t \<Rightarrow> t \<le> s_created_at r)
     \<and> (case sq_until q of None \<Rightarrow> True | Some t \<Rightarrow> s_created_at r \<le> t)
     \<and> (sq_include_ended q \<or> live_session r))"

definition session_columns :: "(string \<times> (joined_session \<Rightarrow> sort_val)) list" where
  "session_columns = [(''created_at'', SInt \<circ> s_created_at \<circ> fst),
     (''connected_at'', opt_int_key \<circ> s_connected_at \<circ> fst),
     (''ended_at'', opt_int_key \<circ> s_ended_at \<circ> fst), (''username'', SStr \<circ> s_username \<circ> fst)]"

definition list_sessions :: "session_query \<Rightarrow> pagination \<Rightarrow> ('w, session_admin list) prog" where
  "list_sessions q g = validated (pagination_ok g) (in_session (
     bnd (query (\<lambda>db. filter (session_query_matches q) (map (join_session db) (sessions db)))) (\<lambda>rows.
     bnd (lift_result (list_rows session_columns ''created_at'' g rows)) (\<lambda>page.
     ret (map session_admin_view page)))))"

definition get_session :: "uuid \<Rightarrow> ('w, session_detail) prog" where
  "get_session i = in_session (
     bnd (require_row (\<lambda>db. map_option (join_session db) (get_session_row i db))) (\<lambda>j.
     ret (session_detail_view j)))"

definition force_disconnect_session ::
    "'w env \<Rightarrow> user \<Rightarrow> uuid \<Rightarrow> string option \<Rightarrow> ('w, unit) prog" where
  "force_disconnect_session E u i ip = in_session (
     bnd (require_row (get_session_row i)) (\<lambda>r.
     if s_status r = S_ENDED then ret ()
     else
       andthen (end_session E i (Some (u_username u)))
       (andthen (log_business_event E (u_username u) ''admin.session.force_disconnect''
          (Some ''session'') (Some i)
          [(''session_owner'', JStr (s_username r)),
           (''desktop_id'', JStr (case s_desktop_id r of None \<Rightarrow> ''None'' | Some d \<Rightarrow> str_uuid d))] ip)
       commit)))"

section \<open>The caller's own pools and sessions\<close>

text \<open>\<open>ticket_to_wire\<close>: the four pydantic variants as JSON objects.\<close>

definition j_opt_int :: "int option \<Rightarrow> jval" where
  "j_opt_int x = (case x of None \<Rightarrow> JNull | Some v \<Rightarrow> JInt v)"

fun ticket_to_wire :: "console_ticket \<Rightarrow> jval" where
  "ticket_to_wire (NoVNCTicket url password cert) = JObj [(''kind'', JStr ''novnc''),
     (''websocket_url'', JStr url), (''password'', JStr password), (''cert_pem'', j_opt_str cert)]"
| "ticket_to_wire (SpiceTicket host port tls password proxy) = JObj [(''kind'', JStr ''spice''),
     (''host'', JStr host), (''port'', JInt port), (''tls_port'', j_opt_int tls),
     (''password'', JStr password), (''proxy'', j_opt_str proxy)]"
| "ticket_to_wire (WebMKSTicket host port ticket) = JObj [(''kind'', JStr ''webmks''),
     (''host'', JStr host), (''port'', JInt port), (''ticket'', JStr ticket)]"
| "ticket_to_wire (RDPTicket host port username password gw token) = JObj [(''kind'', JStr ''rdp''),
     (''host'', JStr host), (''port'', JInt port), (''username'', j_opt_str username),
     (''password'', j_opt_str password), (''gateway_host'', j_opt_str gw),
     (''gateway_token'', j_opt_str token)]"

record connect_response =
  co_session_id :: uuid
  co_desktop_name :: string
  co_ticket :: jval

text \<open>\<open>except NoResultFound\<close> and \<open>except KeyError\<close> around the whole of \<open>broker.connect\<close>.\<close>

definition connect_error :: "exn \<Rightarrow> exn" where
  "connect_error e = (case e of
       NoResultFound \<Rightarrow> not_found
     | PyKeyError _ \<Rightarrow> HTTPException 503 ''SERVICE_UNAVAILABLE''
     | _ \<Rightarrow> e)"

definition connect_desktop ::
    "'w env \<Rightarrow> (uuid \<Rightarrow> 'w provider option) \<Rightarrow> user \<Rightarrow> uuid \<Rightarrow> ('w, connect_response) prog" where
  "connect_desktop E providers u pid = in_session (
     bnd (attempt (connect E providers (u_username u) (u_groups u) pid)) (\<lambda>r.
     case r of
       Inl e \<Rightarrow> throw (connect_error e)
     | Inr c \<Rightarrow> ret \<lparr>co_session_id = cres_session_id c, co_desktop_name = cres_desktop_name c,
                     co_ticket = ticket_to_wire (cres_ticket c)\<rparr>))"

record user_desktop_view =
  ud_id :: uuid
  ud_name :: string
  ud_status :: desktop_status
  ud_power_state :: string
  ud_last_connected :: "int option"

record user_pool_view =
  up_id :: uuid
  up_name :: string
  up_display_name :: string
  up_description :: "string option"
  up_pool_type :: pool_type
  up_status :: pool_status
  up_assigned_desktop :: "user_desktop_view option"

text \<open>\<open>groups=None\<close> and an empty list both leave the direct entitlements only.\<close>

definition entitled_pools :: "string \<Rightarrow> string list option \<Rightarrow> db \<Rightarrow> pool list" where
  "entitled_pools name groups db =
     sort_key p_display_name (filter (\<lambda>p. \<exists>en\<in>set (entitlements db). en_pool_id en = p_id p
       \<and> (en_principal_type en = ''user'' \<and> en_principal_name en = name
          \<or> (case groups of None \<Rightarrow> False | Some gs \<Rightarrow>
               gs \<noteq> [] \<and> en_principal_type en = ''group'' \<and> en_principal_name en \<in> set gs)))
       (pools db))"

text \<open>The dictionary by pool id keeps the last of several desktops.\<close>

definition held_desktop :: "uuid \<Rightarrow> string \<Rightarrow> db \<Rightarrow> desktop option" where
  "held_desktop pid name db = find (\<lambda>d. d_pool_id d = pid \<and> d_assigned_user d = Some name
     \<and> d_status d \<noteq> D_DELETING) (rev (desktops db))"

definition user_desktop_view_of :: "desktop \<Rightarrow> user_desktop_view" where
  "user_desktop_view_of d = \<lparr>ud_id = d_id d, ud_name = d_name d, ud_status = d_status d,
     ud_power_state = d_power_state d, ud_last_connected = d_last_connected d\<rparr>"

definition list_pools_for_user :: "string \<Rightarrow> string list option \<Rightarrow> ('w, user_pool_view list) prog" where
  "list_pools_for_user name groups = query (\<lambda>db. map (\<lambda>p.
     \<lparr>up_id = p_id p, up_name = p_name p, up_display_name = p_display_name p,
      up_description = p_description p, up_pool_type = p_pool_type p, up_status = p_status p,
      up_assigned_desktop = map_option user_desktop_view_of (held_desktop (p_id p) name db)\<rparr>)
     (entitled_pools name groups db))"

record user_session_view =
  us_id :: uuid
  us_desktop_id :: "uuid option"
  us_desktop_name :: "string option"
  us_pool_id :: "uuid option"
  us_pool_name :: "string option"
  us_protocol :: string
  us_status :: session_status
  us_connected_at :: "int option"
  us_disconnected_at :: "int option"
  us_ended_at :: "int option"

definition user_session_view_of :: "joined_session \<Rightarrow> user_session_view" where
  "user_session_view_of j = (case j of (r, d, p) \<Rightarrow>
     \<lparr>us_id = s_id r, us_desktop_id = map_option d_id d, us_desktop_name = map_option d_name d,
      us_pool_id = map_option p_id p, us_pool_name = map_option p_display_name p,
      us_protocol = s_protocol r, us_status = s_status r, us_connected_at = s_connected_at r,
      us_disconnected_at = s_disconnected_at r, us_ended_at = s_ended_at r\<rparr>)"

definition users_sessions :: "string \<Rightarrow> bool \<Rightarrow> nat \<Rightarrow> db \<Rightarrow> vdi_session list" where
  "users_sessions name include_ended limit db =
     take limit (sort_key (\<lambda>r. - s_created_at r)
       (filter (\<lambda>r. s_username r = name \<and> (include_ended \<or> live_session r)) (sessions db)))"

definition list_sessions_for_user :: "string \<Rightarrow> bool \<Rightarrow> nat \<Rightarrow> ('w, user_session_view list) prog" where
  "list_sessions_for_user name include_ended limit = query (\<lambda>db.
     map (\<lambda>r. user_session_view_of (join_session db r)) (users_sessions name include_ended limit db))"

definition list_user_desktops :: "user \<Rightarrow> ('w, user_pool_view list) prog" where
  "list_user_desktops u = in_session (list_pools_for_user (u_username u) (Some (u_groups u)))"

definition limit_ok :: "nat \<Rightarrow> bool" where
  "limit_ok n \<longleftrightarrow> 1 \<le> n \<and> n \<le> 200"

definition list_user_sessions :: "user \<Rightarrow> bool \<Rightarrow> nat \<Rightarrow> ('w, user_session_view list) prog" where
  "list_user_sessions u include_ended limit =
     validated (limit_ok limit) (in_session (list_sessions_for_user (u_username u) include_ended limit))"

definition disconnect_user_session :: "'w env \<Rightarrow> user \<Rightarrow> uuid \<Rightarrow> ('w, unit) prog" where
  "disconnect_user_session E u i = in_session (
     bnd (query (get_session_row i)) (\<lambda>row.
     case row of None \<Rightarrow> throw not_found | Some r \<Rightarrow>
     if s_username r \<noteq> u_username u then throw not_found
     else if s_status r = S_ENDED then ret ()
     else end_session E i (Some (u_username u))))"

definition admin_list_user_desktops :: "string \<Rightarrow> ('w, user_pool_view list) prog" where
  "admin_list_user_desktops name = in_session (list_pools_for_user (py_lower name) None)"

definition admin_list_user_sessions :: "string \<Rightarrow> bool \<Rightarrow> nat \<Rightarrow> ('w, user_session_view list) prog" where
  "admin_list_user_sessions name include_ended limit =
     validated (limit_ok limit) (in_session (list_sessions_for_user (py_lower name) include_ended limit))"

section \<open>Invariants\<close>

context db_writes begin

lemma pres_session_queries:
  "pres (both I) (list_sessions q g)" "pres (both I) (get_session i)"
  "pres (both I) (list_user_desktops u)" "pres (both I) (list_user_sessions u b n)"
  "pres (both I) (admin_list_user_desktops name)" "pres (both I) (admin_list_user_sessions name b n)"
  unfolding list_sessions_def get_session_def list_user_desktops_def list_user_sessions_def
    admin_list_user_desktops_def admin_list_user_sessions_def list_pools_for_user_def
    list_sessions_for_user_def
  by (intro pres_intros pres_api)+

lemma pres_force_disconnect: "pres (both I) (force_disconnect_session E u i ip)"
  unfolding force_disconnect_session_def by (intro pres_intros pres_api pres_end_session)

lemma pres_disconnect_user_session: "pres (both I) (disconnect_user_session E u i)"
  unfolding disconnect_user_session_def by (intro pres_intros pres_api pres_end_session)

end

text \<open>What follows the connect attempt only computes the answer.\<close>

lemma pres_session_answer:
  assumes "pres J (in_session m)" "\<And>r s. snd (f r s) = s"
  shows "pres J (in_session (bnd (attempt m) f))"
proof -
  have "snd (in_session (bnd (attempt m) f) s) = snd (in_session m s)" for s
    using assms(2) by (auto simp: exec_simps split: prod.splits) (metis snd_conv)+
  with assms(1) show ?thesis by (simp add: pres_def)
qed

context db_invariant begin

lemma pres_connect_desktop: "pres (both I) (connect_desktop E providers u pid)"
  unfolding connect_desktop_def
  by (rule pres_session_answer [OF pres_connect]) (auto simp: exec_simps split: sum.splits)

end

section \<open>Properties\<close>

lemma set_entitled_pools:
  "set (entitled_pools name (Some groups) db) = {p \<in> set (pools db). is_entitled (p_id p) name groups db}"
  "set (entitled_pools name None db) = {p \<in> set (pools db). is_entitled (p_id p) name [] db}"
  by (auto simp: entitled_pools_def is_entitled_def)

text \<open>
  The pools \<open>GET /me/desktops\<close> shows are those \<open>connect\<close> lets the user into: a
  pool is listed exactly when the user, directly or through a group, is entitled to it, in
  the order of display names; an active pool that is not listed refuses the user and changes
  nothing. The administrator's view of a user is the view without groups.
\<close>

theorem listed_pools_are_connectable:
  assumes "keys_unique (committed s)" "list_user_desktops u s = (Inr vs, s')"
    and "get_pool_row pid (committed s) = Some p" "p_status p = P_ACTIVE"
  shows "((\<exists>v\<in>set vs. up_id v = pid) \<longleftrightarrow> is_entitled pid (u_username u) (u_groups u) (committed s))
    \<and> sorted (map up_display_name vs)
    \<and> ((\<forall>v\<in>set vs. up_id v \<noteq> pid) \<longrightarrow> connect_desktop E providers u pid s
         = (Inl (NotEntitled (u_username u) (p_name p)), s\<lparr>work := committed s\<rparr>))
    \<and> fst (admin_list_user_desktops name s) = fst (list_user_desktops
         \<lparr>u_username = py_lower name, u_groups = [], u_role = ROLE_USER\<rparr> s)"
proof -
  let ?db = "committed s"
  have vs: "vs = map (\<lambda>p. \<lparr>up_id = p_id p, up_name = p_name p, up_display_name = p_display_name p,
      up_description = p_description p, up_pool_type = p_pool_type p, up_status = p_status p,
      up_assigned_desktop = map_option user_desktop_view_of (held_desktop (p_id p) (u_username u) ?db)\<rparr>)
      (entitled_pools (u_username u) (Some (u_groups u)) ?db)"
    using assms(2) by (auto simp: list_user_desktops_def list_pools_for_user_def exec_simps)
  have pid: "p \<in> set (pools ?db)" "p_id p = pid" using assms(3) by (auto dest: get_pool_rowD)
  have listed: "(\<exists>v\<in>set vs. up_id v = pid) \<longleftrightarrow> is_entitled pid (u_username u) (u_groups u) ?db"
    unfolding vs using pid by (auto simp: set_entitled_pools)
  moreover have "sorted (map up_display_name vs)"
    unfolding vs by (simp add: entitled_pools_def comp_def)
  moreover have "connect_desktop E providers u pid s
      = (Inl (NotEntitled (u_username u) (p_name p)), s\<lparr>work := ?db\<rparr>)"
    if "\<not> is_entitled pid (u_username u) (u_groups u) ?db"
    using filter_pool_unique [OF assms(1) pid(1)] pid(2) assms(4) that
    by (simp add: connect_desktop_def connect_def exec_simps connect_error_def)
  moreover have "entitled_pools n None ?db = entitled_pools n (Some []) ?db" for n
    by (simp add: entitled_pools_def)
  then have "fst (admin_list_user_desktops name s) = fst (list_user_desktops
         \<lparr>u_username = py_lower name, u_groups = [], u_role = ROLE_USER\<rparr> s)"
    by (simp add: admin_list_user_desktops_def list_user_desktops_def list_pools_for_user_def exec_simps)
  ultimately show ?thesis by blast
qed

text \<open>
  The \<open>/me\<close> endpoints keep users apart: a user's session list holds only that
  user's sessions, newest first, at most as many as asked for; and disconnecting a session of
  someone else is answered exactly as a session that does not exist, with nothing changed.
\<close>

theorem own_sessions_only:
  assumes "\<forall>r. get_session_row i (committed s) = Some r \<longrightarrow> s_username r \<noteq> u_username u"
    and "list_user_sessions u include_ended limit s = (Inr vs, s')"
  shows "disconnect_user_session E u i s = (Inl not_found, s\<lparr>work := committed s\<rparr>)
    \<and> length vs \<le> limit
    \<and> (\<exists>rs. vs = map (\<lambda>r. user_session_view_of (join_session (committed s) r)) rs
          \<and> set rs \<subseteq> {r \<in> set (sessions (committed s)). s_username r = u_username u}
          \<and> sorted (map (\<lambda>r. - s_created_at r) rs))"
proof -
  let ?rs = "users_sessions (u_username u) include_ended limit (committed s)"
  have vs: "vs = map (\<lambda>r. user_session_view_of (join_session (committed s) r)) ?rs"
    using assms(2) by (auto simp: list_user_sessions_def list_sessions_for_user_def exec_simps split: if_splits)
  have "disconnect_user_session E u i s = (Inl not_found, s\<lparr>work := committed s\<rparr>)"
    using assms(1)
    by (cases "get_session_row i (committed s)") (simp_all add: disconnect_user_session_def exec_simps)
  moreover have "length vs \<le> limit" unfolding vs by (simp add: users_sessions_def)
  moreover have "set ?rs \<subseteq> {r \<in> set (sessions (committed s)). s_username r = u_username u}"
    by (auto simp: users_sessions_def dest: in_set_takeD)
  moreover have "sorted (map (\<lambda>r. - s_created_at r) ?rs)"
    by (simp add: users_sessions_def take_map [symmetric] sorted_wrt_take)
  ultimately show ?thesis unfolding vs by blast
qed

theorem listed_pools_are_connectable_witness:
  "fst (admin_list_user_desktops ''BOB'' (sim_st example_db)) = Inr []
     \<and> fst (connect_desktop sim_env sim_providers \<lparr>u_username = ''bob'', u_groups = [], u_role = ROLE_USER\<rparr> 1
         (sim_st example_db)) = Inl (NotEntitled ''bob'' ''eng'')"
proof -
  let ?u = "\<lparr>u_username = ''bob'', u_groups = [], u_role = ROLE_USER\<rparr>"
  have none: "entitled_pools ''bob'' (Some []) example_db = []"
    by (simp add: entitled_pools_def example_db_def)
  have keys: "keys_unique (committed (sim_st example_db))" by simp
  have run: "list_user_desktops ?u (sim_st example_db) = (Inr [], sim_st example_db)"
    by (simp add: list_user_desktops_def list_pools_for_user_def exec_simps none)
  have pool: "get_pool_row 1 (committed (sim_st example_db)) = Some example_pool"
    by (simp add: example_db_def get_pool_row_def)
  have "py_lower ''BOB'' = ''bob''" by code_simp
  with listed_pools_are_connectable [OF keys run pool, of sim_env sim_providers "''BOB''"] run
  show ?thesis by simp
qed

theorem own_sessions_only_witness:
  "fst (disconnect_user_session sim_env \<lparr>u_username = ''bob'', u_groups = [], u_role = ROLE_USER\<rparr> 20
     (sim_st (example_db\<lparr>sessions := [example_session]\<rparr>))) = Inl not_found"
proof -
  let ?u = "\<lparr>u_username = ''bob'', u_groups = [], u_role = ROLE_USER\<rparr>"
  let ?s = "sim_st (example_db\<lparr>sessions := [example_session]\<rparr>)"
  have "\<forall>r. get_session_row 20 (committed ?s) = Some r \<longrightarrow> s_username r \<noteq> u_username ?u"
    by (simp add: get_session_row_def example_session_def new_session_def)
  moreover obtain vs s' where "list_user_sessions ?u True 10 ?s = (Inr vs, s')"
    by (simp add: list_user_sessions_def list_sessions_for_user_def exec_simps limit_ok_def)
  ultimately show ?thesis using own_sessions_only [of 20 ?s ?u True 10 vs s' sim_env] by simp
qed

text \<open>Only the last command of a program decides what holds when it returns.\<close>

lemma wp_tail:
  "(\<And>a t. wp (f a) Q (\<lambda>_ _. True) t) \<Longrightarrow> wp (bnd m f) Q (\<lambda>_ _. True) s"
  "(\<And>t. wp n Q (\<lambda>_ _. True) t) \<Longrightarrow> wp (andthen m n) Q (\<lambda>_ _. True) s"
  by (auto simp: wp_bnd wp_andthen intro: wp_mono [OF wp_True])

lemma end_session_work: "end_session E i actor s = (Inr (), t) \<Longrightarrow> work t = committed t"
proof -
  have "wp (end_session E i actor) (\<lambda>_ t. work t = committed t) (\<lambda>_ _. True) s"
    unfolding end_session_def by (intro wp_tail) (simp add: wp_commit)
  then show "end_session E i actor s = (Inr (), t) \<Longrightarrow> work t = committed t" by (rule wp_Inr)
qed

text \<open>
  An administrator's forced disconnect of a live session ends it, erases its
  ticket and leaves exactly two audit rows in the administrator's name, the end of the
  session and the forced disconnect; repeating it succeeds and changes nothing. It cannot
  end a session whose desktop was deleted: that raises and commits nothing.
\<close>

theorem force_disconnect_outcome:
  assumes "keys_unique (committed s)" "get_session_row i (committed s) = Some r"
    and "s_status r \<noteq> S_ENDED" "u_username u \<noteq> []"
  shows "(\<forall>j d. s_desktop_id r = Some j \<and> get_desktop_row j (committed s) = Some d \<longrightarrow>
      (\<exists>s' r' a b. force_disconnect_session E u i ip s = (Inr (), s')
         \<and> get_session_row i (committed s') = Some r' \<and> s_status r' = S_ENDED \<and> s_connection_info r' = None
         \<and> audit_log (committed s') = audit_log (committed s) @ [a, b]
         \<and> a_action a = ''broker.session.end'' \<and> a_actor a = u_username u
         \<and> a_action b = ''admin.session.force_disconnect'' \<and> a_actor b = u_username u
         \<and> force_disconnect_session E u i ip s' = (Inr (), s')))
    \<and> (s_desktop_id r = None \<longrightarrow>
        (\<exists>s'. force_disconnect_session E u i ip s = (Inl NoResultFound, s') \<and> committed s' = committed s))"
proof (intro conjI allI impI)
  let ?s = "s\<lparr>work := committed s\<rparr>"
  fix j d assume jd: "s_desktop_id r = Some j \<and> get_desktop_row j (committed s) = Some d"
  obtain x t where run: "end_session E i (Some (u_username u)) ?s = (x, t)"
    by (cases "end_session E i (Some (u_username u)) ?s")
  from end_session_run [of ?s i r j d E "Some (u_username u)"] assms jd run
  obtain a where x: "x = Inr ()" and row: "get_session_row i (committed t) = Some (r\<lparr>s_status := S_ENDED,
        s_ended_at := Some (e_now E (world s)), s_connection_info := None\<rparr>)"
      and a: "audit_log (committed t) = audit_log (committed s) @ [a]"
        "a_action a = ''broker.session.end''" "a_actor a = u_username u"
    by (auto simp: session_end_row_def split: list.splits)
  from end_session_work [of E i _ ?s t] run x have w: "work t = committed t" by simp
  show "\<exists>s' r' a b. force_disconnect_session E u i ip s = (Inr (), s')
     \<and> get_session_row i (committed s') = Some r' \<and> s_status r' = S_ENDED \<and> s_connection_info r' = None
     \<and> audit_log (committed s') = audit_log (committed s) @ [a, b]
     \<and> a_action a = ''broker.session.end'' \<and> a_actor a = u_username u
     \<and> a_action b = ''admin.session.force_disconnect'' \<and> a_actor b = u_username u
     \<and> force_disconnect_session E u i ip s' = (Inr (), s')"
    using assms(2,3) run x row a w
    by (simp add: force_disconnect_session_def exec_simps log_business_event_def add_audit_def
        get_session_row_def)
next
  assume "s_desktop_id r = None"
  with end_session_effect [of "s\<lparr>work := committed s\<rparr>" i r E "Some (u_username u)"] assms(1-3)
  show "\<exists>s'. force_disconnect_session E u i ip s = (Inl NoResultFound, s') \<and> committed s' = committed s"
    by (cases "end_session E i (Some (u_username u)) (s\<lparr>work := committed s\<rparr>)")
      (simp add: force_disconnect_session_def exec_simps)
qed

theorem force_disconnect_outcome_witness:
  "\<exists>s'. force_disconnect_session sim_env \<lparr>u_username = ''root'', u_groups = [], u_role = ROLE_ADMIN\<rparr> 20 None
     (sim_st (example_db\<lparr>sessions := [example_session]\<rparr>)) = (Inr (), s')"
proof -
  let ?u = "\<lparr>u_username = ''root'', u_groups = [], u_role = ROLE_ADMIN\<rparr>"
  let ?s = "sim_st (example_db\<lparr>sessions := [example_session]\<rparr>)"
  have k: "keys_unique (committed ?s)" by (simp add: keys_unique_def example_db_def empty_db_def)
  have r: "get_session_row 20 (committed ?s) = Some example_session"
    by (simp add: get_session_row_def example_session_def new_session_def)
  have live: "s_status example_session \<noteq> S_ENDED" and d: "s_desktop_id example_session = Some 10"
    by (simp_all add: example_session_def new_session_def)
  have "get_desktop_row 10 (committed ?s) = Some example_desktop"
    by (simp add: get_desktop_row_def example_db_def)
  with force_disconnect_outcome [OF k r live, of ?u sim_env None] d show ?thesis by auto
qed

end
