(* ===== verification/Error_Envelope.thy ===== *)
theory Error_Envelope
  imports Sessions_Api "HOL-Library.AList"
begin

text \<open>
  The exception handlers of \<open>broker/app/main.py\<close>: every exception a request raises becomes a
  status code and the envelope \<open>{"data": null, "error": {...}}\<close>, with details for
  administrators only. What an exception object carries beside its class, its text (\<open>str\<close>)
  and the raw detail of a provider error, is a parameter of the handlers.
\<close>

section \<open>Envelope helpers\<close>

definition request_is_admin :: "user option \<Rightarrow> bool" where
  "request_is_admin u \<longleftrightarrow> (case u of None \<Rightarrow> False | Some x \<Rightarrow> u_role x = ROLE_ADMIN)"

definition envelope :: "string \<Rightarrow> string \<Rightarrow> (string \<times> jval) list option \<Rightarrow> jval" where
  "envelope code message details = JObj [(''data'', JNull),
     (''error'', JObj ([(''code'', JStr code), (''message'', JStr message)]
        @ (case details of None \<Rightarrow> [] | Some d \<Rightarrow> [(''details'', JObj d)])))]"

text \<open>
  The values \<open>exc.errors()\<close> may hold. Text of temporal values, decimals and of everything
  else (their \<open>isoformat\<close>, \<open>str\<close> or \<open>repr\<close>) is part of the value.
\<close>

datatype py_value =
    PyNone | PyBool bool | PyInt int | PyStr string
  | PyBytes string \<comment> \<open>one character per byte\<close>
  | PyTemporal string | PyUUID uuid | PyDecimal string
  | PyList "py_value list" | PyTuple "py_value list"
  | PyDict "(py_value \<times> py_value) list"
  | PyOther string

text \<open>
  \<open>utf8\<close> decodes bytes, \<open>key_text\<close> is \<open>str\<close> of a dictionary key. A key whose text was seen
  before overwrites that entry in place.
\<close>

fun json_safe :: "(string \<Rightarrow> string option) \<Rightarrow> (py_value \<Rightarrow> string) \<Rightarrow> py_value \<Rightarrow> jval" where
  "json_safe utf8 key_text PyNone = JNull"
| "json_safe utf8 key_text (PyBool b) = JBool b"
| "json_safe utf8 key_text (PyInt i) = JInt i"
| "json_safe utf8 key_text (PyStr s) = JStr s"
| "json_safe utf8 key_text (PyBytes bs) = JStr (case utf8 bs of Some s \<Rightarrow> s
     | None \<Rightarrow> ''<bytes len='' @ show_nat (length bs) @ ''>'')"
| "json_safe utf8 key_text (PyTemporal s) = JStr s"
| "json_safe utf8 key_text (PyUUID u) = JStr (str_uuid u)"
| "json_safe utf8 key_text (PyDecimal s) = JStr s"
| "json_safe utf8 key_text (PyList xs) = JList (map (json_safe utf8 key_text) xs)"
| "json_safe utf8 key_text (PyTuple xs) = JList (map (json_safe utf8 key_text) xs)"
| "json_safe utf8 key_text (PyDict kvs) = JObj (fold (\<lambda>(k, v). AList.update k v)
     (map (\<lambda>(k, v). (key_text k, json_safe utf8 key_text v)) kvs) [])"
| "json_safe utf8 key_text (PyOther s) = JStr s"

section \<open>Handlers\<close>

text \<open>\<open>_PROVIDER_STATUS_MAP\<close> with its default.\<close>

fun provider_status :: "perr_kind \<Rightarrow> nat \<times> string" where
  "provider_status ProviderAuthError = (502, ''PROVIDER_ERROR'')"
| "provider_status ProviderNotFoundError = (404, ''NOT_FOUND'')"
| "provider_status ProviderTimeoutError = (504, ''PROVIDER_TIMEOUT'')"
| "provider_status ProviderLockError = (503, ''PROVIDER_ERROR'')"
| "provider_status ProviderCapabilityError = (501, ''PROVIDER_ERROR'')"
| "provider_status ProviderTaskError = (502, ''PROVIDER_ERROR'')"
| "provider_status _ = (502, ''PROVIDER_ERROR'')"

definition handle_provider_error ::
    "user option \<Rightarrow> string \<Rightarrow> (string \<times> jval) list \<Rightarrow> perr_kind \<Rightarrow> string \<Rightarrow> nat \<times> jval" where
  "handle_provider_error u text raw k ty = (case provider_status k of (status, code) \<Rightarrow>
     (status, envelope code text (if request_is_admin u
        then Some (fold (\<lambda>(k, v). AList.update k v) raw [(''provider'', JStr ty)]) else None)))"

definition handle_vmid_range_conflict ::
    "user option \<Rightarrow> string \<Rightarrow> int list \<Rightarrow> string \<Rightarrow> nat \<times> jval" where
  "handle_vmid_range_conflict u text conflicts source =
     (409, envelope ''CONFLICT'' text (if request_is_admin u then Some
        ([(''source'', JStr source), (''conflicts'', JList (map JInt (take 20 conflicts)))]
         @ (if 20 < length conflicts then [(''conflicts_truncated'', JBool True),
              (''conflicts_total'', JInt (int (length conflicts)))] else []))
        else None))"

definition status_to_code :: "(nat \<times> string) list" where
  "status_to_code = [(400, ''INVALID_REQUEST''), (401, ''UNAUTHORIZED''), (403, ''FORBIDDEN''),
     (404, ''NOT_FOUND''), (409, ''CONFLICT''), (422, ''INVALID_REQUEST''), (500, ''INTERNAL_ERROR''),
     (503, ''SERVICE_UNAVAILABLE'')]"

text \<open>What \<open>HTTPException.detail\<close> may be; \<open>DetailOther\<close> carries \<open>str\<close> of a truthy value.\<close>

datatype http_detail = DetailDict "(string \<times> jval) list" | DetailOther string | DetailEmpty

definition handle_http_exception :: "nat \<Rightarrow> http_detail \<Rightarrow> (http_detail \<Rightarrow> string) \<Rightarrow> nat \<times> jval" where
  "handle_http_exception status detail text =
     (let shaped = envelope
        (case map_of status_to_code status of None \<Rightarrow> ''ERROR'' | Some c \<Rightarrow> c)
        (case detail of DetailEmpty \<Rightarrow> ''HTTP '' @ show_nat status
           | DetailDict [] \<Rightarrow> ''HTTP '' @ show_nat status | _ \<Rightarrow> text detail) None
      in case detail of
           DetailDict kvs \<Rightarrow> (status, if map_of kvs ''code'' \<noteq> None \<and> map_of kvs ''message'' \<noteq> None
             then JObj [(''data'', JNull), (''error'', JObj kvs)] else shaped)
         | _ \<Rightarrow> (status, shaped))"

definition handle_validation_error :: "user option \<Rightarrow> jval \<Rightarrow> nat \<times> jval" where
  "handle_validation_error u errors = (422, envelope ''INVALID_REQUEST'' ''request validation failed''
     (if request_is_admin u then Some [(''errors'', errors)] else None))"

definition handle_unexpected :: "user option \<Rightarrow> string \<Rightarrow> string \<Rightarrow> nat \<times> jval" where
  "handle_unexpected u name text = (500, envelope ''INTERNAL_ERROR'' ''an unexpected error occurred''
     (if request_is_admin u then Some [(''type'', JStr name), (''message'', JStr text)] else None))"

text \<open>
  The handler of the exception's class, or of its nearest base class, for what the broker's own code raises: its
  \<open>HTTPException\<close>s carry a dict with code and message. What the framework raises before a route runs goes to the two handlers
  above it directly: \<open>RequestValidationError\<close> to \<open>handle_validation_error\<close>, the \<open>HTTPException\<close>s with a text or no
  detail (an unknown path, a wrong method) to \<open>handle_http_exception\<close>.
\<close>

definition respond :: "user option \<Rightarrow> (exn \<Rightarrow> string) \<Rightarrow> (exn \<Rightarrow> (string \<times> jval) list) \<Rightarrow>
    exn \<Rightarrow> nat \<times> jval" where
  "respond u text raw e = (case e of
       ProviderError k ty msg \<Rightarrow> handle_provider_error u (text e) (raw e) k ty
     | NotEntitled _ _ \<Rightarrow> (403, envelope ''FORBIDDEN'' (text e) None)
     | PoolFull _ \<Rightarrow> (503, envelope ''POOL_FULL'' (text e) None)
     | PoolInactiveErr _ _ \<Rightarrow> (409, envelope ''CONFLICT'' (text e) None)
     | PoolInactive _ _ \<Rightarrow> (409, envelope ''CONFLICT'' (text e) None)
     | InvalidSessionState _ _ _ \<Rightarrow> (409, envelope ''CONFLICT'' (text e) None)
     | VMIDRangeExhausted _ _ _ \<Rightarrow> (503, envelope ''POOL_FULL'' (text e) None)
     | VMIDRangeConflict cs source \<Rightarrow> handle_vmid_range_conflict u (text e) cs source
     | BrokerErr _ \<Rightarrow> (500, envelope ''INTERNAL_ERROR'' (text e) None)
     | HTTPException status code \<Rightarrow> handle_http_exception status
         (DetailDict [(''code'', JStr code), (''message'', JStr (text e))]) (\<lambda>_. [])
     | _ \<Rightarrow> handle_unexpected u (exn_name e) (text e))"

text \<open>The dependency that resolves a live provider.\<close>

definition get_provider :: "(uuid \<Rightarrow> 'w provider option) \<Rightarrow> uuid \<Rightarrow> exn + 'w provider" where
  "get_provider providers i = (case providers i of None \<Rightarrow> Inl not_found | Some P \<Rightarrow> Inr P)"

section \<open>Properties\<close>

definition error_of :: "jval \<Rightarrow> jval" where
  "error_of body = (case jget body ''error'' of None \<Rightarrow> JNull | Some e \<Rightarrow> e)"

lemma error_of_envelope [simp]:
  "error_of (envelope c m d) = JObj ([(''code'', JStr c), (''message'', JStr m)]
     @ (case d of None \<Rightarrow> [] | Some x \<Rightarrow> [(''details'', JObj x)]))"
  "jget (envelope c m d) ''data'' = Some JNull"
  by (simp_all add: error_of_def envelope_def)

lemma error_of_obj [simp]: "error_of (JObj [(''data'', d), (''error'', x)]) = x"
  by (simp add: error_of_def)

definition unexpected :: "exn \<Rightarrow> bool" where
  "unexpected e \<longleftrightarrow> (case e of ProviderError _ _ _ \<Rightarrow> False | NotEntitled _ _ \<Rightarrow> False | PoolFull _ \<Rightarrow> False
     | PoolInactiveErr _ _ \<Rightarrow> False | PoolInactive _ _ \<Rightarrow> False | InvalidSessionState _ _ _ \<Rightarrow> False
     | VMIDRangeExhausted _ _ _ \<Rightarrow> False | VMIDRangeConflict _ _ \<Rightarrow> False | BrokerErr _ \<Rightarrow> False
     | HTTPException _ _ \<Rightarrow> False | _ \<Rightarrow> True)"

lemma provider_status_codes: "fst (provider_status k) \<in> {404, 501, 502, 503, 504}"
  by (cases k) simp_all

text \<open>
  No request fails without an envelope, and only administrators see details. Whatever a
  handler raises, the answer has a null \<open>data\<close> and an \<open>error\<close> with a code and a message; to
  anyone who is not an administrator it has no details, and an exception outside the
  broker's own classes is answered by one constant body that tells nothing of it; a failing
  hypervisor answers 404 or 501 to 504.
\<close>

theorem errors_are_enveloped:
  "jget (snd (respond u msg raw e)) ''data'' = Some JNull
   \<and> (\<exists>c m. jget (error_of (snd (respond u msg raw e))) ''code'' = Some (JStr c)
        \<and> jget (error_of (snd (respond u msg raw e))) ''message'' = Some (JStr m))
   \<and> (\<not> request_is_admin u \<longrightarrow> jget (error_of (snd (respond u msg raw e))) ''details'' = None)
   \<and> (\<not> request_is_admin u \<and> unexpected e \<longrightarrow> respond u msg raw e
        = (500, envelope ''INTERNAL_ERROR'' ''an unexpected error occurred'' None))
   \<and> (is_provider_error e \<longrightarrow> fst (respond u msg raw e) \<in> {404, 501, 502, 503, 504})"
proof (cases e)
  case (ProviderError k ty msg)
  then show ?thesis using provider_status_codes [of k]
    by (auto simp: respond_def handle_provider_error_def unexpected_def split: prod.splits)
next
  case (HTTPException status code)
  then show ?thesis
    by (simp add: respond_def handle_http_exception_def unexpected_def error_of_def)
qed (simp_all add: respond_def handle_unexpected_def handle_vmid_range_conflict_def unexpected_def)

theorem errors_are_enveloped_witness:
  "respond None exn_str (\<lambda>_. []) (PyKeyError ''k'')
     = (500, envelope ''INTERNAL_ERROR'' ''an unexpected error occurred'' None)"
  using errors_are_enveloped [of None exn_str "\<lambda>_. []" "PyKeyError ''k''"] by (simp add: request_is_admin_def unexpected_def)

text \<open>
  What \<open>POST /me/desktops/{pool}/connect\<close> answers when it cannot connect: 404 for an unknown
  pool, 409 for a pool that is not active, 403 for a user who is not entitled, 503 when the
  cluster has no provider, and 503 with \<open>POOL_FULL\<close> when a non-persistent pool has no
  available desktop. In each case the tables are as before and no hypervisor was called.
\<close>

theorem connect_statuses:
  assumes "keys_unique (committed s)"
    and "case get_pool_row pid (committed s) of
          None \<Rightarrow> status = 404 \<and> code = ''NOT_FOUND''
        | Some p \<Rightarrow>
            if p_status p \<noteq> P_ACTIVE then status = 409 \<and> code = ''CONFLICT''
            else if \<not> is_entitled pid (u_username u) (u_groups u) (committed s)
            then status = 403 \<and> code = ''FORBIDDEN''
            else if providers (p_cluster_id p) = None then status = 503 \<and> code = ''SERVICE_UNAVAILABLE''
            else p_pool_type p = NONPERSISTENT \<and> available_desktops pid (committed s) = []
              \<and> status = 503 \<and> code = ''POOL_FULL''"
  shows "\<exists>e. connect_desktop E providers u pid s = (Inl e, s\<lparr>work := committed s\<rparr>)
    \<and> fst (respond (Some u) msg raw e) = status
    \<and> jget (error_of (snd (respond (Some u) msg raw e))) ''code'' = Some (JStr code)"
proof (cases "get_pool_row pid (committed s)")
  case None
  then have "filter (\<lambda>p. p_id p = pid) (pools (committed s)) = []"
    by (simp add: get_pool_row_None filter_empty_conv)
  with None assms(2) show ?thesis
    by (simp add: connect_desktop_def connect_def exec_simps connect_error_def not_found_def
        respond_def handle_http_exception_def)
next
  case (Some p)
  then have p: "p \<in> set (pools (committed s))" "p_id p = pid" by (auto dest: get_pool_rowD)
  from filter_pool_unique [OF assms(1) p(1)] p(2)
  have "filter (\<lambda>p. p_id p = pid) (pools (committed s)) = [p]" by simp
  with Some assms(2) p(2) show ?thesis
    by (auto simp: connect_desktop_def connect_def exec_simps connect_error_def claim_floating_def
        respond_def handle_http_exception_def split: if_splits)
qed

theorem connect_statuses_witness:
  "\<exists>e. connect_desktop sim_env sim_providers \<lparr>u_username = ''bob'', u_groups = [], u_role = ROLE_USER\<rparr> 7
       (sim_st example_db) = (Inl e, (sim_st example_db)\<lparr>work := example_db\<rparr>)
     \<and> fst (respond (Some \<lparr>u_username = ''bob'', u_groups = [], u_role = ROLE_USER\<rparr>) exn_str (\<lambda>_. []) e) = 404"
proof -
  let ?u = "\<lparr>u_username = ''bob'', u_groups = [], u_role = ROLE_USER\<rparr>"
  have none: "get_pool_row 7 (committed (sim_st example_db)) = None"
    by (simp add: example_db_def get_pool_row_def)
  have k: "keys_unique (committed (sim_st example_db))" by simp
  show ?thesis
    using connect_statuses [where u = ?u and pid = 7 and status = 404 and code = "''NOT_FOUND''"
        and providers = sim_providers and E = sim_env and msg = exn_str and raw = "\<lambda>_. []", OF k] none
    by auto
qed

end
