(* ===== verification/Application.thy ===== *)
theory Application
  imports Clusters_Api Audit_Middleware Error_Envelope
begin

text \<open>
  The application shell of \<open>broker/app/main.py\<close>: start-up and shutdown of the provider
  registry, and the way of a request through authentication, audit, the role gate of
  \<open>broker/app/api/router.py\<close>, its handler and the exception handlers. The pings that
  start-up spawns are run after it, one by one.
\<close>

section \<open>Start-up and shutdown\<close>

definition startup_cluster :: "'w env \<Rightarrow> 'w platform \<Rightarrow> cluster \<Rightarrow> ('w, cluster list) aprog" where
  "startup_cluster E L c = (case construct_provider L c of
       Inl _ \<Rightarrow> ret [c]
     | Inr P \<Rightarrow> bnd (on_store (now E)) (\<lambda>t. andthen (set_memory (install_provider (c_id c) P t)) (ret [])))"

definition mark_offline :: "'w env \<Rightarrow> cluster \<Rightarrow> ('w, unit) prog" where
  "mark_offline E c = do_when (c_status c \<noteq> C_OFFLINE)
     (set_cluster E (c_id c) (\<lambda>c. c\<lparr>c_status := C_OFFLINE\<rparr>))"

definition load_providers :: "'w env \<Rightarrow> 'w platform \<Rightarrow> ('w, unit) aprog" where
  "load_providers E L = in_session_app (
     bnd (on_store (query load_clusters)) (\<lambda>cs.
     bnd (map_eff (startup_cluster E L) cs) (\<lambda>failed.
     andthen (for_each (concat failed) (\<lambda>c. on_store (mark_offline E c))) (on_store commit))))"

definition ping_quietly :: "'w env \<Rightarrow> uuid \<times> 'w provider \<Rightarrow> ('w, unit) prog" where
  "ping_quietly E x = bnd (attempt (ping_and_update_status E (fst x) (snd x))) (\<lambda>_. ret ())"

definition startup_pings :: "'w env \<Rightarrow> ('w, unit) aprog" where
  "startup_pings E = bnd (get_memory ap_providers) (\<lambda>ps.
     for_each ps (\<lambda>x. on_store (ping_quietly E x)))"

text \<open>\<open>key_ok\<close>: Fernet accepts the configured key.\<close>

definition startup :: "'w env \<Rightarrow> 'w platform \<Rightarrow> bool \<Rightarrow> ('w, unit) aprog" where
  "startup E L key_ok =
     (if \<not> key_ok then throw (RuntimeErr ''OPENVDI_ENCRYPTION_KEY is malformed'')
      else andthen (set_memory (\<lambda>_. \<lparr>ap_providers = [], ap_constructed_at = []\<rparr>))
        (andthen (load_providers E L) (startup_pings E)))"

definition shutdown :: "('w, unit) aprog" where
  "shutdown = bnd (get_memory ap_providers) (\<lambda>ps. for_each ps (\<lambda>(i, P). safely_close P))"

section \<open>The way of a request\<close>

definition current_user :: "user option \<Rightarrow> exn + user" where
  "current_user u = (case u of None \<Rightarrow> Inl (PyAttributeError ''user'') | Some x \<Rightarrow> Inr x)"

definition admin_gate :: "user option \<Rightarrow> exn + user" where
  "admin_gate u = (case current_user u of Inl e \<Rightarrow> Inl e | Inr x \<Rightarrow> require_admin x)"

definition user_gate :: "user option \<Rightarrow> exn + user" where
  "user_gate = current_user"

text \<open>
  The handler chain below the middlewares; \<open>ok\<close> is the route's success status. An exception with no handler of its own is
  answered by the outermost layer: here no response starts and it is raised on.
\<close>

definition route_app ::
    "(user option \<Rightarrow> exn + user) \<Rightarrow> (exn \<Rightarrow> string) \<Rightarrow> (exn \<Rightarrow> (string \<times> jval) list) \<Rightarrow>
     nat \<Rightarrow> (user \<Rightarrow> ('w, 'a) prog) \<Rightarrow> user option \<Rightarrow> 'w asgi_app" where
  "route_app gate msg raw ok h uo ms s =
     (case (case gate uo of Inl e \<Rightarrow> (Inl e, s) | Inr u \<Rightarrow> h u s) of
        (Inr _, s') \<Rightarrow> ((Inr (), Some ok), s')
      | (Inl e, s') \<Rightarrow> (if unexpected e then ((Inl e, None), s')
           else ((Inr (), Some (fst (respond uo msg raw e))), s')))"

definition request_pipeline ::
    "'w env \<Rightarrow> codec \<Rightarrow> (scope \<Rightarrow> exn + auth_outcome) \<Rightarrow> (user option \<Rightarrow> 'w asgi_app) \<Rightarrow>
     http_scope \<Rightarrow> receive_msg list \<Rightarrow> 'w st \<Rightarrow> (((exn + unit) \<times> nat option) \<times> 'w st) option" where
  "request_pipeline E C auth app sc ms s = (case auth (scope.truncate sc) of
       Inl e \<Rightarrow> Some ((Inl e, None), s)
     | Inr (Reject n code) \<Rightarrow> Some ((Inr (), Some n), s)
     | Inr PassThrough \<Rightarrow> audit_middleware E C (app None) sc None ms s
     | Inr (PassUser u) \<Rightarrow> audit_middleware E C (app (Some u)) sc (Some u) ms s)"

section \<open>Start-up, run\<close>

context db_writes begin

lemma pres_load_providers: "pres (\<lambda>x. both I (fst x)) (load_providers E L)"
  unfolding load_providers_def startup_cluster_def mark_offline_def
  by (intro pres_intros pres_in_session_app both_reset pres_on_store pres_memory pres_prims) simp_all

lemma pres_startup: "pres (\<lambda>x. both I (fst x)) (startup E L key_ok)"
  unfolding startup_def startup_pings_def ping_quietly_def
  by (intro pres_intros pres_on_store pres_memory pres_load_providers pres_ping_and_update_status)

lemma pres_shutdown: "pres (\<lambda>x. both I (fst x)) shutdown"
  unfolding shutdown_def by (intro pres_intros pres_memory pres_safely_close)

end

lemma startup_clusters_run:
  assumes "distinct (map c_id cs)"
  shows "\<exists>ap'. map_eff (startup_cluster E L) cs (s, ap)
      = (Inr (map (\<lambda>c. case construct_provider L c of Inl _ \<Rightarrow> [c] | Inr _ \<Rightarrow> []) cs), (s, ap'))
    \<and> (\<forall>c\<in>set cs. app_providers ap' (c_id c) = (case construct_provider L c of
         Inl _ \<Rightarrow> app_providers ap (c_id c) | Inr P \<Rightarrow> Some P))
    \<and> (\<forall>i. i \<notin> set (map c_id cs) \<longrightarrow> app_providers ap' i = app_providers ap i)"
  using assms
proof (induction cs arbitrary: ap)
  case Nil
  then show ?case by (simp add: exec_simps)
next
  case (Cons c cs)
  define ap1 where "ap1 = (case construct_provider L c of Inl _ \<Rightarrow> ap
    | Inr P \<Rightarrow> install_provider (c_id c) P (e_now E (world s)) ap)"
  have one: "startup_cluster E L c (s, ap)
      = (Inr (case construct_provider L c of Inl _ \<Rightarrow> [c] | Inr _ \<Rightarrow> []), (s, ap1))"
    by (simp add: startup_cluster_def ap1_def exec_simps split: sum.split)
  have a1: "app_providers ap1 = (app_providers ap)(c_id c := (case construct_provider L c of
      Inl _ \<Rightarrow> app_providers ap (c_id c) | Inr P \<Rightarrow> Some P))"
    by (auto simp: ap1_def split: sum.split)
  from Cons obtain ap' where r: "map_eff (startup_cluster E L) cs (s, ap1)
      = (Inr (map (\<lambda>c. case construct_provider L c of Inl _ \<Rightarrow> [c] | Inr _ \<Rightarrow> []) cs), (s, ap'))"
    "\<forall>c\<in>set cs. app_providers ap' (c_id c) = (case construct_provider L c of
         Inl _ \<Rightarrow> app_providers ap1 (c_id c) | Inr P \<Rightarrow> Some P)"
    "\<forall>i. i \<notin> set (map c_id cs) \<longrightarrow> app_providers ap' i = app_providers ap1 i"
    by fastforce
  show ?case
    using one r a1 Cons.prems
    by (intro exI [of _ ap']) (auto simp: exec_simps image_iff split: sum.split)
qed

lemma mark_all_offline_run:
  assumes "distinct (map c_id cs)" "\<And>c. c \<in> set cs \<Longrightarrow> get_cluster_row (c_id c) (work s) = Some c"
  shows "\<exists>s'. for_each cs (\<lambda>c. on_store (mark_offline E c)) (s, ap) = (Inr (), (s', ap))
    \<and> (\<forall>c\<in>set cs. map_option c_status (get_cluster_row (c_id c) (work s')) = Some C_OFFLINE)
    \<and> (\<forall>i. i \<notin> set (map c_id cs) \<longrightarrow> get_cluster_row i (work s') = get_cluster_row i (work s))"
  using assms
proof (induction cs arbitrary: s)
  case Nil
  then show ?case by (simp add: exec_simps)
next
  case (Cons c cs)
  define t where "t = snd (mark_offline E c s)"
  have one: "mark_offline E c s = (Inr (), t)" by (simp add: t_def mark_offline_def exec_simps)
  have rows: "get_cluster_row j (work t) = get_cluster_row j (work s)" if "j \<noteq> c_id c" for j
    using that by (simp add: t_def mark_offline_def exec_simps get_cluster_patch option.map_ident)
  have off: "map_option c_status (get_cluster_row (c_id c) (work t)) = Some C_OFFLINE"
    using Cons.prems(2) [of c] by (simp add: t_def mark_offline_def exec_simps get_cluster_patch)
  have "\<exists>s'. for_each cs (\<lambda>c. on_store (mark_offline E c)) (t, ap) = (Inr (), (s', ap))
    \<and> (\<forall>c\<in>set cs. map_option c_status (get_cluster_row (c_id c) (work s')) = Some C_OFFLINE)
    \<and> (\<forall>i. i \<notin> set (map c_id cs) \<longrightarrow> get_cluster_row i (work s') = get_cluster_row i (work t))"
  proof (rule Cons.IH)
    show "distinct (map c_id cs)" using Cons.prems(1) by simp
    show "get_cluster_row (c_id x) (work t) = Some x" if "x \<in> set cs" for x
      using Cons.prems that by (subst rows) (auto simp: image_iff)
  qed
  then obtain s' where "for_each cs (\<lambda>c. on_store (mark_offline E c)) (t, ap) = (Inr (), (s', ap))"
    "\<forall>c\<in>set cs. map_option c_status (get_cluster_row (c_id c) (work s')) = Some C_OFFLINE"
    "\<forall>i. i \<notin> set (map c_id cs) \<longrightarrow> get_cluster_row i (work s') = get_cluster_row i (work t)"
    by blast
  with one rows off Cons.prems(1) show ?case
    by (intro exI [of _ s']) (auto simp: exec_simps image_iff)
qed

lemma concat_failed:
  "concat (map (\<lambda>c. case construct_provider L c of Inl _ \<Rightarrow> [c] | Inr _ \<Rightarrow> []) cs)
     = filter (\<lambda>c. \<exists>e. construct_provider L c = Inl e) cs"
  by (induction cs) (auto split: sum.splits)

lemma get_cluster_row_audit [simp]: "get_cluster_row j (add_audit mk db) = get_cluster_row j db"
  by (simp add: get_cluster_row_def add_audit_def)

lemma ping_other_rows:
  assumes "j \<noteq> i"
  shows "get_cluster_row j (committed (snd (ping_and_update_status E i P s))) = get_cluster_row j (committed s)"
proof (cases "get_cluster_row i (committed s)")
  case None
  then show ?thesis by (simp add: ping_and_update_status_def exec_simps)
next
  case (Some c)
  obtain r w where "pv_ping P (world s) = (r, w)" by (cases "pv_ping P (world s)")
  with Some assms show ?thesis
    by (simp add: ping_and_update_status_def exec_simps log_business_event_def get_cluster_patch Let_def
        option.map_ident)
qed

lemma ping_quietly_run: "ping_quietly E x s = (Inr (), snd (ping_and_update_status E (fst x) (snd x) s))"
  by (simp add: ping_quietly_def exec_simps split: prod.split)

lemma startup_pings_run:
  "\<exists>s'. for_each ps (\<lambda>x. on_store (ping_quietly E x)) (s, ap) = (Inr (), (s', ap))
    \<and> (\<forall>j. j \<notin> fst ` set ps \<longrightarrow> get_cluster_row j (committed s') = get_cluster_row j (committed s))"
proof (induction ps arbitrary: s)
  case Nil
  then show ?case by (simp add: exec_simps)
next
  case (Cons x ps)
  let ?t = "snd (ping_and_update_status E (fst x) (snd x) s)"
  from Cons.IH [of ?t] obtain s' where
    "for_each ps (\<lambda>x. on_store (ping_quietly E x)) (?t, ap) = (Inr (), (s', ap))"
    "\<forall>j. j \<notin> fst ` set ps \<longrightarrow> get_cluster_row j (committed s') = get_cluster_row j (committed ?t)"
    by blast
  moreover have "get_cluster_row j (committed ?t) = get_cluster_row j (committed s)" if "j \<noteq> fst x" for j
    using that by (rule ping_other_rows)
  ultimately show ?case
    by (intro exI [of _ s']) (simp add: exec_simps ping_quietly_run [of E x s])
qed

lemma app_providers_empty [simp]: "app_providers \<lparr>ap_providers = [], ap_constructed_at = t\<rparr> i = None"
  by (simp add: app_providers_def)

lemma load_clusters_rows:
  assumes "keys_unique db"
  shows "distinct (map c_id (load_clusters db))"
    "c \<in> set (load_clusters db) \<Longrightarrow> get_cluster_row (c_id c) db = Some c"
  using assms
  by (auto simp: keys_unique_def load_clusters_def distinct_map_filter_key get_cluster_row_def
      intro: find_key_unique)

lemma load_providers_run:
  assumes "keys_unique (committed s)"
  shows "\<exists>s' ap'. load_providers E L (s, \<lparr>ap_providers = [], ap_constructed_at = []\<rparr>) = (Inr (), (s', ap'))
    \<and> (\<forall>c\<in>set (load_clusters (committed s)). case construct_provider L c of
         Inl _ \<Rightarrow> app_providers ap' (c_id c) = None
           \<and> map_option c_status (get_cluster_row (c_id c) (committed s')) = Some C_OFFLINE
       | Inr P \<Rightarrow> app_providers ap' (c_id c) = Some P)
    \<and> (\<forall>i. i \<notin> c_id ` set (load_clusters (committed s)) \<longrightarrow> app_providers ap' i = None)"
proof -
  let ?cs = "load_clusters (committed s)" and ?s = "s\<lparr>work := committed s\<rparr>"
  let ?ap = "\<lparr>ap_providers = [], ap_constructed_at = []\<rparr>"
  let ?bad = "filter (\<lambda>c. \<exists>e. construct_provider L c = Inl e) ?cs"
  note rows = load_clusters_rows [OF assms]
  obtain ap' where ap': "map_eff (startup_cluster E L) ?cs (?s, ?ap)
      = (Inr (map (\<lambda>c. case construct_provider L c of Inl _ \<Rightarrow> [c] | Inr _ \<Rightarrow> []) ?cs), (?s, ap'))"
    "\<forall>c\<in>set ?cs. app_providers ap' (c_id c) = (case construct_provider L c of
         Inl _ \<Rightarrow> app_providers ?ap (c_id c) | Inr P \<Rightarrow> Some P)"
    "\<forall>i. i \<notin> set (map c_id ?cs) \<longrightarrow> app_providers ap' i = app_providers ?ap i"
    using startup_clusters_run [OF rows(1)] by blast
  have d: "distinct (map c_id ?bad)" using rows(1) by (rule distinct_map_filter_key)
  have r: "\<And>c. c \<in> set ?bad \<Longrightarrow> get_cluster_row (c_id c) (work ?s) = Some c"
    using rows(2) by simp
  obtain s' where s': "for_each ?bad (\<lambda>c. on_store (mark_offline E c)) (?s, ap') = (Inr (), (s', ap'))"
    "\<forall>c\<in>set ?bad. map_option c_status (get_cluster_row (c_id c) (work s')) = Some C_OFFLINE"
    using mark_all_offline_run [OF d, of ?s E ap'] r by blast
  define u where "u = s'\<lparr>committed := work s'\<rparr>"
  have u: "committed u = work s'" by (simp add: u_def)
  have "load_providers E L (s, ?ap) = (Inr (), (u, ap'))"
    using ap'(1) s'(1) by (simp add: u_def load_providers_def exec_simps concat_failed)
  moreover have "case construct_provider L c of
         Inl _ \<Rightarrow> app_providers ap' (c_id c) = None
           \<and> map_option c_status (get_cluster_row (c_id c) (committed u)) = Some C_OFFLINE
       | Inr P \<Rightarrow> app_providers ap' (c_id c) = Some P" if c: "c \<in> set ?cs" for c
  proof (cases "construct_provider L c")
    case (Inl e)
    with c s'(2) ap'(2) show ?thesis by (simp add: u)
  qed (use c ap'(2) in simp)
  ultimately show ?thesis
    using ap'(3) by (intro exI [of _ u] exI [of _ ap']) simp
qed

section \<open>Properties\<close>

text \<open>
  Property C11. Start-up never fails because of a cluster. With a valid key it returns, and then exactly
  the clusters that are not in maintenance and whose provider could be constructed have one,
  each that of its own row; a cluster whose provider could not be constructed is \<open>offline\<close>, and
  nothing of an earlier registry is left. With a malformed key it stops before it touches
  anything.
\<close>

theorem startup_builds_registry:
  assumes "keys_unique (committed s)"
    and "served = {c \<in> set (clusters (committed s)). c_status c \<noteq> C_MAINTENANCE}"
  shows "(\<exists>s' ap'. startup E L True (s, ap) = (Inr (), (s', ap'))
    \<and> (\<forall>c\<in>served. case construct_provider L c of
         Inl _ \<Rightarrow> app_providers ap' (c_id c) = None
           \<and> map_option c_status (get_cluster_row (c_id c) (committed s')) = Some C_OFFLINE
       | Inr P \<Rightarrow> app_providers ap' (c_id c) = Some P)
    \<and> (\<forall>i. i \<notin> c_id ` served \<longrightarrow> app_providers ap' i = None))
    \<and> (\<exists>m. startup E L False (s, ap) = (Inl (RuntimeErr m), (s, ap)))"
proof -
  have served: "served = set (load_clusters (committed s))"
  proof -
    have "st \<in> {C_PENDING, C_ACTIVE, C_OFFLINE} \<longleftrightarrow> st \<noteq> C_MAINTENANCE" for st by (cases st) simp_all
    then show ?thesis unfolding assms(2) load_clusters_def by simp
  qed
  obtain t ap' where t: "load_providers E L (s, \<lparr>ap_providers = [], ap_constructed_at = []\<rparr>) = (Inr (), (t, ap'))"
    and reg: "\<forall>c\<in>set (load_clusters (committed s)). case construct_provider L c of
         Inl _ \<Rightarrow> app_providers ap' (c_id c) = None
           \<and> map_option c_status (get_cluster_row (c_id c) (committed t)) = Some C_OFFLINE
       | Inr P \<Rightarrow> app_providers ap' (c_id c) = Some P"
      "\<forall>i. i \<notin> c_id ` set (load_clusters (committed s)) \<longrightarrow> app_providers ap' i = None"
    using load_providers_run [OF assms(1)] by blast
  obtain s' where s': "for_each (ap_providers ap')
      (\<lambda>x. on_store (ping_quietly E x)) (t, ap') = (Inr (), (s', ap'))"
    "\<forall>j. j \<notin> fst ` set (ap_providers ap') \<longrightarrow> get_cluster_row j (committed s') = get_cluster_row j (committed t)"
    using startup_pings_run [of "ap_providers ap'" E t ap'] by (elim exE conjE)
  have "startup E L True (s, ap) = (Inr (), (s', ap'))"
    using t s'(1) by (simp add: startup_def startup_pings_def exec_simps)
  moreover have "app_providers ap' j = None \<Longrightarrow> j \<notin> fst ` set (ap_providers ap')" for j
    by (simp add: app_providers_def map_of_eq_None_iff)
  then have "\<forall>c\<in>set (load_clusters (committed s)). case construct_provider L c of
         Inl _ \<Rightarrow> app_providers ap' (c_id c) = None
           \<and> map_option c_status (get_cluster_row (c_id c) (committed s')) = Some C_OFFLINE
       | Inr P \<Rightarrow> app_providers ap' (c_id c) = Some P"
    using reg(1) s'(2) by (auto split: sum.splits)
  ultimately show ?thesis unfolding served using reg(2) by (auto simp: startup_def exec_simps)
qed

theorem startup_builds_registry_witness:
  "\<exists>s' ap'. startup sim_env sim_platform True (sim_st (empty_db\<lparr>clusters := [example_cluster]\<rparr>),
      \<lparr>ap_providers = [(7, sim_provider)], ap_constructed_at = []\<rparr>) = (Inr (), (s', ap'))
    \<and> app_providers ap' 7 = None"
proof -
  let ?db = "empty_db\<lparr>clusters := [example_cluster]\<rparr>"
  have k: "keys_unique (committed (sim_st ?db))" by (simp add: keys_unique_def empty_db_def)
  have "7 \<notin> c_id ` {c \<in> set (clusters (committed (sim_st ?db))). c_status c \<noteq> C_MAINTENANCE}"
    by (auto simp: example_cluster_def)
  with startup_builds_registry [OF k refl, of sim_env sim_platform "\<lparr>ap_providers = [(7, sim_provider)], ap_constructed_at = []\<rparr>"]
  show ?thesis by blast
qed

lemma route_app_refuses:
  assumes "gate uo = Inl (HTTPException n code)"
  shows "route_app gate msg raw ok h uo ms s = ((Inr (), Some n), s)"
  using assms by (simp add: route_app_def unexpected_def respond_def handle_http_exception_def)

text \<open>
  Property C36. An administrative mutation on its way through the application, its body in however many
  chunks. A request that does not authenticate is answered and leaves everything as it was. For one that does, the handler
  runs only if the user is an administrator, anyone else is answered 403, and a request without a user
  fails; no table but the audit log is touched then. For the administrator the answer is the route's own status on success, the
  one \<open>respond\<close> gives the exception otherwise, and an unexpected exception is raised on. In every case the request leaves exactly
  one audit row, written over what the handler committed, with the user and the status of that answer (500 for an exception
  raised on), unless its body was undecodable and the row is lost.
\<close>

theorem admin_mutation_pipeline:
  assumes "sp_type sc = ''http''" "starts_with (sp_path sc) ''/api/v1/''" "\<not> starts_with (sp_path sc) ''/api/v1/me/''"
    and "hs_method sc \<in> {''POST'', ''PUT'', ''DELETE'', ''PATCH''}"
    and "ms = map (\<lambda>b. HttpRequest b True) chunks @ HttpRequest final False # rest"
    and "run = request_pipeline E C auth (route_app admin_gate msg raw ok h) sc ms s"
  shows "(auth (scope.truncate sc) = Inr (Reject n code) \<longrightarrow> run = Some ((Inr (), Some n), s))
    \<and> (auth (scope.truncate sc) = Inr PassThrough \<longrightarrow>
        (\<exists>t. run = Some ((Inl (PyAttributeError ''user''), None), t)
          \<and> logged C sc None (concat chunks @ final) 500 (committed s) (committed t)))
    \<and> (auth (scope.truncate sc) = Inr (PassUser u) \<and> u_role u \<noteq> ROLE_ADMIN \<longrightarrow>
        (\<exists>t. run = Some ((Inr (), Some 403), t)
          \<and> logged C sc (Some u) (concat chunks @ final) 403 (committed s) (committed t)))
    \<and> (auth (scope.truncate sc) = Inr (PassUser u) \<and> u_role u = ROLE_ADMIN \<and> h u s = (r, mid) \<longrightarrow>
        (\<exists>t answer. run = Some (answer, t)
          \<and> answer = (case r of Inr _ \<Rightarrow> (Inr (), Some ok)
               | Inl e \<Rightarrow> if unexpected e then (Inl e, None) else (Inr (), Some (fst (respond (Some u) msg raw e))))
          \<and> logged C sc (Some u) (concat chunks @ final) (case snd answer of Some code \<Rightarrow> code | None \<Rightarrow> 500)
              (committed mid) (committed t)))"
proof -
  let ?route = "route_app admin_gate msg raw ok h" and ?body = "concat chunks @ final"
  have audited: "should_audit (hs_method sc) (sp_path sc)" using assms(2-4) by (simp add: should_audit_def)
  have through: "\<exists>t. audit_middleware E C (?route v) sc v ms s = Some ((q, started), t)
      \<and> logged C sc v ?body (case started of None \<Rightarrow> 500 | Some n \<Rightarrow> n) (committed u') (committed t)"
    if "?route v [HttpRequest ?body False, HttpDisconnect] s = ((q, started), u')" for v q started u'
    by (rule audit_middleware_run [where app = "?route v", OF assms(1) audited assms(5) that])
  have anonymous: "?route None ms' s = ((Inl (PyAttributeError ''user''), None), s)" for ms'
    by (simp add: route_app_def admin_gate_def current_user_def unexpected_def)
  have forbidden: "?route (Some u) ms' s = ((Inr (), Some 403), s)" if "u_role u \<noteq> ROLE_ADMIN" for ms'
    using that by (intro route_app_refuses [where code = "''FORBIDDEN''"])
      (simp add: admin_gate_def current_user_def require_admin_def is_admin_def)
  let ?answer = "case r of Inr _ \<Rightarrow> (Inr (), Some ok)
    | Inl e \<Rightarrow> if unexpected e then (Inl e, None) else (Inr (), Some (fst (respond (Some u) msg raw e)))"
  have handled: "?route (Some u) ms' s = ((fst ?answer, snd ?answer), mid)" if "u_role u = ROLE_ADMIN" "h u s = (r, mid)" for ms'
    using that by (simp add: route_app_def admin_gate_def current_user_def require_admin_def is_admin_def split: sum.split)
  note run = assms(6) request_pipeline_def
  show ?thesis
  proof (intro conjI impI; (elim conjE)?)
    assume "auth (scope.truncate sc) = Inr (Reject n code)"
    then show "run = Some ((Inr (), Some n), s)" by (simp add: run)
  next
    assume "auth (scope.truncate sc) = Inr PassThrough"
    then show "\<exists>t. run = Some ((Inl (PyAttributeError ''user''), None), t) \<and> logged C sc None ?body 500 (committed s) (committed t)"
      using through [OF anonymous] by (simp add: run)
  next
    assume "auth (scope.truncate sc) = Inr (PassUser u)" "u_role u \<noteq> ROLE_ADMIN"
    then show "\<exists>t. run = Some ((Inr (), Some 403), t) \<and> logged C sc (Some u) ?body 403 (committed s) (committed t)"
      using through [OF forbidden] by (simp add: run)
  next
    assume a: "auth (scope.truncate sc) = Inr (PassUser u)" "u_role u = ROLE_ADMIN" "h u s = (r, mid)"
    obtain q started where answer: "?answer = (q, started)" by fastforce
    from through [of "Some u" q started mid] handled [OF a(2,3)] obtain t
      where "audit_middleware E C (?route (Some u)) sc (Some u) ms s = Some ((q, started), t)"
        "logged C sc (Some u) ?body (case started of None \<Rightarrow> 500 | Some n \<Rightarrow> n) (committed mid) (committed t)"
      unfolding answer by auto
    with a(1) answer show "\<exists>t answer. run = Some (answer, t) \<and> answer = ?answer
        \<and> logged C sc (Some u) ?body (case snd answer of Some code \<Rightarrow> code | None \<Rightarrow> 500) (committed mid) (committed t)"
      by (intro exI [of _ t] exI [of _ "(q, started)"]) (simp add: run)
  qed
qed

definition example_codec :: codec where
  "example_codec = \<lparr>cd_loads = (\<lambda>_. Inr JNull), cd_unquote = (\<lambda>s. s)\<rparr>"

text \<open>A user without the role asks for a pool to be drained.\<close>

theorem admin_mutation_pipeline_witness:
  "\<exists>t. request_pipeline sim_env example_codec (Inr \<circ> (\<lambda>_. PassUser \<lparr>u_username = ''bob'', u_groups = [], u_role = ROLE_USER\<rparr>))
      (route_app admin_gate exn_str (\<lambda>_. []) 200 (\<lambda>u. drain_pool sim_env 1 (u_username u) None)) example_request
      [HttpRequest [] False] (sim_st example_db) = Some ((Inr (), Some 403), t)
    \<and> pools (committed t) = pools example_db"
proof -
  let ?u = "\<lparr>u_username = ''bob'', u_groups = [], u_role = ROLE_USER\<rparr>"
  have "\<not> undecodable example_codec example_request []" by (simp add: undecodable_def)
  then show ?thesis
    using admin_mutation_pipeline [OF _ _ _ _ _ refl, where sc = example_request and ms = "[HttpRequest [] False]"
        and chunks = "[]" and final = "[]" and rest = "[]" and C = example_codec and auth = "Inr \<circ> (\<lambda>_. PassUser ?u)"
        and u = ?u and E = sim_env and s = "sim_st example_db" and msg = exn_str and raw = "\<lambda>_. []" and ok = 200
        and h = "\<lambda>u. drain_pool sim_env 1 (u_username u) None"]
    by (auto simp: logged_def example_request_def starts_with_def)
qed

end
