(* ===== verification/Admin_Views.thy ===== *)
theory Admin_Views
  imports Pools_Api
begin

text \<open>
  The read-only administrator views: \<open>broker/app/api/dashboard.py\<close> with
  \<open>broker/app/schemas/dashboard.py\<close>, and the audit log of \<open>broker/app/api/audit.py\<close> with
  \<open>broker/app/schemas/audit.py\<close>.
\<close>

section \<open>Dashboard\<close>

record resource_counts =
  rc_total :: nat
  rc_by_status :: "(string \<times> nat) list"

record pool_counts = resource_counts +
  rc_by_type :: "(string \<times> nat) list"

record session_counts =
  sc_total :: nat
  sc_active :: nat
  sc_connecting :: nat
  sc_disconnected :: nat
  sc_ended :: nat

record dashboard =
  da_clusters :: resource_counts
  da_pools :: pool_counts
  da_desktops :: resource_counts
  da_sessions :: session_counts
  da_total_vmid_slots :: int
  da_total_desktops :: nat

text \<open>\<open>SELECT key, count(id) GROUP BY key\<close>, as the dictionary the handler makes of it.\<close>

definition count_by :: "('r \<Rightarrow> string) \<Rightarrow> 'r list \<Rightarrow> (string \<times> nat) list" where
  "count_by key rows = map (\<lambda>k. (k, length (filter (\<lambda>r. key r = k) rows))) (remdups (map key rows))"

definition total_of :: "(string \<times> nat) list \<Rightarrow> nat" where
  "total_of counts = sum_list (map snd counts)"

definition count_of :: "(string \<times> nat) list \<Rightarrow> string \<Rightarrow> nat" where
  "count_of counts k = (case map_of counts k of None \<Rightarrow> 0 | Some n \<Rightarrow> n)"

definition counts_of :: "('r \<Rightarrow> string) \<Rightarrow> 'r list \<Rightarrow> resource_counts" where
  "counts_of key rows = \<lparr>rc_total = total_of (count_by key rows), rc_by_status = count_by key rows\<rparr>"

definition summary_of :: "db \<Rightarrow> dashboard" where
  "summary_of db =
     (let by_session = count_by (session_status_value \<circ> s_status) (sessions db);
          by_pool = count_by (pool_status_value \<circ> p_status) (pools db);
          by_desktop = count_by (desktop_status_value \<circ> d_status) (desktops db)
      in \<lparr>da_clusters = counts_of (cluster_status_value \<circ> c_status) (clusters db),
          da_pools = \<lparr>rc_total = total_of by_pool, rc_by_status = by_pool,
             rc_by_type = count_by (pool_type_value \<circ> p_pool_type) (pools db)\<rparr>,
          da_desktops = \<lparr>rc_total = total_of by_desktop, rc_by_status = by_desktop\<rparr>,
          da_sessions = \<lparr>sc_total = total_of by_session, sc_active = count_of by_session ''active'',
             sc_connecting = count_of by_session ''connecting'',
             sc_disconnected = count_of by_session ''disconnected'', sc_ended = count_of by_session ''ended''\<rparr>,
          da_total_vmid_slots = sum_list (map range_capacity (pools db)),
          da_total_desktops = total_of by_desktop\<rparr>)"

definition dashboard_summary :: "('w, dashboard) prog" where
  "dashboard_summary = in_session (query summary_of)"

record pool_capacity_row =
  pr_pool_id :: uuid
  pr_pool_name :: string
  pr_display_name :: string
  pr_status :: pool_status
  pr_pool_type :: pool_type
  pr_capacity :: capacity_detail

definition capacity_row :: "db \<Rightarrow> pool \<Rightarrow> pool_capacity_row" where
  "capacity_row db p = \<lparr>pr_pool_id = p_id p, pr_pool_name = p_name p,
     pr_display_name = p_display_name p, pr_status = p_status p, pr_pool_type = p_pool_type p,
     pr_capacity = compute_capacity p db\<rparr>"

definition dashboard_capacity :: "('w, pool_capacity_row list) prog" where
  "dashboard_capacity = in_session (query (\<lambda>db. map (capacity_row db) (sort_key p_display_name (pools db))))"

section \<open>Audit log\<close>

text \<open>
  SQL \<open>LIKE\<close>: percent for any text, underscore for one character, backslash takes the next
  character literally. A pattern ending in a lone backslash is an error of the server; the
  patterns here end in a percent sign.
\<close>

datatype like_item = AnyText | AnyChar | Literal char

fun like_items :: "string \<Rightarrow> like_item list" where
  "like_items [] = []"
| "like_items (c # p) =
     (if c = CHR ''%'' then AnyText # like_items p
      else if c = CHR ''_'' then AnyChar # like_items p
      else if c = CHR 0x5C then (case p of [] \<Rightarrow> [Literal c] | d # q \<Rightarrow> Literal d # like_items q)
      else Literal c # like_items p)"

fun like :: "like_item list \<Rightarrow> string \<Rightarrow> bool" where
  "like [] s = (s = [])"
| "like (AnyText # p) [] = like p []"
| "like (AnyText # p) (c # s) = (like p (c # s) \<or> like (AnyText # p) s)"
| "like (AnyChar # p) s = (case s of [] \<Rightarrow> False | _ # s' \<Rightarrow> like p s')"
| "like (Literal c # p) s = (case s of [] \<Rightarrow> False | x # s' \<Rightarrow> x = c \<and> like p s')"

text \<open>\<open>action\<close>: \<open>startswith\<close> of the text before a final star, unescaped, else equality.\<close>

definition action_matches :: "string option \<Rightarrow> string \<Rightarrow> bool" where
  "action_matches f action = (case f of
       None \<Rightarrow> True
     | Some [] \<Rightarrow> True
     | Some (c # cs) \<Rightarrow> if ends_with (c # cs) ''*'' then like (like_items (butlast (c # cs) @ ''%'')) action
         else action = c # cs)"

record audit_query =
  aq_actor :: "string option"
  aq_action :: "string option"
  aq_resource_type :: "string option"
  aq_resource_id :: "uuid option"
  aq_since :: "int option"
  aq_until :: "int option"

definition audit_matches :: "audit_query \<Rightarrow> audit_row \<Rightarrow> bool" where
  "audit_matches q a \<longleftrightarrow> (truthy (aq_actor q) \<longrightarrow> aq_actor q = Some (a_actor a))
     \<and> action_matches (aq_action q) (a_action a)
     \<and> (truthy (aq_resource_type q) \<longrightarrow> aq_resource_type q = a_resource_type a)
     \<and> (aq_resource_id q \<noteq> None \<longrightarrow> aq_resource_id q = a_resource_id a)
     \<and> (case aq_since q of None \<Rightarrow> True | Some t \<Rightarrow> t \<le> a_timestamp a)
     \<and> (case aq_until q of None \<Rightarrow> True | Some t \<Rightarrow> a_timestamp a \<le> t)"

definition audit_columns :: "(string \<times> (audit_row \<Rightarrow> sort_val)) list" where
  "audit_columns = [(''timestamp'', SInt \<circ> a_timestamp), (''actor'', SStr \<circ> a_actor),
     (''action'', SStr \<circ> a_action)]"

text \<open>Without a sort key the newest rows come first, whatever the direction asked for.\<close>

definition audit_page :: "pagination \<Rightarrow> pagination" where
  "audit_page g = (if pg_sort g = None then g\<lparr>pg_order := DESC\<rparr> else g)"

definition list_audit :: "audit_query \<Rightarrow> pagination \<Rightarrow> ('w, audit_row list) prog" where
  "list_audit q g = validated (pagination_ok g) (in_session (
     bnd (query (\<lambda>db. filter (audit_matches q) (audit_log db))) (\<lambda>rows.
     lift_result (list_rows audit_columns ''timestamp'' (audit_page g) rows))))"

section \<open>Invariants\<close>

context db_writes begin

lemma pres_admin_views:
  "pres (both I) dashboard_summary" "pres (both I) dashboard_capacity" "pres (both I) (list_audit q g)"
  unfolding dashboard_summary_def dashboard_capacity_def list_audit_def
  by (intro pres_intros pres_api)+

end

section \<open>Counting lemmas\<close>

lemma sum_filter_lengths:
  assumes "finite K" "key ` set rows \<subseteq> K"
  shows "(\<Sum>k\<in>K. length (filter (\<lambda>r. key r = k) rows)) = length rows"
  using assms(2)
proof (induction rows)
  case Nil
  then show ?case by simp
next
  case (Cons r rows)
  have "(\<Sum>k\<in>K. length (filter (\<lambda>x. key x = k) (r # rows)))
      = (\<Sum>k\<in>K. (if key r = k then 1 else 0) + length (filter (\<lambda>x. key x = k) rows))"
    by (intro sum.cong) auto
  also have "\<dots> = 1 + length rows"
    using Cons assms(1) by (simp add: sum.distrib)
  finally show ?case by simp
qed

lemma total_count_by: "total_of (count_by key rows) = length rows"
proof -
  have "total_of (count_by key rows)
      = sum_list (map (\<lambda>k. length (filter (\<lambda>r. key r = k) rows)) (remdups (map key rows)))"
    by (simp add: total_of_def count_by_def comp_def)
  also have "\<dots> = (\<Sum>k\<in>set (map key rows). length (filter (\<lambda>r. key r = k) rows))"
    by (simp add: sum_list_distinct_conv_sum_set)
  also have "\<dots> = length rows" by (rule sum_filter_lengths) simp_all
  finally show ?thesis .
qed

lemma map_of_map_fun: "map_of (map (\<lambda>k. (k, f k)) ks) k = (if k \<in> set ks then Some (f k) else None)"
  by (induction ks) auto

lemma count_of_count_by: "count_of (count_by key rows) k = length (filter (\<lambda>r. key r = k) rows)"
proof (cases "k \<in> key ` set rows")
  case False
  then have "filter (\<lambda>r. key r = k) rows = []" by (auto simp: filter_empty_conv)
  with False show ?thesis by (simp add: count_of_def count_by_def map_of_map_fun)
qed (simp add: count_of_def count_by_def map_of_map_fun)

lemma pool_within_range:
  assumes "keys_unique db" "ranges_ok db" "p \<in> set (pools db)"
  shows "desktop_count (p_id p) db \<le> range_capacity p"
proof -
  let ?ds = "filter (\<lambda>d. d_pool_id d = p_id p) (desktops db)"
  have "distinct (map d_pve_vmid ?ds)"
    using assms(1) by (simp add: keys_unique_def distinct_map_filter_key)
  then have card: "length ?ds = card (set (map d_pve_vmid ?ds))"
    by (metis distinct_card length_map)
  have "in_pool_range p (d_pve_vmid d)" if d: "d \<in> set (desktops db)" "d_pool_id d = p_id p" for d
  proof -
    obtain q where q: "q \<in> set (pools db)" "p_id q = d_pool_id d" "in_pool_range q (d_pve_vmid d)"
      using assms(2) d(1) unfolding ranges_ok_def desktop_in_range_def by blast
    moreover have "q = p"
      using assms(1,3) q(1,2) d(2) by (auto simp: keys_unique_def distinct_map dest: inj_onD)
    ultimately show ?thesis by simp
  qed
  then have "set (map d_pve_vmid ?ds) \<subseteq> {p_vmid_range_start p .. p_vmid_range_end p}"
    by (auto simp: in_pool_range_def)
  then have "card (set (map d_pve_vmid ?ds)) \<le> card {p_vmid_range_start p .. p_vmid_range_end p}"
    by (intro card_mono) simp_all
  moreover have "p_vmid_range_start p < p_vmid_range_end p"
    using assms(2,3) by (simp add: ranges_ok_def)
  ultimately show ?thesis
    using card by (simp add: desktop_count_def range_capacity_def)
qed

lemma desktops_by_pool:
  assumes "keys_unique db" "ranges_ok db"
  shows "int (length (desktops db)) = (\<Sum>p\<leftarrow>pools db. desktop_count (p_id p) db)"
proof -
  have sub: "d_pool_id ` set (desktops db) \<subseteq> set (map p_id (pools db))"
    using assms(2) by (force simp: ranges_ok_def desktop_in_range_def)
  have "(\<Sum>p\<leftarrow>pools db. desktop_count (p_id p) db) = (\<Sum>i\<leftarrow>map p_id (pools db). desktop_count i db)"
    by (simp add: comp_def)
  also have "\<dots> = (\<Sum>i\<in>set (map p_id (pools db)). desktop_count i db)"
    using assms(1) by (intro sum_list_distinct_conv_sum_set) (simp add: keys_unique_def)
  also have "\<dots> = int (length (desktops db))"
    using sum_filter_lengths [OF _ sub] unfolding desktop_count_def by (simp flip: of_nat_sum)
  finally show ?thesis ..
qed

lemma four_statuses:
  "length (filter (\<lambda>r. session_status_value (s_status r) = ''active'') rs)
    + length (filter (\<lambda>r. session_status_value (s_status r) = ''connecting'') rs)
    + length (filter (\<lambda>r. session_status_value (s_status r) = ''disconnected'') rs)
    + length (filter (\<lambda>r. session_status_value (s_status r) = ''ended'') rs) = length rs"
proof (induction rs)
  case (Cons r rs)
  then show ?case by (cases "s_status r") simp_all
qed simp

section \<open>Properties\<close>

text \<open>
  The dashboard counts every row once and never shows a pool over its range: the totals are
  the sizes of the tables, the four session figures and the status counts add up to them, the
  capacity view has one row per pool in the order of display names, and with the committed
  invariants of the tables every pool's free slots are non-negative, the desktops of the
  capacity rows add up to the summary's total, and that is at most the slots it shows.
\<close>

theorem dashboard_consistent:
  assumes "keys_unique (committed s)" "ranges_ok (committed s)"
  shows "\<exists>v rows. fst (dashboard_summary s) = Inr v \<and> fst (dashboard_capacity s) = Inr rows
    \<and> rc_total (da_clusters v) = length (clusters (committed s))
    \<and> rc_total (da_pools v) = length (pools (committed s))
    \<and> total_of (rc_by_type (da_pools v)) = rc_total (da_pools v)
    \<and> da_total_desktops v = length (desktops (committed s))
    \<and> sc_total (da_sessions v) = length (sessions (committed s))
    \<and> sc_active (da_sessions v) + sc_connecting (da_sessions v) + sc_disconnected (da_sessions v)
        + sc_ended (da_sessions v) = sc_total (da_sessions v)
    \<and> sorted (map pr_display_name rows) \<and> mset (map pr_pool_id rows) = mset (map p_id (pools (committed s)))
    \<and> (\<forall>r\<in>set rows. 0 \<le> cd_free_slots (pr_capacity r))
    \<and> (\<Sum>r\<leftarrow>rows. cd_total (pr_capacity r)) = int (da_total_desktops v)
    \<and> int (da_total_desktops v) \<le> da_total_vmid_slots v"
proof -
  let ?db = "committed s" and ?v = "summary_of (committed s)"
  let ?ps = "sort_key p_display_name (pools ?db)"
  let ?rows = "map (capacity_row ?db) ?ps"
  have perm: "(\<Sum>p\<leftarrow>?ps. f p) = (\<Sum>p\<leftarrow>pools ?db. f p)" for f :: "pool \<Rightarrow> int"
    by (simp flip: sum_mset_sum_list)
  have within: "desktop_count (p_id p) ?db \<le> range_capacity p" if "p \<in> set (pools ?db)" for p
    using pool_within_range [OF assms that] .
  have "(\<Sum>r\<leftarrow>?rows. cd_total (pr_capacity r)) = int (length (desktops ?db))"
    by (simp add: capacity_row_def compute_capacity_def comp_def perm desktops_by_pool [OF assms])
  moreover have "int (length (desktops ?db)) \<le> sum_list (map range_capacity (pools ?db))"
    unfolding desktops_by_pool [OF assms] by (rule sum_list_mono) (rule within)
  moreover have "mset (map pr_pool_id ?rows) = mset (map p_id (pools ?db))"
    by (simp add: capacity_row_def comp_def)
  moreover have "sorted (map pr_display_name ?rows)"
    by (simp add: capacity_row_def comp_def)
  moreover have "\<forall>r\<in>set ?rows. 0 \<le> cd_free_slots (pr_capacity r)"
    using within by (simp add: capacity_row_def compute_capacity_def)
  ultimately show ?thesis
    using four_statuses [of "sessions ?db"]
    by (intro exI [of _ ?v] exI [of _ ?rows])
      (simp add: dashboard_summary_def dashboard_capacity_def exec_simps summary_of_def Let_def counts_of_def
        total_count_by count_of_count_by)
qed

theorem dashboard_consistent_witness:
  "\<exists>v. fst (dashboard_summary (sim_st example_db)) = Inr v \<and> da_total_desktops v = 1 \<and> 1 \<le> da_total_vmid_slots v"
proof -
  have "ranges_ok (committed (sim_st example_db))"
    by (simp add: ranges_ok_def example_db_def empty_db_def desktop_in_range_def in_pool_range_def)
  moreover have "keys_unique (committed (sim_st example_db))" by simp
  ultimately obtain v where "fst (dashboard_summary (sim_st example_db)) = Inr v"
    "da_total_desktops v = length (desktops (committed (sim_st example_db)))"
    "int (da_total_desktops v) \<le> da_total_vmid_slots v"
    using dashboard_consistent by blast
  then show ?thesis by (intro exI [of _ v]) (simp add: example_db_def)
qed

lemma like_any: "like [AnyText] s"
  by (induction s) auto

lemma like_prefix:
  assumes "CHR 0x5C \<notin> set p" "starts_with s p"
  shows "like (like_items (p @ ''%'')) s"
  using assms
proof (induction p arbitrary: s)
  case Nil
  then show ?case by (simp add: like_any)
next
  case (Cons c p)
  then obtain s' where s: "s = c # s'" "starts_with s' p"
    by (cases s) (auto simp: starts_with_def)
  with Cons have ih: "like (like_items (p @ ''%'')) s'" by simp
  have more: "like xs t \<Longrightarrow> like (AnyText # xs) t" for xs t by (cases t) auto
  show ?case using Cons.prems(1) ih by (auto simp: s(1) more)
qed

lemma like_exact:
  assumes "set p \<inter> {CHR ''%'', CHR ''_'', CHR 0x5C} = {}" "like (like_items (p @ ''%'')) s"
  shows "starts_with s p"
  using assms
proof (induction p arbitrary: s)
  case Nil
  then show ?case by (simp add: starts_with_def)
next
  case (Cons c p)
  then show ?case by (cases s) (auto simp: starts_with_def)
qed

text \<open>
  The audit log's action filter. A filter that ends in a star matches every action with the
  prefix before it, and exactly those when the prefix has no percent sign, underscore or
  backslash. An underscore is a wildcard of its own: \<open>force_*\<close> also finds \<open>forced\<close>.
\<close>

theorem audit_action_prefix:
  "(CHR 0x5C \<notin> set p \<and> starts_with action p \<longrightarrow> action_matches (Some (p @ ''*'')) action)
   \<and> (set p \<inter> {CHR ''%'', CHR ''_'', CHR 0x5C} = {} \<longrightarrow>
        action_matches (Some (p @ ''*'')) action = starts_with action p)
   \<and> action_matches (Some ''force_*'') ''forced'' \<and> \<not> starts_with ''forced'' ''force_''"
proof -
  have star: "action_matches (Some (q @ ''*'')) a = like (like_items (q @ ''%'')) a" for q a
    by (cases q) (simp_all add: action_matches_def ends_with_def starts_with_def butlast_append)
  have "action_matches (Some ''force_*'') ''forced'' = like (like_items (''force_'' @ ''%'')) ''forced''"
    using star [of "''force_''"] by simp
  then have "action_matches (Some ''force_*'') ''forced''" by simp
  moreover have "\<not> starts_with ''forced'' ''force_''" by (simp add: starts_with_def)
  moreover have "starts_with action p" if "like (like_items (p @ ''%'')) action"
    "set p \<inter> {CHR ''%'', CHR ''_'', CHR 0x5C} = {}" using like_exact that by blast
  ultimately show ?thesis using like_prefix [of p action] by (auto simp: star)
qed

theorem audit_action_prefix_witness:
  "action_matches (Some ''broker.*'') ''broker.connect''"
  using audit_action_prefix [of "''broker.''" "''broker.connect''"] by (simp add: starts_with_def)

end
