(* ===== verification/Templates_Api.thy ===== *)
theory Templates_Api
  imports Pools_Api
begin

text \<open>
  \<open>broker/app/api/templates.py\<close> and \<open>broker/app/api/entitlements.py\<close> with their schemas:
  registering a VM template after the hypervisor confirmed it, validating it again later, and
  granting and revoking the entitlements that \<open>connect\<close> asks for.
\<close>

section \<open>Templates\<close>

fun is_jlist :: "jval \<Rightarrow> bool" where
  "is_jlist (JList _) = True"
| "is_jlist _ = False"

definition template_view :: "vdi_template \<Rightarrow> exn + vdi_template" where
  "template_view t = (if is_jlist (t_tags t) \<and> is_jobj (t_provider_config t) then Inr t
     else Inl (PyValueError ''TemplateRead''))"

definition template_columns :: "(string \<times> (vdi_template \<Rightarrow> sort_val)) list" where
  "template_columns = [(''name'', SStr \<circ> t_name), (''created_at'', SInt \<circ> t_created_at),
     (''updated_at'', SInt \<circ> t_updated_at), (''status'', SStr \<circ> t_status),
     (''pve_vmid'', SInt \<circ> t_pve_vmid)]"

definition template_filter ::
    "uuid option \<Rightarrow> string option \<Rightarrow> string option \<Rightarrow> vdi_template \<Rightarrow> bool" where
  "template_filter cid os st t \<longleftrightarrow> (cid = None \<or> cid = Some (t_cluster_id t))
     \<and> (truthy os \<longrightarrow> os = Some (t_os_type t)) \<and> (truthy st \<longrightarrow> st = Some (t_status t))"

definition list_templates ::
    "uuid option \<Rightarrow> string option \<Rightarrow> string option \<Rightarrow> pagination \<Rightarrow> ('w, vdi_template list) prog" where
  "list_templates cid os st g = validated (pagination_ok g) (in_session (
     bnd (query (\<lambda>db. filter (template_filter cid os st) (templates db))) (\<lambda>rows.
     bnd (lift_result (list_rows template_columns ''name'' g rows)) (\<lambda>page.
     map_eff (\<lambda>t. lift_result (template_view t)) page))))"

definition provider_for :: "(uuid \<Rightarrow> 'w provider option) \<Rightarrow> uuid \<Rightarrow> exn + 'w provider" where
  "provider_for providers cid = (case providers cid of None \<Rightarrow> Inl bad_request | Some P \<Rightarrow> Inr P)"

record template_create =
  tc_cluster_id :: uuid
  tc_name :: string
  tc_pve_vmid :: int
  tc_pve_node :: string
  tc_os_type :: string
  tc_description :: "string option"
  tc_cpu_cores :: int
  tc_memory_mb :: int
  tc_disk_gb :: int
  tc_gpu_required :: bool
  tc_tags :: "jval list"
  tc_provider_config :: "(string \<times> jval) list"

definition template_of_create :: "template_create \<Rightarrow> uuid \<Rightarrow> int \<Rightarrow> vdi_template" where
  "template_of_create b i at =
     \<lparr>t_id = i, t_cluster_id = tc_cluster_id b, t_name = tc_name b, t_pve_vmid = tc_pve_vmid b,
      t_pve_node = tc_pve_node b, t_os_type = tc_os_type b, t_description = tc_description b,
      t_cpu_cores = tc_cpu_cores b, t_memory_mb = tc_memory_mb b, t_disk_gb = tc_disk_gb b,
      t_gpu_required = tc_gpu_required b, t_tags = JList (tc_tags b),
      t_provider_config = JObj (tc_provider_config b), t_status = ''active'',
      t_created_at = at, t_updated_at = at\<rparr>"

text \<open>The status call with \<open>except ProviderNotFoundError\<close>: \<open>None\<close> is a missing VM.\<close>

definition probe_vm :: "'w provider \<Rightarrow> vm_ref \<Rightarrow> ('w, vm_status option) prog" where
  "probe_vm P ref = catching is_provider_not_found
     (bnd (prov (CallGetStatus ref) (pv_get_vm_status P ref)) (\<lambda>v. ret (Some v))) (\<lambda>_. ret None)"

definition create_template ::
    "'w env \<Rightarrow> (uuid \<Rightarrow> 'w provider option) \<Rightarrow> template_create \<Rightarrow> ('w, vdi_template) prog" where
  "create_template E providers b = in_session (
     bnd (require_row (get_cluster_row (tc_cluster_id b))) (\<lambda>c.
     bnd (lift_result (provider_for providers (tc_cluster_id b))) (\<lambda>P.
     bnd (probe_vm P (mk_ref (c_provider_type c) (tc_pve_node b) (tc_pve_vmid b))) (\<lambda>found.
     case found of None \<Rightarrow> throw bad_request | Some v \<Rightarrow>
     if \<not> v_is_template v then throw bad_request
     else
       bnd (query (\<lambda>db. filter (\<lambda>t. t_cluster_id t = tc_cluster_id b \<and> t_pve_vmid t = tc_pve_vmid b)
         (templates db))) (\<lambda>rows.
       bnd (scalar_one_or_none rows) (\<lambda>existing.
       if existing \<noteq> None then throw conflict
       else
         bnd (gen_uuid E) (\<lambda>i.
         bnd (now E) (\<lambda>at.
         andthen (insert_template (template_of_create b i at))
         (andthen commit (lift_result (template_view (template_of_create b i at))))))))))))"

definition get_template :: "uuid \<Rightarrow> ('w, vdi_template) prog" where
  "get_template i = in_session (
     bnd (require_row (get_template_row i)) (\<lambda>t. lift_result (template_view t)))"

record template_update =
  tu_name :: "string option option"
  tu_pve_node :: "string option option"
  tu_os_type :: "string option option"
  tu_description :: "string option option"
  tu_cpu_cores :: "int option option"
  tu_memory_mb :: "int option option"
  tu_disk_gb :: "int option option"
  tu_gpu_required :: "bool option option"
  tu_tags :: "jval list option option"
  tu_provider_config :: "(string \<times> jval) list option option"

definition apply_template_update :: "template_update \<Rightarrow> vdi_template \<Rightarrow> vdi_template" where
  "apply_template_update u t = t\<lparr>
     t_name := set_required (tu_name u) (t_name t),
     t_pve_node := set_required (tu_pve_node u) (t_pve_node t),
     t_os_type := set_required (tu_os_type u) (t_os_type t),
     t_description := set_nullable (tu_description u) (t_description t),
     t_cpu_cores := set_required (tu_cpu_cores u) (t_cpu_cores t),
     t_memory_mb := set_required (tu_memory_mb u) (t_memory_mb t),
     t_disk_gb := set_required (tu_disk_gb u) (t_disk_gb t),
     t_gpu_required := set_required (tu_gpu_required u) (t_gpu_required t),
     t_tags := (case tu_tags u of None \<Rightarrow> t_tags t | Some None \<Rightarrow> JNull | Some (Some xs) \<Rightarrow> JList xs),
     t_provider_config := set_json (tu_provider_config u) (t_provider_config t)\<rparr>"

definition template_null_violation :: "template_update \<Rightarrow> bool" where
  "template_null_violation u \<longleftrightarrow> tu_name u = Some None \<or> tu_pve_node u = Some None
     \<or> tu_os_type u = Some None \<or> tu_cpu_cores u = Some None \<or> tu_memory_mb u = Some None
     \<or> tu_disk_gb u = Some None \<or> tu_gpu_required u = Some None"

definition update_template :: "'w env \<Rightarrow> uuid \<Rightarrow> template_update \<Rightarrow> ('w, vdi_template) prog" where
  "update_template E i u = in_session (
     bnd (require_row (get_template_row i)) (\<lambda>t.
     if template_null_violation u then throw (IntegrityError ''templates'')
     else
       andthen (do_when (apply_template_update u t \<noteq> t) (set_template E i (apply_template_update u)))
       (andthen commit
       (bnd (require_row (get_template_row i)) (\<lambda>r. lift_result (template_view r))))))"

text \<open>The checks by name, without their messages.\<close>

definition template_checks :: "vm_status option \<Rightarrow> (string \<times> bool) list" where
  "template_checks found = (case found of
       None \<Rightarrow> [(''vm_exists'', False)]
     | Some v \<Rightarrow> [(''vm_exists'', True), (''is_template'', v_is_template v),
                  (''guest_agent_configured'', v_guest_agent_configured v)])"

definition status_of_checks :: "(string \<times> bool) list \<Rightarrow> string" where
  "status_of_checks cs = (if list_all snd cs then ''active'' else ''error'')"

definition validate_template ::
    "'w env \<Rightarrow> (uuid \<Rightarrow> 'w provider option) \<Rightarrow> uuid \<Rightarrow> ('w, bool \<times> (string \<times> bool) list) prog" where
  "validate_template E providers i = in_session (
     bnd (require_row (get_template_row i)) (\<lambda>t.
     bnd (require_row (get_cluster_row (t_cluster_id t))) (\<lambda>c.
     bnd (lift_result (provider_for providers (t_cluster_id t))) (\<lambda>P.
     bnd (probe_vm P (mk_ref (c_provider_type c) (t_pve_node t) (t_pve_vmid t))) (\<lambda>found.
     let cs = template_checks found; st = status_of_checks cs in
     andthen (do_when (t_status t \<noteq> st)
       (andthen (set_template E i (\<lambda>t. t\<lparr>t_status := st\<rparr>)) commit))
     (ret (list_all snd cs, cs)))))))"

definition delete_template :: "uuid \<Rightarrow> ('w, unit) prog" where
  "delete_template i = in_session (
     bnd (require_row (get_template_row i)) (\<lambda>t.
     bnd (query (\<lambda>db. length (filter (\<lambda>p. p_template_id p = i) (pools db)))) (\<lambda>n.
     if 0 < n then throw conflict else andthen (delete_template_checked i) commit)))"

section \<open>Entitlements\<close>

record entitlement_create =
  ec_principal_type :: string
  ec_principal_name :: string

definition entitlement_create_valid :: "entitlement_create \<Rightarrow> bool" where
  "entitlement_create_valid b \<longleftrightarrow> ec_principal_type b \<in> {''user'', ''group''}"

definition list_entitlements :: "uuid \<Rightarrow> ('w, entitlement list) prog" where
  "list_entitlements pid = in_session (
     bnd (require_row (get_pool_row pid)) (\<lambda>p.
     query (\<lambda>db. sort_key (\<lambda>en. [en_principal_type en, en_principal_name en])
       (filter (\<lambda>en. en_pool_id en = pid) (entitlements db)))))"

definition grant_entitlement ::
    "'w env \<Rightarrow> uuid \<Rightarrow> entitlement_create \<Rightarrow> ('w, entitlement) prog" where
  "grant_entitlement E pid b = validated (entitlement_create_valid b) (in_session (
     bnd (require_row (get_pool_row pid)) (\<lambda>p.
     bnd (query (\<lambda>db. filter (\<lambda>en. entitlement_key en = (pid, ec_principal_type b, ec_principal_name b))
       (entitlements db))) (\<lambda>rows.
     bnd (scalar_one_or_none rows) (\<lambda>existing.
     if existing \<noteq> None then throw conflict
     else
       bnd (gen_uuid E) (\<lambda>i.
       bnd (now E) (\<lambda>at.
       let en = \<lparr>en_id = i, en_pool_id = pid, en_principal_type = ec_principal_type b,
                 en_principal_name = ec_principal_name b, en_created_at = at\<rparr> in
       andthen (insert_entitlement en) (andthen commit (ret en)))))))))"

definition revoke_entitlement :: "uuid \<Rightarrow> uuid \<Rightarrow> ('w, unit) prog" where
  "revoke_entitlement pid i = in_session (
     bnd (query (get_entitlement_row i)) (\<lambda>row.
     case row of None \<Rightarrow> throw not_found | Some en \<Rightarrow>
     if en_pool_id en \<noteq> pid then throw not_found
     else andthen (update_db (delete_entitlement_row i)) commit))"

section \<open>Invariants\<close>

lemma template_writes_ok [simp]:
  "template_write_ok (apply_template_update u)" "template_write_ok (\<lambda>t. t\<lparr>t_status := st\<rparr>)"
  by (simp_all add: template_write_ok_def apply_template_update_def)

context db_catalogue begin

lemma pres_template_queries:
  "pres (both I) (list_templates cid os st g)" "pres (both I) (get_template i)"
  "pres (both I) (list_entitlements pid)"
  unfolding list_templates_def get_template_def list_entitlements_def
  by (intro pres_intros pres_api)+

lemma pres_create_template: "pres (both I) (create_template E providers b)"
  unfolding create_template_def probe_vm_def by (intro pres_intros pres_api pres_catalogue)

lemma pres_update_template: "pres (both I) (update_template E i u)"
  unfolding update_template_def by (intro pres_intros pres_api pres_catalogue template_writes_ok)

lemma pres_validate_template: "pres (both I) (validate_template E providers i)"
  unfolding validate_template_def probe_vm_def
  by (intro pres_intros pres_api pres_catalogue template_writes_ok)

lemma pres_delete_template: "pres (both I) (delete_template i)"
  unfolding delete_template_def by (intro pres_intros pres_api pres_catalogue)

lemma pres_grant_entitlement: "pres (both I) (grant_entitlement E pid b)"
  unfolding grant_entitlement_def by (intro pres_intros pres_api pres_catalogue)

lemma pres_revoke_entitlement: "pres (both I) (revoke_entitlement pid i)"
  unfolding revoke_entitlement_def by (intro pres_intros pres_api pres_catalogue)

end

section \<open>Granting and revoking\<close>

lemma grant_run:
  assumes "grant_entitlement E pid b s = (Inr en, s1)"
  shows "en_pool_id en = pid" "en_principal_type en = ec_principal_type b"
    "en_principal_name en = ec_principal_name b" "committed s1 = add_entitlement en (committed s)"
    "get_entitlement_row (en_id en) (committed s) = None"
proof -
  let ?rows = "filter (\<lambda>en. entitlement_key en = (pid, ec_principal_type b, ec_principal_name b))
       (entitlements (committed s))"
  from assms have ok: "entitlement_create_valid b" "get_pool_row pid (committed s) \<noteq> None"
    by (auto simp: grant_entitlement_def exec_simps split: if_splits option.splits)
  from assms ok have none: "?rows = []"
    by (cases ?rows rule: scalar_one_or_none.cases) (auto simp: grant_entitlement_def exec_simps)
  obtain i w where u: "e_uuid E (world s) = (i, w)" by (cases "e_uuid E (world s)")
  let ?en = "\<lparr>en_id = i, en_pool_id = pid, en_principal_type = ec_principal_type b,
     en_principal_name = ec_principal_name b, en_created_at = e_now E w\<rparr>"
  from assms ok none u have run: "entitlement_insert_ok ?en (committed s)" "en = ?en"
      "committed s1 = add_entitlement ?en (committed s)"
    by (auto simp: grant_entitlement_def exec_simps Let_def split: if_splits)
  then show "en_pool_id en = pid" "en_principal_type en = ec_principal_type b"
    "en_principal_name en = ec_principal_name b" "committed s1 = add_entitlement en (committed s)"
    by simp_all
  from run(1,2) show "get_entitlement_row (en_id en) (committed s) = None"
    by (simp add: entitlement_insert_ok_def)
qed

lemma get_entitlement_row_None:
  "get_entitlement_row i db = None \<longleftrightarrow> (\<forall>en\<in>set (entitlements db). en_id en \<noteq> i)"
  by (auto simp: get_entitlement_row_def find_None_iff)

lemma is_entitled_added:
  "is_entitled q user gs (add_entitlement en db) \<longleftrightarrow> is_entitled q user gs db
     \<or> q = en_pool_id en \<and> (en_principal_type en = ''user'' \<and> en_principal_name en = user
          \<or> en_principal_type en = ''group'' \<and> en_principal_name en \<in> set gs)"
  by (auto simp: is_entitled_def add_entitlement_def)

section \<open>Properties\<close>



text \<open>
  Validating a template settles its status: the answer passes exactly when the
  VM exists, is a template and has its agent configured; the committed row is \<open>active\<close> then
  and \<open>error\<close> otherwise, written only when that is a change; any other provider error is
  passed on with nothing committed. No other template is touched.
\<close>

theorem validate_template_settles:
  assumes "get_template_row i (committed s) = Some t" "get_cluster_row (t_cluster_id t) (committed s) = Some c"
    and "providers (t_cluster_id t) = Some P"
    and "pv_get_vm_status P (mk_ref (c_provider_type c) (t_pve_node t) (t_pve_vmid t)) (world s) = (ans, w)"
  shows "\<exists>r s'. validate_template E providers i s = (r, s')
    \<and> (case ans of
         Inr v \<Rightarrow> \<exists>cs. r = Inr (v_is_template v \<and> v_guest_agent_configured v, cs)
       | Inl e \<Rightarrow> if is_provider_not_found e then r = Inr (False, [(''vm_exists'', False)])
                 else r = Inl e \<and> committed s' = committed s)
    \<and> (\<forall>pass cs. r = Inr (pass, cs) \<longrightarrow> (\<exists>t'. get_template_row i (committed s') = Some t'
         \<and> t_status t' = (if pass then ''active'' else ''error'')
         \<and> (t_status t' = t_status t \<longrightarrow> committed s' = committed s)
         \<and> (\<forall>j. j \<noteq> i \<longrightarrow> get_template_row j (committed s') = get_template_row j (committed s))))"
proof -
  have patch: "get_template_row j (patch_template i (\<lambda>t. t\<lparr>t_status := st, t_updated_at := at\<rparr>) (committed s))
      = map_option (\<lambda>t. if j = i then t\<lparr>t_status := st, t_updated_at := at\<rparr> else t) (get_template_row j (committed s))"
    for j st at
    unfolding get_template_row_def patch_template_def by (simp add: find_map_key)
  show ?thesis
    using assms
    by (cases ans) (auto simp: validate_template_def exec_simps provider_for_def probe_vm_def Let_def
        template_checks_def status_of_checks_def patch option.map_ident)
qed

text \<open>The simulated VM runs and is not a template, so its template row turns to \<open>error\<close>.\<close>

theorem validate_template_settles_witness:
  "\<exists>cs s' t'. validate_template sim_env sim_providers 2
      (sim_st (empty_db\<lparr>templates := [example_template], clusters := [example_cluster]\<rparr>)) = (Inr (False, cs), s')
    \<and> get_template_row 2 (committed s') = Some t' \<and> t_status t' = ''error''"
proof -
  let ?S = "sim_st (empty_db\<lparr>templates := [example_template], clusters := [example_cluster]\<rparr>)"
  let ?v = "sim_vm_status (mk_ref (c_provider_type example_cluster) (t_pve_node example_template)
    (t_pve_vmid example_template))"
  have t: "get_template_row 2 (committed ?S) = Some example_template"
    by (simp add: get_template_row_def example_template_def)
  have c: "get_cluster_row (t_cluster_id example_template) (committed ?S) = Some example_cluster"
    by (simp add: get_cluster_row_def example_template_def example_cluster_def)
  have P: "sim_providers (t_cluster_id example_template) = Some sim_provider"
    by (simp add: sim_providers_def example_template_def)
  have a: "pv_get_vm_status sim_provider (mk_ref (c_provider_type example_cluster)
      (t_pve_node example_template) (t_pve_vmid example_template)) (world ?S)
      = (Inr ?v, world ?S)"
    by (simp add: sim_provider_def sim_st_def)
  have nt: "\<not> v_is_template ?v" by (simp add: sim_vm_status_def)
  from validate_template_settles [where E = sim_env and providers = sim_providers and s = ?S, OF t c P a] nt show ?thesis by auto
qed

end
