(* ===== verification/Worker_Runner.thy ===== *)
theory Worker_Runner
  imports Health_Checker
begin

text \<open>
  \<open>broker/app/workers/base.py\<close>: the life of a worker (acquiring the leader lock, heartbeat on the
  lock's connection, tick, sleep; a failed tick is counted, never fatal; the pause before the next
  attempt), starting and stopping, and \<open>broker/app/workers/audit_retention.py\<close>. The lock's
  connections are Postgres calls over the unknown world; the loops are given their number of iterations.
\<close>

section \<open>The leader loop\<close>

definition failure_streak_error_threshold :: nat where
  "failure_streak_error_threshold = 5"

datatype log_level = LOG_DEBUG | LOG_WARNING | LOG_ERROR

text \<open>The level a tick logs at: the streak counts the failures up to and including it.\<close>

definition tick_log_level :: "exn + unit \<Rightarrow> nat \<Rightarrow> log_level" where
  "tick_log_level r streak = (case r of
     Inr _ \<Rightarrow> LOG_DEBUG
   | Inl _ \<Rightarrow> if failure_streak_error_threshold \<le> Suc streak then LOG_ERROR else LOG_WARNING)"

definition next_streak :: "exn + unit \<Rightarrow> nat \<Rightarrow> nat" where
  "next_streak r streak = (case r of Inr _ \<Rightarrow> 0 | Inl _ \<Rightarrow> Suc streak)"

text \<open>One round: \<open>None\<close> abdicates, else the new streak and the level of the tick's log line.\<close>

definition tick_round ::
    "'w env \<Rightarrow> ('w \<Rightarrow> (exn + unit) \<times> 'w) \<Rightarrow> int \<Rightarrow> ('w st \<times> 'm, unit) eff \<Rightarrow> nat \<Rightarrow>
     ('w st \<times> 'm, (nat \<times> log_level) option) eff" where
  "tick_round E heartbeat interval tick streak =
     bnd (attempt (on_store (\<lambda>s. case heartbeat (world s) of (r, w) \<Rightarrow> (r, s\<lparr>world := w\<rparr>)))) (\<lambda>alive.
     case alive of
       Inl _ \<Rightarrow> ret None
     | Inr _ \<Rightarrow>
         bnd (attempt tick) (\<lambda>r.
         andthen (on_store (sleep E interval)) (ret (Some (next_streak r streak, tick_log_level r streak)))))"

primrec tick_loop ::
    "'w env \<Rightarrow> ('w \<Rightarrow> (exn + unit) \<times> 'w) \<Rightarrow> int \<Rightarrow> ('w st \<times> 'm, unit) eff \<Rightarrow> nat \<Rightarrow> nat \<Rightarrow>
     ('w st \<times> 'm, log_level list) eff" where
  "tick_loop E hb interval tick 0 streak = ret []"
| "tick_loop E hb interval tick (Suc n) streak =
     bnd (tick_round E hb interval tick streak) (\<lambda>res.
     case res of
       None \<Rightarrow> ret []
     | Some (streak', level) \<Rightarrow>
         bnd (tick_loop E hb interval tick n streak') (\<lambda>ls. ret (level # ls)))"

text \<open>
  The connections of the engine. A connection comes from SQLAlchemy's pool and goes back to it; the
  advisory lock is Postgres's.
\<close>

record 'w lock_db =
  lk_connect :: "'w \<Rightarrow> (exn + nat) \<times> 'w"
  lk_try_lock :: "nat \<Rightarrow> string \<Rightarrow> 'w \<Rightarrow> (exn + bool) \<times> 'w"
  lk_ping :: "nat \<Rightarrow> 'w \<Rightarrow> (exn + unit) \<times> 'w"
  lk_unlock :: "nat \<Rightarrow> string \<Rightarrow> 'w \<Rightarrow> (exn + unit) \<times> 'w"
  lk_close :: "nat \<Rightarrow> 'w \<Rightarrow> (exn + unit) \<times> 'w"

definition on_lock_db :: "('w \<Rightarrow> (exn + 'a) \<times> 'w) \<Rightarrow> ('w st \<times> 'm, 'a) eff" where
  "on_lock_db f = on_store (\<lambda>s. case f (world s) of (r, w) \<Rightarrow> (r, s\<lparr>world := w\<rparr>))"

definition lock_name :: "string \<Rightarrow> string" where
  "lock_name worker = ''openvdi-worker:'' @ worker"

text \<open>
  \<open>_acquire_leader_lock\<close>, with the body of the \<open>async with\<close>: the lock is tried once; when the body is
  left it is given back if it was got, errors ignored, and the connection is closed in any case.
\<close>

definition with_leader_lock ::
    "'w lock_db \<Rightarrow> string \<Rightarrow> (bool \<Rightarrow> nat \<Rightarrow> ('w st \<times> 'm, 'a) eff) \<Rightarrow> ('w st \<times> 'm, 'a) eff" where
  "with_leader_lock K worker body =
     bnd (on_lock_db (lk_connect K)) (\<lambda>conn.
     bnd (attempt
       (bnd (on_lock_db (lk_try_lock K conn (lock_name worker))) (\<lambda>got.
        bnd (attempt (body got conn)) (\<lambda>r.
        andthen (do_when got (catching (\<lambda>_. True) (on_lock_db (lk_unlock K conn (lock_name worker))) (\<lambda>_. ret ())))
        (lift_result r))))) (\<lambda>r.
     andthen (on_lock_db (lk_close K conn)) (lift_result r)))"

text \<open>\<open>_lead\<close>, for at most \<open>n\<close> ticks: the loop runs only with the lock.\<close>

definition lead ::
    "'w env \<Rightarrow> 'w lock_db \<Rightarrow> string \<Rightarrow> int \<Rightarrow> ('w st \<times> 'm, unit) eff \<Rightarrow> nat \<Rightarrow> ('w st \<times> 'm, log_level list) eff" where
  "lead E K worker interval tick n = with_leader_lock K worker (\<lambda>got conn.
     if \<not> got then ret [] else tick_loop E (lk_ping K conn) interval tick n 0)"

definition leader_retry_interval_ms :: int where
  "leader_retry_interval_ms = 30000"

text \<open>
  \<open>_run_worker\<close>, for one attempt to lead per number, which bounds its ticks: whatever ends an attempt,
  the next one follows after the pause. An exception is logged; it is the entry of its attempt.
\<close>

primrec run_worker ::
    "'w env \<Rightarrow> 'w lock_db \<Rightarrow> string \<Rightarrow> int \<Rightarrow> ('w st \<times> 'm, unit) eff \<Rightarrow> nat list \<Rightarrow>
     ('w st \<times> 'm, (exn + log_level list) list) eff" where
  "run_worker E K worker interval tick [] = ret []"
| "run_worker E K worker interval tick (n # ns) =
     bnd (attempt (lead E K worker interval tick n)) (\<lambda>r.
     andthen (on_store (sleep E leader_retry_interval_ms))
     (bnd (run_worker E K worker interval tick ns) (\<lambda>rs. ret (r # rs))))"

section \<open>Starting and stopping\<close>

text \<open>The runner's tasks by name, one for each worker.\<close>

record runner =
  rn_workers :: "string list"
  rn_tasks :: "string list"
  rn_stopping :: bool

definition new_runner :: "string list \<Rightarrow> runner" where
  "new_runner workers = \<lparr>rn_workers = workers, rn_tasks = [], rn_stopping = False\<rparr>"

definition start_runner :: "runner \<Rightarrow> exn + runner" where
  "start_runner r = (if rn_tasks r \<noteq> [] then Inl (RuntimeErr ''WorkerRunner already started'')
     else Inr (r\<lparr>rn_tasks := map (\<lambda>w. ''worker:'' @ w) (rn_workers r)\<rparr>))"

text \<open>How a task that was cancelled and awaited ended.\<close>

datatype task_end = EndCancelled | EndFailed exn | EndReturned

text \<open>\<open>stop\<close>: the tasks it cancels and the workers it warns about; a second call does nothing.\<close>

definition stop_runner :: "(string \<Rightarrow> task_end) \<Rightarrow> runner \<Rightarrow> (string list \<times> string list) \<times> runner" where
  "stop_runner ended r = (if rn_stopping r then (([], []), r)
     else ((rn_tasks r, map fst (filter (\<lambda>(w, t). case ended t of EndFailed _ \<Rightarrow> True | _ \<Rightarrow> False)
              (zip (rn_workers r) (rn_tasks r)))), r\<lparr>rn_stopping := True\<rparr>))"

section \<open>The echo worker\<close>

definition echo_tick :: "('s, unit) eff" where
  "echo_tick = ret ()"

section \<open>Audit retention\<close>

definition first_tick_jitter_max_ms :: int where
  "first_tick_jitter_max_ms = 2 * 60 * 60 * 1000"

definition prune_audit_log :: "'w env \<Rightarrow> int \<Rightarrow> ('w, unit) prog" where
  "prune_audit_log E retention_days =
     bnd (now E) (\<lambda>t.
     in_session (andthen (update_db (prune_audit (t - retention_days * 86400000))) commit))"

text \<open>The memory says whether the first tick of this tenure is done.\<close>

definition audit_retention_tick :: "'w env \<Rightarrow> int \<Rightarrow> ('w st \<times> bool, unit) eff" where
  "audit_retention_tick E retention_days =
     bnd (get_memory id) (\<lambda>done.
     andthen (do_when (\<not> done)
       (bnd (on_store (on_world (e_uniform E first_tick_jitter_max_ms))) (\<lambda>jitter.
        andthen (on_store (sleep E jitter)) (set_memory (\<lambda>_. True)))))
     (on_store (prune_audit_log E retention_days)))"

context db_writes begin

lemma pres_prune_audit_log: "pres (both I) (prune_audit_log E days)"
  unfolding prune_audit_log_def by (intro pres_intros pres_prims)

lemma pres_audit_retention_tick: "pres (\<lambda>x. both I (fst x)) (audit_retention_tick E days)"
  unfolding audit_retention_tick_def
  by (intro pres_intros pres_memory pres_on_store pres_prims pres_prune_audit_log)

end

section \<open>Properties\<close>

lemma tick_round_total: "\<exists>x t. tick_round E hb interval tick streak s = (Inr x, t)"
  by (cases s) (auto simp: tick_round_def exec_simps split: prod.splits sum.splits)

text \<open>
  A worker never dies of a failing tick: the leader loop returns whatever its
  ticks raise; a round whose heartbeat fails runs no tick; and a failed tick logs at
  \<open>ERROR\<close> exactly when it is at least the fifth failure in a row.
\<close>

theorem tick_loop_survives:
  "(\<exists>ls t. tick_loop E hb interval tick n streak s = (Inr ls, t) \<and> length ls \<le> n)
   \<and> (\<forall>e w. hb (world (fst s)) = (Inl e, w) \<longrightarrow>
        tick_round E hb interval tick streak s = (Inr None, ((fst s)\<lparr>world := w\<rparr>, snd s)))
   \<and> (tick_log_level r streak = LOG_ERROR \<longleftrightarrow> (\<exists>e. r = Inl e) \<and> 5 \<le> next_streak r streak)"
proof (intro conjI allI impI)
  show "\<exists>ls t. tick_loop E hb interval tick n streak s = (Inr ls, t) \<and> length ls \<le> n"
  proof (induction n arbitrary: streak s)
    case (Suc n)
    obtain x t where x: "tick_round E hb interval tick streak s = (Inr x, t)" using tick_round_total by blast
    show ?case
    proof (cases x)
      case (Some y)
      obtain k l where y: "y = (k, l)" by (cases y)
      from Suc.IH [of k t] obtain ls u where "tick_loop E hb interval tick n k t = (Inr ls, u)" "length ls \<le> n"
        by blast
      with x Some y show ?thesis by (simp add: exec_simps)
    qed (simp add: x exec_simps)
  qed (simp add: exec_simps)
next
  fix e w assume "hb (world (fst s)) = (Inl e, w)"
  then show "tick_round E hb interval tick streak s = (Inr None, ((fst s)\<lparr>world := w\<rparr>, snd s))"
    by (cases s) (simp add: tick_round_def exec_simps)
next
  show "tick_log_level r streak = LOG_ERROR \<longleftrightarrow> (\<exists>e. r = Inl e) \<and> 5 \<le> next_streak r streak"
    by (cases r) (auto simp: tick_log_level_def next_streak_def failure_streak_error_threshold_def)
qed

theorem tick_loop_survives_witness:
  "tick_round sim_env (\<lambda>w. (Inl (RuntimeErr ''closed''), w)) 15000 (throw NoResultFound) 2 (sim_st empty_db, ())
     = (Inr None, ((sim_st empty_db)\<lparr>world := 0\<rparr>, ()))"
proof -
  have "(\<lambda>w :: int. (Inl (RuntimeErr ''closed'') :: exn + unit, w)) (world (fst (sim_st empty_db, ())))
      = (Inl (RuntimeErr ''closed''), 0)" by simp
  then show ?thesis
    using tick_loop_survives [of sim_env "\<lambda>w. (Inl (RuntimeErr ''closed''), w)" 15000 "throw NoResultFound" 0 2
        "(sim_st empty_db, ())" "Inr ()"] by simp
qed

text \<open>
  Pruning keeps exactly the audit rows of the retention period, in their order,
  commits, and pruning again at the same instant changes nothing.
\<close>

theorem prune_keeps_retention_window:
  "\<exists>s'. prune_audit_log E days s = (Inr (), s')
    \<and> audit_log (committed s') = filter (\<lambda>a. e_now E (world s) - days * 86400000 \<le> a_timestamp a)
        (audit_log (committed s))
    \<and> committed (snd (prune_audit_log E days s')) = committed s'"
proof -
  let ?db = "prune_audit (e_now E (world s) - days * 86400000) (committed s)"
  let ?s' = "s\<lparr>work := ?db, committed := ?db\<rparr>"
  have run: "prune_audit_log E days s = (Inr (), ?s')"
    by (simp add: prune_audit_log_def exec_simps)
  have "prune_audit t (prune_audit t db) = prune_audit t db" for t db
    by (simp add: prune_audit_def)
  then have "committed (snd (prune_audit_log E days ?s')) = ?db"
    by (simp add: prune_audit_log_def exec_simps)
  moreover have "audit_log ?db = filter (\<lambda>a. e_now E (world s) - days * 86400000 \<le> a_timestamp a)
      (audit_log (committed s))"
    by (simp add: prune_audit_def not_less)
  ultimately show ?thesis using run by (intro exI [of _ ?s']) simp
qed

end
