(* ===== verification/System.thy ===== *)
theory System
  imports Application Admin_Views Templates_Api Worker_Runner Pool_Provisioner
begin

text \<open>
  The broker as a state machine: the tables and the application's provider registry, and one
  step for every operation that may run on them, with any arguments. Requests, background
  tasks, worker ticks and the process's own start and stop are steps; so are whatever the
  hypervisors and the clock do between them. The invariants of the tables hold in every state
  that any sequence of steps reaches from the empty database.
\<close>

section \<open>Steps\<close>

type_synonym 'w system = "'w st \<times> 'w app"

text \<open>Operations over the tables, with the providers of the moment.\<close>

inductive store_step :: "'w env \<Rightarrow> 'w platform \<Rightarrow> 'w auth_env \<Rightarrow> (uuid \<Rightarrow> 'w provider option) \<Rightarrow>
    'w st \<Rightarrow> 'w st \<Rightarrow> bool" for E L A providers where
  world_moves: "store_step E L A providers s (s\<lparr>world := w\<rparr>)"
| connect_request: "store_step E L A providers s (snd (connect_desktop E providers u pid s))"
| disconnect_request: "store_step E L A providers s (snd (disconnect_user_session E u i s))"
| force_disconnect: "store_step E L A providers s (snd (force_disconnect_session E u i ip s))"
| desktop_detail: "store_step E L A providers s (snd (get_desktop E b providers i s))"
| assign: "store_step E L A providers s (snd (assign_desktop E i user actor ip s))"
| unassign: "store_step E L A providers s (snd (unassign_desktop E i actor ip s))"
| power: "store_step E L A providers s (snd (desktop_power E providers i action s))"
| rebuild: "store_step E L A providers s (snd (rebuild_desktop E providers i s))"
| destroy: "store_step E L A providers s (snd (destroy_desktop E providers i s))"
| pool_create: "store_step E L A providers s (snd (create_pool E providers pc s))"
| pool_update: "store_step E L A providers s (snd (update_pool E i pu s))"
| pool_delete: "store_step E L A providers s (snd (delete_pool E i actor ip s))"
| pool_drain: "store_step E L A providers s (snd (drain_pool E i actor ip s))"
| background: "store_step E L A providers s (snd (run_bg_task E providers task s))"
| template_create: "store_step E L A providers s (snd (create_template E providers tc s))"
| template_update: "store_step E L A providers s (snd (update_template E i tu s))"
| template_validate: "store_step E L A providers s (snd (validate_template E providers i s))"
| template_delete: "store_step E L A providers s (snd (delete_template i s))"
| grant: "store_step E L A providers s (snd (grant_entitlement E pid ec s))"
| revoke: "store_step E L A providers s (snd (revoke_entitlement pid i s))"
| cluster_create: "store_step E L A providers s (snd (create_cluster E L cc s))"
| user_login: "store_step E L A providers s (snd (login E A username password ip s))"
| user_refresh: "store_step E L A providers s (snd (refresh E A cookie ip s))"
| user_logout: "store_step E L A providers s (snd (logout E cookie ip s))"
| http_audit: "store_step E L A providers s
    (snd (write_audit_row E C verb path status body ctype q actor ip s))"
| track_tasks: "store_step E L A providers s (snd (task_tracker_tick E providers s))"
| provision_pools: "store_step E L A providers s (snd (pool_provisioner_tick E info providers s))"
| watch_sessions: "store_step E L A providers s (fst (snd (session_monitor_tick E providers (s, mo))))"
| retain_audit: "store_step E L A providers s (fst (snd (audit_retention_tick E days (s, first))))"

text \<open>Those that also change the registry.\<close>

inductive system_step :: "'w env \<Rightarrow> 'w platform \<Rightarrow> 'w auth_env \<Rightarrow> 'w system \<Rightarrow> 'w system \<Rightarrow> bool"
    for E L A where
  on_tables: "store_step E L A (app_providers ap) s t \<Longrightarrow> system_step E L A (s, ap) (t, ap)"
| cluster_update: "system_step E L A x (snd (update_cluster E L i cu actor ip x))"
| cluster_delete: "system_step E L A x (snd (delete_cluster E i actor ip x))"
| check_health: "system_step E L A x (snd (health_checker_tick E L x))"
| process_start: "system_step E L A x (snd (startup E L key_ok x))"
| process_stop: "system_step E L A x (snd (shutdown x))"

definition initial :: "'w system \<Rightarrow> bool" where
  "initial x \<longleftrightarrow> committed (fst x) = empty_db \<and> work (fst x) = empty_db"

definition reachable :: "'w env \<Rightarrow> 'w platform \<Rightarrow> 'w auth_env \<Rightarrow> 'w system \<Rightarrow> bool" where
  "reachable E L A x \<longleftrightarrow> (\<exists>y. initial y \<and> (system_step E L A)\<^sup>*\<^sup>* y x)"

inductive_simps system_step_pair: "system_step E L A (s, ap) y"

section \<open>Invariants along steps\<close>

context db_catalogue begin

lemma pres_write_audit_row: "pres (both I) (write_audit_row E C verb path status body ctype q actor ip)"
  unfolding write_audit_row_def by (intro pres_intros pres_prims pres_log_business_event)

lemmas pres_operations =
  pres_connect_desktop pres_disconnect_user_session pres_force_disconnect pres_get_desktop
  pres_assign_desktop pres_unassign_desktop pres_desktop_power pres_create_pool pres_update_pool
  pres_delete_pool pres_drain_pool pres_run_bg_task pres_create_template pres_update_template
  pres_validate_template pres_delete_template pres_grant_entitlement pres_revoke_entitlement
  pres_create_cluster pres_login pres_refresh pres_logout pres_write_audit_row
  pres_task_tracker_tick pres_pool_provisioner_tick

lemma both_after: "pres (both I) m \<Longrightarrow> both I s \<Longrightarrow> both I (snd (m s))"
  by (rule presD)

lemma both_fst_after: "pres (\<lambda>x. both I (fst x)) m \<Longrightarrow> both I (fst x) \<Longrightarrow> both I (fst (snd (m x)))"
  by (rule presD [of "\<lambda>x. both I (fst x)"])

lemma store_step_both:
  assumes "store_step E L A providers s t" "both I s"
  shows "both I t"
  using assms(1)
proof cases
  case (world_moves w)
  with assms(2) show ?thesis by (simp add: both_def)
next
  case (watch_sessions mo)
  with both_fst_after [OF pres_session_monitor_tick, of "(s, mo)"] assms(2) show ?thesis by simp
next
  case (retain_audit days first)
  with both_fst_after [OF pres_audit_retention_tick, of "(s, first)"] assms(2) show ?thesis by simp
next
  case rebuild
  with both_after [OF pres_start_teardown] assms(2) show ?thesis by (simp add: rebuild_desktop_def)
next
  case destroy
  with both_after [OF pres_start_teardown] assms(2) show ?thesis by (simp add: destroy_desktop_def)
qed (use assms(2) in \<open>auto intro: both_after pres_operations\<close>)

lemma system_step_both:
  assumes "system_step E L A x y" "both I (fst x)"
  shows "both I (fst y)"
  using assms
proof induction
  case (on_tables ap s t)
  then show ?case using store_step_both by simp
next
  case (cluster_update x i cu actor ip)
  then show ?case by (intro both_fst_after [OF pres_update_cluster])
next
  case (cluster_delete x i actor ip)
  then show ?case by (intro both_fst_after [OF pres_delete_cluster])
next
  case (check_health x)
  then show ?case by (intro both_fst_after [OF pres_health_checker_tick])
next
  case (process_start x key_ok)
  then show ?case by (intro both_fst_after [OF pres_startup])
next
  case (process_stop x)
  then show ?case by (intro both_fst_after [OF pres_shutdown])
qed

lemma reachable_both:
  assumes "reachable E L A x" "I empty_db"
  shows "I (committed (fst x))"
proof -
  from assms(1) obtain y where y: "initial y" and steps: "(system_step E L A)\<^sup>*\<^sup>* y x"
    by (auto simp: reachable_def)
  from steps have "both I (fst x)"
  proof (induction rule: rtranclp_induct)
    case base
    with y assms(2) show ?case by (simp add: initial_def both_def)
  next
    case (step y z)
    then show ?case using system_step_both by blast
  qed
  then show ?thesis by (simp add: both_def)
qed

end

lemma empty_db_ok: "keys_unique empty_db" "refs_valid empty_db" "ranges_ok empty_db" "tickets_cleared empty_db"
  by (simp_all add: keys_unique_def refs_valid_def ranges_ok_def tickets_cleared_def empty_db_def)

lemma reachable_ok:
  assumes "reachable E L A x"
  shows "keys_unique (committed (fst x))" "refs_valid (committed (fst x))"
    "ranges_ok (committed (fst x))" "tickets_cleared (committed (fst x))"
  using keys.reachable_both [OF assms] refs.reachable_both [OF assms] ranges.reachable_both [OF assms]
    tickets.reachable_both [OF assms] empty_db_ok
  by blast+

section \<open>Properties\<close>

text \<open>
  Property C3. The invariants of the whole broker: whatever requests, background tasks, worker ticks,
  restarts and hypervisor answers follow each other, in any order and with any arguments, the
  committed tables have unique keys (no two desktops share a VMID, no principal is entitled
  twice), no dangling reference, disjoint pool ranges with every desktop inside its own
  pool's, and no console ticket on an ended session.
\<close>

theorem reachable_invariants:
  assumes "reachable E L A x"
  shows "keys_unique (committed (fst x)) \<and> refs_valid (committed (fst x))
    \<and> ranges_ok (committed (fst x)) \<and> tickets_cleared (committed (fst x))"
  using reachable_ok [OF assms] by simp

text \<open>
  A run from the empty database: a cluster is registered, the health checker gives it a
  provider, a template and a pool are created.
\<close>

definition demo_provider :: "int provider" where
  "demo_provider = sim_provider\<lparr>pv_get_vm_status := (\<lambda>r w. (Inr ((sim_vm_status r)\<lparr>v_is_template := True\<rparr>), w))\<rparr>"

definition demo_platform :: "int platform" where
  "demo_platform = \<lparr>pl_classes = [(''proxmox'', \<lambda>url tid secret verify. Inr demo_provider)],
     pl_encrypt = Inr, pl_decrypt = Inr\<rparr>"

definition demo_cluster :: cluster_create where
  "demo_cluster = \<lparr>cc_name = ''lab'', cc_provider_type = ''proxmox'', cc_api_url = ''https://pve1'',
     cc_token_id = ''t'', cc_token_secret = ''x'', cc_verify_ssl = True, cc_node_filter = None,
     cc_provider_config = []\<rparr>"

definition demo_template :: template_create where
  "demo_template = \<lparr>tc_cluster_id = 1000, tc_name = ''win11'', tc_pve_vmid = 9000, tc_pve_node = ''pve1'',
     tc_os_type = ''windows'', tc_description = None, tc_cpu_cores = 4, tc_memory_mb = 8192,
     tc_disk_gb = 64, tc_gpu_required = False, tc_tags = [], tc_provider_config = []\<rparr>"

definition demo_pool :: pool_create where
  "demo_pool = \<lparr>pc_name = ''eng'', pc_display_name = ''Eng'', pc_description = None,
     pc_pool_type = NONPERSISTENT, pc_template_id = 1001, pc_cluster_id = 1000, pc_min_spare = 1,
     pc_max_size = 2, pc_vmid_range_start = 100, pc_vmid_range_end = 110, pc_name_prefix = ''eng'',
     pc_target_nodes = None, pc_target_storage = None, pc_cpu_cores = None, pc_memory_mb = None,
     pc_pve_pool_id = None, pc_provider_config = [], pc_auto_logoff_min = 0,
     pc_delete_on_logoff = False, pc_refresh_on_logoff = True\<rparr>"

definition demo_start :: "int system" where
  "demo_start = (sim_st empty_db, \<lparr>ap_providers = [], ap_constructed_at = []\<rparr>)"

definition demo_checked :: "int system" where
  "demo_checked = snd (health_checker_tick sim_env demo_platform
     (snd (create_cluster sim_env demo_platform demo_cluster (fst demo_start)), snd demo_start))"

definition demo_state :: "int system" where
  "demo_state = (snd (create_pool sim_env (app_providers (snd demo_checked)) demo_pool
     (snd (create_template sim_env (app_providers (snd demo_checked)) demo_template (fst demo_checked)))),
     snd demo_checked)"

lemma demo_reachable: "reachable sim_env demo_platform sim_auth demo_state"
proof -
  let ?R = "system_step sim_env demo_platform sim_auth"
  let ?s = "fst demo_start" and ?ap = "snd demo_start" and ?t = "fst demo_checked" and ?aq = "snd demo_checked"
  have "initial demo_start" by (simp add: initial_def demo_start_def)
  moreover have "?R (?s, ?ap) (snd (create_cluster sim_env demo_platform demo_cluster ?s), ?ap)"
    by (intro on_tables cluster_create)
  moreover have "?R (snd (create_cluster sim_env demo_platform demo_cluster ?s), ?ap) demo_checked"
    unfolding demo_checked_def by (rule check_health)
  moreover have "?R (?t, ?aq) (snd (create_template sim_env (app_providers ?aq) demo_template ?t), ?aq)"
    by (intro on_tables template_create)
  moreover have "?R (snd (create_template sim_env (app_providers ?aq) demo_template ?t), ?aq) demo_state"
    unfolding demo_state_def by (intro on_tables pool_create)
  ultimately show ?thesis
    unfolding reachable_def by (metis (no_types, lifting) prod.collapse rtranclp.simps)
qed

lemma demo_pools:
  "map (\<lambda>p. (p_id p, range_capacity p)) (pools (committed (fst demo_state))) = [(1002, 11)]"
  by code_simp

theorem reachable_invariants_witness:
  "keys_unique (committed (fst demo_state)) \<and> length (pools (committed (fst demo_state))) = 1"
  using reachable_invariants [OF demo_reachable] arg_cong [OF demo_pools, of length] by simp

text \<open>
  Property C4. VMIDs across the system: in every reachable state a desktop belongs to a pool exactly when
  its VMID lies in the pool's range, no two desktops have the same VMID, and the pool has no
  more desktops than its range has numbers.
\<close>

theorem reachable_vmids:
  assumes "reachable E L A x" "p \<in> set (pools (committed (fst x)))"
  shows "(\<forall>d\<in>set (desktops (committed (fst x))). d_pool_id d = p_id p \<longleftrightarrow> in_pool_range p (d_pve_vmid d))
    \<and> distinct (map d_pve_vmid (desktops (committed (fst x))))
    \<and> desktop_count (p_id p) (committed (fst x)) \<le> range_capacity p"
proof (intro conjI ballI)
  let ?db = "committed (fst x)"
  note ok = reachable_ok [OF assms(1)]
  show "distinct (map d_pve_vmid (desktops ?db))" using ok(1) by (simp add: keys_unique_def)
  show "desktop_count (p_id p) ?db \<le> range_capacity p" by (rule pool_within_range [OF ok(1,3) assms(2)])
  fix d assume "d \<in> set (desktops ?db)"
  with ok(3) obtain q where q: "q \<in> set (pools ?db)" "p_id q = d_pool_id d" "in_pool_range q (d_pve_vmid d)"
    by (auto simp: ranges_ok_def desktop_in_range_def)
  show "d_pool_id d = p_id p \<longleftrightarrow> in_pool_range p (d_pve_vmid d)"
  proof
    assume "d_pool_id d = p_id p"
    with ok(1) q assms(2) have "q = p" by (auto simp: keys_unique_def distinct_map dest: inj_onD)
    with q(3) show "in_pool_range p (d_pve_vmid d)" by simp
  next
    assume "in_pool_range p (d_pve_vmid d)"
    from ranges_ok_vmid_pool_unique [OF ok(3) q(1) assms(2) q(3) this] q(2)
    show "d_pool_id d = p_id p" by simp
  qed
qed

theorem reachable_vmids_witness: "desktop_count 1002 (committed (fst demo_state)) \<le> 11"
proof -
  have "(1002, 11) \<in> set (map (\<lambda>p. (p_id p, range_capacity p)) (pools (committed (fst demo_state))))"
    unfolding demo_pools by simp
  then obtain p where "p \<in> set (pools (committed (fst demo_state)))" "p_id p = 1002" "range_capacity p = 11"
    by auto
  with reachable_vmids [OF demo_reachable, of p] show ?thesis by simp
qed

end
