(* ===== verification/Proxmox_Client.thy ===== *)
theory Proxmox_Client
  imports Wait_Loops Py_Values "HOL-Library.AList"
begin

text \<open>
  The HTTP client of the Proxmox provider: \<open>broker/app/providers/proxmox/client.py\<close> with the
  parameter names of \<open>params.py\<close> and the packing of references and task handles of
  \<open>types.py\<close>. The transport (\<open>httpx\<close>) is a parameter: a request goes to the world and gives a
  response or fails. A response that is JSON carries its value; numbers in it are integers.
\<close>

section \<open>Python conversions\<close>

definition is_digit_char :: "char \<Rightarrow> bool" where
  "is_digit_char c \<longleftrightarrow> 48 \<le> (of_char c :: nat) \<and> (of_char c :: nat) \<le> 57"

text \<open>\<open>int(s)\<close> of a string: white space around, a sign, digits with single underscores.\<close>

definition parse_sign :: "string \<Rightarrow> int \<times> string" where
  "parse_sign s = (case s of [] \<Rightarrow> (1, [])
     | c # r \<Rightarrow> if c = CHR ''-'' then (- 1, r) else if c = CHR ''+'' then (1, r) else (1, s))"

definition parse_int :: "string \<Rightarrow> int option" where
  "parse_int s = (case parse_sign (py_strip s) of (sg, u) \<Rightarrow>
     (let parts = split_on (CHR ''_'') u in
      if list_all (\<lambda>p. p \<noteq> [] \<and> list_all is_digit_char p) parts
      then Some (sg * int (read_nat_acc 0 (concat parts))) else None))"

fun py_int :: "jval \<Rightarrow> exn + int" where
  "py_int (JInt i) = Inr i"
| "py_int (JBool b) = Inr (if b then 1 else 0)"
| "py_int (JStr s) = (case parse_int s of None \<Rightarrow> Inl (PyValueError ''int'') | Some i \<Rightarrow> Inr i)"
| "py_int _ = Inl (PyTypeError ''int'')"

section \<open>URLs\<close>

text \<open>
  \<open>urlsplit(url).netloc\<close>: leading blanks and line breaks are dropped, then the scheme. A
  bracket without its partner is a \<open>ValueError\<close>.
\<close>

definition is_scheme :: "string \<Rightarrow> bool" where
  "is_scheme s \<longleftrightarrow> s \<noteq> []
     \<and> (let n = of_char (hd s) :: nat in 65 \<le> n \<and> n \<le> 90 \<or> 97 \<le> n \<and> n \<le> 122)
     \<and> list_all (\<lambda>c. let n = of_char c :: nat in
          48 \<le> n \<and> n \<le> 57 \<or> 65 \<le> n \<and> n \<le> 90 \<or> 97 \<le> n \<and> n \<le> 122 \<or> c \<in> set ''+-.'') s"

definition url_netloc :: "string \<Rightarrow> exn + string" where
  "url_netloc url =
     (let u = filter (\<lambda>c. (of_char c :: nat) \<notin> {9, 10, 13}) (dropWhile (\<lambda>c. (of_char c :: nat) \<le> 32) url);
          rest = (case partition_on (CHR '':'') u of (s, found, r) \<Rightarrow> if found \<and> is_scheme s then r else u);
          netloc = (if starts_with rest ''//''
                    then takeWhile (\<lambda>c. c \<notin> set ''/?#'') (drop 2 rest) else [])
      in if (CHR ''['' \<in> set netloc) \<noteq> (CHR '']'' \<in> set netloc)
         then Inl (PyValueError ''Invalid IPv6 URL'') else Inr netloc)"

section \<open>References and handles\<close>

definition unpack_vm_ref :: "vm_ref \<Rightarrow> exn + jval \<times> int" where
  "unpack_vm_ref r =
     (if r_provider_type r \<noteq> ''proxmox'' then Inl (PyValueError ''expected proxmox VMRef'')
      else (case r_data r of
          JObj kvs \<Rightarrow> (case (map_of kvs ''node'', map_of kvs ''vmid'') of
            (Some node, Some v) \<Rightarrow> map_sum id (Pair node) (py_int v)
          | _ \<Rightarrow> Inl (PyValueError ''malformed Proxmox VMRef data''))
        | _ \<Rightarrow> Inl (PyValueError ''malformed Proxmox VMRef data'')))"

definition make_task_handle :: "jval \<Rightarrow> jval \<Rightarrow> task_handle" where
  "make_task_handle node upid = \<lparr>h_provider_type = ''proxmox'',
     h_data = JObj [(''node'', node), (''upid'', upid)]\<rparr>"

definition unpack_task_handle :: "task_handle \<Rightarrow> exn + jval \<times> jval" where
  "unpack_task_handle h =
     (if h_provider_type h \<noteq> ''proxmox'' then Inl (PyValueError ''expected proxmox TaskHandle'')
      else (case h_data h of
          JObj kvs \<Rightarrow> (case (map_of kvs ''node'', map_of kvs ''upid'') of
            (Some node, Some upid) \<Rightarrow> Inr (node, upid)
          | _ \<Rightarrow> Inl (PyValueError ''malformed Proxmox TaskHandle data''))
        | _ \<Rightarrow> Inl (PyValueError ''malformed Proxmox TaskHandle data'')))"

section \<open>Parameters\<close>

definition param_map :: "(string \<times> string) list" where
  "param_map = [(''generate_password'', ''generate-password''), (''input_data'', ''input-data''),
     (''target_node'', ''target''), (''force_stop'', ''forceStop''),
     (''keep_active'', ''keepActive''), (''skip_lock'', ''skiplock'')]"

definition wire_name :: "string \<Rightarrow> string" where
  "wire_name k = (case map_of param_map k of None \<Rightarrow> k | Some k' \<Rightarrow> k')"

definition translate_params :: "(string \<times> jval) list \<Rightarrow> (string \<times> jval) list" where
  "translate_params ps = fold (\<lambda>(k, v) out. if v = JNull then out else AList.update (wire_name k) v out) ps []"

section \<open>The transport\<close>

record http_request =
  rq_method :: string
  rq_path :: string
  rq_params :: "(string \<times> jval) list"
  rq_data :: "(string \<times> jval) list"

text \<open>\<open>rp_content\<close>: the body is not empty; \<open>rp_json\<close>: what \<open>resp.json()\<close> gives, unless it raises.\<close>

record http_response =
  rp_status :: int
  rp_content :: bool
  rp_json :: "jval option"
  rp_text :: string

text \<open>\<open>httpx.TimeoutException\<close>, any other \<open>httpx.HTTPError\<close>, and whatever else is raised.\<close>

datatype transport_error = TransportTimeout | TransportError string | TransportOther exn

record 'w http_client =
  hc_send :: "http_request \<Rightarrow> 'w \<Rightarrow> (transport_error + http_response) \<times> 'w"
  hc_aclose :: "'w \<Rightarrow> (exn + unit) \<times> 'w"

text \<open>The arguments of \<open>httpx.AsyncClient\<close>.\<close>

record client_config =
  hx_base_url :: string
  hx_verify :: bool
  hx_max_connections :: nat
  hx_max_keepalive :: nat
  hx_timeout_ms :: int
  hx_authorization :: string

text \<open>
  A client: its URL, its transport, the process environment, and Python's \<open>str\<close> and \<open>repr\<close> of
  decoded values and strings.
\<close>

record 'w px =
  px_api_url :: string
  px_client :: "'w http_client"
  px_env :: "'w env"
  px_str :: "jval \<Rightarrow> string"
  px_repr :: "jval \<Rightarrow> string"

type_synonym ('w, 'a) pxm = "('w, 'a) eff"

definition new_client ::
    "(client_config \<Rightarrow> exn + 'w http_client) \<Rightarrow> 'w env \<Rightarrow> (jval \<Rightarrow> string) \<Rightarrow> (jval \<Rightarrow> string) \<Rightarrow>
     string \<Rightarrow> string \<Rightarrow> string \<Rightarrow> bool \<Rightarrow> exn + 'w px" where
  "new_client open_client E str repr api_url token_id token_secret verify =
     (let url = rev (dropWhile (\<lambda>c. c = CHR ''/'') (rev api_url)) in
      map_sum id (\<lambda>c. \<lparr>px_api_url = url, px_client = c, px_env = E, px_str = str, px_repr = repr\<rparr>)
        (open_client \<lparr>hx_base_url = url @ ''/api2/json'', hx_verify = verify,
           hx_max_connections = 20, hx_max_keepalive = 10, hx_timeout_ms = 30000,
           hx_authorization = ''PVEAPIToken='' @ token_id @ ''='' @ token_secret\<rparr>))"

text \<open>\<open>str(v)\<close>; of a string it is the string.\<close>

definition text_of :: "'w px \<Rightarrow> jval \<Rightarrow> string" where
  "text_of X v = (case v of JStr s \<Rightarrow> s | _ \<Rightarrow> px_str X v)"

definition send :: "'w px \<Rightarrow> http_request \<Rightarrow> ('w, transport_error + http_response) pxm" where
  "send X rq = (\<lambda>w. case hc_send (px_client X) rq w of (r, w') \<Rightarrow> (Inr r, w'))"

definition pause :: "'w px \<Rightarrow> int \<Rightarrow> ('w, unit) pxm" where
  "pause X t = modify (e_sleep (px_env X) t)"

section \<open>One request\<close>

definition looks_like_lock_error :: "string \<Rightarrow> bool" where
  "looks_like_lock_error body = contains_sub ''lock'' (py_lower body)"

definition response_body :: "'w px \<Rightarrow> http_response \<Rightarrow> string" where
  "response_body X r = (case rp_json r of
       Some (JObj kvs) \<Rightarrow>
         (if j_truthy (get_or kvs ''errors'' JNull) then text_of X (get_or kvs ''errors'' JNull)
          else if j_truthy (get_or kvs ''message'' JNull) then text_of X (get_or kvs ''message'' JNull)
          else py_strip (rp_text r))
     | _ \<Rightarrow> py_strip (rp_text r))"

definition parse_body :: "'w px \<Rightarrow> string \<Rightarrow> http_response \<Rightarrow> exn + jval" where
  "parse_body X path r =
     (if \<not> rp_content r then Inr JNull
      else (case rp_json r of
          None \<Rightarrow> Inl (ProviderError (ProxmoxError (rp_status r) path) ''proxmox''
            (''non-JSON 2xx body: '' @ px_repr X (JStr (take 200 (rp_text r)))))
        | Some (JObj kvs) \<Rightarrow> Inr (get_or kvs ''data'' JNull)
        | Some v \<Rightarrow> Inr v))"

definition or_text :: "string \<Rightarrow> string \<Rightarrow> string" where
  "or_text s d = (if s = [] then d else s)"

text \<open>
  The attempts that are left, of \<open>tries\<close> in all; before the next one the loop sleeps two
  seconds times two to the power of the attempt.
\<close>

primrec request_loop :: "'w px \<Rightarrow> http_request \<Rightarrow> nat \<Rightarrow> nat \<Rightarrow> ('w, jval) pxm" where
  "request_loop X rq tries 0 = throw (ProviderError (ProxmoxError 0 (rq_path rq)) ''proxmox''
     (''exhausted '' @ show_nat tries @ '' attempts without a terminal response''))"
| "request_loop X rq tries (Suc left) =
     bnd (send X rq) (\<lambda>res.
     let attempt = tries - Suc left;
         retry_or = (\<lambda>e. if attempt < tries - 1
           then andthen (pause X (2000 * 2 ^ attempt)) (request_loop X rq tries left) else throw e)
     in case res of
          Inl TransportTimeout \<Rightarrow> retry_or (ProviderError ProviderTimeoutError ''proxmox''
            (''request timed out after '' @ show_nat tries @ '' attempts''))
        | Inl (TransportError m) \<Rightarrow> retry_or (ProviderError (ProxmoxError 0 (rq_path rq)) ''proxmox''
            (''network error after '' @ show_nat tries @ '' attempts: '' @ m))
        | Inl (TransportOther e) \<Rightarrow> throw e
        | Inr r \<Rightarrow>
            if 200 \<le> rp_status r \<and> rp_status r < 300 then lift_result (parse_body X (rq_path rq) r)
            else let body = response_body X r in
              if rp_status r \<in> {401, 403}
              then throw (ProviderError ProviderAuthError ''proxmox'' (or_text body ''authentication failed''))
              else if rp_status r = 404
              then throw (ProviderError ProviderNotFoundError ''proxmox'' (or_text body ''resource not found''))
              else if rp_status r \<ge> 500
              then (if looks_like_lock_error body
                then retry_or (ProviderError ProviderLockError ''proxmox'' body)
                else retry_or (ProviderError (ProxmoxError (rp_status r) (rq_path rq)) ''proxmox'' body))
              else throw (ProviderError (ProxmoxError (rp_status r) (rq_path rq)) ''proxmox'' body))"

definition request_tries ::
    "'w px \<Rightarrow> nat \<Rightarrow> string \<Rightarrow> string \<Rightarrow> (string \<times> jval) list \<Rightarrow> (string \<times> jval) list \<Rightarrow> ('w, jval) pxm" where
  "request_tries X tries verb path params body = request_loop X
     \<lparr>rq_method = verb, rq_path = (if starts_with path ''/'' then path else CHR ''/'' # path),
      rq_params = translate_params params, rq_data = translate_params body\<rparr> tries tries"

abbreviation request ::
    "'w px \<Rightarrow> string \<Rightarrow> string \<Rightarrow> (string \<times> jval) list \<Rightarrow> (string \<times> jval) list \<Rightarrow> ('w, jval) pxm" where
  "request X \<equiv> request_tries X 3"

definition get_task_status_raw :: "'w px \<Rightarrow> jval \<Rightarrow> jval \<Rightarrow> ('w, (string \<times> jval) list) pxm" where
  "get_task_status_raw X node upid =
     (let path = ''/nodes/'' @ text_of X node @ ''/tasks/'' @ text_of X upid @ ''/status'' in
      bnd (request X ''GET'' path [] []) (\<lambda>v. case v of
          JObj kvs \<Rightarrow> ret kvs
        | _ \<Rightarrow> throw (ProviderError (ProxmoxError 0 path) ''proxmox'' ''task status returned non-dict'')))"

section \<open>Lemmas on references and URLs\<close>

lemma unpack_mk_ref [simp]: "unpack_vm_ref (mk_ref ''proxmox'' node vmid) = Inr (JStr node, vmid)"
  by (simp add: unpack_vm_ref_def mk_ref_def)

lemma unpack_make_task [simp]: "unpack_task_handle (make_task_handle node upid) = Inr (node, upid)"
  by (simp add: unpack_task_handle_def make_task_handle_def)

lemma make_task_mk [simp]: "make_task_handle (JStr node) (JStr upid) = mk_task ''proxmox'' node upid"
  by (simp add: make_task_handle_def mk_task_def)

lemma unpack_mk_task [simp]: "unpack_task_handle (mk_task ''proxmox'' node upid) = Inr (JStr node, JStr upid)"
  using unpack_make_task [of "JStr node" "JStr upid"] by simp

lemma text_of_str [simp]: "text_of X (JStr s) = s"
  by (simp add: text_of_def)

section \<open>A request is its first final answer\<close>

datatype verdict = Final "exn + jval" | Retry exn

text \<open>What one answer means, whatever attempt it came at.\<close>

definition verdict_of :: "'w px \<Rightarrow> string \<Rightarrow> nat \<Rightarrow> transport_error + http_response \<Rightarrow> verdict" where
  "verdict_of X path tries res = (case res of
       Inl TransportTimeout \<Rightarrow> Retry (ProviderError ProviderTimeoutError ''proxmox''
            (''request timed out after '' @ show_nat tries @ '' attempts''))
     | Inl (TransportError m) \<Rightarrow> Retry (ProviderError (ProxmoxError 0 path) ''proxmox''
            (''network error after '' @ show_nat tries @ '' attempts: '' @ m))
     | Inl (TransportOther e) \<Rightarrow> Final (Inl e)
     | Inr r \<Rightarrow>
         if 200 \<le> rp_status r \<and> rp_status r < 300 then Final (parse_body X path r)
         else let body = response_body X r; st = rp_status r in
           if 500 \<le> st then Retry (ProviderError (if looks_like_lock_error body then ProviderLockError
             else ProxmoxError st path) ''proxmox'' body)
           else Final (Inl (ProviderError
             (if st \<in> {401, 403} then ProviderAuthError else if st = 404 then ProviderNotFoundError
              else ProxmoxError st path) ''proxmox''
             (if st \<in> {401, 403} then or_text body ''authentication failed''
              else if st = 404 then or_text body ''resource not found'' else body))))"

text \<open>The world before the attempt number \<open>i\<close>, counted from zero, if the ones before it failed.\<close>

primrec before_try :: "'w px \<Rightarrow> http_request \<Rightarrow> nat \<Rightarrow> 'w \<Rightarrow> 'w" where
  "before_try X rq 0 w = w"
| "before_try X rq (Suc i) w =
     e_sleep (px_env X) (2000 * 2 ^ i) (snd (hc_send (px_client X) rq (before_try X rq i w)))"

definition try_verdict :: "'w px \<Rightarrow> http_request \<Rightarrow> nat \<Rightarrow> nat \<Rightarrow> 'w \<Rightarrow> verdict" where
  "try_verdict X rq tries i w =
     verdict_of X (rq_path rq) tries (fst (hc_send (px_client X) rq (before_try X rq i w)))"

fun is_final :: "verdict \<Rightarrow> bool" where
  "is_final (Final _) = True"
| "is_final (Retry _) = False"

fun settle :: "verdict \<Rightarrow> exn + jval" where
  "settle (Final r) = r"
| "settle (Retry e) = Inl e"

definition first_final :: "'w px \<Rightarrow> http_request \<Rightarrow> nat \<Rightarrow> nat \<Rightarrow> 'w \<Rightarrow> nat" where
  "first_final X rq tries i w = (case find (\<lambda>j. is_final (try_verdict X rq tries j w)) [i..<tries] of
     None \<Rightarrow> tries - 1 | Some j \<Rightarrow> j)"

lemma request_loop_step:
  "request_loop X rq tries (Suc left) w = (case hc_send (px_client X) rq w of (res, w') \<Rightarrow>
     (case verdict_of X (rq_path rq) tries res of
        Final r \<Rightarrow> (r, w')
      | Retry e \<Rightarrow> if tries - Suc left < tries - 1
          then request_loop X rq tries left (e_sleep (px_env X) (2000 * 2 ^ (tries - Suc left)) w')
          else (Inl e, w')))"
  by (simp add: send_def pause_def verdict_of_def exec_simps Let_def
      split: prod.splits sum.splits transport_error.splits)

lemma request_loop_from:
  assumes "left \<le> tries" "0 < left"
  shows "request_loop X rq tries left (before_try X rq (tries - left) w)
    = (let i = first_final X rq tries (tries - left) w in
       (settle (try_verdict X rq tries i w), snd (hc_send (px_client X) rq (before_try X rq i w))))"
  using assms
proof (induction left)
  case (Suc left)
  define a where "a = tries - Suc left"
  have a: "a < tries" "[a..<tries] = a # [Suc a..<tries]" "left \<noteq> 0 \<longrightarrow> tries - left = Suc a"
    "tries - Suc 0 = a \<longleftrightarrow> left = 0"
    using Suc.prems by (auto simp: a_def upt_conv_Cons)
  obtain res w' where r: "hc_send (px_client X) rq (before_try X rq a w) = (res, w')"
    by (cases "hc_send (px_client X) rq (before_try X rq a w)")
  then have v: "try_verdict X rq tries a w = verdict_of X (rq_path rq) tries res"
    by (simp add: try_verdict_def)
  show ?case
  proof (cases "verdict_of X (rq_path rq) tries res")
    case (Final x)
    then show ?thesis
      unfolding request_loop_step a_def [symmetric] using a r v by (simp add: first_final_def Let_def)
  next
    case (Retry e)
    show ?thesis
    proof (cases "left = 0")
      case True
      with a have "tries = Suc a" by auto
      with Retry show ?thesis
        unfolding request_loop_step a_def [symmetric] using r v by (simp add: first_final_def Let_def)
    next
      case False
      with a Suc.prems have "a < tries - 1" "tries - left = Suc a" by auto
      with Retry Suc False show ?thesis
        unfolding request_loop_step a_def [symmetric] using a r v by (simp add: first_final_def Let_def)
    qed
  qed
qed simp

lemma request_loop_first_final:
  assumes "0 < tries"
  shows "request_loop X rq tries tries w = (let i = first_final X rq tries 0 w in
       (settle (try_verdict X rq tries i w), snd (hc_send (px_client X) rq (before_try X rq i w))))"
  using request_loop_from [OF _ assms, of tries] by simp

lemma first_final_least:
  assumes "0 < tries"
  shows "first_final X rq tries 0 w < tries"
    and "j < first_final X rq tries 0 w \<Longrightarrow> \<not> is_final (try_verdict X rq tries j w)"
proof -
  let ?f = "\<lambda>j. is_final (try_verdict X rq tries j w)"
  have *: "first_final X rq tries 0 w < tries \<and> (\<forall>j < first_final X rq tries 0 w. \<not> ?f j)"
  proof (cases "find ?f [0..<tries]")
    case None
    then have "\<forall>j<tries. \<not> ?f j" by (auto simp: find_None_iff)
    with None assms show ?thesis by (simp add: first_final_def)
  next
    case (Some i)
    then have "i < tries" "\<forall>j<i. \<not> ?f j" by (auto simp: find_Some_iff)
    with Some show ?thesis by (simp add: first_final_def)
  qed
  then show "first_final X rq tries 0 w < tries" by simp
  show "j < first_final X rq tries 0 w \<Longrightarrow> \<not> is_final (try_verdict X rq tries j w)" using * by simp
qed

section \<open>Parameters on the wire\<close>

lemma update_new: "k \<notin> set (map fst out) \<Longrightarrow> AList.update k v out = out @ [(k, v)]"
  by (induction out) auto

text \<open>Distinct names keep their order and their values, and nothing is sent for \<open>None\<close>.\<close>

lemma translate_params_exact:
  assumes "distinct (map (wire_name \<circ> fst) ps)"
  shows "translate_params ps = map (\<lambda>(k, v). (wire_name k, v)) (filter (\<lambda>(k, v). v \<noteq> JNull) ps)"
proof -
  have "fold (\<lambda>(k, v) out. if v = JNull then out else AList.update (wire_name k) v out) ps out
      = out @ map (\<lambda>(k, v). (wire_name k, v)) (filter (\<lambda>(k, v). v \<noteq> JNull) ps)"
    if "distinct (map fst out @ map (wire_name \<circ> fst) ps)" for out
    using that
  proof (induction ps arbitrary: out)
    case (Cons p ps)
    obtain k v where p: "p = (k, v)" by (cases p)
    show ?case
    proof (cases "v = JNull")
      case True
      with Cons p show ?thesis by auto
    next
      case False
      from Cons.prems p have "distinct (map fst (out @ [(wire_name k, v)]) @ map (wire_name \<circ> fst) ps)" by (auto simp: comp_def)
      from Cons.IH [OF this] Cons.prems p False show ?thesis by (simp add: update_new comp_def)
    qed
  qed simp
  from this [of "[]"] assms show ?thesis by (simp add: translate_params_def)
qed

section \<open>The authority of a URL\<close>

lemma partition_rest: "partition_on c s = (a, b, r) \<Longrightarrow> set r \<subseteq> set s"
proof -
  assume "partition_on c s = (a, b, r)"
  then have "r = tl (dropWhile (\<lambda>x. x \<noteq> c) s)" by (simp add: partition_on_def Let_def)
  moreover have "set (tl xs) \<subseteq> set xs" for xs :: string by (cases xs) auto
  ultimately show ?thesis by (meson set_dropWhileD subset_iff)
qed

lemma netloc_shape:
  assumes "url_netloc u = Inr n"
  shows "set n \<inter> set ''/?#'' = {}" "\<forall>c\<in>set n. (of_char c :: nat) \<notin> {9, 10, 13}"
    "(CHR ''['' \<in> set n) = (CHR '']'' \<in> set n)"
proof -
  let ?u = "filter (\<lambda>c. (of_char c :: nat) \<notin> {9, 10, 13}) (dropWhile (\<lambda>c. (of_char c :: nat) \<le> 32) u)"
  obtain sc found r where p: "partition_on (CHR '':'') ?u = (sc, found, r)" by (cases "partition_on (CHR '':'') ?u")
  define rest where "rest = (if found \<and> is_scheme sc then r else ?u)"
  have rest: "set rest \<subseteq> set ?u" using partition_rest [OF p] by (simp add: rest_def)
  define m where "m = (if starts_with rest ''//'' then takeWhile (\<lambda>c. c \<notin> set ''/?#'') (drop 2 rest) else [])"
  have "n = m \<and> (CHR ''['' \<in> set m) = (CHR '']'' \<in> set m)"
    using assms unfolding url_netloc_def Let_def p prod.case rest_def [symmetric] m_def [symmetric]
    by (simp split: if_splits)
  moreover have "set m \<inter> set ''/?#'' = {}" "set m \<subseteq> set ?u"
    using rest by (auto simp: m_def dest: set_takeWhileD in_set_dropD)
  ultimately show "set n \<inter> set ''/?#'' = {}" "\<forall>c\<in>set n. (of_char c :: nat) \<notin> {9, 10, 13}"
    "(CHR ''['' \<in> set n) = (CHR '']'' \<in> set n)" by auto
qed

lemma netloc_of_wss:
  assumes "url_netloc u = Inr n"
  shows "url_netloc (''wss://'' @ n @ CHR ''/'' # rest) = Inr n"
proof -
  note n = netloc_shape [OF assms]
  let ?ok = "\<lambda>c. (of_char c :: nat) \<notin> {9, 10, 13}"
  have f: "filter ?ok n = n" using n(2) by (simp add: filter_id_conv)
  have "filter ?ok (dropWhile (\<lambda>c. (of_char c :: nat) \<le> 32) (''wss://'' @ n @ CHR ''/'' # rest))
      = ''wss'' @ CHR '':'' # ''//'' @ n @ CHR ''/'' # filter ?ok rest"
    using f by simp
  moreover have "partition_on (CHR '':'') (''wss'' @ CHR '':'' # ''//'' @ n @ CHR ''/'' # filter ?ok rest)
      = (''wss'', True, ''//'' @ n @ CHR ''/'' # filter ?ok rest)"
    by (rule partition_on_append) simp
  moreover have "is_scheme ''wss''" by code_simp
  moreover have "takeWhile (\<lambda>c. c \<notin> set ''/?#'') (n @ CHR ''/'' # filter ?ok rest) = n"
    using n(1) by (subst takeWhile_append2) auto
  ultimately show ?thesis
    using n(3) by (simp add: url_netloc_def Let_def starts_with_def)
qed

lemma quote_chars: "c \<in> set (url_quote s) \<Longrightarrow> is_unreserved c \<or> c = CHR ''%''"
proof -
  have h: "is_unreserved (hex_upper n)" if "n < 16" for n
    using that by (auto simp: is_unreserved_def hex_upper_def Let_def)
  have b: "b div 16 < 16" "b mod 16 < 16" if "b \<in> set (utf8_bytes c)" for b c
  proof -
    have "(of_char c :: nat) < 4 * 64" by simp
    then have "(of_char c :: nat) div 64 < 4" by (rule less_mult_imp_div_less)
    with that show "b div 16 < 16" by (auto simp: utf8_bytes_def Let_def split: if_splits)
  qed simp
  assume "c \<in> set (url_quote s)"
  then obtain x where "c \<in> set (if is_unreserved x then [x] else concat (map percent_byte (utf8_bytes x)))"
    unfolding url_quote_def set_concat set_map by blast
  then consider "is_unreserved c" | y where "y \<in> set (utf8_bytes x)" "c \<in> set (percent_byte y)"
    by (auto split: if_splits)
  then show ?thesis
  proof cases
    case 2
    with b [OF 2(1)] h show ?thesis by (auto simp: percent_byte_def)
  qed simp
qed

section \<open>Properties\<close>

text \<open>
  Property C12. A request is its first final answer: \<open>_request\<close> equals the reference that looks at the
  attempts one after the other, each with the verdict of its answer alone, and settles on the
  first one that is final (a 2xx, 401, 403, 404 or other 4xx answer) or else on the last;
  before an attempt after the first it has slept 2, 4, 8, ... seconds. So a final
  answer is never asked for again, and at most \<open>tries\<close> requests are sent.
\<close>

theorem request_is_first_final:
  assumes "0 < tries" "starts_with path ''/''"
  shows "\<exists>i<tries. \<exists>rq. rq = \<lparr>rq_method = verb, rq_path = path, rq_params = translate_params ps,
        rq_data = translate_params body\<rparr>
    \<and> request_tries X tries verb path ps body w
        = (settle (try_verdict X rq tries i w), snd (hc_send (px_client X) rq (before_try X rq i w)))
    \<and> (\<forall>j<i. \<not> is_final (try_verdict X rq tries j w))
    \<and> (is_final (try_verdict X rq tries i w) \<or> Suc i = tries)"
proof -
  let ?rq = "\<lparr>rq_method = verb, rq_path = path, rq_params = translate_params ps, rq_data = translate_params body\<rparr>"
  let ?i = "first_final X ?rq tries 0 w"
  have "is_final (try_verdict X ?rq tries ?i w) \<or> Suc ?i = tries"
    using assms(1) by (auto simp: first_final_def find_Some_iff split: option.split)
  moreover have "request_tries X tries verb path ps body w
      = (settle (try_verdict X ?rq tries ?i w), snd (hc_send (px_client X) ?rq (before_try X ?rq ?i w)))"
    using assms(2) request_loop_first_final [OF assms(1), where X = X and rq = ?rq and w = w] by (simp add: request_tries_def Let_def)
  ultimately show ?thesis
    using first_final_least [OF assms(1), where X = X and rq = ?rq and w = w] by (intro exI [of _ ?i] conjI exI [of _ ?rq]) auto
qed

text \<open>A server that is locked once and then gives its version.\<close>

definition locked_once :: "int px" where
  "locked_once = \<lparr>px_api_url = ''https://pve1:8006'',
     px_client = \<lparr>hc_send = (\<lambda>rq w. (if w = 0
         then Inr \<lparr>rp_status = 500, rp_content = True, rp_json = None, rp_text = ''VM is locked''\<rparr>
         else Inr \<lparr>rp_status = 200, rp_content = True,
                  rp_json = Some (JObj [(''data'', JStr ''8.4'')]), rp_text = []\<rparr>, w + 1)),
       hc_aclose = (\<lambda>w. (Inr (), w))\<rparr>,
     px_env = sim_env, px_str = (\<lambda>_. []), px_repr = (\<lambda>_. [])\<rparr>"

theorem request_is_first_final_witness:
  "request locked_once ''GET'' ''/version'' [] [] 0 = (Inr (JStr ''8.4''), 2002)"
proof -
  let ?rq = "\<lparr>rq_method = ''GET'', rq_path = ''/version'', rq_params = translate_params [], rq_data = translate_params []\<rparr>"
  obtain i where i: "i < 3" "request locked_once ''GET'' ''/version'' [] [] 0
        = (settle (try_verdict locked_once ?rq 3 i 0),
           snd (hc_send (px_client locked_once) ?rq (before_try locked_once ?rq i 0)))"
      "\<forall>j<i. \<not> is_final (try_verdict locked_once ?rq 3 j 0)"
      "is_final (try_verdict locked_once ?rq 3 i 0) \<or> Suc i = 3"
    using request_is_first_final [of 3 "''/version''" "''GET''" "[]" "[]" locked_once 0]
    by (auto simp: starts_with_def)
  have v: "\<not> is_final (try_verdict locked_once ?rq 3 0 0)"
      "try_verdict locked_once ?rq 3 1 0 = Final (Inr (JStr ''8.4''))"
    by (code_simp)+
  have "i \<noteq> 0" using v(1) i(4) by (cases "i = 0") auto
  moreover have "\<not> 1 < i" using v(2) i(3) by auto
  ultimately have "i = 1" by simp
  with i(2) v(2) show ?thesis by (simp add: locked_once_def sim_env_def)
qed

end
