(* ===== verification/Proxmox_Provider.thy ===== *)
theory Proxmox_Provider
  imports Proxmox_Client "HOL-Library.List_Lexorder" "HOL-Library.Char_ord"
begin

text \<open>
  \<open>broker/app/providers/proxmox/provider.py\<close>: the hypervisor interface over the Proxmox VE API.
  A field of an answer that is not of the type its dataclass names is kept as its text;
  where the code computes with the field, it raises as Python does.
\<close>

section \<open>Answers\<close>

text \<open>\<open>isinstance(raw, list)\<close> or the empty list, \<open>isinstance(raw, dict)\<close> or the empty one.\<close>

fun list_or_empty :: "jval \<Rightarrow> jval list" where
  "list_or_empty (JList vs) = vs"
| "list_or_empty _ = []"

fun dict_or_empty :: "jval \<Rightarrow> (string \<times> jval) list" where
  "dict_or_empty (JObj kvs) = kvs"
| "dict_or_empty _ = []"

text \<open>What \<open>for x in v\<close> meets of dictionaries: characters and keys are none.\<close>

fun dicts_in :: "jval \<Rightarrow> exn + (string \<times> jval) list list" where
  "dicts_in (JList vs) = Inr (map dict_or_empty (filter is_jobj vs))"
| "dicts_in (JStr _) = Inr []"
| "dicts_in (JObj _) = Inr []"
| "dicts_in _ = Inl (PyTypeError ''object is not iterable'')"

text \<open>\<open>int(d.get(k, 0) or 0)\<close>.\<close>

definition int_field :: "(string \<times> jval) list \<Rightarrow> string \<Rightarrow> exn + int" where
  "int_field kvs k = (let v = get_or kvs k (JInt 0) in py_int (if j_truthy v then v else JInt 0))"

text \<open>\<open>d.get(k, "") or ""\<close>, of which a string method is called.\<close>

definition str_field :: "(string \<times> jval) list \<Rightarrow> string \<Rightarrow> exn + string" where
  "str_field kvs k = (case get_or kvs k (JStr []) of
       JStr s \<Rightarrow> Inr s
     | v \<Rightarrow> if j_truthy v then Inl (PyAttributeError k) else Inr [])"

definition text_field :: "'w px \<Rightarrow> (string \<times> jval) list \<Rightarrow> string \<Rightarrow> string" where
  "text_field X kvs k = text_of X (get_or kvs k (JStr []))"

definition opt_text_field :: "'w px \<Rightarrow> (string \<times> jval) list \<Rightarrow> string \<Rightarrow> string option" where
  "opt_text_field X kvs k = (case get_or kvs k JNull of JNull \<Rightarrow> None | v \<Rightarrow> Some (text_of X v))"

definition some_text_field :: "'w px \<Rightarrow> (string \<times> jval) list \<Rightarrow> string \<Rightarrow> string option" where
  "some_text_field X kvs k = (if j_truthy (get_or kvs k JNull) then opt_text_field X kvs k else None)"

definition node_info_from_dict :: "'w px \<Rightarrow> jval \<Rightarrow> ('w, node_info) pxm" where
  "node_info_from_dict X d = bnd (as_dict d) (\<lambda>kvs.
     bnd (lift_result (int_field kvs ''maxcpu'')) (\<lambda>cores.
     bnd (lift_result (int_field kvs ''maxmem'')) (\<lambda>mem.
     ret \<lparr>n_node = text_field X kvs ''node'', n_display_name = text_field X kvs ''node'',
       n_status = (if get_or kvs ''status'' (JStr []) = JStr ''online'' then ''online'' else ''offline''),
       n_cpu_cores = cores, n_memory_bytes = mem\<rparr>)))"

text \<open>\<open>frozenset(p.strip() for p in s.split(sep) if p.strip())\<close>, as a list without repetition.\<close>

definition pieces :: "char \<Rightarrow> string \<Rightarrow> string list" where
  "pieces sep s = remdups (filter (\<lambda>p. p \<noteq> []) (map py_strip (split_on sep s)))"

definition storage_info_from_dict :: "'w px \<Rightarrow> jval \<Rightarrow> ('w, storage_info) pxm" where
  "storage_info_from_dict X d = bnd (as_dict d) (\<lambda>kvs.
     bnd (lift_result (str_field kvs ''content'')) (\<lambda>content.
     bnd (lift_result (int_field kvs ''shared'')) (\<lambda>shared.
     bnd (lift_result (int_field kvs ''total'')) (\<lambda>total.
     bnd (lift_result (int_field kvs ''used'')) (\<lambda>used.
     ret \<lparr>so_name = text_field X kvs ''storage'', so_storage_type = text_field X kvs ''type'',
       so_shared = (shared \<noteq> 0), so_total_bytes = total, so_used_bytes = used,
       so_content_types = pieces (CHR '','') content\<rparr>)))))"

definition normalize_power_state :: "jval \<Rightarrow> string" where
  "normalize_power_state v = (case v of
       JStr s \<Rightarrow> if s \<in> {''running'', ''stopped'', ''paused''} then s else ''unknown''
     | _ \<Rightarrow> ''unknown'')"

definition vm_status_from_dict :: "'w px \<Rightarrow> vm_ref \<Rightarrow> (string \<times> jval) list \<Rightarrow> ('w, vm_status) pxm" where
  "vm_status_from_dict X ref kvs =
     bnd (lift_result (str_field kvs ''tags'')) (\<lambda>tags.
     bnd (lift_result (int_field kvs ''cpus'')) (\<lambda>cpus.
     bnd (lift_result (int_field kvs ''maxmem'')) (\<lambda>mem.
     bnd (lift_result (int_field kvs ''maxdisk'')) (\<lambda>disk.
     bnd (lift_result (int_field kvs ''uptime'')) (\<lambda>uptime.
     ret \<lparr>v_ref = ref, v_name = text_field X kvs ''name'',
       v_power_state = normalize_power_state (get_or kvs ''status'' JNull),
       v_cpu_cores = cpus, v_memory_bytes = mem, v_disk_bytes = disk, v_uptime_seconds = uptime,
       v_is_template = j_truthy (get_or kvs ''template'' (JInt 0)),
       v_guest_agent_configured = j_truthy (get_or kvs ''agent'' (JInt 0)),
       v_lock = opt_text_field X kvs ''lock'', v_tags = set (pieces (CHR '';'') tags)\<rparr>)))))"

record snapshot_info =
  sn_name :: string
  sn_description :: "string option"
  sn_created_at :: "int option"
  sn_parent :: "string option"
  sn_includes_ram :: bool

definition opt_int_field :: "(string \<times> jval) list \<Rightarrow> string \<Rightarrow> exn + int option" where
  "opt_int_field kvs k = (case get_or kvs k JNull of JNull \<Rightarrow> Inr None | v \<Rightarrow> map_sum id Some (py_int v))"

definition snapshot_info_from_dict :: "'w px \<Rightarrow> (string \<times> jval) list \<Rightarrow> ('w, snapshot_info) pxm" where
  "snapshot_info_from_dict X kvs =
     bnd (lift_result (opt_int_field kvs ''snaptime'')) (\<lambda>at.
     ret \<lparr>sn_name = text_field X kvs ''name'', sn_description = some_text_field X kvs ''description'',
       sn_created_at = at, sn_parent = some_text_field X kvs ''parent'',
       sn_includes_ram = j_truthy (get_or kvs ''vmstate'' (JInt 0))\<rparr>)"

section \<open>Liveness and placement\<close>

fun is_auth_error :: "exn \<Rightarrow> bool" where
  "is_auth_error (ProviderError k _ _) = (k = ProviderAuthError)"
| "is_auth_error _ = False"

fun is_lock_error :: "exn \<Rightarrow> bool" where
  "is_lock_error (ProviderError k _ _) = (k = ProviderLockError)"
| "is_lock_error _ = False"

text \<open>\<open>except ProviderAuthError: raise / except ProviderError: return False\<close>.\<close>

definition or_false :: "('w, 'a) pxm \<Rightarrow> ('w, bool) pxm" where
  "or_false m = catching (\<lambda>e. is_provider_error e \<and> \<not> is_auth_error e)
     (bnd m (\<lambda>_. ret True)) (\<lambda>_. ret False)"

definition ping :: "'w px \<Rightarrow> ('w, bool) pxm" where
  "ping X = or_false (request X ''GET'' ''/version'' [] [])"

definition list_nodes :: "'w px \<Rightarrow> ('w, node_info list) pxm" where
  "list_nodes X = bnd (request X ''GET'' ''/nodes'' [] []) (\<lambda>raw.
     map_eff (node_info_from_dict X) (list_or_empty raw))"

definition list_storage :: "'w px \<Rightarrow> string \<Rightarrow> ('w, storage_info list) pxm" where
  "list_storage X node = bnd (request X ''GET'' (''/nodes/'' @ node @ ''/storage'') [] []) (\<lambda>raw.
     map_eff (storage_info_from_dict X) (list_or_empty raw))"

section \<open>VMs\<close>

definition vm_path :: "'w px \<Rightarrow> jval \<Rightarrow> int \<Rightarrow> string \<Rightarrow> string" where
  "vm_path X node vmid rest = ''/nodes/'' @ text_of X node @ ''/qemu/'' @ show_int vmid @ rest"

text \<open>The operations that start a task share this shape.\<close>

definition task_request ::
    "'w px \<Rightarrow> vm_ref \<Rightarrow> string \<Rightarrow> string \<Rightarrow> (string \<times> jval) list \<Rightarrow> ('w, task_handle) pxm" where
  "task_request X ref verb rest body = bnd (lift_result (unpack_vm_ref ref)) (\<lambda>(node, vmid).
     bnd (request X verb (vm_path X node vmid rest) [] body) (\<lambda>upid.
     ret (make_task_handle node upid)))"

definition start_vm :: "'w px \<Rightarrow> vm_ref \<Rightarrow> ('w, task_handle) pxm" where
  "start_vm X ref = task_request X ref ''POST'' ''/status/start'' []"

definition stop_vm :: "'w px \<Rightarrow> vm_ref \<Rightarrow> ('w, task_handle) pxm" where
  "stop_vm X ref = task_request X ref ''POST'' ''/status/stop'' []"

definition shutdown_vm :: "'w px \<Rightarrow> vm_ref \<Rightarrow> int \<Rightarrow> bool \<Rightarrow> ('w, task_handle) pxm" where
  "shutdown_vm X ref timeout force = task_request X ref ''POST'' ''/status/shutdown''
     [(''timeout'', JInt timeout), (''force_stop'', JInt (if force then 1 else 0))]"

definition reboot_vm :: "'w px \<Rightarrow> vm_ref \<Rightarrow> ('w, task_handle) pxm" where
  "reboot_vm X ref = task_request X ref ''POST'' ''/status/reboot'' []"

definition get_vm_status :: "'w px \<Rightarrow> vm_ref \<Rightarrow> ('w, vm_status) pxm" where
  "get_vm_status X ref = bnd (lift_result (unpack_vm_ref ref)) (\<lambda>(node, vmid).
     bnd (request X ''GET'' (vm_path X node vmid ''/status/current'') [] []) (\<lambda>raw.
     vm_status_from_dict X ref (dict_or_empty raw)))"

definition list_vms_on_node :: "'w px \<Rightarrow> string \<Rightarrow> ('w, vm_status list) pxm" where
  "list_vms_on_node X node =
     bnd (request X ''GET'' (''/nodes/'' @ node @ ''/qemu'') [(''full'', JInt 1)] []) (\<lambda>raw.
     map_eff (\<lambda>d. bnd (lift_result (py_int (get_or (dict_or_empty d) ''vmid'' (JInt 0)))) (\<lambda>vmid.
         vm_status_from_dict X (mk_ref ''proxmox'' node vmid) (dict_or_empty d)))
       (filter is_jobj (list_or_empty raw)))"

definition list_vms :: "'w px \<Rightarrow> string option \<Rightarrow> ('w, vm_status list) pxm" where
  "list_vms X node = (case node of
       Some n \<Rightarrow> list_vms_on_node X n
     | None \<Rightarrow> bnd (list_nodes X) (\<lambda>ns.
         bnd (map_eff (\<lambda>n. if n_status n \<noteq> ''online'' then ret []
             else catching is_provider_error (list_vms_on_node X (n_node n)) (\<lambda>_. ret [])) ns)
           (\<lambda>vss. ret (concat vss))))"

definition j_opt :: "string option \<Rightarrow> jval" where
  "j_opt s = (case s of None \<Rightarrow> JNull | Some x \<Rightarrow> JStr x)"

definition text_or :: "string option \<Rightarrow> jval \<Rightarrow> jval" where
  "text_or s v = (case s of Some (c # cs) \<Rightarrow> JStr (c # cs) | _ \<Rightarrow> v)"

definition clone_body :: "clone_request \<Rightarrow> int \<Rightarrow> bool \<Rightarrow> (string \<times> jval) list" where
  "clone_body req newid source_is_template =
     [(''newid'', JInt newid), (''name'', JStr (cr_new_name req)), (''pool'', j_opt (cr_target_pool req)),
      (''target_node'', j_opt (cr_target_node req)), (''description'', j_opt (cr_description req))]
     @ (if text_or (cr_target_storage req) JNull \<noteq> JNull \<and> \<not> source_is_template
        then [(''storage'', j_opt (cr_target_storage req))] else [])"

definition capability_error :: "string \<Rightarrow> exn" where
  "capability_error m = ProviderError ProviderCapabilityError ''proxmox'' m"

definition clone_vm :: "'w px \<Rightarrow> clone_request \<Rightarrow> ('w, task_handle) pxm" where
  "clone_vm X req = bnd (lift_result (unpack_vm_ref (cr_source_ref req))) (\<lambda>(node, vmid).
     bnd (if j_truthy (cr_provider_opts req) then as_dict (cr_provider_opts req) else ret []) (\<lambda>opts.
     if get_or opts ''newid'' JNull = JNull
     then throw (capability_error
       ''Proxmox requires a destination VMID via CloneRequest.provider_opts['newid']'')
     else bnd (get_vm_status X (cr_source_ref req)) (\<lambda>source.
       if \<not> v_is_template source
       then throw (capability_error (''clone_vm requires a template source; VM '' @ show_int vmid
         @ '' on node '' @ text_of X node @ '' is not a template''))
       else bnd (lift_result (py_int (get_or opts ''newid'' JNull))) (\<lambda>newid.
         bnd (request X ''POST'' (vm_path X node vmid ''/clone'') []
           (clone_body req newid (v_is_template source))) (\<lambda>upid.
         ret (make_task_handle (text_or (cr_target_node req) node) upid))))))"

text \<open>Three attempts, with 5 and 10 seconds between them, while the VM is locked.\<close>

primrec destroy_attempts ::
    "'w px \<Rightarrow> jval \<Rightarrow> string \<Rightarrow> (string \<times> jval) list \<Rightarrow> nat \<Rightarrow> ('w, task_handle) pxm" where
  "destroy_attempts X node path params 0 = throw (RuntimeErr ''AssertionError'')"
| "destroy_attempts X node path params (Suc left) = catching is_lock_error
     (bnd (request X ''DELETE'' path params []) (\<lambda>upid. ret (make_task_handle node upid)))
     (\<lambda>e. if left = 0 then throw e
        else andthen (pause X (5000 * 2 ^ (3 - Suc left))) (destroy_attempts X node path params left))"

definition destroy_vm :: "'w px \<Rightarrow> vm_ref \<Rightarrow> bool \<Rightarrow> ('w, task_handle) pxm" where
  "destroy_vm X ref purge = bnd (lift_result (unpack_vm_ref ref)) (\<lambda>(node, vmid).
     destroy_attempts X node (vm_path X node vmid [])
       [(''purge'', JInt (if purge then 1 else 0))] 3)"

definition join_with :: "string \<Rightarrow> string list \<Rightarrow> string" where
  "join_with sep ss = (case ss of [] \<Rightarrow> [] | x # xs \<Rightarrow> x @ concat (map (\<lambda>y. sep @ y) xs))"

definition config_body :: "vm_config \<Rightarrow> (string \<times> jval) list" where
  "config_body c =
     (let set_opt = (\<lambda>k v. case v of None \<Rightarrow> [] | Some x \<Rightarrow> [(k, x)]) in
      fold (\<lambda>(k, v) out. if v = JNull then out else AList.update k v out)
        (case vc_provider_opts c of None \<Rightarrow> [] | Some kvs \<Rightarrow> kvs)
        (set_opt ''name'' (map_option JStr (vc_name c))
         @ set_opt ''cores'' (map_option JInt (vc_cpu_cores c))
         @ set_opt ''memory'' (map_option JInt (vc_memory_mb c))
         @ set_opt ''description'' (map_option JStr (vc_description c))
         @ set_opt ''tags'' (map_option (\<lambda>ts. JStr (join_with '';'' (sorted_list_of_set ts))) (vc_tags c))))"

definition configure_vm :: "'w px \<Rightarrow> vm_ref \<Rightarrow> vm_config \<Rightarrow> ('w, task_handle option) pxm" where
  "configure_vm X ref c = bnd (task_request X ref ''POST'' ''/config'' (config_body c)) (\<lambda>h. ret (Some h))"

section \<open>Snapshots\<close>

definition create_snapshot ::
    "'w px \<Rightarrow> vm_ref \<Rightarrow> string \<Rightarrow> string option \<Rightarrow> bool \<Rightarrow> ('w, task_handle) pxm" where
  "create_snapshot X ref name description include_ram = task_request X ref ''POST'' ''/snapshot''
     ([(''snapname'', JStr name), (''vmstate'', JInt (if include_ram then 1 else 0))]
      @ (case description of None \<Rightarrow> [] | Some d \<Rightarrow> [(''description'', JStr d)]))"

definition rollback_snapshot :: "'w px \<Rightarrow> vm_ref \<Rightarrow> string \<Rightarrow> ('w, task_handle) pxm" where
  "rollback_snapshot X ref name =
     task_request X ref ''POST'' (''/snapshot/'' @ url_quote name @ ''/rollback'') []"

definition list_snapshots :: "'w px \<Rightarrow> vm_ref \<Rightarrow> ('w, snapshot_info list) pxm" where
  "list_snapshots X ref = bnd (lift_result (unpack_vm_ref ref)) (\<lambda>(node, vmid).
     bnd (request X ''GET'' (vm_path X node vmid ''/snapshot'') [] []) (\<lambda>raw.
     map_eff (\<lambda>d. snapshot_info_from_dict X (dict_or_empty d)) (filter is_jobj (list_or_empty raw))))"

definition delete_snapshot :: "'w px \<Rightarrow> vm_ref \<Rightarrow> string \<Rightarrow> ('w, task_handle) pxm" where
  "delete_snapshot X ref name = task_request X ref ''DELETE'' (''/snapshot/'' @ url_quote name) []"

section \<open>Guest agent\<close>

definition agent_ping :: "'w px \<Rightarrow> vm_ref \<Rightarrow> ('w, bool) pxm" where
  "agent_ping X ref = bnd (lift_result (unpack_vm_ref ref)) (\<lambda>(node, vmid).
     or_false (request_tries X 1 ''POST'' (vm_path X node vmid ''/agent/ping'') [] []))"

definition guest_user_from_dict :: "'w px \<Rightarrow> (string \<times> jval) list \<Rightarrow> ('w, guest_user) pxm" where
  "guest_user_from_dict X kvs = bnd (lift_result (opt_int_field kvs ''login-time'')) (\<lambda>at.
     ret \<lparr>g_username = text_field X kvs ''user'', g_login_time = at,
       g_domain = opt_text_field X kvs ''domain''\<rparr>)"

definition agent_get_users :: "'w px \<Rightarrow> vm_ref \<Rightarrow> ('w, guest_user list) pxm" where
  "agent_get_users X ref = bnd (lift_result (unpack_vm_ref ref)) (\<lambda>(node, vmid).
     bnd (request X ''GET'' (vm_path X node vmid ''/agent/get-users'') [] []) (\<lambda>resp.
     bnd (lift_result (dicts_in (get_or (dict_or_empty resp) ''result'' (JList [])))) (\<lambda>us.
     map_eff (guest_user_from_dict X) us)))"

record os_info =
  oi_name :: string
  oi_version :: string
  oi_kernel_release :: "string option"
  oi_architecture :: "string option"

definition agent_get_osinfo :: "'w px \<Rightarrow> vm_ref \<Rightarrow> ('w, os_info) pxm" where
  "agent_get_osinfo X ref = bnd (lift_result (unpack_vm_ref ref)) (\<lambda>(node, vmid).
     bnd (request X ''GET'' (vm_path X node vmid ''/agent/get-osinfo'') [] []) (\<lambda>resp.
     let r = dict_or_empty (get_or (dict_or_empty resp) ''result'' (JObj [])) in
     ret \<lparr>oi_name = (if j_truthy (get_or r ''name'' JNull) then text_field X r ''name''
            else text_field X r ''pretty-name''),
       oi_version = (if j_truthy (get_or r ''version-id'' JNull) then text_field X r ''version-id''
            else text_field X r ''version''),
       oi_kernel_release = opt_text_field X r ''kernel-release'',
       oi_architecture = opt_text_field X r ''machine''\<rparr>))"

text \<open>One address: skipped when absent or empty; only a string has \<open>startswith\<close>.\<close>

fun address_of :: "(string \<times> jval) list \<Rightarrow> exn + string option" where
  "address_of kvs = (case get_or kvs ''ip-address'' JNull of
       JStr s \<Rightarrow> Inr (if s = [] then None else Some s)
     | v \<Rightarrow> if j_truthy v then Inl (PyAttributeError ''startswith'') else Inr None)"

definition is_operational :: "string \<Rightarrow> bool" where
  "is_operational a \<longleftrightarrow> a \<notin> {''127.0.0.1'', ''::1''} \<and> \<not> starts_with a ''169.254.''
     \<and> \<not> starts_with (py_lower a) ''fe80:''"

definition interface_from_dict :: "'w px \<Rightarrow> (string \<times> jval) list \<Rightarrow> ('w, network_interface) pxm" where
  "interface_from_dict X kvs =
     (let raw = get_or kvs ''ip-addresses'' JNull in
      bnd (lift_result (if j_truthy raw then dicts_in raw else Inr [])) (\<lambda>entries.
      bnd (map_eff (\<lambda>e. lift_result (address_of e)) entries) (\<lambda>found.
      bnd (lift_result (str_field kvs ''hardware-address'')) (\<lambda>mac.
      let ips = concat (map (\<lambda>a. case a of None \<Rightarrow> [] | Some x \<Rightarrow> [x]) found) in
      ret \<lparr>i_name = text_field X kvs ''name'',
        i_mac_address = (if mac = [] then None else Some (py_lower mac)),
        i_ip_addresses = ips, i_is_up = list_ex is_operational ips\<rparr>))))"

definition agent_get_network :: "'w px \<Rightarrow> vm_ref \<Rightarrow> ('w, network_interface list) pxm" where
  "agent_get_network X ref = bnd (lift_result (unpack_vm_ref ref)) (\<lambda>(node, vmid).
     bnd (request X ''GET'' (vm_path X node vmid ''/agent/network-get-interfaces'') [] []) (\<lambda>resp.
     map_eff (\<lambda>d. interface_from_dict X (dict_or_empty d))
       (filter is_jobj (list_or_empty (get_or (dict_or_empty resp) ''result'' (JList []))))))"

text \<open>\<open>base64.b64encode\<close> of bytes, and \<open>b64decode\<close>, which skips what is not of the alphabet.\<close>

definition b64_symbol :: "nat \<Rightarrow> char" where
  "b64_symbol n = (if n < 26 then char_of (65 + n) else if n < 52 then char_of (97 + (n - 26))
     else if n < 62 then char_of (48 + (n - 52)) else if n = 62 then CHR ''+'' else CHR ''/'')"

fun b64_encode :: "nat list \<Rightarrow> string" where
  "b64_encode [] = []"
| "b64_encode [a] = [b64_symbol (a div 4), b64_symbol (a mod 4 * 16), CHR ''='', CHR ''='']"
| "b64_encode [a, b] = [b64_symbol (a div 4), b64_symbol (a mod 4 * 16 + b div 16),
     b64_symbol (b mod 16 * 4), CHR ''='']"
| "b64_encode (a # b # c # rest) = b64_symbol (a div 4) # b64_symbol (a mod 4 * 16 + b div 16)
     # b64_symbol (b mod 16 * 4 + c div 64) # b64_symbol (c mod 64) # b64_encode rest"

definition b64_value :: "char \<Rightarrow> nat option" where
  "b64_value c = (let n = of_char c :: nat in
     if 65 \<le> n \<and> n \<le> 90 then Some (n - 65) else if 97 \<le> n \<and> n \<le> 122 then Some (n - 71)
     else if 48 \<le> n \<and> n \<le> 57 then Some (n + 4) else if n = 43 then Some 62
     else if n = 47 then Some 63 else None)"

text \<open>The position in the group of four, the bits left over and the run of \<open>=\<close> so far.\<close>

fun b64_decode_from :: "nat \<Rightarrow> nat \<Rightarrow> nat \<Rightarrow> string \<Rightarrow> nat list option" where
  "b64_decode_from pos left pads [] = (if pos = 0 then Some [] else None)"
| "b64_decode_from pos left pads (c # s) =
     (if c = CHR ''='' then
        (if 2 \<le> pos \<and> 4 \<le> pos + Suc pads then Some []
         else b64_decode_from pos left (if 2 \<le> pos then Suc pads else pads) s)
      else (case b64_value c of None \<Rightarrow> b64_decode_from pos left pads s
        | Some v \<Rightarrow>
            if pos = 0 then b64_decode_from 1 v 0 s
            else map_option (Cons (if pos = 1 then left * 4 + v div 16
                else if pos = 2 then left * 16 + v div 4 else left * 64 + v))
              (b64_decode_from (if pos = 3 then 0 else Suc pos)
                (if pos = 1 then v mod 16 else if pos = 2 then v mod 4 else 0) 0 s)))"

definition b64_decode :: "string \<Rightarrow> nat list option" where
  "b64_decode s = (if list_all (\<lambda>c. (of_char c :: nat) < 128) s then b64_decode_from 0 0 0 s else None)"

text \<open>\<open>utf8\<close>: \<open>bytes.decode("utf-8", errors="replace")\<close>.\<close>

definition decode_b64 :: "(nat list \<Rightarrow> string) \<Rightarrow> jval \<Rightarrow> string" where
  "decode_b64 utf8 v = (case v of
       JStr s \<Rightarrow> if s = [] then [] else (case b64_decode s of None \<Rightarrow> [] | Some bytes \<Rightarrow> utf8 bytes)
     | _ \<Rightarrow> [])"

definition agent_exec :: "'w px \<Rightarrow> vm_ref \<Rightarrow> string list \<Rightarrow> string option \<Rightarrow> ('w, int) pxm" where
  "agent_exec X ref command input = bnd (lift_result (unpack_vm_ref ref)) (\<lambda>(node, vmid).
     bnd (request X ''POST'' (vm_path X node vmid ''/agent/exec'') []
       ([(''command'', JList (map JStr command))] @ (case input of None \<Rightarrow> []
          | Some s \<Rightarrow> [(''input_data'', JStr (b64_encode (concat (map utf8_bytes s))))]))) (\<lambda>resp.
     case map_of (dict_or_empty resp) ''pid'' of
       None \<Rightarrow> throw (ProviderError PlainProviderError ''proxmox''
         (''agent/exec returned unexpected payload: '' @ px_repr X resp))
     | Some pid \<Rightarrow> lift_result (py_int pid)))"

record exec_status =
  es_exited :: bool
  es_exit_code :: "int option"
  es_stdout :: string
  es_stderr :: string

definition agent_exec_status ::
    "'w px \<Rightarrow> (nat list \<Rightarrow> string) \<Rightarrow> vm_ref \<Rightarrow> int \<Rightarrow> ('w, exec_status) pxm" where
  "agent_exec_status X utf8 ref pid = bnd (lift_result (unpack_vm_ref ref)) (\<lambda>(node, vmid).
     bnd (request X ''GET'' (vm_path X node vmid ''/agent/exec-status'') [(''pid'', JInt pid)] []) (\<lambda>resp.
     let r = dict_or_empty resp; exited = j_truthy (get_or r ''exited'' (JBool False)) in
     bnd (lift_result (if exited then opt_int_field r ''exitcode'' else Inr None)) (\<lambda>code.
     ret \<lparr>es_exited = exited, es_exit_code = code,
       es_stdout = decode_b64 utf8 (get_or r ''out-data'' JNull),
       es_stderr = decode_b64 utf8 (get_or r ''err-data'' JNull)\<rparr>)))"

section \<open>Console tickets\<close>

definition require_key :: "(string \<times> jval) list \<Rightarrow> string \<Rightarrow> exn + jval" where
  "require_key kvs k = (case map_of kvs k of None \<Rightarrow> Inl (PyKeyError k) | Some v \<Rightarrow> Inr v)"

definition quote_value :: "jval \<Rightarrow> exn + string" where
  "quote_value v = (case v of JStr s \<Rightarrow> Inr (url_quote s)
     | _ \<Rightarrow> Inl (PyTypeError ''quote_from_bytes() expected bytes''))"

definition websocket_url :: "string \<Rightarrow> string \<Rightarrow> int \<Rightarrow> string \<Rightarrow> string" where
  "websocket_url netloc path port ticket =
     ''wss://'' @ netloc @ ''/api2/json'' @ path @ ''?port='' @ show_int port @ ''&vncticket='' @ ticket"

definition get_novnc_ticket :: "'w px \<Rightarrow> vm_ref \<Rightarrow> ('w, console_ticket) pxm" where
  "get_novnc_ticket X ref = bnd (lift_result (unpack_vm_ref ref)) (\<lambda>(node, vmid).
     bnd (request X ''POST'' (vm_path X node vmid ''/vncproxy'') []
       [(''websocket'', JInt 1), (''generate_password'', JInt 1)]) (\<lambda>resp.
     case resp of
       JObj kvs \<Rightarrow>
         bnd (lift_result (require_key kvs ''port'')) (\<lambda>pv.
         bnd (lift_result (py_int pv)) (\<lambda>port.
         bnd (lift_result (require_key kvs ''ticket'')) (\<lambda>ticket.
         bnd (lift_result (url_netloc (px_api_url X))) (\<lambda>netloc.
         bnd (lift_result (quote_value ticket)) (\<lambda>quoted.
         ret (NoVNCTicket (websocket_url netloc (vm_path X node vmid ''/vncwebsocket'') port quoted)
           (case some_text_field X kvs ''password'' of None \<Rightarrow> [] | Some p \<Rightarrow> p)
           (opt_text_field X kvs ''cert'')))))))
     | _ \<Rightarrow> throw (ProviderError PlainProviderError ''proxmox'' ''vncproxy returned non-dict'')))"

definition get_console_ticket :: "'w px \<Rightarrow> vm_ref \<Rightarrow> console_kind \<Rightarrow> ('w, console_ticket) pxm" where
  "get_console_ticket X ref kind = (case kind of
       NOVNC \<Rightarrow> get_novnc_ticket X ref
     | SPICE \<Rightarrow> throw (capability_error ''SPICE ticket retrieval is stubbed for M1; see docs/providers/proxmox.md'')
     | _ \<Rightarrow> throw (capability_error ''console kind is not supported by the Proxmox provider''))"

section \<open>Tasks\<close>

definition get_task_status :: "'w px \<Rightarrow> task_handle \<Rightarrow> ('w, task_status) pxm" where
  "get_task_status X h = bnd (lift_result (unpack_task_handle h)) (\<lambda>(node, upid).
     bnd (get_task_status_raw X node upid) (\<lambda>raw.
     ret (if get_or raw ''status'' JNull = JStr ''running''
          then \<lparr>ts_state = ''running'', ts_success = None, ts_error_message = None\<rparr>
          else (case get_or raw ''exitstatus'' JNull of
              JNull \<Rightarrow> \<lparr>ts_state = ''stopped'', ts_success = Some False,
                ts_error_message = Some ''task stopped but exitstatus missing from response''\<rparr>
            | v \<Rightarrow> if v = JStr ''OK''
                then \<lparr>ts_state = ''stopped'', ts_success = Some True, ts_error_message = None\<rparr>
                else \<lparr>ts_state = ''stopped'', ts_success = Some False,
                  ts_error_message = Some (text_of X v)\<rparr>))))"

definition clock :: "'w px \<Rightarrow> ('w, int) pxm" where
  "clock X = reads (e_mono (px_env X))"

text \<open>\<open>while True\<close>, with a number of rounds; times in milliseconds.\<close>

primrec wait_rounds :: "'w px \<Rightarrow> task_handle \<Rightarrow> int \<Rightarrow> int \<Rightarrow> int \<Rightarrow> nat \<Rightarrow> ('w, task_status) pxm" where
  "wait_rounds X h start timeout poll 0 = throw OutOfFuel"
| "wait_rounds X h start timeout poll (Suc n) =
     bnd (get_task_status X h) (\<lambda>st.
     if ts_state st = ''stopped''
     then (if ts_success st = Some True then ret st
       else throw (ProviderError ProviderTaskError ''proxmox''
         (case ts_error_message st of Some (c # cs) \<Rightarrow> c # cs | _ \<Rightarrow> ''task failed'')))
     else bnd (clock X) (\<lambda>t.
       if timeout \<le> t - start
       then throw (ProviderError ProviderTimeoutError ''proxmox''
         (''task did not complete within '' @ show_int (timeout div 1000) @ ''s''))
       else andthen (pause X poll) (wait_rounds X h start timeout poll n)))"

definition wait_for_task :: "'w px \<Rightarrow> task_handle option \<Rightarrow> int \<Rightarrow> ('w, task_status) pxm" where
  "wait_for_task X ho timeout = bnd (clock X) (\<lambda>start.
     case ho of
       None \<Rightarrow> throw (PyAttributeError ''provider_type'')
     | Some h \<Rightarrow> wait_rounds X h start (1000 * timeout) 1000 (nat timeout + 2))"

section \<open>The provider\<close>

definition proxmox_provider :: "'w px \<Rightarrow> 'w provider" where
  "proxmox_provider X = \<lparr>pv_type = ''proxmox'', pv_ping = ping X, pv_close = hc_aclose (px_client X),
     pv_list_nodes = list_nodes X, pv_list_storage = list_storage X, pv_clone_vm = clone_vm X,
     pv_start_vm = start_vm X, pv_stop_vm = stop_vm X, pv_shutdown_vm = shutdown_vm X,
     pv_reboot_vm = reboot_vm X, pv_destroy_vm = destroy_vm X, pv_get_vm_status = get_vm_status X,
     pv_list_vms = list_vms X None, pv_configure_vm = configure_vm X,
     pv_create_snapshot = (\<lambda>ref name d. create_snapshot X ref name d False),
     pv_rollback_snapshot = rollback_snapshot X, pv_agent_ping = agent_ping X,
     pv_agent_get_users = agent_get_users X, pv_agent_get_network = agent_get_network X,
     pv_get_console_ticket = get_console_ticket X, pv_get_task_status = get_task_status X,
     pv_wait_for_task = wait_for_task X\<rparr>"

text \<open>\<open>ProxmoxProvider(api_url, token_id, token_secret, verify_ssl)\<close>.\<close>

definition proxmox_class ::
    "(client_config \<Rightarrow> exn + 'w http_client) \<Rightarrow> 'w env \<Rightarrow> (jval \<Rightarrow> string) \<Rightarrow> (jval \<Rightarrow> string) \<Rightarrow>
     string \<Rightarrow> string \<Rightarrow> string \<Rightarrow> bool \<Rightarrow> exn + 'w provider" where
  "proxmox_class open_client E str repr url token_id secret verify =
     map_sum id proxmox_provider (new_client open_client E str repr url token_id secret verify)"

record provider_capabilities =
  pc_provider_type :: string
  pc_linked_clones :: bool
  pc_full_clones :: bool
  pc_snapshots :: bool
  pc_guest_agent :: bool
  pc_live_migration :: bool
  pc_console_kinds :: "console_kind list"
  pc_supports_pool_tags :: bool
  pc_supports_resource_pools :: bool

definition capabilities :: provider_capabilities where
  "capabilities = \<lparr>pc_provider_type = ''proxmox'', pc_linked_clones = True, pc_full_clones = True,
     pc_snapshots = True, pc_guest_agent = True, pc_live_migration = True,
     pc_console_kinds = [NOVNC, SPICE], pc_supports_pool_tags = True, pc_supports_resource_pools = True\<rparr>"

section \<open>Base64\<close>

lemma b64_value_symbol: "n < 64 \<Longrightarrow> b64_value (b64_symbol n) = Some n"
  by (auto simp: b64_value_def b64_symbol_def Let_def)

lemma b64_symbol_not_pad: "n < 64 \<Longrightarrow> b64_symbol n \<noteq> CHR ''=''"
  using b64_value_symbol [of n] by (auto simp: b64_value_def)

lemma b64_step:
  assumes "n < 64"
  shows "b64_decode_from 0 l p (b64_symbol n # s) = b64_decode_from (Suc 0) n 0 s"
    "b64_decode_from (Suc 0) l p (b64_symbol n # s) = map_option (Cons (l * 4 + n div 16)) (b64_decode_from 2 (n mod 16) 0 s)"
    "b64_decode_from 2 l p (b64_symbol n # s) = map_option (Cons (l * 16 + n div 4)) (b64_decode_from 3 (n mod 4) 0 s)"
    "b64_decode_from 3 l p (b64_symbol n # s) = map_option (Cons (l * 64 + n)) (b64_decode_from 0 0 0 s)"
  using assms by (simp_all add: b64_value_symbol b64_symbol_not_pad numeral_2_eq_2 numeral_3_eq_3)

lemma b64_pad: "b64_decode_from 2 l 0 ''=='' = Some []" "b64_decode_from 3 l 0 ''='' = Some []"
  by simp_all

text \<open>What is sent to a command's input is what its decoder reads.\<close>

lemma b64_decode_encode:
  "list_all (\<lambda>b. b < 256) bs \<Longrightarrow> b64_decode_from 0 0 0 (b64_encode bs) = Some bs"
proof (induction bs rule: b64_encode.induct)
  case (2 a)
  have "a div 4 * 4 + a mod 4 * 16 div 16 = a" by simp
  moreover have lt: "a div 4 < 64" "a mod 4 * 16 < 64" using 2 by auto
  ultimately show ?case
    unfolding b64_encode.simps b64_step(1) [OF lt(1)] b64_step(2) [OF lt(2)] by (simp add: b64_pad)
next
  case (3 a b)
  have "a div 4 < 64" "a mod 4 * 16 + b div 16 < 64" "b mod 16 * 4 < 64" using 3 by auto
  moreover have "a div 4 * 4 + (a mod 4 * 16 + b div 16) div 16 = a" using 3 by auto
  moreover have "(a mod 4 * 16 + b div 16) mod 16 * 16 + b mod 16 * 4 div 4 = b" using 3 by auto
  ultimately show ?case by (simp add: b64_step b64_pad del: b64_decode_from.simps(2))
next
  case (4 a b c rest)
  have "a div 4 < 64" "a mod 4 * 16 + b div 16 < 64" "b mod 16 * 4 + c div 64 < 64" "c mod 64 < 64"
    using 4 by auto
  moreover have "a div 4 * 4 + (a mod 4 * 16 + b div 16) div 16 = a" using 4 by auto
  moreover have "(a mod 4 * 16 + b div 16) mod 16 * 16 + (b mod 16 * 4 + c div 64) div 4 = b" using 4 by auto
  moreover have "(b mod 16 * 4 + c div 64) mod 4 * 64 + c mod 64 = c" using 4 by auto
  ultimately show ?case using 4 by (simp add: b64_step del: b64_decode_from.simps(2))
qed simp

end
