(* ===== verification/Proxmox_Contract.thy ===== *)
theory Proxmox_Contract
  imports Proxmox_Provider Provisioner
begin

text \<open>
  The Proxmox provider keeps the contract the broker's components rest on, over any server
  that answers as the Proxmox VE API documents. The locale \<open>hypervisor\<close> is that contract,
  \<open>pve_server\<close> the documented server; the one gives the other.
\<close>

section \<open>The documented API\<close>

fun number_or_null :: "jval \<Rightarrow> bool" where
  "number_or_null JNull = True"
| "number_or_null (JInt _) = True"
| "number_or_null _ = False"

fun text_or_null :: "jval \<Rightarrow> bool" where
  "text_or_null JNull = True"
| "text_or_null (JStr _) = True"
| "text_or_null _ = False"

definition numbers_ok :: "(string \<times> jval) list \<Rightarrow> string list \<Rightarrow> bool" where
  "numbers_ok kvs ks \<longleftrightarrow> list_all (\<lambda>k. number_or_null (get_or kvs k JNull)) ks"

definition text_ok :: "(string \<times> jval) list \<Rightarrow> string \<Rightarrow> bool" where
  "text_ok kvs k \<longleftrightarrow> text_or_null (get_or kvs k JNull)"

definition vm_answer :: "(string \<times> jval) list \<Rightarrow> bool" where
  "vm_answer kvs \<longleftrightarrow> numbers_ok kvs [''cpus'', ''maxmem'', ''maxdisk'', ''uptime''] \<and> text_ok kvs ''tags''"

definition starts_task :: "http_request \<Rightarrow> bool" where
  "starts_task rq \<longleftrightarrow> rq_method rq = ''DELETE'' \<or> rq_method rq = ''POST''
     \<and> list_ex (ends_with (rq_path rq)) [''/clone'', ''/status/start'', ''/status/stop'',
         ''/status/shutdown'', ''/status/reboot'', ''/config'', ''/snapshot'', ''/rollback'']"

definition interface_answer :: "(string \<times> jval) list \<Rightarrow> bool" where
  "interface_answer kvs \<longleftrightarrow> text_ok kvs ''hardware-address''
     \<and> (case get_or kvs ''ip-addresses'' JNull of
          JNull \<Rightarrow> True
        | JList es \<Rightarrow> list_all (\<lambda>e. text_ok (dict_or_empty e) ''ip-address'') es
        | _ \<Rightarrow> False)"

text \<open>The \<open>data\<close> of a successful answer, by the request; what the code never reads is free.\<close>

definition documented :: "http_request \<Rightarrow> jval \<Rightarrow> bool" where
  "documented rq v \<longleftrightarrow>
     (starts_task rq \<longrightarrow> (\<exists>upid. v = JStr upid))
     \<and> (ends_with (rq_path rq) ''/status/current'' \<longrightarrow> vm_answer (dict_or_empty v))
     \<and> (rq_path rq = ''/nodes'' \<longrightarrow> list_all (\<lambda>d. is_jobj d
          \<and> numbers_ok (dict_or_empty d) [''maxcpu'', ''maxmem'']) (list_or_empty v))
     \<and> (ends_with (rq_path rq) ''/qemu'' \<longrightarrow> list_all (\<lambda>d. vm_answer (dict_or_empty d)
          \<and> (\<exists>i. get_or (dict_or_empty d) ''vmid'' (JInt 0) = JInt i)) (list_or_empty v))
     \<and> (ends_with (rq_path rq) ''/agent/get-users'' \<longrightarrow>
          (\<exists>us. get_or (dict_or_empty v) ''result'' (JList []) = JList us
             \<and> list_all (\<lambda>u. numbers_ok (dict_or_empty u) [''login-time'']) us))
     \<and> (ends_with (rq_path rq) ''/agent/network-get-interfaces'' \<longrightarrow>
          list_all (\<lambda>d. interface_answer (dict_or_empty d))
            (list_or_empty (get_or (dict_or_empty v) ''result'' (JList []))))
     \<and> (rq_method rq = ''POST'' \<and> ends_with (rq_path rq) ''/vncproxy'' \<longrightarrow>
          (\<exists>kvs p i t. v = JObj kvs \<and> map_of kvs ''port'' = Some p \<and> py_int p = Inr i
             \<and> map_of kvs ''ticket'' = Some (JStr t)))"

text \<open>
  The connection: the transport raises only \<open>httpx\<close> errors, a sleep lasts at least as long as
  asked and no request turns the monotonic clock back, and the cluster's URL has an
  authority. The server: a 2xx answer is an envelope with documented data.
\<close>

definition pve_link :: "'w px \<Rightarrow> bool" where
  "pve_link X \<longleftrightarrow> (\<forall>rq w e. fst (hc_send (px_client X) rq w) \<noteq> Inl (TransportOther e))
     \<and> (\<forall>t w. 0 \<le> t \<longrightarrow> e_mono (px_env X) w + t \<le> e_mono (px_env X) (e_sleep (px_env X) t w))
     \<and> (\<forall>rq w. e_mono (px_env X) w \<le> e_mono (px_env X) (snd (hc_send (px_client X) rq w)))
     \<and> (\<exists>n. url_netloc (px_api_url X) = Inr n)"

definition pve_documented :: "'w px \<Rightarrow> bool" where
  "pve_documented X \<longleftrightarrow> (\<forall>rq w r. fst (hc_send (px_client X) rq w) = Inr r
     \<and> 200 \<le> rp_status r \<and> rp_status r < 300 \<longrightarrow> rp_content r
     \<and> (\<exists>kvs v. rp_json r = Some (JObj kvs) \<and> map_of kvs ''data'' = Some v \<and> documented rq v))"

text \<open>The same for the answers only the operations outside the broker's own use read.\<close>

definition documented_read :: "http_request \<Rightarrow> jval \<Rightarrow> bool" where
  "documented_read rq v \<longleftrightarrow>
     (ends_with (rq_path rq) ''/storage'' \<longrightarrow> list_all (\<lambda>d. is_jobj d \<and> text_ok (dict_or_empty d) ''content''
          \<and> numbers_ok (dict_or_empty d) [''shared'', ''total'', ''used'']) (list_or_empty v))
     \<and> (rq_method rq = ''GET'' \<and> ends_with (rq_path rq) ''/snapshot'' \<longrightarrow>
          list_all (\<lambda>d. numbers_ok (dict_or_empty d) [''snaptime'']) (list_or_empty v))
     \<and> (ends_with (rq_path rq) ''/agent/exec'' \<longrightarrow>
          (case map_of (dict_or_empty v) ''pid'' of Some (JInt _) \<Rightarrow> True | None \<Rightarrow> True | _ \<Rightarrow> False))
     \<and> (ends_with (rq_path rq) ''/agent/exec-status'' \<longrightarrow> numbers_ok (dict_or_empty v) [''exitcode''])"

definition pve_documented_reads :: "'w px \<Rightarrow> bool" where
  "pve_documented_reads X \<longleftrightarrow> (\<forall>rq w r v kvs. fst (hc_send (px_client X) rq w) = Inr r
     \<and> 200 \<le> rp_status r \<and> rp_status r < 300 \<and> rp_json r = Some (JObj kvs) \<and> map_of kvs ''data'' = Some v
       \<longrightarrow> documented_read rq v)"

section \<open>The contract as an interface\<close>

locale hypervisor =
  fixes P :: "'w provider" and E :: "'w env"
  assumes contract: "provider_contract is_provider_error P"
    and clock: "clock_ok E P"
begin

lemma contract_mono: "(\<And>e. is_provider_error e \<Longrightarrow> C e) \<Longrightarrow> provider_contract C P"
proof -
  assume C: "\<And>e. is_provider_error e \<Longrightarrow> C e"
  have a: "answers is_provider_error f \<Longrightarrow> answers C f" for f :: "'w \<Rightarrow> (exn + 'a) \<times> 'w"
    using C unfolding answers_def by (force split: sum.splits)
  have g: "gives Q is_provider_error f \<Longrightarrow> gives Q C f" for Q and f :: "'w \<Rightarrow> (exn + 'a) \<times> 'w"
    using C unfolding gives_def by (force split: sum.splits)
  show ?thesis
    using contract unfolding provider_contract_def by (blast intro: a g)
qed

lemma kept: "provider_contract provision_caught P" "provider_contract cycle_caught P"
  by (auto intro!: contract_mono simp: provision_caught_def cycle_caught_def)

end

section \<open>Reading documented answers\<close>

lemma ends_with_self [simp]: "ends_with s s"
  by (simp add: ends_with_def starts_with_def)

lemma ends_with_append [intro]: "ends_with b s \<Longrightarrow> ends_with (a @ b) s"
  unfolding ends_with_def starts_with_def rev_append
  by (metis append_take_drop_id length_append le_add1 take_all_iff take_append append.right_neutral diff_is_0_eq take_0)

fun_cases number_or_nullE: "number_or_null v"
fun_cases text_or_nullE: "text_or_null v"

lemma int_field_documented: "numbers_ok kvs ks \<Longrightarrow> k \<in> set ks \<Longrightarrow> \<exists>i. int_field kvs k = Inr i"
  by (auto simp: numbers_ok_def int_field_def get_or_def list_all_iff Let_def split: option.splits
      dest!: bspec elim!: number_or_nullE)

lemma opt_int_field_documented: "numbers_ok kvs ks \<Longrightarrow> k \<in> set ks \<Longrightarrow> \<exists>i. opt_int_field kvs k = Inr i"
  by (auto simp: numbers_ok_def opt_int_field_def list_all_iff dest!: bspec elim!: number_or_nullE)

lemma str_field_documented: "text_ok kvs k \<Longrightarrow> \<exists>s. str_field kvs k = Inr s"
  by (auto simp: text_ok_def str_field_def get_or_def split: option.splits elim!: text_or_nullE)

lemma yields_value: "r = Inr a \<Longrightarrow> yields J R C (f a) \<Longrightarrow> yields J R C (bnd (lift_result r) f)"
  by (simp add: lift_result_def)

lemma yields_vm_status:
  assumes "vm_answer kvs"
  shows "yields J (\<lambda>_. True) C (vm_status_from_dict X ref kvs)"
proof -
  have n: "\<exists>i. int_field kvs k = Inr i" if "k \<in> set [''cpus'', ''maxmem'', ''maxdisk'', ''uptime'']" for k
    using assms that int_field_documented unfolding vm_answer_def by blast
  obtain a b c d where "int_field kvs ''cpus'' = Inr a" "int_field kvs ''maxmem'' = Inr b"
    "int_field kvs ''maxdisk'' = Inr c" "int_field kvs ''uptime'' = Inr d"
    using n [of "''cpus''"] n [of "''maxmem''"] n [of "''maxdisk''"] n [of "''uptime''"] by auto
  moreover from assms obtain t where "str_field kvs ''tags'' = Inr t"
    unfolding vm_answer_def using str_field_documented by blast
  ultimately show ?thesis
    unfolding vm_status_from_dict_def by (intro yields_value yields_ret TrueI)
qed

lemma yields_node_info:
  assumes "is_jobj d" "numbers_ok (dict_or_empty d) [''maxcpu'', ''maxmem'']"
  shows "yields J (\<lambda>_. True) C (node_info_from_dict X d)"
proof -
  from assms(1) obtain kvs where d: "d = JObj kvs" by (cases d) auto
  with assms(2) obtain a b where "int_field kvs ''maxcpu'' = Inr a" "int_field kvs ''maxmem'' = Inr b"
    using int_field_documented [of kvs "[''maxcpu'', ''maxmem'']"] by force
  then show ?thesis
    unfolding node_info_from_dict_def d as_dict_def jval.case bnd_ret
    by (intro yields_value yields_ret TrueI)
qed

lemma yields_guest_user:
  assumes "numbers_ok kvs [''login-time'']"
  shows "yields J (\<lambda>_. True) C (guest_user_from_dict X kvs)"
proof -
  from assms obtain i where "opt_int_field kvs ''login-time'' = Inr i"
    using opt_int_field_documented by fastforce
  then show ?thesis unfolding guest_user_from_dict_def by (intro yields_value yields_ret TrueI)
qed

lemma yields_interface:
  assumes "interface_answer kvs"
  shows "yields J (\<lambda>_. True) C (interface_from_dict X kvs)"
proof -
  let ?raw = "get_or kvs ''ip-addresses'' JNull"
  from assms obtain mac where mac: "str_field kvs ''hardware-address'' = Inr mac"
    unfolding interface_answer_def using str_field_documented by blast
  have address: "\<exists>a. address_of e = Inr a" if "text_ok e ''ip-address''" for e
    using that by (auto simp: text_ok_def elim!: text_or_nullE)
  from assms have raw: "?raw = JNull \<or> (\<exists>es. ?raw = JList es
      \<and> list_all (\<lambda>e. text_ok (dict_or_empty e) ''ip-address'') es)"
    by (auto simp: interface_answer_def split: jval.splits)
  then obtain ds where ds: "(if j_truthy ?raw then dicts_in ?raw else Inr []) = Inr ds"
    "\<forall>e\<in>set ds. text_ok e ''ip-address''"
    by (cases "?raw = JList []") (auto simp: list_all_iff intro: that)
  have "yields J (\<lambda>_. True) C (map_eff (\<lambda>e. lift_result (address_of e)) ds)"
    by (rule yields_map_eff) (use ds(2) address in \<open>fastforce intro: yields_lift\<close>)
  then show ?thesis
    unfolding interface_from_dict_def Let_def ds(1)
    by (intro yields_value [OF refl] yields_bnd yields_value [OF mac] yields_ret TrueI)
qed

section \<open>Requests over a documented server\<close>

definition after :: "'w px \<Rightarrow> int \<Rightarrow> 'w \<Rightarrow> bool" where
  "after X T w \<longleftrightarrow> T \<le> e_mono (px_env X) w"

definition task_given :: "task_handle \<Rightarrow> bool" where
  "task_given h \<longleftrightarrow> (\<exists>node upid. h = mk_task ''proxmox'' node upid)"

lemma task_given_mk [simp]: "task_given (mk_task ''proxmox'' node upid)"
  by (auto simp: task_given_def)

locale pve_server =
  fixes X :: "'w px"
  assumes link: "pve_link X" and api: "pve_documented X"
begin

lemma yields_send:
  "yields (after X T) (\<lambda>res. (\<forall>e. res \<noteq> Inl (TransportOther e)) \<and> (\<forall>r. res = Inr r
      \<and> 200 \<le> rp_status r \<and> rp_status r < 300 \<longrightarrow> (\<exists>v. parse_body X path r = Inr v \<and> documented rq v)))
    is_provider_error (send X rq)"
proof -
  have "\<exists>v. parse_body X path r = Inr v \<and> documented rq v"
    if "hc_send (px_client X) rq w = (Inr r, w')" "200 \<le> rp_status r" "rp_status r < 300" for r w w'
    using api that unfolding pve_documented_def
    by (auto simp: parse_body_def get_or_def dest!: spec [of _ rq] spec [of _ w])
  moreover have "T \<le> e_mono (px_env X) w'" if "hc_send (px_client X) rq w = (res, w')" "after X T w" for res w w'
    using link that unfolding pve_link_def after_def by (metis order_trans snd_conv)
  ultimately show ?thesis
    using link unfolding yields_def pve_link_def
    by (auto simp: wp_def send_def after_def split: prod.splits) (metis fst_conv)
qed

lemma yields_pause: "0 \<le> t \<Longrightarrow> yields (after X T) (\<lambda>_. True) C (pause X t)"
  using link unfolding yields_def pve_link_def
  by (auto simp: pause_def wp_simps after_def) (metis add_increasing2 order_trans)

lemma yields_request_loop:
  "yields (after X T) (documented rq) is_provider_error (request_loop X rq tries left)"
proof (induction left)
  case 0
  then show ?case by (simp add: yields_throw)
next
  case (Suc left)
  have again: "yields (after X T) (documented rq) is_provider_error
      (andthen (pause X (2000 * 2 ^ (tries - Suc left))) (request_loop X rq tries left))"
    using Suc by (intro yields_andthen yields_pause) simp
  show ?case
    unfolding request_loop.simps Let_def
    by (rule yields_bnd [OF yields_send [of T "rq_path rq" rq]])
      (auto intro!: again yields_throw yields_lift split: sum.split transport_error.split)
qed

lemma yields_request:
  assumes "starts_with path ''/''"
  shows "yields (after X T) (documented \<lparr>rq_method = verb, rq_path = path, rq_params = translate_params ps,
      rq_data = translate_params body\<rparr>) is_provider_error (request_tries X tries verb path ps body)"
  using assms yields_request_loop by (simp add: request_tries_def)

abbreviation "pe \<equiv> is_provider_error"

lemma starts_with_slash [simp]: "starts_with (CHR ''/'' # s) ''/''" "starts_with (vm_path X node v rest) ''/''"
  by (simp_all add: starts_with_def vm_path_def)

lemma ends_with_vm_path [intro]: "ends_with rest suf \<Longrightarrow> ends_with (vm_path X node v rest) suf"
  unfolding vm_path_def by (intro ends_with_append)

lemma yields_with_ref:
  "yields J R C (f (JStr node) v) \<Longrightarrow>
   yields J R C (bnd (lift_result (unpack_vm_ref (mk_ref ''proxmox'' node v))) (\<lambda>(node, vmid). f node vmid))"
  by (simp add: lift_result_def)

text \<open>A request whose answer \<open>f\<close> reads, and one that starts a task.\<close>

lemma yields_read:
  assumes "starts_with path ''/''"
    and "\<And>v. documented \<lparr>rq_method = verb, rq_path = path, rq_params = translate_params ps,
      rq_data = translate_params body\<rparr> v \<Longrightarrow> yields (after X T) Q pe (f v)"
  shows "yields (after X T) Q pe (bnd (request_tries X tries verb path ps body) f)"
  by (rule yields_bnd [OF yields_request [OF assms(1)] assms(2)])

lemma yields_task:
  assumes "verb = ''DELETE'' \<or> verb = ''POST'' \<and> list_ex (ends_with rest) [''/clone'', ''/status/start'',
      ''/status/stop'', ''/status/shutdown'', ''/status/reboot'', ''/config'', ''/snapshot'', ''/rollback'']"
  shows "yields (after X T) (\<lambda>h. \<exists>upid. h = mk_task ''proxmox'' node upid) pe
    (bnd (request_tries X tries verb (vm_path X node' v rest) ps body)
       (\<lambda>upid. ret (make_task_handle (JStr node) upid)))"
proof (rule yields_read)
  fix u assume d: "documented \<lparr>rq_method = verb, rq_path = vm_path X node' v rest,
      rq_params = translate_params ps, rq_data = translate_params body\<rparr> u"
  have "starts_task \<lparr>rq_method = verb, rq_path = vm_path X node' v rest,
      rq_params = translate_params ps, rq_data = translate_params body\<rparr>"
    using assms by (auto simp: starts_task_def)
  with d obtain upid where "u = JStr upid" unfolding documented_def by blast
  then show "yields (after X T) (\<lambda>h. \<exists>upid. h = mk_task ''proxmox'' node upid) pe
      (ret (make_task_handle (JStr node) u))"
    by (intro yields_ret) auto
qed simp

lemma yields_task_request:
  assumes "verb = ''DELETE'' \<or> verb = ''POST'' \<and> list_ex (ends_with rest) [''/clone'', ''/status/start'',
      ''/status/stop'', ''/status/shutdown'', ''/status/reboot'', ''/config'', ''/snapshot'', ''/rollback'']"
  shows "yields (after X T) (\<lambda>h. \<exists>upid. h = mk_task ''proxmox'' node upid) pe
    (task_request X (mk_ref ''proxmox'' node v) verb rest body)"
  unfolding task_request_def by (rule yields_with_ref) (rule yields_task [OF assms])

lemmas task_operations = start_vm_def stop_vm_def shutdown_vm_def reboot_vm_def
  create_snapshot_def rollback_snapshot_def

lemma yields_task_operations:
  fixes node and v defines "ref \<equiv> mk_ref ''proxmox'' node v"
  shows "yields (after X T) task_given pe (start_vm X ref)" "yields (after X T) task_given pe (stop_vm X ref)"
    "yields (after X T) task_given pe (shutdown_vm X ref t f)"
    "yields (after X T) task_given pe (reboot_vm X ref)"
    "yields (after X T) task_given pe (create_snapshot X ref n d r)"
    "yields (after X T) task_given pe (rollback_snapshot X ref n)"
    "yields (after X T) (\<lambda>ho. \<exists>h. ho = Some h \<and> task_given h) pe (configure_vm X ref c)"
proof -
  have op: "yields (after X T) task_given pe (task_request X ref ''POST'' rest body)"
    if "list_ex (ends_with rest) [''/clone'', ''/status/start'', ''/status/stop'',
      ''/status/shutdown'', ''/status/reboot'', ''/config'', ''/snapshot'', ''/rollback'']" for rest body
    unfolding ref_def by (rule yields_mono [OF yields_task_request]) (use that in \<open>auto simp: task_given_def\<close>)
  show "yields (after X T) task_given pe (start_vm X ref)" "yields (after X T) task_given pe (stop_vm X ref)"
    "yields (after X T) task_given pe (shutdown_vm X ref t f)" "yields (after X T) task_given pe (reboot_vm X ref)"
    "yields (after X T) task_given pe (create_snapshot X ref n d r)"
    unfolding task_operations by (rule op, simp)+
  have "ends_with (''/snapshot/'' @ url_quote n @ ''/rollback'') ''/rollback''"
    by (intro ends_with_append) simp
  then show "yields (after X T) task_given pe (rollback_snapshot X ref n)"
    unfolding task_operations by (intro op) simp
  have "yields (after X T) task_given pe (task_request X ref ''POST'' ''/config'' (config_body c))"
    by (rule op) simp
  then show "yields (after X T) (\<lambda>ho. \<exists>h. ho = Some h \<and> task_given h) pe (configure_vm X ref c)"
    unfolding configure_vm_def by (rule yields_bnd) (simp add: yields_ret)
qed

lemma yields_destroy_attempts:
  "0 < left \<Longrightarrow> yields (after X T) (\<lambda>h. \<exists>upid. h = mk_task ''proxmox'' node upid) pe
     (destroy_attempts X (JStr node) (vm_path X node' v []) ps left)"
proof (induction left)
  case (Suc left)
  let ?Q = "\<lambda>h. \<exists>upid. h = mk_task ''proxmox'' node upid"
  have "yields (after X T) ?Q pe (bnd (request X ''DELETE'' (vm_path X node' v []) ps [])
      (\<lambda>upid. ret (make_task_handle (JStr node) upid)))"
    by (rule yields_task) simp
  then show ?case
    unfolding destroy_attempts.simps
    by (rule yields_catching [OF yields_mono])
      (use Suc in \<open>auto intro!: yields_throw yields_andthen yields_pause elim: is_lock_error.elims\<close>)
qed simp

lemma yields_destroy_vm:
  "yields (after X T) task_given pe
     (destroy_vm X (mk_ref ''proxmox'' node v) purge)"
  unfolding destroy_vm_def
  by (rule yields_with_ref) (rule yields_mono [OF yields_destroy_attempts], auto simp: task_given_def)

lemma yields_get_vm_status:
  "yields (after X T) (\<lambda>_. True) pe (get_vm_status X (mk_ref ''proxmox'' node v))"
  unfolding get_vm_status_def
proof (intro yields_with_ref yields_read)
  fix raw assume "documented \<lparr>rq_method = ''GET'', rq_path = vm_path X (JStr node) v ''/status/current'',
      rq_params = translate_params [], rq_data = translate_params []\<rparr> raw"
  then have "vm_answer (dict_or_empty raw)" unfolding documented_def by auto
  then show "yields (after X T) (\<lambda>_. True) pe
      (vm_status_from_dict X (mk_ref ''proxmox'' node v) (dict_or_empty raw))"
    by (rule yields_vm_status)
qed simp

lemma yields_clone_vm:
  assumes "cr_source_ref req = mk_ref ''proxmox'' node v" "cr_provider_opts req = JObj [(''newid'', JInt newid)]"
  shows "yields (after X T) task_given pe (clone_vm X req)"
proof -
  have "\<exists>node'. text_or (cr_target_node req) (JStr node) = JStr node'"
    by (simp add: text_or_def split: option.split list.split)
  then obtain node' where n: "text_or (cr_target_node req) (JStr node) = JStr node'" by blast
  have new: "get_or [(''newid'', JInt newid)] ''newid'' JNull = JInt newid" by (simp add: get_or_def)
  show ?thesis
    unfolding clone_vm_def assms
    by (rule yields_with_ref)
      (auto simp: as_dict_def new n lift_result_def capability_error_def
        intro!: yields_bnd [OF yields_get_vm_status] yields_throw
          yields_mono [OF yields_task [where rest = "''/clone''"]])
qed

lemma yields_or_false:
  assumes "starts_with path ''/''"
  shows "yields (after X T) (\<lambda>_. True) is_auth_error (or_false (request_tries X tries verb path ps body))"
  unfolding or_false_def
  by (rule yields_catching [OF yields_mono [OF yields_read [OF assms yields_ret]]])
    (auto intro: yields_ret)

lemma auth_is_provider_error: "is_auth_error e \<Longrightarrow> pe e"
  by (cases e) simp_all

lemma yields_ping: "yields (after X T) (\<lambda>_. True) pe (ping X)"
  unfolding ping_def by (rule yields_mono [OF yields_or_false]) (auto intro: auth_is_provider_error)

lemma yields_agent_ping: "yields (after X T) (\<lambda>_. True) pe (agent_ping X (mk_ref ''proxmox'' node v))"
  unfolding agent_ping_def
  by (rule yields_with_ref) (rule yields_mono [OF yields_or_false], auto intro: auth_is_provider_error)

lemma yields_list_nodes: "yields (after X T) (\<lambda>_. True) pe (list_nodes X)"
  unfolding list_nodes_def
proof (rule yields_read)
  fix raw assume "documented \<lparr>rq_method = ''GET'', rq_path = ''/nodes'',
      rq_params = translate_params [], rq_data = translate_params []\<rparr> raw"
  then have "list_all (\<lambda>d. is_jobj d \<and> numbers_ok (dict_or_empty d) [''maxcpu'', ''maxmem'']) (list_or_empty raw)"
    unfolding documented_def by simp
  then show "yields (after X T) (\<lambda>_. True) pe (map_eff (node_info_from_dict X) (list_or_empty raw))"
    by (intro yields_map_eff yields_node_info) (auto simp: list_all_iff)
qed simp

lemma yields_list_vms_on_node: "yields (after X T) (\<lambda>_. True) pe (list_vms_on_node X node)"
  unfolding list_vms_on_node_def
proof (rule yields_read)
  fix raw assume "documented \<lparr>rq_method = ''GET'', rq_path = ''/nodes/'' @ node @ ''/qemu'',
      rq_params = translate_params [(''full'', JInt 1)], rq_data = translate_params []\<rparr> raw"
  moreover have "ends_with (''/nodes/'' @ node @ ''/qemu'') ''/qemu''" by (intro ends_with_append) simp
  ultimately have "list_all (\<lambda>d. vm_answer (dict_or_empty d)
      \<and> (\<exists>i. get_or (dict_or_empty d) ''vmid'' (JInt 0) = JInt i)) (list_or_empty raw)"
    unfolding documented_def by simp
  then show "yields (after X T) (\<lambda>_. True) pe (map_eff (\<lambda>d.
      bnd (lift_result (py_int (get_or (dict_or_empty d) ''vmid'' (JInt 0)))) (\<lambda>vmid.
        vm_status_from_dict X (mk_ref ''proxmox'' node vmid) (dict_or_empty d)))
      (filter is_jobj (list_or_empty raw)))"
    by (intro yields_map_eff) (auto simp: list_all_iff lift_result_def intro: yields_vm_status dest!: bspec)
qed simp

lemma yields_list_vms: "yields (after X T) (\<lambda>_. True) pe (list_vms X node)"
  unfolding list_vms_def
  by (auto intro!: yields_list_vms_on_node yields_bnd [OF yields_list_nodes] yields_ret yields_map_eff
      yields_bnd [OF yields_map_eff] yields_catching [OF yields_mono [OF yields_list_vms_on_node]]
      split: option.split)

lemma yields_agent_get_users:
  "yields (after X T) (\<lambda>_. True) pe (agent_get_users X (mk_ref ''proxmox'' node v))"
  unfolding agent_get_users_def
proof (intro yields_with_ref yields_read)
  fix r assume d: "documented \<lparr>rq_method = ''GET'', rq_path = vm_path X (JStr node) v ''/agent/get-users'',
      rq_params = translate_params [], rq_data = translate_params []\<rparr> r"
  have "ends_with (vm_path X (JStr node) v ''/agent/get-users'') ''/agent/get-users''" by auto
  with d obtain us where "get_or (dict_or_empty r) ''result'' (JList []) = JList us"
    "list_all (\<lambda>u. numbers_ok (dict_or_empty u) [''login-time'']) us"
    unfolding documented_def by auto
  then show "yields (after X T) (\<lambda>_. True) pe
      (bnd (lift_result (dicts_in (get_or (dict_or_empty r) ''result'' (JList [])))) (\<lambda>us.
        map_eff (guest_user_from_dict X) us))"
    by (intro yields_value [where a = "map dict_or_empty (filter is_jobj us)"] yields_map_eff yields_guest_user)
      (auto simp: list_all_iff)
qed simp

lemma yields_agent_get_network:
  "yields (after X T) (\<lambda>_. True) pe (agent_get_network X (mk_ref ''proxmox'' node v))"
  unfolding agent_get_network_def
proof (intro yields_with_ref yields_read)
  let ?path = "vm_path X (JStr node) v ''/agent/network-get-interfaces''"
  fix r assume d: "documented \<lparr>rq_method = ''GET'', rq_path = ?path,
      rq_params = translate_params [], rq_data = translate_params []\<rparr> r"
  have "ends_with ?path ''/agent/network-get-interfaces''" by auto
  with d have "list_all (\<lambda>d. interface_answer (dict_or_empty d))
      (list_or_empty (get_or (dict_or_empty r) ''result'' (JList [])))"
    unfolding documented_def by simp
  then show "yields (after X T) (\<lambda>_. True) pe (map_eff (\<lambda>d. interface_from_dict X (dict_or_empty d))
      (filter is_jobj (list_or_empty (get_or (dict_or_empty r) ''result'' (JList [])))))"
    by (intro yields_map_eff yields_interface) (auto simp: list_all_iff)
qed simp

lemma yields_console_ticket:
  "yields (after X T) (\<lambda>_. True) pe (get_console_ticket X (mk_ref ''proxmox'' node v) kind)"
proof -
  from link obtain netloc where net: "url_netloc (px_api_url X) = Inr netloc"
    unfolding pve_link_def by blast
  let ?path = "vm_path X (JStr node) v ''/vncproxy''"
  have "yields (after X T) (\<lambda>_. True) pe (get_novnc_ticket X (mk_ref ''proxmox'' node v))"
    unfolding get_novnc_ticket_def
  proof (intro yields_with_ref yields_read)
    fix r assume d: "documented \<lparr>rq_method = ''POST'', rq_path = ?path, rq_params = translate_params [],
        rq_data = translate_params [(''websocket'', JInt 1), (''generate_password'', JInt 1)]\<rparr> r"
    have "ends_with ?path ''/vncproxy''" by auto
    with d obtain kvs p i t where "r = JObj kvs" "map_of kvs ''port'' = Some p" "py_int p = Inr i"
        "map_of kvs ''ticket'' = Some (JStr t)"
      unfolding documented_def by auto
    with net show "yields (after X T) (\<lambda>_. True) pe (case r of
        JObj kvs \<Rightarrow>
          bnd (lift_result (require_key kvs ''port'')) (\<lambda>pv.
          bnd (lift_result (py_int pv)) (\<lambda>port.
          bnd (lift_result (require_key kvs ''ticket'')) (\<lambda>ticket.
          bnd (lift_result (url_netloc (px_api_url X))) (\<lambda>netloc.
          bnd (lift_result (quote_value ticket)) (\<lambda>quoted.
          ret (NoVNCTicket (websocket_url netloc (vm_path X (JStr node) v ''/vncwebsocket'') port quoted)
            (case some_text_field X kvs ''password'' of None \<Rightarrow> [] | Some p \<Rightarrow> p)
            (opt_text_field X kvs ''cert'')))))))
      | _ \<Rightarrow> throw (ProviderError PlainProviderError ''proxmox'' ''vncproxy returned non-dict''))"
      by (simp add: require_key_def quote_value_def lift_result_def yields_ret)
  qed simp
  then show ?thesis
    by (cases kind) (simp_all add: get_console_ticket_def capability_error_def yields_throw)
qed

section \<open>Waiting for a task\<close>

lemma yields_get_task_status:
  "yields (after X T) (\<lambda>st. ts_state st = ''stopped'' \<or> ts_success st = None) pe
     (get_task_status X (mk_task ''proxmox'' node upid))"
proof -
  have raw: "yields (after X T) (\<lambda>_. True) pe (get_task_status_raw X n u)" for n u
    unfolding get_task_status_raw_def Let_def
    by (rule yields_read) (auto intro!: yields_ret yields_throw split: jval.split)
  show ?thesis
    unfolding get_task_status_def
    by (simp add: lift_result_def, rule yields_bnd [OF raw])
      (auto intro!: yields_ret split: jval.split)
qed

text \<open>Each round that ends in a sleep brings the deadline nearer by the poll interval.\<close>

lemma wait_rounds_end:
  assumes "0 < poll" "start + timeout \<le> T + poll * int n" "after X T w"
  shows "wp (wait_rounds X (mk_task ''proxmox'' node upid) start timeout poll (Suc n))
    (\<lambda>st w'. ts_success st = Some True \<and> after X T w') (\<lambda>e w'. pe e \<and> after X T w') w"
  using assms(2,3)
proof (induction n arbitrary: T w)
  case 0
  show ?case
    unfolding wait_rounds.simps wp_bnd
    by (rule wp_mono [OF yieldsD [OF yields_get_task_status 0(2)]])
      (use 0 in \<open>auto simp: wp_simps clock_def after_def split: option.split list.split\<close>)
next
  case (Suc n)
  let ?h = "mk_task ''proxmox'' node upid"
  have later: "wp (wait_rounds X ?h start timeout poll (Suc n))
      (\<lambda>st w'. ts_success st = Some True \<and> after X T w') (\<lambda>e w'. pe e \<and> after X T w')
      (e_sleep (px_env X) poll t)" if t: "after X T t" for t
  proof -
    have "after X (T + poll) (e_sleep (px_env X) poll t)"
      using link t assms(1) unfolding pve_link_def after_def
      by (metis add_mono_thms_linordered_semiring(3) less_imp_le order_trans)
    moreover have "start + timeout \<le> T + poll + poll * int n"
      using Suc.prems(1) by (simp add: algebra_simps)
    ultimately show ?thesis
      using assms(1) by (intro wp_mono [OF Suc.IH [of "T + poll"]]) (auto simp: after_def)
  qed
  show ?case
    unfolding wait_rounds.simps(2) [of _ _ _ _ _ "Suc n"] wp_bnd
    by (rule wp_mono [OF yieldsD [OF yields_get_task_status Suc.prems(2)]])
      (auto simp: wp_simps clock_def pause_def simp del: wait_rounds.simps
        intro!: later split: option.split list.split)
qed

lemma wait_for_task_ends:
  assumes "task_given h"
  shows "wp (wait_for_task X (Some h) timeout)
    (\<lambda>st w'. ts_success st = Some True \<and> after X (e_mono (px_env X) w) w')
    (\<lambda>e w'. pe e \<and> after X (e_mono (px_env X) w) w') w"
proof -
  from assms obtain node upid where h: "h = mk_task ''proxmox'' node upid" by (auto simp: task_given_def)
  show ?thesis
    using wait_rounds_end [of 1000 "e_mono (px_env X) w" "1000 * timeout" "e_mono (px_env X) w"
        "Suc (nat timeout)" w node upid]
    unfolding h by (simp add: wait_for_task_def clock_def wp_simps after_def del: wait_rounds.simps)
qed

lemma yields_wait_for_task: "task_given h \<Longrightarrow> yields (after X T) (\<lambda>_. True) pe (wait_for_task X (Some h) t)"
  unfolding yields_def
  by (intro allI impI wp_mono [OF wait_for_task_ends]) (auto simp: after_def)

section \<open>The contract holds\<close>

lemma yields_at: "(\<And>T. yields (after X T) Q C f) \<Longrightarrow>
  wp f (\<lambda>a t. Q a \<and> e_mono (px_env X) w \<le> e_mono (px_env X) t)
    (\<lambda>e t. C e \<and> e_mono (px_env X) w \<le> e_mono (px_env X) t) w"
  using yieldsD [of "after X (e_mono (px_env X) w)" Q C f w] by (simp add: after_def)

lemma yields_gives: "(\<And>T. yields (after X T) Q C f) \<Longrightarrow> gives Q C f"
  unfolding gives_def
proof
  fix w assume "\<And>T. yields (after X T) Q C f"
  from yields_at [OF this, of w] show "case fst (f w) of Inl e \<Rightarrow> C e | Inr a \<Rightarrow> Q a"
    by (simp add: wp_def split: prod.splits sum.splits)
qed

lemma yields_answers: "(\<And>T. yields (after X T) (\<lambda>_. True) C f) \<Longrightarrow> answers C f"
  by (rule gives_answers, rule yields_gives)

lemma yields_clock:
  assumes "\<And>T. yields (after X T) Q C f"
  shows "e_mono (px_env X) w \<le> e_mono (px_env X) (snd (f w))"
  using yields_at [OF assms, of w] by (simp add: wp_def split: prod.splits sum.splits)

lemma yields_task_status:
  "task_given h \<Longrightarrow> yields (after X T) (\<lambda>_. True) pe (get_task_status X h)"
  by (auto simp: task_given_def intro: yields_mono [OF yields_get_task_status])

lemma provider_type [simp]: "pv_type (proxmox_provider X) = ''proxmox''"
  by (simp add: proxmox_provider_def)

lemma ours_proxmox: "ours (proxmox_provider X) r \<longleftrightarrow> (\<exists>node v. r = mk_ref ''proxmox'' node v)"
  "ours_task (proxmox_provider X) = task_given"
  by (auto simp: ours_def ours_task_def task_given_def fun_eq_iff)

lemma ours_wait_proxmox: "ours_wait (proxmox_provider X) = (\<lambda>ho. \<exists>h. ho = Some h \<and> task_given h)"
proof
  fix ho show "ours_wait (proxmox_provider X) ho = (\<exists>h. ho = Some h \<and> task_given h)"
    by (cases ho) (simp_all add: ours_proxmox)
qed

lemma proxmox_contract: "provider_contract pe (proxmox_provider X)"
  unfolding provider_contract_def ours_proxmox ours_wait_proxmox ours_clone_def
  unfolding proxmox_provider_def
  by (auto intro!: yields_gives yields_answers yields_task_operations yields_ping yields_list_vms
      yields_destroy_vm yields_get_vm_status yields_agent_ping yields_agent_get_users
      yields_agent_get_network yields_console_ticket yields_wait_for_task yields_clone_vm
      yields_task_status)


text \<open>On any reference at all, the two calls the wait loops poll with do not turn the clock back.\<close>

lemma keeps_request: "yields (after X T) (\<lambda>_. True) (\<lambda>_. True) (request_tries X tries verb path ps body)"
  unfolding request_tries_def by (rule yields_mono [OF yields_request_loop]) simp_all

lemma keeps_pure: "(\<And>w. snd (m w) = w) \<Longrightarrow> yields J (\<lambda>_. True) (\<lambda>_. True) m"
  by (simp add: yields_def wp_def split: prod.split sum.split) (metis snd_conv)

lemma keeps_get_vm_status: "yields (after X T) (\<lambda>_. True) (\<lambda>_. True) (get_vm_status X r)"
proof -
  have "yields (after X T) (\<lambda>_. True) (\<lambda>_. True) (vm_status_from_dict X r kvs)" for kvs
    by (rule keeps_pure) (simp add: vm_status_from_dict_def exec_simps split: sum.split)
  then show ?thesis
    unfolding get_vm_status_def
    by (cases "unpack_vm_ref r")
      (auto simp: lift_result_def intro: yields_throw yields_bnd [OF keeps_request])
qed

lemma keeps_agent_ping: "yields (after X T) (\<lambda>_. True) (\<lambda>_. True) (agent_ping X r)"
  unfolding agent_ping_def or_false_def
  by (cases "unpack_vm_ref r")
    (auto simp: lift_result_def intro!: yields_throw yields_ret
      yields_catching [OF yields_mono [OF yields_bnd [OF keeps_request yields_ret]]])

lemma proxmox_clock: "clock_ok (px_env X) (proxmox_provider X)"
  using link yields_clock [OF keeps_agent_ping] yields_clock [OF keeps_get_vm_status]
  unfolding clock_ok_def pve_link_def by (simp add: proxmox_provider_def)

end

sublocale pve_server \<subseteq> vms: hypervisor "proxmox_provider X" "px_env X"
  by unfold_locales (rule proxmox_contract, rule proxmox_clock)

text \<open>The operations the broker itself never calls, on a server whose other answers are documented too.\<close>

locale pve_reader = pve_server +
  assumes more: "pve_documented_reads X"
begin

lemma yields_send_read:
  "yields (after X T) (\<lambda>res. (\<forall>e. res \<noteq> Inl (TransportOther e)) \<and> (\<forall>r. res = Inr r
      \<and> 200 \<le> rp_status r \<and> rp_status r < 300 \<longrightarrow> (\<exists>v. parse_body X path r = Inr v \<and> documented_read rq v)))
    is_provider_error (send X rq)"
proof -
  have "\<exists>v. parse_body X path r = Inr v \<and> documented_read rq v"
    if "hc_send (px_client X) rq w = (Inr r, w')" "200 \<le> rp_status r" "rp_status r < 300" for r w w'
  proof -
    from api that obtain kvs v where "rp_content r" "rp_json r = Some (JObj kvs)" "map_of kvs ''data'' = Some v"
      unfolding pve_documented_def by (metis fst_conv)
    moreover from this that more have "documented_read rq v"
      unfolding pve_documented_reads_def by (metis fst_conv)
    ultimately show ?thesis by (auto simp: parse_body_def get_or_def)
  qed
  with yields_send [of T "[]" rq] show ?thesis
    unfolding yields_def by (fastforce simp: wp_def send_def split: prod.splits sum.splits)
qed

lemma yields_more_loop:
  "yields (after X T) (documented_read rq) is_provider_error (request_loop X rq tries left)"
proof (induction left)
  case 0
  then show ?case by (simp add: yields_throw)
next
  case (Suc left)
  have again: "yields (after X T) (documented_read rq) is_provider_error
      (andthen (pause X (2000 * 2 ^ (tries - Suc left))) (request_loop X rq tries left))"
    using Suc by (intro yields_andthen yields_pause) simp
  show ?case
    unfolding request_loop.simps Let_def
    by (rule yields_bnd [OF yields_send_read [of T "rq_path rq" rq]])
      (auto intro!: again yields_throw yields_lift split: sum.split transport_error.split)
qed

lemma yields_more:
  assumes "starts_with path ''/''"
    and "\<And>v. documented_read \<lparr>rq_method = verb, rq_path = path, rq_params = translate_params ps,
      rq_data = translate_params body\<rparr> v \<Longrightarrow> yields (after X T) Q pe (f v)"
  shows "yields (after X T) Q pe (bnd (request_tries X tries verb path ps body) f)"
  by (rule yields_bnd [OF _ assms(2)]) (use assms(1) yields_more_loop in \<open>simp_all add: request_tries_def\<close>)

lemma yields_storage_info:
  assumes "is_jobj d" "text_ok (dict_or_empty d) ''content''" "numbers_ok (dict_or_empty d) [''shared'', ''total'', ''used'']"
  shows "yields J (\<lambda>_. True) C (storage_info_from_dict X d)"
proof -
  from assms(1) obtain kvs where d: "d = JObj kvs" by (cases d) auto
  with assms obtain a b c t where "int_field kvs ''shared'' = Inr a" "int_field kvs ''total'' = Inr b"
    "int_field kvs ''used'' = Inr c" "str_field kvs ''content'' = Inr t"
    using int_field_documented [of kvs "[''shared'', ''total'', ''used'']"] str_field_documented [of kvs] by force
  then show ?thesis
    unfolding storage_info_from_dict_def d as_dict_def jval.case bnd_ret
    by (intro yields_value yields_ret TrueI)
qed

lemma yields_list_storage: "yields (after X T) (\<lambda>_. True) pe (list_storage X node)"
  unfolding list_storage_def
proof (rule yields_more)
  fix raw assume "documented_read \<lparr>rq_method = ''GET'', rq_path = ''/nodes/'' @ node @ ''/storage'',
      rq_params = translate_params [], rq_data = translate_params []\<rparr> raw"
  moreover have "ends_with (''/nodes/'' @ node @ ''/storage'') ''/storage''" by (intro ends_with_append) simp
  ultimately show "yields (after X T) (\<lambda>_. True) pe (map_eff (storage_info_from_dict X) (list_or_empty raw))"
    unfolding documented_read_def by (intro yields_map_eff yields_storage_info) (auto simp: list_all_iff)
qed simp

lemma yields_list_snapshots:
  "yields (after X T) (\<lambda>_. True) pe (list_snapshots X (mk_ref ''proxmox'' node v))"
  unfolding list_snapshots_def
proof (intro yields_with_ref yields_more)
  let ?path = "vm_path X (JStr node) v ''/snapshot''"
  fix raw assume d: "documented_read \<lparr>rq_method = ''GET'', rq_path = ?path,
      rq_params = translate_params [], rq_data = translate_params []\<rparr> raw"
  have "ends_with ?path ''/snapshot''" by auto
  with d have all: "list_all (\<lambda>d. numbers_ok (dict_or_empty d) [''snaptime'']) (list_or_empty raw)"
    unfolding documented_read_def by simp
  have one: "yields (after X T) (\<lambda>_. True) pe (snapshot_info_from_dict X kvs)" if ok: "numbers_ok kvs [''snaptime'']" for kvs
  proof -
    from ok obtain i where "opt_int_field kvs ''snaptime'' = Inr i" using opt_int_field_documented by fastforce
    then show ?thesis unfolding snapshot_info_from_dict_def by (intro yields_value yields_ret TrueI)
  qed
  show "yields (after X T) (\<lambda>_. True) pe (map_eff (\<lambda>d. snapshot_info_from_dict X (dict_or_empty d))
      (filter is_jobj (list_or_empty raw)))"
    by (intro yields_map_eff one) (use all in \<open>auto simp: list_all_iff\<close>)
qed simp

lemma yields_delete_snapshot:
  "yields (after X T) task_given pe (delete_snapshot X (mk_ref ''proxmox'' node v) n)"
  unfolding delete_snapshot_def by (rule yields_mono [OF yields_task_request]) (auto simp: task_given_def)

lemma yields_agent_get_osinfo:
  "yields (after X T) (\<lambda>_. True) pe (agent_get_osinfo X (mk_ref ''proxmox'' node v))"
  unfolding agent_get_osinfo_def Let_def by (intro yields_with_ref yields_more yields_ret) simp_all

lemma yields_agent_exec:
  "yields (after X T) (\<lambda>_. True) pe (agent_exec X (mk_ref ''proxmox'' node v) command input)"
  unfolding agent_exec_def
proof (intro yields_with_ref yields_more)
  let ?path = "vm_path X (JStr node) v ''/agent/exec''"
  fix r and body assume d: "documented_read \<lparr>rq_method = ''POST'', rq_path = ?path,
      rq_params = translate_params [], rq_data = body\<rparr> r"
  have "ends_with ?path ''/agent/exec''" by auto
  with d show "yields (after X T) (\<lambda>_. True) pe (case map_of (dict_or_empty r) ''pid'' of
       None \<Rightarrow> throw (ProviderError PlainProviderError ''proxmox''
         (''agent/exec returned unexpected payload: '' @ px_repr X r))
     | Some pid \<Rightarrow> lift_result (py_int pid))"
    by (auto simp: documented_read_def intro: yields_throw yields_lift split: option.splits jval.splits)
qed simp

lemma yields_agent_exec_status:
  "yields (after X T) (\<lambda>_. True) pe (agent_exec_status X utf8 (mk_ref ''proxmox'' node v) pid)"
  unfolding agent_exec_status_def Let_def
proof (intro yields_with_ref yields_more)
  let ?path = "vm_path X (JStr node) v ''/agent/exec-status''"
  fix r and ps assume d: "documented_read \<lparr>rq_method = ''GET'', rq_path = ?path,
      rq_params = ps, rq_data = translate_params []\<rparr> r"
  let ?r = "dict_or_empty r" and ?exited = "j_truthy (get_or (dict_or_empty r) ''exited'' (JBool False))"
  have "ends_with ?path ''/agent/exec-status''" by auto
  with d obtain i where "opt_int_field ?r ''exitcode'' = Inr i"
    using opt_int_field_documented [of ?r "[''exitcode'']"] unfolding documented_read_def by fastforce
  then have "\<exists>i. (if ?exited then opt_int_field ?r ''exitcode'' else Inr None) = Inr i" by auto
  then show "yields (after X T) (\<lambda>_. True) pe
     (bnd (lift_result (if ?exited then opt_int_field ?r ''exitcode'' else Inr None)) (\<lambda>code.
     ret \<lparr>es_exited = ?exited, es_exit_code = code,
       es_stdout = decode_b64 utf8 (get_or ?r ''out-data'' JNull),
       es_stderr = decode_b64 utf8 (get_or ?r ''err-data'' JNull)\<rparr>))"
    by (auto intro: yields_value yields_ret)
qed simp

lemma gives_agent_ping: "answers is_auth_error (agent_ping X (mk_ref ''proxmox'' node v))"
  unfolding agent_ping_def by (intro yields_answers yields_with_ref yields_or_false) simp

end

section \<open>A server\<close>

text \<open>
  A cluster on which every task has succeeded and whose world is its clock: each request takes
  a millisecond.
\<close>

definition sim_data :: "http_request \<Rightarrow> jval" where
  "sim_data rq =
     (if rq_method rq = ''POST'' \<and> ends_with (rq_path rq) ''/vncproxy''
      then JObj [(''port'', JInt 5900), (''ticket'', JStr ''PVEVNC'')]
      else if starts_task rq then JStr ''UPID:pve1:1''
      else if ends_with (rq_path rq) ''/status/current''
      then JObj [(''status'', JStr ''stopped''), (''template'', JInt 1)]
      else JObj [(''status'', JStr ''stopped''), (''exitstatus'', JStr ''OK'')])"

definition sim_response :: "jval \<Rightarrow> http_response" where
  "sim_response v = \<lparr>rp_status = 200, rp_content = True, rp_json = Some (JObj [(''data'', v)]), rp_text = []\<rparr>"

definition sim_px :: "int px" where
  "sim_px = \<lparr>px_api_url = ''https://pve1:8006'',
     px_client = \<lparr>hc_send = (\<lambda>rq w. (Inr (sim_response (sim_data rq)), w + 1)), hc_aclose = (\<lambda>w. (Inr (), w))\<rparr>,
     px_env = sim_env, px_str = (\<lambda>_. []), px_repr = (\<lambda>_. [])\<rparr>"

lemma sim_request:
  assumes "starts_with path ''/''"
  shows "request sim_px verb path ps body w = (Inr (sim_data \<lparr>rq_method = verb, rq_path = path,
    rq_params = translate_params ps, rq_data = translate_params body\<rparr>), w + 1)"
  using assms unfolding numeral_3_eq_3
  by (simp add: request_tries_def send_def sim_px_def sim_response_def parse_body_def get_or_def exec_simps Let_def)

lemma ends_with_last: "ends_with p s \<Longrightarrow> s \<noteq> [] \<Longrightarrow> last p = last s"
  unfolding ends_with_def starts_with_def
  by (metis Nil_is_rev_conv append_take_drop_id hd_append hd_rev)

lemma sim_data_documented: "documented rq (sim_data rq)"
proof -
  have "\<not> starts_task rq" if "rq_method rq = ''POST'' \<and> ends_with (rq_path rq) ''/vncproxy''"
    using that by (auto simp: starts_task_def dest!: ends_with_last)
  then show ?thesis
    by (auto simp: documented_def sim_data_def vm_answer_def numbers_ok_def text_ok_def get_or_def)
qed

lemma sim_px_documented: "pve_link sim_px" "pve_documented sim_px" "pve_documented_reads sim_px"
proof -
  have "url_netloc ''https://pve1:8006'' = Inr ''pve1:8006''" by code_simp
  then show "pve_link sim_px" by (simp add: pve_link_def sim_px_def sim_env_def)
  show "pve_documented sim_px"
    by (auto simp: pve_documented_def sim_px_def sim_response_def sim_data_documented)
  have "documented_read rq (sim_data rq)" for rq
    by (auto simp: documented_read_def sim_data_def numbers_ok_def get_or_def starts_task_def dest: ends_with_last)
  then show "pve_documented_reads sim_px"
    by (auto simp: pve_documented_reads_def sim_px_def sim_response_def)
qed

interpretation sim: pve_reader sim_px
  by unfold_locales (rule sim_px_documented)+

section \<open>Properties\<close>



text \<open>
  Property C13. \<open>wait_for_task\<close> always returns on a handle the provider gave out: with a finished task that
  succeeded, or with a \<open>ProviderError\<close> (the task failed, the time is over, or the status
  cannot be had). The \<open>while True\<close> loop has no bound of its own; the clock ends it.
\<close>

theorem wait_for_task_returns:
  assumes "pve_link X" "pve_documented X" "task_given h"
  shows "wp (wait_for_task X (Some h) timeout)
    (\<lambda>st _. ts_success st = Some True) (\<lambda>e _. is_provider_error e) w"
proof -
  from assms(1,2) have "pve_server X" by (rule pve_server.intro)
  from pve_server.wait_for_task_ends [OF this assms(3)] show ?thesis by (rule wp_mono) simp_all
qed

theorem wait_for_task_returns_witness:
  "\<exists>st w. wait_for_task sim_px (Some (mk_task ''proxmox'' ''pve1'' ''UPID:pve1:1'')) 60 0 = (Inr st, w)
     \<and> ts_success st = Some True"
proof -
  let ?h = "mk_task ''proxmox'' ''pve1'' ''UPID:pve1:1''"
  have "get_task_status sim_px ?h 0 = (Inr \<lparr>ts_state = ''stopped'', ts_success = Some True, ts_error_message = None\<rparr>, 1)"
    by code_simp
  then have "\<exists>st w. wait_rounds sim_px ?h start timeout poll (Suc n) 0 = (Inr st, w)" for start timeout poll n
    by (simp add: exec_simps)
  from this [of _ _ _ 61] have "\<exists>st w. wait_for_task sim_px (Some ?h) 60 0 = (Inr st, w)"
    by (simp add: wait_for_task_def clock_def exec_simps)
  with wait_for_task_returns [OF sim_px_documented(1,2), of ?h 60 0] show ?thesis
    by (auto simp: wp_def)
qed

end
