(* ===== verification/Proxmox_Desktops.thy ===== *)
theory Proxmox_Desktops
  imports Proxmox_Contract Task_Tracker Health_Checker
begin

text \<open>
  The broker's components over the Proxmox provider: what the contract gives them, and the
  places where the provider's own behaviour decides.
\<close>

lemma pve_vms:
  assumes "pve_link X" "pve_documented X"
  shows "hypervisor (proxmox_provider X) (px_env X)"
proof -
  from assms have "pve_server X" by (rule pve_server.intro)
  then show ?thesis
    by (intro hypervisor.intro pve_server.proxmox_contract pve_server.proxmox_clock)
qed

text \<open>
  What the registry constructs for a Proxmox cluster keeps the contract: whatever URL, token and
  secret the row holds, if opening a client for it gives a link to a documented server.
  The secret reaches the client decrypted and nothing else of the row does.
\<close>

theorem registered_provider_keeps_contract:
  assumes "construct_provider L c = Inr P"
    and "map_of (pl_classes L) (c_provider_type c) = Some (proxmox_class open_client E str repr)"
    and "\<And>X. new_client open_client E str repr (c_api_url c) (c_token_id c) secret (c_verify_ssl c) = Inr X \<Longrightarrow>
      pve_link X \<and> pve_documented X"
    and "decrypt_secret L (c_token_secret c) = Inr secret"
  shows "provider_contract is_provider_error P \<and> clock_ok E P \<and> pv_type P = ''proxmox''"
proof -
  from assms(1,2,4) obtain X where X: "P = proxmox_provider X"
      "new_client open_client E str repr (c_api_url c) (c_token_id c) secret (c_verify_ssl c) = Inr X"
    by (auto simp: construct_provider_def get_provider_class_def proxmox_class_def map_sum_def
        split: sum.splits)
  then have E: "px_env X = E" by (auto simp: new_client_def Let_def map_sum_def split: sum.splits)
  from assms(3) [OF X(2)] have "pve_link X" "pve_documented X" by simp_all
  note vms = pve_vms [OF this]
  show ?thesis
    using hypervisor.contract [OF vms] hypervisor.clock [OF vms] unfolding X(1) E
    by (simp add: proxmox_provider_def)
qed

definition sim_open :: "client_config \<Rightarrow> exn + int http_client" where
  "sim_open cfg = Inr (px_client sim_px)"

definition sim_platform :: "int platform" where
  "sim_platform = \<lparr>pl_classes = [(''proxmox'', proxmox_class sim_open sim_env (\<lambda>_. []) (\<lambda>_. []))],
     pl_encrypt = Inr, pl_decrypt = Inr\<rparr>"

theorem registered_provider_keeps_contract_witness:
  "\<exists>P. construct_provider sim_platform (example_cluster\<lparr>c_api_url := ''https://pve1:8006''\<rparr>) = Inr P
     \<and> clock_ok sim_env P"
proof -
  let ?c = "example_cluster\<lparr>c_api_url := ''https://pve1:8006''\<rparr>"
  have new: "new_client sim_open sim_env (\<lambda>_. []) (\<lambda>_. []) (c_api_url ?c) (c_token_id ?c) ''x'' (c_verify_ssl ?c)
      = Inr sim_px"
    by (simp add: new_client_def sim_open_def sim_px_def)
  have "construct_provider sim_platform ?c = Inr (proxmox_provider sim_px)"
    using new by (simp add: construct_provider_def get_provider_class_def sim_platform_def
        proxmox_class_def decrypt_secret_def example_cluster_def)
  moreover have "clock_ok sim_env (proxmox_provider sim_px)"
    using registered_provider_keeps_contract [OF calculation, of sim_open sim_env "\<lambda>_. []" "\<lambda>_. []" "''x''"]
      new sim_px_documented
    by (simp add: sim_platform_def example_cluster_def decrypt_secret_def)
  ultimately show ?thesis by blast
qed

text \<open>
  References and handles survive their way through the database: the provider unpacks exactly
  what the broker packed from the row, a handle's task id is what \<open>provision_desktop\<close> and the
  task recorder store, and the handle the task tracker rebuilds from the row is the one the
  provider gave out. A reference of another provider is refused before any request.
\<close>

theorem proxmox_handles_roundtrip:
  "unpack_vm_ref (desktop_vm_ref (proxmox_provider X) d) = Inr (JStr (d_pve_node d), d_pve_vmid d)
   \<and> unpack_task_handle (mk_task ''proxmox'' node upid) = Inr (JStr node, JStr upid)
   \<and> fst (handle_upid (mk_task ''proxmox'' node upid) s) = Inr upid
   \<and> task_handle_of (proxmox_provider X) (d\<lparr>d_pve_node := node, d_pve_task_upid := Some upid\<rparr>)
       = mk_task ''proxmox'' node upid
   \<and> (ty \<noteq> ''proxmox'' \<longrightarrow> start_vm X (mk_ref ty node v) w = (Inl (PyValueError ''expected proxmox VMRef''), w))"
  by (auto simp: desktop_vm_ref_def proxmox_provider_def handle_upid_mk exec_simps task_handle_of_def
      mk_task_def [of "''proxmox''"] start_vm_def task_request_def unpack_vm_ref_def mk_ref_def)
    (simp_all add: j_opt_str_def unpack_task_handle_def handle_upid_def exec_simps)

theorem proxmox_handles_roundtrip_witness:
  "start_vm sim_px (mk_ref ''vmware'' ''esx1'' 7) 0 = (Inl (PyValueError ''expected proxmox VMRef''), 0)"
  using proxmox_handles_roundtrip [of sim_px example_desktop "''esx1''" "[]" "sim_st empty_db" "''vmware''" 7 0]
  by simp

text \<open>
  A liveness probe of the guest agent is one request and never an error of the VM: every answer
  but an authentication failure is a yes or a no. So also a VM that does not exist, which
  the provider's documentation lists among the errors that raise.
\<close>

theorem agent_ping_asks_once:
  "agent_ping X (mk_ref ''proxmox'' node v) w =
     (case hc_send (px_client X) \<lparr>rq_method = ''POST'',
          rq_path = ''/nodes/'' @ node @ ''/qemu/'' @ show_int v @ ''/agent/ping'', rq_params = [], rq_data = []\<rparr> w of
        (res, w') \<Rightarrow> (case res of
            Inr r \<Rightarrow> if 200 \<le> rp_status r \<and> rp_status r < 300
              then Inr (case rp_json r of None \<Rightarrow> rp_content r = False | Some _ \<Rightarrow> True)
              else if rp_status r \<in> {401, 403}
              then Inl (ProviderError ProviderAuthError ''proxmox''
                (or_text (response_body X r) ''authentication failed''))
              else Inr False
          | Inl (TransportOther e) \<Rightarrow> if is_provider_error e \<and> \<not> is_auth_error e then Inr False else Inl e
          | Inl _ \<Rightarrow> Inr False, w'))"
  by (auto simp: agent_ping_def or_false_def request_tries_def send_def exec_simps vm_path_def
      starts_with_def translate_params_def parse_body_def Let_def
      split: prod.split sum.split transport_error.split option.split jval.split)

text \<open>
  The address of a console ticket: its authority is the cluster's API endpoint, never the VNC
  listener, whose port only appears in the query, and the ticket is quoted, so it adds no
  parameter and no path.
\<close>

theorem novnc_url_is_api_endpoint:
  assumes "get_console_ticket X ref NOVNC w = (Inr c, w')"
  shows "\<exists>url password cert path port quoted. c = NoVNCTicket url password cert
    \<and> url_netloc url = url_netloc (px_api_url X)
    \<and> (\<exists>n. url_netloc (px_api_url X) = Inr n
        \<and> url = websocket_url n path port quoted)
    \<and> (\<forall>x\<in>set quoted. is_unreserved x \<or> x = CHR ''%'')"
proof -
  let ?parts = "\<lambda>a. \<exists>node vmid port ticket n pw cert. url_netloc (px_api_url X) = Inr n
    \<and> a = NoVNCTicket (websocket_url n (vm_path X node vmid ''/vncwebsocket'') port (url_quote ticket)) pw cert"
  from assms have "wp (get_console_ticket X ref NOVNC) (\<lambda>a _. a = c) (\<lambda>_ _. False) w" by (simp add: wp_def)
  then have "wp (get_console_ticket X ref NOVNC) (\<lambda>a _. ?parts a) (\<lambda>_ _. True) w"
    unfolding get_console_ticket_def get_novnc_ticket_def console_kind.case
    by (auto simp: wp_bnd wp_ret wp_throw lift_result_def quote_value_def
        split: prod.split sum.split jval.split elim!: wp_mono) blast+
  with assms obtain node vmid port ticket n pw cert where c: "url_netloc (px_api_url X) = Inr n"
    "c = NoVNCTicket (websocket_url n (vm_path X node vmid ''/vncwebsocket'') port (url_quote ticket)) pw cert"
    by (auto simp: wp_def)
  let ?url = "websocket_url n (vm_path X node vmid ''/vncwebsocket'') port (url_quote ticket)"
  have net: "url_netloc ?url = url_netloc (px_api_url X)"
    using netloc_of_wss [OF c(1)] c(1) by (simp add: websocket_url_def)
  have q: "\<forall>x\<in>set (url_quote ticket). is_unreserved x \<or> x = CHR ''%''" using quote_chars by blast
  show ?thesis
    by (intro exI conjI) (rule c(2), rule net, rule c(1), rule refl, rule q)
qed

theorem novnc_url_is_api_endpoint_witness:
  "\<exists>url password cert w. get_console_ticket sim_px (mk_ref ''proxmox'' ''pve1'' 100) NOVNC 0
       = (Inr (NoVNCTicket url password cert), w) \<and> url_netloc url = Inr ''pve1:8006''"
proof -
  let ?m = "get_console_ticket sim_px (mk_ref ''proxmox'' ''pve1'' 100) NOVNC 0"
  have u: "url_netloc (px_api_url sim_px) = Inr ''pve1:8006''" by code_simp
  have "request sim_px ''POST'' (vm_path sim_px (JStr ''pve1'') 100 ''/vncproxy'') []
      [(''websocket'', JInt 1), (''generate_password'', JInt 1)] 0
      = (Inr (JObj [(''port'', JInt 5900), (''ticket'', JStr ''PVEVNC'')]), 1)"
    by (subst sim_request)
      (simp_all add: vm_path_def starts_with_def ends_with_def sim_data_def)
  then obtain c w where m: "?m = (Inr c, w)"
    using u by (simp add: get_console_ticket_def get_novnc_ticket_def exec_simps require_key_def quote_value_def)
  from novnc_url_is_api_endpoint [OF m, unfolded u] obtain url password cert
    where "c = NoVNCTicket url password cert" "url_netloc url = Inr ''pve1:8006''" by blast
  with m show ?thesis by blast
qed

end
