(* ===== verification/Mcp_Client.thy ===== *)
theory Mcp_Client
  imports Py_Values Records
begin

text \<open>
  The MCP administration server, \<open>src/mcp/openvdi-admin/src/openvdi_admin/\<close>, a program of its
  own that drives the broker over its HTTP API: the error and envelope of \<open>errors.py\<close>, the token
  of \<open>auth.py\<close>, the requests of \<open>client.py\<close>, the request id of \<open>_request_context.py\<close> and the
  wrapper of \<open>_tool_wrapper.py\<close> around every tool. The HTTP transport, which also keeps the
  cookies, is a parameter. Tools run one at a time, so a refresh is never found in flight.
\<close>

section \<open>Errors and envelopes\<close>

fun is_api_error :: "exn \<Rightarrow> bool" where
  "is_api_error (ApiError _ _ _ _) = True"
| "is_api_error _ = False"

definition transport_failure :: "string \<Rightarrow> exn" where
  "transport_failure m = ApiError 0 ''TRANSPORT_ERROR'' m JNull"

definition envelope_missing :: "int \<Rightarrow> exn" where
  "envelope_missing status = ApiError status ''INTERNAL_ERROR''
     (''broker returned non-envelope response (HTTP '' @ show_int status @ '')'') JNull"

text \<open>\<open>text\<close> is Python's \<open>str\<close> of a value; of a string it is the string.\<close>

definition str_of :: "(jval \<Rightarrow> string) \<Rightarrow> jval \<Rightarrow> string" where
  "str_of text v = (case v of JStr s \<Rightarrow> s | _ \<Rightarrow> text v)"

definition unwrap_envelope :: "(jval \<Rightarrow> string) \<Rightarrow> jval \<Rightarrow> int \<Rightarrow> exn + jval" where
  "unwrap_envelope text payload status = (case payload of
       JObj kvs \<Rightarrow> (case (map_of kvs ''data'', map_of kvs ''error'') of
           (Some d, Some JNull) \<Rightarrow> Inr d
         | (Some d, Some (JObj err)) \<Rightarrow> Inl (ApiError status
             (str_of text (get_or err ''code'' (JStr ''INTERNAL_ERROR'')))
             (str_of text (get_or err ''message'' (JStr ''broker returned an error'')))
             (if is_jobj (get_or err ''details'' JNull) then get_or err ''details'' JNull else JNull))
         | _ \<Rightarrow> Inl (envelope_missing status))
     | _ \<Rightarrow> Inl (envelope_missing status))"

section \<open>State and environment\<close>

text \<open>The fields of \<open>config.py\<close> the server decides on; the URL without its trailing slashes.\<close>

record mcp_settings =
  ms_service_user :: string
  ms_service_password :: string
  ms_read_only :: bool
  ms_log_tool_starts :: bool

text \<open>\<open>aq_login\<close>: sent by the client of \<open>auth.py\<close>; a \<open>JNull\<close> body is no body.\<close>

record api_request =
  aq_login :: bool
  aq_method :: string
  aq_path :: string
  aq_params :: "(string \<times> jval) list"
  aq_body :: jval
  aq_headers :: "(string \<times> string) list"

record api_response =
  as_status :: int
  as_json :: "jval option" \<comment> \<open>\<open>None\<close>: \<open>resp.json()\<close> raises \<open>ValueError\<close>\<close>

text \<open>\<open>httpx.RequestError\<close> with its class and text, or whatever else is raised.\<close>

datatype send_failure = RequestFailed string string | SendOther exn

text \<open>What \<open>datetime.fromisoformat\<close> gives: nothing, a naive time or one with a zone, in milliseconds.\<close>

datatype iso_time = NotIso | NaiveTime int | ZonedTime int

text \<open>
  \<open>mv_iso\<close> renders a time in UTC with a final \<open>Z\<close>; \<open>mv_first\<close> is the first element of a set in its
  iteration order.
\<close>

record 'w mcp_env =
  mv_env :: "'w env"
  mv_settings :: mcp_settings
  mv_send :: "api_request \<Rightarrow> 'w \<Rightarrow> (send_failure + api_response) \<times> 'w"
  mv_str :: "jval \<Rightarrow> string"
  mv_repr :: "jval \<Rightarrow> string"
  mv_from_iso :: "string \<Rightarrow> iso_time"
  mv_iso :: "int \<Rightarrow> string"
  mv_first :: "jval list \<Rightarrow> jval"

text \<open>The lines the wrapper logs: tool, request id, milliseconds, and how the call ended.\<close>

datatype tool_outcome = ToolOk "bool option" | ToolApiError string string | ToolUnexpected string string

datatype log_line = ToolStarted string string | ToolEnded string string int tool_outcome

text \<open>A step of \<open>intent/_result.py\<close>.\<close>

record step_record =
  st_name :: string
  st_ok :: bool
  st_details :: "jval option"
  st_duration :: "int option"

text \<open>
  The state of the server: the world outside it, the access token, the request id of the task, the
  requests sent so far, the log, and the \<open>StepTracker\<close> of the running intent with the variable
  its handler reads.
\<close>

record 'w mcp =
  mc_world :: 'w
  mc_token :: "string option"
  mc_request_id :: "string option"
  mc_sent :: "api_request list"
  mc_log :: "log_line list"
  mc_steps :: "step_record list"
  mc_created :: "(string \<times> jval) list"
  mc_subject :: jval

type_synonym ('w, 'a) mcp_prog = "('w mcp, 'a) eff"

definition mcp_world :: "('w \<Rightarrow> 'w) \<Rightarrow> ('w, unit) mcp_prog" where
  "mcp_world f = modify (\<lambda>s. s\<lparr>mc_world := f (mc_world s)\<rparr>)"

definition mcp_clock :: "'w mcp_env \<Rightarrow> ('w, int) mcp_prog" where
  "mcp_clock V = reads (\<lambda>s. e_mono (mv_env V) (mc_world s))"

definition mcp_now :: "'w mcp_env \<Rightarrow> ('w, int) mcp_prog" where
  "mcp_now V = reads (\<lambda>s. e_now (mv_env V) (mc_world s))"

definition mcp_log :: "log_line \<Rightarrow> ('w, unit) mcp_prog" where
  "mcp_log l = modify (\<lambda>s. s\<lparr>mc_log := mc_log s @ [l]\<rparr>)"

definition mcp_send :: "'w mcp_env \<Rightarrow> api_request \<Rightarrow> ('w, send_failure + api_response) mcp_prog" where
  "mcp_send V rq = (\<lambda>s. case mv_send V rq (mc_world s) of (r, w) \<Rightarrow>
     (Inr r, s\<lparr>mc_world := w, mc_sent := mc_sent s @ [rq]\<rparr>))"

section \<open>Request ids\<close>

definition new_request_id :: "'w mcp_env \<Rightarrow> ('w, string) mcp_prog" where
  "new_request_id V = (\<lambda>s. case e_uuid (mv_env V) (mc_world s) of (u, w) \<Rightarrow>
     (Inr (str_uuid u), s\<lparr>mc_world := w, mc_request_id := Some (str_uuid u)\<rparr>))"

definition request_id_headers :: "string option \<Rightarrow> (string \<times> string) list" where
  "request_id_headers rid = (case rid of None \<Rightarrow> [] | Some r \<Rightarrow> [(''X-Request-ID'', r)])"

section \<open>Tokens\<close>

definition post_auth :: "'w mcp_env \<Rightarrow> string \<Rightarrow> jval \<Rightarrow> ('w, send_failure + api_response) mcp_prog" where
  "post_auth V path body = bnd (reads mc_request_id) (\<lambda>rid. mcp_send V
     \<lparr>aq_login = True, aq_method = ''POST'', aq_path = path, aq_params = [], aq_body = body,
      aq_headers = request_id_headers rid\<rparr>)"

text \<open>\<open>payload["data"]["access_token"]\<close>, if it is there and a string that is not empty.\<close>

definition token_in :: "jval \<Rightarrow> string option" where
  "token_in payload = (case payload of
       JObj kvs \<Rightarrow> (case get_or kvs ''data'' JNull of
           JObj d \<Rightarrow> (case get_or d ''access_token'' JNull of
               JStr t \<Rightarrow> if t = [] then None else Some t | _ \<Rightarrow> None)
         | _ \<Rightarrow> None)
     | _ \<Rightarrow> None)"

definition store_token :: "string \<Rightarrow> string \<Rightarrow> api_response \<Rightarrow> ('w, string) mcp_prog" where
  "store_token what code r = (let failed = (\<lambda>m. throw (ApiError (as_status r) code (what @ m) JNull)) in
     if as_status r \<noteq> 200 then failed ('' returned HTTP '' @ show_int (as_status r))
     else (case as_json r of
         None \<Rightarrow> failed '' response was not JSON''
       | Some payload \<Rightarrow> (case token_in payload of
           None \<Rightarrow> failed '' response missing access_token''
         | Some t \<Rightarrow> andthen (modify (\<lambda>s. s\<lparr>mc_token := Some t\<rparr>)) (ret t))))"

definition do_login :: "'w mcp_env \<Rightarrow> ('w, string) mcp_prog" where
  "do_login V = bnd (post_auth V ''/api/v1/auth/login''
       (JObj [(''username'', JStr (ms_service_user (mv_settings V))),
              (''password'', JStr (ms_service_password (mv_settings V)))])) (\<lambda>res.
     case res of
       Inl (RequestFailed _ m) \<Rightarrow> throw (transport_failure (''login request failed: '' @ m))
     | Inl (SendOther e) \<Rightarrow> throw e
     | Inr r \<Rightarrow> store_token ''login'' ''LOGIN_FAILED'' r)"

definition do_refresh :: "'w mcp_env \<Rightarrow> ('w, string) mcp_prog" where
  "do_refresh V = bnd (post_auth V ''/api/v1/auth/refresh'' JNull) (\<lambda>res.
     case res of
       Inl (RequestFailed _ m) \<Rightarrow> throw (transport_failure (''refresh request failed: '' @ m))
     | Inl (SendOther e) \<Rightarrow> throw e
     | Inr r \<Rightarrow> if as_status r = 401
         then throw (ApiError 401 ''REFRESH_FAILED'' ''refresh token rejected; will re-login'' JNull)
         else store_token ''refresh'' ''REFRESH_FAILED'' r)"

fun refresh_rejected :: "exn \<Rightarrow> bool" where
  "refresh_rejected (ApiError status code _ _) = (code = ''REFRESH_FAILED'' \<and> status = 401)"
| "refresh_rejected _ = False"

definition do_refresh_or_login :: "'w mcp_env \<Rightarrow> ('w, string) mcp_prog" where
  "do_refresh_or_login V = catching refresh_rejected (do_refresh V)
     (\<lambda>_. andthen (modify (\<lambda>s. s\<lparr>mc_token := None\<rparr>)) (do_login V))"

definition get_token :: "'w mcp_env \<Rightarrow> ('w, string) mcp_prog" where
  "get_token V = bnd (reads mc_token) (\<lambda>t. case t of Some x \<Rightarrow> ret x | None \<Rightarrow> do_login V)"

definition force_new_token :: "'w mcp_env \<Rightarrow> ('w, string) mcp_prog" where
  "force_new_token V = do_refresh_or_login V"

section \<open>Requests\<close>

definition attempt_call ::
    "'w mcp_env \<Rightarrow> string \<Rightarrow> string \<Rightarrow> (string \<times> jval) list \<Rightarrow> jval \<Rightarrow> string \<Rightarrow> ('w, api_response) mcp_prog" where
  "attempt_call V verb path params body token = bnd (reads mc_request_id) (\<lambda>rid.
     bnd (mcp_send V \<lparr>aq_login = False, aq_method = verb, aq_path = path, aq_params = params, aq_body = body,
       aq_headers = [(''Authorization'', ''Bearer '' @ token), (''Accept'', ''application/json'')]
         @ request_id_headers rid\<rparr>) (\<lambda>res.
     case res of
       Inl (RequestFailed name m) \<Rightarrow> throw (transport_failure (verb @ '' '' @ path @ '': '' @ name @ '': '' @ m))
     | Inl (SendOther e) \<Rightarrow> throw e
     | Inr r \<Rightarrow> ret r))"

text \<open>A 401 is answered with a new token and one replay.\<close>

definition authorized ::
    "'w mcp_env \<Rightarrow> string \<Rightarrow> string \<Rightarrow> (string \<times> jval) list \<Rightarrow> jval \<Rightarrow> ('w, api_response) mcp_prog" where
  "authorized V verb path params body = bnd (get_token V) (\<lambda>token.
     bnd (attempt_call V verb path params body token) (\<lambda>r.
     if as_status r = 401
     then bnd (force_new_token V) (attempt_call V verb path params body)
     else ret r))"

definition handle_response :: "'w mcp_env \<Rightarrow> api_response \<Rightarrow> exn + jval" where
  "handle_response V r =
     (if as_status r = 204 then Inr JNull
      else (case as_json r of
          None \<Rightarrow> Inl (envelope_missing (as_status r))
        | Some payload \<Rightarrow> unwrap_envelope (mv_str V) payload (as_status r)))"

definition handle_raw :: "string \<Rightarrow> api_response \<Rightarrow> exn + jval" where
  "handle_raw path r =
     (if as_status r = 204 then Inr JNull
      else if 400 \<le> as_status r then Inl (ApiError (as_status r) ''HTTP_ERROR''
        (''GET '' @ path @ '' returned HTTP '' @ show_int (as_status r)) JNull)
      else (case as_json r of
          None \<Rightarrow> Inl (ApiError (as_status r) ''INTERNAL_ERROR''
            (''GET '' @ path @ '' returned non-JSON response'') JNull)
        | Some payload \<Rightarrow> Inr payload))"

definition call_api ::
    "'w mcp_env \<Rightarrow> string \<Rightarrow> string \<Rightarrow> (string \<times> jval) list \<Rightarrow> jval \<Rightarrow> ('w, jval) mcp_prog" where
  "call_api V verb path params body =
     bnd (authorized V verb path params body) (\<lambda>r. lift_result (handle_response V r))"

definition api_get :: "'w mcp_env \<Rightarrow> string \<Rightarrow> (string \<times> jval) list \<Rightarrow> ('w, jval) mcp_prog" where
  "api_get V path params = call_api V ''GET'' path params JNull"

definition api_post :: "'w mcp_env \<Rightarrow> string \<Rightarrow> jval \<Rightarrow> ('w, jval) mcp_prog" where
  "api_post V path body = call_api V ''POST'' path [] body"

definition api_put :: "'w mcp_env \<Rightarrow> string \<Rightarrow> jval \<Rightarrow> ('w, jval) mcp_prog" where
  "api_put V path body = call_api V ''PUT'' path [] body"

definition api_delete :: "'w mcp_env \<Rightarrow> string \<Rightarrow> ('w, jval) mcp_prog" where
  "api_delete V path = call_api V ''DELETE'' path [] JNull"

definition get_raw :: "'w mcp_env \<Rightarrow> string \<Rightarrow> (string \<times> jval) list \<Rightarrow> ('w, jval) mcp_prog" where
  "get_raw V path params =
     bnd (authorized V ''GET'' path params JNull) (\<lambda>r. lift_result (handle_raw path r))"

section \<open>The wrapper around a tool\<close>

definition result_envelope_ok :: "jval \<Rightarrow> bool option" where
  "result_envelope_ok v = (case v of
       JObj kvs \<Rightarrow> (case map_of kvs ''ok'' of Some (JBool b) \<Rightarrow> Some b | _ \<Rightarrow> None)
     | _ \<Rightarrow> None)"

fun outcome_of :: "exn + jval \<Rightarrow> tool_outcome" where
  "outcome_of (Inr v) = ToolOk (result_envelope_ok v)"
| "outcome_of (Inl (ApiError _ code m _)) = ToolApiError code m"
| "outcome_of (Inl e) = ToolUnexpected (exn_name e) (exn_str e)"

text \<open>No argument of the tool reaches the log.\<close>

definition instrumented :: "'w mcp_env \<Rightarrow> string \<Rightarrow> ('w, jval) mcp_prog \<Rightarrow> ('w, jval) mcp_prog" where
  "instrumented V tool body = bnd (new_request_id V) (\<lambda>rid.
     bnd (mcp_clock V) (\<lambda>start.
     andthen (do_when (ms_log_tool_starts (mv_settings V)) (mcp_log (ToolStarted tool rid)))
     (bnd (attempt body) (\<lambda>r.
      bnd (mcp_clock V) (\<lambda>t.
      andthen (mcp_log (ToolEnded tool rid (t - start) (outcome_of r))) (lift_result r))))))"

section \<open>What every tool keeps\<close>

text \<open>
  An invariant of the server's state that allows what tools do to it: to log, to take tokens and
  request ids, and to send a request whose method and path \<open>T\<close> accepts. Logins are always allowed.
\<close>

locale guarded =
  fixes J :: "'w mcp \<Rightarrow> bool" and T :: "string \<Rightarrow> string \<Rightarrow> bool"
  assumes on_world: "J s \<Longrightarrow> J (s\<lparr>mc_world := w\<rparr>)"
    and on_token: "J s \<Longrightarrow> J (s\<lparr>mc_token := t\<rparr>)"
    and on_request_id: "J s \<Longrightarrow> J (s\<lparr>mc_request_id := rid\<rparr>)"
    and on_log: "J s \<Longrightarrow> J (s\<lparr>mc_log := ls\<rparr>)"
    and on_send: "J s \<Longrightarrow> aq_login rq \<or> T (aq_method rq) (aq_path rq) \<Longrightarrow> J (s\<lparr>mc_sent := mc_sent s @ [rq]\<rparr>)"
begin

lemma pres_modify: "(\<And>s. J s \<Longrightarrow> J (f s)) \<Longrightarrow> pres J (modify f)"
  by (simp add: pres_def exec_simps)

lemma keep_world [pres_intros]: "pres J (mcp_world f)"
  unfolding mcp_world_def by (intro pres_modify on_world)

lemma keep_clock [pres_intros]: "pres J (mcp_clock V)"
  unfolding mcp_clock_def by (intro pres_intros)

lemma keep_now [pres_intros]: "pres J (mcp_now V)"
  unfolding mcp_now_def by (intro pres_intros)

lemma keep_log [pres_intros]: "pres J (mcp_log l)"
  unfolding mcp_log_def by (intro pres_modify on_log)

lemma keep_set_token [pres_intros]: "pres J (modify (\<lambda>s. s\<lparr>mc_token := t\<rparr>))"
  by (intro pres_modify on_token)

lemma keep_send [pres_intros]:
  assumes "aq_login rq \<or> T (aq_method rq) (aq_path rq)"
  shows "pres J (mcp_send V rq)"
proof -
  have "J (s\<lparr>mc_world := w, mc_sent := mc_sent s @ [rq]\<rparr>)" if "J s" for s w
    using on_send [OF on_world [OF that, of w] assms] by simp
  then show ?thesis by (auto simp: pres_def mcp_send_def split: prod.split)
qed

lemma keep_new_request_id [pres_intros]: "pres J (new_request_id V)"
  using on_request_id [OF on_world] by (auto simp: pres_def new_request_id_def split: prod.split)

lemma keep_store_token [pres_intros]: "pres J (store_token what code r)"
  unfolding store_token_def Let_def by (intro pres_intros)

lemma keep_post_auth [pres_intros]: "pres J (post_auth V path body)"
  unfolding post_auth_def by (intro pres_intros) simp

lemma keep_case_failure [pres_intros]:
  "(\<And>n m. pres J (f n m)) \<Longrightarrow> (\<And>e. pres J (g e)) \<Longrightarrow> pres J (case x of RequestFailed n m \<Rightarrow> f n m | SendOther e \<Rightarrow> g e)"
  by (cases x) auto

lemma keep_do_login [pres_intros]: "pres J (do_login V)"
  unfolding do_login_def by (intro pres_intros)

lemma keep_do_refresh [pres_intros]: "pres J (do_refresh V)"
  unfolding do_refresh_def by (intro pres_intros)

lemma keep_force_new_token [pres_intros]: "pres J (force_new_token V)"
  unfolding force_new_token_def do_refresh_or_login_def by (intro pres_intros)

lemma keep_get_token [pres_intros]: "pres J (get_token V)"
  unfolding get_token_def by (intro pres_intros)

lemma keep_attempt_call [pres_intros]:
  "T verb path \<Longrightarrow> pres J (attempt_call V verb path params body token)"
  unfolding attempt_call_def by (intro pres_intros) simp

lemma keep_authorized [pres_intros]: "T verb path \<Longrightarrow> pres J (authorized V verb path params body)"
  unfolding authorized_def by (intro pres_intros)

lemma keep_call_api: "T verb path \<Longrightarrow> pres J (call_api V verb path params body)"
  unfolding call_api_def by (intro pres_intros)

lemma keep_api_get [pres_intros]: "T ''GET'' path \<Longrightarrow> pres J (api_get V path params)"
  unfolding api_get_def by (rule keep_call_api)

lemma keep_get_raw [pres_intros]: "T ''GET'' path \<Longrightarrow> pres J (get_raw V path params)"
  unfolding get_raw_def by (intro pres_intros)

lemma keep_api_post [pres_intros]: "T ''POST'' path \<Longrightarrow> pres J (api_post V path body)"
  unfolding api_post_def by (rule keep_call_api)

lemma keep_api_put [pres_intros]: "T ''PUT'' path \<Longrightarrow> pres J (api_put V path body)"
  unfolding api_put_def by (rule keep_call_api)

lemma keep_api_delete [pres_intros]: "T ''DELETE'' path \<Longrightarrow> pres J (api_delete V path)"
  unfolding api_delete_def by (rule keep_call_api)

lemma keep_instrumented [pres_intros]: "pres J body \<Longrightarrow> pres J (instrumented V tool body)"
  unfolding instrumented_def by (intro pres_intros)

end

text \<open>Every request to the broker's API beyond those of \<open>B\<close>, logins apart, is accepted by \<open>T\<close>.\<close>

definition sends_only :: "(string \<Rightarrow> string \<Rightarrow> bool) \<Rightarrow> api_request set \<Rightarrow> 'w mcp \<Rightarrow> bool" where
  "sends_only T B s \<longleftrightarrow> (\<forall>r\<in>set (mc_sent s). r \<in> B \<or> aq_login r \<or> T (aq_method r) (aq_path r))"

interpretation sent: guarded "sends_only T B" T for T B
  by unfold_locales (auto simp: sends_only_def)

text \<open>The same, with the variable the handler reads as it was.\<close>

interpretation sent_untouched: guarded "\<lambda>s. sends_only T B s \<and> mc_subject s = v" T for T B v
  by unfold_locales (auto simp: sends_only_def)

end
