(* ===== verification/Mcp_Tools.thy ===== *)
theory Mcp_Tools
  imports Mcp_Client "HOL-Library.AList"
begin

text \<open>
  The thin tools of the MCP server, \<open>tools/\<close>: one request or a few to the broker each, behind the
  read-only gate and the \<open>confirm\<close> preview, with the polling loops of \<open>_polling.py\<close>. An
  argument the code only passes on is a JSON value, \<open>JNull\<close> where Python has \<open>None\<close>. Dashes in
  notes are written in ASCII.
\<close>

section \<open>Shared helpers\<close>

definition text_of_value :: "'w mcp_env \<Rightarrow> jval \<Rightarrow> string" where
  "text_of_value V v = str_of (mv_str V) v"

definition quoted :: "string \<Rightarrow> string" where
  "quoted s = CHR 0x27 # s @ [CHR 0x27]"

definition require_writable :: "'w mcp_env \<Rightarrow> string \<Rightarrow> ('w, unit) mcp_prog" where
  "require_writable V tool = do_when (ms_read_only (mv_settings V)) (throw (ApiError 403 ''READ_ONLY_MODE''
     (''Tool '' @ quoted tool @ '' is destructive and the MCP is in read-only mode. Restart with ''
      @ ''OPENVDI_MCP_READ_ONLY=false to enable mutations.'') JNull))"

definition dry_run_envelope ::
    "string \<Rightarrow> (string \<times> jval) list \<Rightarrow> jval \<Rightarrow> string \<Rightarrow> (string \<times> jval) list \<Rightarrow> jval" where
  "dry_run_envelope action target blocked_by note extra = JObj (fold (\<lambda>(k, v). AList.update k v) extra
     [(''ok'', JBool True), (''dry_run'', JBool True), (''action'', JStr action), (''target'', JObj target),
      (''blocked_by'', blocked_by), (''note'', JStr note)])"

text \<open>\<open>if value is not None: body[field] = value\<close>, field after field.\<close>

definition given :: "(string \<times> jval) list \<Rightarrow> (string \<times> jval) list" where
  "given kvs = filter (\<lambda>(k, v). v \<noteq> JNull) kvs"

definition paged :: "int \<Rightarrow> int \<Rightarrow> (string \<times> jval) list \<Rightarrow> (string \<times> jval) list" where
  "paged limit offset filters = [(''limit'', JInt limit), (''offset'', JInt offset)] @ given filters"

definition api_path :: "'w mcp_env \<Rightarrow> string \<Rightarrow> jval \<Rightarrow> string \<Rightarrow> string" where
  "api_path V resource i rest = ''/api/v1/'' @ resource @ ''/'' @ text_of_value V i @ rest"

text \<open>\<open>v[0] if v else None\<close>.\<close>

definition first_or_none :: "jval \<Rightarrow> exn + jval" where
  "first_or_none v =
     (if \<not> j_truthy v then Inr JNull
      else (case v of
          JList (x # xs) \<Rightarrow> Inr x
        | JStr (c # cs) \<Rightarrow> Inr (JStr [c])
        | JObj _ \<Rightarrow> Inl (PyKeyError ''0'')
        | _ \<Rightarrow> Inl (PyTypeError ''object is not subscriptable'')))"

text \<open>\<open>any(f(x) for x in xs)\<close> and \<open>next((x for x in xs if f(x)), None)\<close>.\<close>

fun find_eff :: "('x \<Rightarrow> ('s, bool) eff) \<Rightarrow> 'x list \<Rightarrow> ('s, 'x option) eff" where
  "find_eff f [] = ret None"
| "find_eff f (x # xs) = bnd (f x) (\<lambda>b. if b then ret (Some x) else find_eff f xs)"

definition id_and_name :: "jval \<Rightarrow> ('s, jval) eff" where
  "id_and_name v = bnd (py_item v ''id'') (\<lambda>i. bnd (py_item v ''name'') (\<lambda>n.
     ret (JObj [(''id'', i), (''name'', n)])))"

text \<open>\<open>{"pools": [...]} if pools else None\<close>.\<close>

definition blocking_pools :: "jval \<Rightarrow> ('s, jval) eff" where
  "blocking_pools pools =
     (if j_truthy pools
      then bnd (lift_result (py_iter pools)) (\<lambda>ps. bnd (map_eff id_and_name ps) (\<lambda>xs.
        ret (JObj [(''pools'', JList xs)])))
      else ret JNull)"

definition blocking_sessions :: "jval \<Rightarrow> jval" where
  "blocking_sessions sessions =
     (if j_truthy sessions then JObj [(''active_sessions'', sessions)] else JNull)"

definition active_sessions_of :: "'w mcp_env \<Rightarrow> string \<Rightarrow> jval \<Rightarrow> ('w, jval) mcp_prog" where
  "active_sessions_of V key i = api_get V ''/api/v1/sessions'' [(key, i), (''status'', JStr ''active'')]"

section \<open>Polling\<close>

text \<open>
  \<open>while time() < deadline\<close>: sleep, fetch, stop on a terminal state; at the deadline the last
  state is returned. The number bounds the rounds.
\<close>

primrec poll_terminal ::
    "'w mcp_env \<Rightarrow> ('w, jval) mcp_prog \<Rightarrow> (jval \<Rightarrow> exn + bool) \<Rightarrow> int \<Rightarrow> int \<Rightarrow> jval \<Rightarrow> nat \<Rightarrow> ('w, jval) mcp_prog" where
  "poll_terminal V fetch terminal deadline interval seen 0 = throw OutOfFuel"
| "poll_terminal V fetch terminal deadline interval seen (Suc n) = bnd (mcp_clock V) (\<lambda>t.
     if t < deadline
     then andthen (mcp_world (e_sleep (mv_env V) interval))
       (bnd fetch (\<lambda>state. bnd (lift_result (terminal state)) (\<lambda>b.
         if b then ret state else poll_terminal V fetch terminal deadline interval state n)))
     else ret seen)"

definition wait_for_terminal ::
    "'w mcp_env \<Rightarrow> ('w, jval) mcp_prog \<Rightarrow> (jval \<Rightarrow> exn + bool) \<Rightarrow> int \<Rightarrow> ('w, jval) mcp_prog" where
  "wait_for_terminal V fetch terminal timeout = bnd (mcp_clock V) (\<lambda>start.
     bnd fetch (\<lambda>state. bnd (lift_result (terminal state)) (\<lambda>b.
       if b then ret state
       else poll_terminal V fetch terminal (start + 1000 * timeout) 2000 state (nat timeout + 2))))"

definition wait_for_pool_terminal_state ::
    "'w mcp_env \<Rightarrow> ('w, jval) mcp_prog \<Rightarrow> (jval \<Rightarrow> exn + bool) \<Rightarrow> int \<Rightarrow> ('w, jval) mcp_prog" where
  "wait_for_pool_terminal_state V fetch terminal timeout = wait_for_terminal V fetch terminal timeout"

definition wait_for_desktop_terminal_state ::
    "'w mcp_env \<Rightarrow> ('w, jval) mcp_prog \<Rightarrow> (jval \<Rightarrow> exn + bool) \<Rightarrow> int \<Rightarrow> ('w, jval) mcp_prog" where
  "wait_for_desktop_terminal_state V fetch terminal timeout = wait_for_terminal V fetch terminal timeout"

text \<open>\<open>state.get(k, d)\<close> as a pure result.\<close>

definition get_field :: "jval \<Rightarrow> string \<Rightarrow> jval \<Rightarrow> exn + jval" where
  "get_field v k d = (case v of JObj kvs \<Rightarrow> Inr (get_or kvs k d) | _ \<Rightarrow> Inl (PyAttributeError ''get''))"

definition pool_provision_terminal :: "jval \<Rightarrow> exn + bool" where
  "pool_provision_terminal state = sum_bind (get_field state ''capacity'' JNull) (\<lambda>c.
     let capacity = or_else c (JObj []) in
     sum_bind (get_field capacity ''provisioning'' (JInt 0)) (\<lambda>p.
     sum_bind (get_field capacity ''deleting'' (JInt 0)) (\<lambda>d.
     sum_bind (py_add p d) (\<lambda>n. Inr (eq_int n 0)))))"

definition pool_drain_terminal :: "jval \<Rightarrow> exn + bool" where
  "pool_drain_terminal state =
     sum_bind (get_field state ''_active_session_count'' (JInt 0)) (\<lambda>n. Inr (eq_int n 0))"

definition desktop_power_terminal :: "string \<Rightarrow> jval \<Rightarrow> exn + bool" where
  "desktop_power_terminal target state =
     sum_bind (get_field state ''power_state'' JNull) (\<lambda>p. Inr (p = JStr target))"

definition desktop_rebuild_terminal :: "jval \<Rightarrow> exn + bool" where
  "desktop_rebuild_terminal state = sum_bind (get_field state ''status'' JNull) (\<lambda>st.
     if st \<noteq> JStr ''available'' then Inr False
     else sum_bind (get_field state ''power_state'' JNull) (\<lambda>p. Inr (p = JStr ''running'')))"

section \<open>Clusters\<close>

definition openvdi_list_clusters :: "'w mcp_env \<Rightarrow> ('w, jval) mcp_prog" where
  "openvdi_list_clusters V = instrumented V ''openvdi_list_clusters'' (api_get V ''/api/v1/clusters'' [])"

definition openvdi_get_cluster :: "'w mcp_env \<Rightarrow> jval \<Rightarrow> ('w, jval) mcp_prog" where
  "openvdi_get_cluster V i =
     instrumented V ''openvdi_get_cluster'' (api_get V (api_path V ''clusters'' i []) [])"

definition openvdi_create_cluster ::
    "'w mcp_env \<Rightarrow> jval \<Rightarrow> jval \<Rightarrow> jval \<Rightarrow> jval \<Rightarrow> jval \<Rightarrow> jval \<Rightarrow> jval \<Rightarrow> ('w, jval) mcp_prog" where
  "openvdi_create_cluster V name api_url token_id token_secret verify_ssl node_filter provider_type =
     instrumented V ''openvdi_create_cluster'' (andthen (require_writable V ''openvdi_create_cluster'')
       (api_post V ''/api/v1/clusters'' (JObj (
         [(''name'', name), (''api_url'', api_url), (''token_id'', token_id), (''token_secret'', token_secret),
          (''verify_ssl'', verify_ssl), (''provider_type'', provider_type)]
         @ given [(''node_filter'', node_filter)]))))"

definition openvdi_update_cluster ::
    "'w mcp_env \<Rightarrow> jval \<Rightarrow> jval \<Rightarrow> jval \<Rightarrow> jval \<Rightarrow> jval \<Rightarrow> jval \<Rightarrow> jval \<Rightarrow> ('w, jval) mcp_prog" where
  "openvdi_update_cluster V i name api_url token_id token_secret verify_ssl node_filter =
     instrumented V ''openvdi_update_cluster'' (andthen (require_writable V ''openvdi_update_cluster'')
       (api_put V (api_path V ''clusters'' i []) (JObj (
         given [(''name'', name), (''api_url'', api_url), (''token_id'', token_id),
           (''token_secret'', token_secret), (''verify_ssl'', verify_ssl)]
         @ (if node_filter = JNull then []
            else [(''node_filter'', if node_filter = JStr [] then JNull else node_filter)])))))"

definition openvdi_delete_cluster :: "'w mcp_env \<Rightarrow> jval \<Rightarrow> bool \<Rightarrow> ('w, jval) mcp_prog" where
  "openvdi_delete_cluster V i confirm =
     instrumented V ''openvdi_delete_cluster'' (andthen (require_writable V ''openvdi_delete_cluster'')
       (if confirm then api_delete V (api_path V ''clusters'' i [])
        else bnd (api_get V (api_path V ''clusters'' i []) []) (\<lambda>cluster.
          bnd (api_get V ''/api/v1/pools'' [(''cluster_id'', i)]) (\<lambda>pools.
          bnd (as_dict cluster) (\<lambda>c.
          bnd (blocking_pools pools) (\<lambda>blocked.
          ret (dry_run_envelope ''delete_cluster''
            [(''id'', i), (''name'', get_or c ''name'' (JStr ''<unknown>''))] blocked
            (''Pass confirm=True to execute. CONFLICT will be raised ''
             @ ''if any pools reference the cluster at execution time.'') [])))))))"

section \<open>Templates\<close>

definition openvdi_list_templates ::
    "'w mcp_env \<Rightarrow> jval \<Rightarrow> jval \<Rightarrow> jval \<Rightarrow> int \<Rightarrow> int \<Rightarrow> ('w, jval) mcp_prog" where
  "openvdi_list_templates V cluster_id os_type status limit offset =
     instrumented V ''openvdi_list_templates'' (api_get V ''/api/v1/templates''
       (paged limit offset [(''cluster_id'', cluster_id), (''os_type'', os_type), (''status'', status)]))"

definition openvdi_get_template :: "'w mcp_env \<Rightarrow> jval \<Rightarrow> ('w, jval) mcp_prog" where
  "openvdi_get_template V i =
     instrumented V ''openvdi_get_template'' (api_get V (api_path V ''templates'' i []) [])"

definition openvdi_register_template ::
    "'w mcp_env \<Rightarrow> jval \<Rightarrow> jval \<Rightarrow> jval \<Rightarrow> jval \<Rightarrow> jval \<Rightarrow> jval \<Rightarrow> jval \<Rightarrow> jval \<Rightarrow> jval \<Rightarrow> jval \<Rightarrow> ('w, jval) mcp_prog" where
  "openvdi_register_template V cluster_id name pve_vmid pve_node os_type cpu_cores memory_mb disk_gb
       description gpu_required =
     instrumented V ''openvdi_register_template'' (andthen (require_writable V ''openvdi_register_template'')
       (api_post V ''/api/v1/templates'' (JObj (
         [(''cluster_id'', cluster_id), (''name'', name), (''pve_vmid'', pve_vmid), (''pve_node'', pve_node),
          (''os_type'', os_type), (''cpu_cores'', cpu_cores), (''memory_mb'', memory_mb),
          (''disk_gb'', disk_gb), (''gpu_required'', gpu_required)]
         @ given [(''description'', description)]))))"

definition openvdi_update_template ::
    "'w mcp_env \<Rightarrow> jval \<Rightarrow> jval \<Rightarrow> jval \<Rightarrow> jval \<Rightarrow> jval \<Rightarrow> jval \<Rightarrow> jval \<Rightarrow> jval \<Rightarrow> ('w, jval) mcp_prog" where
  "openvdi_update_template V i name description os_type cpu_cores memory_mb disk_gb gpu_required =
     instrumented V ''openvdi_update_template'' (andthen (require_writable V ''openvdi_update_template'')
       (api_put V (api_path V ''templates'' i []) (JObj (given
         [(''name'', name), (''description'', description), (''os_type'', os_type), (''cpu_cores'', cpu_cores),
          (''memory_mb'', memory_mb), (''disk_gb'', disk_gb), (''gpu_required'', gpu_required)]))))"

definition openvdi_validate_template :: "'w mcp_env \<Rightarrow> jval \<Rightarrow> ('w, jval) mcp_prog" where
  "openvdi_validate_template V i =
     instrumented V ''openvdi_validate_template'' (andthen (require_writable V ''openvdi_validate_template'')
       (api_post V (api_path V ''templates'' i ''/validate'') JNull))"

definition openvdi_retire_template :: "'w mcp_env \<Rightarrow> jval \<Rightarrow> bool \<Rightarrow> ('w, jval) mcp_prog" where
  "openvdi_retire_template V i confirm =
     instrumented V ''openvdi_retire_template'' (andthen (require_writable V ''openvdi_retire_template'')
       (if confirm then api_delete V (api_path V ''templates'' i [])
        else bnd (api_get V (api_path V ''templates'' i []) []) (\<lambda>template.
          bnd (api_get V ''/api/v1/pools'' [(''template_id'', i)]) (\<lambda>pools.
          bnd (as_dict template) (\<lambda>t.
          bnd (blocking_pools pools) (\<lambda>blocked.
          ret (dry_run_envelope ''retire_template''
            [(''id'', i), (''name'', get_or t ''name'' (JStr ''<unknown>''))] blocked
            (''Pass confirm=True to retire. CONFLICT will be raised ''
             @ ''if any pools reference the template at execution time. ''
             @ ''Retirement is reversible via openvdi_validate_template ''
             @ ''once the pool dependency is cleared.'') [])))))))"

section \<open>Entitlements\<close>

definition openvdi_list_entitlements :: "'w mcp_env \<Rightarrow> jval \<Rightarrow> jval \<Rightarrow> ('w, jval) mcp_prog" where
  "openvdi_list_entitlements V pool_id principal_type =
     instrumented V ''openvdi_list_entitlements''
       (api_get V (api_path V ''pools'' pool_id ''/entitlements'') (given [(''principal_type'', principal_type)]))"

definition openvdi_grant_entitlement :: "'w mcp_env \<Rightarrow> jval \<Rightarrow> jval \<Rightarrow> jval \<Rightarrow> ('w, jval) mcp_prog" where
  "openvdi_grant_entitlement V pool_id principal_type principal_name =
     instrumented V ''openvdi_grant_entitlement'' (andthen (require_writable V ''openvdi_grant_entitlement'')
       (api_post V (api_path V ''pools'' pool_id ''/entitlements'')
         (JObj [(''principal_type'', principal_type), (''principal_name'', principal_name)])))"

definition openvdi_revoke_entitlement ::
    "'w mcp_env \<Rightarrow> jval \<Rightarrow> string \<Rightarrow> bool \<Rightarrow> ('w, jval) mcp_prog" where
  "openvdi_revoke_entitlement V pool_id entitlement_id confirm =
     instrumented V ''openvdi_revoke_entitlement'' (andthen (require_writable V ''openvdi_revoke_entitlement'')
       (if confirm then api_delete V (api_path V ''pools'' pool_id (''/entitlements/'' @ entitlement_id))
        else bnd (api_get V (api_path V ''pools'' pool_id ''/entitlements'') []) (\<lambda>listed.
          bnd (lift_result (py_iter listed)) (\<lambda>es.
          bnd (find_eff (\<lambda>e. bnd (py_item e ''id'') (\<lambda>i. ret (i = JStr entitlement_id))) es) (\<lambda>found.
          case found of
            None \<Rightarrow> throw (ApiError 404 ''NOT_FOUND''
              (''entitlement '' @ entitlement_id @ '' not found on pool '' @ text_of_value V pool_id) JNull)
          | Some ent \<Rightarrow>
              bnd (py_item ent ''principal_type'') (\<lambda>ptype.
              bnd (if ptype = JStr ''user''
                then bnd (py_item ent ''principal_name'') (\<lambda>user.
                  api_get V ''/api/v1/sessions''
                    [(''username'', user), (''pool_id'', pool_id), (''status'', JStr ''active'')])
                else ret (JList [])) (\<lambda>sessions.
              bnd (py_item ent ''principal_name'') (\<lambda>pname.
              ret (dry_run_envelope ''revoke_entitlement''
                [(''id'', JStr entitlement_id), (''principal_type'', ptype), (''principal_name'', pname)] JNull
                (''Active sessions persist after revocation; the broker only blocks NEW connect requests. ''
                 @ ''Use openvdi_force_disconnect_session to end existing sessions.'')
                [(''active_sessions'', sessions)])))))))))"

section \<open>Sessions\<close>

definition openvdi_list_sessions ::
    "'w mcp_env \<Rightarrow> jval \<Rightarrow> jval \<Rightarrow> jval \<Rightarrow> jval \<Rightarrow> int \<Rightarrow> int \<Rightarrow> ('w, jval) mcp_prog" where
  "openvdi_list_sessions V pool_id desktop_id username status limit offset =
     instrumented V ''openvdi_list_sessions'' (api_get V ''/api/v1/sessions'' (paged limit offset
       [(''pool_id'', pool_id), (''desktop_id'', desktop_id), (''username'', username), (''status'', status)]))"

definition openvdi_get_session :: "'w mcp_env \<Rightarrow> jval \<Rightarrow> ('w, jval) mcp_prog" where
  "openvdi_get_session V i =
     instrumented V ''openvdi_get_session'' (api_get V (api_path V ''sessions'' i []) [])"

definition openvdi_force_disconnect_session :: "'w mcp_env \<Rightarrow> jval \<Rightarrow> bool \<Rightarrow> ('w, jval) mcp_prog" where
  "openvdi_force_disconnect_session V i confirm =
     instrumented V ''openvdi_force_disconnect_session''
      (andthen (require_writable V ''openvdi_force_disconnect_session'')
       (if confirm then api_delete V (api_path V ''sessions'' i [])
        else bnd (api_get V (api_path V ''sessions'' i []) []) (\<lambda>session.
          bnd (as_dict session) (\<lambda>kvs.
          ret (dry_run_envelope ''force_disconnect_session''
            [(''id'', i), (''username'', get_or kvs ''username'' JNull),
             (''desktop_id'', get_or kvs ''desktop_id'' JNull), (''desktop_name'', get_or kvs ''desktop_name'' JNull),
             (''status'', get_or kvs ''status'' JNull), (''connected_at'', get_or kvs ''connected_at'' JNull)] JNull
            (''Session is force-ended; user's connection drops. ''
             @ ''Idempotent on already-ended sessions. Pass confirm=True to execute.'') [])))))"

section \<open>Dashboard, audit and users\<close>

definition openvdi_get_dashboard_summary :: "'w mcp_env \<Rightarrow> ('w, jval) mcp_prog" where
  "openvdi_get_dashboard_summary V =
     instrumented V ''openvdi_get_dashboard_summary'' (api_get V ''/api/v1/dashboard/summary'' [])"

definition openvdi_get_dashboard_capacity :: "'w mcp_env \<Rightarrow> ('w, jval) mcp_prog" where
  "openvdi_get_dashboard_capacity V =
     instrumented V ''openvdi_get_dashboard_capacity'' (api_get V ''/api/v1/dashboard/capacity'' [])"

definition openvdi_query_audit ::
    "'w mcp_env \<Rightarrow> jval \<Rightarrow> jval \<Rightarrow> jval \<Rightarrow> jval \<Rightarrow> jval \<Rightarrow> jval \<Rightarrow> int \<Rightarrow> int \<Rightarrow> ('w, jval) mcp_prog" where
  "openvdi_query_audit V actor action resource_type resource_id since until_at limit offset =
     instrumented V ''openvdi_query_audit'' (api_get V ''/api/v1/audit'' (paged limit offset
       [(''actor'', actor), (''action'', action), (''resource_type'', resource_type),
        (''resource_id'', resource_id), (''since'', since), (''until'', until_at)]))"

definition openvdi_list_user_desktops :: "'w mcp_env \<Rightarrow> jval \<Rightarrow> ('w, jval) mcp_prog" where
  "openvdi_list_user_desktops V user = instrumented V ''openvdi_list_user_desktops''
     (api_get V (api_path V ''admin/users'' user ''/desktops'') [])"

definition openvdi_list_user_sessions :: "'w mcp_env \<Rightarrow> jval \<Rightarrow> bool \<Rightarrow> int \<Rightarrow> ('w, jval) mcp_prog" where
  "openvdi_list_user_sessions V user include_ended limit = instrumented V ''openvdi_list_user_sessions''
     (api_get V (api_path V ''admin/users'' user ''/sessions'')
       [(''include_ended'', JBool include_ended), (''limit'', JInt limit)])"

end
