(* ===== verification/Mcp_Pools.thy ===== *)
theory Mcp_Pools
  imports Mcp_Tools
begin

text \<open>
  The pool and desktop tools of the MCP server, \<open>tools/pools.py\<close> and \<open>tools/desktops.py\<close>: those
  that start work in the broker post and then poll until the pool or desktop settles.
\<close>

section \<open>Pools\<close>

definition pool_path :: "'w mcp_env \<Rightarrow> jval \<Rightarrow> string \<Rightarrow> string" where
  "pool_path V i rest = api_path V ''pools'' i rest"

definition openvdi_list_pools ::
    "'w mcp_env \<Rightarrow> jval \<Rightarrow> jval \<Rightarrow> jval \<Rightarrow> jval \<Rightarrow> int \<Rightarrow> int \<Rightarrow> ('w, jval) mcp_prog" where
  "openvdi_list_pools V cluster_id template_id pool_type status limit offset =
     instrumented V ''openvdi_list_pools'' (api_get V ''/api/v1/pools'' (paged limit offset
       [(''cluster_id'', cluster_id), (''template_id'', template_id), (''pool_type'', pool_type),
        (''status'', status)]))"

definition openvdi_get_pool :: "'w mcp_env \<Rightarrow> jval \<Rightarrow> ('w, jval) mcp_prog" where
  "openvdi_get_pool V i = instrumented V ''openvdi_get_pool'' (api_get V (pool_path V i []) [])"

text \<open>The counts under the names of the summary, from those of the broker's \<open>PoolCapacityDetail\<close>.\<close>

definition capacity_summary :: "(string \<times> jval) list \<Rightarrow> (string \<times> jval) list" where
  "capacity_summary raw = map (\<lambda>(k, source). (k, get_or raw source (JInt 0)))
     [(''total'', ''total_desktops''), (''available'', ''available''), (''assigned'', ''assigned''),
      (''connected'', ''connected''), (''disconnected'', ''disconnected''),
      (''provisioning'', ''provisioning''), (''error'', ''error''), (''deleting'', ''deleting''),
      (''free_slots'', ''free_slots'')]"

definition pool_issues ::
    "'w mcp_env \<Rightarrow> (string \<times> jval) list \<Rightarrow> (string \<times> jval) list \<Rightarrow> jval \<Rightarrow> exn + jval list" where
  "pool_issues V pool capacity min_spare =
     sum_bind (py_less (JInt 0) (get_or capacity ''error'' JNull)) (\<lambda>errors.
     sum_bind (if get_or pool ''pool_type'' JNull = JStr ''nonpersistent''
       then py_less (get_or capacity ''available'' JNull) min_spare else Inr False) (\<lambda>short.
     Inr (map JStr
       ((if errors then [text_of_value V (get_or capacity ''error'' JNull) @ '' desktop(s) in error state''] else [])
        @ (if short then [''available ('' @ text_of_value V (get_or capacity ''available'' JNull)
             @ '') below min_spare ('' @ text_of_value V min_spare @ '')''] else [])
        @ (if get_or pool ''status'' JNull = JStr ''draining''
           then [''pool is draining; new connections rejected''] else [])
        @ (if get_or pool ''status'' JNull = JStr ''error'' then [''pool is in error state''] else [])))))"

definition openvdi_get_pool_summary :: "'w mcp_env \<Rightarrow> jval \<Rightarrow> ('w, jval) mcp_prog" where
  "openvdi_get_pool_summary V i = instrumented V ''openvdi_get_pool_summary''
     (bnd (api_get V (pool_path V i []) []) (\<lambda>v.
      bnd (as_dict v) (\<lambda>pool.
      bnd (as_dict (or_else (get_or pool ''capacity'' JNull) (JObj []))) (\<lambda>raw.
      let capacity = capacity_summary raw; min_spare = get_or pool ''min_spare'' (JInt 0) in
      bnd (lift_result (pool_issues V pool capacity min_spare)) (\<lambda>issues.
      bnd (dict_item pool ''id'') (\<lambda>pid.
      bnd (dict_item pool ''name'') (\<lambda>name.
      bnd (dict_item pool ''status'') (\<lambda>status.
      bnd (dict_item pool ''pool_type'') (\<lambda>pool_type.
      ret (JObj [(''id'', pid), (''name'', name), (''display_name'', get_or pool ''display_name'' JNull),
        (''status'', status), (''pool_type'', pool_type), (''capacity'', JObj capacity),
        (''min_spare'', min_spare), (''max_size'', get_or pool ''max_size'' JNull),
        (''issues'', JList issues)]))))))))))"

text \<open>The arguments of \<open>create_pool\<close>, in the order of the body it sends.\<close>

record pool_args =
  pa_name :: jval
  pa_display_name :: jval
  pa_pool_type :: jval
  pa_template_id :: jval
  pa_cluster_id :: jval
  pa_vmid_range_start :: jval
  pa_vmid_range_end :: jval
  pa_name_prefix :: jval
  pa_min_spare :: jval
  pa_max_size :: jval
  pa_auto_logoff_min :: jval
  pa_delete_on_logoff :: jval
  pa_refresh_on_logoff :: jval
  pa_description :: jval
  pa_target_nodes :: jval
  pa_cpu_cores :: jval
  pa_memory_mb :: jval
  pa_pve_pool_id :: jval

definition create_pool_body :: "pool_args \<Rightarrow> (string \<times> jval) list" where
  "create_pool_body a =
     [(''name'', pa_name a), (''display_name'', pa_display_name a), (''pool_type'', pa_pool_type a),
      (''template_id'', pa_template_id a), (''cluster_id'', pa_cluster_id a),
      (''vmid_range_start'', pa_vmid_range_start a), (''vmid_range_end'', pa_vmid_range_end a),
      (''name_prefix'', pa_name_prefix a), (''min_spare'', pa_min_spare a), (''max_size'', pa_max_size a),
      (''auto_logoff_min'', pa_auto_logoff_min a), (''delete_on_logoff'', pa_delete_on_logoff a),
      (''refresh_on_logoff'', pa_refresh_on_logoff a)]
     @ given [(''description'', pa_description a), (''target_nodes'', pa_target_nodes a),
      (''cpu_cores'', pa_cpu_cores a), (''memory_mb'', pa_memory_mb a), (''pve_pool_id'', pa_pve_pool_id a)]"

definition openvdi_create_pool :: "'w mcp_env \<Rightarrow> pool_args \<Rightarrow> ('w, jval) mcp_prog" where
  "openvdi_create_pool V a =
     instrumented V ''openvdi_create_pool'' (andthen (require_writable V ''openvdi_create_pool'')
       (api_post V ''/api/v1/pools'' (JObj (create_pool_body a))))"

definition openvdi_update_pool ::
    "'w mcp_env \<Rightarrow> jval \<Rightarrow> jval \<Rightarrow> jval \<Rightarrow> jval \<Rightarrow> jval \<Rightarrow> jval \<Rightarrow> jval \<Rightarrow> jval \<Rightarrow> jval \<Rightarrow> jval \<Rightarrow> jval \<Rightarrow> ('w, jval) mcp_prog" where
  "openvdi_update_pool V i display_name description min_spare max_size cpu_cores memory_mb
       auto_logoff_min delete_on_logoff refresh_on_logoff target_nodes =
     instrumented V ''openvdi_update_pool'' (andthen (require_writable V ''openvdi_update_pool'')
       (api_put V (pool_path V i []) (JObj (given
         [(''display_name'', display_name), (''description'', description), (''min_spare'', min_spare),
          (''max_size'', max_size), (''cpu_cores'', cpu_cores), (''memory_mb'', memory_mb),
          (''auto_logoff_min'', auto_logoff_min), (''delete_on_logoff'', delete_on_logoff),
          (''refresh_on_logoff'', refresh_on_logoff), (''target_nodes'', target_nodes)]))))"

definition preview_delete_pool :: "'w mcp_env \<Rightarrow> jval \<Rightarrow> ('w, jval) mcp_prog" where
  "preview_delete_pool V i =
     bnd (api_get V (pool_path V i []) []) (\<lambda>v.
     bnd (active_sessions_of V ''pool_id'' i) (\<lambda>sessions.
     bnd (api_get V (pool_path V i ''/entitlements'') []) (\<lambda>entitlements.
     bnd (as_dict v) (\<lambda>pool.
     bnd (as_dict (or_else (get_or pool ''capacity'' JNull) (JObj []))) (\<lambda>capacity.
     bnd (lift_result (py_len sessions)) (\<lambda>ns.
     bnd (lift_result (py_len entitlements)) (\<lambda>ne.
     ret (dry_run_envelope ''delete_pool''
       [(''id'', i), (''name'', get_or pool ''name'' JNull), (''display_name'', get_or pool ''display_name'' JNull)]
       JNull
       (''Cascades through desktops (destroyed), entitlements (removed), and active sessions (force-ended). ''
        @ ''Pass confirm=True to execute.'')
       [(''would_destroy'', JObj [(''desktops'', get_or capacity ''total_desktops'' (JInt 0)),
          (''active_sessions'', JInt ns), (''entitlements'', JInt ne)])]))))))))"

definition openvdi_delete_pool :: "'w mcp_env \<Rightarrow> jval \<Rightarrow> bool \<Rightarrow> ('w, jval) mcp_prog" where
  "openvdi_delete_pool V i confirm =
     instrumented V ''openvdi_delete_pool'' (andthen (require_writable V ''openvdi_delete_pool'')
       (if confirm then api_delete V (pool_path V i []) else preview_delete_pool V i))"

text \<open>\<open>_PROVISION_TIMEOUT_SECONDS\<close> and \<open>_DRAIN_TIMEOUT_SECONDS\<close>.\<close>

definition provision_timeout :: int where
  "provision_timeout = 300"

definition drain_timeout :: int where
  "drain_timeout = 600"

definition openvdi_provision_pool :: "'w mcp_env \<Rightarrow> jval \<Rightarrow> int \<Rightarrow> int \<Rightarrow> ('w, jval) mcp_prog" where
  "openvdi_provision_pool V i count timeout =
     instrumented V ''openvdi_provision_pool'' (andthen (require_writable V ''openvdi_provision_pool'')
       (andthen (api_post V (pool_path V i ''/provision'') (JObj [(''count'', JInt count)]))
         (wait_for_pool_terminal_state V (api_get V (pool_path V i []) []) pool_provision_terminal timeout)))"

definition preview_drain_pool :: "'w mcp_env \<Rightarrow> jval \<Rightarrow> ('w, jval) mcp_prog" where
  "preview_drain_pool V i =
     bnd (api_get V (pool_path V i []) []) (\<lambda>v.
     bnd (active_sessions_of V ''pool_id'' i) (\<lambda>sessions.
     bnd (as_dict v) (\<lambda>pool.
     bnd (lift_result (py_iter sessions)) (\<lambda>ss.
     bnd (map_eff (\<lambda>x. bnd (py_item x ''id'') (\<lambda>sid. bnd (as_dict x) (\<lambda>kvs.
       ret (JObj [(''id'', sid), (''username'', get_or kvs ''username'' JNull)])))) ss) (\<lambda>xs.
     ret (dry_run_envelope ''drain_pool'' [(''id'', i), (''name'', get_or pool ''name'' JNull)] JNull
       (''Drain stops new connections and waits for active sessions to end naturally. Pool stays ''
        @ quoted ''draining'' @ '' until you delete or re-enable it. Pass confirm=True to execute.'')
       [(''active_sessions'', JList xs)]))))))"

definition drain_state :: "'w mcp_env \<Rightarrow> jval \<Rightarrow> ('w, jval) mcp_prog" where
  "drain_state V i =
     bnd (api_get V (pool_path V i []) []) (\<lambda>pool.
     bnd (active_sessions_of V ''pool_id'' i) (\<lambda>sessions.
     case pool of
       JObj kvs \<Rightarrow> bnd (lift_result (py_len sessions)) (\<lambda>n.
         ret (JObj (AList.update ''_active_session_count'' (JInt n) kvs)))
     | _ \<Rightarrow> throw (PyTypeError ''object is not a mapping'')))"

definition openvdi_drain_pool :: "'w mcp_env \<Rightarrow> jval \<Rightarrow> bool \<Rightarrow> int \<Rightarrow> ('w, jval) mcp_prog" where
  "openvdi_drain_pool V i confirm timeout =
     instrumented V ''openvdi_drain_pool'' (andthen (require_writable V ''openvdi_drain_pool'')
       (if confirm
        then andthen (api_post V (pool_path V i ''/drain'') JNull)
          (wait_for_pool_terminal_state V (drain_state V i) pool_drain_terminal timeout)
        else preview_drain_pool V i))"

section \<open>Desktops\<close>

definition desktop_path :: "'w mcp_env \<Rightarrow> jval \<Rightarrow> string \<Rightarrow> string" where
  "desktop_path V i rest = api_path V ''desktops'' i rest"

definition openvdi_list_desktops ::
    "'w mcp_env \<Rightarrow> jval \<Rightarrow> jval \<Rightarrow> jval \<Rightarrow> int \<Rightarrow> int \<Rightarrow> ('w, jval) mcp_prog" where
  "openvdi_list_desktops V pool_id status assigned_user limit offset =
     instrumented V ''openvdi_list_desktops'' (api_get V ''/api/v1/desktops'' (paged limit offset
       [(''pool_id'', pool_id), (''status'', status), (''assigned_user'', assigned_user)]))"

definition openvdi_get_desktop :: "'w mcp_env \<Rightarrow> jval \<Rightarrow> ('w, jval) mcp_prog" where
  "openvdi_get_desktop V i =
     instrumented V ''openvdi_get_desktop'' (api_get V (desktop_path V i []) [])"

definition entitles_user :: "string \<Rightarrow> jval \<Rightarrow> ('s, bool) eff" where
  "entitles_user user e = bnd (py_item e ''principal_type'') (\<lambda>ty.
     if ty \<noteq> JStr ''user'' then ret False
     else bnd (py_item e ''principal_name'') (\<lambda>n. case n of
         JStr s \<Rightarrow> ret (py_lower s = py_lower user)
       | _ \<Rightarrow> throw (PyAttributeError ''lower'')))"

definition preview_assign_desktop :: "'w mcp_env \<Rightarrow> jval \<Rightarrow> string \<Rightarrow> ('w, jval) mcp_prog" where
  "preview_assign_desktop V i user =
     bnd (api_get V (desktop_path V i []) []) (\<lambda>desktop.
     bnd (py_item desktop ''pool_id'') (\<lambda>pool_id.
     bnd (api_get V (pool_path V pool_id ''/entitlements'') []) (\<lambda>entitlements.
     bnd (lift_result (py_iter entitlements)) (\<lambda>es.
     bnd (find_eff (entitles_user user) es) (\<lambda>found.
     bnd (as_dict desktop) (\<lambda>kvs.
     ret (dry_run_envelope ''assign_desktop''
       [(''id'', i), (''name'', get_or kvs ''name'' JNull), (''pool_id'', pool_id),
        (''current_assigned_user'', get_or kvs ''assigned_user'' JNull), (''new_assigned_user'', JStr user)] JNull
       (''Reassignment overwrites existing assignment. If user_directly_entitled is False, the user may still ''
        @ ''be entitled via group membership; broker enforces the actual entitlement check on connect, not on ''
        @ ''assign.'')
       [(''user_directly_entitled'', JBool (found \<noteq> None)),
        (''user_may_be_group_entitled'', if found = None then JBool True else JNull)])))))))"

definition openvdi_assign_desktop :: "'w mcp_env \<Rightarrow> jval \<Rightarrow> string \<Rightarrow> bool \<Rightarrow> ('w, jval) mcp_prog" where
  "openvdi_assign_desktop V i user confirm =
     instrumented V ''openvdi_assign_desktop'' (andthen (require_writable V ''openvdi_assign_desktop'')
       (if confirm then api_post V (desktop_path V i ''/assign'') (JObj [(''username'', JStr user)])
        else preview_assign_desktop V i user))"

text \<open>The previews of the other desktop tools read the desktop and its active sessions.\<close>

definition desktop_and_sessions ::
    "'w mcp_env \<Rightarrow> jval \<Rightarrow> ((string \<times> jval) list \<Rightarrow> jval \<Rightarrow> ('w, jval) mcp_prog) \<Rightarrow> ('w, jval) mcp_prog" where
  "desktop_and_sessions V i preview =
     bnd (api_get V (desktop_path V i []) []) (\<lambda>desktop.
     bnd (active_sessions_of V ''desktop_id'' i) (\<lambda>sessions.
     bnd (as_dict desktop) (\<lambda>kvs. preview kvs sessions)))"

definition openvdi_unassign_desktop :: "'w mcp_env \<Rightarrow> jval \<Rightarrow> bool \<Rightarrow> ('w, jval) mcp_prog" where
  "openvdi_unassign_desktop V i confirm =
     instrumented V ''openvdi_unassign_desktop'' (andthen (require_writable V ''openvdi_unassign_desktop'')
       (if confirm then api_post V (desktop_path V i ''/unassign'') JNull
        else desktop_and_sessions V i (\<lambda>kvs sessions. ret (dry_run_envelope ''unassign_desktop''
          [(''id'', i), (''name'', get_or kvs ''name'' JNull),
           (''current_assigned_user'', get_or kvs ''assigned_user'' JNull)]
          (blocking_sessions sessions)
          (''Broker rejects unassignment when an active session exists. Force-disconnect the session first, ''
           @ ''then retry with confirm=True.'') []))))"

definition preview_rebuild_desktop ::
    "jval \<Rightarrow> (string \<times> jval) list \<Rightarrow> jval \<Rightarrow> ('w, jval) mcp_prog" where
  "preview_rebuild_desktop i kvs sessions = bnd (dict_item kvs ''pool_id'') (\<lambda>pool_id.
     ret (dry_run_envelope ''rebuild_desktop''
       [(''id'', i), (''name'', get_or kvs ''name'' JNull), (''pool_id'', pool_id),
        (''assigned_user'', get_or kvs ''assigned_user'' JNull)]
       (blocking_sessions sessions)
       (''Rebuild preserves assignment but destroys disk data. Broker rejects rebuild while an active ''
        @ ''session exists -- force-disconnect first if blocked. Long-running (60-300s typical); tool ''
        @ ''polls until complete or timeout.'')
       [(''destructive'', JStr (''User data on the desktop's disk will be lost; assignment survives.''))]))"

definition openvdi_rebuild_desktop :: "'w mcp_env \<Rightarrow> jval \<Rightarrow> bool \<Rightarrow> int \<Rightarrow> ('w, jval) mcp_prog" where
  "openvdi_rebuild_desktop V i confirm timeout =
     instrumented V ''openvdi_rebuild_desktop'' (andthen (require_writable V ''openvdi_rebuild_desktop'')
       (if confirm
        then andthen (api_post V (desktop_path V i ''/rebuild'') JNull)
          (wait_for_desktop_terminal_state V (api_get V (desktop_path V i []) []) desktop_rebuild_terminal timeout)
        else desktop_and_sessions V i (preview_rebuild_desktop i)))"

definition valid_power_actions :: "string list" where
  "valid_power_actions = [''reboot'', ''shutdown'', ''start'', ''stop'']"

definition preview_power_desktop ::
    "jval \<Rightarrow> string \<Rightarrow> (string \<times> jval) list \<Rightarrow> jval \<Rightarrow> ('w, jval) mcp_prog" where
  "preview_power_desktop i action kvs sessions =
     bnd (lift_result (first_or_none sessions)) (\<lambda>session.
     ret (dry_run_envelope (action @ ''_desktop'')
       [(''id'', i), (''name'', get_or kvs ''name'' JNull),
        (''current_power_state'', get_or kvs ''power_state'' JNull),
        (''assigned_user'', get_or kvs ''assigned_user'' JNull)] JNull
       ((if action = ''stop'' then ''Stop'' else ''Shutdown'')
        @ '' ends any active session. Pass confirm=True to execute.'')
       [(''active_session'', session)]))"

definition openvdi_power_desktop ::
    "'w mcp_env \<Rightarrow> jval \<Rightarrow> string \<Rightarrow> bool \<Rightarrow> int \<Rightarrow> ('w, jval) mcp_prog" where
  "openvdi_power_desktop V i action confirm timeout =
     instrumented V ''openvdi_power_desktop'' (andthen (require_writable V ''openvdi_power_desktop'')
       (if action \<notin> set valid_power_actions
        then throw (ApiError 400 ''INVALID_REQUEST'' (''action must be one of ''
          @ mv_repr V (JList (map JStr valid_power_actions)) @ ''; got '' @ mv_repr V (JStr action)) JNull)
        else if action \<in> {''stop'', ''shutdown''} \<and> \<not> confirm
        then desktop_and_sessions V i (preview_power_desktop i action)
        else andthen (api_post V (desktop_path V i (''/power/'' @ action)) JNull)
          (wait_for_desktop_terminal_state V (api_get V (desktop_path V i []) [])
            (desktop_power_terminal (if action \<in> {''start'', ''reboot''} then ''running'' else ''stopped''))
            timeout)))"

definition preview_delete_desktop ::
    "jval \<Rightarrow> (string \<times> jval) list \<Rightarrow> jval \<Rightarrow> ('w, jval) mcp_prog" where
  "preview_delete_desktop i kvs sessions =
     bnd (dict_item kvs ''pool_id'') (\<lambda>pool_id.
     bnd (lift_result (first_or_none sessions)) (\<lambda>session.
     ret (dry_run_envelope ''delete_desktop''
       [(''id'', i), (''name'', get_or kvs ''name'' JNull), (''pool_id'', pool_id),
        (''assigned_user'', get_or kvs ''assigned_user'' JNull)] JNull
       (''Destroys the VM and removes the DB record. Active session is force-ended. The pool may re-provision ''
        @ ''a replacement (nonpersistent, below min_spare). Pass confirm=True to execute.'')
       [(''active_session'', session)])))"

definition openvdi_delete_desktop :: "'w mcp_env \<Rightarrow> jval \<Rightarrow> bool \<Rightarrow> ('w, jval) mcp_prog" where
  "openvdi_delete_desktop V i confirm =
     instrumented V ''openvdi_delete_desktop'' (andthen (require_writable V ''openvdi_delete_desktop'')
       (if confirm then api_delete V (desktop_path V i [])
        else desktop_and_sessions V i (preview_delete_desktop i)))"

end
