(* ===== verification/Mcp_Intents.thy ===== *)
theory Mcp_Intents
  imports Mcp_Pools
begin

text \<open>
  The intent tools of the MCP server, \<open>intent/\<close>: programs over the thin tools that record their
  steps and answer a broker error with a structured failure. The \<open>StepTracker\<close> of the running
  intent is part of the server's state; intents do not call one another.
\<close>

section \<open>The step tracker\<close>

definition new_tracker :: "('w, unit) mcp_prog" where
  "new_tracker = modify (\<lambda>s. s\<lparr>mc_steps := [], mc_created := [], mc_subject := JNull\<rparr>)"

definition set_subject :: "jval \<Rightarrow> ('w, unit) mcp_prog" where
  "set_subject v = modify (\<lambda>s. s\<lparr>mc_subject := v\<rparr>)"

definition patch_last :: "(step_record \<Rightarrow> step_record) \<Rightarrow> ('w, unit) mcp_prog" where
  "patch_last f = modify (\<lambda>s. s\<lparr>mc_steps :=
     (case rev (mc_steps s) of [] \<Rightarrow> [] | x # xs \<Rightarrow> rev xs @ [f x])\<rparr>)"

definition intent_step :: "'w mcp_env \<Rightarrow> string \<Rightarrow> ('w, 'a) mcp_prog \<Rightarrow> ('w, 'a) mcp_prog" where
  "intent_step V name body = bnd (mcp_clock V) (\<lambda>start.
     andthen (modify (\<lambda>s. s\<lparr>mc_steps := mc_steps s
       @ [\<lparr>st_name = name, st_ok = False, st_details = None, st_duration = None\<rparr>]\<rparr>))
     (bnd (attempt body) (\<lambda>r.
      andthen (do_when (\<not> isl r) (patch_last (\<lambda>x. x\<lparr>st_ok := True\<rparr>)))
      (bnd (mcp_clock V) (\<lambda>t.
       andthen (patch_last (\<lambda>x. x\<lparr>st_duration := Some (t - start)\<rparr>)) (lift_result r))))))"

definition set_details :: "jval \<Rightarrow> ('w, unit) mcp_prog" where
  "set_details v = patch_last (\<lambda>x. x\<lparr>st_details := Some v\<rparr>)"

definition record_created :: "string \<Rightarrow> jval \<Rightarrow> ('w, unit) mcp_prog" where
  "record_created ty i = modify (\<lambda>s. s\<lparr>mc_created := mc_created s @ [(ty, i)]\<rparr>)"

definition last_failed_step :: "step_record list \<Rightarrow> string" where
  "last_failed_step steps = (case find (\<lambda>x. \<not> st_ok x) (rev steps) of
     None \<Rightarrow> ''unknown'' | Some x \<Rightarrow> st_name x)"

definition step_json :: "step_record \<Rightarrow> jval" where
  "step_json x = JObj ([(''name'', JStr (st_name x)), (''ok'', JBool (st_ok x))]
     @ (case st_details x of None \<Rightarrow> [] | Some v \<Rightarrow> [(''details'', v)])
     @ (case st_duration x of None \<Rightarrow> [] | Some n \<Rightarrow> [(''duration_ms'', JInt n)]))"

definition total_duration :: "step_record list \<Rightarrow> int" where
  "total_duration steps = sum_list (map (\<lambda>x. case st_duration x of None \<Rightarrow> 0 | Some n \<Rightarrow> n) steps)"

definition success_result :: "string \<Rightarrow> (string \<times> jval) list \<Rightarrow> ('w, jval) mcp_prog" where
  "success_result operation result = reads (\<lambda>s. JObj [(''ok'', JBool True), (''operation'', JStr operation),
     (''result'', JObj result), (''steps'', JList (map step_json (mc_steps s))),
     (''total_duration_ms'', JInt (total_duration (mc_steps s)))])"

fun error_fields :: "exn \<Rightarrow> (string \<times> jval) list" where
  "error_fields (ApiError _ code message details) =
     [(''error_code'', JStr code), (''error_message'', JStr message), (''error_details'', details)]"
| "error_fields _ = []"

definition rollback_hint :: "(string \<times> jval) list \<Rightarrow> jval \<Rightarrow> jval" where
  "rollback_hint created suggestion =
     (if created = [] then JNull
      else JObj [(''created_resources'', JList (map (\<lambda>(ty, i). JObj [(''type'', JStr ty), (''id'', i)]) created)),
        (''suggested_cleanup'', suggestion)])"

definition failure_result :: "string \<Rightarrow> exn \<Rightarrow> jval \<Rightarrow> ('w, jval) mcp_prog" where
  "failure_result operation e suggestion = reads (\<lambda>s. JObj ([(''ok'', JBool False), (''operation'', JStr operation)]
     @ error_fields e
     @ [(''failed_at_step'', JStr (last_failed_step (mc_steps s))),
        (''steps'', JList (map step_json (mc_steps s))),
        (''rollback_hint'', rollback_hint (mc_created s) suggestion),
        (''total_duration_ms'', JInt (total_duration (mc_steps s)))]))"

text \<open>\<open>tracker = StepTracker() / try: body / except BrokerError as exc: return failure_result(...)\<close>.\<close>

definition intent :: "string \<Rightarrow> ('w, jval) mcp_prog \<Rightarrow> (jval \<Rightarrow> jval) \<Rightarrow> ('w, jval) mcp_prog" where
  "intent operation body suggestion = andthen new_tracker (catching is_api_error body
     (\<lambda>e. bnd (reads mc_subject) (\<lambda>v. failure_result operation e (suggestion v))))"

section \<open>Lists of answers\<close>

definition listed :: "('w, jval) mcp_prog \<Rightarrow> ('w, jval list) mcp_prog" where
  "listed m = bnd m (\<lambda>v. lift_result (py_iter v))"

definition hashable :: "jval \<Rightarrow> bool" where
  "hashable v = (case v of JList _ \<Rightarrow> False | JObj _ \<Rightarrow> False | _ \<Rightarrow> True)"

text \<open>\<open>{x[k] for x in xs}\<close>, as a list without repetition.\<close>

definition hash_value :: "jval \<Rightarrow> ('s, jval) eff" where
  "hash_value v = (if hashable v then ret v else throw (PyTypeError ''unhashable type''))"

definition hash_item :: "string \<Rightarrow> jval \<Rightarrow> ('s, jval) eff" where
  "hash_item k x = bnd (py_item x k) hash_value"

definition item_set :: "string \<Rightarrow> jval list \<Rightarrow> ('s, jval list) eff" where
  "item_set k xs = bnd (map_eff (hash_item k) xs) (\<lambda>vs. ret (remdups vs))"

text \<open>\<open>[g(x) for x in xs if f(x)]\<close>.\<close>

fun collect_eff :: "('x \<Rightarrow> ('s, bool) eff) \<Rightarrow> ('x \<Rightarrow> ('s, 'y) eff) \<Rightarrow> 'x list \<Rightarrow> ('s, 'y list) eff" where
  "collect_eff f g [] = ret []"
| "collect_eff f g (x # xs) = bnd (f x) (\<lambda>b.
     if b then bnd (g x) (\<lambda>y. bnd (collect_eff f g xs) (\<lambda>ys. ret (y # ys))) else collect_eff f g xs)"

text \<open>\<open>p["name"].startswith(prefix)\<close>.\<close>

definition name_starts :: "string \<Rightarrow> jval \<Rightarrow> ('s, bool) eff" where
  "name_starts prefix p = bnd (py_item p ''name'') (\<lambda>n. case n of
       JStr s \<Rightarrow> ret (starts_with s prefix)
     | _ \<Rightarrow> throw (PyAttributeError ''startswith''))"

section \<open>Health check\<close>

definition cluster_line :: "jval \<Rightarrow> ('s, jval \<times> bool) eff" where
  "cluster_line c = bnd (py_item c ''id'') (\<lambda>i. bnd (as_dict c) (\<lambda>kvs.
     ret (JObj [(''id'', i), (''name'', get_or kvs ''name'' JNull), (''status'', get_or kvs ''status'' JNull)],
       get_or kvs ''status'' JNull = JStr ''active'')))"

definition health_summary :: "nat \<Rightarrow> nat \<Rightarrow> string" where
  "health_summary active n =
     (if n = 0 then ''broker reachable; no clusters registered''
      else if active = n then ''broker reachable; all '' @ show_nat n @ '' cluster''
        @ (if n \<noteq> 1 then ''s'' else []) @ '' active''
      else ''broker reachable; '' @ show_nat active @ '' of '' @ show_nat n @ '' clusters active'')"

definition openvdi_health_check :: "'w mcp_env \<Rightarrow> ('w, jval) mcp_prog" where
  "openvdi_health_check V = instrumented V ''openvdi_health_check'' (intent ''health_check''
     (bnd (intent_step V ''ping_broker'' (bnd (get_raw V ''/health'' []) (\<lambda>health.
        let version = (case health of JObj kvs \<Rightarrow> get_or kvs ''version'' JNull | _ \<Rightarrow> JNull) in
        andthen (set_details (JObj [(''reachable'', JBool True), (''version'', version)])) (ret version)))) (\<lambda>version.
      bnd (intent_step V ''list_clusters'' (bnd (listed (openvdi_list_clusters V)) (\<lambda>cs.
        bnd (map_eff cluster_line cs) (\<lambda>lines.
        andthen (set_details (JObj [(''total'', JInt (int (length lines))),
          (''active'', JInt (int (length (filter snd lines))))])) (ret lines))))) (\<lambda>lines.
      success_result ''health_check''
        [(''broker_reachable'', JBool True), (''broker_version'', version), (''clusters'', JList (map fst lines)),
         (''summary'', JStr (health_summary (length (filter snd lines)) (length lines)))])))
     (\<lambda>_. JNull))"

section \<open>Smoke test\<close>

definition check_pool_active :: "'w mcp_env \<Rightarrow> jval \<Rightarrow> ('w, (string \<times> jval) list) mcp_prog" where
  "check_pool_active V pool_id = bnd (openvdi_get_pool V pool_id) (\<lambda>v. bnd (as_dict v) (\<lambda>pool.
     let status = get_or pool ''status'' JNull in
     andthen (set_details (JObj [(''pool_id'', pool_id), (''pool_name'', get_or pool ''name'' JNull), (''status'', status)]))
     (if status \<noteq> JStr ''active''
      then throw (ApiError 409 ''POOL_INACTIVE'' (''pool '' @ text_of_value V (get_or pool ''name'' pool_id)
        @ '' has status '' @ mv_repr V status @ ''; smoke test requires '' @ quoted ''active'') JNull)
      else ret pool)))"

definition check_capacity :: "'w mcp_env \<Rightarrow> jval \<Rightarrow> (string \<times> jval) list \<Rightarrow> bool \<Rightarrow> ('w, jval) mcp_prog" where
  "check_capacity V pool_id pool provision_if_empty = bnd (openvdi_get_pool_summary V pool_id) (\<lambda>v.
     bnd (as_dict v) (\<lambda>summary.
     let capacity = get_or summary ''capacity'' (JObj []) in
     andthen (set_details capacity)
     (bnd (as_dict capacity) (\<lambda>kvs.
      let available = get_or kvs ''available'' (JInt 0) in
      if eq_int available 0 \<and> \<not> provision_if_empty
      then throw (ApiError 409 ''POOL_EMPTY'' (''pool '' @ text_of_value V (get_or pool ''name'' pool_id)
        @ '' has no available desktops; pass provision_if_empty=True to provision one'') JNull)
      else ret available))))"

definition provision_one_desktop :: "'w mcp_env \<Rightarrow> jval \<Rightarrow> ('w, unit) mcp_prog" where
  "provision_one_desktop V pool_id =
     bnd (bnd (listed (openvdi_list_desktops V pool_id JNull JNull 50 0)) (item_set ''id'')) (\<lambda>before.
     bnd (openvdi_provision_pool V pool_id 1 provision_timeout) (\<lambda>pool_after.
     bnd (bnd (listed (openvdi_list_desktops V pool_id JNull JNull 50 0)) (item_set ''id'')) (\<lambda>afterwards.
     let created = filter (\<lambda>i. i \<notin> set before) afterwards in
     if created = []
     then throw (ApiError 500 ''INTERNAL_ERROR''
       ''provision returned but no new desktop appeared in pool listing'' JNull)
     else (let i = mv_first V created in
       andthen (set_subject i) (andthen (record_created ''desktop'' i)
       (bnd (as_dict pool_after) (\<lambda>kvs. set_details (JObj [(''desktop_id'', i),
         (''pool_state_after'', get_or kvs ''status'' JNull)]))))))))"

definition invalid_desktop :: "string \<Rightarrow> exn" where
  "invalid_desktop m = ApiError 500 ''INVALID_REQUEST'' m JNull"

definition verify_desktop :: "'w mcp_env \<Rightarrow> jval \<Rightarrow> ('w, jval) mcp_prog" where
  "verify_desktop V pool_id = bnd (openvdi_list_desktops V pool_id (JStr ''available'') JNull 1 0) (\<lambda>desktops.
     if \<not> j_truthy desktops
     then throw (ApiError 500 ''POOL_EMPTY''
       ''no available desktop after provisioning step; broker may be in an unexpected state'' JNull)
     else bnd (lift_result (first_or_none desktops)) (\<lambda>d.
       bnd (py_item d ''id'') (\<lambda>i.
       bnd (bnd (openvdi_get_desktop V i) as_dict) (\<lambda>kvs.
       let status = get_or kvs ''status'' JNull; power = get_or kvs ''power_state'' JNull;
           task = get_or kvs ''pve_task_upid'' JNull in
       andthen (set_details (JObj [(''desktop_id'', i), (''name'', get_or kvs ''name'' JNull),
         (''status'', status), (''power_state'', power)]))
       (if status \<noteq> JStr ''available''
        then throw (invalid_desktop (''desktop status is '' @ mv_repr V status @ '', expected '' @ quoted ''available''))
        else if power \<noteq> JStr ''running''
        then throw (invalid_desktop (''desktop power_state is '' @ mv_repr V power @ '', expected '' @ quoted ''running''))
        else if task \<noteq> JNull
        then throw (invalid_desktop (''desktop has in-flight task '' @ mv_repr V task @ ''; not idle''))
        else ret i)))))"

definition smoke_body :: "'w mcp_env \<Rightarrow> jval \<Rightarrow> bool \<Rightarrow> bool \<Rightarrow> ('w, jval) mcp_prog" where
  "smoke_body V pool_id provision_if_empty cleanup =
     bnd (intent_step V ''verify_pool_active'' (check_pool_active V pool_id)) (\<lambda>pool.
     bnd (intent_step V ''query_capacity'' (check_capacity V pool_id pool provision_if_empty)) (\<lambda>available.
     andthen (do_when (eq_int available 0)
       (intent_step V ''provision_one_desktop'' (provision_one_desktop V pool_id)))
     (bnd (intent_step V ''verify_desktop'' (verify_desktop V pool_id)) (\<lambda>desktop_id.
      bnd (reads mc_subject) (\<lambda>provisioned.
      andthen (do_when (provisioned \<noteq> JNull \<and> cleanup)
        (intent_step V ''cleanup_provisioned_desktop''
          (andthen (openvdi_delete_desktop V provisioned True)
            (set_details (JObj [(''deleted_desktop_id'', provisioned)])))))
      (success_result ''smoke_test''
        [(''pool_id'', pool_id), (''verified_desktop_id'', desktop_id)]))))))"

definition openvdi_smoke_test :: "'w mcp_env \<Rightarrow> jval \<Rightarrow> bool \<Rightarrow> bool \<Rightarrow> ('w, jval) mcp_prog" where
  "openvdi_smoke_test V pool_id provision_if_empty cleanup = instrumented V ''openvdi_smoke_test''
     (andthen (do_when provision_if_empty (require_writable V ''openvdi_smoke_test''))
     (intent ''smoke_test'' (smoke_body V pool_id provision_if_empty cleanup)
       (\<lambda>provisioned. if provisioned \<noteq> JNull \<and> \<not> cleanup
          then JStr (''openvdi_delete_desktop('' @ mv_repr V provisioned @ '', confirm=True)'') else JNull)))"

section \<open>Deploying a pool\<close>

record deploy_args =
  da_template_id :: jval
  da_pool_name :: jval
  da_pool_display_name :: jval
  da_pool_type :: jval
  da_cluster_id :: jval
  da_vmid_range_start :: jval
  da_vmid_range_end :: jval
  da_name_prefix :: jval
  da_entitlements :: "(string \<times> string) list list"
  da_min_spare :: int
  da_max_size :: jval
  da_description :: jval
  da_pre_provision :: bool

definition pool_args_of :: "deploy_args \<Rightarrow> pool_args" where
  "pool_args_of a = \<lparr>pa_name = da_pool_name a, pa_display_name = da_pool_display_name a,
     pa_pool_type = da_pool_type a, pa_template_id = da_template_id a, pa_cluster_id = da_cluster_id a,
     pa_vmid_range_start = da_vmid_range_start a, pa_vmid_range_end = da_vmid_range_end a,
     pa_name_prefix = da_name_prefix a, pa_min_spare = JInt (da_min_spare a), pa_max_size = da_max_size a,
     pa_auto_logoff_min = JInt 0, pa_delete_on_logoff = JBool False, pa_refresh_on_logoff = JBool True,
     pa_description = da_description a, pa_target_nodes = JNull, pa_cpu_cores = JNull,
     pa_memory_mb = JNull, pa_pve_pool_id = JNull\<rparr>"

definition preview_deploy :: "deploy_args \<Rightarrow> jval" where
  "preview_deploy a = JObj [(''ok'', JBool True), (''dry_run'', JBool True), (''operation'', JStr ''deploy_pool''),
     (''would_create'', JObj [(''pool_name'', da_pool_name a), (''pool_type'', da_pool_type a),
        (''vmid_range'', JList [da_vmid_range_start a, da_vmid_range_end a]), (''max_size'', da_max_size a),
        (''min_spare'', JInt (da_min_spare a)), (''entitlements_count'', JInt (int (length (da_entitlements a)))),
        (''pre_provision_count'', JInt (if da_pre_provision a then da_min_spare a else 0))]),
     (''note'', JStr (''Pass confirm=True to execute. Steps: verify template, create pool, grant entitlements, ''
        @ ''optionally provision. On failure, rollback_hint will point at the delete_pool call that cleans up.''))]"

definition check_template_active :: "'w mcp_env \<Rightarrow> jval \<Rightarrow> ('w, unit) mcp_prog" where
  "check_template_active V i = bnd (bnd (openvdi_get_template V i) as_dict) (\<lambda>t.
     let status = get_or t ''status'' JNull in
     andthen (set_details (JObj [(''template_id'', i), (''name'', get_or t ''name'' JNull), (''status'', status)]))
     (do_when (status \<noteq> JStr ''active'') (throw (ApiError 409 ''CONFLICT''
       (''template '' @ text_of_value V (get_or t ''name'' i) @ '' has status '' @ mv_repr V status
        @ ''; deploy_pool requires '' @ quoted ''active'') JNull))))"

definition deploy_create :: "'w mcp_env \<Rightarrow> deploy_args \<Rightarrow> ('w, jval) mcp_prog" where
  "deploy_create V a = bnd (openvdi_create_pool V (pool_args_of a)) (\<lambda>v.
     bnd (py_item v ''id'') (\<lambda>i.
     andthen (set_subject i) (andthen (record_created ''pool'' i)
     (bnd (as_dict v) (\<lambda>pool.
      andthen (set_details (JObj [(''pool_id'', i), (''name'', get_or pool ''name'' JNull)])) (ret i))))))"

text \<open>\<open>ent.get(a) or ent.get(b)\<close>, empty when falsy.\<close>

definition either_key :: "(string \<times> string) list \<Rightarrow> string \<Rightarrow> string \<Rightarrow> string" where
  "either_key ent a b = (case map_of ent a of
       Some (c # cs) \<Rightarrow> c # cs
     | _ \<Rightarrow> (case map_of ent b of None \<Rightarrow> [] | Some s \<Rightarrow> s))"

definition deploy_grant :: "'w mcp_env \<Rightarrow> jval \<Rightarrow> nat \<Rightarrow> (string \<times> string) list \<Rightarrow> ('w, unit) mcp_prog" where
  "deploy_grant V pool_id n ent =
     (let ptype = either_key ent ''type'' ''principal_type''; pname = either_key ent ''name'' ''principal_name'' in
      if ptype = [] \<or> pname = []
      then throw (ApiError 400 ''INVALID_REQUEST'' (''entitlement['' @ show_nat n @ ''] missing type or name; got ''
        @ mv_repr V (JObj (map (\<lambda>(k, v). (k, JStr v)) ent))) JNull)
      else bnd (openvdi_grant_entitlement V pool_id (JStr ptype) (JStr pname)) (\<lambda>granted.
        bnd (py_item granted ''id'') (\<lambda>i.
        andthen (record_created ''entitlement'' i)
          (set_details (JObj [(''principal'', JStr (ptype @ '':'' @ pname)), (''entitlement_id'', i)])))))"

definition deploy_provision :: "'w mcp_env \<Rightarrow> jval \<Rightarrow> int \<Rightarrow> ('w, jval) mcp_prog" where
  "deploy_provision V pool_id count = bnd (bnd (openvdi_provision_pool V pool_id count provision_timeout) as_dict) (\<lambda>pool.
     bnd (as_dict (get_or pool ''capacity'' (JObj []))) (\<lambda>capacity.
     let available = get_or capacity ''available'' (JInt 0) in
     andthen (set_details (JObj [(''requested'', JInt count), (''available_count'', available),
       (''in_progress_count'', get_or capacity ''provisioning'' (JInt 0))])) (ret available)))"

definition deploy_body :: "'w mcp_env \<Rightarrow> deploy_args \<Rightarrow> ('w, jval) mcp_prog" where
  "deploy_body V a =
     andthen (intent_step V ''verify_template'' (check_template_active V (da_template_id a)))
     (bnd (intent_step V ''create_pool'' (deploy_create V a)) (\<lambda>pool_id.
      andthen (for_each (enumerate 0 (da_entitlements a)) (\<lambda>(n, ent).
        intent_step V (''grant_entitlement['' @ show_nat n @ '']'') (deploy_grant V pool_id n ent)))
      (bnd (if da_pre_provision a \<and> 0 < da_min_spare a
            then intent_step V ''provision_pool'' (deploy_provision V pool_id (da_min_spare a))
            else ret (JInt 0)) (\<lambda>count.
       bnd (if da_pre_provision a then lift_result (py_less count (JInt (da_min_spare a))) else ret False) (\<lambda>short.
       success_result ''deploy_pool'' [(''pool_id'', pool_id), (''pool_name'', da_pool_name a),
         (''provisioned_count'', count), (''pre_provision_complete'', JBool (\<not> short))])))))"

definition delete_pool_command :: "'w mcp_env \<Rightarrow> jval \<Rightarrow> jval" where
  "delete_pool_command V pool_id =
     (if j_truthy pool_id then JStr (''openvdi_delete_pool('' @ mv_repr V pool_id @ '', confirm=True)'') else JNull)"

definition openvdi_deploy_pool :: "'w mcp_env \<Rightarrow> deploy_args \<Rightarrow> bool \<Rightarrow> ('w, jval) mcp_prog" where
  "openvdi_deploy_pool V a confirm = instrumented V ''openvdi_deploy_pool''
     (andthen (require_writable V ''openvdi_deploy_pool'')
     (if da_entitlements a = []
      then throw (ApiError 400 ''INVALID_REQUEST'' ''entitlements list cannot be empty'' JNull)
      else if \<not> confirm then ret (preview_deploy a)
      else intent ''deploy_pool'' (deploy_body V a) (delete_pool_command V)))"

section \<open>Resetting a test environment\<close>

definition forbidden_prefix :: "string \<Rightarrow> bool" where
  "forbidden_prefix prefix \<longleftrightarrow> py_strip prefix \<in> {[], ''*''}"

fun preview_pools ::
    "'w mcp_env \<Rightarrow> jval list \<Rightarrow> jval \<Rightarrow> int \<Rightarrow> int \<Rightarrow> jval list \<Rightarrow> ('w, jval \<times> int \<times> int \<times> jval list) mcp_prog" where
  "preview_pools V [] nd ns ne out = ret (nd, ns, ne, out)"
| "preview_pools V (p # ps) nd ns ne out =
     bnd (py_item p ''id'') (\<lambda>i.
     bnd (bnd (openvdi_get_pool V i) as_dict) (\<lambda>full.
     bnd (openvdi_list_sessions V i JNull JNull (JStr ''active'') 50 0) (\<lambda>sessions.
     bnd (openvdi_list_entitlements V i JNull) (\<lambda>ents.
     bnd (as_dict (or_else (get_or full ''capacity'' (JObj [])) (JObj []))) (\<lambda>capacity.
     let d = get_or capacity ''total_desktops'' (JInt 0) in
     bnd (lift_result (py_len sessions)) (\<lambda>s.
     bnd (lift_result (py_len ents)) (\<lambda>e.
     bnd (lift_result (py_add nd d)) (\<lambda>total.
     bnd (py_item p ''name'') (\<lambda>name.
     preview_pools V ps total (ns + s) (ne + e) (out @ [JObj [(''pool_id'', i), (''name'', name),
       (''desktops'', d), (''active_sessions'', JInt s), (''entitlements'', JInt e)]]))))))))))"

text \<open>Rows that no pool refers to once the pools with the prefix are gone.\<close>

definition would_remove ::
    "'w mcp_env \<Rightarrow> string \<Rightarrow> string \<Rightarrow> ('w, jval list) mcp_prog \<Rightarrow> ('w, jval list) mcp_prog" where
  "would_remove V prefix key rows =
     bnd (listed (openvdi_list_pools V JNull JNull JNull JNull 200 0)) (\<lambda>pools.
     bnd (collect_eff (\<lambda>p. bnd (name_starts prefix p) (\<lambda>b. ret (\<not> b))) (hash_item key) pools) (\<lambda>kept.
     bnd rows (\<lambda>rs.
     collect_eff (\<lambda>r. bnd (hash_item ''id'' r) (\<lambda>i. ret (i \<notin> set kept))) id_and_name rs)))"

definition list_template_rows :: "'w mcp_env \<Rightarrow> ('w, jval list) mcp_prog" where
  "list_template_rows V = listed (openvdi_list_templates V JNull JNull JNull 200 0)"

definition list_cluster_rows :: "'w mcp_env \<Rightarrow> ('w, jval list) mcp_prog" where
  "list_cluster_rows V = listed (openvdi_list_clusters V)"

definition build_dry_run_preview ::
    "'w mcp_env \<Rightarrow> jval list \<Rightarrow> string \<Rightarrow> bool \<Rightarrow> bool \<Rightarrow> ('w, jval) mcp_prog" where
  "build_dry_run_preview V pools prefix keep_clusters keep_templates =
     bnd (preview_pools V pools (JInt 0) 0 0 []) (\<lambda>(nd, ns, ne, lines).
     bnd (if keep_templates then ret [] else would_remove V prefix ''template_id'' (list_template_rows V)) (\<lambda>ts.
     bnd (if keep_clusters then ret [] else would_remove V prefix ''cluster_id'' (list_cluster_rows V)) (\<lambda>cs.
     ret (JObj [(''ok'', JBool True), (''dry_run'', JBool True), (''operation'', JStr ''reset_test_environment''),
       (''name_prefix'', JStr prefix), (''would_drain_then_delete'', JList lines),
       (''would_retire_templates'', JList ts), (''would_delete_clusters'', JList cs),
       (''summary'', JObj [(''pools'', JInt (int (length pools))), (''desktops'', nd),
          (''active_sessions'', JInt ns), (''entitlements'', JInt ne),
          (''templates'', JInt (int (length ts))), (''clusters'', JInt (int (length cs)))]),
       (''note'', JStr (''Pass confirm=True to execute. Reset is destructive -- pools, desktops, entitlements, ''
          @ ''and (optionally) templates and clusters will be removed. Drained pools stay '' @ quoted ''draining''
          @ '' until deleted; force-disconnect handles any sessions that didn't end during drain.''))]))))"

text \<open>Draining, disconnecting and deleting one pool.\<close>

definition disconnect_active :: "'w mcp_env \<Rightarrow> jval \<Rightarrow> ('w, unit) mcp_prog" where
  "disconnect_active V pool_id = bnd (openvdi_list_sessions V pool_id JNull JNull (JStr ''active'') 50 0) (\<lambda>active.
     bnd (lift_result (py_iter active)) (\<lambda>ss.
     bnd (map_eff (\<lambda>x. catching is_api_error
       (bnd (py_item x ''id'') (\<lambda>i. andthen (openvdi_force_disconnect_session V i True) (ret True)))
       (\<lambda>_. ret False)) ss) (\<lambda>done.
     bnd (lift_result (py_len active)) (\<lambda>n.
     set_details (JObj [(''active_count'', JInt n), (''disconnected_count'', JInt (int (length (filter id done))))])))))"

definition reset_pool :: "'w mcp_env \<Rightarrow> jval \<Rightarrow> ('w, unit) mcp_prog" where
  "reset_pool V p =
     bnd (py_item p ''id'') (\<lambda>pid.
     bnd (py_item p ''name'') (\<lambda>pname.
     let nm = text_of_value V pname; details = set_details (JObj [(''pool_name'', pname), (''pool_id'', pid)]) in
     andthen (intent_step V (''drain['' @ nm @ '']'') (andthen (openvdi_drain_pool V pid True 60) details))
     (andthen (intent_step V (''disconnect_active['' @ nm @ '']'') (disconnect_active V pid))
       (intent_step V (''delete['' @ nm @ '']'') (andthen (openvdi_delete_pool V pid True) details)))))"

definition unreferenced :: "'w mcp_env \<Rightarrow> string \<Rightarrow> ('w, jval list) mcp_prog \<Rightarrow> ('w, jval list) mcp_prog" where
  "unreferenced V key rows =
     bnd (bnd (listed (openvdi_list_pools V JNull JNull JNull JNull 200 0)) (item_set key)) (\<lambda>referenced.
     bnd rows (\<lambda>rs.
     bnd (collect_eff (\<lambda>r. bnd (hash_item ''id'' r) (\<lambda>i. ret (i \<notin> set referenced)))
           (\<lambda>r. py_item r ''id'') rs) (\<lambda>found.
     andthen (set_details (JObj [(''candidates'', JInt (int (length found)))])) (ret found))))"

text \<open>\<open>i[:8]\<close>.\<close>

definition short_id :: "jval \<Rightarrow> exn + string" where
  "short_id i = (case i of JStr s \<Rightarrow> Inr (take 8 s) | _ \<Rightarrow> Inl (PyTypeError ''object is not subscriptable''))"

definition remove_rows ::
    "'w mcp_env \<Rightarrow> string \<Rightarrow> string \<Rightarrow> (jval \<Rightarrow> ('w, jval) mcp_prog) \<Rightarrow> jval list \<Rightarrow> ('w, unit) mcp_prog" where
  "remove_rows V label key remove rows = for_each rows (\<lambda>i.
     bnd (lift_result (short_id i)) (\<lambda>short.
     intent_step V (label @ ''['' @ short @ '']'') (andthen (remove i) (set_details (JObj [(key, i)])))))"

definition reset_body :: "'w mcp_env \<Rightarrow> jval list \<Rightarrow> string \<Rightarrow> bool \<Rightarrow> bool \<Rightarrow> ('w, jval) mcp_prog" where
  "reset_body V pools prefix keep_clusters keep_templates =
     andthen (for_each pools (reset_pool V))
     (andthen (do_when (\<not> keep_templates)
       (bnd (intent_step V ''identify_unreferenced_templates'' (unreferenced V ''template_id'' (list_template_rows V)))
         (remove_rows V ''retire_template'' ''template_id'' (\<lambda>i. openvdi_retire_template V i True))))
     (andthen (do_when (\<not> keep_clusters)
       (bnd (intent_step V ''identify_unreferenced_clusters'' (unreferenced V ''cluster_id'' (list_cluster_rows V)))
         (remove_rows V ''delete_cluster'' ''cluster_id'' (\<lambda>i. openvdi_delete_cluster V i True))))
     (success_result ''reset_test_environment''
       [(''name_prefix'', JStr prefix), (''pools_deleted'', JInt (int (length pools)))])))"

definition openvdi_reset_test_environment ::
    "'w mcp_env \<Rightarrow> string \<Rightarrow> bool \<Rightarrow> bool \<Rightarrow> bool \<Rightarrow> ('w, jval) mcp_prog" where
  "openvdi_reset_test_environment V prefix keep_clusters keep_templates confirm =
     instrumented V ''openvdi_reset_test_environment''
     (andthen (require_writable V ''openvdi_reset_test_environment'')
     (if forbidden_prefix prefix
      then throw (ApiError 400 ''INVALID_REQUEST''
        (''name_prefix must be non-empty and specific; got '' @ mv_repr V (JStr prefix)) JNull)
      else bnd (listed (openvdi_list_pools V JNull JNull JNull JNull 200 0)) (\<lambda>pools.
        bnd (collect_eff (name_starts prefix) ret pools) (\<lambda>matching.
        if \<not> confirm then build_dry_run_preview V matching prefix keep_clusters keep_templates
        else intent ''reset_test_environment''
          (reset_body V matching prefix keep_clusters keep_templates) (\<lambda>_. JNull)))))"

end
