(* ===== verification/Mcp_Diagnosis.thy ===== *)
theory Mcp_Diagnosis
  imports Mcp_Intents
begin

text \<open>
  The two diagnosis intents, \<open>intent/diagnose_user.py\<close> and \<open>intent/diagnose_pool.py\<close>.
\<close>

section \<open>Diagnosing a user\<close>

definition compute_blocking_factor :: "(string \<times> jval) list \<Rightarrow> exn + jval" where
  "compute_blocking_factor pool = (let status = get_or pool ''status'' JNull in
     if status = JStr ''draining'' then Inr (JStr ''POOL_DRAINING'')
     else if status = JStr ''disabled'' then Inr (JStr ''POOL_DISABLED'')
     else if status = JStr ''error'' then Inr (JStr ''POOL_ERROR'')
     else (let capacity = or_else (get_or pool ''capacity'' JNull) (JObj []) in
       sum_bind (get_field capacity ''available'' (JInt 0)) (\<lambda>available.
       if eq_int available 0
       then sum_bind (get_field capacity ''total_desktops'' (JInt 0)) (\<lambda>total.
         sum_bind (py_less total (get_or pool ''max_size'' (JInt 0))) (\<lambda>room.
         Inr (JStr (if room then ''POOL_EMPTY'' else ''POOL_FULL''))))
       else Inr JNull)))"

text \<open>A pool of the user: the JSON of the answer and its blocking factor.\<close>

definition entitled_pool :: "'w mcp_env \<Rightarrow> jval \<Rightarrow> ('w, jval \<times> jval \<times> jval) mcp_prog" where
  "entitled_pool V view = bnd (py_item view ''id'') (\<lambda>i.
     bnd (bnd (openvdi_get_pool V i) as_dict) (\<lambda>pool.
     bnd (lift_result (compute_blocking_factor pool)) (\<lambda>blocking.
     bnd (as_dict view) (\<lambda>v.
     ret (i, blocking, JObj [(''pool_id'', i),
       (''pool_name'', or_else (get_or v ''display_name'' JNull) (get_or v ''name'' JNull)),
       (''pool_type'', get_or pool ''pool_type'' JNull), (''status'', get_or pool ''status'' JNull),
       (''capacity'', get_or pool ''capacity'' (JObj [])), (''min_spare'', get_or pool ''min_spare'' JNull),
       (''max_size'', get_or pool ''max_size'' JNull), (''blocking_factor'', blocking),
       (''currently_assigned_desktop'', get_or v ''assigned_desktop'' JNull)])))))"

definition group_entitlement :: "(string \<times> jval) list \<Rightarrow> jval \<Rightarrow> jval \<Rightarrow> ('w, jval) mcp_prog" where
  "group_entitlement pool i ent =
     bnd (if j_truthy (get_or pool ''display_name'' JNull) then ret (get_or pool ''display_name'' JNull)
       else dict_item pool ''name'') (\<lambda>name.
     bnd (py_item ent ''principal_name'') (\<lambda>via.
     ret (JObj [(''pool_id'', i), (''pool_name'', name), (''via_group'', via)])))"

definition group_entitlements_of :: "'w mcp_env \<Rightarrow> jval list \<Rightarrow> jval \<Rightarrow> ('w, jval list) mcp_prog" where
  "group_entitlements_of V direct p = bnd (hash_item ''id'' p) (\<lambda>i.
     if i \<in> set direct then ret []
     else bnd (listed (openvdi_list_entitlements V i (JStr ''group''))) (\<lambda>ents.
       bnd (as_dict p) (\<lambda>pool. map_eff (group_entitlement pool i) ents)))"

definition plural :: "nat \<Rightarrow> string" where
  "plural n = (if n \<noteq> 1 then ''s'' else [])"

text \<open>\<open>sorted({...})\<close> of blocking factors: the five there are, in their order.\<close>

definition blocking_codes :: "string list" where
  "blocking_codes = [''POOL_DISABLED'', ''POOL_DRAINING'', ''POOL_EMPTY'', ''POOL_ERROR'', ''POOL_FULL'']"

definition summarize_user_state :: "jval list \<Rightarrow> jval \<Rightarrow> nat \<Rightarrow> exn + string" where
  "summarize_user_state factors sessions groups =
     (if j_truthy sessions
      then sum_bind (py_len sessions) (\<lambda>n.
        Inr (show_int n @ '' active session'' @ plural (nat n)))
      else let blocking = filter j_truthy factors in
        Inr (if factors \<noteq> [] \<and> blocking = []
          then ''entitled to '' @ show_nat (length factors) @ '' pool(s); could connect now''
          else if blocking \<noteq> []
          then ''entitled but blocked: '' @ (case filter (\<lambda>c. JStr c \<in> set blocking) blocking_codes of
              [] \<Rightarrow> [] | c # cs \<Rightarrow> c @ concat (map (\<lambda>d. '', '' @ d) cs))
          else if groups \<noteq> 0
          then ''no direct entitlements; '' @ show_nat groups
            @ '' potential group entitlement(s) -- verify via IT Agent''
          else ''no entitlements found''))"

definition openvdi_diagnose_user :: "'w mcp_env \<Rightarrow> jval \<Rightarrow> ('w, jval) mcp_prog" where
  "openvdi_diagnose_user V user = instrumented V ''openvdi_diagnose_user'' (intent ''diagnose_user''
     (bnd (intent_step V ''fetch_user_desktops'' (bnd (openvdi_list_user_desktops V user) (\<lambda>v.
        bnd (lift_result (py_len v)) (\<lambda>n.
        andthen (set_details (JObj [(''directly_entitled_pool_count'', JInt n)])) (ret v))))) (\<lambda>user_desktops.
      bnd (intent_step V ''fetch_active_sessions'' (bnd (openvdi_list_user_sessions V user False 10) (\<lambda>v.
        bnd (lift_result (py_len v)) (\<lambda>n.
        andthen (set_details (JObj [(''active_count'', JInt n)])) (ret v))))) (\<lambda>active.
      bnd (intent_step V ''fetch_recent_sessions'' (bnd (openvdi_list_user_sessions V user True 10) (\<lambda>v.
        bnd (lift_result (py_len v)) (\<lambda>n.
        andthen (set_details (JObj [(''total_recent'', JInt n)])) (ret v))))) (\<lambda>recent.
      bnd (intent_step V ''compute_blocking_factors'' (bnd (lift_result (py_iter user_desktops)) (\<lambda>views.
        bnd (map_eff (entitled_pool V) views) (\<lambda>direct.
        andthen (set_details (JObj [(''with_blocking_factor'',
          JInt (int (length (filter (\<lambda>(i, b, p). j_truthy b) direct))))])) (ret direct))))) (\<lambda>direct.
      bnd (intent_step V ''collect_potential_group_entitlements''
        (bnd (listed (openvdi_list_pools V JNull JNull JNull JNull 200 0)) (\<lambda>pools.
         bnd (map_eff (\<lambda>(i, b, p). hash_value i) direct) (\<lambda>ids.
         bnd (map_eff (group_entitlements_of V ids) pools) (\<lambda>found.
         andthen (set_details (JObj [(''count'', JInt (int (length (concat found))))])) (ret (concat found))))))) (\<lambda>potential.
      bnd (lift_result (summarize_user_state (map (\<lambda>(i, b, p). b) direct) active (length potential))) (\<lambda>summary.
      success_result ''diagnose_user''
        [(''username'', user), (''directly_entitled_pools'', JList (map (\<lambda>(i, b, p). p) direct)),
         (''active_sessions'', active), (''recent_sessions'', recent),
         (''potential_group_entitlements'', JList potential), (''summary'', JStr summary)])))))))
     (\<lambda>_. JNull))"

section \<open>Diagnosing a pool\<close>

definition stuck_threshold_ms :: int where
  "stuck_threshold_ms = 10 * 60 * 1000"

text \<open>A value without \<open>replace\<close>, and a text that is no time, is \<open>None\<close>.\<close>

definition parse_iso8601 :: "'w mcp_env \<Rightarrow> jval \<Rightarrow> iso_time" where
  "parse_iso8601 V v = (case v of
       JStr s \<Rightarrow> if s = [] then NotIso
         else mv_from_iso V (concat (map (\<lambda>c. if c = CHR ''Z'' then ''+00:00'' else [c]) s))
     | _ \<Rightarrow> NotIso)"

text \<open>\<open>t < threshold\<close> with the age in minutes; a naive time cannot be compared.\<close>

definition age_beyond :: "'w mcp_env \<Rightarrow> int \<Rightarrow> jval \<Rightarrow> ('w, int option) mcp_prog" where
  "age_beyond V threshold v = (case parse_iso8601 V v of
       NotIso \<Rightarrow> ret None
     | NaiveTime _ \<Rightarrow> throw (PyTypeError ''can't compare offset-naive and offset-aware datetimes'')
     | ZonedTime t \<Rightarrow> if t < threshold then bnd (mcp_now V) (\<lambda>now. ret (Some ((now - t) div 60000)))
         else ret None)"

definition stuck_line :: "'w mcp_env \<Rightarrow> int \<Rightarrow> jval \<Rightarrow> ('w, jval list) mcp_prog" where
  "stuck_line V threshold d = bnd (as_dict d) (\<lambda>kvs.
     if get_or kvs ''status'' JNull \<noteq> JStr ''provisioning'' then ret []
     else bnd (age_beyond V threshold (get_or kvs ''created_at'' (JStr []))) (\<lambda>age. case age of
         None \<Rightarrow> ret []
       | Some m \<Rightarrow> bnd (dict_item kvs ''id'') (\<lambda>i. ret [JObj [(''id'', i), (''name'', get_or kvs ''name'' JNull),
           (''created_at'', get_or kvs ''created_at'' JNull), (''minutes_in_provisioning'', JInt m)]])))"

definition orphan_line :: "'w mcp_env \<Rightarrow> int \<Rightarrow> jval \<Rightarrow> ('w, jval list) mcp_prog" where
  "orphan_line V threshold d = bnd (as_dict d) (\<lambda>kvs.
     let upid = get_or kvs ''pve_task_upid'' JNull in
     if \<not> j_truthy upid then ret []
     else bnd (age_beyond V threshold (get_or kvs ''updated_at'' (JStr []))) (\<lambda>age. case age of
         None \<Rightarrow> ret []
       | Some m \<Rightarrow> bnd (dict_item kvs ''id'') (\<lambda>i. ret [JObj [(''desktop_id'', i),
           (''desktop_name'', get_or kvs ''name'' JNull), (''task_upid'', upid), (''minutes_since_update'', JInt m)]])))"

definition identify_stuck_provisioning :: "'w mcp_env \<Rightarrow> jval list \<Rightarrow> ('w, jval list) mcp_prog" where
  "identify_stuck_provisioning V ds = bnd (mcp_now V) (\<lambda>now.
     bnd (map_eff (stuck_line V (now - stuck_threshold_ms)) ds) (\<lambda>xss. ret (concat xss)))"

definition identify_orphan_tasks :: "'w mcp_env \<Rightarrow> jval list \<Rightarrow> ('w, jval list) mcp_prog" where
  "identify_orphan_tasks V ds = bnd (mcp_now V) (\<lambda>now.
     bnd (map_eff (orphan_line V (now - stuck_threshold_ms)) ds) (\<lambda>xss. ret (concat xss)))"

definition error_line :: "jval \<Rightarrow> ('s, jval list) eff" where
  "error_line d = bnd (as_dict d) (\<lambda>kvs.
     if get_or kvs ''status'' JNull \<noteq> JStr ''error'' then ret []
     else bnd (dict_item kvs ''id'') (\<lambda>i. ret [JObj [(''id'', i), (''name'', get_or kvs ''name'' JNull),
       (''error_message'', get_or kvs ''error_message'' JNull)]]))"

datatype severity = SevError | SevWarning

record pool_issue =
  pi_severity :: severity
  pi_description :: string
  pi_action :: string

definition issue_json :: "pool_issue \<Rightarrow> jval" where
  "issue_json x = JObj [(''severity'', JStr (if pi_severity x = SevError then ''error'' else ''warning'')),
     (''description'', JStr (pi_description x)), (''suggested_action'', JStr (pi_action x))]"

definition cluster_issues :: "'w mcp_env \<Rightarrow> (string \<times> jval) list \<Rightarrow> ('w, pool_issue list) mcp_prog" where
  "cluster_issues V cluster = (let status = get_or cluster ''status'' JNull in
     if status = JStr ''active'' then ret []
     else bnd (dict_item cluster ''id'') (\<lambda>i. ret [\<lparr>pi_severity = SevError,
       pi_description = ''cluster '' @ mv_repr V (get_or cluster ''name'' JNull) @ '' is '' @ mv_repr V status
         @ '', not '' @ quoted ''active'',
       pi_action = ''openvdi_get_cluster('' @ mv_repr V i @ '')''\<rparr>]))"

definition status_issues :: "'w mcp_env \<Rightarrow> (string \<times> jval) list \<Rightarrow> ('w, pool_issue list) mcp_prog" where
  "status_issues V pool = (let status = get_or pool ''status'' JNull in
     if status = JStr ''error''
     then bnd (dict_item pool ''id'') (\<lambda>i. ret [\<lparr>pi_severity = SevError,
       pi_description = ''pool status is '' @ quoted ''error'',
       pi_action = ''openvdi_query_audit(resource_type='' @ quoted ''pool'' @ '', resource_id='' @ mv_repr V i
         @ '', limit=20)''\<rparr>])
     else if status = JStr ''draining''
     then bnd (dict_item pool ''id'') (\<lambda>i. ret [\<lparr>pi_severity = SevWarning,
       pi_description = ''pool is draining; new connections rejected'',
       pi_action = ''wait for active sessions to end, then openvdi_delete_pool('' @ mv_repr V i @ '', confirm=True)''\<rparr>])
     else ret [])"

text \<open>The \<open>id\<close> of the first line; the lines are those made above.\<close>

definition line_field :: "jval \<Rightarrow> string \<Rightarrow> jval" where
  "line_field v k = (case v of JObj kvs \<Rightarrow> get_or kvs k JNull | _ \<Rightarrow> JNull)"

definition desktop_issues ::
    "'w mcp_env \<Rightarrow> jval list \<Rightarrow> severity \<Rightarrow> string \<Rightarrow> (jval \<Rightarrow> string) \<Rightarrow> (jval \<Rightarrow> string) \<Rightarrow> pool_issue list" where
  "desktop_issues V rows sev thing describe action = (case rows of [] \<Rightarrow> []
     | x # xs \<Rightarrow> [\<lparr>pi_severity = sev, pi_description = show_nat (length rows) @ thing @ plural (length rows) @ describe x,
         pi_action = action x\<rparr>])"

definition capacity_issues ::
    "'w mcp_env \<Rightarrow> (string \<times> jval) list \<Rightarrow> jval \<Rightarrow> ('w, pool_issue list) mcp_prog" where
  "capacity_issues V pool summary = bnd (as_dict summary) (\<lambda>sm.
     bnd (as_dict (or_else (get_or sm ''capacity'' JNull) (JObj []))) (\<lambda>capacity.
     let available = get_or capacity ''available'' (JInt 0); min_spare = get_or pool ''min_spare'' (JInt 0) in
     bnd (lift_result (if get_or pool ''pool_type'' JNull = JStr ''nonpersistent''
       then py_less available min_spare else Inr False)) (\<lambda>short.
     if \<not> short then ret []
     else bnd (lift_result (py_sub min_spare available)) (\<lambda>deficit.
       bnd (dict_item pool ''id'') (\<lambda>i. ret [\<lparr>pi_severity = SevWarning,
         pi_description = ''available ('' @ text_of_value V available @ '') below min_spare (''
           @ text_of_value V min_spare @ '')'',
         pi_action = ''openvdi_provision_pool('' @ mv_repr V i @ '', count='' @ text_of_value V deficit
           @ '', confirm=True)''\<rparr>])))))"

definition build_issues_list ::
    "'w mcp_env \<Rightarrow> (string \<times> jval) list \<Rightarrow> jval \<Rightarrow> jval list \<Rightarrow> jval list \<Rightarrow> jval list \<Rightarrow> (string \<times> jval) list \<Rightarrow>
     ('w, pool_issue list) mcp_prog" where
  "build_issues_list V pool summary errors stuck orphans cluster =
     bnd (cluster_issues V cluster) (\<lambda>a.
     bnd (status_issues V pool) (\<lambda>b.
     bnd (capacity_issues V pool summary) (\<lambda>c.
     ret (a @ b
       @ desktop_issues V errors SevError '' desktop''
           (\<lambda>x. '' in error state (e.g. '' @ text_of_value V (line_field x ''name'') @ '')'')
           (\<lambda>x. ''openvdi_get_desktop('' @ mv_repr V (line_field x ''id'') @ '')'')
       @ c
       @ desktop_issues V stuck SevWarning '' desktop'' (\<lambda>_. '' stuck in provisioning > 10 min'')
           (\<lambda>x. ''openvdi_get_desktop('' @ mv_repr V (line_field x ''id'')
              @ '') -- inspect; may need delete + reprovision'')
       @ desktop_issues V orphans SevWarning '' orphan task'' (\<lambda>_. '' (pve_task_upid set, no recent update)'')
           (\<lambda>_. ''check broker task_tracker worker logs'')))))"

definition compute_health :: "pool_issue list \<Rightarrow> (string \<times> jval) list \<Rightarrow> string" where
  "compute_health issues cluster =
     (if list_ex (\<lambda>x. pi_severity x = SevError) issues then ''unhealthy''
      else if list_ex (\<lambda>x. pi_severity x = SevWarning) issues then ''degraded''
      else if get_or cluster ''status'' JNull \<noteq> JStr ''active'' then ''unhealthy''
      else ''healthy'')"

definition fetch_dict :: "'w mcp_env \<Rightarrow> string \<Rightarrow> ('w, jval) mcp_prog \<Rightarrow> ((string \<times> jval) list \<Rightarrow> jval) \<Rightarrow>
    ('w, (string \<times> jval) list) mcp_prog" where
  "fetch_dict V name m details = intent_step V name (bnd (bnd m as_dict) (\<lambda>kvs.
     andthen (set_details (details kvs)) (ret kvs)))"

definition fetch_sized :: "'w mcp_env \<Rightarrow> string \<Rightarrow> ('w, jval) mcp_prog \<Rightarrow> string \<Rightarrow> ('w, jval \<times> int) mcp_prog" where
  "fetch_sized V name m key = intent_step V name (bnd m (\<lambda>v. bnd (lift_result (py_len v)) (\<lambda>n.
     andthen (set_details (JObj [(key, JInt n)])) (ret (v, n)))))"

definition desktop_findings :: "'w mcp_env \<Rightarrow> jval \<Rightarrow> ('w, jval list \<times> jval list \<times> jval list) mcp_prog" where
  "desktop_findings V desktops = intent_step V ''identify_desktop_issues''
     (bnd (lift_result (py_iter desktops)) (\<lambda>ds.
      bnd (map_eff error_line ds) (\<lambda>errors.
      bnd (identify_stuck_provisioning V ds) (\<lambda>stuck.
      bnd (identify_orphan_tasks V ds) (\<lambda>orphans.
      andthen (set_details (JObj [(''error'', JInt (int (length (concat errors)))),
        (''stuck'', JInt (int (length stuck))), (''orphan_tasks'', JInt (int (length orphans)))]))
      (ret (concat errors, stuck, orphans)))))))"

definition openvdi_diagnose_pool :: "'w mcp_env \<Rightarrow> jval \<Rightarrow> ('w, jval) mcp_prog" where
  "openvdi_diagnose_pool V pool_id = instrumented V ''openvdi_diagnose_pool'' (intent ''diagnose_pool''
     (bnd (fetch_dict V ''fetch_pool'' (openvdi_get_pool V pool_id) (\<lambda>kvs.
        JObj [(''pool_name'', get_or kvs ''name'' JNull), (''status'', get_or kvs ''status'' JNull)])) (\<lambda>pool.
      bnd (fetch_dict V ''fetch_pool_summary'' (openvdi_get_pool_summary V pool_id) (\<lambda>kvs.
        get_or kvs ''capacity'' (JObj []))) (\<lambda>summary.
      bnd (fetch_sized V ''fetch_desktops'' (openvdi_list_desktops V pool_id JNull JNull 200 0) ''count'') (\<lambda>(desktops, _).
      bnd (desktop_findings V desktops) (\<lambda>(errors, stuck, orphans).
      bnd (fetch_sized V ''count_active_sessions''
        (openvdi_list_sessions V pool_id JNull JNull (JStr ''active'') 200 0) ''count'') (\<lambda>(_, sessions).
      bnd (fetch_sized V ''fetch_recent_audit'' (bnd (mcp_now V) (\<lambda>now.
        openvdi_query_audit V JNull JNull (JStr ''pool'') pool_id (JStr (mv_iso V (now - 3600000))) JNull 50 0))
        ''event_count'') (\<lambda>(audit, _).
      bnd (intent_step V ''fetch_cluster'' (bnd (dict_item pool ''cluster_id'') (\<lambda>cid.
        bnd (bnd (openvdi_get_cluster V cid) as_dict) (\<lambda>kvs.
        andthen (set_details (JObj [(''cluster_name'', get_or kvs ''name'' JNull),
          (''cluster_status'', get_or kvs ''status'' JNull)])) (ret kvs))))) (\<lambda>cluster.
      bnd (build_issues_list V pool (JObj summary) errors stuck orphans cluster) (\<lambda>issues.
      bnd (dict_item cluster ''id'') (\<lambda>cid.
      success_result ''diagnose_pool''
        [(''pool_id'', pool_id), (''name'', get_or pool ''name'' JNull),
         (''display_name'', get_or pool ''display_name'' JNull),
         (''health'', JStr (compute_health issues cluster)), (''pool_status'', get_or pool ''status'' JNull),
         (''pool_type'', get_or pool ''pool_type'' JNull), (''capacity'', get_or summary ''capacity'' (JObj [])),
         (''min_spare'', get_or pool ''min_spare'' JNull), (''max_size'', get_or pool ''max_size'' JNull),
         (''issues'', JList (map issue_json issues)), (''error_desktops'', JList errors),
         (''stuck_provisioning'', JList stuck), (''orphan_tasks'', JList orphans),
         (''active_session_count'', JInt sessions), (''recent_audit_events'', audit),
         (''cluster'', JObj [(''id'', cid), (''name'', get_or cluster ''name'' JNull),
            (''status'', get_or cluster ''status'' JNull)])]))))))))))
     (\<lambda>_. JNull))"

end
