(* ===== verification/Mcp_Safety.thy ===== *)
theory Mcp_Safety
  imports Mcp_Diagnosis
begin

text \<open>
  The registry of the server's tools, \<open>server.py\<close>, and what no tool does: change anything in
  read-only mode, or without confirmation.
\<close>

section \<open>The registry\<close>

text \<open>The tools of each module, then all of them.\<close>

datatype cluster_call =
    ListClusters | GetCluster jval | CreateCluster jval jval jval jval jval jval jval
  | UpdateCluster jval jval jval jval jval jval jval | DeleteCluster jval bool

datatype template_call =
    ListTemplates jval jval jval int int | GetTemplate jval
  | RegisterTemplate jval jval jval jval jval jval jval jval jval jval
  | UpdateTemplate jval jval jval jval jval jval jval jval | ValidateTemplate jval | RetireTemplate jval bool

datatype access_call =
    ListEntitlements jval jval | GrantEntitlement jval jval jval | RevokeEntitlement jval string bool
  | ListSessions jval jval jval jval int int | GetSession jval | ForceDisconnect jval bool

datatype overview_call =
    DashboardSummary | DashboardCapacity | QueryAudit jval jval jval jval jval jval int int
  | ListUserDesktops jval | ListUserSessions jval bool int

datatype pool_call =
    ListPools jval jval jval jval int int | GetPool jval | GetPoolSummary jval | CreatePool pool_args
  | UpdatePool jval jval jval jval jval jval jval jval jval jval jval
  | DeletePool jval bool | ProvisionPool jval int int | DrainPool jval bool int

datatype desktop_call =
    ListDesktops jval jval jval int int | GetDesktop jval | AssignDesktop jval string bool
  | UnassignDesktop jval bool | RebuildDesktop jval bool int | PowerDesktop jval string bool int
  | DeleteDesktop jval bool

datatype intent_call =
    HealthCheck | SmokeTest jval bool bool | DeployPool deploy_args bool | ResetEnvironment string bool bool bool
  | DiagnoseUser jval | DiagnosePool jval

datatype mcp_call =
    ClusterTool cluster_call | TemplateTool template_call | AccessTool access_call
  | OverviewTool overview_call | PoolTool pool_call | DesktopTool desktop_call | IntentTool intent_call

fun run_cluster_call :: "'w mcp_env \<Rightarrow> cluster_call \<Rightarrow> ('w, jval) mcp_prog" where
  "run_cluster_call V ListClusters = openvdi_list_clusters V"
| "run_cluster_call V (GetCluster i) = openvdi_get_cluster V i"
| "run_cluster_call V (CreateCluster a b c d e f g) = openvdi_create_cluster V a b c d e f g"
| "run_cluster_call V (UpdateCluster a b c d e f g) = openvdi_update_cluster V a b c d e f g"
| "run_cluster_call V (DeleteCluster i y) = openvdi_delete_cluster V i y"

fun run_template_call :: "'w mcp_env \<Rightarrow> template_call \<Rightarrow> ('w, jval) mcp_prog" where
  "run_template_call V (ListTemplates a b c m n) = openvdi_list_templates V a b c m n"
| "run_template_call V (GetTemplate i) = openvdi_get_template V i"
| "run_template_call V (RegisterTemplate a b c d e f g h i j) = openvdi_register_template V a b c d e f g h i j"
| "run_template_call V (UpdateTemplate a b c d e f g h) = openvdi_update_template V a b c d e f g h"
| "run_template_call V (ValidateTemplate i) = openvdi_validate_template V i"
| "run_template_call V (RetireTemplate i y) = openvdi_retire_template V i y"

fun run_access_call :: "'w mcp_env \<Rightarrow> access_call \<Rightarrow> ('w, jval) mcp_prog" where
  "run_access_call V (ListEntitlements i ty) = openvdi_list_entitlements V i ty"
| "run_access_call V (GrantEntitlement i ty n) = openvdi_grant_entitlement V i ty n"
| "run_access_call V (RevokeEntitlement i e y) = openvdi_revoke_entitlement V i e y"
| "run_access_call V (ListSessions a b c d m n) = openvdi_list_sessions V a b c d m n"
| "run_access_call V (GetSession i) = openvdi_get_session V i"
| "run_access_call V (ForceDisconnect i y) = openvdi_force_disconnect_session V i y"

fun run_overview_call :: "'w mcp_env \<Rightarrow> overview_call \<Rightarrow> ('w, jval) mcp_prog" where
  "run_overview_call V DashboardSummary = openvdi_get_dashboard_summary V"
| "run_overview_call V DashboardCapacity = openvdi_get_dashboard_capacity V"
| "run_overview_call V (QueryAudit a b c d e f m n) = openvdi_query_audit V a b c d e f m n"
| "run_overview_call V (ListUserDesktops u) = openvdi_list_user_desktops V u"
| "run_overview_call V (ListUserSessions u y n) = openvdi_list_user_sessions V u y n"

fun run_pool_call :: "'w mcp_env \<Rightarrow> pool_call \<Rightarrow> ('w, jval) mcp_prog" where
  "run_pool_call V (ListPools a b c d m n) = openvdi_list_pools V a b c d m n"
| "run_pool_call V (GetPool i) = openvdi_get_pool V i"
| "run_pool_call V (GetPoolSummary i) = openvdi_get_pool_summary V i"
| "run_pool_call V (CreatePool a) = openvdi_create_pool V a"
| "run_pool_call V (UpdatePool a b c d e f g h i j k) = openvdi_update_pool V a b c d e f g h i j k"
| "run_pool_call V (DeletePool i y) = openvdi_delete_pool V i y"
| "run_pool_call V (ProvisionPool i n t) = openvdi_provision_pool V i n t"
| "run_pool_call V (DrainPool i y t) = openvdi_drain_pool V i y t"

fun run_desktop_call :: "'w mcp_env \<Rightarrow> desktop_call \<Rightarrow> ('w, jval) mcp_prog" where
  "run_desktop_call V (ListDesktops a b c m n) = openvdi_list_desktops V a b c m n"
| "run_desktop_call V (GetDesktop i) = openvdi_get_desktop V i"
| "run_desktop_call V (AssignDesktop i u y) = openvdi_assign_desktop V i u y"
| "run_desktop_call V (UnassignDesktop i y) = openvdi_unassign_desktop V i y"
| "run_desktop_call V (RebuildDesktop i y t) = openvdi_rebuild_desktop V i y t"
| "run_desktop_call V (PowerDesktop i a y t) = openvdi_power_desktop V i a y t"
| "run_desktop_call V (DeleteDesktop i y) = openvdi_delete_desktop V i y"

fun run_intent_call :: "'w mcp_env \<Rightarrow> intent_call \<Rightarrow> ('w, jval) mcp_prog" where
  "run_intent_call V HealthCheck = openvdi_health_check V"
| "run_intent_call V (SmokeTest i p c) = openvdi_smoke_test V i p c"
| "run_intent_call V (DeployPool a y) = openvdi_deploy_pool V a y"
| "run_intent_call V (ResetEnvironment p kc kt y) = openvdi_reset_test_environment V p kc kt y"
| "run_intent_call V (DiagnoseUser u) = openvdi_diagnose_user V u"
| "run_intent_call V (DiagnosePool i) = openvdi_diagnose_pool V i"

fun run_call :: "'w mcp_env \<Rightarrow> mcp_call \<Rightarrow> ('w, jval) mcp_prog" where
  "run_call V (ClusterTool c) = run_cluster_call V c"
| "run_call V (TemplateTool c) = run_template_call V c"
| "run_call V (AccessTool c) = run_access_call V c"
| "run_call V (OverviewTool c) = run_overview_call V c"
| "run_call V (PoolTool c) = run_pool_call V c"
| "run_call V (DesktopTool c) = run_desktop_call V c"
| "run_call V (IntentTool c) = run_intent_call V c"

text \<open>
  Whether the caller asked for a change: the tools that read never do, those with a \<open>confirm\<close>
  argument only when it is true. Starting and rebooting a desktop ignore that argument, and a smoke test has none: they ask by
  being called, the smoke test when it may provision, which is its default.
\<close>

fun asks_for_change :: "mcp_call \<Rightarrow> bool" where
  "asks_for_change (ClusterTool c) = (case c of CreateCluster _ _ _ _ _ _ _ \<Rightarrow> True
     | UpdateCluster _ _ _ _ _ _ _ \<Rightarrow> True | DeleteCluster _ y \<Rightarrow> y | _ \<Rightarrow> False)"
| "asks_for_change (TemplateTool c) = (case c of RegisterTemplate _ _ _ _ _ _ _ _ _ _ \<Rightarrow> True
     | UpdateTemplate _ _ _ _ _ _ _ _ \<Rightarrow> True | ValidateTemplate _ \<Rightarrow> True | RetireTemplate _ y \<Rightarrow> y | _ \<Rightarrow> False)"
| "asks_for_change (AccessTool c) = (case c of GrantEntitlement _ _ _ \<Rightarrow> True
     | RevokeEntitlement _ _ y \<Rightarrow> y | ForceDisconnect _ y \<Rightarrow> y | _ \<Rightarrow> False)"
| "asks_for_change (OverviewTool c) = False"
| "asks_for_change (PoolTool c) = (case c of CreatePool _ \<Rightarrow> True | UpdatePool _ _ _ _ _ _ _ _ _ _ _ \<Rightarrow> True
     | DeletePool _ y \<Rightarrow> y | ProvisionPool _ _ _ \<Rightarrow> True | DrainPool _ y _ \<Rightarrow> y | _ \<Rightarrow> False)"
| "asks_for_change (DesktopTool c) = (case c of AssignDesktop _ _ y \<Rightarrow> y | UnassignDesktop _ y \<Rightarrow> y
     | RebuildDesktop _ y _ \<Rightarrow> y | PowerDesktop _ a y _ \<Rightarrow> a \<in> {''start'', ''reboot''} \<or> y
     | DeleteDesktop _ y \<Rightarrow> y | _ \<Rightarrow> False)"
| "asks_for_change (IntentTool c) = (case c of SmokeTest _ p _ \<Rightarrow> p | DeployPool _ y \<Rightarrow> y
     | ResetEnvironment _ _ _ y \<Rightarrow> y | _ \<Rightarrow> False)"

section \<open>Tools that only read\<close>

lemma pres_find_eff [pres_intros]: "(\<And>x. pres J (f x)) \<Longrightarrow> pres J (find_eff f xs)"
  by (induction xs) (auto intro!: pres_ret pres_bnd)

lemma pres_collect_eff [pres_intros]:
  "(\<And>x. pres J (f x)) \<Longrightarrow> (\<And>x. pres J (g x)) \<Longrightarrow> pres J (collect_eff f g xs)"
  by (induction xs) (auto intro!: pres_ret pres_bnd)

lemma pres_id_and_name [pres_intros]: "pres J (id_and_name v)"
  unfolding id_and_name_def by (intro pres_intros)

lemma pres_blocking_pools [pres_intros]: "pres J (blocking_pools v)"
  unfolding blocking_pools_def by (intro pres_intros)

lemma pres_hash_value [pres_intros]: "pres J (hash_value v)"
  unfolding hash_value_def by (intro pres_intros)

lemma pres_hash_item [pres_intros]: "pres J (hash_item k x)"
  unfolding hash_item_def by (intro pres_intros)

lemma pres_item_set [pres_intros]: "pres J (item_set k xs)"
  unfolding item_set_def by (intro pres_intros)

lemma pres_name_starts [pres_intros]: "pres J (name_starts prefix p)"
  unfolding name_starts_def by (auto intro!: pres_intros split: jval.split)

lemma pres_listed [pres_intros]: "pres J m \<Longrightarrow> pres J (listed m)"
  unfolding listed_def by (intro pres_intros)

lemma pres_entitles_user [pres_intros]: "pres J (entitles_user u e)"
  unfolding entitles_user_def by (auto intro!: pres_intros split: jval.split)

text \<open>An invariant under which every \<open>GET\<close> is allowed; one that does not look at the handler's variable.\<close>

locale reading = guarded J T for J :: "'w mcp \<Rightarrow> bool" and T +
  assumes gets: "T ''GET'' path"
begin

lemma keep_gated:
  assumes "\<not> ms_read_only (mv_settings V) \<Longrightarrow> pres J m"
  shows "pres J (andthen (require_writable V tool) m)"
proof (cases "ms_read_only (mv_settings V)")
  case True
  then show ?thesis by (simp add: require_writable_def do_when_def pres_throw)
next
  case False
  with assms show ?thesis by (simp add: require_writable_def do_when_def)
qed

lemma keep_get [pres_intros]: "pres J (api_get V path params)"
  by (intro keep_api_get gets)

lemma keep_raw [pres_intros]: "pres J (get_raw V path params)"
  by (intro keep_get_raw gets)

lemma keep_active_sessions [pres_intros]: "pres J (active_sessions_of V key i)"
  unfolding active_sessions_of_def by (intro pres_intros)

lemma keep_poll [pres_intros]:
  "pres J fetch \<Longrightarrow> pres J (poll_terminal V fetch terminal deadline interval seen n)"
  by (induction n arbitrary: seen) (auto intro!: pres_intros)

lemma keep_wait [pres_intros]: "pres J fetch \<Longrightarrow> pres J (wait_for_terminal V fetch terminal timeout)"
  unfolding wait_for_terminal_def by (intro pres_intros)

lemma keep_wait_pool [pres_intros]: "pres J fetch \<Longrightarrow> pres J (wait_for_pool_terminal_state V fetch terminal timeout)"
  unfolding wait_for_pool_terminal_state_def by (intro pres_intros)

lemma keep_wait_desktop [pres_intros]:
  "pres J fetch \<Longrightarrow> pres J (wait_for_desktop_terminal_state V fetch terminal timeout)"
  unfolding wait_for_desktop_terminal_state_def by (intro pres_intros)

lemma keep_drain_state [pres_intros]: "pres J (drain_state V i)"
  unfolding drain_state_def by (auto intro!: pres_intros split: jval.split)

lemma keep_desktop_and_sessions [pres_intros]:
  "(\<And>kvs ss. pres J (preview kvs ss)) \<Longrightarrow> pres J (desktop_and_sessions V i preview)"
  unfolding desktop_and_sessions_def by (intro pres_intros)

lemma keep_previews [pres_intros]:
  "pres J (preview_delete_pool V i)" "pres J (preview_drain_pool V i)" "pres J (preview_assign_desktop V i u)"
  "pres J (preview_rebuild_desktop i kvs ss)" "pres J (preview_power_desktop i a kvs ss)"
  "pres J (preview_delete_desktop i kvs ss)"
  unfolding preview_delete_pool_def preview_drain_pool_def preview_assign_desktop_def
    preview_rebuild_desktop_def preview_power_desktop_def preview_delete_desktop_def
  by (intro pres_intros)+

lemma keep_readers [pres_intros]:
  "pres J (openvdi_list_clusters V)" "pres J (openvdi_get_cluster V i)"
  "pres J (openvdi_list_templates V a b c m n)" "pres J (openvdi_get_template V i)"
  "pres J (openvdi_list_entitlements V i a)" "pres J (openvdi_list_sessions V a b c d m n)"
  "pres J (openvdi_get_session V i)" "pres J (openvdi_get_dashboard_summary V)"
  "pres J (openvdi_get_dashboard_capacity V)" "pres J (openvdi_query_audit V a b c d e f m n)"
  "pres J (openvdi_list_user_desktops V i)" "pres J (openvdi_list_user_sessions V i y n)"
  "pres J (openvdi_list_pools V a b c d m n)" "pres J (openvdi_get_pool V i)"
  "pres J (openvdi_list_desktops V a b c m n)" "pres J (openvdi_get_desktop V i)"
  unfolding openvdi_list_clusters_def openvdi_get_cluster_def openvdi_list_templates_def openvdi_get_template_def
    openvdi_list_entitlements_def openvdi_list_sessions_def openvdi_get_session_def
    openvdi_get_dashboard_summary_def openvdi_get_dashboard_capacity_def openvdi_query_audit_def
    openvdi_list_user_desktops_def openvdi_list_user_sessions_def openvdi_list_pools_def openvdi_get_pool_def
    openvdi_list_desktops_def openvdi_get_desktop_def
  by (intro pres_intros)+

lemma keep_summary [pres_intros]: "pres J (openvdi_get_pool_summary V i)"
  unfolding openvdi_get_pool_summary_def Let_def by (intro pres_intros)

end

end
