(* ===== verification/Mcp_Changes.thy ===== *)
theory Mcp_Changes
  imports Mcp_Safety
begin

text \<open>
  The tools that change something, behind their gates: which requests each may send. With them
  the invariants of \<open>guarded\<close> hold through every call of the registry, and a call that asks for
  no change, or comes in read-only mode, sends nothing but \<open>GET\<close>.
\<close>

context reading
begin

lemma keep_cluster_tools:
  "(\<not> ms_read_only (mv_settings V) \<Longrightarrow> T ''POST'' ''/api/v1/clusters'') \<Longrightarrow>
     pres J (openvdi_create_cluster V a b c d e f g)"
  "(\<not> ms_read_only (mv_settings V) \<Longrightarrow> T ''PUT'' (api_path V ''clusters'' i [])) \<Longrightarrow>
     pres J (openvdi_update_cluster V i a b c d e f)"
  "(\<not> ms_read_only (mv_settings V) \<Longrightarrow> y \<Longrightarrow> T ''DELETE'' (api_path V ''clusters'' i [])) \<Longrightarrow>
     pres J (openvdi_delete_cluster V i y)"
  unfolding openvdi_create_cluster_def openvdi_update_cluster_def openvdi_delete_cluster_def
  by (rule keep_instrumented, rule keep_gated, intro pres_intros; simp)+

lemma keep_template_tools:
  "(\<not> ms_read_only (mv_settings V) \<Longrightarrow> T ''POST'' ''/api/v1/templates'') \<Longrightarrow>
     pres J (openvdi_register_template V a b c d e f g h i j)"
  "(\<not> ms_read_only (mv_settings V) \<Longrightarrow> T ''PUT'' (api_path V ''templates'' i [])) \<Longrightarrow>
     pres J (openvdi_update_template V i a b c d e f g)"
  "(\<not> ms_read_only (mv_settings V) \<Longrightarrow> T ''POST'' (api_path V ''templates'' i ''/validate'')) \<Longrightarrow>
     pres J (openvdi_validate_template V i)"
  "(\<not> ms_read_only (mv_settings V) \<Longrightarrow> y \<Longrightarrow> T ''DELETE'' (api_path V ''templates'' i [])) \<Longrightarrow>
     pres J (openvdi_retire_template V i y)"
  unfolding openvdi_register_template_def openvdi_update_template_def openvdi_validate_template_def
    openvdi_retire_template_def
  by (rule keep_instrumented, rule keep_gated, intro pres_intros; simp)+

lemma keep_access_tools:
  "(\<not> ms_read_only (mv_settings V) \<Longrightarrow> T ''POST'' (api_path V ''pools'' i ''/entitlements'')) \<Longrightarrow>
     pres J (openvdi_grant_entitlement V i a b)"
  "(\<not> ms_read_only (mv_settings V) \<Longrightarrow> y \<Longrightarrow> T ''DELETE'' (api_path V ''pools'' i (''/entitlements/'' @ e))) \<Longrightarrow>
     pres J (openvdi_revoke_entitlement V i e y)"
  "(\<not> ms_read_only (mv_settings V) \<Longrightarrow> y \<Longrightarrow> T ''DELETE'' (api_path V ''sessions'' i [])) \<Longrightarrow>
     pres J (openvdi_force_disconnect_session V i y)"
  unfolding openvdi_grant_entitlement_def openvdi_revoke_entitlement_def openvdi_force_disconnect_session_def
  by (rule keep_instrumented, rule keep_gated, intro pres_intros; simp)+

lemma keep_pool_tools:
  "(\<not> ms_read_only (mv_settings V) \<Longrightarrow> T ''POST'' ''/api/v1/pools'') \<Longrightarrow> pres J (openvdi_create_pool V a)"
  "(\<not> ms_read_only (mv_settings V) \<Longrightarrow> T ''PUT'' (pool_path V i [])) \<Longrightarrow>
     pres J (openvdi_update_pool V i b c d e f g h j k l)"
  "(\<not> ms_read_only (mv_settings V) \<Longrightarrow> y \<Longrightarrow> T ''DELETE'' (pool_path V i [])) \<Longrightarrow> pres J (openvdi_delete_pool V i y)"
  "(\<not> ms_read_only (mv_settings V) \<Longrightarrow> T ''POST'' (pool_path V i ''/provision'')) \<Longrightarrow>
     pres J (openvdi_provision_pool V i n t)"
  "(\<not> ms_read_only (mv_settings V) \<Longrightarrow> y \<Longrightarrow> T ''POST'' (pool_path V i ''/drain'')) \<Longrightarrow>
     pres J (openvdi_drain_pool V i y t)"
  unfolding openvdi_create_pool_def openvdi_update_pool_def openvdi_delete_pool_def openvdi_provision_pool_def
    openvdi_drain_pool_def
  by (rule keep_instrumented, rule keep_gated, intro pres_intros; simp)+

lemma keep_desktop_tools:
  "(\<not> ms_read_only (mv_settings V) \<Longrightarrow> y \<Longrightarrow> T ''POST'' (desktop_path V i ''/assign'')) \<Longrightarrow>
     pres J (openvdi_assign_desktop V i u y)"
  "(\<not> ms_read_only (mv_settings V) \<Longrightarrow> y \<Longrightarrow> T ''POST'' (desktop_path V i ''/unassign'')) \<Longrightarrow>
     pres J (openvdi_unassign_desktop V i y)"
  "(\<not> ms_read_only (mv_settings V) \<Longrightarrow> y \<Longrightarrow> T ''POST'' (desktop_path V i ''/rebuild'')) \<Longrightarrow>
     pres J (openvdi_rebuild_desktop V i y t)"
  "(\<not> ms_read_only (mv_settings V) \<Longrightarrow> y \<Longrightarrow> T ''DELETE'' (desktop_path V i [])) \<Longrightarrow>
     pres J (openvdi_delete_desktop V i y)"
  unfolding openvdi_assign_desktop_def openvdi_unassign_desktop_def openvdi_rebuild_desktop_def
    openvdi_delete_desktop_def
  by (rule keep_instrumented, rule keep_gated, intro pres_intros; simp)+

lemma keep_power_tool:
  assumes "\<not> ms_read_only (mv_settings V) \<Longrightarrow> a \<in> {''start'', ''reboot''} \<or> y \<Longrightarrow>
    T ''POST'' (desktop_path V i (''/power/'' @ a))"
  shows "pres J (openvdi_power_desktop V i a y t)"
  unfolding openvdi_power_desktop_def
proof (rule keep_instrumented, rule keep_gated, rule pres_if [OF pres_throw], rule pres_if)
  assume "\<not> ms_read_only (mv_settings V)" "\<not> a \<notin> set valid_power_actions" "\<not> (a \<in> {''stop'', ''shutdown''} \<and> \<not> y)"
  then have "T ''POST'' (desktop_path V i (''/power/'' @ a))"
    by (intro assms) (auto simp: valid_power_actions_def)
  then show "pres J (andthen (api_post V (desktop_path V i (''/power/'' @ a)) JNull)
      (wait_for_desktop_terminal_state V (api_get V (desktop_path V i []) [])
        (desktop_power_terminal (if a \<in> {''start'', ''reboot''} then ''running'' else ''stopped'')) t))"
    by (intro pres_intros)
qed (intro pres_intros)

lemma keep_age [pres_intros]: "pres J (age_beyond V threshold v)"
  unfolding age_beyond_def by (auto intro!: pres_intros split: iso_time.split)

lemma keep_desktop_lines [pres_intros]:
  "pres J (error_line d)" "pres J (identify_stuck_provisioning V ds)" "pres J (identify_orphan_tasks V ds)"
  unfolding error_line_def identify_stuck_provisioning_def identify_orphan_tasks_def stuck_line_def orphan_line_def Let_def
  by (intro pres_intros)+

lemma keep_pools_of_user [pres_intros]:
  "pres J (entitled_pool V view)" "pres J (group_entitlements_of V direct p)"
  unfolding entitled_pool_def group_entitlements_of_def group_entitlement_def by (intro pres_intros)+

lemma keep_cluster_line [pres_intros]: "pres J (cluster_line c)"
  unfolding cluster_line_def Let_def by (intro pres_intros)

end

section \<open>Intents\<close>

lemma yields_pres:
  assumes "pres J m" "yields (\<lambda>_. True) Q (\<lambda>_. True) m"
  shows "yields J Q (\<lambda>_. True) m"
  unfolding yields_def
proof (intro allI impI wpI)
  fix s a t
  assume s: "J s" "m s = (Inr a, t)"
  from yieldsD [OF assms(2) TrueI, of s] s(2) have "Q a" by (simp add: wp_def)
  with presD2 [OF assms(1) s] show "Q a \<and> J t" by simp
qed (simp add: presD2 [OF assms(1)])

lemma pres_yields:
  assumes "yields J Q C m"
  shows "pres J m"
  unfolding pres_def
proof (intro allI impI)
  fix s
  assume "J s"
  with yieldsD [OF assms this] show "J (snd (m s))"
    by (cases "fst (m s)") (auto simp: wp_def split: prod.splits)
qed

lemma yields_any: "yields (\<lambda>_. True) (\<lambda>_. True) (\<lambda>_. True) m"
  by (simp add: yields_def wp_def split: prod.split sum.split)

text \<open>An invariant that also allows the steps of an intent and what it created to change.\<close>

locale recording = reading J T for J :: "'w mcp \<Rightarrow> bool" and T +
  assumes on_steps: "J s \<Longrightarrow> J (s\<lparr>mc_steps := xs\<rparr>)"
    and on_created: "J s \<Longrightarrow> J (s\<lparr>mc_created := cs\<rparr>)"
begin

lemma keep_patch_last [pres_intros]: "pres J (patch_last f)"
  unfolding patch_last_def by (intro pres_modify on_steps)

lemma keep_set_details [pres_intros]: "pres J (set_details v)"
  unfolding set_details_def by (intro pres_intros)

lemma keep_record_created [pres_intros]: "pres J (record_created ty i)"
  unfolding record_created_def by (intro pres_modify on_created)

lemma keep_add_step [pres_intros]: "pres J (modify (\<lambda>s. s\<lparr>mc_steps := mc_steps s @ xs\<rparr>))"
  by (intro pres_modify on_steps)

lemma keep_intent_step [pres_intros]: "pres J body \<Longrightarrow> pres J (intent_step V name body)"
  unfolding intent_step_def by (intro pres_intros)

lemma keep_results [pres_intros]: "pres J (success_result op kvs)" "pres J (failure_result op e v)"
  unfolding success_result_def failure_result_def by (intro pres_intros)+

end

text \<open>An invariant that also allows the handler's variable to change.\<close>

locale intents = recording J T for J :: "'w mcp \<Rightarrow> bool" and T +
  assumes on_subject: "J s \<Longrightarrow> J (s\<lparr>mc_subject := v\<rparr>)"
begin

lemma keep_set_subject [pres_intros]: "pres J (set_subject v)"
  unfolding set_subject_def by (intro pres_modify on_subject)

lemma keep_new_tracker [pres_intros]: "pres J new_tracker"
  unfolding new_tracker_def
proof (rule pres_modify)
  fix s :: "'w mcp"
  assume "J s"
  from on_subject [OF on_created [OF on_steps [OF this, of "[]"], of "[]"], of JNull]
  show "J (s\<lparr>mc_steps := [], mc_created := [], mc_subject := JNull\<rparr>)" by simp
qed

lemma keep_intent [pres_intros]: "pres J body \<Longrightarrow> pres J (intent op body f)"
  unfolding intent_def by (intro pres_intros)

lemma keep_health [pres_intros]: "pres J (openvdi_health_check V)"
  unfolding openvdi_health_check_def Let_def by (intro pres_intros)

lemma keep_diagnose_user [pres_intros]: "pres J (openvdi_diagnose_user V u)"
  unfolding openvdi_diagnose_user_def by (intro pres_intros)

lemma keep_desktop_findings [pres_intros]: "pres J (desktop_findings V ds)"
  unfolding desktop_findings_def by (intro pres_intros)

lemma keep_build_issues [pres_intros]: "pres J (build_issues_list V pool summary es ss os cluster)"
  unfolding build_issues_list_def cluster_issues_def status_issues_def capacity_issues_def Let_def
  by (intro pres_intros)

lemma keep_diagnose_pool [pres_intros]: "pres J (openvdi_diagnose_pool V i)"
  unfolding openvdi_diagnose_pool_def fetch_dict_def fetch_sized_def by (intro pres_intros)

lemma keep_preview_pools [pres_intros]: "pres J (preview_pools V ps nd ns ne out)"
  by (induction ps arbitrary: nd ns ne out) (auto simp: Let_def intro!: pres_intros)

lemma keep_reset_preview [pres_intros]: "pres J (build_dry_run_preview V ps prefix kc kt)"
  unfolding build_dry_run_preview_def would_remove_def list_template_rows_def list_cluster_rows_def
  by (intro pres_intros)

end

section \<open>Nothing changes unasked\<close>

definition only_gets :: "string \<Rightarrow> string \<Rightarrow> bool" where
  "only_gets verb path \<longleftrightarrow> verb = ''GET''"

interpretation gets: intents "sends_only only_gets B" only_gets for B
  by unfold_locales (auto simp: sends_only_def only_gets_def)

interpretation gets_untouched: recording "\<lambda>s. sends_only only_gets B s \<and> mc_subject s = v" only_gets for B v
  by unfold_locales (auto simp: sends_only_def only_gets_def)

lemma read_only_gate:
  "ms_read_only (mv_settings V) \<Longrightarrow> pres J (andthen (require_writable V tool) m)"
  by (simp add: require_writable_def do_when_def pres_throw)

lemma pres_intent_untouched:
  fixes body :: "('w, jval) mcp_prog"
  assumes "pres (\<lambda>s. sends_only T B s \<and> mc_subject s = JNull) body"
  shows "pres (sends_only T B) (intent op body f)"
  unfolding pres_def
proof (intro allI impI)
  fix s :: "'w mcp"
  assume "sends_only T B s"
  then have "sends_only T B (snd (body (s\<lparr>mc_steps := [], mc_created := [], mc_subject := JNull\<rparr>)))"
    using presD [OF assms, of "s\<lparr>mc_steps := [], mc_created := [], mc_subject := JNull\<rparr>"]
    by (simp add: sends_only_def)
  then show "sends_only T B (snd (intent op body f s))"
    by (auto simp: intent_def new_tracker_def failure_result_def exec_simps split: prod.splits sum.splits)
qed

lemma check_capacity_room:
  "yields (\<lambda>_. True) (\<lambda>available. \<not> eq_int available 0) (\<lambda>_. True) (check_capacity V i pool False)"
  unfolding check_capacity_def Let_def
  by (rule yields_bnd [OF yields_any], rule yields_bnd [OF yields_any],
      rule yields_andthen [OF yields_any], rule yields_bnd [OF yields_any])
    (auto intro: yields_ret yields_throw)

lemma yields_intent_step:
  assumes "yields (\<lambda>_. True) Q (\<lambda>_. True) body"
  shows "yields (\<lambda>_. True) Q (\<lambda>_. True) (intent_step V name body)"
  using assms
  by (fastforce simp: yields_def wp_def intent_step_def mcp_clock_def patch_last_def exec_simps
      split: prod.splits sum.splits)

lemma smoke_reads: "pres (sends_only only_gets B) (openvdi_smoke_test V i False cleanup)"
proof -
  let ?J = "\<lambda>s. sends_only only_gets B s \<and> mc_subject s = JNull"
  have room: "yields ?J (\<lambda>available. \<not> eq_int available 0) (\<lambda>_. True)
      (intent_step V ''query_capacity'' (check_capacity V i pool False))" for pool
    unfolding check_capacity_def Let_def
    by (rule yields_pres, intro pres_intros)
      (rule yields_intent_step [OF check_capacity_room [unfolded check_capacity_def Let_def]])
  have quiet: "yields ?J (\<lambda>v. v = JNull) (\<lambda>_. True) (reads mc_subject)"
    by (simp add: yields_def wp_simps)
  have active: "pres ?J (intent_step V name (check_pool_active V i))"
    and verified: "pres ?J (intent_step V name (verify_desktop V i))" for name
    unfolding check_pool_active_def verify_desktop_def Let_def by (intro pres_intros)+
  have "pres ?J (smoke_body V i False cleanup)"
    unfolding smoke_body_def
    by (intro pres_yields [where Q = "\<lambda>_. True" and C = "\<lambda>_. True"]
        yields_bnd [OF yields_pres [OF active yields_any]], rule yields_bnd [OF room])
      (simp add: do_when_def, rule yields_bnd [OF yields_pres [OF verified yields_any]], rule yields_bnd [OF quiet],
       simp add: do_when_def, rule yields_pres [OF _ yields_any], intro pres_intros)
  then show ?thesis
    unfolding openvdi_smoke_test_def
    by (simp add: do_when_def) (intro pres_intros pres_intent_untouched)
qed

end
