(* ===== verification/Mcp_Facts.thy ===== *)
theory Mcp_Facts
  imports Mcp_Changes Error_Envelope
begin

text \<open>
  What the parts of the MCP server promise: nothing is changed unasked, a reset stays within its
  prefix, the client of the broker replays a request at most once, polling ends, the health of a
  pool is its worst issue, and every broker error reaches the tool as it was.
\<close>

section \<open>A concrete server\<close>

text \<open>A broker that enveloped every request, logins included, with one active and empty pool.\<close>

definition demo_pool_json :: jval where
  "demo_pool_json = JObj [(''id'', JStr ''p1''), (''name'', JStr ''lab''), (''status'', JStr ''active''),
     (''cluster_id'', JStr ''c1''), (''access_token'', JStr ''t''), (''power_state'', JStr ''running'')]"

definition demo_broker :: "api_request \<Rightarrow> int \<Rightarrow> (send_failure + api_response) \<times> int" where
  "demo_broker rq w = (Inr \<lparr>as_status = 200,
     as_json = Some (JObj [(''data'', demo_pool_json), (''error'', JNull)])\<rparr>, w + 1)"

definition demo_mcp :: "int mcp_env" where
  "demo_mcp = \<lparr>mv_env = sim_env,
     mv_settings = \<lparr>ms_service_user = ''svc'', ms_service_password = ''pw'', ms_read_only = False,
       ms_log_tool_starts = False\<rparr>,
     mv_send = demo_broker, mv_str = (\<lambda>_. ''v''), mv_repr = (\<lambda>_. ''v''), mv_from_iso = (\<lambda>_. NotIso),
     mv_iso = (\<lambda>_. ''now''), mv_first = hd\<rparr>"

definition demo_server :: "int mcp" where
  "demo_server = \<lparr>mc_world = 0, mc_token = None, mc_request_id = None, mc_sent = [], mc_log = [],
     mc_steps = [], mc_created = [], mc_subject = JNull\<rparr>"

section \<open>One replay\<close>

lemma mcp_send_sent:
  "mc_sent (snd (mcp_send V rq s)) = mc_sent s @ [rq]"
  "fst (mcp_send V rq s) = Inr (fst (mv_send V rq (mc_world s)))"
  by (simp_all add: mcp_send_def split: prod.split)

text \<open>\<open>m\<close> sends nothing but logins, and at most \<open>n\<close> of them.\<close>

definition logs_in :: "nat \<Rightarrow> ('w, 'a) mcp_prog \<Rightarrow> bool" where
  "logs_in n m \<longleftrightarrow> (\<forall>s. \<exists>ls. mc_sent (snd (m s)) = mc_sent s @ ls \<and> list_all aq_login ls \<and> length ls \<le> n)"

lemma logs_inD:
  assumes "logs_in n m" "m s = (r, t)"
  obtains ls where "mc_sent t = mc_sent s @ ls" "list_all aq_login ls" "length ls \<le> n"
  using assms unfolding logs_in_def by (metis snd_conv)

lemma logs_in_quiet: "(\<And>s. mc_sent (snd (m s)) = mc_sent s) \<Longrightarrow> logs_in n m"
  by (simp add: logs_in_def)

lemma logs_in_bnd:
  assumes "logs_in k m" "\<And>a. logs_in n (f a)" "k + n \<le> N"
  shows "logs_in N (bnd m f)"
  unfolding logs_in_def
proof
  fix s
  obtain r t where m: "m s = (r, t)" by fastforce
  from assms(1) m obtain ls where ls: "mc_sent t = mc_sent s @ ls" "list_all aq_login ls" "length ls \<le> k"
    by (rule logs_inD)
  show "\<exists>ls. mc_sent (snd (bnd m f s)) = mc_sent s @ ls \<and> list_all aq_login ls \<and> length ls \<le> N"
  proof (cases r)
    case (Inl e)
    with m ls assms(3) show ?thesis by (auto simp: exec_simps)
  next
    case (Inr a)
    obtain r' u where f: "f a t = (r', u)" by fastforce
    from assms(2) f obtain ls' where "mc_sent u = mc_sent t @ ls'" "list_all aq_login ls'" "length ls' \<le> n"
      by (rule logs_inD)
    with m Inr f ls assms(3) show ?thesis by (intro exI [of _ "ls @ ls'"]) (simp add: exec_simps)
  qed
qed

lemma logs_in_post_auth: "logs_in 1 (post_auth V path body)"
  unfolding logs_in_def post_auth_def by (auto simp: exec_simps mcp_send_def split: prod.split)

lemma logs_in_store_token: "logs_in 0 (store_token what code r)"
  by (rule logs_in_quiet) (auto simp: store_token_def Let_def exec_simps split: option.split)

lemma logs_in_throw: "logs_in n (throw e)"
  by (rule logs_in_quiet) (simp add: exec_simps)

lemma logs_in_do_login: "logs_in 1 (do_login V)"
  unfolding do_login_def
  by (rule logs_in_bnd [where k = 1 and n = 0])
    (auto intro: logs_in_post_auth [simplified] logs_in_store_token logs_in_throw split: sum.split send_failure.split)

lemma logs_in_do_refresh: "logs_in 1 (do_refresh V)"
  unfolding do_refresh_def
  by (rule logs_in_bnd [where k = 1 and n = 0])
    (auto intro: logs_in_post_auth [simplified] logs_in_store_token logs_in_throw split: sum.split send_failure.split)

lemma logs_in_force_new_token: "logs_in 2 (force_new_token V)"
  unfolding logs_in_def
proof
  fix s
  obtain r t where m: "do_refresh V s = (r, t)" by fastforce
  from logs_in_do_refresh m obtain ls where ls: "mc_sent t = mc_sent s @ ls" "list_all aq_login ls" "length ls \<le> 1"
    by (rule logs_inD)
  obtain r' u where f: "do_login V (t\<lparr>mc_token := None\<rparr>) = (r', u)" by fastforce
  from logs_in_do_login f obtain ls' where
    "mc_sent u = mc_sent (t\<lparr>mc_token := None\<rparr>) @ ls'" "list_all aq_login ls'" "length ls' \<le> 1"
    by (rule logs_inD)
  with m f ls show "\<exists>ls. mc_sent (snd (force_new_token V s)) = mc_sent s @ ls \<and> list_all aq_login ls \<and> length ls \<le> 2"
    by (cases r) (auto simp: force_new_token_def do_refresh_or_login_def exec_simps intro: exI [of _ ls] exI [of _ "ls @ ls'"])
qed

lemma logs_in_get_token: "logs_in 1 (get_token V)"
  unfolding get_token_def
  by (rule logs_in_bnd [where k = 0 and n = 1])
    (auto intro: logs_in_quiet logs_in_do_login [simplified] simp: exec_simps split: option.split)

text \<open>One API request, answered at the state it is sent from.\<close>

lemma attempt_call_run:
  assumes "attempt_call V verb path params body token s = (r, t)"
  obtains q where "mc_sent t = mc_sent s @ [q]" "\<not> aq_login q" "aq_method q = verb" "aq_path q = path"
    "aq_params q = params" "aq_body q = body"
    "\<And>x. r = Inr x \<Longrightarrow> fst (mv_send V q (mc_world s)) = Inr x"
proof
  let ?q = "\<lparr>aq_login = False, aq_method = verb, aq_path = path, aq_params = params, aq_body = body,
       aq_headers = [(''Authorization'', ''Bearer '' @ token), (''Accept'', ''application/json'')]
         @ request_id_headers (mc_request_id s)\<rparr>"
  obtain a w where "mv_send V ?q (mc_world s) = (a, w)" by fastforce
  with assms show "mc_sent t = mc_sent s @ [?q]" "\<And>x. r = Inr x \<Longrightarrow> fst (mv_send V ?q (mc_world s)) = Inr x"
    by (auto simp: attempt_call_def exec_simps mcp_send_def split: sum.splits send_failure.splits)
qed simp_all

definition same_request :: "string \<Rightarrow> string \<Rightarrow> (string \<times> jval) list \<Rightarrow> jval \<Rightarrow> api_request \<Rightarrow> bool" where
  "same_request verb path params body q \<longleftrightarrow>
     aq_method q = verb \<and> aq_path q = path \<and> aq_params q = params \<and> aq_body q = body"

lemma attempt_after:
  assumes "logs_in n pre" "bnd pre (attempt_call V verb path params body) s = (r, t)"
  obtains ls where "mc_sent t = mc_sent s @ ls" "length (filter aq_login ls) \<le> n"
    "list_all (\<lambda>q. aq_login q \<or> same_request verb path params body q) ls"
    "filter (Not \<circ> aq_login) ls = [] \<and> isl r
     \<or> (\<exists>q w. filter (Not \<circ> aq_login) ls = [q] \<and> (\<forall>x. r = Inr x \<longrightarrow> fst (mv_send V q w) = Inr x))"
proof -
  obtain r0 t0 where tok: "pre s = (r0, t0)" by fastforce
  from assms(1) tok obtain ls where ls: "mc_sent t0 = mc_sent s @ ls" "list_all aq_login ls" "length ls \<le> n"
    by (rule logs_inD)
  from ls(2) have quiet: "filter aq_login ls = ls" "filter (Not \<circ> aq_login) ls = []"
    "list_all (\<lambda>q. aq_login q \<or> same_request verb path params body q) ls"
    by (auto simp: list_all_iff filter_empty_conv)
  show thesis
  proof (cases r0)
    case (Inl e)
    with tok assms(2) ls quiet that [of ls] show thesis by (auto simp: exec_simps)
  next
    case (Inr token)
    with tok assms(2) have "attempt_call V verb path params body token t0 = (r, t)" by (simp add: exec_simps)
    then obtain q where "mc_sent t = mc_sent t0 @ [q]" "\<not> aq_login q" "same_request verb path params body q"
      "\<And>x. r = Inr x \<Longrightarrow> fst (mv_send V q (mc_world t0)) = Inr x"
      unfolding same_request_def by (rule attempt_call_run) blast
    with ls quiet that [of "ls @ [q]"] show thesis by (simp add: comp_def) blast
  qed
qed

lemma authorized_twice:
  "authorized V verb path params body = bnd (bnd (get_token V) (attempt_call V verb path params body))
     (\<lambda>r. if as_status r = 401 then bnd (force_new_token V) (attempt_call V verb path params body) else ret r)"
  unfolding authorized_def
  by (rule ext, simp add: exec_simps split: prod.split sum.split)

text \<open>
  Property C16. One replay. A call of the broker's API sends the same request at most twice, and a second time
  only after the first was answered 401; around it go at most three logins and refreshes.
\<close>

theorem call_replayed_once:
  "\<exists>ls. mc_sent (snd (call_api V verb path params body s)) = mc_sent s @ ls
     \<and> length (filter aq_login ls) \<le> 3
     \<and> list_all (\<lambda>q. aq_login q \<or> same_request verb path params body q) ls
     \<and> (length (filter (Not \<circ> aq_login) ls) \<le> 1
        \<or> (\<exists>q q' w r. filter (Not \<circ> aq_login) ls = [q, q'] \<and> fst (mv_send V q w) = Inr r \<and> as_status r = 401))"
proof -
  let ?go = "attempt_call V verb path params body"
  have sent: "mc_sent (snd (call_api V verb path params body s)) = mc_sent (snd (authorized V verb path params body s))"
    by (auto simp: call_api_def exec_simps lift_result_def split: prod.split sum.split)
  obtain r t where once: "bnd (get_token V) ?go s = (r, t)" by fastforce
  from logs_in_get_token once obtain l1 where l1: "mc_sent t = mc_sent s @ l1" "length (filter aq_login l1) \<le> 1"
    "list_all (\<lambda>q. aq_login q \<or> same_request verb path params body q) l1"
    "filter (Not \<circ> aq_login) l1 = [] \<and> isl r
     \<or> (\<exists>q w. filter (Not \<circ> aq_login) l1 = [q] \<and> (\<forall>x. r = Inr x \<longrightarrow> fst (mv_send V q w) = Inr x))"
    by (rule attempt_after)
  show ?thesis
  proof (cases "\<exists>x. r = Inr x \<and> as_status x = 401")
    case False
    with once have "snd (authorized V verb path params body s) = t"
      unfolding authorized_twice by (cases r) (auto simp: bnd_def ret_def)
    with l1 show ?thesis by (intro exI [of _ l1]) (auto simp: sent)
  next
    case True
    then obtain x where x: "r = Inr x" "as_status x = 401" by blast
    with l1(4) obtain q w where q: "filter (Not \<circ> aq_login) l1 = [q]" "fst (mv_send V q w) = Inr x" by auto
    obtain r2 t2 where again: "bnd (force_new_token V) ?go t = (r2, t2)" by fastforce
    from logs_in_force_new_token again obtain l2 where l2: "mc_sent t2 = mc_sent t @ l2" "length (filter aq_login l2) \<le> 2"
      "list_all (\<lambda>q. aq_login q \<or> same_request verb path params body q) l2"
      "filter (Not \<circ> aq_login) l2 = [] \<and> isl r2
       \<or> (\<exists>q w. filter (Not \<circ> aq_login) l2 = [q] \<and> (\<forall>x. r2 = Inr x \<longrightarrow> fst (mv_send V q w) = Inr x))"
      by (rule attempt_after)
    from once x again have "snd (authorized V verb path params body s) = t2"
      unfolding authorized_twice by (simp add: bnd_def)
    with l1 l2 q x show ?thesis by (intro exI [of _ "l1 @ l2"]) (auto simp: sent)
  qed
qed

section \<open>Nothing changes unasked\<close>

text \<open>
  Property C14. Nothing is changed unasked, and nothing at all in read-only mode. Whatever of its 43 tools is
  called with whatever arguments, and whatever the broker enveloped: if the call does not ask for
  a change or the server is in read-only mode, every
  request it sends to the broker's API is a \<open>GET\<close>. Logins are the exception; they go through
  the client of the tokens. A tool with a \<open>confirm\<close> argument asks only when it is given. The tools without one ask by
  being called: those that create, register, update, validate, grant and provision, starting and rebooting a desktop, which
  ignore the argument, and a smoke test unless it is told not to provision.
\<close>

theorem unasked_calls_only_read:
  assumes "ms_read_only (mv_settings V) \<or> \<not> asks_for_change c"
  shows "\<forall>r \<in> set (mc_sent (snd (run_call V c s))).
    r \<in> set (mc_sent s) \<or> aq_login r \<or> aq_method r = ''GET''"
proof -
  let ?J = "sends_only only_gets (set (mc_sent s))"
  have writing: "pres ?J (instrumented V tool (andthen (require_writable V tool) m))"
    if "\<not> ms_read_only (mv_settings V) \<Longrightarrow> pres ?J m" for tool m
    by (rule sent.keep_instrumented, rule gets.keep_gated, rule that)
  have "pres ?J (run_call V c)"
  proof (cases c)
    case (ClusterTool x)
    then show ?thesis using assms
      by (cases x) (auto intro!: gets.keep_cluster_tools intro: pres_intros)
  next
    case (TemplateTool x)
    then show ?thesis using assms
      by (cases x) (auto intro!: gets.keep_template_tools intro: pres_intros)
  next
    case (AccessTool x)
    then show ?thesis using assms
      by (cases x) (auto intro!: gets.keep_access_tools intro: pres_intros)
  next
    case (OverviewTool x)
    then show ?thesis by (cases x) (auto intro: pres_intros)
  next
    case (PoolTool x)
    then show ?thesis using assms
      by (cases x) (auto intro!: gets.keep_pool_tools intro: pres_intros)
  next
    case (DesktopTool x)
    then show ?thesis using assms
      by (cases x) (auto intro!: gets.keep_desktop_tools gets.keep_power_tool intro: pres_intros)
  next
    case (IntentTool x)
    have "pres ?J (openvdi_smoke_test V i p y)" if "ms_read_only (mv_settings V) \<or> \<not> p" for i p y
      using that smoke_reads writing
      by (cases p) (auto simp: openvdi_smoke_test_def do_when_def)
    moreover have "pres ?J (openvdi_deploy_pool V a y)" if "ms_read_only (mv_settings V) \<or> \<not> y" for a y
      unfolding openvdi_deploy_pool_def using that by (intro writing) (auto intro: pres_throw pres_ret)
    moreover have "pres ?J (openvdi_reset_test_environment V p kc kt y)" if "ms_read_only (mv_settings V) \<or> \<not> y"
      for p kc kt y
      unfolding openvdi_reset_test_environment_def
      using that by (intro writing pres_intros) auto
    ultimately show ?thesis using assms IntentTool
      by (cases x) (auto intro: pres_intros)
  qed
  from presD [OF this, of s] show ?thesis by (simp add: sends_only_def only_gets_def)
qed

theorem unasked_calls_only_read_witness:
  "filter (\<lambda>r. \<not> aq_login r \<and> aq_method r \<noteq> ''GET'')
     (mc_sent (snd (run_call demo_mcp (PoolTool (DeletePool (JStr ''p1'') False)) demo_server))) = []"
  using unasked_calls_only_read [of demo_mcp "PoolTool (DeletePool (JStr ''p1'') False)" demo_server]
  by (auto simp: filter_empty_conv demo_server_def)

section \<open>Polling ends\<close>

text \<open>\<open>v\<close> is what the last request fetched; \<open>e\<close> was raised by it, or by the predicate on what it fetched.\<close>

definition fetched :: "('w, jval) mcp_prog \<Rightarrow> jval \<Rightarrow> 'w mcp \<Rightarrow> bool" where
  "fetched fetch v t \<longleftrightarrow> (\<exists>u. fetch u = (Inr v, t))"

definition fetch_failed :: "('w, jval) mcp_prog \<Rightarrow> (jval \<Rightarrow> exn + bool) \<Rightarrow> exn \<Rightarrow> 'w mcp \<Rightarrow> bool" where
  "fetch_failed fetch terminal e t \<longleftrightarrow> (\<exists>u. fetch u = (Inl e, t)) \<or> (\<exists>v. fetched fetch v t \<and> terminal v = Inl e)"

lemma wp_fetched:
  assumes "wp fetch Q X s"
  shows "wp fetch (\<lambda>v t. Q v t \<and> fetched fetch v t) (\<lambda>e t. X e t \<and> fetch_failed fetch terminal e t) s"
  using assms by (auto simp: wp_def fetched_def fetch_failed_def split: prod.splits sum.splits)

lemma poll_terminal_ends:
  assumes sleeps: "\<And>t w. 0 \<le> t \<Longrightarrow> e_mono (mv_env V) w + t \<le> e_mono (mv_env V) (e_sleep (mv_env V) t w)"
    and fetches: "\<And>s. wp fetch (\<lambda>v t. e_mono (mv_env V) (mc_world s) \<le> e_mono (mv_env V) (mc_world t)
      \<and> (\<forall>e. terminal v = Inl e \<longrightarrow> C e)) (\<lambda>e _. C e) s"
    and "0 < interval" "deadline - e_mono (mv_env V) (mc_world s) \<le> interval * int n" "fetched fetch seen s"
  shows "wp (poll_terminal V fetch terminal deadline interval seen (Suc n))
    (\<lambda>v t. (terminal v = Inr True \<or> deadline \<le> e_mono (mv_env V) (mc_world t)) \<and> fetched fetch v t)
    (\<lambda>e t. C e \<and> fetch_failed fetch terminal e t) s"
  using assms(4,5)
proof (induction n arbitrary: s seen)
  case 0
  then show ?case by (simp add: wp_simps mcp_clock_def)
next
  case (Suc n)
  let ?Q = "\<lambda>v t. (terminal v = Inr True \<or> deadline \<le> e_mono (mv_env V) (mc_world t)) \<and> fetched fetch v t"
  let ?X = "\<lambda>e t. C e \<and> fetch_failed fetch terminal e t"
  let ?t = "s\<lparr>mc_world := e_sleep (mv_env V) interval (mc_world s)\<rparr>"
  have "wp (bnd (lift_result (terminal v)) (\<lambda>b. if b then ret v
        else poll_terminal V fetch terminal deadline interval v (Suc n))) ?Q ?X t"
    if v: "(e_mono (mv_env V) (mc_world ?t) \<le> e_mono (mv_env V) (mc_world t) \<and> (\<forall>e. terminal v = Inl e \<longrightarrow> C e))
      \<and> fetched fetch v t" for v t
  proof -
    have "e_mono (mv_env V) (mc_world s) + interval \<le> e_mono (mv_env V) (mc_world t)"
      using sleeps [of interval "mc_world s"] v \<open>0 < interval\<close> by simp
    with Suc.prems(1) have "deadline - e_mono (mv_env V) (mc_world t) \<le> interval * int n"
      by (simp add: algebra_simps)
    from Suc.IH [OF this, of v] v show ?thesis
      by (cases "terminal v") (auto simp: lift_result_def wp_simps fetch_failed_def simp del: poll_terminal.simps)
  qed
  then have "wp fetch (\<lambda>v. wp (bnd (lift_result (terminal v)) (\<lambda>b. if b then ret v
        else poll_terminal V fetch terminal deadline interval v (Suc n))) ?Q ?X) ?X ?t"
    by (rule wp_mono [OF wp_fetched [OF fetches]])
  then show ?case using Suc.prems(2)
    by (subst poll_terminal.simps(2)) (simp add: wp_simps mcp_clock_def mcp_world_def del: poll_terminal.simps)
qed

text \<open>
  Property C19. Waiting comes to an end. If sleeping moves the clock and the fetched request does not turn it
  back, waiting for a terminal state never runs out of rounds. What it returns is what the last request
  fetched, with nothing in between, and is a terminal state or comes after the timeout; what it raises was raised by
  the last request, or by the predicate on what that one fetched.
\<close>

theorem waiting_ends:
  assumes "\<And>t w. 0 \<le> t \<Longrightarrow> e_mono (mv_env V) w + t \<le> e_mono (mv_env V) (e_sleep (mv_env V) t w)"
    and "\<And>s. wp fetch (\<lambda>v t. e_mono (mv_env V) (mc_world s) \<le> e_mono (mv_env V) (mc_world t)
      \<and> (\<forall>e. terminal v = Inl e \<longrightarrow> e \<noteq> OutOfFuel)) (\<lambda>e _. e \<noteq> OutOfFuel) s"
  shows "wp (wait_for_terminal V fetch terminal timeout)
    (\<lambda>v t. (\<exists>u. fetch u = (Inr v, t)) \<and> (terminal v = Inr True
       \<or> e_mono (mv_env V) (mc_world s) + 1000 * timeout \<le> e_mono (mv_env V) (mc_world t)))
    (\<lambda>e t. e \<noteq> OutOfFuel \<and> ((\<exists>u. fetch u = (Inl e, t)) \<or> (\<exists>u v. fetch u = (Inr v, t) \<and> terminal v = Inl e))) s"
proof -
  let ?deadline = "e_mono (mv_env V) (mc_world s) + 1000 * timeout"
  let ?poll = "\<lambda>v. poll_terminal V fetch terminal ?deadline 2000 v (nat timeout + 2)"
  let ?Q = "\<lambda>v t. (terminal v = Inr True \<or> ?deadline \<le> e_mono (mv_env V) (mc_world t)) \<and> fetched fetch v t"
  let ?X = "\<lambda>e t. e \<noteq> OutOfFuel \<and> fetch_failed fetch terminal e t"
  have "wp (bnd (lift_result (terminal v)) (\<lambda>b. if b then ret v else ?poll v)) ?Q ?X t"
    if v: "(e_mono (mv_env V) (mc_world s) \<le> e_mono (mv_env V) (mc_world t) \<and> (\<forall>e. terminal v = Inl e \<longrightarrow> e \<noteq> OutOfFuel))
      \<and> fetched fetch v t" for v t
  proof -
    have "?deadline - e_mono (mv_env V) (mc_world t) \<le> 2000 * int (nat timeout + 1)" using v by (cases "0 \<le> timeout") simp_all
    from poll_terminal_ends [OF assms _ this, of v] v have "wp (?poll v) ?Q ?X t"
      by (simp del: poll_terminal.simps)
    with v show ?thesis
      by (cases "terminal v") (auto simp: lift_result_def wp_simps fetch_failed_def simp del: poll_terminal.simps)
  qed
  then have "wp fetch (\<lambda>v. wp (bnd (lift_result (terminal v)) (\<lambda>b. if b then ret v else ?poll v)) ?Q ?X) ?X s"
    by (rule wp_mono [OF wp_fetched [OF assms(2)]])
  then have "wp (wait_for_terminal V fetch terminal timeout) ?Q ?X s"
    by (simp add: wait_for_terminal_def mcp_clock_def wp_simps del: poll_terminal.simps)
  then show ?thesis by (rule wp_mono) (auto simp: fetched_def fetch_failed_def)
qed

theorem waiting_ends_witness:
  "wp (wait_for_terminal demo_mcp (ret demo_pool_json) (desktop_power_terminal ''stopped'') 30)
     (\<lambda>v t. (\<exists>u. ret demo_pool_json u = (Inr v, t)) \<and> (desktop_power_terminal ''stopped'' v = Inr True
        \<or> e_mono (mv_env demo_mcp) (mc_world demo_server) + 1000 * 30 \<le> e_mono (mv_env demo_mcp) (mc_world t)))
     (\<lambda>e t. e \<noteq> OutOfFuel \<and> ((\<exists>u. ret demo_pool_json u = (Inl e, t))
        \<or> (\<exists>u v. ret demo_pool_json u = (Inr v, t) \<and> desktop_power_terminal ''stopped'' v = Inl e))) demo_server"
  by (rule waiting_ends)
    (simp_all add: demo_mcp_def sim_env_def wp_simps desktop_power_terminal_def get_field_def sum_bind_def demo_pool_json_def)

section \<open>Health of a pool\<close>

definition available_of :: "jval \<Rightarrow> jval" where
  "available_of summary = (case summary of
       JObj sm \<Rightarrow> (case or_else (get_or sm ''capacity'' JNull) (JObj []) of
           JObj c \<Rightarrow> get_or c ''available'' (JInt 0) | _ \<Rightarrow> JNull)
     | _ \<Rightarrow> JNull)"

definition spare_short :: "(string \<times> jval) list \<Rightarrow> jval \<Rightarrow> bool" where
  "spare_short pool summary \<longleftrightarrow> get_or pool ''pool_type'' JNull = JStr ''nonpersistent'' \<and>
     py_less (available_of summary) (get_or pool ''min_spare'' (JInt 0)) = Inr True"

abbreviation has_issue :: "severity \<Rightarrow> pool_issue list \<Rightarrow> bool" where
  "has_issue v xs \<equiv> list_ex (\<lambda>x. pi_severity x = v) xs"

lemma as_dict_returned: "as_dict v s = (Inr kvs, t) \<longleftrightarrow> v = JObj kvs \<and> t = s"
  by (auto simp: as_dict_def returned split: jval.splits)

lemmas returns_simps = returned as_dict_returned

lemma desktop_issues_has:
  "has_issue v (desktop_issues V rows sev thing f g) \<longleftrightarrow> rows \<noteq> [] \<and> sev = v"
  by (auto simp: desktop_issues_def split: list.splits)

lemma cluster_issues_has:
  "cluster_issues V cluster s = (Inr xs, t) \<Longrightarrow>
     has_issue v xs \<longleftrightarrow> get_or cluster ''status'' JNull \<noteq> JStr ''active'' \<and> v = SevError"
  by (auto simp: cluster_issues_def Let_def exec_simps split: if_splits prod.splits sum.splits)

lemma status_issues_has:
  "status_issues V pool s = (Inr xs, t) \<Longrightarrow>
     has_issue v xs \<longleftrightarrow> get_or pool ''status'' JNull = JStr ''error'' \<and> v = SevError
       \<or> get_or pool ''status'' JNull = JStr ''draining'' \<and> v = SevWarning"
  by (auto simp: status_issues_def Let_def exec_simps split: if_splits prod.splits sum.splits)

lemma capacity_issues_has:
  "capacity_issues V pool summary s = (Inr xs, t) \<Longrightarrow> has_issue v xs \<longleftrightarrow> spare_short pool summary \<and> v = SevWarning"
  unfolding capacity_issues_def Let_def
  by (auto simp: returns_simps spare_short_def available_of_def split: if_splits)

lemma error_lines_any:
  "map_eff error_line ds s = (Inr ess, t) \<Longrightarrow>
     concat ess \<noteq> [] \<longleftrightarrow> (\<exists>d\<in>set ds. line_field d ''status'' = JStr ''error'')"
proof (induction ds arbitrary: s t ess)
  case (Cons d ds)
  from Cons.prems obtain es rest u where "error_line d s = (Inr es, u)" "map_eff error_line ds u = (Inr rest, t)"
    "ess = es # rest" by (auto simp: returns_simps)
  moreover from this(1) have "es \<noteq> [] \<longleftrightarrow> line_field d ''status'' = JStr ''error''"
    by (auto simp: error_line_def line_field_def returns_simps split: if_splits)
  ultimately show ?case using Cons.IH [of u rest t] by auto
qed (simp add: returns_simps)

lemma build_issues_has:
  assumes "build_issues_list V pool summary es stuck orphans cluster s = (Inr issues, t)"
  shows "has_issue v issues \<longleftrightarrow>
     v = SevError \<and> (get_or cluster ''status'' JNull \<noteq> JStr ''active'' \<or> get_or pool ''status'' JNull = JStr ''error'' \<or> es \<noteq> [])
     \<or> v = SevWarning \<and> (get_or pool ''status'' JNull = JStr ''draining'' \<or> spare_short pool summary
          \<or> stuck \<noteq> [] \<or> orphans \<noteq> [])"
  using assms unfolding build_issues_list_def returns_simps
  by (elim exE conjE)
    (drule cluster_issues_has [where v = v], drule status_issues_has [where v = v],
     drule capacity_issues_has [where v = v], drule sym, auto simp: desktop_issues_has)

text \<open>
  Property C17. What the health of a pool means. Whenever the diagnosis of a pool comes to its verdict, the
  pool is unhealthy exactly if its cluster is not active, the pool is in error, or one of its
  desktops is; degraded exactly if none of that holds and it drains, has fewer available desktops
  than \<open>min_spare\<close> (non-persistent pools), or has stuck desktops or orphan tasks.
\<close>

theorem health_is_the_worst_issue:
  assumes "map_eff error_line ds s0 = (Inr ess, s1)"
    and "build_issues_list V pool summary (concat ess) stuck orphans cluster s = (Inr issues, t)"
  shows "compute_health issues cluster =
    (if get_or cluster ''status'' JNull \<noteq> JStr ''active'' \<or> get_or pool ''status'' JNull = JStr ''error''
        \<or> (\<exists>d\<in>set ds. line_field d ''status'' = JStr ''error'') then ''unhealthy''
     else if get_or pool ''status'' JNull = JStr ''draining'' \<or> spare_short pool summary
        \<or> stuck \<noteq> [] \<or> orphans \<noteq> [] then ''degraded''
     else ''healthy'')"
  using build_issues_has [OF assms(2)] error_lines_any [OF assms(1)] by (simp add: compute_health_def)

theorem health_is_the_worst_issue_witness:
  "\<exists>issues t. build_issues_list demo_mcp
       [(''id'', JStr ''p1''), (''status'', JStr ''active''), (''pool_type'', JStr ''nonpersistent''), (''min_spare'', JInt 1)]
       (JObj []) [] [] [] [(''status'', JStr ''active'')] demo_server = (Inr issues, t)
     \<and> compute_health issues [(''status'', JStr ''active'')] = ''degraded''"
proof -
  let ?pool = "[(''id'', JStr ''p1''), (''status'', JStr ''active''), (''pool_type'', JStr ''nonpersistent''), (''min_spare'', JInt 1)]"
  have lines: "map_eff error_line [] demo_server = (Inr [], demo_server)" by (simp add: exec_simps)
  have "cluster_issues demo_mcp [(''status'', JStr ''active'')] demo_server = (Inr [], demo_server)"
    and "status_issues demo_mcp ?pool demo_server = (Inr [], demo_server)"
    by (simp_all add: cluster_issues_def status_issues_def get_or_def exec_simps)
  moreover have "\<exists>xs. capacity_issues demo_mcp ?pool (JObj []) demo_server = (Inr xs, demo_server)"
    by (simp add: capacity_issues_def Let_def as_dict_run get_or_def or_else_def py_sub_def dict_item_def lift_result_def exec_simps)
  ultimately obtain issues where run: "build_issues_list demo_mcp ?pool (JObj []) (concat []) [] [] [(''status'', JStr ''active'')]
      demo_server = (Inr issues, demo_server)"
    unfolding build_issues_list_def returns_simps by blast
  have "spare_short ?pool (JObj [])"
    by (simp add: spare_short_def available_of_def get_or_def or_else_def)
  with health_is_the_worst_issue [OF lines run]
  have "compute_health issues [(''status'', JStr ''active'')] = ''degraded''"
    by (simp add: get_or_def)
  with run show ?thesis by auto
qed

section \<open>Errors of the broker\<close>

text \<open>
  Property C18. Broker errors reach the caller as they are. Whatever exception a request raises inside the
  broker, the answer of its error handlers becomes, in the client of the MCP server, an error with
  the same status, code and message, and with the details of the envelope where it has any; it is
  never taken for a success or for a malformed answer.
\<close>

theorem broker_errors_reach_tools:
  "\<exists>err c m. error_of (snd (respond u msg raw e)) = JObj err
     \<and> map_of err ''code'' = Some (JStr c) \<and> map_of err ''message'' = Some (JStr m)
     \<and> unwrap_envelope str (snd (respond u msg raw e)) (int (fst (respond u msg raw e)))
        = Inl (ApiError (int (fst (respond u msg raw e))) c m
            (case map_of err ''details'' of Some (JObj d) \<Rightarrow> JObj d | _ \<Rightarrow> JNull))"
proof -
  have shaped: "unwrap_envelope str (envelope c m d) st
      = Inl (ApiError st c m (case d of None \<Rightarrow> JNull | Some x \<Rightarrow> JObj x))" for c m d st
    by (cases d) (simp_all add: unwrap_envelope_def envelope_def get_or_def str_of_def)
  have enveloped: ?thesis if "respond u msg raw e = (st, envelope c m d)" for st c m d
    using that by (cases d) (simp_all add: shaped)
  show ?thesis
  proof (cases e)
    case (ProviderError k ty x)
    then show ?thesis
      by (cases "provider_status k") (rule enveloped, simp add: respond_def handle_provider_error_def)
  next
    case (HTTPException status code)
    then show ?thesis
      by (simp add: respond_def handle_http_exception_def unwrap_envelope_def get_or_def str_of_def)
  qed (rule enveloped, simp add: respond_def handle_unexpected_def handle_vmid_range_conflict_def; rule refl)+
qed

section \<open>What a reset touches\<close>

definition named_with :: "string \<Rightarrow> jval \<Rightarrow> bool" where
  "named_with prefix p \<longleftrightarrow> (case line_field p ''name'' of JStr n \<Rightarrow> starts_with n prefix | _ \<Rightarrow> False)"

text \<open>The requests a reset may send: to pools of the list, to sessions, and to what it may retire.\<close>

definition may_reset :: "'w mcp_env \<Rightarrow> jval list \<Rightarrow> bool \<Rightarrow> bool \<Rightarrow> string \<Rightarrow> string \<Rightarrow> bool" where
  "may_reset V ps keep_clusters keep_templates verb path \<longleftrightarrow> verb = ''GET''
     \<or> (\<exists>p\<in>set ps. verb = ''POST'' \<and> path = pool_path V (line_field p ''id'') ''/drain''
          \<or> verb = ''DELETE'' \<and> path = pool_path V (line_field p ''id'') [])
     \<or> verb = ''DELETE'' \<and> ((\<exists>i. path = api_path V ''sessions'' i [])
          \<or> \<not> keep_templates \<and> (\<exists>i. path = api_path V ''templates'' i [])
          \<or> \<not> keep_clusters \<and> (\<exists>i. path = api_path V ''clusters'' i []))"

interpretation resetting: recording "sends_only (may_reset V ps kc kt) B" "may_reset V ps kc kt" for V ps kc kt B
  by unfold_locales (auto simp: may_reset_def sends_only_def)

lemma pres_for_each_in: "(\<And>x. x \<in> set xs \<Longrightarrow> pres J (f x)) \<Longrightarrow> pres J (for_each xs f)"
  by (induction xs) (auto intro: pres_ret pres_andthen)

lemma pres_py_item_field: "pres J (f (line_field p k)) \<Longrightarrow> pres J (bnd (py_item p k) f)"
  by (auto simp: py_item_def dict_item_def line_field_def get_or_def pres_def exec_simps
      split: jval.split option.split)

lemma collect_named:
  "collect_eff (name_starts prefix) ret ps s = (Inr xs, t) \<Longrightarrow> set xs \<subseteq> {p \<in> set ps. named_with prefix p}"
proof (induction ps arbitrary: s xs)
  case (Cons p ps)
  then obtain b u where b: "name_starts prefix p s = (Inr b, u)"
    "(if b then bnd (ret p) (\<lambda>y. bnd (collect_eff (name_starts prefix) ret ps) (\<lambda>ys. ret (y # ys)))
      else collect_eff (name_starts prefix) ret ps) u = (Inr xs, t)"
    by (auto simp: returns_simps)
  have "b = named_with prefix p"
    using b(1) by (auto simp: name_starts_def returns_simps py_item_def dict_item_def line_field_def get_or_def
        named_with_def exec_simps split: jval.splits option.splits)
  with b(2) show ?case using Cons.IH [of u] by (fastforce simp: returns_simps split: if_splits)
qed (simp add: returns_simps)

lemma keep_reset_pool:
  assumes "p \<in> set ps"
  shows "pres (sends_only (may_reset V ps kc kt) B) (reset_pool V p)"
proof -
  have drain: "pres (sends_only (may_reset V ps kc kt) B) (openvdi_drain_pool V (line_field p ''id'') True t)"
    and delete: "pres (sends_only (may_reset V ps kc kt) B) (openvdi_delete_pool V (line_field p ''id'') True)" for t
    using assms by (auto intro!: resetting.keep_pool_tools simp: may_reset_def)
  have sessions: "pres (sends_only (may_reset V ps kc kt) B) (openvdi_force_disconnect_session V i True)" for i
    by (rule resetting.keep_access_tools) (auto simp: may_reset_def)
  show ?thesis
    unfolding reset_pool_def disconnect_active_def Let_def
    by (rule pres_py_item_field) (intro pres_intros drain delete sessions)
qed

lemma intent_sent:
  obtains u where "mc_sent u = mc_sent s" "mc_sent (snd (intent op body f s)) = mc_sent (snd (body u))"
proof -
  let ?u = "s\<lparr>mc_steps := [], mc_created := [], mc_subject := JNull\<rparr>"
  have "mc_sent (snd (intent op body f s)) = mc_sent (snd (body ?u))"
    by (auto simp: intent_def new_tracker_def failure_result_def exec_simps split: prod.splits sum.splits)
  then show thesis by (intro that [of ?u]) simp
qed

lemma reset_intent_sends:
  "set (mc_sent (snd (bnd (collect_eff (name_starts prefix) ret ps) (\<lambda>matching.
        intent ''reset_test_environment'' (reset_body V matching prefix keep_clusters keep_templates) f) s)))
     \<subseteq> set (mc_sent s) \<union> {r. aq_login r
       \<or> may_reset V (filter (named_with prefix) ps) keep_clusters keep_templates (aq_method r) (aq_path r)}"
proof -
  let ?J = "sends_only (may_reset V (filter (named_with prefix) ps) keep_clusters keep_templates) (set (mc_sent s))"
  have listing: "pres ?J (collect_eff (name_starts prefix) ret ps)" by (intro pres_intros)
  have remove: "\<not> keep_templates \<Longrightarrow> pres ?J (openvdi_retire_template V i True)"
    "\<not> keep_clusters \<Longrightarrow> pres ?J (openvdi_delete_cluster V i True)" for i
    by (rule resetting.keep_template_tools resetting.keep_cluster_tools, auto simp: may_reset_def)+
  have body: "pres ?J (reset_body V matching prefix keep_clusters keep_templates)"
    if "set matching \<subseteq> {p \<in> set ps. named_with prefix p}" for matching
  proof -
    have "pres ?J (for_each matching (reset_pool V))"
      using that by (intro pres_for_each_in keep_reset_pool) auto
    then show ?thesis
      unfolding reset_body_def remove_rows_def unreferenced_def list_template_rows_def list_cluster_rows_def
      by (rule pres_andthen) (intro pres_intros remove)
  qed
  have J: "?J s" by (simp add: sends_only_def)
  obtain r t where run: "collect_eff (name_starts prefix) ret ps s = (r, t)" by fastforce
  with presD [OF listing J] have t: "?J t" by simp
  have around: "?J (snd (intent op m f u))" if "pres ?J m" "?J u" for op and m and u
    using intent_sent [of u op m f] presD [OF that(1)] that(2) by (metis sends_only_def)
  have "?J (snd (bnd (collect_eff (name_starts prefix) ret ps) (\<lambda>matching.
      intent ''reset_test_environment'' (reset_body V matching prefix keep_clusters keep_templates) f) s))"
  proof (cases r)
    case (Inl e)
    with run t show ?thesis by (simp add: exec_simps)
  next
    case (Inr matching)
    with run around [OF body t] collect_named [of prefix ps s] show ?thesis by (simp add: exec_simps)
  qed
  then show ?thesis by (auto simp: sends_only_def)
qed

lemma instrumented_sent:
  obtains u where "mc_sent u = mc_sent s" "mc_sent (snd (instrumented V tool body s)) = mc_sent (snd (body u))"
proof -
  obtain i v where uuid: "e_uuid (mv_env V) (mc_world s) = (i, v)" by fastforce
  then obtain rid w where id: "new_request_id V s = (Inr rid, w)" "mc_sent w = mc_sent s"
    by (simp add: new_request_id_def)
  let ?u = "snd (do_when (ms_log_tool_starts (mv_settings V)) (mcp_log (ToolStarted tool rid)) w)"
  have "mc_sent (snd (instrumented V tool body s)) = mc_sent (snd (body ?u))"
    using id(1) by (cases "body ?u")
      (auto simp: instrumented_def mcp_clock_def mcp_log_def do_when_def exec_simps split: if_splits)
  moreover have "mc_sent ?u = mc_sent s" using id(2) by (simp add: mcp_log_def do_when_def exec_simps)
  ultimately show thesis by (intro that)
qed

lemma reset_asks_only_reads:
  assumes "\<not> confirm \<or> ms_read_only (mv_settings V) \<or> forbidden_prefix prefix"
  shows "pres (sends_only only_gets B) (openvdi_reset_test_environment V prefix kc kt confirm)"
  unfolding openvdi_reset_test_environment_def
proof (rule sent.keep_instrumented, rule gets.keep_gated)
  assume "\<not> ms_read_only (mv_settings V)"
  with assms show "pres (sends_only only_gets B) (if forbidden_prefix prefix
      then throw (ApiError 400 ''INVALID_REQUEST''
        (''name_prefix must be non-empty and specific; got '' @ mv_repr V (JStr prefix)) JNull)
      else bnd (listed (openvdi_list_pools V JNull JNull JNull JNull 200 0)) (\<lambda>pools.
        bnd (collect_eff (name_starts prefix) ret pools) (\<lambda>matching.
        if \<not> confirm then build_dry_run_preview V matching prefix kc kt
        else intent ''reset_test_environment'' (reset_body V matching prefix kc kt) (\<lambda>_. JNull))))"
    by (cases "forbidden_prefix prefix") (simp_all add: pres_throw, intro pres_intros)
qed

text \<open>
  Property C15. A reset stays within its prefix. A confirmed reset first asks the broker for its pools, and whatever
  it answers then drains and deletes only listed pools whose name starts with the prefix, ends
  sessions, and deletes templates or clusters only when it was not told to keep them; if the listing fails, it
  changes nothing. A reset that is not confirmed, that comes in read-only mode or whose prefix is blank or a star only
  reads.
\<close>

theorem reset_spares_other_pools:
  assumes "t = snd (openvdi_reset_test_environment V prefix keep_clusters keep_templates confirm s)"
  shows "(confirm \<longrightarrow> (\<exists>u r u'. mc_sent u = mc_sent s
      \<and> listed (openvdi_list_pools V JNull JNull JNull JNull 200 0) u = (r, u')
      \<and> (\<forall>rq\<in>set (mc_sent t). rq \<in> set (mc_sent s) \<or> aq_login rq \<or> aq_method rq = ''GET''
          \<or> (\<exists>ps. r = Inr ps \<and> may_reset V (filter (named_with prefix) ps) keep_clusters keep_templates
               (aq_method rq) (aq_path rq)))))
    \<and> (\<not> confirm \<or> ms_read_only (mv_settings V) \<or> py_strip prefix = [] \<or> py_strip prefix = ''*'' \<longrightarrow>
       (\<forall>rq\<in>set (mc_sent t). rq \<in> set (mc_sent s) \<or> aq_login rq \<or> aq_method rq = ''GET''))"
proof (intro conjI impI)
  have reads: "\<forall>rq\<in>set (mc_sent t). rq \<in> set (mc_sent s) \<or> aq_login rq \<or> aq_method rq = ''GET''"
    if "\<not> confirm \<or> ms_read_only (mv_settings V) \<or> forbidden_prefix prefix"
    using presD [OF reset_asks_only_reads [OF that, of "set (mc_sent s)"], of s] assms
    by (auto simp: sends_only_def only_gets_def)
  then show "\<forall>rq\<in>set (mc_sent t). rq \<in> set (mc_sent s) \<or> aq_login rq \<or> aq_method rq = ''GET''"
    if "\<not> confirm \<or> ms_read_only (mv_settings V) \<or> py_strip prefix = [] \<or> py_strip prefix = ''*''"
    using that by (auto simp: forbidden_prefix_def)
  assume confirm
  let ?list = "listed (openvdi_list_pools V JNull JNull JNull JNull 200 0)"
  show "\<exists>u r u'. mc_sent u = mc_sent s \<and> ?list u = (r, u') \<and> (\<forall>rq\<in>set (mc_sent t). rq \<in> set (mc_sent s) \<or> aq_login rq
      \<or> aq_method rq = ''GET'' \<or> (\<exists>ps. r = Inr ps \<and> may_reset V (filter (named_with prefix) ps) keep_clusters
          keep_templates (aq_method rq) (aq_path rq)))"
  proof (cases "ms_read_only (mv_settings V) \<or> forbidden_prefix prefix")
    case True
    obtain r u' where "?list s = (r, u')" by fastforce
    with True reads show ?thesis by blast
  next
    case False
    let ?run = "bnd ?list (\<lambda>pools. bnd (collect_eff (name_starts prefix) ret pools) (\<lambda>matching.
        intent ''reset_test_environment'' (reset_body V matching prefix keep_clusters keep_templates) (\<lambda>_. JNull)))"
    have tool: "openvdi_reset_test_environment V prefix keep_clusters keep_templates confirm
        = instrumented V ''openvdi_reset_test_environment'' ?run"
      using False \<open>confirm\<close> by (simp add: openvdi_reset_test_environment_def require_writable_def do_when_def)
    obtain u where u: "mc_sent u = mc_sent s" "mc_sent t = mc_sent (snd (?run u))"
      using instrumented_sent [of s V "''openvdi_reset_test_environment''" ?run] assms unfolding tool by metis
    obtain r u' where r: "?list u = (r, u')" by fastforce
    have "pres (sends_only only_gets (set (mc_sent s))) ?list" by (intro pres_intros)
    from presD [OF this, of u] u(1) r have listing: "sends_only only_gets (set (mc_sent s)) u'"
      by (simp add: sends_only_def)
    show ?thesis
    proof (cases r)
      case (Inl e)
      with u r listing show ?thesis by (auto simp: exec_simps sends_only_def only_gets_def)
    next
      case (Inr ps)
      with u r have "mc_sent t = mc_sent (snd (bnd (collect_eff (name_starts prefix) ret ps) (\<lambda>matching.
          intent ''reset_test_environment'' (reset_body V matching prefix keep_clusters keep_templates) (\<lambda>_. JNull)) u'))"
        by (simp add: exec_simps)
      with reset_intent_sends [of prefix ps V keep_clusters keep_templates "\<lambda>_. JNull" u'] u(1) r Inr listing
      show ?thesis by (fastforce simp: sends_only_def only_gets_def)
    qed
  qed
qed

definition no_spare_pool :: "api_request \<Rightarrow> bool" where
  "no_spare_pool rq \<longleftrightarrow> aq_login rq \<or> aq_method rq = ''GET''"

theorem reset_spares_other_pools_witness:
  "list_all no_spare_pool (mc_sent (snd (openvdi_reset_test_environment demo_mcp ''test-'' False False False demo_server)))"
  using reset_spares_other_pools [where V = demo_mcp and prefix = "''test-''" and keep_clusters = False
    and keep_templates = False and confirm = False and s = demo_server, OF refl]
  by (auto simp: list_all_iff no_spare_pool_def demo_server_def)

end
