(* ===== verification/Mcp_Answers.thy ===== *)
theory Mcp_Answers
  imports Mcp_Facts
begin

text \<open>
  What the intents of the MCP server answer: \<open>intent/_result.py\<close> over the bodies of the six tools. The
  steps an intent records are followed through its body, so that the answer's verdict, its steps and the step it
  names as failed fit together.
\<close>

section \<open>The steps of an intent\<close>

definition progress :: "(string \<times> bool) list \<Rightarrow> 'w mcp \<Rightarrow> bool" where
  "progress xs s \<longleftrightarrow> map (\<lambda>x. (st_name x, st_ok x)) (mc_steps s) = xs"

interpretation tracked: reading "progress xs" "\<lambda>_ _. True" for xs
  by unfold_locales (simp_all add: progress_def)

lemma progress_patch_last:
  assumes "\<And>x. st_name (f x) = st_name x \<and> st_ok (f x) = st_ok x"
  shows "pres (progress xs) (patch_last f)"
proof -
  have "map (\<lambda>x. (st_name x, st_ok x)) (case rev ys of [] \<Rightarrow> [] | x # zs \<Rightarrow> rev zs @ [f x])
      = map (\<lambda>x. (st_name x, st_ok x)) ys" for ys
    using assms by (cases ys rule: rev_cases) simp_all
  then show ?thesis unfolding patch_last_def by (intro tracked.pres_modify) (simp add: progress_def)
qed

lemma progress_notes [pres_intros]:
  "pres (progress xs) (set_details v)" "pres (progress xs) (record_created ty i)" "pres (progress xs) (set_subject v)"
  unfolding set_details_def record_created_def set_subject_def
  by (rule progress_patch_last tracked.pres_modify; simp add: progress_def)+

definition all_done :: "'w mcp \<Rightarrow> bool" where
  "all_done s \<longleftrightarrow> list_all st_ok (mc_steps s)"

text \<open>The last step failed, those before it did not.\<close>

definition broke_off :: "'w mcp \<Rightarrow> bool" where
  "broke_off s \<longleftrightarrow> (\<exists>xs x. mc_steps s = xs @ [x] \<and> list_all st_ok xs \<and> \<not> st_ok x)"

text \<open>
  \<open>stepping Q m\<close>: run when every step is done, \<open>m\<close> leaves every step done and returns a value in \<open>Q\<close>,
  or ends in a broker error during its last step.
\<close>

definition stepping :: "('a \<Rightarrow> bool) \<Rightarrow> ('w, 'a) mcp_prog \<Rightarrow> bool" where
  "stepping Q m \<longleftrightarrow> (\<forall>s. all_done s \<longrightarrow> wp m (\<lambda>a t. Q a \<and> all_done t) (\<lambda>e t. is_api_error e \<longrightarrow> broke_off t) s)"

text \<open>A program that records no step and raises no broker error.\<close>

definition plain :: "('w, 'a) mcp_prog \<Rightarrow> bool" where
  "plain m \<longleftrightarrow> (\<forall>s. mc_steps (snd (m s)) = mc_steps s \<and> (\<forall>e. fst (m s) = Inl e \<longrightarrow> \<not> is_api_error e))"

named_theorems stepping_intros

lemma stepping_bnd [stepping_intros]:
  "stepping (\<lambda>_. True) m \<Longrightarrow> (\<And>a. stepping Q (f a)) \<Longrightarrow> stepping Q (bnd m f)"
  unfolding stepping_def wp_bnd by (blast intro: wp_mono)

lemma stepping_andthen [stepping_intros]: "stepping (\<lambda>_. True) m \<Longrightarrow> stepping Q n \<Longrightarrow> stepping Q (andthen m n)"
  unfolding andthen_def by (intro stepping_bnd)

lemma stepping_plain: "plain m \<Longrightarrow> stepping (\<lambda>_. True) m"
  by (auto simp: stepping_def plain_def wp_def all_done_def split: prod.split sum.split) (metis fst_conv snd_conv)+

lemma stepping_ret [stepping_intros]: "stepping (\<lambda>_. True) (ret a)"
  by (simp add: stepping_def wp_simps)

lemma stepping_do_when [stepping_intros]: "stepping (\<lambda>_. True) m \<Longrightarrow> stepping (\<lambda>_. True) (do_when b m)"
  by (simp add: do_when_def stepping_ret)

lemma stepping_if [stepping_intros]: "stepping Q m \<Longrightarrow> stepping Q n \<Longrightarrow> stepping Q (if b then m else n)"
  by simp

lemma stepping_case_prod [stepping_intros]: "(\<And>a b. stepping Q (f a b)) \<Longrightarrow> stepping Q (case x of (a, b) \<Rightarrow> f a b)"
  by (cases x) auto

lemma stepping_for_each [stepping_intros]: "(\<And>x. stepping (\<lambda>_. True) (f x)) \<Longrightarrow> stepping (\<lambda>_. True) (for_each xs f)"
  by (induction xs) (auto intro: stepping_ret stepping_andthen)

lemma stepping_reads [stepping_intros]: "stepping (\<lambda>_. True) (reads f)"
  by (simp add: stepping_def wp_simps)

lemma stepping_step [stepping_intros]:
  assumes "\<And>xs. pres (progress xs) body"
  shows "stepping (\<lambda>_. True) (intent_step V name body)"
  unfolding stepping_def
proof (intro allI impI)
  fix s :: "'a mcp"
  assume done_before: "all_done s"
  let ?s = "s\<lparr>mc_steps := mc_steps s @ [\<lparr>st_name = name, st_ok = False, st_details = None, st_duration = None\<rparr>]\<rparr>"
  obtain r t where run: "body ?s = (r, t)" by fastforce
  have "progress (map (\<lambda>x. (st_name x, st_ok x)) (mc_steps s) @ [(name, False)]) t"
    using presD [OF assms, of _ ?s] run by (simp add: progress_def)
  then obtain xs x where t: "mc_steps t = xs @ [x]" "map (\<lambda>x. (st_name x, st_ok x)) xs = map (\<lambda>x. (st_name x, st_ok x)) (mc_steps s)"
    "\<not> st_ok x" by (auto simp: progress_def map_eq_append_conv)
  from t(2) have "map st_ok xs = map st_ok (mc_steps s)" by (auto dest: arg_cong [where f = "map snd"] simp: comp_def)
  with done_before have "list_all st_ok xs" by (simp add: all_done_def list_all_iff) (metis (mono_tags) image_iff image_set)
  with run t show "wp (intent_step V name body) (\<lambda>a t. True \<and> all_done t) (\<lambda>e t. is_api_error e \<longrightarrow> broke_off t) s"
    by (cases r) (auto simp: wp_def intent_step_def mcp_clock_def patch_last_def do_when_def exec_simps all_done_def broke_off_def)
qed

section \<open>What happens between the steps\<close>

named_theorems plain_intros

lemma plain_ret [plain_intros]: "plain (ret a)"
  by (simp add: plain_def exec_simps)

lemma plain_throw [plain_intros]: "\<not> is_api_error e \<Longrightarrow> plain (throw e)"
  by (simp add: plain_def exec_simps)

lemma plain_lift: "(\<And>e. r = Inl e \<Longrightarrow> \<not> is_api_error e) \<Longrightarrow> plain (lift_result r)"
  by (simp add: plain_def exec_simps)

lemma plain_bnd [plain_intros]: "plain m \<Longrightarrow> (\<And>a. plain (f a)) \<Longrightarrow> plain (bnd m f)"
  unfolding plain_def by (auto simp: exec_simps split: prod.split sum.split) (metis fst_conv snd_conv)+

lemma plain_if [plain_intros]: "plain m \<Longrightarrow> plain n \<Longrightarrow> plain (if b then m else n)"
  by simp

lemma plain_lookups [plain_intros]: "plain (as_dict v)" "plain (dict_item kvs k)" "plain (py_item v k)"
proof -
  show item: "plain (dict_item kvs k)" for kvs
    by (auto simp: dict_item_def intro: plain_intros split: option.split)
  show "plain (as_dict v)" "plain (py_item v k)"
    by (auto simp: as_dict_def py_item_def intro: plain_intros item split: jval.split)
qed

lemma py_errors:
  "py_less a b = Inl e \<Longrightarrow> \<not> is_api_error e" "py_sub a b = Inl e \<Longrightarrow> \<not> is_api_error e"
  "py_len a = Inl e \<Longrightarrow> \<not> is_api_error e" "short_id a = Inl e \<Longrightarrow> \<not> is_api_error e"
  by (cases "(a, b)" rule: py_less.cases; auto split: option.splits)
    (auto simp: py_sub_def short_id_def split: option.splits jval.splits elim: py_len.elims)

lemma summary_errors: "summarize_user_state factors v n = Inl e \<Longrightarrow> \<not> is_api_error e"
  by (auto simp: summarize_user_state_def sum_bind_def Let_def dest: py_errors split: sum.splits if_splits)

lemma plain_results [plain_intros]:
  "plain (lift_result (py_less a b))" "plain (lift_result (py_sub a b))" "plain (lift_result (short_id a))"
  "plain (lift_result (summarize_user_state factors v n))" "plain (lift_result (Inr x))"
  by (intro plain_lift; auto dest: py_errors summary_errors)+

lemma plain_issues: "plain (build_issues_list V pool summary es ss os cluster)"
  unfolding build_issues_list_def cluster_issues_def status_issues_def capacity_issues_def Let_def
  by (intro plain_intros plain_lift) (auto dest: py_errors split: if_splits)

section \<open>Answers\<close>

text \<open>
  An answer that tells what happened. Either it is a preview; or it has \<open>ok\<close> and every step in it is ok; or it is a failure:
  all steps are ok but the last, which it names, and it carries a code and a message.
\<close>

definition tells :: "jval \<Rightarrow> bool" where
  "tells v \<longleftrightarrow> (\<exists>kvs. v = JObj kvs \<and>
     (map_of kvs ''ok'' = Some (JBool True) \<and> map_of kvs ''dry_run'' = Some (JBool True)
      \<or> (\<exists>ls. map_of kvs ''ok'' = Some (JBool True) \<and> map_of kvs ''steps'' = Some (JList ls)
           \<and> (\<forall>x\<in>set ls. jget x ''ok'' = Some (JBool True)))
      \<or> (\<exists>ls x name code msg. map_of kvs ''ok'' = Some (JBool False) \<and> map_of kvs ''steps'' = Some (JList (ls @ [x]))
           \<and> (\<forall>y\<in>set ls. jget y ''ok'' = Some (JBool True)) \<and> jget x ''ok'' = Some (JBool False)
           \<and> jget x ''name'' = Some (JStr name) \<and> map_of kvs ''failed_at_step'' = Some (JStr name)
           \<and> map_of kvs ''error_code'' = Some (JStr code) \<and> map_of kvs ''error_message'' = Some (JStr msg))))"

lemma step_json_fields: "jget (step_json x) ''ok'' = Some (JBool (st_ok x))" "jget (step_json x) ''name'' = Some (JStr (st_name x))"
  by (simp_all add: step_json_def)

lemma stepping_success [stepping_intros]: "stepping tells (success_result operation kvs)"
  by (auto simp: stepping_def wp_simps success_result_def tells_def step_json_fields all_done_def list_all_iff)

definition enveloped :: "(exn \<Rightarrow> bool) \<Rightarrow> ('w, jval) mcp_prog \<Rightarrow> bool" where
  "enveloped C m \<longleftrightarrow> yields (\<lambda>_. True) (\<lambda>v. tells v) C m"

named_theorems enveloped_intros

lemma enveloped_bnd [enveloped_intros]: "(\<And>a. enveloped (\<lambda>_. True) (f a)) \<Longrightarrow> enveloped (\<lambda>_. True) (bnd m f)"
  unfolding enveloped_def by (rule yields_bnd [OF yields_any])

lemma enveloped_andthen [enveloped_intros]: "enveloped (\<lambda>_. True) n \<Longrightarrow> enveloped (\<lambda>_. True) (andthen m n)"
  unfolding enveloped_def by (rule yields_andthen [OF yields_any])

lemma enveloped_case_prod [enveloped_intros]: "(\<And>a b. enveloped C (f a b)) \<Longrightarrow> enveloped C (case x of (a, b) \<Rightarrow> f a b)"
  by (cases x) auto

lemma enveloped_if: "enveloped C m \<Longrightarrow> enveloped C n \<Longrightarrow> enveloped C (if b then m else n)"
  by simp

lemma failure_tells:
  assumes "broke_off s"
  shows "\<exists>w. failure_result operation (ApiError st code msg d) v s = (Inr w, s) \<and> tells w
    \<and> jget w ''error_code'' = Some (JStr code) \<and> jget w ''error_message'' = Some (JStr msg) \<and> jget w ''error_details'' = Some d"
proof -
  from assms obtain xs x where steps: "mc_steps s = xs @ [x]" "list_all st_ok xs" "\<not> st_ok x"
    by (auto simp: broke_off_def)
  let ?kvs = "[(''ok'', JBool False), (''operation'', JStr operation)] @ error_fields (ApiError st code msg d)
     @ [(''failed_at_step'', JStr (st_name x)), (''steps'', JList (map step_json xs @ [step_json x])),
        (''rollback_hint'', rollback_hint (mc_created s) v), (''total_duration_ms'', JInt (total_duration (mc_steps s)))]"
  have "failure_result operation (ApiError st code msg d) v s = (Inr (JObj ?kvs), s)"
    using steps by (simp add: failure_result_def last_failed_step_def exec_simps)
  moreover have "tells (JObj ?kvs)"
    unfolding tells_def using steps
    by (intro exI [of _ ?kvs] conjI refl disjI2)
      (rule exI [of _ "map step_json xs"], rule exI [of _ "step_json x"], auto simp: step_json_fields list_all_iff)
  ultimately show ?thesis by simp
qed

lemma enveloped_intent:
  assumes "stepping tells body" "\<And>e. \<not> is_api_error e \<Longrightarrow> C e"
  shows "enveloped C (intent operation body suggestion)"
  unfolding enveloped_def yields_def
proof (intro allI impI)
  fix s :: "'a mcp"
  let ?s = "s\<lparr>mc_steps := [], mc_created := [], mc_subject := JNull\<rparr>"
  obtain r t where run: "body ?s = (r, t)" by fastforce
  have "all_done ?s" by (simp add: all_done_def)
  with assms(1) run have answered: "case r of Inl e \<Rightarrow> is_api_error e \<longrightarrow> broke_off t | Inr a \<Rightarrow> tells a"
    unfolding stepping_def by (auto simp: wp_def split: sum.splits dest!: spec [of _ ?s])
  then show "wp (intent operation body suggestion) (\<lambda>a t. tells a \<and> True) (\<lambda>e t. C e \<and> True) s"
  proof (cases r)
    case (Inl e)
    with run answered have answer: "intent operation body suggestion s = (if is_api_error e
        then failure_result operation e (suggestion (mc_subject t)) t else (Inl e, t))"
      by (cases e) (simp_all add: intent_def new_tracker_def exec_simps failure_result_def)
    show ?thesis
    proof (cases "is_api_error e")
      case True
      then obtain st code msg d where e: "e = ApiError st code msg d" by (auto elim: is_api_error.elims)
      with Inl True answered have "broke_off t" by simp
      from failure_tells [OF this, of operation st code msg d "suggestion (mc_subject t)"] answer True e
      show ?thesis by (auto simp: wp_def)
    next
      case False
      with answer assms(2) [OF False] show ?thesis by (simp add: wp_def)
    qed
  next
    case (Inr v)
    with run answered show ?thesis by (simp add: wp_def intent_def new_tracker_def exec_simps)
  qed
qed

lemma enveloped_instrumented:
  assumes "enveloped C body"
  shows "enveloped C (instrumented V tool body)"
proof -
  have quiet: "yields (\<lambda>_. True) (\<lambda>_. True) C (new_request_id V)" "yields (\<lambda>_. True) (\<lambda>_. True) C (mcp_clock V)"
    "yields (\<lambda>_. True) (\<lambda>_. True) C (mcp_log l)" "yields (\<lambda>_. True) (\<lambda>_. True) C (do_when b (mcp_log l))" for l b
    by (auto simp: yields_def wp_def new_request_id_def mcp_clock_def mcp_log_def do_when_def exec_simps split: prod.split)
  have body: "yields (\<lambda>_. True) (\<lambda>r. case r of Inl e \<Rightarrow> C e | Inr v \<Rightarrow> tells v) C (attempt body)"
    using assms by (simp add: enveloped_def yields_def wp_attempt)
  show ?thesis
    unfolding instrumented_def enveloped_def
    by (intro yields_bnd [OF quiet(1)] yields_bnd [OF quiet(2)] yields_andthen [OF quiet(3)]
        yields_andthen [OF quiet(4)] yields_bnd [OF body]) (auto intro: yields_lift)
qed

definition refused :: "intent_call \<Rightarrow> exn \<Rightarrow> bool" where
  "refused c e \<longleftrightarrow> (case e of
       ApiError status code _ _ \<Rightarrow> (status, code) \<in> {(403, ''READ_ONLY_MODE''), (400, ''INVALID_REQUEST'')}
         \<or> (case c of ResetEnvironment _ _ _ _ \<Rightarrow> True | _ \<Rightarrow> False)
     | _ \<Rightarrow> True)"

lemma not_api_error_refused: "\<not> is_api_error e \<Longrightarrow> refused c e"
  by (cases e) (simp_all add: refused_def)

lemma enveloped_intent_refused:
  "stepping tells body \<Longrightarrow> enveloped (refused c) (intent operation body suggestion)"
  by (intro enveloped_intent not_api_error_refused)

lemma enveloped_gated:
  assumes "enveloped (refused c) m"
  shows "enveloped (refused c) (andthen (require_writable V tool) m)"
    "enveloped (refused c) (andthen (do_when b (require_writable V tool)) m)"
proof -
  have "yields (\<lambda>_. True) (\<lambda>_. True) (refused c) (require_writable V tool)"
    by (simp add: yields_def wp_simps require_writable_def do_when_def refused_def)
  moreover from this have "yields (\<lambda>_. True) (\<lambda>_. True) (refused c) (do_when b (require_writable V tool))"
    by (simp add: do_when_def yields_ret)
  ultimately show "enveloped (refused c) (andthen (require_writable V tool) m)"
    "enveloped (refused c) (andthen (do_when b (require_writable V tool)) m)"
    using assms unfolding enveloped_def by (auto intro: yields_andthen)
qed

lemma enveloped_throw: "C e \<Longrightarrow> enveloped C (throw e)"
  unfolding enveloped_def by (rule yields_throw)

lemma enveloped_dry_run: "enveloped C (ret (JObj ((''ok'', JBool True) # (''dry_run'', JBool True) # kvs)))"
  unfolding enveloped_def by (rule yields_ret) (simp add: tells_def)

section \<open>The bodies of the intents\<close>

lemma steps_smoke: "stepping tells (smoke_body V i p y)"
  unfolding smoke_body_def check_pool_active_def check_capacity_def provision_one_desktop_def verify_desktop_def Let_def
  by (intro stepping_intros pres_intros tracked.keep_pool_tools tracked.keep_desktop_tools TrueI)

lemma steps_deploy: "stepping tells (deploy_body V a)"
  unfolding deploy_body_def check_template_active_def deploy_create_def deploy_grant_def deploy_provision_def Let_def
  by (intro stepping_intros stepping_plain plain_intros pres_intros tracked.keep_pool_tools tracked.keep_access_tools TrueI)

lemma steps_reset: "stepping tells (reset_body V ps p kc kt)"
  unfolding reset_body_def reset_pool_def disconnect_active_def remove_rows_def unreferenced_def
    list_template_rows_def list_cluster_rows_def Let_def
  by (intro stepping_intros stepping_plain plain_intros pres_intros tracked.keep_pool_tools tracked.keep_access_tools
      tracked.keep_template_tools tracked.keep_cluster_tools TrueI)

lemma answers_diagnoses:
  "enveloped (refused c) (openvdi_health_check V)" "enveloped (refused c) (openvdi_diagnose_user V u)"
  "enveloped (refused c) (openvdi_diagnose_pool V i)"
  unfolding openvdi_health_check_def openvdi_diagnose_user_def openvdi_diagnose_pool_def fetch_dict_def fetch_sized_def
    desktop_findings_def Let_def
  by (intro enveloped_instrumented enveloped_intent_refused stepping_intros stepping_plain plain_intros plain_issues pres_intros)+

lemma answers_changes:
  "enveloped (refused c) (openvdi_smoke_test V i p y)" "enveloped (refused c) (openvdi_deploy_pool V a y)"
  unfolding openvdi_smoke_test_def openvdi_deploy_pool_def preview_deploy_def
  by (intro enveloped_instrumented enveloped_gated enveloped_if enveloped_intent_refused steps_smoke steps_deploy
      enveloped_dry_run enveloped_throw; simp add: refused_def)+

lemma answers_reset: "enveloped (\<lambda>_. True) (openvdi_reset_test_environment V p kc kt y)"
proof -
  have gate: "enveloped (\<lambda>_. True) (andthen (require_writable V tool) m)"
    if "enveloped (\<lambda>_. True) m" for tool and m :: "('a, jval) mcp_prog"
    using that unfolding enveloped_def by (rule yields_andthen [OF yields_any])
  show ?thesis
    unfolding openvdi_reset_test_environment_def build_dry_run_preview_def
    by (intro enveloped_instrumented gate enveloped_if enveloped_throw enveloped_bnd enveloped_case_prod
        enveloped_intent steps_reset enveloped_dry_run TrueI)
qed

text \<open>
  Property C20. An intent answers with what happened. Past its gate it returns a preview, or a success whose steps
  all went through, or a failure: every step before the last went through, the last did not and is
  the one named as failed, and the answer carries a code and a message. These are, with the details, those of the
  broker's error that ended the body. It raises no error of the broker itself; only the listing that precedes a
  reset, and its preview, let one through.
\<close>

theorem intents_answer_envelopes:
  "wp (run_intent_call V c) (\<lambda>v t. \<exists>kvs. v = JObj kvs \<and>
      (map_of kvs ''ok'' = Some (JBool True) \<and> map_of kvs ''dry_run'' = Some (JBool True)
       \<or> (\<exists>ls. map_of kvs ''ok'' = Some (JBool True) \<and> map_of kvs ''steps'' = Some (JList ls)
            \<and> (\<forall>x\<in>set ls. jget x ''ok'' = Some (JBool True)))
       \<or> (\<exists>ls x name code msg. map_of kvs ''ok'' = Some (JBool False) \<and> map_of kvs ''steps'' = Some (JList (ls @ [x]))
            \<and> (\<forall>y\<in>set ls. jget y ''ok'' = Some (JBool True)) \<and> jget x ''ok'' = Some (JBool False)
            \<and> jget x ''name'' = Some (JStr name) \<and> map_of kvs ''failed_at_step'' = Some (JStr name)
            \<and> map_of kvs ''error_code'' = Some (JStr code) \<and> map_of kvs ''error_message'' = Some (JStr msg))))
    (\<lambda>e t. refused c e) s
   \<and> (body (s\<lparr>mc_steps := [], mc_created := [], mc_subject := JNull\<rparr>) = (Inl (ApiError st code msg details), t) \<longrightarrow>
       (\<exists>w. intent operation body suggestion s = (Inr w, t) \<and> jget w ''ok'' = Some (JBool False)
          \<and> jget w ''error_code'' = Some (JStr code) \<and> jget w ''error_message'' = Some (JStr msg)
          \<and> jget w ''error_details'' = Some details))"
proof (intro conjI impI)
  have "enveloped (refused c) (run_intent_call V c)"
  proof (cases c)
    case (ResetEnvironment p kc kt y)
    then have "refused c = (\<lambda>_. True)" by (intro ext) (simp add: refused_def split: exn.split)
    with ResetEnvironment answers_reset show ?thesis by simp
  qed (simp_all add: answers_diagnoses answers_changes)
  then have "wp (run_intent_call V c) (\<lambda>v _. tells v) (\<lambda>e _. refused c e) s" by (simp add: enveloped_def yields_def)
  then show "wp (run_intent_call V c) (\<lambda>v t. \<exists>kvs. v = JObj kvs \<and>
      (map_of kvs ''ok'' = Some (JBool True) \<and> map_of kvs ''dry_run'' = Some (JBool True)
       \<or> (\<exists>ls. map_of kvs ''ok'' = Some (JBool True) \<and> map_of kvs ''steps'' = Some (JList ls)
            \<and> (\<forall>x\<in>set ls. jget x ''ok'' = Some (JBool True)))
       \<or> (\<exists>ls x name code msg. map_of kvs ''ok'' = Some (JBool False) \<and> map_of kvs ''steps'' = Some (JList (ls @ [x]))
            \<and> (\<forall>y\<in>set ls. jget y ''ok'' = Some (JBool True)) \<and> jget x ''ok'' = Some (JBool False)
            \<and> jget x ''name'' = Some (JStr name) \<and> map_of kvs ''failed_at_step'' = Some (JStr name)
            \<and> map_of kvs ''error_code'' = Some (JStr code) \<and> map_of kvs ''error_message'' = Some (JStr msg))))
    (\<lambda>e t. refused c e) s"
    unfolding tells_def .
next
  assume "body (s\<lparr>mc_steps := [], mc_created := [], mc_subject := JNull\<rparr>) = (Inl (ApiError st code msg details), t)"
  then show "\<exists>w. intent operation body suggestion s = (Inr w, t) \<and> jget w ''ok'' = Some (JBool False)
      \<and> jget w ''error_code'' = Some (JStr code) \<and> jget w ''error_message'' = Some (JStr msg)
      \<and> jget w ''error_details'' = Some details"
    by (simp add: intent_def new_tracker_def failure_result_def exec_simps)
qed

theorem intents_answer_envelopes_witness:
  "(case fst (run_intent_call demo_mcp HealthCheck demo_server) of
       Inl e \<Rightarrow> refused HealthCheck e
     | Inr v \<Rightarrow> jget v ''ok'' = Some (JBool True) \<or> jget v ''ok'' = Some (JBool False))
   \<and> (\<exists>w t. intent ''health_check'' (throw (ApiError 404 ''NOT_FOUND'' ''no such pool'' JNull)) (\<lambda>_. JNull) demo_server
          = (Inr w, t) \<and> jget w ''ok'' = Some (JBool False) \<and> jget w ''error_code'' = Some (JStr ''NOT_FOUND''))"
proof -
  let ?t = "demo_server\<lparr>mc_steps := [], mc_created := [], mc_subject := JNull\<rparr>"
  have "throw (ApiError 404 ''NOT_FOUND'' ''no such pool'' JNull) ?t = (Inl (ApiError 404 ''NOT_FOUND'' ''no such pool'' JNull), ?t)"
    by (simp add: exec_simps)
  with intents_answer_envelopes [of demo_mcp HealthCheck demo_server "throw (ApiError 404 ''NOT_FOUND'' ''no such pool'' JNull)"
      404 "''NOT_FOUND''" "''no such pool''" JNull ?t "''health_check''" "\<lambda>_. JNull"]
  show ?thesis
    by (cases "run_intent_call demo_mcp HealthCheck demo_server") (auto simp: wp_def simp del: run_intent_call.simps split: sum.splits)
qed

end
