(* ===== verification/Configuration.thy ===== *)
theory Configuration
  imports Auth Logging
begin

text \<open>
  The settings of \<open>broker/app/config.py\<close>: the fields with their defaults, the checks made when they
  are read, and the URL of the database. How pydantic reads numbers and truth values is a
  parameter; the texts of its messages are not modelled.
\<close>

record ldap_settings =
  ls_url :: string
  ls_bind_dn :: string
  ls_bind_password :: string
  ls_user_base :: string
  ls_group_base :: string
  ls_user_filter :: string
  ls_group_filter :: string
  ls_admin_group :: string
  ls_verify_ssl :: bool

record settings =
  cf_proxmox_api_url :: string
  cf_proxmox_token_id :: string
  cf_proxmox_token_secret :: string
  cf_proxmox_verify_ssl :: bool
  cf_proxmox_default_node :: string
  cf_template_vmid :: int
  cf_test_vmid :: int
  cf_target_storage :: "string option"
  cf_encryption_key :: string
  cf_postgres_user :: string
  cf_postgres_password :: string
  cf_postgres_db :: string
  cf_postgres_host :: string
  cf_postgres_port :: int
  cf_auth_mode :: string
  cf_jwt_secret :: string
  cf_ldap :: ldap_settings
  cf_portal_origin :: string
  cf_log_format :: string
  cf_log_level :: string
  cf_log_level_httpx :: string
  cf_audit_retention_days :: int

definition is_dev_auth :: "settings \<Rightarrow> bool" where
  "is_dev_auth S \<longleftrightarrow> cf_auth_mode S = ''dev''"

text \<open>\<open>quote_plus\<close>: as \<open>quote\<close>, with a plus for a blank.\<close>

definition quote_plus :: "string \<Rightarrow> string" where
  "quote_plus s = concat (map (\<lambda>c. if c = CHR '' '' then ''+'' else url_quote [c]) s)"

definition database_url :: "settings \<Rightarrow> string" where
  "database_url S = ''postgresql+asyncpg://'' @ cf_postgres_user S @ '':'' @ quote_plus (cf_postgres_password S)
     @ ''@'' @ cf_postgres_host S @ '':'' @ show_int (cf_postgres_port S) @ ''/'' @ cf_postgres_db S"

definition empty_str_to_none :: "string option \<Rightarrow> string option" where
  "empty_str_to_none v = (case v of Some s \<Rightarrow> if py_strip s = [] then None else Some s | None \<Rightarrow> None)"

definition non_empty_encryption_key :: "settings \<Rightarrow> exn + settings" where
  "non_empty_encryption_key S = (if cf_encryption_key S = []
     then Inl (PyValueError ''OPENVDI_ENCRYPTION_KEY must not be empty'') else Inr S)"

definition missing_vars :: "settings \<Rightarrow> string list" where
  "missing_vars S = concat (map (\<lambda>(name, v). if v = [] then [name] else [])
     [(''OPENVDI_JWT_SECRET'', cf_jwt_secret S), (''OPENVDI_LDAP_URL'', ls_url (cf_ldap S)),
      (''OPENVDI_LDAP_BIND_DN'', ls_bind_dn (cf_ldap S)),
      (''OPENVDI_LDAP_BIND_PASSWORD'', ls_bind_password (cf_ldap S)),
      (''OPENVDI_LDAP_USER_BASE'', ls_user_base (cf_ldap S)),
      (''OPENVDI_LDAP_GROUP_BASE'', ls_group_base (cf_ldap S)),
      (''OPENVDI_LDAP_ADMIN_GROUP'', ls_admin_group (cf_ldap S)),
      (''OPENVDI_PORTAL_ORIGIN'', cf_portal_origin S)])"

definition secret_bytes :: "settings \<Rightarrow> nat" where
  "secret_bytes S = length (concat (map utf8_bytes (cf_jwt_secret S)))"

definition validate_auth_mode_requirements :: "settings \<Rightarrow> exn + settings" where
  "validate_auth_mode_requirements S =
     (if cf_auth_mode S \<noteq> ''jwt'' then Inr S
      else if missing_vars S \<noteq> []
      then Inl (PyValueError (''OPENVDI_AUTH_MODE=jwt requires the following env vars: ''
        @ concat (map (\<lambda>v. v @ '', '') (butlast (missing_vars S))) @ List.last (missing_vars S)))
      else if secret_bytes S < 32
      then Inl (PyValueError (''OPENVDI_JWT_SECRET must be at least 32 bytes (got ''
        @ show_nat (secret_bytes S) @ '')''))
      else Inr S)"

text \<open>
  The fields are read by name from the environment and the \<open>.env\<close> file, here one map \<open>V\<close>; how
  pydantic reads a number or a truth value is a parameter.
\<close>

record env_parsers =
  ep_int :: "string \<Rightarrow> exn + int"
  ep_bool :: "string \<Rightarrow> exn + bool"

definition required :: "(string \<Rightarrow> string option) \<Rightarrow> string \<Rightarrow> exn + string" where
  "required V name = (case V name of None \<Rightarrow> Inl (PyValueError (name @ '': Field required'')) | Some v \<Rightarrow> Inr v)"

definition defaulted :: "(string \<Rightarrow> string option) \<Rightarrow> string \<Rightarrow> (string \<Rightarrow> exn + 'a) \<Rightarrow> 'a \<Rightarrow> exn + 'a" where
  "defaulted V name parse d = (case V name of None \<Rightarrow> Inr d | Some v \<Rightarrow> parse v)"

definition literal :: "string list \<Rightarrow> string \<Rightarrow> exn + string" where
  "literal allowed v = (if v \<in> set allowed then Inr v else Inl (PyValueError ''literal_error''))"

definition read_ldap_settings :: "env_parsers \<Rightarrow> (string \<Rightarrow> string option) \<Rightarrow> exn + ldap_settings" where
  "read_ldap_settings P V =
     sum_bind (defaulted V ''OPENVDI_LDAP_VERIFY_SSL'' (ep_bool P) True) (\<lambda>verify.
     let text = (\<lambda>name d. case V name of None \<Rightarrow> d | Some v \<Rightarrow> v) in
     Inr \<lparr>ls_url = text ''OPENVDI_LDAP_URL'' [], ls_bind_dn = text ''OPENVDI_LDAP_BIND_DN'' [],
       ls_bind_password = text ''OPENVDI_LDAP_BIND_PASSWORD'' [], ls_user_base = text ''OPENVDI_LDAP_USER_BASE'' [],
       ls_group_base = text ''OPENVDI_LDAP_GROUP_BASE'' [],
       ls_user_filter = text ''OPENVDI_LDAP_USER_FILTER'' ''(sAMAccountName={username})'',
       ls_group_filter = text ''OPENVDI_LDAP_GROUP_FILTER'' ''(member={user_dn})'',
       ls_admin_group = text ''OPENVDI_LDAP_ADMIN_GROUP'' [], ls_verify_ssl = verify\<rparr>)"

definition read_settings :: "env_parsers \<Rightarrow> (string \<Rightarrow> string option) \<Rightarrow> exn + settings" where
  "read_settings P V =
     sum_bind (required V ''PROXMOX_API_URL'') (\<lambda>api_url.
     sum_bind (required V ''PROXMOX_TOKEN_ID'') (\<lambda>token_id.
     sum_bind (required V ''PROXMOX_TOKEN_SECRET'') (\<lambda>token_secret.
     sum_bind (defaulted V ''PROXMOX_VERIFY_SSL'' (ep_bool P) True) (\<lambda>px_verify.
     sum_bind (required V ''PROXMOX_DEFAULT_NODE'') (\<lambda>node.
     sum_bind (sum_bind (required V ''PROXMOX_TEMPLATE_VMID'') (ep_int P)) (\<lambda>template_vmid.
     sum_bind (sum_bind (required V ''PROXMOX_TEST_VMID'') (ep_int P)) (\<lambda>test_vmid.
     sum_bind (required V ''OPENVDI_ENCRYPTION_KEY'') (\<lambda>key.
     sum_bind (required V ''POSTGRES_USER'') (\<lambda>user.
     sum_bind (required V ''POSTGRES_PASSWORD'') (\<lambda>password.
     sum_bind (required V ''POSTGRES_DB'') (\<lambda>db.
     sum_bind (defaulted V ''POSTGRES_HOST'' Inr ''localhost'') (\<lambda>host.
     sum_bind (defaulted V ''POSTGRES_PORT'' (ep_int P) 5432) (\<lambda>port.
     sum_bind (defaulted V ''OPENVDI_AUTH_MODE'' (literal [''jwt'', ''dev'']) ''jwt'') (\<lambda>mode.
     sum_bind (defaulted V ''OPENVDI_JWT_SECRET'' Inr []) (\<lambda>jwt_secret.
     sum_bind (read_ldap_settings P V) (\<lambda>ldap.
     sum_bind (defaulted V ''OPENVDI_PORTAL_ORIGIN'' Inr []) (\<lambda>origin.
     sum_bind (defaulted V ''OPENVDI_LOG_FORMAT'' (literal [''text'', ''json'']) ''text'') (\<lambda>log_format.
     sum_bind (defaulted V ''OPENVDI_LOG_LEVEL'' Inr ''INFO'') (\<lambda>log_level.
     sum_bind (defaulted V ''OPENVDI_LOG_LEVEL_HTTPX'' Inr ''WARNING'') (\<lambda>log_level_httpx.
     sum_bind (defaulted V ''OPENVDI_AUDIT_RETENTION_DAYS'' (ep_int P) 90) (\<lambda>days.
     Inr \<lparr>cf_proxmox_api_url = api_url, cf_proxmox_token_id = token_id, cf_proxmox_token_secret = token_secret,
       cf_proxmox_verify_ssl = px_verify, cf_proxmox_default_node = node, cf_template_vmid = template_vmid,
       cf_test_vmid = test_vmid, cf_target_storage = V ''PROXMOX_TARGET_STORAGE'', cf_encryption_key = key,
       cf_postgres_user = user, cf_postgres_password = password, cf_postgres_db = db, cf_postgres_host = host,
       cf_postgres_port = port, cf_auth_mode = mode, cf_jwt_secret = jwt_secret, cf_ldap = ldap,
       cf_portal_origin = origin, cf_log_format = log_format, cf_log_level = log_level,
       cf_log_level_httpx = log_level_httpx, cf_audit_retention_days = days\<rparr>)))))))))))))))))))))"

definition load_settings :: "settings \<Rightarrow> exn + settings" where
  "load_settings raw =
     sum_bind (non_empty_encryption_key (raw\<lparr>cf_target_storage := empty_str_to_none (cf_target_storage raw)\<rparr>))
       validate_auth_mode_requirements"

definition get_settings :: "env_parsers \<Rightarrow> (string \<Rightarrow> string option) \<Rightarrow> exn + settings" where
  "get_settings P V = sum_bind (read_settings P V) load_settings"

text \<open>At start-up: the key must suit Fernet, whose constructor is a parameter, and logging is set up.\<close>

definition ensure_encryption_key :: "(string \<Rightarrow> exn + unit) \<Rightarrow> settings \<Rightarrow> exn + unit" where
  "ensure_encryption_key fernet S = (case fernet (cf_encryption_key S) of
     Inl e \<Rightarrow> Inl (RuntimeErr (''OPENVDI_ENCRYPTION_KEY is malformed: '' @ exn_str e)) | Inr _ \<Rightarrow> Inr ())"

definition configure_broker_logging :: "settings \<Rightarrow> log_setup \<Rightarrow> log_setup" where
  "configure_broker_logging S = configure_logging (cf_log_format S) (cf_log_level S) (cf_log_level_httpx S)"

section \<open>What accepted settings contain\<close>

lemma missing_vars_empty:
  "missing_vars S = [] \<longleftrightarrow> list_all (\<lambda>v. v \<noteq> []) [cf_jwt_secret S, ls_url (cf_ldap S), ls_bind_dn (cf_ldap S),
     ls_bind_password (cf_ldap S), ls_user_base (cf_ldap S), ls_group_base (cf_ldap S), ls_admin_group (cf_ldap S),
     cf_portal_origin S]"
  by (auto simp: missing_vars_def)

lemma load_settings_jwt:
  assumes "load_settings raw = Inr S" "cf_auth_mode S = ''jwt''"
  shows "missing_vars S = []" "32 \<le> secret_bytes S" "cf_encryption_key S \<noteq> []" "ls_bind_password (cf_ldap S) \<noteq> []"
  using assms
  by (auto simp: load_settings_def sum_bind_Inr non_empty_encryption_key_def validate_auth_mode_requirements_def
      missing_vars_empty split: if_splits)

lemma load_settings_keeps:
  assumes "load_settings raw = Inr S"
  shows "cf_auth_mode S = cf_auth_mode raw" "cf_ldap S = cf_ldap raw"
  using assms
  by (auto simp: load_settings_def sum_bind_Inr non_empty_encryption_key_def validate_auth_mode_requirements_def
      split: if_splits)

lemma defaulted_Inr:
  "defaulted V name parse d = Inr m \<longleftrightarrow> (V name = None \<and> m = d) \<or> (\<exists>v. V name = Some v \<and> parse v = Inr m)"
  by (auto simp: defaulted_def split: option.splits)

lemma literal_Inr: "literal allowed v = Inr m \<longleftrightarrow> m = v \<and> v \<in> set allowed"
  by (auto simp: literal_def)

lemma read_settings_mode:
  assumes "read_settings P V = Inr raw"
  shows "cf_auth_mode raw \<in> {''jwt'', ''dev''}" "cf_auth_mode raw = ''dev'' \<Longrightarrow> V ''OPENVDI_AUTH_MODE'' = Some ''dev''"
    "read_ldap_settings P V = Inr (cf_ldap raw)"
proof -
  from assms have "defaulted V ''OPENVDI_AUTH_MODE'' (literal [''jwt'', ''dev'']) ''jwt'' = Inr (cf_auth_mode raw)
      \<and> read_ldap_settings P V = Inr (cf_ldap raw)"
    unfolding read_settings_def sum_bind_Inr by (elim exE conjE) auto
  then show "cf_auth_mode raw \<in> {''jwt'', ''dev''}" "cf_auth_mode raw = ''dev'' \<Longrightarrow> V ''OPENVDI_AUTH_MODE'' = Some ''dev''"
    "read_ldap_settings P V = Inr (cf_ldap raw)"
    by (auto simp: defaulted_Inr literal_Inr)
qed

lemma read_ldap_verify:
  assumes "read_ldap_settings P V = Inr L" "\<not> ls_verify_ssl L"
  shows "\<exists>v. V ''OPENVDI_LDAP_VERIFY_SSL'' = Some v \<and> ep_bool P v = Inr False"
  using assms by (auto simp: read_ldap_settings_def sum_bind_Inr defaulted_Inr Let_def)

lemma get_settings_mode:
  assumes "get_settings P V = Inr S" "\<not> is_dev_auth S"
  shows "cf_auth_mode S = ''jwt''" "ls_bind_password (cf_ldap S) \<noteq> []"
proof -
  from assms(1) obtain raw where raw: "read_settings P V = Inr raw" "load_settings raw = Inr S"
    by (auto simp: get_settings_def sum_bind_Inr)
  then show mode: "cf_auth_mode S = ''jwt''"
    using assms(2) load_settings_keeps [OF raw(2)] read_settings_mode [OF raw(1)] by (auto simp: is_dev_auth_def)
  show "ls_bind_password (cf_ldap S) \<noteq> []" using load_settings_jwt [OF raw(2) mode] by simp
qed

text \<open>
  The broker cannot be started insecure by omission. Settings that are accepted have an encryption
  key; they are in the \<open>dev\<close> mode, which trusts the headers of a request, only if the environment says so; in
  the \<open>jwt\<close> mode the signing key has at least 32 bytes, and the directory, its service account with a
  password, the administrators' group and the portal's origin are all set; and certificates of the
  directory are verified unless the environment turns that off.
\<close>

lemma settings_secure:
  assumes "get_settings P V = Inr S"
  shows "cf_encryption_key S \<noteq> []
    \<and> (if is_dev_auth S then V ''OPENVDI_AUTH_MODE'' = Some ''dev''
       else cf_auth_mode S = ''jwt'' \<and> missing_vars S = [] \<and> 32 \<le> secret_bytes S)
    \<and> (ls_verify_ssl (cf_ldap S) \<or> (\<exists>v. V ''OPENVDI_LDAP_VERIFY_SSL'' = Some v \<and> ep_bool P v = Inr False))"
proof -
  from assms obtain raw where raw: "read_settings P V = Inr raw" "load_settings raw = Inr S"
    by (auto simp: get_settings_def sum_bind_Inr)
  have "cf_encryption_key S \<noteq> []"
    using raw(2) by (auto simp: load_settings_def sum_bind_Inr non_empty_encryption_key_def
        validate_auth_mode_requirements_def split: if_splits)
  moreover have "V ''OPENVDI_AUTH_MODE'' = Some ''dev''" if "is_dev_auth S"
    using that read_settings_mode(2) [OF raw(1)] load_settings_keeps(1) [OF raw(2)] by (simp add: is_dev_auth_def)
  moreover have "cf_auth_mode S = ''jwt'' \<and> missing_vars S = [] \<and> 32 \<le> secret_bytes S" if "\<not> is_dev_auth S"
    using get_settings_mode(1) [OF assms that] load_settings_jwt(1,2) [OF raw(2)] by blast
  moreover have "ls_verify_ssl (cf_ldap S) \<or> (\<exists>v. V ''OPENVDI_LDAP_VERIFY_SSL'' = Some v \<and> ep_bool P v = Inr False)"
    using read_settings_mode(3) [OF raw(1)] load_settings_keeps(2) [OF raw(2)] read_ldap_verify [of P V "cf_ldap S"]
    by metis
  ultimately show ?thesis by presburger
qed

definition sim_parsers :: env_parsers where
  "sim_parsers = \<lparr>ep_int = (\<lambda>s. Inr (int (read_nat_acc 0 s))), ep_bool = (\<lambda>s. Inr (s = ''true''))\<rparr>"

definition sim_environment :: "string \<Rightarrow> string option" where
  "sim_environment = map_of [(''PROXMOX_API_URL'', ''https://pve''), (''PROXMOX_TOKEN_ID'', ''t''), (''PROXMOX_TOKEN_SECRET'', ''s''),
     (''PROXMOX_DEFAULT_NODE'', ''n''), (''PROXMOX_TEMPLATE_VMID'', ''100''), (''PROXMOX_TEST_VMID'', ''101''),
     (''OPENVDI_ENCRYPTION_KEY'', ''k''), (''POSTGRES_USER'', ''u''), (''POSTGRES_PASSWORD'', ''p''), (''POSTGRES_DB'', ''d''),
     (''OPENVDI_JWT_SECRET'', replicate 32 (CHR ''x'')), (''OPENVDI_LDAP_URL'', ''ldaps://dc1''),
     (''OPENVDI_LDAP_BIND_DN'', ''cn=svc''), (''OPENVDI_LDAP_BIND_PASSWORD'', ''s''),
     (''OPENVDI_LDAP_USER_BASE'', ''ou=people''), (''OPENVDI_LDAP_GROUP_BASE'', ''ou=groups''),
     (''OPENVDI_LDAP_USER_FILTER'', ''(uid={username})''), (''OPENVDI_LDAP_ADMIN_GROUP'', ''Admins''), (''OPENVDI_PORTAL_ORIGIN'', ''https://vdi'')]"

definition sim_settings :: settings where
  "sim_settings = (case get_settings sim_parsers sim_environment of Inr S \<Rightarrow> S)"

lemma sim_settings_read: "get_settings sim_parsers sim_environment = Inr sim_settings"
proof -
  have "\<not> isl (get_settings sim_parsers sim_environment)" by code_simp
  then show ?thesis by (cases "get_settings sim_parsers sim_environment") (simp_all add: sim_settings_def)
qed

end
