(* ===== verification/Ldap_Service.thy ===== *)
theory Ldap_Service
  imports Configuration
begin

text \<open>
  The LDAP service, \<open>broker/app/services/ldap_service.py\<close>: the bind of the service account, the
  search for the user, the bind as the user, the group search, and the lookup without a password
  that refreshing a token makes. \<open>ldap3\<close> is a parameter: its \<open>Server\<close>, its connections, which
  bind when they are made, their searches, and the escaping of filter values. A search answers the
  entries found; \<open>str\<close> of the values is part of the entry.
\<close>

section \<open>The directory\<close>

text \<open>\<open>entry.cn.value\<close>: missing or null, one value, or a list.\<close>

datatype cn_value = CnMissing | CnOne string | CnList "string list"

record ldap_entry =
  le_dn :: string
  le_cn :: cn_value

text \<open>\<open>ld_server\<close> takes the URL and, for \<open>ldaps://\<close>, whether certificates are verified.\<close>

record 'w directory =
  ld_server :: "string \<Rightarrow> bool option \<Rightarrow> exn + nat"
  ld_bind :: "nat \<Rightarrow> string \<Rightarrow> string \<Rightarrow> ('w, nat) eff"
  ld_unbind :: "nat \<Rightarrow> ('w, unit) eff"
  ld_search :: "nat \<Rightarrow> string \<Rightarrow> string \<Rightarrow> string list \<Rightarrow> ('w, ldap_entry list) eff"
  ld_escape :: "string \<Rightarrow> string"

fun is_ldap_bind_error :: "exn \<Rightarrow> bool" where
  "is_ldap_bind_error (LDAPBind _) = True"
| "is_ldap_bind_error _ = False"

fun is_ldap_exception :: "exn \<Rightarrow> bool" where
  "is_ldap_exception (LDAPBind _) = True"
| "is_ldap_exception (LDAPInvalidCredentials _) = True"
| "is_ldap_exception (LDAPOther _) = True"
| "is_ldap_exception _ = False"

fun is_refused_bind :: "exn \<Rightarrow> bool" where
  "is_refused_bind (LDAPBind _) = True"
| "is_refused_bind (LDAPInvalidCredentials _) = True"
| "is_refused_bind _ = False"

section \<open>Filters\<close>

text \<open>
  \<open>template.format(name=v)\<close> for fields that are plain names: doubled braces stand for one, another
  name is a \<open>KeyError\<close>, a single brace a \<open>ValueError\<close>.
\<close>

function py_format :: "string \<Rightarrow> string \<Rightarrow> string \<Rightarrow> exn + string" where
  "py_format name v t = (case t of
       [] \<Rightarrow> Inr []
     | c # s \<Rightarrow>
       if c = CHR ''{'' \<and> take 1 s = ''{'' then map_sum id ((#) CHR ''{'') (py_format name v (drop 1 s))
       else if c = CHR ''}'' \<and> take 1 s = ''}'' then map_sum id ((#) CHR ''}'') (py_format name v (drop 1 s))
       else if c = CHR ''}'' then Inl (PyValueError ''Single brace encountered in format string'')
       else if c = CHR ''{'' then
         (let field = takeWhile (\<lambda>x. x \<noteq> CHR ''}'') s in
          if field = s then Inl (PyValueError ''expected closing brace before end of string'')
          else if field \<noteq> name then Inl (PyKeyError field)
          else map_sum id (append v) (py_format name v (drop (Suc (length field)) s)))
       else map_sum id ((#) c) (py_format name v s))"
  by pat_completeness auto

termination
  by (relation "measure (\<lambda>(_, _, t). length t)") auto

declare py_format.simps [simp del]

section \<open>Connections\<close>

definition make_server :: "'w directory \<Rightarrow> ldap_settings \<Rightarrow> exn + nat" where
  "make_server D L = ld_server D (ls_url L)
     (if starts_with (py_lower (ls_url L)) ''ldaps://'' then Some (ls_verify_ssl L) else None)"

text \<open>\<open>with self._connect(...) as conn\<close>: bound on construction, unbound on leaving.\<close>

definition with_connection ::
    "'w directory \<Rightarrow> nat \<Rightarrow> string \<Rightarrow> string \<Rightarrow> (nat \<Rightarrow> ('w, 'a) eff) \<Rightarrow> ('w, 'a) eff" where
  "with_connection D server dn password body = bnd (ld_bind D server dn password) (\<lambda>conn.
     bnd (attempt (body conn)) (\<lambda>r. andthen (ld_unbind D conn) (lift_result r)))"

definition search_user_dn ::
    "'w directory \<Rightarrow> ldap_settings \<Rightarrow> string \<Rightarrow> nat \<Rightarrow> ('w, string option) eff" where
  "search_user_dn D L username conn =
     bnd (lift_result (py_format ''username'' (ld_escape D username) (ls_user_filter L))) (\<lambda>filt.
     bnd (ld_search D conn (ls_user_base L) filt [''distinguishedName'']) (\<lambda>entries.
     case entries of
       [] \<Rightarrow> ret None
     | [e] \<Rightarrow> ret (Some (le_dn e))
     | _ \<Rightarrow> throw (LDAPServiceError (''LDAP user search returned '' @ show_nat (length entries)
         @ '' matches; user filter is too broad''))))"

definition group_names :: "ldap_entry \<Rightarrow> string list" where
  "group_names e = (case le_cn e of CnMissing \<Rightarrow> [] | CnOne s \<Rightarrow> [s] | CnList xs \<Rightarrow> xs)"

definition search_groups ::
    "'w directory \<Rightarrow> ldap_settings \<Rightarrow> string \<Rightarrow> nat \<Rightarrow> ('w, string list) eff" where
  "search_groups D L user_dn conn =
     bnd (lift_result (py_format ''user_dn'' (ld_escape D user_dn) (ls_group_filter L))) (\<lambda>filt.
     bnd (ld_search D conn (ls_group_base L) filt [''cn'']) (\<lambda>entries.
     ret (concat (map group_names entries))))"

text \<open>\<open>casefold\<close> is \<open>lower\<close> on the letters strings have here.\<close>

definition is_admin_member :: "ldap_settings \<Rightarrow> string list \<Rightarrow> bool" where
  "is_admin_member L groups \<longleftrightarrow> ls_admin_group L \<noteq> []
     \<and> list_ex (\<lambda>g. py_lower g = py_lower (ls_admin_group L)) groups"

definition as_service_account ::
    "'w directory \<Rightarrow> ldap_settings \<Rightarrow> nat \<Rightarrow> (nat \<Rightarrow> ('w, 'a) eff) \<Rightarrow> ('w, 'a) eff" where
  "as_service_account D L server body =
     with_connection D server (ls_bind_dn L) (ls_bind_password L) body"

section \<open>Authentication and lookup\<close>

definition find_user :: "'w directory \<Rightarrow> ldap_settings \<Rightarrow> nat \<Rightarrow> string \<Rightarrow> ('w, string option) eff" where
  "find_user D L server username =
     catching is_ldap_exception (as_service_account D L server (search_user_dn D L username))
       (\<lambda>e. throw (LDAPServiceError (if is_ldap_bind_error e then ''LDAP service-account bind failed''
          else ''LDAP error during user search'')))"

definition verify_password :: "'w directory \<Rightarrow> nat \<Rightarrow> string \<Rightarrow> string \<Rightarrow> ('w, unit) eff" where
  "verify_password D server user_dn password =
     catching is_ldap_exception (with_connection D server user_dn password (\<lambda>_. ret ()))
       (\<lambda>e. throw (if is_refused_bind e then LDAPAuthError ''invalid credentials''
          else LDAPServiceError ''LDAP error during user bind''))"

definition find_groups :: "'w directory \<Rightarrow> ldap_settings \<Rightarrow> nat \<Rightarrow> string \<Rightarrow> ('w, string list) eff" where
  "find_groups D L server user_dn =
     catching is_ldap_exception (as_service_account D L server (search_groups D L user_dn))
       (\<lambda>e. throw (LDAPServiceError ''LDAP error during group search''))"

definition mk_ldap_result :: "ldap_settings \<Rightarrow> string \<Rightarrow> string \<Rightarrow> string list \<Rightarrow> ldap_result" where
  "mk_ldap_result L username user_dn groups = \<lparr>lr_username = username, lr_user_dn = user_dn, lr_groups = groups,
     lr_is_admin = is_admin_member L groups\<rparr>"

definition authenticate_blocking ::
    "'w directory \<Rightarrow> ldap_settings \<Rightarrow> string \<Rightarrow> string \<Rightarrow> ('w, ldap_result) eff" where
  "authenticate_blocking D L username password =
     bnd (lift_result (make_server D L)) (\<lambda>server.
     bnd (find_user D L server username) (\<lambda>found.
     case found of
       None \<Rightarrow> throw (LDAPAuthError ''invalid credentials'')
     | Some user_dn \<Rightarrow>
         andthen (verify_password D server user_dn password)
         (bnd (find_groups D L server user_dn) (\<lambda>groups.
          ret (mk_ldap_result L username user_dn groups)))))"

definition authenticate ::
    "'w directory \<Rightarrow> ldap_settings \<Rightarrow> string \<Rightarrow> string \<Rightarrow> ('w, ldap_result) eff" where
  "authenticate D L username password =
     (if password = [] \<or> username = [] then throw (LDAPAuthError ''invalid credentials'')
      else authenticate_blocking D L (py_lower (py_strip username)) password)"

definition lookup_blocking :: "'w directory \<Rightarrow> ldap_settings \<Rightarrow> string \<Rightarrow> ('w, ldap_result) eff" where
  "lookup_blocking D L username =
     bnd (lift_result (make_server D L)) (\<lambda>server.
     bnd (find_user D L server username) (\<lambda>found.
     case found of
       None \<Rightarrow> throw (LDAPAuthError ''user no longer exists in LDAP'')
     | Some user_dn \<Rightarrow> bnd (find_groups D L server user_dn) (\<lambda>groups.
         ret (mk_ldap_result L username user_dn groups))))"

definition lookup_user :: "'w directory \<Rightarrow> ldap_settings \<Rightarrow> string \<Rightarrow> ('w, ldap_result) eff" where
  "lookup_user D L username =
     (if username = [] then throw (LDAPAuthError ''invalid username'') else lookup_blocking D L username)"

definition get_ldap_service :: "'svc option \<Rightarrow> exn + 'svc" where
  "get_ldap_service svc = (case svc of None \<Rightarrow> Inl (HTTPException 503 ''AUTH_MODE_NOT_SUPPORTED'') | Some x \<Rightarrow> Inr x)"

text \<open>The authentication of the broker with this service behind it.\<close>

definition with_directory :: "'w auth_env \<Rightarrow> 'w directory \<Rightarrow> ldap_settings \<Rightarrow> 'w auth_env" where
  "with_directory A D L = A\<lparr>au_authenticate := authenticate D L, au_lookup := lookup_user D L\<rparr>"

section \<open>A directory of one user\<close>

definition sim_ldap :: ldap_settings where
  "sim_ldap = \<lparr>ls_url = ''ldaps://dc1'', ls_bind_dn = ''cn=svc'', ls_bind_password = ''s'', ls_user_base = ''ou=people'',
     ls_group_base = ''ou=groups'', ls_user_filter = ''(uid={username})'', ls_group_filter = ''(member={user_dn})'',
     ls_admin_group = ''Admins'', ls_verify_ssl = True\<rparr>"

definition sim_directory :: "int directory" where
  "sim_directory = \<lparr>ld_server = (\<lambda>url tls. Inr 0),
     ld_bind = (\<lambda>server dn pw w. (if (dn, pw) \<in> {(''cn=svc'', ''s''), (''cn=alice'', ''pw'')} then Inr 1
        else Inl (LDAPInvalidCredentials ''invalidCredentials''), w)),
     ld_unbind = (\<lambda>conn w. (Inr (), w)),
     ld_search = (\<lambda>conn base filt attrs w. (Inr
        (if filt = ''(uid=alice)'' then [\<lparr>le_dn = ''cn=alice'', le_cn = CnMissing\<rparr>]
         else if filt = ''(member=cn=alice)'' then [\<lparr>le_dn = ''cn=admins'', le_cn = CnOne ''admins''\<rparr>] else []), w)),
     ld_escape = id\<rparr>"

section \<open>What a successful login has checked\<close>

lemma catching_rethrow:
  assumes "catching p m (\<lambda>e. throw (f e)) s = (Inr a, t)"
  shows "m s = (Inr a, t)"
  using assms by (auto simp: catching_def throw_def split: prod.splits sum.splits if_splits)

lemma with_connection_returned:
  assumes "catching p (with_connection D server dn password body) (\<lambda>e. throw (f e)) s = (Inr a, t)"
  obtains conn u v where "ld_bind D server dn password s = (Inr conn, u)" "body conn u = (Inr a, v)"
  using catching_rethrow [OF assms] unfolding with_connection_def returned by blast

lemma search_user_dn_returned:
  assumes "search_user_dn D L username conn s = (Inr (Some dn), t)"
  obtains filt e where "py_format ''username'' (ld_escape D username) (ls_user_filter L) = Inr filt"
    "fst (ld_search D conn (ls_user_base L) filt [''distinguishedName''] s) = Inr [e]" "le_dn e = dn"
  using assms unfolding search_user_dn_def returned
  by (force simp: returned split: list.splits)

lemma search_groups_returned:
  assumes "search_groups D L dn conn s = (Inr groups, t)"
  obtains filt es where "py_format ''user_dn'' (ld_escape D dn) (ls_group_filter L) = Inr filt"
    "fst (ld_search D conn (ls_group_base L) filt [''cn''] s) = Inr es" "groups = concat (map group_names es)"
  using assms unfolding search_groups_def returned by force

lemma find_user_returned:
  assumes "find_user D L server username s = (Inr (Some dn), t)"
  obtains conn w filt e where "py_format ''username'' (ld_escape D username) (ls_user_filter L) = Inr filt"
    "fst (ld_search D conn (ls_user_base L) filt [''distinguishedName''] w) = Inr [e]" "le_dn e = dn"
  using assms unfolding find_user_def as_service_account_def
  by (elim with_connection_returned search_user_dn_returned) (rule that)

lemma find_groups_returned:
  assumes "find_groups D L server dn s = (Inr groups, t)"
  obtains conn w filt es where "py_format ''user_dn'' (ld_escape D dn) (ls_group_filter L) = Inr filt"
    "fst (ld_search D conn (ls_group_base L) filt [''cn''] w) = Inr es" "groups = concat (map group_names es)"
  using assms unfolding find_groups_def as_service_account_def
  by (elim with_connection_returned search_groups_returned) (rule that)

lemma verify_password_returned:
  assumes "verify_password D server dn password s = (Inr x, t)"
  obtains conn u where "ld_bind D server dn password s = (Inr conn, u)"
  using assms unfolding verify_password_def
  by (elim with_connection_returned) (rule that)

lemma authenticate_returned:
  assumes "authenticate D L username password s = (Inr r, t)"
  obtains server dn groups u v w where "password \<noteq> []" "username \<noteq> []" "make_server D L = Inr server"
    "find_user D L server (py_lower (py_strip username)) s = (Inr (Some dn), u)"
    "verify_password D server dn password u = (Inr (), v)"
    "find_groups D L server dn v = (Inr groups, w)"
    "r = mk_ldap_result L (py_lower (py_strip username)) dn groups"
  using assms unfolding authenticate_def authenticate_blocking_def
  by (auto simp: returned split: if_splits option.splits)

text \<open>
  Property C29. Whom the directory lets in. A login that succeeds did not use an empty password: the directory
  accepted a bind with exactly this password, as the entry that was the only answer to the user
  filter with the escaped name; the groups are the values of the group search for that entry, and
  the administrator's role is membership in the configured group, whatever its case.
\<close>

theorem authenticated_user_was_bound:
  assumes "authenticate D L username password w = (Inr r, w')"
  shows "password \<noteq> [] \<and> lr_username r = py_lower (py_strip username)
    \<and> (\<exists>server conn w1. fst (ld_bind D server (lr_user_dn r) password w1) = Inr conn)
    \<and> (\<exists>filt conn e w1. py_format ''username'' (ld_escape D (lr_username r)) (ls_user_filter L) = Inr filt
         \<and> fst (ld_search D conn (ls_user_base L) filt [''distinguishedName''] w1) = Inr [e] \<and> le_dn e = lr_user_dn r)
    \<and> (\<exists>filt conn es w1. py_format ''user_dn'' (ld_escape D (lr_user_dn r)) (ls_group_filter L) = Inr filt
         \<and> fst (ld_search D conn (ls_group_base L) filt [''cn''] w1) = Inr es
         \<and> lr_groups r = concat (map group_names es))
    \<and> (lr_is_admin r \<longleftrightarrow> ls_admin_group L \<noteq> [] \<and> py_lower (ls_admin_group L) \<in> py_lower ` set (lr_groups r))"
proof -
  from assms obtain server dn groups u v x where run: "password \<noteq> []"
    "find_user D L server (py_lower (py_strip username)) w = (Inr (Some dn), u)"
    "verify_password D server dn password u = (Inr (), v)" "find_groups D L server dn v = (Inr groups, x)"
    and r: "r = mk_ldap_result L (py_lower (py_strip username)) dn groups"
    by (rule authenticate_returned)
  from run(2) obtain conn1 w1 filt1 e where
    "py_format ''username'' (ld_escape D (py_lower (py_strip username))) (ls_user_filter L) = Inr filt1"
    "fst (ld_search D conn1 (ls_user_base L) filt1 [''distinguishedName''] w1) = Inr [e]" "le_dn e = dn"
    by (rule find_user_returned)
  moreover from run(3) obtain conn2 u2 where "ld_bind D server dn password u = (Inr conn2, u2)"
    by (rule verify_password_returned)
  then have "fst (ld_bind D server dn password u) = Inr conn2" by simp
  moreover from run(4) obtain conn3 w3 filt3 es where
    "py_format ''user_dn'' (ld_escape D dn) (ls_group_filter L) = Inr filt3"
    "fst (ld_search D conn3 (ls_group_base L) filt3 [''cn''] w3) = Inr es" "groups = concat (map group_names es)"
    by (rule find_groups_returned)
  ultimately show ?thesis
    using run(1) unfolding r
    by (intro conjI) (auto simp: mk_ldap_result_def is_admin_member_def list_ex_iff image_iff, metis+)
qed

theorem authenticated_user_was_bound_witness:
  "\<exists>r. authenticate sim_directory sim_ldap '' Alice'' ''pw'' 0 = (Inr r, 0) \<and> lr_username r = ''alice'' \<and> lr_is_admin r"
proof -
  have run: "authenticate sim_directory sim_ldap '' Alice'' ''pw'' 0
      = (Inr \<lparr>lr_username = ''alice'', lr_user_dn = ''cn=alice'', lr_groups = [''admins''], lr_is_admin = True\<rparr>, 0)"
    by code_simp
  moreover have "py_lower (py_strip '' Alice'') = ''alice''" by code_simp
  ultimately show ?thesis using authenticated_user_was_bound [OF run] by simp
qed

section \<open>Failures of the directory\<close>

text \<open>
  One search as the service account, \<open>answer\<close> what it came to: the bind is refused, or the search
  answers or raises, and the connection is closed.
\<close>

definition asked :: "'w directory \<Rightarrow> ldap_settings \<Rightarrow> nat \<Rightarrow> string \<Rightarrow> string \<Rightarrow> string list \<Rightarrow> 'w \<Rightarrow>
    exn + ldap_entry list \<Rightarrow> 'w \<Rightarrow> bool" where
  "asked D L server base filt attrs w answer w' \<longleftrightarrow>
     (case ld_bind D server (ls_bind_dn L) (ls_bind_password L) w of
        (Inl e, u) \<Rightarrow> answer = Inl e \<and> w' = u
      | (Inr conn, u) \<Rightarrow> (case ld_search D conn base filt attrs u of
          (r, v) \<Rightarrow> answer = r \<and> ld_unbind D conn v = (Inr (), w')))"

text \<open>The broker's two exceptions, which no library raises.\<close>

definition ldap_error :: "exn \<Rightarrow> bool" where
  "ldap_error e \<longleftrightarrow> is_ldap_auth_error e \<or> is_ldap_service_error e"

definition raises_none_of_ours :: "'w directory \<Rightarrow> bool" where
  "raises_none_of_ours D \<longleftrightarrow> (\<forall>url tls e. ld_server D url tls = Inl e \<longrightarrow> \<not> ldap_error e)
     \<and> (\<forall>server dn pw w e. fst (ld_bind D server dn pw w) = Inl e \<longrightarrow> \<not> ldap_error e)
     \<and> (\<forall>conn base filt attrs w e. fst (ld_search D conn base filt attrs w) = Inl e \<longrightarrow> \<not> ldap_error e)"

text \<open>How a login may fail: answered, with one audit row and no token, or by an exception that commits nothing.\<close>

definition login_refused ::
    "string \<Rightarrow> string option \<Rightarrow> nat \<Rightarrow> string \<Rightarrow> string \<Rightarrow> 'w st \<Rightarrow> (exn + token_response) \<times> 'w st \<Rightarrow> bool" where
  "login_refused username ip status code reason s run \<longleftrightarrow> fst run = Inl (HTTPException status code)
     \<and> auth_tokens (committed (snd run)) = auth_tokens (committed s)
     \<and> (\<exists>a. audit_log (committed (snd run)) = audit_log (committed s) @ [a] \<and> a_action a = ''auth.login.failure''
          \<and> a_actor a = take 256 username \<and> a_client_ip a = ip \<and> a_details a = JObj [(''reason'', JStr reason)])"

definition login_raised :: "exn \<Rightarrow> 'w st \<Rightarrow> (exn + token_response) \<times> 'w st \<Rightarrow> bool" where
  "login_raised e s run \<longleftrightarrow> fst run = Inl e \<and> committed (snd run) = committed s"

lemma failed_login:
  assumes "authenticate D L username password (world s) = (Inl e, w)"
    and "run = login E (with_directory A D L) username password ip s"
  shows "is_ldap_auth_error e \<Longrightarrow> login_refused username ip 401 ''UNAUTHORIZED'' ''invalid_credentials'' s run"
    and "is_ldap_service_error e \<Longrightarrow> login_refused username ip 503 ''SERVICE_UNAVAILABLE'' ''service_unavailable'' s run"
    and "\<not> ldap_error e \<Longrightarrow> login_raised e s run"
  using assms
  by (auto simp: login_refused_def login_raised_def ldap_error_def login_def with_directory_def fail_login_def unauthorized_def
      unavailable_def log_business_event_def add_audit_def exec_simps split: if_splits elim: is_ldap_service_error.elims)

lemma asked_cases:
  assumes "asked D L server base filt attrs w answer w'"
  obtains e where "ld_bind D server (ls_bind_dn L) (ls_bind_password L) w = (Inl e, w')" "answer = Inl e"
  | conn u v where "ld_bind D server (ls_bind_dn L) (ls_bind_password L) w = (Inr conn, u)"
      "ld_search D conn base filt attrs u = (answer, v)" "ld_unbind D conn v = (Inr (), w')"
proof -
  obtain r u where bind: "ld_bind D server (ls_bind_dn L) (ls_bind_password L) w = (r, u)" by fastforce
  show thesis
  proof (cases r)
    case (Inl e)
    with bind assms show thesis by (intro that(1) [of e]) (simp_all add: asked_def)
  next
    case (Inr conn)
    obtain q v where "ld_search D conn base filt attrs u = (q, v)" by fastforce
    with Inr bind assms show thesis by (intro that(2) [of conn u v]) (simp_all add: asked_def)
  qed
qed

lemma asked_foreign:
  assumes "raises_none_of_ours D" "asked D L server base filt attrs w (Inl e) w'"
  shows "\<not> ldap_error e"
  using assms(2)
proof (rule asked_cases)
  fix e' assume "ld_bind D server (ls_bind_dn L) (ls_bind_password L) w = (Inl e', w')" "Inl e = Inl e'"
  then have "fst (ld_bind D server (ls_bind_dn L) (ls_bind_password L) w) = Inl e" by simp
  with assms(1) show ?thesis unfolding raises_none_of_ours_def by blast
next
  fix conn u v assume "ld_search D conn base filt attrs u = (Inl e, v)"
  then have "fst (ld_search D conn base filt attrs u) = Inl e" by simp
  with assms(1) show ?thesis unfolding raises_none_of_ours_def by blast
qed

lemma find_user_asked:
  assumes "py_format ''username'' (ld_escape D name) (ls_user_filter L) = Inr filt"
    and "asked D L server (ls_user_base L) filt [''distinguishedName''] w answer w'"
  shows "\<exists>m. find_user D L server name w = (case answer of
      Inl e \<Rightarrow> Inl (if is_ldap_exception e then LDAPServiceError m else e)
    | Inr [] \<Rightarrow> Inr None | Inr [x] \<Rightarrow> Inr (Some (le_dn x)) | Inr _ \<Rightarrow> Inl (LDAPServiceError m), w')"
  using assms(2)
  by (rule asked_cases) (auto simp: find_user_def as_service_account_def with_connection_def search_user_dn_def assms(1)
      exec_simps split: sum.split list.split)

lemma find_groups_asked:
  assumes "py_format ''user_dn'' (ld_escape D dn) (ls_group_filter L) = Inr filt"
    and "asked D L server (ls_group_base L) filt [''cn''] w (Inl e) w'"
  shows "\<exists>m. find_groups D L server dn w = (Inl (if is_ldap_exception e then LDAPServiceError m else e), w')"
  using assms(2)
  by (rule asked_cases) (auto simp: find_groups_def as_service_account_def with_connection_def search_groups_def assms(1)
      exec_simps)

lemma user_search_answered:
  assumes "run = login E (with_directory A D L) username password ip s" and "raises_none_of_ours D"
    and given: "username \<noteq> []" "password \<noteq> []"
    and server: "ld_server D (ls_url L) (if starts_with (py_lower (ls_url L)) ''ldaps://'' then Some (ls_verify_ssl L) else None) = Inr server"
    and filt: "py_format ''username'' (ld_escape D (py_lower (py_strip username))) (ls_user_filter L) = Inr filt"
    and asked: "asked D L server (ls_user_base L) filt [''distinguishedName''] (world s) answer w"
  shows "case answer of
       Inl e \<Rightarrow> if is_ldap_exception e then login_refused username ip 503 ''SERVICE_UNAVAILABLE'' ''service_unavailable'' s run
         else login_raised e s run
     | Inr [] \<Rightarrow> login_refused username ip 401 ''UNAUTHORIZED'' ''invalid_credentials'' s run
     | Inr [x] \<Rightarrow> (case ld_bind D server (le_dn x) password w of
           (Inl e, _) \<Rightarrow>
             if \<exists>m. e = LDAPBind m \<or> e = LDAPInvalidCredentials m
             then login_refused username ip 401 ''UNAUTHORIZED'' ''invalid_credentials'' s run
             else if is_ldap_exception e
             then login_refused username ip 503 ''SERVICE_UNAVAILABLE'' ''service_unavailable'' s run
             else login_raised e s run
         | (Inr conn, w1) \<Rightarrow> (\<forall>w2 gfilt ge w3. ld_unbind D conn w1 = (Inr (), w2)
              \<and> py_format ''user_dn'' (ld_escape D (le_dn x)) (ls_group_filter L) = Inr gfilt
              \<and> asked D L server (ls_group_base L) gfilt [''cn''] w2 (Inl ge) w3 \<longrightarrow>
              (if is_ldap_exception ge then login_refused username ip 503 ''SERVICE_UNAVAILABLE'' ''service_unavailable'' s run
               else login_raised ge s run)))
     | Inr _ \<Rightarrow> login_refused username ip 503 ''SERVICE_UNAVAILABLE'' ''service_unavailable'' s run"
proof -
  let ?user = "py_lower (py_strip username)"
  have auth: "authenticate D L username password (world s) = bnd (find_user D L server ?user) (\<lambda>found. case found of
       None \<Rightarrow> throw (LDAPAuthError ''invalid credentials'')
     | Some dn \<Rightarrow> andthen (verify_password D server dn password) (bnd (find_groups D L server dn) (\<lambda>groups.
         ret (mk_ldap_result L ?user dn groups)))) (world s)"
    using given server by (simp add: authenticate_def authenticate_blocking_def make_server_def exec_simps)
  obtain m where found: "find_user D L server ?user (world s) = (case answer of
      Inl e \<Rightarrow> Inl (if is_ldap_exception e then LDAPServiceError m else e)
    | Inr [] \<Rightarrow> Inr None | Inr [x] \<Rightarrow> Inr (Some (le_dn x)) | Inr _ \<Rightarrow> Inl (LDAPServiceError m), w)"
    using find_user_asked [OF filt asked] by blast
  note fails = failed_login [OF _ assms(1)]
  show ?thesis
  proof (cases answer)
    case (Inl e)
    from asked_foreign [OF assms(2) asked [unfolded Inl]] Inl found auth
    show ?thesis by (auto simp: exec_simps intro: fails(2,3))
  next
    case (Inr entries)
    consider "entries = []" | x where "entries = [x]" | x y zs where "entries = x # y # zs"
      by (cases entries rule: remdups_adj.cases) auto
    then show ?thesis
    proof cases
      case 2
      obtain r w1 where bind: "ld_bind D server (le_dn x) password w = (r, w1)" by fastforce
      show ?thesis
      proof (cases r)
        case (Inl e)
        with bind assms(2) have foreign: "\<not> ldap_error e" unfolding raises_none_of_ours_def by (metis fst_conv)
        from Inl bind have "verify_password D server (le_dn x) password w = (Inl (if is_ldap_exception e
            then if is_refused_bind e then LDAPAuthError ''invalid credentials'' else LDAPServiceError ''LDAP error during user bind''
            else e), w1)"
          by (simp add: verify_password_def with_connection_def exec_simps)
        with 2 Inr Inl bind found auth foreign show ?thesis
          by (cases e) (simp_all add: exec_simps fails)
      next
        case conn: (Inr conn)
        have "if is_ldap_exception ge then login_refused username ip 503 ''SERVICE_UNAVAILABLE'' ''service_unavailable'' s run
            else login_raised ge s run"
          if unbound: "ld_unbind D conn w1 = (Inr (), w2)"
            and groups: "py_format ''user_dn'' (ld_escape D (le_dn x)) (ls_group_filter L) = Inr gfilt"
              "asked D L server (ls_group_base L) gfilt [''cn''] w2 (Inl ge) w3" for w2 gfilt ge w3
        proof -
          have "verify_password D server (le_dn x) password w = (Inr (), w2)"
            using unbound conn bind by (simp add: verify_password_def with_connection_def exec_simps)
          moreover obtain m' where "find_groups D L server (le_dn x) w2
              = (Inl (if is_ldap_exception ge then LDAPServiceError m' else ge), w3)"
            using find_groups_asked [OF groups] by blast
          ultimately show ?thesis
            using 2 Inr found auth asked_foreign [OF assms(2) groups(2)] by (auto simp: exec_simps intro: fails(2,3))
        qed
        with 2 Inr conn bind show ?thesis by auto
      qed
    qed (use Inr found auth in \<open>simp_all add: exec_simps fails\<close>)
  qed
qed



section \<open>No anonymous binds\<close>

text \<open>
  Many directories accept a bind with an empty password as anonymous. The broker never makes one:
  with settings that were accepted for the \<open>jwt\<close> mode, what the directory answers to binds with an
  empty password has no influence on any login or lookup.
\<close>

theorem binds_are_never_anonymous:
  assumes "get_settings P V = Inr S" "\<not> is_dev_auth S"
    and "\<And>server dn pw. pw \<noteq> [] \<Longrightarrow> bind' server dn pw = ld_bind D server dn pw"
  shows "authenticate (D\<lparr>ld_bind := bind'\<rparr>) (cf_ldap S) username password = authenticate D (cf_ldap S) username password
    \<and> lookup_user (D\<lparr>ld_bind := bind'\<rparr>) (cf_ldap S) username = lookup_user D (cf_ldap S) username"
proof -
  let ?D = "D\<lparr>ld_bind := bind'\<rparr>" and ?L = "cf_ldap S"
  have svc: "ls_bind_password ?L \<noteq> []" using get_settings_mode(2) [OF assms(1,2)] .
  have "search_user_dn ?D ?L = search_user_dn D ?L" "search_groups ?D ?L = search_groups D ?L"
    by (intro ext, simp add: search_user_dn_def search_groups_def)+
  then have "find_user ?D ?L = find_user D ?L" "find_groups ?D ?L = find_groups D ?L"
    using svc by (intro ext, simp add: find_user_def find_groups_def as_service_account_def with_connection_def assms(3))+
  moreover have "verify_password ?D server dn password = verify_password D server dn password" if "password \<noteq> []" for server dn
    using that by (simp add: verify_password_def with_connection_def assms(3))
  moreover have "make_server ?D ?L = make_server D ?L" by (simp add: make_server_def)
  ultimately show ?thesis
    by (simp add: authenticate_def authenticate_blocking_def lookup_user_def lookup_blocking_def cong: option.case_cong)
qed

theorem binds_are_never_anonymous_witness:
  "authenticate (sim_directory\<lparr>ld_bind := \<lambda>server dn pw w. if pw = [] then (Inr 9, w) else ld_bind sim_directory server dn pw w\<rparr>)
     sim_ldap ''alice'' [] = authenticate sim_directory sim_ldap ''alice'' []"
proof -
  have "\<not> is_dev_auth sim_settings" "cf_ldap sim_settings = sim_ldap"
    by code_simp+
  then show ?thesis
    using binds_are_never_anonymous [OF sim_settings_read, of "\<lambda>server dn pw w. if pw = [] then (Inr 9, w) else ld_bind sim_directory server dn pw w"
      sim_directory "''alice''" "[]"]
    by (simp add: fun_eq_iff)
qed

section \<open>Lookup and login agree\<close>

text \<open>The answers of the directory do not depend on when it is asked.\<close>

definition steady :: "('w, 'a) eff \<Rightarrow> bool" where
  "steady m \<longleftrightarrow> (\<forall>w w'. fst (m w) = fst (m w'))"

definition steady_directory :: "'w directory \<Rightarrow> bool" where
  "steady_directory D \<longleftrightarrow> (\<forall>server dn pw. steady (ld_bind D server dn pw)) \<and> (\<forall>conn. steady (ld_unbind D conn))
     \<and> (\<forall>conn base filt attrs. steady (ld_search D conn base filt attrs))"

lemma steadyD: "steady m \<Longrightarrow> m w = (r, t) \<Longrightarrow> fst (m w') = r"
  unfolding steady_def by (metis fst_conv)

lemma steady_simps: "steady (ret a)" "steady (throw e)" "steady (lift_result r)"
  by (simp_all add: steady_def ret_def throw_def lift_result_def split: sum.split)

lemma steady_bnd: "steady m \<Longrightarrow> (\<And>a. steady (f a)) \<Longrightarrow> steady (bnd m f)"
  unfolding steady_def bnd_def
proof (intro allI)
  fix w w'
  assume m: "\<forall>w w'. fst (m w) = fst (m w')" and f: "\<And>a. \<forall>w w'. fst (f a w) = fst (f a w')"
  obtain r u r' u' where "m w = (r, u)" "m w' = (r', u')" by fastforce
  with m f show "fst (case m w of (r, s') \<Rightarrow> case r of Inl e \<Rightarrow> (Inl e, s') | Inr a \<Rightarrow> f a s')
      = fst (case m w' of (r, s') \<Rightarrow> case r of Inl e \<Rightarrow> (Inl e, s') | Inr a \<Rightarrow> f a s')"
    by (metis (mono_tags, lifting) fst_conv old.prod.case old.sum.exhaust old.sum.simps(5,6))
qed

lemma steady_andthen: "steady m \<Longrightarrow> steady n \<Longrightarrow> steady (andthen m n)"
  unfolding andthen_def by (rule steady_bnd)

lemma steady_attempt: "steady m \<Longrightarrow> steady (attempt m)"
  by (auto simp: steady_def attempt_def split: prod.splits) (metis fst_conv)

lemma steady_catching: "steady m \<Longrightarrow> steady (catching p m (\<lambda>e. throw (f e)))"
  unfolding steady_def catching_def throw_def
  by (auto split: prod.splits sum.splits) (metis fst_conv sum.inject Inl_Inr_False)+

lemma steady_searches:
  assumes "steady_directory D"
  shows "steady (find_user D L server username)" "steady (find_groups D L server user_dn)"
proof -
  have prims: "steady (ld_bind D server dn pw)" "steady (ld_unbind D conn)" "steady (ld_search D conn base filt attrs)"
    for server dn pw conn base filt attrs using assms by (simp_all add: steady_directory_def)
  have user: "steady (search_user_dn D L username conn)" for conn
    unfolding search_user_dn_def
    by (intro steady_bnd steady_simps prims) (auto intro: steady_simps split: list.split)
  have groups: "steady (search_groups D L user_dn conn)" for conn
    unfolding search_groups_def by (intro steady_bnd steady_simps prims)
  show "steady (find_user D L server username)" "steady (find_groups D L server user_dn)"
    unfolding find_user_def find_groups_def as_service_account_def with_connection_def
    by (intro steady_catching steady_bnd steady_andthen steady_attempt steady_simps prims user groups)+
qed

text \<open>
  Refreshing sees what the login saw: in a directory that does not change, looking up the name a
  login returned gives the same entry, groups and role.
\<close>

theorem lookup_agrees_with_login:
  assumes "steady_directory D" "authenticate D L username password w = (Inr r, w')" "lr_username r \<noteq> []"
  shows "fst (lookup_user D L (lr_username r) v) = Inr r"
proof -
  from assms(2) obtain server dn groups u u' x where run: "make_server D L = Inr server"
    "find_user D L server (py_lower (py_strip username)) w = (Inr (Some dn), u)"
    "find_groups D L server dn u' = (Inr groups, x)"
    and r: "r = mk_ldap_result L (py_lower (py_strip username)) dn groups"
    by (rule authenticate_returned)
  obtain v1 where found: "find_user D L server (lr_username r) v = (Inr (Some dn), v1)"
    using steadyD [OF steady_searches(1) [OF assms(1)] run(2), of v]
    by (cases "find_user D L server (lr_username r) v") (simp add: r mk_ldap_result_def)
  have "fst (find_groups D L server dn v1) = Inr groups"
    by (rule steadyD [OF steady_searches(2) [OF assms(1)] run(3)])
  then obtain v2 where "find_groups D L server dn v1 = (Inr groups, v2)"
    by (cases "find_groups D L server dn v1") simp
  with found run(1) assms(3) show ?thesis
    by (simp add: lookup_user_def lookup_blocking_def lift_result_def exec_simps r mk_ldap_result_def)
qed

end
