(* ===== verification/Leader_Election.thy ===== *)
theory Leader_Election
  imports Worker_Runner
begin

text \<open>
  Several brokers and one worker: the protocol of \<open>broker/app/workers/base.py\<close> over Postgres
  advisory locks. What one broker does between two awaits is an event; \<open>next_phase\<close> is the automaton
  of its events, and \<open>worker_follows_protocol\<close> shows that the code's loops only make events the
  automaton has. Brokers that interleave their events, with connections that may be lost at any time,
  are the step relation \<open>leader_step\<close>. When Postgres grants the lock is a parameter, of
  which \<open>exclusive\<close> states the documented behaviour.
\<close>

section \<open>The events of one broker\<close>

text \<open>\<open>ETryLock c None\<close>: the query raised. The last argument of a ping or an unlock: it did not raise.\<close>

datatype lock_event = EConnect nat | ETryLock nat "bool option" | EPing nat bool | ETicked
  | EUnlock nat bool | EClose nat

datatype phase = Waiting | Connected nat | Leading nat | Ticking nat | Abdicating nat | Closing nat

text \<open>Leaving the loop without a failed ping, to unlock, is a cancelled task.\<close>

fun next_phase :: "phase \<Rightarrow> lock_event \<Rightarrow> phase option" where
  "next_phase Waiting (EConnect c) = Some (Connected c)"
| "next_phase (Connected c) (ETryLock d got) =
     (if d = c then Some (if got = Some True then Leading c else Closing c) else None)"
| "next_phase (Leading c) (EPing d alive) =
     (if d = c then Some (if alive then Ticking c else Abdicating c) else None)"
| "next_phase (Ticking c) ETicked = Some (Leading c)"
| "next_phase (Leading c) (EUnlock d ok) = (if d = c then Some (Closing c) else None)"
| "next_phase (Ticking c) (EUnlock d ok) = (if d = c then Some (Closing c) else None)"
| "next_phase (Abdicating c) (EUnlock d ok) = (if d = c then Some (Closing c) else None)"
| "next_phase (Closing c) (EClose d) = (if d = c then Some Waiting else None)"
| "next_phase _ _ = None"

fun run_events :: "phase \<Rightarrow> lock_event list \<Rightarrow> phase option" where
  "run_events q [] = Some q"
| "run_events q (e # es) = (case next_phase q e of None \<Rightarrow> None | Some q' \<Rightarrow> run_events q' es)"

lemma run_events_snoc:
  "run_events q (es @ [e]) = (case run_events q es of None \<Rightarrow> None | Some q' \<Rightarrow> next_phase q' e)"
  by (induction es arbitrary: q) (auto split: option.splits)

section \<open>The code makes these events\<close>

text \<open>The lock's connections and a tick with every call noted in the world.\<close>

definition noting :: "('a \<Rightarrow> lock_event) \<Rightarrow> ('w \<Rightarrow> 'a \<times> 'w) \<Rightarrow> 'w \<times> lock_event list \<Rightarrow> 'a \<times> 'w \<times> lock_event list" where
  "noting ev f = (\<lambda>(w, es). case f w of (a, w') \<Rightarrow> (a, w', es @ [ev a]))"

definition succeeded :: "exn + unit \<Rightarrow> bool" where
  "succeeded r = (r = Inr ())"

definition noted :: "'w lock_db \<Rightarrow> ('w \<times> lock_event list) lock_db" where
  "noted K = \<lparr>lk_connect = (\<lambda>(w, es). case lk_connect K w of
       (Inl e, w') \<Rightarrow> (Inl e, w', es) | (Inr c, w') \<Rightarrow> (Inr c, w', es @ [EConnect c])),
     lk_try_lock = (\<lambda>c name. noting (\<lambda>r. ETryLock c (case r of Inl _ \<Rightarrow> None | Inr got \<Rightarrow> Some got)) (lk_try_lock K c name)),
     lk_ping = (\<lambda>c. noting (\<lambda>r. EPing c (succeeded r)) (lk_ping K c)),
     lk_unlock = (\<lambda>c name. noting (\<lambda>r. EUnlock c (succeeded r)) (lk_unlock K c name)),
     lk_close = (\<lambda>c. noting (\<lambda>_. EClose c) (lk_close K c))\<rparr>"

type_synonym ('w, 'm) noted_st = "('w \<times> lock_event list) st \<times> 'm"

definition noted_tick :: "(('w, 'm) noted_st, unit) eff \<Rightarrow> (('w, 'm) noted_st, unit) eff" where
  "noted_tick tick = bnd (attempt tick) (\<lambda>r.
     andthen (on_store (modify (\<lambda>s. s\<lparr>world := (fst (world s), snd (world s) @ [ETicked])\<rparr>))) (lift_result r))"

definition events :: "('w, 'm) noted_st \<Rightarrow> lock_event list" where
  "events s = snd (world (fst s))"

definition at_phase :: "phase \<Rightarrow> ('w, 'm) noted_st \<Rightarrow> bool" where
  "at_phase q s \<longleftrightarrow> run_events Waiting (events s) = Some q"

text \<open>What ticks and pauses do in the rest of the world leaves the notes alone.\<close>

definition silent :: "(('w, 'm) noted_st, 'a) eff \<Rightarrow> bool" where
  "silent m \<longleftrightarrow> (\<forall>s. events (snd (m s)) = events s)"

definition at_any :: "phase set \<Rightarrow> ('w, 'm) noted_st \<Rightarrow> bool" where
  "at_any Q s \<longleftrightarrow> (\<exists>q\<in>Q. at_phase q s)"

definition triple :: "phase set \<Rightarrow> (('w, 'm) noted_st, 'a) eff \<Rightarrow> ('a \<Rightarrow> phase set) \<Rightarrow> (exn \<Rightarrow> phase set) \<Rightarrow> bool" where
  "triple Q m F G \<longleftrightarrow> (\<forall>s. at_any Q s \<longrightarrow> wp m (\<lambda>a. at_any (F a)) (\<lambda>e. at_any (G e)) s)"

named_theorems triple_intros \<open>which phase a program leads to\<close>

lemma tripleD: "triple Q m F G \<Longrightarrow> at_any Q s \<Longrightarrow> wp m (\<lambda>a. at_any (F a)) (\<lambda>e. at_any (G e)) s"
  unfolding triple_def by blast

lemma triple_ret [triple_intros]: "Q \<subseteq> F a \<Longrightarrow> triple Q (ret a) F G"
  by (auto simp: triple_def wp_simps at_any_def)

lemma triple_bnd:
  assumes "triple Q m P G" "\<And>a. triple (P a) (k a) F G"
  shows "triple Q (bnd m k) F G"
  unfolding triple_def wp_simps
  by (intro allI impI) (rule wp_mono [OF tripleD [OF assms(1)]], auto simp: tripleD [OF assms(2)])

lemma triple_andthen: "triple Q m (\<lambda>_. P) G \<Longrightarrow> triple P n F G \<Longrightarrow> triple Q (andthen m n) F G"
  unfolding andthen_def by (rule triple_bnd)

lemma triple_attempt [triple_intros]:
  "triple Q m (\<lambda>a. F (Inr a)) (\<lambda>e. F (Inl e)) \<Longrightarrow> triple Q (attempt m) F G"
  by (simp add: triple_def wp_simps)

lemma triple_lift [triple_intros]:
  "(\<And>a. r = Inr a \<Longrightarrow> Q \<subseteq> F a) \<Longrightarrow> (\<And>e. r = Inl e \<Longrightarrow> Q \<subseteq> G e) \<Longrightarrow> triple Q (lift_result r) F G"
  by (cases r) (auto simp: triple_def lift_result_def wp_simps at_any_def)

lemma triple_swallow: "triple Q m (\<lambda>_. P) (\<lambda>_. P) \<Longrightarrow> triple Q (catching (\<lambda>_. True) m (\<lambda>_. ret ())) (\<lambda>_. P) G"
  by (simp add: triple_def wp_simps)

lemma triple_silent: "silent m \<Longrightarrow> triple Q m (\<lambda>_. Q) (\<lambda>_. Q)"
  by (auto simp: triple_def silent_def at_any_def at_phase_def wp_def split: prod.splits sum.splits)
    (metis snd_conv)+

lemma triple_sleep:
  assumes "\<And>t w. snd (e_sleep E t w) = snd w"
  shows "triple Q (on_store (sleep E t)) (\<lambda>_. Q) G"
  using assms
  by (auto simp: triple_def wp_def on_store_def sleep_def modify_def at_any_def at_phase_def events_def)

text \<open>A call that is noted moves the automaton.\<close>

lemma at_any_snoc:
  assumes "at_any Q s" "\<And>q. q \<in> Q \<Longrightarrow> \<exists>q'\<in>Q'. next_phase q e = Some q'" "events s' = events s @ [e]"
  shows "at_any Q' s'"
  using assms by (fastforce simp: at_any_def at_phase_def run_events_snoc)

lemma triple_noting:
  assumes "\<And>r q. q \<in> Q \<Longrightarrow> \<exists>q'\<in>(case r of Inl e \<Rightarrow> G e | Inr a \<Rightarrow> F a). next_phase q (ev r) = Some q'"
  shows "triple Q (on_lock_db (noting ev h)) F G"
proof -
  have "wp (on_lock_db (noting ev h)) (\<lambda>a. at_any (F a)) (\<lambda>e. at_any (G e)) (s, m)" if s: "at_any Q (s, m)" for s m
  proof -
    obtain w es where w: "world s = (w, es)" by (cases "world s")
    obtain r w' where h: "h w = (r, w')" by (cases "h w")
    let ?s' = "(s\<lparr>world := (w', es @ [ev r])\<rparr>, m)"
    have "on_lock_db (noting ev h) (s, m) = (r, ?s')"
      by (simp add: on_lock_db_def on_store_def noting_def w h)
    moreover have "at_any (case r of Inl e \<Rightarrow> G e | Inr a \<Rightarrow> F a) ?s'"
      by (rule at_any_snoc [OF s assms]) (simp_all add: events_def w)
    ultimately show ?thesis by (auto simp: wp_def split: sum.splits)
  qed
  then show ?thesis by (auto simp: triple_def)
qed

lemma triple_connect: "triple {Waiting} (on_lock_db (lk_connect (noted K))) (\<lambda>c. {Connected c}) (\<lambda>_. {Waiting})"
proof -
  have "wp (on_lock_db (lk_connect (noted K))) (\<lambda>c. at_any {Connected c}) (\<lambda>_. at_any {Waiting}) (s, m)"
    if s: "at_any {Waiting} (s, m)" for s :: "('a \<times> lock_event list) st" and m :: 'b
  proof -
    obtain w es where w: "world s = (w, es)" by (cases "world s")
    obtain r w' where h: "lk_connect K w = (r, w')" by (cases "lk_connect K w")
    have "at_any {Connected c} (s\<lparr>world := (w', es @ [EConnect c])\<rparr>, m)" for c
      using s by (rule at_any_snoc) (simp_all add: events_def w)
    moreover have "at_any {Waiting} (s\<lparr>world := (w', es)\<rparr>, m)"
      using s by (simp add: at_any_def at_phase_def events_def w)
    ultimately show ?thesis
      by (cases r) (simp_all add: wp_def on_lock_db_def on_store_def noted_def w h)
  qed
  then show ?thesis by (auto simp: triple_def)
qed

lemma triple_noted_tick:
  assumes "silent tick"
  shows "triple {Ticking c} (noted_tick tick) (\<lambda>_. {Leading c}) (\<lambda>_. {Leading c})"
proof -
  have "triple {Ticking c} (on_store (modify (\<lambda>s. s\<lparr>world := (fst (world s), snd (world s) @ [ETicked])\<rparr>))) (\<lambda>_. {Leading c}) G"
    for G :: "exn \<Rightarrow> phase set"
    by (auto simp: triple_def wp_def on_store_def modify_def events_def
        intro: at_any_snoc [where e = ETicked and Q = "{Ticking c}"])
  then show ?thesis
    unfolding noted_tick_def
    by (intro triple_bnd [OF triple_attempt [OF triple_silent [OF assms]]]
        triple_andthen [OF _ triple_lift]) auto
qed

lemma triple_weaken: "triple Q m F G \<Longrightarrow> (\<And>a. F a \<subseteq> F' a) \<Longrightarrow> (\<And>e. G e \<subseteq> G' e) \<Longrightarrow> triple Q m F' G'"
  unfolding triple_def at_any_def by (blast intro: wp_mono)

lemma triple_ping:
  "triple {Leading c} (on_lock_db (lk_ping (noted K) c)) (\<lambda>_. {Ticking c}) (\<lambda>_. {Abdicating c})"
  unfolding noted_def lock_db.simps by (rule triple_noting) (auto simp: succeeded_def split: sum.splits)

lemma triple_try_lock:
  "triple {Connected c} (on_lock_db (lk_try_lock (noted K) c name))
     (\<lambda>got. if got then {Leading c} else {Closing c}) (\<lambda>_. {Closing c})"
  unfolding noted_def lock_db.simps by (rule triple_noting) (auto split: sum.splits)

lemma triple_unlock:
  "triple {Leading c, Abdicating c} (on_lock_db (lk_unlock (noted K) c name)) (\<lambda>_. {Closing c}) (\<lambda>_. {Closing c})"
  unfolding noted_def lock_db.simps by (rule triple_noting) (auto split: sum.splits)

lemma triple_close: "triple {Closing c} (on_lock_db (lk_close (noted K) c)) (\<lambda>_. {Waiting}) (\<lambda>_. {Waiting})"
  unfolding noted_def lock_db.simps by (rule triple_noting) (auto split: sum.splits)

lemma triple_tick_round:
  assumes "\<And>t w. snd (e_sleep E t w) = snd w" "silent tick"
  shows "triple {Leading c} (tick_round E (lk_ping (noted K) c) interval (noted_tick tick) streak)
    (\<lambda>x. case x of None \<Rightarrow> {Abdicating c} | Some _ \<Rightarrow> {Leading c}) G"
proof -
  have "triple {Ticking c} (bnd (attempt (noted_tick tick)) (\<lambda>r. andthen (on_store (sleep E interval)) (ret (Some (k r)))))
      (\<lambda>x. case x of None \<Rightarrow> {Abdicating c} | Some _ \<Rightarrow> {Leading c}) G" for k :: "exn + unit \<Rightarrow> nat \<times> log_level"
    by (rule triple_bnd [OF triple_attempt [OF triple_noted_tick [OF assms(2)]]])
      (auto intro!: triple_andthen [OF triple_sleep [OF assms(1)]] triple_ret)
  then show ?thesis
    unfolding tick_round_def on_lock_db_def [symmetric]
    by (intro triple_bnd [where P = "\<lambda>r. case r of Inl _ \<Rightarrow> {Abdicating c} | Inr _ \<Rightarrow> {Ticking c}"] triple_attempt)
      (auto simp: triple_ping triple_ret split: sum.split)
qed

lemma triple_tick_loop:
  assumes "\<And>t w. snd (e_sleep E t w) = snd w" "silent tick"
  shows "triple {Leading c} (tick_loop E (lk_ping (noted K) c) interval (noted_tick tick) n streak)
     (\<lambda>_. {Leading c, Abdicating c}) G"
proof (induction n arbitrary: streak)
  case (Suc n)
  have "triple {Leading c} (bnd (tick_loop E (lk_ping (noted K) c) interval (noted_tick tick) n streak') (\<lambda>ls. ret (l # ls)))
      (\<lambda>_. {Leading c, Abdicating c}) G" for streak' l
    by (rule triple_bnd [OF Suc]) (simp add: triple_ret)
  then show ?case
    by (auto intro!: triple_bnd [OF triple_tick_round [OF assms]] simp: triple_ret split: option.split)
qed (simp add: triple_ret)

lemma triple_lead:
  assumes "\<And>t w. snd (e_sleep E t w) = snd w" "silent tick"
  shows "triple {Waiting} (lead E (noted K) worker interval (noted_tick tick) n) (\<lambda>_. {Waiting}) (\<lambda>_. {Waiting})"
proof -
  have body: "triple (if got then {Leading c} else {Closing c})
      (if \<not> got then ret [] else tick_loop E (lk_ping (noted K) c) interval (noted_tick tick) n 0)
      (\<lambda>_. if got then {Leading c, Abdicating c} else {Closing c}) G" for got c G
    by (simp add: triple_ret triple_tick_loop [OF assms])
  have unlock: "triple (if got then {Leading c, Abdicating c} else {Closing c})
      (andthen (do_when got (catching (\<lambda>_. True) (on_lock_db (lk_unlock (noted K) c name)) (\<lambda>_. ret ()))) (lift_result r))
      (\<lambda>_. {Closing c}) (\<lambda>_. {Closing c})" for got c name and r :: "exn + log_level list"
    by (rule triple_andthen [where P = "{Closing c}"])
      (auto simp: do_when_def triple_swallow triple_unlock triple_ret triple_lift)
  show ?thesis
    unfolding lead_def with_leader_lock_def
    by (rule triple_bnd [OF triple_connect], rule triple_bnd [OF triple_attempt], rule triple_bnd [OF triple_try_lock],
        rule triple_bnd [OF triple_attempt [OF body]], rule unlock,
        rule triple_andthen [OF triple_close triple_lift]) simp_all
qed

lemma triple_run_worker:
  assumes "\<And>t w. snd (e_sleep E t w) = snd w" "silent tick"
  shows "triple {Waiting} (run_worker E (noted K) worker interval (noted_tick tick) ns) (\<lambda>_. {Waiting}) G"
proof (induction ns)
  case (Cons n ns)
  show ?case
    unfolding run_worker.simps
    by (intro triple_bnd [OF triple_attempt [OF triple_lead [OF assms]]] triple_andthen [OF triple_sleep [OF assms(1)]]
        triple_bnd [OF Cons] triple_ret) simp
qed (simp add: triple_ret)

text \<open>
  Property C39. A worker keeps to the protocol. Whatever the database answers and whatever the ticks do, the calls
  a worker makes, over any number of attempts to lead, are a word of the automaton: every tick comes right after a
  ping that succeeded on the connection on which the lock was granted, after a failed ping there is
  no tick until the lock has been acquired anew, and every connection that was opened is
  closed. And the worker never dies: each attempt ends and is followed by the next.
\<close>

theorem worker_follows_protocol:
  assumes "\<And>t w. snd (e_sleep E t w) = snd w" "silent tick" "events s = []"
  shows "\<exists>rs t. run_worker E (noted K) worker interval (noted_tick tick) ns s = (Inr rs, t)
    \<and> length rs = length ns \<and> run_events Waiting (events t) = Some Waiting"
proof -
  have "\<exists>rs. fst (run_worker E (noted K) worker interval (noted_tick tick) ns s) = Inr rs \<and> length rs = length ns"
  proof (induction ns arbitrary: s)
    case (Cons n ns)
    show ?case
      using Cons [of "snd (on_store (sleep E leader_retry_interval_ms)
          (snd (lead E (noted K) worker interval (noted_tick tick) n s)))"]
      by (auto simp: exec_simps on_store_def sleep_def split: prod.splits)
  qed (simp add: exec_simps)
  then obtain rs t where run: "run_worker E (noted K) worker interval (noted_tick tick) ns s = (Inr rs, t)"
      "length rs = length ns"
    by (metis prod.collapse)
  moreover have "wp (run_worker E (noted K) worker interval (noted_tick tick) ns) (\<lambda>_. at_any {Waiting}) (\<lambda>_. at_any {}) s"
    by (rule tripleD [OF triple_run_worker [OF assms(1,2)]]) (simp add: at_any_def at_phase_def assms(3))
  ultimately show ?thesis by (simp add: wp_def at_any_def at_phase_def)
qed

text \<open>A lock that is granted, a ping that succeeds and then fails, and an unlock that fails.\<close>

definition sim_lock_db :: "int lock_db" where
  "sim_lock_db = \<lparr>lk_connect = (\<lambda>w. (Inr 7, w)), lk_try_lock = (\<lambda>c name w. (Inr True, w)),
     lk_ping = (\<lambda>c w. (if w < 1 then Inr () else Inl (RuntimeErr ''closed''), w + 1)),
     lk_unlock = (\<lambda>c name w. (Inl (RuntimeErr ''closed''), w)), lk_close = (\<lambda>c w. (Inr (), w))\<rparr>"

definition noted_env :: "(int \<times> lock_event list) env" where
  "noted_env = \<lparr>e_now = (\<lambda>w. e_now sim_env (fst w)), e_mono = (\<lambda>w. e_mono sim_env (fst w)),
     e_sleep = (\<lambda>t w. (e_sleep sim_env t (fst w), snd w)),
     e_uuid = (\<lambda>w. case e_uuid sim_env (fst w) of (u, v) \<Rightarrow> (u, v, snd w)),
     e_uniform = (\<lambda>t w. case e_uniform sim_env t (fst w) of (u, v) \<Rightarrow> (u, v, snd w))\<rparr>"

definition noted_start :: "(int, unit) noted_st" where
  "noted_start = (\<lparr>committed = empty_db, work = empty_db, world = (0, []), calls = []\<rparr>, ())"

theorem worker_follows_protocol_witness:
  "run_events Waiting (events (snd (run_worker noted_env (noted sim_lock_db) ''echo'' 10000 (noted_tick echo_tick) [3] noted_start)))
     = Some Waiting"
proof -
  have "snd (e_sleep noted_env t w) = snd w" for t w by (simp add: noted_env_def)
  moreover have "silent echo_tick" by (simp add: silent_def echo_tick_def exec_simps)
  moreover have "events noted_start = []" by (simp add: noted_start_def events_def)
  ultimately obtain rs t where "run_worker noted_env (noted sim_lock_db) ''echo'' 10000 (noted_tick echo_tick) [3] noted_start = (Inr rs, t)"
      "run_events Waiting (events t) = Some Waiting"
    using worker_follows_protocol [of noted_env echo_tick noted_start sim_lock_db "''echo''" 10000 "[3]"] by blast
  then show ?thesis by simp
qed

section \<open>Several brokers\<close>

text \<open>
  The phase of each broker for this worker; the connections that are out of the pools; how often each session holds
  the lock, since Postgres counts; and the sessions that have ended.
\<close>

record election =
  el_phase :: "nat \<Rightarrow> phase"
  el_used :: "nat set"
  el_held :: "nat \<Rightarrow> nat"
  el_lost :: "nat set"

definition election_start :: election where
  "election_start = \<lparr>el_phase = (\<lambda>_. Waiting), el_used = {}, el_held = (\<lambda>_. 0), el_lost = {}\<rparr>"

text \<open>What the database may answer: an ended session answers nothing.\<close>

fun may :: "((nat \<Rightarrow> nat) \<Rightarrow> nat \<Rightarrow> bool) \<Rightarrow> election \<Rightarrow> lock_event \<Rightarrow> bool" where
  "may grant S (EConnect c) = (c \<notin> el_used S)"
| "may grant S (ETryLock c (Some got)) = (c \<notin> el_lost S \<and> got = grant (el_held S) c)"
| "may grant S (EPing c True) = (c \<notin> el_lost S)"
| "may grant S (EUnlock c True) = (c \<notin> el_lost S)"
| "may grant S _ = True"

fun after_event :: "nat \<Rightarrow> phase \<Rightarrow> lock_event \<Rightarrow> election \<Rightarrow> election" where
  "after_event b q (EConnect c) S = S\<lparr>el_phase := (el_phase S)(b := q), el_used := insert c (el_used S)\<rparr>"
| "after_event b q (ETryLock c (Some True)) S =
     S\<lparr>el_phase := (el_phase S)(b := q), el_held := (el_held S)(c := Suc (el_held S c))\<rparr>"
| "after_event b q (EUnlock c True) S =
     S\<lparr>el_phase := (el_phase S)(b := q), el_held := (el_held S)(c := el_held S c - 1)\<rparr>"
| "after_event b q (EClose c) S = S\<lparr>el_phase := (el_phase S)(b := q), el_used := el_used S - {c}\<rparr>"
| "after_event b q _ S = S\<lparr>el_phase := (el_phase S)(b := q)\<rparr>"

inductive leader_step :: "((nat \<Rightarrow> nat) \<Rightarrow> nat \<Rightarrow> bool) \<Rightarrow> election \<Rightarrow> election \<Rightarrow> bool"
  for grant :: "(nat \<Rightarrow> nat) \<Rightarrow> nat \<Rightarrow> bool" where
  act: "next_phase (el_phase S b) e = Some q \<Longrightarrow> may grant S e \<Longrightarrow> leader_step grant S (after_event b q e S)"
| lose: "leader_step grant S (S\<lparr>el_lost := insert c (el_lost S), el_held := (el_held S)(c := 0)\<rparr>)"

definition elections :: "((nat \<Rightarrow> nat) \<Rightarrow> nat \<Rightarrow> bool) \<Rightarrow> election \<Rightarrow> bool" where
  "elections grant S \<longleftrightarrow> (leader_step grant)\<^sup>*\<^sup>* election_start S"

text \<open>\<open>pg_try_advisory_lock\<close>: true only if no other session holds the lock.\<close>

definition exclusive :: "((nat \<Rightarrow> nat) \<Rightarrow> nat \<Rightarrow> bool) \<Rightarrow> bool" where
  "exclusive grant \<longleftrightarrow> (\<forall>held c d. grant held c \<longrightarrow> d \<noteq> c \<longrightarrow> held d = 0)"

fun connection :: "phase \<Rightarrow> nat option" where
  "connection Waiting = None"
| "connection (Connected c) = Some c"
| "connection (Leading c) = Some c"
| "connection (Ticking c) = Some c"
| "connection (Abdicating c) = Some c"
| "connection (Closing c) = Some c"

fun believes :: "phase \<Rightarrow> nat option" where
  "believes (Leading c) = Some c"
| "believes (Ticking c) = Some c"
| "believes (Abdicating c) = Some c"
| "believes _ = None"

lemma believes_connection: "believes q = Some c \<Longrightarrow> connection q = Some c"
  by (cases q) simp_all

text \<open>
  Connections in use are out of the pool and used once; a broker that believes to lead on a session
  that has not ended holds the lock; only one session holds it.
\<close>

definition election_inv :: "election \<Rightarrow> bool" where
  "election_inv S \<longleftrightarrow>
     (\<forall>b c. connection (el_phase S b) = Some c \<longrightarrow> c \<in> el_used S)
   \<and> (\<forall>b b' c. connection (el_phase S b) = Some c \<longrightarrow> connection (el_phase S b') = Some c \<longrightarrow> b = b')
   \<and> (\<forall>b c. believes (el_phase S b) = Some c \<longrightarrow> c \<notin> el_lost S \<longrightarrow> 0 < el_held S c)
   \<and> (\<forall>c d. 0 < el_held S c \<longrightarrow> 0 < el_held S d \<longrightarrow> c = d)"

lemma after_event_phase [simp]: "el_phase (after_event b q e S) = (el_phase S)(b := q)"
  by (cases "(b, q, e, S)" rule: after_event.cases) simp_all

lemma after_event_lost [simp]: "el_lost (after_event b q e S) = el_lost S"
  by (cases "(b, q, e, S)" rule: after_event.cases) simp_all

lemma election_invD:
  assumes "election_inv S"
  shows "connection (el_phase S b) = Some c \<Longrightarrow> c \<in> el_used S"
    "connection (el_phase S b) = Some c \<Longrightarrow> connection (el_phase S b') = Some c \<Longrightarrow> b = b'"
    "believes (el_phase S b) = Some c \<Longrightarrow> c \<notin> el_lost S \<Longrightarrow> 0 < el_held S c"
    "0 < el_held S c \<Longrightarrow> 0 < el_held S d \<Longrightarrow> c = d"
  using assms unfolding election_inv_def by blast+

lemma election_invI:
  assumes "\<And>b c. connection (el_phase S b) = Some c \<Longrightarrow> c \<in> el_used S"
    "\<And>b b' c. connection (el_phase S b) = Some c \<Longrightarrow> connection (el_phase S b') = Some c \<Longrightarrow> b = b'"
    "\<And>b c. believes (el_phase S b) = Some c \<Longrightarrow> c \<notin> el_lost S \<Longrightarrow> 0 < el_held S c"
    "\<And>c d. 0 < el_held S c \<Longrightarrow> 0 < el_held S d \<Longrightarrow> c = d"
  shows "election_inv S"
  using assms unfolding election_inv_def by blast

lemma inv_same_connection:
  assumes "election_inv S" "connection (el_phase S b) = Some c" "connection q = Some c"
    "believes q = believes (el_phase S b) \<or> believes q = None"
  shows "election_inv (S\<lparr>el_phase := (el_phase S)(b := q)\<rparr>)"
  using assms(2,3,4) election_invD [OF assms(1)] by (intro election_invI) (auto split: if_splits)

lemma inv_connect:
  assumes "election_inv S" "el_phase S b = Waiting" "c \<notin> el_used S"
  shows "election_inv (S\<lparr>el_phase := (el_phase S)(b := Connected c), el_used := insert c (el_used S)\<rparr>)"
  using assms(2,3) election_invD [OF assms(1)] by (intro election_invI) (auto split: if_splits)

lemma inv_acquire:
  assumes "election_inv S" "el_phase S b = Connected c" "\<And>d. d \<noteq> c \<Longrightarrow> el_held S d = 0"
  shows "election_inv (S\<lparr>el_phase := (el_phase S)(b := Leading c), el_held := (el_held S)(c := Suc (el_held S c))\<rparr>)"
proof -
  have "0 < el_held S d \<Longrightarrow> d = c" for d using assms(3) [of d] by fastforce
  then show ?thesis
    using election_invD [OF assms(1)] election_invD(1,2) [OF assms(1), of b c] assms(2)
    by (intro election_invI) (auto split: if_splits)
qed

lemma inv_unlock:
  assumes "election_inv S" "connection (el_phase S b) = Some c"
  shows "election_inv (S\<lparr>el_phase := (el_phase S)(b := Closing c), el_held := (el_held S)(c := el_held S c - 1)\<rparr>)"
  using assms(2) election_invD [OF assms(1)] believes_connection
  by (intro election_invI) (auto split: if_splits)

lemma inv_unlock_event:
  assumes "election_inv S" "connection (el_phase S b) = Some c"
  shows "election_inv (after_event b (Closing c) (EUnlock c ok) S)"
  using inv_unlock [OF assms] inv_same_connection [OF assms, of "Closing c"] by (cases ok) simp_all

lemma inv_close:
  assumes "election_inv S" "el_phase S b = Closing c"
  shows "election_inv (S\<lparr>el_phase := (el_phase S)(b := Waiting), el_used := el_used S - {c}\<rparr>)"
  using assms(2) election_invD [OF assms(1)] election_invD(2) [OF assms(1), of b c]
  by (intro election_invI) (auto split: if_splits)

lemma inv_lose:
  assumes "election_inv S"
  shows "election_inv (S\<lparr>el_lost := insert c (el_lost S), el_held := (el_held S)(c := 0)\<rparr>)"
  using election_invD [OF assms] by (intro election_invI) (auto split: if_splits)

lemma inv_act:
  assumes "election_inv S" "exclusive grant" "next_phase (el_phase S b) e = Some q" "may grant S e"
  shows "election_inv (after_event b q e S)"
proof (cases "(el_phase S b, e)" rule: next_phase.cases)
  case (2 c d got)
  show ?thesis
  proof (cases "got = Some True")
    case True
    then have "el_held S d' = 0" if "d' \<noteq> c" for d'
      using 2 assms(2,3,4) that by (auto simp: exclusive_def split: if_splits)
    with True show ?thesis using 2 assms(3) inv_acquire [OF assms(1), of b c] by (auto split: if_splits)
  next
    case False
    then have "after_event b q e S = S\<lparr>el_phase := (el_phase S)(b := q)\<rparr>" using 2 by (cases got) auto
    with False 2 assms(3) show ?thesis by (auto split: if_splits intro!: inv_same_connection [OF assms(1)])
  qed
next
  case (3 c d alive)
  with assms(3) show ?thesis by (auto split: if_splits intro!: inv_same_connection [OF assms(1)])
qed (use assms(3,4) in \<open>auto split: if_splits bool.splits intro!: inv_same_connection [OF assms(1)]
    inv_connect [OF assms(1)] inv_unlock_event [OF assms(1)] inv_close [OF assms(1)]\<close>)

lemma elections_inv:
  assumes "elections grant S" "exclusive grant"
  shows "election_inv S"
  using assms(1) unfolding elections_def
proof (induction rule: rtranclp_induct)
  case base
  show ?case by (simp add: election_inv_def election_start_def)
next
  case (step S T)
  from step(2) show ?case
    by cases (simp_all add: inv_act [OF step(3) assms(2)] inv_lose [OF step(3)])
qed

text \<open>
  Property C31. Two brokers run the same worker at once only after a connection was lost. In every reachable
  state, of two brokers in the middle of a tick, or between two ticks, one leads on a session that
  has ended; and a broker can begin a tick only while every other broker that still believes to lead is such
  a one. That broker begins no further tick on its session.
\<close>

theorem one_live_leader:
  assumes "elections grant S" "exclusive grant" "b \<noteq> b'"
    and "believes (el_phase S b) = Some c" "believes (el_phase S b') = Some c'"
  shows "(c \<in> el_lost S \<or> c' \<in> el_lost S)
    \<and> (may grant S (EPing c True) \<longrightarrow> c' \<in> el_lost S \<and> \<not> may grant S (EPing c' True))"
proof -
  note inv = election_invD [OF elections_inv [OF assms(1,2)]]
  have "c \<noteq> c'" using inv(2) assms(3-5) believes_connection by blast
  then show ?thesis using inv(3) [OF assms(4)] inv(3) [OF assms(5)] inv(4) by auto
qed

text \<open>The lock as Postgres has it, and runs of the brokers written as lists of moves.\<close>

definition advisory_lock :: "(nat \<Rightarrow> nat) \<Rightarrow> nat \<Rightarrow> bool" where
  "advisory_lock held c \<longleftrightarrow> (\<forall>d. d \<noteq> c \<longrightarrow> held d = 0)"

lemma exclusive_advisory_lock: "exclusive advisory_lock"
  by (simp add: exclusive_def advisory_lock_def)

datatype move = Act nat lock_event | Lose nat

primrec play :: "((nat \<Rightarrow> nat) \<Rightarrow> nat \<Rightarrow> bool) \<Rightarrow> election \<Rightarrow> move list \<Rightarrow> election option" where
  "play grant S [] = Some S"
| "play grant S (m # ms) = (case m of
       Act b e \<Rightarrow> (case next_phase (el_phase S b) e of None \<Rightarrow> None
         | Some q \<Rightarrow> if may grant S e then play grant (after_event b q e S) ms else None)
     | Lose c \<Rightarrow> play grant (S\<lparr>el_lost := insert c (el_lost S), el_held := (el_held S)(c := 0)\<rparr>) ms)"

lemma play_elections: "elections grant S \<Longrightarrow> play grant S ms = Some T \<Longrightarrow> elections grant T"
proof (induction ms arbitrary: S)
  case (Cons m ms)
  have step: "leader_step grant S S' \<Longrightarrow> elections grant S'" for S'
    using Cons.prems(1) unfolding elections_def by (rule rtranclp.rtrancl_into_rtrancl)
  show ?case
  proof (cases m)
    case (Act b e)
    with Cons.prems(2) obtain q where "next_phase (el_phase S b) e = Some q" "may grant S e"
        "play grant (after_event b q e S) ms = Some T"
      by (auto split: option.splits if_splits)
    then show ?thesis using Cons.IH [OF step [OF leader_step.act]] by blast
  next
    case (Lose c)
    then show ?thesis using Cons.prems(2) Cons.IH [OF step [OF leader_step.lose]] by simp
  qed
qed simp

lemma play_from_start: "play grant election_start ms = Some T \<Longrightarrow> elections grant T"
  by (rule play_elections) (simp_all add: elections_def)

definition overlap_run :: "move list" where
  "overlap_run = [Act 1 (EConnect 1), Act 1 (ETryLock 1 (Some True)), Act 1 (EPing 1 True), Lose 1,
     Act 2 (EConnect 2), Act 2 (ETryLock 2 (Some True)), Act 2 (EPing 2 True)]"

lemma overlap_run:
  "\<exists>S. elections advisory_lock S \<and> el_phase S 1 = Ticking 1 \<and> el_phase S 2 = Ticking 2 \<and> el_lost S = {1}"
proof -
  have "\<exists>S. play advisory_lock election_start overlap_run = Some S \<and> el_phase S 1 = Ticking 1
      \<and> el_phase S 2 = Ticking 2 \<and> el_lost S = {1}"
    by (simp add: overlap_run_def election_start_def advisory_lock_def)
  then show ?thesis using play_from_start by blast
qed

theorem one_live_leader_witness:
  "\<exists>S. elections advisory_lock S \<and> el_phase S 1 = Ticking 1 \<and> el_phase S 2 = Ticking 2
     \<and> (1 \<in> el_lost S \<or> 2 \<in> el_lost S) \<and> \<not> may advisory_lock S (EPing 1 True)"
proof -
  obtain S where S: "elections advisory_lock S" "el_phase S 1 = Ticking 1" "el_phase S 2 = Ticking 2" "el_lost S = {1}"
    using overlap_run by blast
  have "may advisory_lock S (EPing 2 True)" by (simp add: S)
  then show ?thesis
    using one_live_leader [OF S(1) exclusive_advisory_lock, of 2 1 2 1] S by auto
qed

text \<open>
  A lock may outlive its leader. If the unlock query fails on a session that lives on in the pool,
  all brokers end up waiting with their connections closed, and yet the lock is held: no other session gets it until
  that one ends.
\<close>

theorem lock_may_outlive_leader:
  "\<exists>S. elections advisory_lock S \<and> (\<forall>b. el_phase S b = Waiting) \<and> el_used S = {} \<and> el_lost S = {}
     \<and> (\<forall>c. advisory_lock (el_held S) c \<longleftrightarrow> c = 1)"
proof -
  let ?run = "[Act 1 (EConnect 1), Act 1 (ETryLock 1 (Some True)), Act 1 (EPing 1 True), Act 1 ETicked,
    Act 1 (EUnlock 1 False), Act 1 (EClose 1)]"
  have "\<exists>S. play advisory_lock election_start ?run = Some S \<and> (\<forall>b. el_phase S b = Waiting) \<and> el_used S = {}
      \<and> el_lost S = {} \<and> el_held S = (\<lambda>_. 0)(1 := 1)"
    by (simp add: election_start_def advisory_lock_def)
  then obtain S where "elections advisory_lock S" "\<forall>b. el_phase S b = Waiting" "el_used S = {}"
      "el_lost S = {}" "el_held S = (\<lambda>_. 0)(1 := 1)"
    using play_from_start by blast
  then show ?thesis by (intro exI [of _ S]) (auto simp: advisory_lock_def)
qed

end
