(* ===== verification/Legacy_Client.thy ===== *)
theory Legacy_Client
  imports Proxmox_Provider
begin

text \<open>
  The first Proxmox client, \<open>broker/app/proxmox/client.py\<close> and \<open>exceptions.py\<close>, which the provider of
  \<open>providers/proxmox/\<close> replaced and the scripts of the repository still use. The transport is a
  parameter that answers or raises an error of \<open>httpx\<close>. Times are in milliseconds.
\<close>

section \<open>Errors\<close>

text \<open>\<open>str(exc)\<close> of the exception classes.\<close>

fun legacy_str :: "exn \<Rightarrow> string" where
  "legacy_str (LegacyError LegacyTimeoutError status msg endpoint) = ''Timeout '' @ endpoint @ '': '' @ msg"
| "legacy_str (LegacyError LegacyTaskError status msg endpoint) = msg"
| "legacy_str (LegacyError kind status msg endpoint) = ''['' @ show_int status @ ''] '' @ endpoint @ '': '' @ msg"
| "legacy_str (HttpxError kind msg) = msg"
| "legacy_str e = exn_str e"

definition legacy_task_error :: "string \<Rightarrow> string \<Rightarrow> exn" where
  "legacy_task_error upid status = LegacyError LegacyTaskError 0 (''Task '' @ upid @ '' failed: '' @ status) []"

definition legacy_timeout_error :: "string \<Rightarrow> string \<Rightarrow> exn" where
  "legacy_timeout_error msg endpoint = LegacyError LegacyTimeoutError 0 msg endpoint"

fun is_legacy_error :: "exn \<Rightarrow> bool" where
  "is_legacy_error (LegacyError _ _ _ _) = True"
| "is_legacy_error _ = False"

text \<open>\<open>httpx.TimeoutException\<close>, and the two classes that \<open>_request\<close> tries again.\<close>

fun is_httpx_timeout :: "exn \<Rightarrow> bool" where
  "is_httpx_timeout (HttpxError kind _) = (kind = ReadTimeout \<or> kind = OtherTimeout)"
| "is_httpx_timeout _ = False"

fun is_tried_again :: "exn \<Rightarrow> bool" where
  "is_tried_again (HttpxError kind _) = (kind = ConnectError \<or> kind = ReadTimeout)"
| "is_tried_again _ = False"

section \<open>Requests\<close>

text \<open>A body, parameters or a timeout that is not given is not passed on.\<close>

record legacy_request =
  lq_method :: string
  lq_path :: string
  lq_data :: "(string \<times> jval) list option"
  lq_params :: "(string \<times> jval) list option"
  lq_timeout_ms :: "int option"

record 'w legacy_client =
  lc_api_url :: string
  lc_send :: "legacy_request \<Rightarrow> ('w, http_response) eff"
  lc_aclose :: "('w, unit) eff"
  lc_env :: "'w env"
  lc_str :: "jval \<Rightarrow> string"

record legacy_config =
  lx_base_url :: string
  lx_authorization :: string
  lx_verify :: bool
  lx_max_connections :: nat
  lx_max_keepalive :: nat
  lx_timeout_ms :: int
  lx_connect_timeout_ms :: int

definition new_legacy_client ::
    "(legacy_config \<Rightarrow> (legacy_request \<Rightarrow> ('w, http_response) eff) \<times> ('w, unit) eff) \<Rightarrow> 'w env \<Rightarrow> (jval \<Rightarrow> string) \<Rightarrow>
     string \<Rightarrow> string \<Rightarrow> string \<Rightarrow> bool \<Rightarrow> 'w legacy_client" where
  "new_legacy_client open_client E str api_url token_id token_secret verify =
     (let url = rev (dropWhile (\<lambda>c. c = CHR ''/'') (rev api_url)) in
      case open_client \<lparr>lx_base_url = url @ ''/api2/json'',
          lx_authorization = ''PVEAPIToken='' @ token_id @ ''='' @ token_secret, lx_verify = verify,
          lx_max_connections = 20, lx_max_keepalive = 10, lx_timeout_ms = 30000, lx_connect_timeout_ms = 10000\<rparr> of
        (transmit, close) \<Rightarrow>
          \<lparr>lc_api_url = url, lc_send = transmit, lc_aclose = close, lc_env = E, lc_str = str\<rparr>)"

definition legacy_close :: "'w legacy_client \<Rightarrow> ('w, unit) eff" where
  "legacy_close L = lc_aclose L"

text \<open>\<open>async with ProxmoxClient(...) as client\<close>\<close>

definition with_legacy_client :: "'w legacy_client \<Rightarrow> ('w legacy_client \<Rightarrow> ('w, 'a) eff) \<Rightarrow> ('w, 'a) eff" where
  "with_legacy_client L body = bnd (attempt (body L)) (\<lambda>r. andthen (legacy_close L) (lift_result r))"

definition legacy_error_class :: "int \<Rightarrow> legacy_kind" where
  "legacy_error_class status = (if status = 401 \<or> status = 403 then LegacyAuthError
     else if status = 404 then LegacyNotFoundError else LegacyProxmoxError)"

definition handle_legacy_response :: "string \<Rightarrow> http_response \<Rightarrow> exn + jval" where
  "handle_legacy_response path r =
     (if 400 \<le> rp_status r then Inl (LegacyError (legacy_error_class (rp_status r)) (rp_status r) (rp_text r) path)
      else (case rp_json r of
          None \<Rightarrow> Inl (PyValueError ''Expecting value'')
        | Some (JObj kvs) \<Rightarrow> Inr (get_or kvs ''data'' (JObj kvs))
        | Some _ \<Rightarrow> Inl (PyAttributeError ''get'')))"

definition without_null :: "(string \<times> jval) list \<Rightarrow> (string \<times> jval) list" where
  "without_null kvs = filter (\<lambda>(k, v). v \<noteq> JNull) kvs"

definition legacy_pause :: "'w legacy_client \<Rightarrow> int \<Rightarrow> ('w, unit) eff" where
  "legacy_pause L t = modify (e_sleep (lc_env L) t)"

text \<open>The attempts that are left, of \<open>retries\<close> in all; \<open>failure\<close> is the text of the error of the attempt before.\<close>

primrec legacy_loop :: "'w legacy_client \<Rightarrow> legacy_request \<Rightarrow> nat \<Rightarrow> string \<Rightarrow> nat \<Rightarrow> ('w, jval) eff" where
  "legacy_loop L q retries failure 0 =
     throw (legacy_timeout_error (''Failed after '' @ show_nat retries @ '' attempts: '' @ failure) (lq_path q))"
| "legacy_loop L q retries failure (Suc left) =
     bnd (attempt (lc_send L q)) (\<lambda>res.
     case res of
       Inr r \<Rightarrow> lift_result (handle_legacy_response (lq_path q) r)
     | Inl e \<Rightarrow> if is_tried_again e
         then andthen (do_when (0 < left) (legacy_pause L (1000 * 2 ^ (retries - Suc left))))
           (legacy_loop L q retries (legacy_str e) left)
         else throw e)"

definition legacy_request_with ::
    "'w legacy_client \<Rightarrow> nat \<Rightarrow> int option \<Rightarrow> string \<Rightarrow> string \<Rightarrow> (string \<times> jval) list option \<Rightarrow>
     (string \<times> jval) list option \<Rightarrow> ('w, jval) eff" where
  "legacy_request_with L retries timeout verb path body params =
     legacy_loop L \<lparr>lq_method = verb, lq_path = path, lq_data = map_option without_null body,
       lq_params = map_option without_null params, lq_timeout_ms = timeout\<rparr> retries ''None'' retries"

abbreviation legacy_call ::
    "'w legacy_client \<Rightarrow> string \<Rightarrow> string \<Rightarrow> (string \<times> jval) list option \<Rightarrow> (string \<times> jval) list option \<Rightarrow> ('w, jval) eff" where
  "legacy_call L \<equiv> legacy_request_with L 3 None"

section \<open>Operations\<close>

definition legacy_vm_path :: "string \<Rightarrow> int \<Rightarrow> string \<Rightarrow> string" where
  "legacy_vm_path node vmid rest = ''/nodes/'' @ node @ ''/qemu/'' @ show_int vmid @ rest"

definition legacy_upid :: "'w legacy_client \<Rightarrow> jval \<Rightarrow> string" where
  "legacy_upid L v = (case v of JStr s \<Rightarrow> s | _ \<Rightarrow> lc_str L v)"

definition legacy_flag :: "bool \<Rightarrow> jval" where
  "legacy_flag b = JInt (if b then 1 else 0)"

definition legacy_clone_vm ::
    "'w legacy_client \<Rightarrow> string \<Rightarrow> int \<Rightarrow> int \<Rightarrow> string \<Rightarrow> string option \<Rightarrow> bool \<Rightarrow> string option \<Rightarrow> string option \<Rightarrow>
     string option \<Rightarrow> string option \<Rightarrow> ('w, string) eff" where
  "legacy_clone_vm L node template_vmid new_vmid name storage full pool target description snapname =
     bnd (legacy_request_with L 3 (Some 300000) ''POST'' (legacy_vm_path node template_vmid ''/clone'')
       (Some [(''newid'', JInt new_vmid), (''name'', JStr name), (''full'', legacy_flag full), (''storage'', j_opt storage),
         (''pool'', j_opt pool), (''target'', j_opt target), (''description'', j_opt description),
         (''snapname'', j_opt snapname)]) None) (\<lambda>v. ret (legacy_upid L v))"

definition legacy_start_vm :: "'w legacy_client \<Rightarrow> string \<Rightarrow> int \<Rightarrow> ('w, string) eff" where
  "legacy_start_vm L node vmid =
     bnd (legacy_call L ''POST'' (legacy_vm_path node vmid ''/status/start'') None None) (\<lambda>v. ret (legacy_upid L v))"

definition legacy_stop_vm :: "'w legacy_client \<Rightarrow> string \<Rightarrow> int \<Rightarrow> ('w, string) eff" where
  "legacy_stop_vm L node vmid =
     bnd (legacy_call L ''POST'' (legacy_vm_path node vmid ''/status/stop'') None None) (\<lambda>v. ret (legacy_upid L v))"

primrec legacy_destroy_loop ::
    "'w legacy_client \<Rightarrow> string \<Rightarrow> (string \<times> jval) list \<Rightarrow> int \<Rightarrow> nat \<Rightarrow> ('w, string option) eff" where
  "legacy_destroy_loop L path params delay 0 = ret None"
| "legacy_destroy_loop L path params delay (Suc left) =
     bnd (attempt (legacy_call L ''DELETE'' path None (Some params))) (\<lambda>res.
     case res of
       Inr v \<Rightarrow> ret (Some (legacy_upid L v))
     | Inl e \<Rightarrow> if is_legacy_error e \<and> contains_sub ''lock'' (py_lower (legacy_str e)) \<and> 0 < left
         then andthen (legacy_pause L delay) (legacy_destroy_loop L path params delay left)
         else throw e)"

definition legacy_destroy_vm ::
    "'w legacy_client \<Rightarrow> string \<Rightarrow> int \<Rightarrow> bool \<Rightarrow> bool \<Rightarrow> nat \<Rightarrow> int \<Rightarrow> ('w, string option) eff" where
  "legacy_destroy_vm L node vmid purge unreferenced max_attempts lock_retry_delay =
     legacy_destroy_loop L (legacy_vm_path node vmid [])
       [(''purge'', legacy_flag purge), (''destroy-unreferenced-disks'', legacy_flag unreferenced)] lock_retry_delay max_attempts"

definition legacy_get_vm_status :: "'w legacy_client \<Rightarrow> string \<Rightarrow> int \<Rightarrow> ('w, jval) eff" where
  "legacy_get_vm_status L node vmid = legacy_call L ''GET'' (legacy_vm_path node vmid ''/status/current'') None None"

definition list_or_none :: "jval \<Rightarrow> jval" where
  "list_or_none v = (case v of JList vs \<Rightarrow> JList vs | _ \<Rightarrow> JList [])"

definition legacy_list_vms :: "'w legacy_client \<Rightarrow> string \<Rightarrow> bool \<Rightarrow> ('w, jval) eff" where
  "legacy_list_vms L node full =
     bnd (legacy_call L ''GET'' (''/nodes/'' @ node @ ''/qemu'') None
       (if full then Some [(''full'', legacy_flag full)] else None)) (\<lambda>v. ret (list_or_none v))"

definition legacy_get_vnc_ticket :: "'w legacy_client \<Rightarrow> string \<Rightarrow> int \<Rightarrow> bool \<Rightarrow> bool \<Rightarrow> ('w, jval) eff" where
  "legacy_get_vnc_ticket L node vmid websocket generate_password =
     legacy_call L ''POST'' (legacy_vm_path node vmid ''/vncproxy'')
       (Some [(''websocket'', legacy_flag websocket), (''generate-password'', legacy_flag generate_password)]) None"

definition legacy_agent_ping :: "'w legacy_client \<Rightarrow> string \<Rightarrow> int \<Rightarrow> ('w, bool) eff" where
  "legacy_agent_ping L node vmid = catching (\<lambda>e. is_legacy_error e \<or> is_httpx_timeout e)
     (andthen (legacy_request_with L 1 (Some 10000) ''POST'' (legacy_vm_path node vmid ''/agent/ping'') None None) (ret True))
     (\<lambda>_. ret False)"

definition legacy_agent_get_users :: "'w legacy_client \<Rightarrow> string \<Rightarrow> int \<Rightarrow> ('w, jval) eff" where
  "legacy_agent_get_users L node vmid =
     bnd (legacy_request_with L 1 (Some 10000) ''GET'' (legacy_vm_path node vmid ''/agent/get-users'') None None) (\<lambda>v.
     ret (case v of JObj kvs \<Rightarrow> (case map_of kvs ''result'' of Some users \<Rightarrow> users | None \<Rightarrow> JList [])
        | _ \<Rightarrow> list_or_none v))"

definition legacy_task_path :: "string \<Rightarrow> string \<Rightarrow> string" where
  "legacy_task_path node upid = ''/nodes/'' @ node @ ''/tasks/'' @ upid @ ''/status''"

definition legacy_get_task_status :: "'w legacy_client \<Rightarrow> string \<Rightarrow> string \<Rightarrow> ('w, jval) eff" where
  "legacy_get_task_status L node upid = legacy_call L ''GET'' (legacy_task_path node upid) None None"

text \<open>\<open>status.get\<close>: the value is a dict or the call fails.\<close>

definition task_stopped :: "'w legacy_client \<Rightarrow> string \<Rightarrow> jval \<Rightarrow> exn + bool" where
  "task_stopped L upid status = (case status of
       JObj kvs \<Rightarrow>
         (if get_or kvs ''status'' JNull = JStr ''stopped''
          then let exit_status = get_or kvs ''exitstatus'' (JStr []) in
            if exit_status \<noteq> JStr ''OK'' then Inl (legacy_task_error upid (legacy_upid L exit_status)) else Inr True
          else Inr False)
     | _ \<Rightarrow> Inl (PyAttributeError ''get''))"

text \<open>
  The loop of \<open>wait_for_task\<close>. It counts its pauses, not the time its requests take. The rounds it may take are
  bounded by the last argument.
\<close>

primrec legacy_wait_loop :: "'w legacy_client \<Rightarrow> string \<Rightarrow> string \<Rightarrow> int \<Rightarrow> int \<Rightarrow> int \<Rightarrow> nat \<Rightarrow> ('w, jval) eff" where
  "legacy_wait_loop L node upid timeout interval elapsed 0 = throw OutOfFuel"
| "legacy_wait_loop L node upid timeout interval elapsed (Suc rounds) =
     (if \<not> elapsed < timeout
      then throw (legacy_timeout_error (''Task '' @ upid @ '' did not complete within '' @ show_int (timeout div 1000) @ ''s'')
        (legacy_task_path node upid))
      else bnd (legacy_get_task_status L node upid) (\<lambda>status.
        bnd (lift_result (task_stopped L upid status)) (\<lambda>stopped.
        if stopped then ret status
        else andthen (legacy_pause L interval)
          (legacy_wait_loop L node upid timeout interval (elapsed + interval) rounds))))"

definition legacy_wait_for_task :: "'w legacy_client \<Rightarrow> string \<Rightarrow> string \<Rightarrow> int \<Rightarrow> int \<Rightarrow> ('w, jval) eff" where
  "legacy_wait_for_task L node upid timeout interval =
     legacy_wait_loop L node upid timeout interval 0 (nat ((timeout + interval - 1) div interval) + 1)"

section \<open>Outcomes\<close>

text \<open>A program ends when it does not run out of the rounds the model gives it.\<close>

definition ends :: "('s, 'a) eff \<Rightarrow> bool" where
  "ends m = yields (\<lambda>_. True) (\<lambda>_. True) (\<lambda>e. e \<noteq> OutOfFuel) m"

lemma handle_response_ends: "handle_legacy_response path r \<noteq> Inl OutOfFuel"
  by (auto simp: handle_legacy_response_def split: option.splits jval.splits)

lemma yields_legacy_pause: "yields (\<lambda>_. True) (\<lambda>_. True) C (legacy_pause L t)"
  by (simp add: yields_def legacy_pause_def wp_simps)

lemma legacy_loop_ends:
  assumes "\<And>q. ends (lc_send L q)"
  shows "ends (legacy_loop L q retries failure left)"
  unfolding ends_def
proof (induction left arbitrary: failure)
  case 0
  show ?case by (simp add: legacy_timeout_error_def yields_intros)
next
  case (Suc left)
  have send: "yields (\<lambda>_. True) (\<lambda>r. r \<noteq> Inl OutOfFuel) C (attempt (lc_send L q))" for C :: "exn \<Rightarrow> bool"
    using assms [of q] by (auto simp: ends_def yields_def wp_simps elim!: allE wp_mono)
  have again: "yields (\<lambda>_. True) (\<lambda>_. True) (\<lambda>e. e \<noteq> OutOfFuel)
      (andthen (do_when b (legacy_pause L t)) (legacy_loop L q retries f left))" for b t f
    by (rule yields_andthen [OF _ Suc]) (simp add: do_when_def yields_legacy_pause yields_ret)
  show ?case
    unfolding legacy_loop.simps
    by (rule yields_bnd [OF send])
      (auto simp: handle_response_ends split: sum.split intro!: yields_lift yields_throw again)
qed

lemma task_stopped_ends: "task_stopped L upid v \<noteq> Inl OutOfFuel"
  by (auto simp: task_stopped_def legacy_task_error_def Let_def split: jval.splits)

lemma task_stopped_OK:
  "task_stopped L upid v = Inr True \<longleftrightarrow> (\<exists>kvs. v = JObj kvs \<and> get_or kvs ''status'' JNull = JStr ''stopped''
     \<and> get_or kvs ''exitstatus'' (JStr []) = JStr ''OK'')"
  by (auto simp: task_stopped_def Let_def split: jval.splits if_splits)

lemma rounds_suffice:
  assumes "0 < (interval :: int)"
  shows "timeout \<le> interval * int (nat ((timeout + interval - 1) div interval))"
proof -
  let ?a = "timeout + interval - 1"
  have "?a - ?a mod interval = interval * (?a div interval)" by (rule minus_mod_eq_mult_div)
  moreover have "?a mod interval < interval" using assms by (rule pos_mod_bound)
  ultimately have "timeout \<le> interval * (?a div interval)" by linarith
  also have "\<dots> \<le> interval * int (nat ((timeout + interval - 1) div interval))"
    using assms by (intro mult_left_mono) simp_all
  finally show ?thesis .
qed

text \<open>
  Waiting for a task ends. Whatever the server answers, \<open>wait_for_task\<close> with a positive interval
  comes to an end: it returns a status that says the task has stopped with \<open>OK\<close>, or raises.
\<close>

theorem legacy_wait_ends:
  assumes "0 < interval" "\<And>q. ends (lc_send L q)"
  shows "wp (legacy_wait_for_task L node upid timeout interval)
    (\<lambda>v _. \<exists>kvs. v = JObj kvs \<and> get_or kvs ''status'' JNull = JStr ''stopped'' \<and> get_or kvs ''exitstatus'' (JStr []) = JStr ''OK'')
    (\<lambda>e _. e \<noteq> OutOfFuel) w"
proof -
  let ?Q = "\<lambda>v. task_stopped L upid v = Inr True"
  have status: "yields (\<lambda>_. True) (\<lambda>_. True) (\<lambda>e. e \<noteq> OutOfFuel) (legacy_get_task_status L node upid)"
    using legacy_loop_ends [OF assms(2)]
    unfolding legacy_get_task_status_def legacy_request_with_def ends_def by simp
  have "yields (\<lambda>_. True) ?Q (\<lambda>e. e \<noteq> OutOfFuel) (legacy_wait_loop L node upid timeout interval elapsed (Suc n))"
    if "timeout - elapsed \<le> interval * int n" for elapsed n
    using that
  proof (induction n arbitrary: elapsed)
    case (Suc n)
    have "timeout - (elapsed + interval) \<le> interval * int n" using Suc.prems by (simp add: algebra_simps)
    note again = yields_andthen [OF yields_legacy_pause Suc.IH [OF this]]
    have "yields (\<lambda>_. True) ?Q (\<lambda>e. e \<noteq> OutOfFuel) (bnd (lift_result (task_stopped L upid v)) (\<lambda>stopped.
        if stopped then ret v else andthen (legacy_pause L interval)
          (legacy_wait_loop L node upid timeout interval (elapsed + interval) (Suc n))))" for v
      using again task_stopped_ends [of L upid v]
      by (cases "task_stopped L upid v") (auto simp: lift_result_def yields_throw yields_ret)
    then show ?case
      unfolding legacy_wait_loop.simps(2) [of _ _ _ _ _ _ "Suc n"]
      by (auto simp: legacy_timeout_error_def intro!: yields_throw yields_bnd [OF status])
  qed (simp add: legacy_timeout_error_def yields_throw)
  from this [of 0 "nat ((timeout + interval - 1) div interval)"] rounds_suffice [OF assms(1), of timeout]
  have "yields (\<lambda>_. True) ?Q (\<lambda>e. e \<noteq> OutOfFuel) (legacy_wait_for_task L node upid timeout interval)"
    unfolding legacy_wait_for_task_def by simp
  then show ?thesis
    by (rule wp_mono [OF yieldsD]) (auto simp: task_stopped_OK)
qed

definition sim_legacy :: "int legacy_client" where
  "sim_legacy = \<lparr>lc_api_url = ''https://pve'', lc_send = (\<lambda>q w. (if w = 0 then Inl (HttpxError ConnectError ''refused'')
       else Inr \<lparr>rp_status = 200, rp_content = True, rp_json = Some (JObj [(''data'', JObj
         (if w < 2500 then [(''status'', JStr ''running'')]
          else [(''status'', JStr ''stopped''), (''exitstatus'', JStr ''OK'')]))]), rp_text = []\<rparr>, w + 1)),
     lc_aclose = ret (), lc_env = sim_env, lc_str = (\<lambda>_. [])\<rparr>"

theorem legacy_wait_ends_witness:
  "wp (legacy_wait_for_task sim_legacy ''n'' ''u'' 3000 1000)
    (\<lambda>v _. \<exists>kvs. v = JObj kvs \<and> get_or kvs ''status'' JNull = JStr ''stopped'' \<and> get_or kvs ''exitstatus'' (JStr []) = JStr ''OK'')
    (\<lambda>e _. e \<noteq> OutOfFuel) 0
   \<and> fst (legacy_wait_for_task sim_legacy ''n'' ''u'' 3000 1000 0)
     = Inr (JObj [(''status'', JStr ''stopped''), (''exitstatus'', JStr ''OK'')])"
proof
  have "ends (lc_send sim_legacy q)" for q by (auto simp: ends_def yields_def wp_def sim_legacy_def)
  then show "wp (legacy_wait_for_task sim_legacy ''n'' ''u'' 3000 1000)
    (\<lambda>v _. \<exists>kvs. v = JObj kvs \<and> get_or kvs ''status'' JNull = JStr ''stopped'' \<and> get_or kvs ''exitstatus'' (JStr []) = JStr ''OK'')
    (\<lambda>e _. e \<noteq> OutOfFuel) 0"
    by (intro legacy_wait_ends) simp_all
qed code_simp

text \<open>
  A request is sent again only after an error of the transport: the first answer of the server, whatever its
  status, is the outcome.
\<close>

lemma legacy_loop_step:
  "legacy_loop L q retries failure (Suc left) w = (case lc_send L q w of
       (Inr r, w') \<Rightarrow> (handle_legacy_response (lq_path q) r, w')
     | (Inl e, w') \<Rightarrow> if \<not> is_tried_again e then (Inl e, w')
         else if left = 0 then (Inl (legacy_timeout_error (''Failed after '' @ show_nat retries @ '' attempts: '' @ legacy_str e) (lq_path q)), w')
         else legacy_loop L q retries (legacy_str e) left (e_sleep (lc_env L) (1000 * 2 ^ (retries - Suc left)) w'))"
  by (cases left) (auto simp: exec_simps legacy_pause_def split: prod.splits sum.splits)

end
