(* ===== verification/Lifespan.thy ===== *)
theory Lifespan
  imports Application Ldap_Service Worker_Runner
begin

text \<open>
  The broker as one process: what \<open>broker/app/main.py\<close> builds from the settings when it starts, the order in
  which it stops, the middleware it chooses for authentication, and the outermost middleware,
  \<open>broker/app/middleware/request_id.py\<close>, around a request.
\<close>

section \<open>Start and stop\<close>

text \<open>\<open>WORKERS\<close> of \<open>workers/__init__.py\<close>, by the names of the classes.\<close>

definition worker_names :: "string list" where
  "worker_names = [''session_monitor'', ''pool_provisioner'', ''task_tracker'', ''health_checker'', ''audit_retention'']"

text \<open>The services of the \<open>jwt\<close> mode; \<open>A\<close> holds the functions of the libraries they use.\<close>

definition auth_services :: "'w auth_env \<Rightarrow> 'w directory \<Rightarrow> settings \<Rightarrow> 'w auth_env option" where
  "auth_services A D S = (if cf_auth_mode S = ''jwt''
     then Some ((with_directory A D (cf_ldap S))\<lparr>au_secret := cf_jwt_secret S, au_is_dev := is_dev_auth S\<rparr>) else None)"

record 'w process =
  pr_services :: "'w auth_env option"
  pr_runner :: runner
  pr_log :: log_setup

definition broker_start ::
    "'w env \<Rightarrow> 'w platform \<Rightarrow> (string \<Rightarrow> exn + unit) \<Rightarrow> 'w auth_env \<Rightarrow> 'w directory \<Rightarrow> settings \<Rightarrow> log_setup \<Rightarrow>
     ('w, 'w process) aprog" where
  "broker_start E L fernet A D S log =
     andthen (lift_result (ensure_encryption_key fernet S))
     (andthen (startup E L True)
     (bnd (lift_result (start_runner (new_runner worker_names))) (\<lambda>runner.
     ret \<lparr>pr_services = auth_services A D S, pr_runner = runner, pr_log = configure_broker_logging S log\<rparr>)))"

text \<open>Workers are stopped before the providers are closed; the result says which tasks were cancelled.\<close>

definition broker_stop :: "(string \<Rightarrow> task_end) \<Rightarrow> 'w process \<Rightarrow> ('w, string list) aprog" where
  "broker_stop ended pr = (case stop_runner ended (pr_runner pr) of ((cancelled, warned), _) \<Rightarrow>
     andthen shutdown (ret cancelled))"

section \<open>A request\<close>

text \<open>The middleware is chosen once, when the module is imported.\<close>

definition auth_middleware :: "settings \<Rightarrow> 'w auth_env option \<Rightarrow> int \<Rightarrow> scope \<Rightarrow> exn + auth_outcome" where
  "auth_middleware S svc now_ms sc = (if is_dev_auth S then Inr (dev_auth sc) else jwt_auth svc now_ms sc)"

text \<open>
  \<open>RequestIdMiddleware\<close>: the application runs with the context variable set, which logging reads; the header goes
  on the response if one starts; the variable is restored after. The result pairs the outcome with the
  headers added and the variable's value.
\<close>

definition request_id_middleware ::
    "uuid \<Rightarrow> scope \<Rightarrow> (string option \<Rightarrow> ((exn + unit) \<times> nat option) \<times> 's) \<Rightarrow> string option \<Rightarrow>
     (((exn + unit) \<times> nat option) \<times> 's) \<times> (string \<times> string) list \<times> string option" where
  "request_id_middleware fresh sc app current =
     (if sp_type sc \<noteq> ''http'' then (app current, [], current)
      else let rid = request_id fresh sc; r = app (Some rid) in
        (r, if snd (fst r) = None then [] else [(''x-request-id'', rid)], current))"

section \<open>Properties\<close>

text \<open>The headers only the development mode reads.\<close>

definition without_dev_headers :: "scope \<Rightarrow> scope" where
  "without_dev_headers sc = sc\<lparr>sp_headers := filter
     (\<lambda>(k, v). py_lower k \<notin> {''x-dev-user'', ''x-dev-groups'', ''x-dev-role''}) (sp_headers sc)\<rparr>"

lemma authorization_not_dev: "get_header (without_dev_headers sc) ''Authorization'' = get_header sc ''Authorization''"
proof -
  have headers: "sp_headers (without_dev_headers sc) = filter
     (\<lambda>(k, v). py_lower k \<notin> {''x-dev-user'', ''x-dev-groups'', ''x-dev-role''}) (sp_headers sc)"
    by (simp add: without_dev_headers_def)
  have same: "find (\<lambda>(k, v). py_lower k = py_lower ''Authorization'')
      (filter (\<lambda>(k, v). py_lower k \<notin> {''x-dev-user'', ''x-dev-groups'', ''x-dev-role''}) hs)
    = find (\<lambda>(k, v). py_lower k = py_lower ''Authorization'') hs" for hs
  proof (induction hs)
    case (Cons h hs)
    have "py_lower ''Authorization'' \<notin> {''x-dev-user'', ''x-dev-groups'', ''x-dev-role''}" by code_simp
    with Cons show ?case by (cases h) auto
  qed simp
  show ?thesis by (simp only: get_header_def headers same)
qed

text \<open>
  Property C33. A broker whose environment does not ask for the development mode gives no request a user without a token. Its
  services exist, with a signing key of at least 32 bytes; a request is given a user only if its
  Bearer token was validated with that key, and the user is the one of the token; and the headers
  that name a user in the development mode change nothing.
\<close>

theorem production_requires_token:
  assumes "get_settings P V = Inr S" "V ''OPENVDI_AUTH_MODE'' \<noteq> Some ''dev''"
  shows "\<exists>A'. auth_services A D S = Some A' \<and> au_secret A' = cf_jwt_secret S \<and> 32 \<le> secret_bytes S
    \<and> (auth_middleware S (Some A') t sc = Inr (PassUser u) \<longrightarrow> (\<exists>c.
         validate_access_token A' t (py_strip (snd (snd (partition_on CHR '' '' (get_header sc ''Authorization''))))) = Inr c
         \<and> u = \<lparr>u_username = cl_sub c, u_groups = cl_groups c, u_role = cl_role c\<rparr>))
    \<and> auth_middleware S (Some A') t (without_dev_headers sc) = auth_middleware S (Some A') t sc"
proof -
  have jwt: "\<not> is_dev_auth S" "cf_auth_mode S = ''jwt''" "32 \<le> secret_bytes S"
    using settings_secure [OF assms(1)] assms(2) by (auto split: if_splits)
  have "auth_middleware S svc t (without_dev_headers sc) = auth_middleware S svc t sc" for svc :: "'a auth_env option"
    using jwt(1) authorization_not_dev [of sc]
    by (simp add: auth_middleware_def jwt_auth_def bypass_def without_dev_headers_def)
  moreover have "\<exists>c. validate_access_token A' t (py_strip (snd (snd (partition_on CHR '' '' (get_header sc ''Authorization''))))) = Inr c
         \<and> u = \<lparr>u_username = cl_sub c, u_groups = cl_groups c, u_role = cl_role c\<rparr>"
    if "auth_middleware S (Some A') t sc = Inr (PassUser u)" for A' :: "'a auth_env"
    using that jwt(1) by (auto simp: auth_middleware_def jwt_auth_def Let_def split: prod.splits sum.splits exn.splits if_splits)
  ultimately show ?thesis using jwt by (simp add: auth_services_def)
qed

definition sim_spoofed :: scope where
  "sim_spoofed = \<lparr>sp_type = ''http'', sp_path = ''/api/v1/pools'', sp_headers = [(''X-Dev-User'', ''root''), (''X-Dev-Role'', ''admin'')]\<rparr>"

theorem production_requires_token_witness:
  "\<exists>A'. auth_services sim_auth sim_directory sim_settings = Some A' \<and> au_secret A' = cf_jwt_secret sim_settings
    \<and> 32 \<le> secret_bytes sim_settings
    \<and> auth_middleware sim_settings (Some A') 0 (without_dev_headers sim_spoofed) = auth_middleware sim_settings (Some A') 0 sim_spoofed"
  using production_requires_token [OF sim_settings_read, where A = sim_auth and D = sim_directory and t = 0 and sc = sim_spoofed]
  by (auto simp: sim_environment_def)

end
