(* ===== verification/Spec2Isabelle.thy ===== *)
theory Spec2Isabelle
  imports System Proxmox_Desktops Mcp_Answers Ldap_Service Leader_Election Legacy_Client Lifespan
begin

text \<open>
  OpenVDI is a broker for virtual desktops. Administrators register hypervisor clusters and
  templates and define pools; users connect to a desktop of a pool they are entitled to, and
  background workers build, refresh and watch the VMs. The broker is an asyncio program
  (FastAPI, SQLAlchemy on PostgreSQL, Proxmox VE) under \<open>src/broker/app/\<close>. A second program,
  the MCP administration server under \<open>src/mcp/openvdi-admin/src/openvdi_admin/\<close>, offers tools to
  agents and carries them out over the broker's HTTP API. This library
  models both function by function and proves what they promise. Paths below are relative to
  \<open>src/broker/app/\<close>, those of the \<open>Mcp_\<close> theories to the MCP server's directory.

  The execution model. A coroutine is a state transformer \<open>('w, 'a) prog\<close> that returns
  \<open>Inr\<close> its result or \<open>Inl\<close> the exception it raised (\<open>Effects\<close>). Its state is the committed
  tables, the tables as the open transaction sees them, the outside world of type \<open>'w\<close> and
  the log of the calls made to the hypervisor (\<open>Store\<close>). \<open>commit\<close> and \<open>rollback\<close> copy one
  view to the other, \<open>in_session\<close> is the \<open>async with\<close> block. A table is the list of its rows;
  the rows and enums of \<open>models/\<close>, and the provider interface of \<open>providers/base.py\<close> as a
  record of functions, are in \<open>Records\<close>. Keys, unique constraints, foreign keys and their
  \<open>ON DELETE\<close> rules are those of \<open>alembic/versions/0001_baseline_m3.py\<close>. \<open>wp m Q R s\<close> says
  that \<open>m\<close>, run in \<open>s\<close>, returns with \<open>Q\<close> or raises with \<open>R\<close>; since programs are total
  functions it is a statement of total correctness.

  Parameters. What is not in the repository is an argument: the clock, identifiers and random
  bytes (\<open>env\<close>), the provider objects, the Fernet cipher and the provider classes
  (\<open>platform\<close>), HS256, bcrypt and the settings of authentication (\<open>auth_env\<close>), \<open>ldap3\<close>
  (\<open>directory\<close>), the connections and advisory locks of the leader election (\<open>lock_db\<close>), the UTF-8
  and JSON decoders of the audit middleware (\<open>codec\<close>), the HTTP transport of the Proxmox client
  and Python's \<open>str\<close> and \<open>repr\<close> of decoded values (\<open>px\<close>), the transport between the MCP server
  and the broker with its cookies, the parser and printer of ISO times and the first element of a
  set (\<open>mcp_env\<close>). A theorem that relies on their
  behaviour names it: \<open>clock_ok\<close> (sleeping advances the monotonic clock, and provider calls do
  not turn it back), \<open>provider_contract C\<close> (which exceptions the
  provider's methods raise on its own references, and that its task handles carry a task id),
  \<open>raises_none_of_ours\<close> (\<open>ldap3\<close> does not raise the two exceptions the broker defines for itself), \<open>exclusive\<close> (an advisory lock
  is granted only while no other session holds it), and for Proxmox, where the contract and the clock are proved, \<open>pve_link\<close> (the
  transport fails only with \<open>httpx\<close> errors and keeps the clock), \<open>pve_documented\<close> and \<open>pve_documented_reads\<close> (the types of the
  fields in the API's answers, those the broker reads and those only the other operations of the provider do).

  Theories, from the bottom:
  \<^item> \<open>Prelude\<close>: Python string operations, JSON values, UUID text, list lemmas.
  \<^item> \<open>Effects\<close>, \<open>Records\<close>, \<open>Store\<close>: the execution model and the data; \<open>emits\<close> relates a
    program to the calls it may make.
  \<^item> \<open>Invariants\<close>: the locale \<open>db_writes\<close> lists the writes the code performs on the tables, as
    the laws an invariant must satisfy; \<open>db_invariant\<close> adds the writes of the pool handlers and
    \<open>db_catalogue\<close> those of clusters, templates and entitlements. Each later theory proves,
    inside the locale, that its operations preserve such an invariant (\<open>pres_...\<close>). The
    locale is interpreted on \<open>keys_unique\<close> (primary keys and unique columns), \<open>refs_valid\<close>
    (foreign keys), \<open>ranges_ok\<close> (pool ranges are disjoint and desktops inside theirs) and
    \<open>tickets_cleared\<close> (an ended session has no connection ticket).
  \<^item> \<open>Logging\<close>: the \<open>logging.py\<close> of both programs: formatters, request id filter, set-up, and what
    \<open>json.dumps\<close> writes, with a reader for it.
  \<^item> \<open>Wait_Loops\<close>: the deadline loops of \<open>services/provisioner.py\<close>; they always return.
  \<^item> \<open>Vmid_Allocator\<close>: \<open>services/vmid_allocator.py\<close>.
  \<^item> \<open>Provisioner\<close>: \<open>services/provisioner.py\<close>: build, rebuild, refresh and delete cycles with
    each outcome of the row and the exact sequence of hypervisor calls.
  \<^item> \<open>Session_Tracker\<close>, \<open>Broker\<close>: \<open>services/session_tracker.py\<close>, \<open>services/audit_service.py\<close>,
    \<open>services/broker.py\<close>: the session state machine, which the transitions refine, \<open>connect\<close>
    and \<open>end_session\<close>.
  \<^item> \<open>Task_Tracker\<close>: \<open>services/task_tracker.py\<close> and \<open>workers/task_tracker.py\<close>.
  \<^item> \<open>Session_Monitor\<close>, \<open>Pool_Provisioner\<close>, \<open>Health_Checker\<close>, \<open>Worker_Runner\<close>: the other
    workers of \<open>workers/\<close> with \<open>services/cluster_service.py\<close>, \<open>crypto.py\<close> and the worker loop
    of \<open>workers/base.py\<close> with its lock connection. \<open>('w, 'a) aprog\<close> and \<open>mprog\<close> add the provider registry and the
    monitor's memory to the state.
  \<^item> \<open>Leader_Election\<close>: the protocol by which several brokers share the workers. The events of one broker
    form an automaton, which the worker loop is proved to follow; brokers interleaved, with
    connections that are lost at any time, are a step relation.
  \<^item> \<open>Auth\<close>: \<open>services/auth_service.py\<close>, \<open>services/jwt_service.py\<close>, \<open>api/auth.py\<close>,
    \<open>middleware/auth.py\<close>, \<open>middleware/request_id.py\<close>.
  \<^item> \<open>Configuration\<close>: \<open>config.py\<close> and the start-up checks on it in \<open>main.py\<close>.
  \<^item> \<open>Ldap_Service\<close>: \<open>services/ldap_service.py\<close>: login and lookup against the directory.
  \<^item> \<open>Listing\<close>: sorting and pagination of \<open>schemas/common.py\<close>, shared by the list endpoints;
    \<open>sort_val\<close> is an instance of \<open>linorder\<close> with nulls last, as PostgreSQL sorts.
  \<^item> \<open>Pools_Api\<close>, \<open>Desktops_Api\<close>, \<open>Sessions_Api\<close>, \<open>Clusters_Api\<close>, \<open>Templates_Api\<close>,
    \<open>Admin_Views\<close>: the handlers of \<open>api/\<close> with their request and response schemas.
  \<^item> \<open>Audit_Middleware\<close>, \<open>Error_Envelope\<close>, \<open>Application\<close>: \<open>middleware/audit.py\<close>, the exception
    handlers of \<open>main.py\<close>, its start-up and shutdown, and the way of a request through the
    middlewares, the role gate of \<open>api/router.py\<close> and its handler.
  \<^item> \<open>Lifespan\<close>: start and stop of the broker process in \<open>main.py\<close>, the choice of the authentication
    middleware and the request id around a request.
  \<^item> \<open>Proxmox_Client\<close>, \<open>Proxmox_Provider\<close>: \<open>providers/proxmox/\<close>, the one implementation of the
    provider interface: the request dispatcher with its retries, and every operation over
    the HTTP API. \<open>Proxmox_Contract\<close> states the interface as the locale \<open>hypervisor\<close>, the documented
    server as \<open>pve_server\<close>, and proves the one from the other; its extension \<open>pve_reader\<close> covers the operations of the
    provider the broker never calls. \<open>Proxmox_Desktops\<close> puts the registry, the handles in the database and the task tracker
    on top of it.
  \<^item> \<open>Legacy_Client\<close>: \<open>proxmox/client.py\<close>, the client before the provider, which scripts still use.
  \<^item> \<open>Py_Values\<close>: what Python computes with decoded JSON, with the exceptions it raises, shared by
    the Proxmox provider and the MCP server.
  \<^item> \<open>Mcp_Client\<close>: \<open>errors.py\<close>, \<open>auth.py\<close>, \<open>client.py\<close>, \<open>_request_context.py\<close> and
    \<open>_tool_wrapper.py\<close>. The state of the server records every request it sends. The locale
    \<open>guarded\<close> states what an invariant must allow so that requests accepted by a predicate keep it.
  \<^item> \<open>Mcp_Tools\<close>, \<open>Mcp_Pools\<close>: the thin tools of \<open>tools/\<close> with their gates, previews and polling.
  \<^item> \<open>Mcp_Intents\<close>, \<open>Mcp_Diagnosis\<close>: the step tracker and the intents of \<open>intent/\<close>.
  \<^item> \<open>Mcp_Safety\<close>, \<open>Mcp_Changes\<close>: the registry of the 43 tools of \<open>server.py\<close> as a datatype of calls,
    and for every tool which requests it may send, in the locales \<open>reading\<close>, \<open>recording\<close> and \<open>intents\<close>, each of
    which extends the one before, \<open>reading\<close> the locale \<open>guarded\<close>.
  \<^item> \<open>Mcp_Facts\<close>: the properties of the MCP server, with the broker's error handlers where the two
    programs meet. \<open>Mcp_Answers\<close>: what the intents answer, by the steps they record.
  \<^item> \<open>System\<close>: one step relation over all operations, and the invariants in every state
    reachable from the empty database.

  What the theorems show. Each operation's effect on success and on every error (the functional
  properties); that failed operations leave the committed tables as they were or in the
  documented error state; that VMIDs are unique and stay in their pool's range, that the
  foreign keys never dangle, and that pool sizes are respected by the provisioner; that tokens
  rotate, round-trip and die at logout; that who logs in was bound at the directory with the password
  given, and which failure of the directory is answered how; that an administrative mutation runs for administrators only and
  leaves one audit row with the body's secrets masked; that a broker that was not started in development mode gives no request a user without a token; that errors are enveloped without details for
  non-administrators; that the wait loops and the worker loop always return, and that two brokers run
  a worker at once only after a lost connection; that a line of the JSON log reads back to its record. For the MCP server:
  that no tool changes anything unasked or in read-only mode, that a reset stays within its prefix,
  that a request is replayed at most once, that polling ends with the last state it saw, that an intent answers
  with the steps that went through and the one that failed, and that errors of the broker
  arrive unchanged. Some properties
  state what the code does where its comments say otherwise; they are listed with the findings of
  the development.

  Bounds and fuel. The wait loops are recursive functions over a counter of polls, chosen from
  the deadline and the interval; with a clock that advances by the interval at each sleep the
  deadline is reached before the counter, which \<open>wait_loops_return\<close> proves, so that running
  out of it never happens. \<open>wait_for_task\<close> of the Proxmox provider polls every second and may
  take \<open>timeout + 2\<close> rounds (\<open>wait_for_task_returns\<close>), the legacy client counts its pauses
  (\<open>legacy_wait_ends\<close>). The worker loops are given the number of attempts to lead and of ticks. The MCP server
  polls every two seconds and may take \<open>timeout + 2\<close> rounds as well (\<open>waiting_ends\<close>). Identifiers and times are \<open>int\<close> (times in milliseconds); Python's
  integers are unbounded.

  Not modelled. Operations run one at a time: interleaving at awaits inside an operation, row
  locks and isolation levels are outside the model; the advisory lock of the VMID allocator is
  the atomicity of an operation. Column widths and the 32-bit range of integer columns; the
  log lines of the broker's operations, but for the one whose extra keys make it raise
  (\<open>pool_provisioner_tick\<close>); the texts of messages where no client decides on them. FastAPI's routing
  and parsing, the OpenAPI schema and the health endpoint. How pydantic reads numbers and
  truth values, and how times are written in the log. Of the Proxmox provider, \<open>get_node_status\<close>, whose CPU share
  is a float and which nothing calls; numbers in answers of the hypervisor are integers, and a
  text field of another type is kept as its text. A cancelled worker is
  an attempt to lead that ends after its last tick. Of the MCP server: FastMCP and stdio, settings parsing, the lock and the shared
  refresh promise of \<open>auth.py\<close> (its tools run one at a time here), log lines other than those of the
  wrapper, and what Python does with two values of unequal type in a comparison of lists. The portal
  is a TypeScript program.
\<close>

end
